(* ===== verification/Prelude.thy ===== *)
theory Prelude
  imports Main "HOL-Library.AList" "HOL-Library.Sublist"
begin

text \<open>
  Shared vocabulary of the development: Rust strings, fallible code, the loops of the
  validators, and the contract of loops that number their elements.

  \<^item> A Rust \<open>String\<close> is a list of Unicode code points (\<open>ustring\<close>); \<open>len()\<close> counts the
    bytes of its UTF-8 form (\<open>blen\<close>), \<open>chars().count()\<close> is \<open>length\<close>, \<open>trim()\<close>
    removes the code points with the Unicode property White\_Space.
  \<^item> A \<open>Result<T, E>\<close> is the sum \<open>'e + 't\<close>, \<open>Inl\<close> for the error; the \<open>?\<close> operator
    is \<open>bindE\<close>, a sequence of checks that stops at the first error is \<open>seqE\<close>, a
    \<open>for\<close> loop with early return is \<open>forE\<close> (no state) or \<open>foldE\<close> (with state).
    Error messages are the source's texts without the interpolated values.
\<close>

named_theorems ok_simps "when a fallible computation succeeds"

section \<open>Rust strings\<close>

type_synonym ustring = "nat list"

definition lit :: "string \<Rightarrow> ustring" where
  "lit s = map of_char s"

lemma lit_eq_iff [simp]: "lit s = lit t \<longleftrightarrow> s = t"
  by (auto simp: lit_def inj_map_eq_map inj_def)

definition cp_len :: "nat \<Rightarrow> nat" where
  "cp_len c = (if c < 128 then 1 else if c < 2048 then 2 else if c < 65536 then 3 else 4)"

definition blen :: "ustring \<Rightarrow> nat" where
  "blen s = sum_list (map cp_len s)"

definition is_white :: "nat \<Rightarrow> bool" where
  "is_white c \<longleftrightarrow> (9 \<le> c \<and> c \<le> 13) \<or> c = 32 \<or> c = 133 \<or> c = 160 \<or> c = 5760 \<or>
     (8192 \<le> c \<and> c \<le> 8202) \<or> c = 8232 \<or> c = 8233 \<or> c = 8239 \<or> c = 8287 \<or> c = 12288"

definition trim :: "ustring \<Rightarrow> ustring" where
  "trim s = rev (dropWhile is_white (rev (dropWhile is_white s)))"

text \<open>\<open>s.trim().is_empty()\<close>.\<close>

definition blank :: "ustring \<Rightarrow> bool" where
  "blank s \<longleftrightarrow> trim s = []"

lemma dropWhile_rev_Nil: "dropWhile P (rev (dropWhile P xs)) = [] \<longleftrightarrow> (\<forall>x\<in>set xs. P x)"
proof
  assume "dropWhile P (rev (dropWhile P xs)) = []"
  then have "\<forall>x\<in>set (dropWhile P xs). P x" by simp
  moreover have "dropWhile P xs \<noteq> [] \<Longrightarrow> \<not> P (hd (dropWhile P xs))"
    by (rule hd_dropWhile)
  ultimately have "dropWhile P xs = []" by (cases "dropWhile P xs") auto
  then show "\<forall>x\<in>set xs. P x" by simp
next
  assume "\<forall>x\<in>set xs. P x"
  then have "dropWhile P xs = []" by simp
  then show "dropWhile P (rev (dropWhile P xs)) = []"
    by (simp only: rev.simps dropWhile.simps)
qed

lemma blank_iff: "blank s \<longleftrightarrow> (\<forall>c\<in>set s. is_white c)"
  unfolding blank_def trim_def rev_is_Nil_conv by (rule dropWhile_rev_Nil)

lemma blank_Nil [simp]: "blank []"
  by (simp add: blank_iff)

lemma not_blank_nonempty: "\<not> blank s \<Longrightarrow> s \<noteq> []"
  by auto

lemma trim_idem_white: "trim s \<noteq> [] \<Longrightarrow> \<not> is_white (hd (rev (trim s)))"
  by (metis hd_dropWhile rev_is_Nil_conv rev_rev_ident trim_def)

lemma blen_append [simp]: "blen (s @ t) = blen s + blen t"
  by (simp add: blen_def)

lemma cp_len_pos: "0 < cp_len c"
  by (simp add: cp_len_def)

lemma length_le_blen: "length s \<le> blen s"
proof (induction s)
  case (Cons c s)
  then show ?case using cp_len_pos [of c] by (simp add: blen_def)
qed (simp add: blen_def)

text \<open>\<open>str::contains\<close> and \<open>starts_with\<close>.\<close>

definition starts_with :: "'a list \<Rightarrow> 'a list \<Rightarrow> bool" where
  "starts_with s p \<longleftrightarrow> take (length p) s = p"

fun contains :: "'a list \<Rightarrow> 'a list \<Rightarrow> bool" where
  "contains [] p = (p = [])"
| "contains (x # xs) p = (starts_with (x # xs) p \<or> contains xs p)"

lemma starts_with_iff: "starts_with s p \<longleftrightarrow> (\<exists>t. s = p @ t)"
proof
  assume "starts_with s p"
  then have "s = p @ drop (length p) s"
    by (metis append_take_drop_id starts_with_def)
  then show "\<exists>t. s = p @ t" by blast
qed (auto simp: starts_with_def)

lemma contains_iff: "contains s p \<longleftrightarrow> (\<exists>a b. s = a @ p @ b)"
proof (induction s)
  case Nil
  show ?case by simp
next
  case (Cons x s)
  have "(\<exists>a b. x # s = a @ p @ b) \<longleftrightarrow> (\<exists>b. x # s = p @ b) \<or> (\<exists>a b. s = a @ p @ b)"
  proof
    assume "\<exists>a b. x # s = a @ p @ b"
    then obtain a b where ab: "x # s = a @ p @ b" by blast
    then show "(\<exists>b. x # s = p @ b) \<or> (\<exists>a b. s = a @ p @ b)"
      by (cases a) auto
  next
    assume "(\<exists>b. x # s = p @ b) \<or> (\<exists>a b. s = a @ p @ b)"
    then show "\<exists>a b. x # s = a @ p @ b"
      by (metis append_Cons append_Nil)
  qed
  with Cons show ?case by (simp add: starts_with_iff)
qed

lemma contains_length: "contains s p \<Longrightarrow> length p \<le> length s"
  by (auto simp: contains_iff)

text \<open>
  \<open>to_lowercase\<close> on Basic Latin and Latin-1, with the two characters from elsewhere whose
  lower case lies in Basic Latin (the Kelvin sign and the dotted capital I, which becomes
  an i and a combining dot). Other letters are left alone: their lower case is outside
  Latin-1, so it matches none of the markers the code searches for.
\<close>

definition lower_cp :: "nat \<Rightarrow> nat list" where
  "lower_cp c =
     (if 65 \<le> c \<and> c \<le> 90 then [c + 32]
      else if 192 \<le> c \<and> c \<le> 222 \<and> c \<noteq> 215 then [c + 32]
      else if c = 8490 then [107]
      else if c = 304 then [105, 775]
      else if c = 8491 then [229]
      else [c])"

definition to_lowercase :: "ustring \<Rightarrow> ustring" where
  "to_lowercase s = concat (map lower_cp s)"

definition ascii_lower :: "ustring \<Rightarrow> ustring" where
  "ascii_lower s = map (\<lambda>c. if 65 \<le> c \<and> c \<le> 90 then c + 32 else c) s"

lemma ascii_lower_idem [simp]: "ascii_lower (ascii_lower s) = ascii_lower s"
  by (simp add: ascii_lower_def)

definition is_ascii_digit :: "nat \<Rightarrow> bool" where
  "is_ascii_digit c \<longleftrightarrow> 48 \<le> c \<and> c \<le> 57"

definition is_ascii_lower :: "nat \<Rightarrow> bool" where
  "is_ascii_lower c \<longleftrightarrow> 97 \<le> c \<and> c \<le> 122"

definition is_ascii_alnum :: "nat \<Rightarrow> bool" where
  "is_ascii_alnum c \<longleftrightarrow> is_ascii_digit c \<or> is_ascii_lower c \<or> (65 \<le> c \<and> c \<le> 90)"

definition is_ascii_hex :: "nat \<Rightarrow> bool" where
  "is_ascii_hex c \<longleftrightarrow> is_ascii_digit c \<or> (97 \<le> c \<and> c \<le> 102) \<or> (65 \<le> c \<and> c \<le> 70)"

text \<open>\<open>Option::is_some_and\<close>.\<close>

definition some_and :: "'a option \<Rightarrow> ('a \<Rightarrow> bool) \<Rightarrow> bool" where
  "some_and x P = (case x of None \<Rightarrow> False | Some v \<Rightarrow> P v)"

lemma some_and_simps [simp]: "some_and None P = False" "some_and (Some v) P = P v"
  by (simp_all add: some_and_def)

lemma some_and_iff: "some_and x P \<longleftrightarrow> (\<exists>v. x = Some v \<and> P v)"
  by (cases x) auto

definition unwrap_or :: "'a option \<Rightarrow> 'a \<Rightarrow> 'a" where
  "unwrap_or x d = (case x of None \<Rightarrow> d | Some v \<Rightarrow> v)"

lemma unwrap_or_simps [simp]: "unwrap_or None d = d" "unwrap_or (Some v) d = v"
  by (simp_all add: unwrap_or_def)

definition or_else :: "'a option \<Rightarrow> 'a option \<Rightarrow> 'a option" where
  "or_else x y = (case x of None \<Rightarrow> y | Some v \<Rightarrow> Some v)"

lemma or_else_simps [simp]: "or_else None y = y" "or_else (Some v) y = Some v"
  by (simp_all add: or_else_def)

section \<open>Fallible code\<close>

definition bindE :: "'e + 'a \<Rightarrow> ('a \<Rightarrow> 'e + 'b) \<Rightarrow> 'e + 'b" where
  "bindE m f = (case m of Inl e \<Rightarrow> Inl e | Inr a \<Rightarrow> f a)"

lemma bindE_simps [simp]: "bindE (Inl e) f = Inl e" "bindE (Inr a) f = f a"
  by (simp_all add: bindE_def)

lemma bindE_Inr [ok_simps]: "bindE m f = Inr r \<longleftrightarrow> (\<exists>a. m = Inr a \<and> f a = Inr r)"
  by (cases m) auto

definition mapE :: "('a \<Rightarrow> 'b) \<Rightarrow> 'e + 'a \<Rightarrow> 'e + 'b" where
  "mapE g m = bindE m (\<lambda>a. Inr (g a))"

lemma mapE_Inr [ok_simps]: "mapE g m = Inr r \<longleftrightarrow> (\<exists>a. m = Inr a \<and> r = g a)"
  by (auto simp: mapE_def ok_simps)

text \<open>\<open>map_err\<close>.\<close>

definition map_errE :: "('e \<Rightarrow> 'f) \<Rightarrow> 'e + 'a \<Rightarrow> 'f + 'a" where
  "map_errE g m = (case m of Inl e \<Rightarrow> Inl (g e) | Inr a \<Rightarrow> Inr a)"

lemma map_errE_Inr [ok_simps]: "map_errE g m = Inr r \<longleftrightarrow> m = Inr r"
  by (cases m) (auto simp: map_errE_def)

text \<open>\<open>if c { bail!(e) }\<close>.\<close>

definition bail_if :: "bool \<Rightarrow> 'e \<Rightarrow> 'e + unit" where
  "bail_if c e = (if c then Inl e else Inr ())"

lemma bail_if_Inr [ok_simps]: "bail_if c e = Inr u \<longleftrightarrow> \<not> c"
  by (simp add: bail_if_def)

text \<open>\<open>opt.ok_or(e)\<close>.\<close>

definition ok_or :: "'a option \<Rightarrow> 'e \<Rightarrow> 'e + 'a" where
  "ok_or x e = (case x of None \<Rightarrow> Inl e | Some v \<Rightarrow> Inr v)"

lemma ok_or_simps [simp]: "ok_or None e = Inl e" "ok_or (Some v) e = Inr v"
  by (simp_all add: ok_or_def)

lemma ok_or_Inr [ok_simps]: "ok_or x e = Inr v \<longleftrightarrow> x = Some v"
  by (cases x) auto

text \<open>A sequence of statements, each of which may return early with an error.\<close>

fun seqE :: "('e + unit) list \<Rightarrow> 'e + unit" where
  "seqE [] = Inr ()"
| "seqE (m # ms) = (case m of Inl e \<Rightarrow> Inl e | Inr _ \<Rightarrow> seqE ms)"

declare seqE.simps [simp del]

lemma seqE_Inr [ok_simps]: "seqE ms = Inr u \<longleftrightarrow> (\<forall>m\<in>set ms. m = Inr ())"
  by (induction ms) (auto simp: seqE.simps split: sum.splits)

text \<open>A \<open>for\<close> loop whose body only checks.\<close>

definition forE :: "('a \<Rightarrow> 'e + unit) \<Rightarrow> 'a list \<Rightarrow> 'e + unit" where
  "forE f xs = seqE (map f xs)"

lemma forE_Inr [ok_simps]: "forE f xs = Inr u \<longleftrightarrow> (\<forall>x\<in>set xs. f x = Inr ())"
  by (simp add: forE_def ok_simps)

lemma forE_simps:
  "forE f [] = Inr ()"
  "forE f (x # xs) = (case f x of Inl e \<Rightarrow> Inl e | Inr _ \<Rightarrow> forE f xs)"
  by (simp_all add: forE_def seqE.simps split: sum.splits)

text \<open>\<open>if let Some(v) = x { f(v)? }\<close>.\<close>

definition optE :: "'a option \<Rightarrow> ('a \<Rightarrow> 'e + unit) \<Rightarrow> 'e + unit" where
  "optE x f = (case x of None \<Rightarrow> Inr () | Some v \<Rightarrow> f v)"

lemma optE_simps [simp]: "optE None f = Inr ()" "optE (Some v) f = f v"
  by (simp_all add: optE_def)

lemma optE_Inr [ok_simps]: "optE x f = Inr u \<longleftrightarrow> (\<forall>v. x = Some v \<longrightarrow> f v = Inr ())"
  by (cases x) auto

text \<open>A \<open>for\<close> loop over a mutable state.\<close>

fun foldE :: "('s \<Rightarrow> 'a \<Rightarrow> 'e + 's) \<Rightarrow> 's \<Rightarrow> 'a list \<Rightarrow> 'e + 's" where
  "foldE f s [] = Inr s"
| "foldE f s (x # xs) = bindE (f s x) (\<lambda>s'. foldE f s' xs)"

lemma foldE_append: "foldE f s (xs @ ys) = bindE (foldE f s xs) (\<lambda>s'. foldE f s' ys)"
  by (induction xs arbitrary: s) (auto simp: bindE_def split: sum.splits)

lemma foldE_Cons_Inr [ok_simps]:
  "foldE f s (x # xs) = Inr r \<longleftrightarrow> (\<exists>s'. f s x = Inr s' \<and> foldE f s' xs = Inr r)"
  by (simp add: ok_simps)

text \<open>An invariant of the body is an invariant of the loop.\<close>

lemma foldE_invariant:
  assumes "foldE f s xs = Inr r" and "I s"
    and "\<And>s x s'. I s \<Longrightarrow> x \<in> set xs \<Longrightarrow> f s x = Inr s' \<Longrightarrow> I s'"
  shows "I r"
  using assms
proof (induction xs arbitrary: s)
  case (Cons x xs)
  from Cons.prems(1) obtain s' where s': "f s x = Inr s'" and rest: "foldE f s' xs = Inr r"
    by (auto simp: ok_simps)
  have "I s'" by (rule Cons.prems(3) [OF Cons.prems(2) _ s']) simp
  show ?case
    by (rule Cons.IH [OF rest \<open>I s'\<close>]) (rule Cons.prems(3), auto)
qed simp

text \<open>\<open>collect::<Result<Vec<_>, _>>()\<close>.\<close>

fun collectE :: "('a \<Rightarrow> 'e + 'b) \<Rightarrow> 'a list \<Rightarrow> 'e + 'b list" where
  "collectE f [] = Inr []"
| "collectE f (x # xs) = bindE (f x) (\<lambda>y. bindE (collectE f xs) (\<lambda>ys. Inr (y # ys)))"

lemma collectE_Inr: "collectE f xs = Inr ys \<longleftrightarrow> list_all2 (\<lambda>x y. f x = Inr y) xs ys"
proof (induction xs arbitrary: ys)
  case (Cons x xs)
  show ?case by (simp add: bindE_Inr Cons.IH list_all2_Cons1) blast
qed auto

lemma collectE_map:
  assumes "collectE f xs = Inr ys" and "\<And>x y. f x = Inr y \<Longrightarrow> g y = x"
  shows "map g ys = xs"
  using assms(1) unfolding collectE_Inr
  by (induction rule: list_all2_induct) (auto simp: assms(2))

text \<open>The text rule shared by every component: not blank, and at most \<open>max\<close> bytes.\<close>

definition text_ok :: "ustring \<Rightarrow> nat \<Rightarrow> bool" where
  "text_ok s limit \<longleftrightarrow> \<not> blank s \<and> blen s \<le> limit"

definition opt_text_ok :: "ustring option \<Rightarrow> nat \<Rightarrow> bool" where
  "opt_text_ok s limit \<longleftrightarrow> (case s of None \<Rightarrow> True | Some v \<Rightarrow> text_ok v limit)"

section \<open>Loops that number their elements\<close>

text \<open>
  Several validators walk over a list, keep the numbers seen in a \<open>HashSet\<close> (or as the
  keys of a \<open>HashMap\<close>) and reject a repeated number. The contract of such a loop body: on
  success the number was new, and the set of seen numbers grew by exactly it.
\<close>

locale unique_loop =
  fixes number :: "'a \<Rightarrow> 'k"
    and seen :: "'s \<Rightarrow> 'k set"
    and body :: "'s \<Rightarrow> 'a \<Rightarrow> 'e + 's"
  assumes body_new: "body s x = Inr s' \<Longrightarrow> number x \<notin> seen s"
    and body_seen: "body s x = Inr s' \<Longrightarrow> seen s' = insert (number x) (seen s)"
begin

lemma loop_seen:
  "foldE body s xs = Inr r \<Longrightarrow> seen r = seen s \<union> number ` set xs"
proof (induction xs arbitrary: s)
  case (Cons x xs)
  then obtain s' where s': "body s x = Inr s'" and rest: "foldE body s' xs = Inr r"
    by (auto simp: ok_simps)
  from Cons.IH [OF rest] body_seen [OF s'] show ?case by auto
qed simp

lemma loop_unique:
  "foldE body s xs = Inr r \<Longrightarrow> distinct (map number xs) \<and> seen s \<inter> number ` set xs = {}"
proof (induction xs arbitrary: s)
  case (Cons x xs)
  then obtain s' where s': "body s x = Inr s'" and rest: "foldE body s' xs = Inr r"
    by (auto simp: ok_simps)
  from Cons.IH [OF rest]
  have IH: "distinct (map number xs)" "seen s' \<inter> number ` set xs = {}" by blast+
  from IH body_seen [OF s'] body_new [OF s'] show ?case by auto
qed simp

end

text \<open>
  A body that fails for no other reason than a repeated number and a property of the element
  alone: then the loop succeeds exactly on the lists with distinct numbers whose elements
  have the property.
\<close>

locale unique_check = unique_loop number seen body
  for number :: "'a \<Rightarrow> 'k" and seen :: "'s \<Rightarrow> 'k set" and body :: "'s \<Rightarrow> 'a \<Rightarrow> 'e + 's" +
  fixes ok :: "'a \<Rightarrow> bool"
  assumes body_ok: "body s x = Inr s' \<Longrightarrow> ok x"
    and body_total: "number x \<notin> seen s \<Longrightarrow> ok x \<Longrightarrow> \<exists>s'. body s x = Inr s'"
begin

lemma loop_ok: "foldE body s xs = Inr r \<Longrightarrow> x \<in> set xs \<Longrightarrow> ok x"
  by (induction xs arbitrary: s) (auto simp: ok_simps dest: body_ok)

lemma loop_total:
  assumes "distinct (map number xs)" and "seen s \<inter> number ` set xs = {}"
    and "\<forall>x\<in>set xs. ok x"
  shows "\<exists>r. foldE body s xs = Inr r"
  using assms
proof (induction xs arbitrary: s)
  case (Cons x xs)
  then obtain s' where s': "body s x = Inr s'" using body_total [of x s] by auto
  have "\<exists>r. foldE body s' xs = Inr r"
    by (rule Cons.IH) (use Cons.prems body_seen [OF s'] in auto)
  with s' show ?case by simp
qed simp

lemma loop_unique_iff:
  "(\<exists>r. foldE body s xs = Inr r) \<longleftrightarrow>
     distinct (map number xs) \<and> seen s \<inter> number ` set xs = {} \<and> (\<forall>x\<in>set xs. ok x)"
  using loop_unique loop_ok loop_total by metis

end

text \<open>The common case: the numbers are positive integers.\<close>

locale numbered_check = unique_check number seen body "\<lambda>x. number x \<noteq> 0 \<and> ok x"
  for number :: "'a \<Rightarrow> nat" and seen :: "'s \<Rightarrow> nat set" and body :: "'s \<Rightarrow> 'a \<Rightarrow> 'e + 's"
    and ok :: "'a \<Rightarrow> bool"
begin

lemma loop_distinct:
  "foldE body s xs = Inr r \<Longrightarrow>
     distinct (map number xs) \<and> 0 \<notin> number ` set xs \<and> seen s \<inter> number ` set xs = {}"
  using loop_unique loop_ok by fastforce

lemma loop_iff:
  "(\<exists>r. foldE body s xs = Inr r) \<longleftrightarrow>
     distinct (map number xs) \<and> 0 \<notin> number ` set xs \<and> seen s \<inter> number ` set xs = {} \<and>
     (\<forall>x\<in>set xs. ok x)"
  unfolding loop_unique_iff by auto

end

lemma distinct_map_find:
  assumes "distinct (map f xs)" and "x \<in> set xs"
  shows "find (\<lambda>y. f y = f x) xs = Some x"
  using assms by (induction xs) (auto simp: rev_image_eqI)

lemma card_image_distinct: "distinct (map f xs) \<Longrightarrow> card (f ` set xs) = length xs"
  by (metis distinct_card length_map set_map)

lemma find_SomeD: "find P xs = Some x \<Longrightarrow> x \<in> set xs \<and> P x"
  by (induction xs) (auto split: if_splits)

end
