(* ===== verification/Enums.thy ===== *)
theory Enums
  imports Prelude "HOL-Library.Char_ord" "HOL-Library.List_Lexorder"
begin

text \<open>
  The enumerations of \<open>src/model.rs\<close> and \<open>src/production.rs\<close>. The variant \<open>E::V\<close> of
  the source is the constructor \<open>P_V\<close>, with one prefix \<open>P\<close> per enumeration since
  several enumerations share variant names. \<open>..._as_str\<close> are the names stored in the
  database and used in the wire format.
\<close>

datatype exercise_type_key =
    Ex_Fluency432 | Ex_ProductionDrill | Ex_TranslationDrill | Ex_DeleA2OralMicrodrill
  | Ex_AgreementDisagreementDrill | Ex_GuidedConversation

fun exercise_type_key_as_str :: "exercise_type_key \<Rightarrow> string" where
  "exercise_type_key_as_str Ex_Fluency432 = ''fluency_4_3_2''"
| "exercise_type_key_as_str Ex_ProductionDrill = ''production_drill''"
| "exercise_type_key_as_str Ex_TranslationDrill = ''translation_drill''"
| "exercise_type_key_as_str Ex_DeleA2OralMicrodrill = ''dele_a2_oral_microdrill''"
| "exercise_type_key_as_str Ex_AgreementDisagreementDrill = ''agreement_disagreement_drill''"
| "exercise_type_key_as_str Ex_GuidedConversation = ''guided_conversation''"

datatype observation_outcome =
    Outcome_Incorrect | Outcome_PartiallyCorrect | Outcome_Correct
  | Outcome_PromptedCorrect | Outcome_Omitted

datatype observation_role =
    Role_Targeted | Role_Incidental

datatype evidence_strength =
    Strength_Recognition | Strength_CuedProduction | Strength_ControlledProduction
  | Strength_SpontaneousProduction

fun evidence_strength_as_str :: "evidence_strength \<Rightarrow> string" where
  "evidence_strength_as_str Strength_Recognition = ''recognition''"
| "evidence_strength_as_str Strength_CuedProduction = ''cued_production''"
| "evidence_strength_as_str Strength_ControlledProduction = ''controlled_production''"
| "evidence_strength_as_str Strength_SpontaneousProduction = ''spontaneous_production''"

datatype observation_severity =
    Severity_Minor | Severity_MeaningAffecting | Severity_Blocking

datatype finding_kind =
    Finding_Error | Finding_Awkward | Finding_RegionalVariant
  | Finding_StylisticImprovement | Finding_Accepted

fun finding_kind_as_str :: "finding_kind \<Rightarrow> string" where
  "finding_kind_as_str Finding_Error = ''error''"
| "finding_kind_as_str Finding_Awkward = ''awkward''"
| "finding_kind_as_str Finding_RegionalVariant = ''regional_variant''"
| "finding_kind_as_str Finding_StylisticImprovement = ''stylistic_improvement''"
| "finding_kind_as_str Finding_Accepted = ''accepted''"

datatype assessment_phase =
    Phase_Historical | Phase_ColdRetrieval | Phase_GuidedPractice | Phase_ImmediateRetry
  | Phase_Transfer | Phase_Incidental

fun assessment_phase_as_str :: "assessment_phase \<Rightarrow> string" where
  "assessment_phase_as_str Phase_Historical = ''historical''"
| "assessment_phase_as_str Phase_ColdRetrieval = ''cold_retrieval''"
| "assessment_phase_as_str Phase_GuidedPractice = ''guided_practice''"
| "assessment_phase_as_str Phase_ImmediateRetry = ''immediate_retry''"
| "assessment_phase_as_str Phase_Transfer = ''transfer''"
| "assessment_phase_as_str Phase_Incidental = ''incidental''"

datatype hint_level =
    Hint_None | Hint_Indirect | Hint_Direct | Hint_AnswerShown

fun hint_level_as_str :: "hint_level \<Rightarrow> string" where
  "hint_level_as_str Hint_None = ''none''"
| "hint_level_as_str Hint_Indirect = ''indirect''"
| "hint_level_as_str Hint_Direct = ''direct''"
| "hint_level_as_str Hint_AnswerShown = ''answer_shown''"

datatype learner_effort =
    Effort_Effortless | Effort_SomeEffort | Effort_SubstantialEffort | Effort_Unknown

fun learner_effort_as_str :: "learner_effort \<Rightarrow> string" where
  "learner_effort_as_str Effort_Effortless = ''effortless''"
| "learner_effort_as_str Effort_SomeEffort = ''some_effort''"
| "learner_effort_as_str Effort_SubstantialEffort = ''substantial_effort''"
| "learner_effort_as_str Effort_Unknown = ''unknown''"

datatype evidence_source =
    Source_Learner | Source_Assistant | Source_Legacy

fun evidence_source_as_str :: "evidence_source \<Rightarrow> string" where
  "evidence_source_as_str Source_Learner = ''learner''"
| "evidence_source_as_str Source_Assistant = ''assistant''"
| "evidence_source_as_str Source_Legacy = ''legacy''"

datatype drill_type =
    Drill_Translation | Drill_SituationalResponse | Drill_SentenceTransformation
  | Drill_QuestionAnswer | Drill_SentenceCompletion | Drill_SentenceCombining
  | Drill_ErrorCorrection | Drill_MinimalPairChoice | Drill_DialogueCompletion
  | Drill_MicroStory | Drill_Retell | Drill_Fluency432

fun drill_type_as_str :: "drill_type \<Rightarrow> string" where
  "drill_type_as_str Drill_Translation = ''translation''"
| "drill_type_as_str Drill_SituationalResponse = ''situational_response''"
| "drill_type_as_str Drill_SentenceTransformation = ''sentence_transformation''"
| "drill_type_as_str Drill_QuestionAnswer = ''question_answer''"
| "drill_type_as_str Drill_SentenceCompletion = ''sentence_completion''"
| "drill_type_as_str Drill_SentenceCombining = ''sentence_combining''"
| "drill_type_as_str Drill_ErrorCorrection = ''error_correction''"
| "drill_type_as_str Drill_MinimalPairChoice = ''minimal_pair_choice''"
| "drill_type_as_str Drill_DialogueCompletion = ''dialogue_completion''"
| "drill_type_as_str Drill_MicroStory = ''micro_story''"
| "drill_type_as_str Drill_Retell = ''retell''"
| "drill_type_as_str Drill_Fluency432 = ''fluency_4_3_2''"

datatype activity_type =
    Act_SituationalResponse | Act_PictureNarration | Act_QuestionAnswerSprint
  | Act_RetellReconstruction | Act_CorrectiveConversation
  | Act_SentenceTransformationSprint | Act_Dictogloss | Act_VoiceDiary
  | Act_ReadCloseExplain | Act_RolePlayComplications

fun activity_type_as_str :: "activity_type \<Rightarrow> string" where
  "activity_type_as_str Act_SituationalResponse = ''situational_response''"
| "activity_type_as_str Act_PictureNarration = ''picture_narration''"
| "activity_type_as_str Act_QuestionAnswerSprint = ''question_answer_sprint''"
| "activity_type_as_str Act_RetellReconstruction = ''retell_reconstruction''"
| "activity_type_as_str Act_CorrectiveConversation = ''corrective_conversation''"
| "activity_type_as_str Act_SentenceTransformationSprint = ''sentence_transformation_sprint''"
| "activity_type_as_str Act_Dictogloss = ''dictogloss''"
| "activity_type_as_str Act_VoiceDiary = ''voice_diary''"
| "activity_type_as_str Act_ReadCloseExplain = ''read_close_explain''"
| "activity_type_as_str Act_RolePlayComplications = ''role_play_complications''"

datatype activity_interaction_mode =
    Mode_SingleResponse | Mode_Sprint | Mode_MultiTurn

fun activity_interaction_mode_as_str :: "activity_interaction_mode \<Rightarrow> string" where
  "activity_interaction_mode_as_str Mode_SingleResponse = ''single_response''"
| "activity_interaction_mode_as_str Mode_Sprint = ''sprint''"
| "activity_interaction_mode_as_str Mode_MultiTurn = ''multi_turn''"

datatype activity_item_phase =
    Item_Initial | Item_FollowUp | Item_Complication

fun activity_item_phase_as_str :: "activity_item_phase \<Rightarrow> string" where
  "activity_item_phase_as_str Item_Initial = ''initial''"
| "activity_item_phase_as_str Item_FollowUp = ''follow_up''"
| "activity_item_phase_as_str Item_Complication = ''complication''"

datatype stimulus_kind =
    Stim_Situation | Stim_SourceText | Stim_ImageDescription
  | Stim_ImageSequenceDescription | Stim_ArticleReference | Stim_MediaTranscript
  | Stim_Complication

fun stimulus_kind_as_str :: "stimulus_kind \<Rightarrow> string" where
  "stimulus_kind_as_str Stim_Situation = ''situation''"
| "stimulus_kind_as_str Stim_SourceText = ''source_text''"
| "stimulus_kind_as_str Stim_ImageDescription = ''image_description''"
| "stimulus_kind_as_str Stim_ImageSequenceDescription = ''image_sequence_description''"
| "stimulus_kind_as_str Stim_ArticleReference = ''article_reference''"
| "stimulus_kind_as_str Stim_MediaTranscript = ''media_transcript''"
| "stimulus_kind_as_str Stim_Complication = ''complication''"

datatype stimulus_delivery_mode =
    Deliver_Read | Deliver_Viewed | Deliver_HeardReported | Deliver_Conversation

fun stimulus_delivery_mode_as_str :: "stimulus_delivery_mode \<Rightarrow> string" where
  "stimulus_delivery_mode_as_str Deliver_Read = ''read''"
| "stimulus_delivery_mode_as_str Deliver_Viewed = ''viewed''"
| "stimulus_delivery_mode_as_str Deliver_HeardReported = ''heard_reported''"
| "stimulus_delivery_mode_as_str Deliver_Conversation = ''conversation''"

datatype response_mode =
    Resp_Typed | Resp_SpokenTranscript

fun response_mode_as_str :: "response_mode \<Rightarrow> string" where
  "response_mode_as_str Resp_Typed = ''typed''"
| "response_mode_as_str Resp_SpokenTranscript = ''spoken_transcript''"

datatype timing_source =
    Timing_LearnerReported | Timing_ExternalTimer | Timing_ClientMeasured

fun timing_source_as_str :: "timing_source \<Rightarrow> string" where
  "timing_source_as_str Timing_LearnerReported = ''learner_reported''"
| "timing_source_as_str Timing_ExternalTimer = ''external_timer''"
| "timing_source_as_str Timing_ClientMeasured = ''client_measured''"

datatype reflection_source =
    Refl_Learner | Refl_Assistant

fun reflection_source_as_str :: "reflection_source \<Rightarrow> string" where
  "reflection_source_as_str Refl_Learner = ''learner''"
| "reflection_source_as_str Refl_Assistant = ''assistant''"

datatype reflection_kind =
    ReflKind_HesitationReported | ReflKind_SimplificationReported
  | ReflKind_RetrievalGapReported | ReflKind_SelfCorrectionReported
  | ReflKind_CircumlocutionReported | ReflKind_General

fun reflection_kind_as_str :: "reflection_kind \<Rightarrow> string" where
  "reflection_kind_as_str ReflKind_HesitationReported = ''hesitation_reported''"
| "reflection_kind_as_str ReflKind_SimplificationReported = ''simplification_reported''"
| "reflection_kind_as_str ReflKind_RetrievalGapReported = ''retrieval_gap_reported''"
| "reflection_kind_as_str ReflKind_SelfCorrectionReported = ''self_correction_reported''"
| "reflection_kind_as_str ReflKind_CircumlocutionReported = ''circumlocution_reported''"
| "reflection_kind_as_str ReflKind_General = ''general''"

datatype practice_item_outcome =
    ItemOutcome_Incorrect | ItemOutcome_PartiallyCorrect | ItemOutcome_Correct
  | ItemOutcome_Omitted

datatype target_type =
    Target_GrammaticalConstruction | Target_LexicalItem | Target_LexicalChunk
  | Target_FormMeaningContrast | Target_Pronunciation | Target_Orthography
  | Target_DiscourseStrategy | Target_SociopragmaticChoice

fun target_type_as_str :: "target_type \<Rightarrow> string" where
  "target_type_as_str Target_GrammaticalConstruction = ''grammatical_construction''"
| "target_type_as_str Target_LexicalItem = ''lexical_item''"
| "target_type_as_str Target_LexicalChunk = ''lexical_chunk''"
| "target_type_as_str Target_FormMeaningContrast = ''form_meaning_contrast''"
| "target_type_as_str Target_Pronunciation = ''pronunciation''"
| "target_type_as_str Target_Orthography = ''orthography''"
| "target_type_as_str Target_DiscourseStrategy = ''discourse_strategy''"
| "target_type_as_str Target_SociopragmaticChoice = ''sociopragmatic_choice''"

datatype target_status =
    Status_Candidate | Status_Active | Status_Suspended | Status_Retired | Status_Merged

fun target_status_as_str :: "target_status \<Rightarrow> string" where
  "target_status_as_str Status_Candidate = ''candidate''"
| "target_status_as_str Status_Active = ''active''"
| "target_status_as_str Status_Suspended = ''suspended''"
| "target_status_as_str Status_Retired = ''retired''"
| "target_status_as_str Status_Merged = ''merged''"

datatype concept_link_role =
    Link_Form | Link_Meaning | Link_Function | Link_Context | Link_ErrorSource
  | Link_Curriculum

fun concept_link_role_as_str :: "concept_link_role \<Rightarrow> string" where
  "concept_link_role_as_str Link_Form = ''form''"
| "concept_link_role_as_str Link_Meaning = ''meaning''"
| "concept_link_role_as_str Link_Function = ''function''"
| "concept_link_role_as_str Link_Context = ''context''"
| "concept_link_role_as_str Link_ErrorSource = ''error_source''"
| "concept_link_role_as_str Link_Curriculum = ''curriculum''"

datatype fsrs_rating =
    Rating_Again | Rating_Hard | Rating_Good | Rating_Easy

datatype retrieval_mode =
    Retrieval_Recognition | Retrieval_CuedProduction | Retrieval_ControlledProduction
  | Retrieval_SpontaneousProduction

fun retrieval_mode_as_str :: "retrieval_mode \<Rightarrow> string" where
  "retrieval_mode_as_str Retrieval_Recognition = ''recognition''"
| "retrieval_mode_as_str Retrieval_CuedProduction = ''cued_production''"
| "retrieval_mode_as_str Retrieval_ControlledProduction = ''controlled_production''"
| "retrieval_mode_as_str Retrieval_SpontaneousProduction = ''spontaneous_production''"

datatype rating_source =
    RatedBy_Learner | RatedBy_AssistantSuggestedConfirmed | RatedBy_AssistantSuggested

fun rating_source_as_str :: "rating_source \<Rightarrow> string" where
  "rating_source_as_str RatedBy_Learner = ''learner''"
| "rating_source_as_str RatedBy_AssistantSuggestedConfirmed = ''assistant_suggested_confirmed''"
| "rating_source_as_str RatedBy_AssistantSuggested = ''assistant_suggested''"

datatype practice_objective =
    Objective_ReviewDue | Objective_Targeted | Objective_Explore

datatype drill_mix =
    Mix_Auto | Mix_ProductionFocused | Mix_TranslationOnly | Mix_RecognitionToProduction
  | Mix_Fluency | Mix_Custom

datatype exam_task =
    Exam_Reading | Exam_Listening | Exam_FullWriting | Exam_WritingTask1
  | Exam_WritingTask2 | Exam_FullOral | Exam_OralTask1 | Exam_OralTask2
  | Exam_OralTask3

fun exam_task_as_str :: "exam_task \<Rightarrow> string" where
  "exam_task_as_str Exam_Reading = ''reading''"
| "exam_task_as_str Exam_Listening = ''listening''"
| "exam_task_as_str Exam_FullWriting = ''full_writing''"
| "exam_task_as_str Exam_WritingTask1 = ''writing_task_1''"
| "exam_task_as_str Exam_WritingTask2 = ''writing_task_2''"
| "exam_task_as_str Exam_FullOral = ''full_oral''"
| "exam_task_as_str Exam_OralTask1 = ''oral_task_1''"
| "exam_task_as_str Exam_OralTask2 = ''oral_task_2''"
| "exam_task_as_str Exam_OralTask3 = ''oral_task_3''"

datatype task_requirement_source =
    Req_Official | Req_TeacherCreated | Req_Micropractice

fun task_requirement_source_as_str :: "task_requirement_source \<Rightarrow> string" where
  "task_requirement_source_as_str Req_Official = ''official''"
| "task_requirement_source_as_str Req_TeacherCreated = ''teacher_created''"
| "task_requirement_source_as_str Req_Micropractice = ''micropractice''"

datatype requested_point_status =
    Point_Met | Point_Partial | Point_Missing | Point_Unclear

fun requested_point_status_as_str :: "requested_point_status \<Rightarrow> string" where
  "requested_point_status_as_str Point_Met = ''met''"
| "requested_point_status_as_str Point_Partial = ''partial''"
| "requested_point_status_as_str Point_Missing = ''missing''"
| "requested_point_status_as_str Point_Unclear = ''unclear''"

datatype record_status =
    Record_Created | Record_Replayed

datatype practice_mode =
    Practice_Spontaneous | Practice_Controlled | Practice_Mixed

datatype attempt_kind =
    Attempt_Initial | Attempt_SelfCorrection | Attempt_FreshTransfer
  | Attempt_LaterReview

datatype prompt_cueing =
    Cue_NoneDetected | Cue_Indirect | Cue_TargetFormSupplied | Cue_ModelSupplied
  | Cue_Unknown

datatype exposure =
    Exposure_NoneKnown | Exposure_RelevantWording | Exposure_Model | Exposure_Unknown

datatype communicative_outcome =
    Comm_Successful | Comm_PartiallySuccessful | Comm_Unsuccessful | Comm_NotAssessed

datatype target_realization =
    Real_Used | Real_Attempted | Real_NotObserved | Real_Ambiguous

datatype target_accuracy =
    Acc_Correct | Acc_PartiallyCorrect | Acc_Incorrect | Acc_NotAssessable

datatype provenance_kind =
    Prov_TutorJudgment | Prov_LearnerReport | Prov_DeterministicRule | Prov_LegacyImport

datatype intervention_kind =
    Interv_IndirectHint | Interv_TargetForm | Interv_ModelCorrection

section \<open>Catalogues\<close>

text \<open>\<open>ExerciseTypeKey::ALL\<close>, \<open>label\<close> and \<open>from_str\<close>.\<close>

definition exercise_type_key_ALL :: "exercise_type_key list" where
  "exercise_type_key_ALL =
     [Ex_Fluency432, Ex_ProductionDrill, Ex_TranslationDrill, Ex_DeleA2OralMicrodrill,
      Ex_AgreementDisagreementDrill, Ex_GuidedConversation]"

fun exercise_type_key_label :: "exercise_type_key \<Rightarrow> string" where
  "exercise_type_key_label Ex_Fluency432 = ''4-3-2''"
| "exercise_type_key_label Ex_ProductionDrill = ''production drill''"
| "exercise_type_key_label Ex_TranslationDrill = ''translation drill''"
| "exercise_type_key_label Ex_DeleA2OralMicrodrill = ''DELE A2 oral microdrill''"
| "exercise_type_key_label Ex_AgreementDisagreementDrill = ''agreement/disagreement drill''"
| "exercise_type_key_label Ex_GuidedConversation = ''guided conversation''"

definition exercise_type_key_from_str :: "string \<Rightarrow> exercise_type_key option" where
  "exercise_type_key_from_str v =
     (if v = ''fluency_4_3_2'' then Some Ex_Fluency432
      else if v = ''production_drill'' then Some Ex_ProductionDrill
      else if v = ''translation_drill'' then Some Ex_TranslationDrill
      else if v = ''dele_a2_oral_microdrill'' then Some Ex_DeleA2OralMicrodrill
      else if v = ''agreement_disagreement_drill'' then Some Ex_AgreementDisagreementDrill
      else if v = ''guided_conversation'' then Some Ex_GuidedConversation
      else None)"

definition activity_type_ALL :: "activity_type list" where
  "activity_type_ALL =
     [Act_SituationalResponse, Act_PictureNarration, Act_QuestionAnswerSprint,
      Act_RetellReconstruction, Act_CorrectiveConversation,
      Act_SentenceTransformationSprint, Act_Dictogloss, Act_VoiceDiary,
      Act_ReadCloseExplain, Act_RolePlayComplications]"

fun fsrs_rating_number :: "fsrs_rating \<Rightarrow> int" where
  "fsrs_rating_number Rating_Again = 1"
| "fsrs_rating_number Rating_Hard = 2"
| "fsrs_rating_number Rating_Good = 3"
| "fsrs_rating_number Rating_Easy = 4"

text \<open>\<open>rating_name\<close> of \<open>src/db.rs\<close>.\<close>

definition rating_name :: "int \<Rightarrow> string" where
  "rating_name n =
     (if n = 1 then ''again'' else if n = 2 then ''hard'' else if n = 3 then ''good''
      else if n = 4 then ''easy'' else ''unknown'')"

lemma rating_number_bounds: "1 \<le> fsrs_rating_number r \<and> fsrs_rating_number r \<le> 4"
  by (cases r) auto

lemma exercise_type_key_ALL_complete: "k \<in> set exercise_type_key_ALL"
  by (cases k) (simp_all add: exercise_type_key_ALL_def)

lemma activity_type_ALL_complete: "a \<in> set activity_type_ALL"
  by (cases a) (simp_all add: activity_type_ALL_def)

lemma distinct_activity_type_ALL: "distinct activity_type_ALL"
  by (simp add: activity_type_ALL_def)

lemma from_str_as_str: "exercise_type_key_from_str (exercise_type_key_as_str k) = Some k"
  by (cases k) (simp_all add: exercise_type_key_from_str_def)

lemma as_str_from_str:
  "exercise_type_key_from_str v = Some k \<Longrightarrow> exercise_type_key_as_str k = v"
  by (auto simp: exercise_type_key_from_str_def split: if_splits)

lemma drill_type_as_str_inj: "drill_type_as_str a = drill_type_as_str b \<longleftrightarrow> a = b"
  by (cases a; cases b; simp)

section \<open>The order of drill types\<close>

text \<open>
  Recommendation lists break ties by \<open>drill_type.as_str().cmp(..)\<close>, the byte order of the
  names; it is the order of the type here.
\<close>

instantiation drill_type :: linorder
begin

definition less_eq_drill_type :: "drill_type \<Rightarrow> drill_type \<Rightarrow> bool" where
  "less_eq_drill_type a b \<longleftrightarrow> drill_type_as_str a \<le> drill_type_as_str b"

definition less_drill_type :: "drill_type \<Rightarrow> drill_type \<Rightarrow> bool" where
  "less_drill_type a b \<longleftrightarrow> drill_type_as_str a < drill_type_as_str b"

instance
  by standard
    (auto simp: less_eq_drill_type_def less_drill_type_def less_le_not_le
      dest: order_antisym simp: drill_type_as_str_inj)

end

section \<open>Properties\<close>

text \<open>
  The names of the exercise types are a faithful wire format: a text parses to a
  type exactly when it is that type's name, every type is in the catalogue, and the numbers
  of the FSRS ratings and their stored names determine the rating.
\<close>

theorem exercise_type_keys_roundtrip:
  "(exercise_type_key_from_str v = Some k \<longleftrightarrow> exercise_type_key_as_str k = v) \<and>
   k \<in> set exercise_type_key_ALL \<and>
   (rating_name (fsrs_rating_number r) = rating_name (fsrs_rating_number s) \<longleftrightarrow> r = s)"
proof -
  have "exercise_type_key_from_str v = Some k \<longleftrightarrow> exercise_type_key_as_str k = v"
    using from_str_as_str as_str_from_str by auto
  moreover have "rating_name (fsrs_rating_number r) = rating_name (fsrs_rating_number s) \<longleftrightarrow> r = s"
    by (cases r; cases s; simp add: rating_name_def)
  ultimately show ?thesis using exercise_type_key_ALL_complete by blast
qed

end
