(* ===== verification/Model.thy ===== *)
theory Model
  imports Enums
begin

text \<open>
  The request and response structures of \<open>src/model.rs\<close> and \<open>src/production.rs\<close>, one
  record each. A field \<open>f\<close> of a structure is the selector \<open>p_f\<close>, with one prefix \<open>p\<close> per
  structure. Unsigned integers of every width are \<open>nat\<close> (the places where a width matters
  write the bound out); the free-form JSON evidence of a review is kept as its serialized
  text, of which the code only uses the length.
\<close>

record prompt_policy =
  pp_allow_required_constructions :: "bool"
  pp_allow_sentence_starters :: "bool"
  pp_allow_model_answer_before_attempt :: "bool"
  pp_prefer_actual_recent_experiences :: "bool"
  pp_one_turn_at_a_time :: "bool"
  pp_adaptive_followups :: "bool"

record written_round_budget =
  wb_minimum :: "nat"
  wb_maximum :: "nat"

record correction_policy =
  cp_after_round :: "bool"
  cp_allow_communication_breakdown_exception :: "bool"
  cp_self_correction_attempts_before_model :: "nat"
  cp_quote_original_on_hint :: "bool"
  cp_show_original_with_model_correction :: "bool"

record learning_focus =
  lf_skills :: "ustring list"
  lf_daily_minutes :: "nat option"
  lf_exam_practice_percent :: "nat"

record preferences =
  pf_learning_focus :: "learning_focus"
  pf_default_practice_mode :: "practice_mode"
  pf_excluded_drill_types :: "drill_type list"
  pf_prompt_policy :: "prompt_policy"
  pf_written_round_budget :: "written_round_budget"
  pf_correction_policy :: "correction_policy"

record prompt_policy_patch =
  ppp_allow_required_constructions :: "bool option"
  ppp_allow_sentence_starters :: "bool option"
  ppp_allow_model_answer_before_attempt :: "bool option"
  ppp_prefer_actual_recent_experiences :: "bool option"
  ppp_one_turn_at_a_time :: "bool option"
  ppp_adaptive_followups :: "bool option"

record written_round_budget_patch =
  wbp_minimum :: "nat option"
  wbp_maximum :: "nat option"

record correction_policy_patch =
  cpp_after_round :: "bool option"
  cpp_allow_communication_breakdown_exception :: "bool option"
  cpp_self_correction_attempts_before_model :: "nat option"
  cpp_quote_original_on_hint :: "bool option"
  cpp_show_original_with_model_correction :: "bool option"

record preference_patch =
  pfp_learning_focus :: "learning_focus option"
  pfp_default_practice_mode :: "practice_mode option"
  pfp_excluded_drill_types :: "drill_type list option"
  pfp_prompt_policy :: "prompt_policy_patch option"
  pfp_written_round_budget :: "written_round_budget_patch option"
  pfp_correction_policy :: "correction_policy_patch option"

record update_preferences_request =
  up_patch :: "preference_patch"
  up_expected_version :: "nat"
  up_source :: "ustring"

record session_override =
  so_patch :: "preference_patch"
  so_source :: "ustring"

record target_opportunity =
  to_weakness_key :: "ustring"
  to_communicative_function :: "ustring"

record proposed_turn =
  pt_turn_no :: "nat"
  pt_prompt :: "ustring"
  pt_drill_type :: "drill_type"
  pt_target_weakness_keys :: "ustring list"
  pt_sentence_starter :: "ustring option"
  pt_model_answer :: "ustring option"
  pt_topic_tag :: "ustring option"

record validate_plan_request =
  vp_policy_version :: "nat"
  vp_session_overrides :: "session_override option"
  vp_turns :: "proposed_turn list"
  vp_target_opportunities :: "target_opportunity list"
  vp_preceding_context :: "ustring list"
  vp_planned_initial_sentences :: "nat option"
  vp_exam_task :: "exam_task option"

record assessment_provenance =
  ap_kind :: "provenance_kind"
  ap_evidence :: "ustring"

record attempt_evidence =
  ae_attempt_no :: "nat"
  ae_attempt_kind :: "attempt_kind"
  ae_original_attempt_no :: "nat option"
  ae_prompt_cueing :: "prompt_cueing"
  ae_prior_target_exposure :: "exposure"
  ae_exposure_source :: "ustring option"
  ae_communicative_outcome :: "communicative_outcome"
  ae_assessment_provenance :: "assessment_provenance"
  ae_scenario_tag :: "ustring"
  ae_topic_tag :: "ustring"
  ae_initial_sentence_count :: "nat option"

record observation_evidence =
  oe_observation_no :: "nat"
  oe_attempt_no :: "nat"
  oe_target_realization :: "target_realization"
  oe_target_accuracy :: "target_accuracy"
  oe_assessment_provenance :: "assessment_provenance"

record intervention =
  iv_intervention_no :: "nat"
  iv_kind :: "intervention_kind"
  iv_text :: "ustring"
  iv_target_weakness_keys :: "ustring list"
  iv_after_attempt_no :: "nat"
  iv_before_attempt_no :: "nat option"

record variation_assessment =
  va_weakness_key :: "ustring"
  va_observation_nos :: "nat list"
  va_rationale :: "ustring"

record production_evidence =
  pe_policy_version :: "nat"
  pe_session_overrides :: "session_override option"
  pe_target_opportunities :: "target_opportunity list"
  pe_attempts :: "attempt_evidence list"
  pe_observations :: "observation_evidence list"
  pe_interventions :: "intervention list"
  pe_variation_assessments :: "variation_assessment list"

record review_decision_rec =
  rd_weakness_key :: "ustring"
  rd_eligible :: "bool"
  rd_reason_codes :: "ustring list"
  rd_supporting_observation_nos :: "nat list"
  rd_excluded_observation_nos :: "nat list"
  rd_policy_version :: "nat"
  rd_applied_rating :: "ustring option"

record observation_input =
  ob_observation_no :: "nat"
  ob_weakness_key :: "ustring"
  ob_outcome :: "observation_outcome"
  ob_role :: "observation_role"
  ob_assessment_phase :: "assessment_phase option"
  ob_hint_level :: "hint_level option"
  ob_learner_effort :: "learner_effort option"
  ob_evidence_source :: "evidence_source option"
  ob_evidence_strength :: "evidence_strength option"
  ob_severity :: "observation_severity option"
  ob_produced :: "ustring option"
  ob_correction :: "ustring option"
  ob_error_span :: "ustring option"
  ob_notes :: "ustring option"

record finding_input =
  fi_practice_item_no :: "nat option"
  fi_attempt_no :: "nat option"
  fi_assessment_kind :: "finding_kind"
  fi_original :: "ustring"
  fi_suggestion :: "ustring option"
  fi_note :: "ustring option"

record activity_config_input =
  cf_preparation_seconds :: "nat option"
  cf_response_seconds :: "nat option"
  cf_question_count :: "nat option"
  cf_exposure_count :: "nat option"
  cf_source_hidden_before_response :: "bool option"
  cf_unpredictable_followups :: "bool option"
  cf_complication_count :: "nat option"

record activity_stimulus_input =
  st_stimulus_no :: "nat"
  st_kind :: "stimulus_kind"
  st_delivery_mode :: "stimulus_delivery_mode"
  st_content_text :: "ustring option"
  st_source_uri :: "ustring option"

record activity_run_input =
  run_run_no :: "nat"
  run_activity_type :: "activity_type"
  run_planned_duration_seconds :: "nat option"
  run_actual_duration_milliseconds :: "nat option"
  run_timing_source :: "timing_source option"
  run_config :: "activity_config_input option"
  run_notes :: "ustring option"
  run_stimuli :: "activity_stimulus_input list"

record attempt_reflection_input =
  rf_reflection_no :: "nat"
  rf_source :: "reflection_source"
  rf_kind :: "reflection_kind"
  rf_note :: "ustring"

record attempt_input =
  at_attempt_no :: "nat"
  at_practice_item_no :: "nat option"
  at_transcript :: "ustring"
  at_target_duration_seconds :: "nat option"
  at_actual_duration_milliseconds :: "nat option"
  at_response_mode :: "response_mode option"
  at_response_latency_milliseconds :: "nat option"
  at_timing_source :: "timing_source option"
  at_observations :: "observation_input list"
  at_reflections :: "attempt_reflection_input list"

record practice_item_input =
  it_item_no :: "nat"
  it_drill_type :: "drill_type"
  it_prompt :: "ustring"
  it_response :: "ustring option"
  it_corrected_response :: "ustring option"
  it_reference_answer :: "ustring option"
  it_feedback :: "ustring option"
  it_outcome :: "practice_item_outcome option"
  it_activity_run_no :: "nat option"
  it_item_phase :: "activity_item_phase option"
  it_target_weakness_keys :: "ustring list"
  it_observations :: "observation_input list"

record concept_link_input =
  cl_concept_key :: "ustring"
  cl_role :: "concept_link_role"

record target_relation_input =
  tr_other_weakness_key :: "ustring"
  tr_predicate :: "ustring"
  tr_notes :: "ustring option"

record new_weakness_input =
  nw_key :: "ustring"
  nw_category :: "ustring"
  nw_description :: "ustring"
  nw_target_pattern :: "ustring option"
  nw_recommended_drill_types :: "drill_type list option"
  nw_active :: "bool option"
  nw_target_type :: "target_type option"
  nw_primary_concept_key :: "ustring option"
  nw_concept_links :: "concept_link_input list"
  nw_target_relations :: "target_relation_input list"

record review_input =
  rv_weakness_key :: "ustring"
  rv_rating :: "fsrs_rating"
  rv_retrieval_mode :: "retrieval_mode"
  rv_evidence_strength :: "evidence_strength"
  rv_evidence_observation_nos :: "nat list"
  rv_rating_rationale :: "ustring option"
  rv_rating_source :: "rating_source"
  rv_evidence :: "ustring"

record task_requirement_input =
  rq_practice_item_no :: "nat option"
  rq_exam_key :: "ustring option"
  rq_specification_version :: "ustring option"
  rq_skill :: "ustring"
  rq_task_key :: "ustring"
  rq_prompt_hash :: "ustring option"
  rq_requested_points :: "ustring list"
  rq_word_min :: "nat option"
  rq_word_max :: "nat option"
  rq_time_budget_seconds :: "nat option"
  rq_preparation_budget_seconds :: "nat option"
  rq_source :: "task_requirement_source"

record requested_point_assessment_input =
  pa_attempt_no :: "nat"
  pa_point_key :: "ustring"
  pa_status :: "requested_point_status"
  pa_supporting_excerpt :: "ustring option"
  pa_reason :: "ustring option"
  pa_evaluator :: "ustring"
  pa_rubric_version :: "ustring option"
  pa_assessed_at :: "ustring option"
  pa_retrospective :: "bool"

record record_request =
  rr_production_evidence :: "production_evidence option"
  rr_idempotency_key :: "ustring"
  rr_session_date :: "ustring option"
  rr_reviewed_at :: "ustring option"
  rr_task_ref :: "ustring option"
  rr_exercise_type_key :: "exercise_type_key"
  rr_topic :: "ustring option"
  rr_notes :: "ustring option"
  rr_new_weaknesses :: "new_weakness_input list"
  rr_items :: "practice_item_input list"
  rr_attempts :: "attempt_input list"
  rr_observations :: "observation_input list"
  rr_findings :: "finding_input list"
  rr_reviews :: "review_input list"
  rr_activity_runs :: "activity_run_input list"
  rr_task_requirements :: "task_requirement_input list"
  rr_requested_point_assessments :: "requested_point_assessment_input list"

record practice_brief_request =
  pb_task_first :: "bool option"
  pb_practice_mode :: "practice_mode option"
  pb_session_overrides :: "session_override option"
  pb_count :: "nat option"
  pb_objective :: "practice_objective option"
  pb_level :: "ustring option"
  pb_drill_mix :: "drill_mix option"
  pb_allowed_drill_types :: "drill_type list option"
  pb_weakness_keys :: "ustring list option"
  pb_categories :: "ustring list option"
  pb_concept_keys :: "ustring list option"
  pb_scheme_keys :: "ustring list option"
  pb_collection_keys :: "ustring list option"
  pb_target_types :: "target_type list option"
  pb_include_upcoming :: "bool option"
  pb_recent_prompts_per_weakness :: "nat option"
  pb_as_of :: "ustring option"
  pb_activity_type :: "activity_type option"
  pb_planned_duration_seconds :: "nat option"
  pb_activity_config :: "activity_config_input option"
  pb_exam_task :: "exam_task option"

section \<open>Small operations\<close>

definition activity_config_is_empty :: "activity_config_input \<Rightarrow> bool" where
  "activity_config_is_empty c \<longleftrightarrow>
     cf_preparation_seconds c = None \<and> cf_response_seconds c = None \<and>
     cf_question_count c = None \<and> cf_exposure_count c = None \<and>
     cf_source_hidden_before_response c = None \<and> cf_unpredictable_followups c = None \<and>
     cf_complication_count c = None"

end
