(* ===== verification/Preferences.thy ===== *)
theory Preferences
  imports Model
begin

text \<open>
  \<open>src/production.rs\<close>, lines 1-440: the learner's saved preferences, their patches, the
  optimistic update, the policy a request resolves to and how it narrows a practice brief;
  and the official task constraints of \<open>src/audit.rs\<close>. The one-row table
  \<open>practice_preferences\<close> is \<open>preference_row option\<close>. The informational fields
  \<open>exam_configuration\<close> and \<open>learner_goal\<close> of a resolved policy are left out.
\<close>

section \<open>Defaults\<close>

definition default_learning_focus :: learning_focus where
  "default_learning_focus =
     \<lparr>lf_skills = [lit ''writing'', lit ''speaking''], lf_daily_minutes = None,
      lf_exam_practice_percent = 80\<rparr>"

definition defaults :: preferences where
  "defaults =
     \<lparr>pf_learning_focus = default_learning_focus,
      pf_default_practice_mode = Practice_Mixed,
      pf_excluded_drill_types = [],
      pf_prompt_policy =
        \<lparr>pp_allow_required_constructions = True, pp_allow_sentence_starters = True,
         pp_allow_model_answer_before_attempt = True,
         pp_prefer_actual_recent_experiences = False, pp_one_turn_at_a_time = True,
         pp_adaptive_followups = True\<rparr>,
      pf_written_round_budget = \<lparr>wb_minimum = 3, wb_maximum = 5\<rparr>,
      pf_correction_policy =
        \<lparr>cp_after_round = True, cp_allow_communication_breakdown_exception = True,
         cp_self_correction_attempts_before_model = 1, cp_quote_original_on_hint = True,
         cp_show_original_with_model_correction = True\<rparr>\<rparr>"

definition approved :: preferences where
  "approved =
     (let p = defaults in p
      \<lparr>pf_default_practice_mode := Practice_Spontaneous,
       pf_excluded_drill_types :=
         [Drill_Translation, Drill_SentenceTransformation, Drill_SentenceCompletion,
          Drill_SentenceCombining, Drill_MinimalPairChoice, Drill_ErrorCorrection,
          Drill_DialogueCompletion],
       pf_prompt_policy := (pf_prompt_policy p)
         \<lparr>pp_allow_required_constructions := False, pp_allow_sentence_starters := False,
          pp_allow_model_answer_before_attempt := False,
          pp_prefer_actual_recent_experiences := True\<rparr>\<rparr>)"

section \<open>Patches\<close>

text \<open>
  \<open>merge\<close> on the JSON objects of a value and a patch, field by field: a field the patch
  does not set keeps its value, a nested patch is merged, the learning focus (all of whose
  fields are always present) is replaced as a whole.
\<close>

definition merge_prompt_policy :: "prompt_policy \<Rightarrow> prompt_policy_patch \<Rightarrow> prompt_policy" where
  "merge_prompt_policy b p =
     \<lparr>pp_allow_required_constructions =
        unwrap_or (ppp_allow_required_constructions p) (pp_allow_required_constructions b),
      pp_allow_sentence_starters =
        unwrap_or (ppp_allow_sentence_starters p) (pp_allow_sentence_starters b),
      pp_allow_model_answer_before_attempt =
        unwrap_or (ppp_allow_model_answer_before_attempt p)
          (pp_allow_model_answer_before_attempt b),
      pp_prefer_actual_recent_experiences =
        unwrap_or (ppp_prefer_actual_recent_experiences p)
          (pp_prefer_actual_recent_experiences b),
      pp_one_turn_at_a_time = unwrap_or (ppp_one_turn_at_a_time p) (pp_one_turn_at_a_time b),
      pp_adaptive_followups = unwrap_or (ppp_adaptive_followups p) (pp_adaptive_followups b)\<rparr>"

definition merge_budget ::
    "written_round_budget \<Rightarrow> written_round_budget_patch \<Rightarrow> written_round_budget" where
  "merge_budget b p =
     \<lparr>wb_minimum = unwrap_or (wbp_minimum p) (wb_minimum b),
      wb_maximum = unwrap_or (wbp_maximum p) (wb_maximum b)\<rparr>"

definition merge_correction ::
    "correction_policy \<Rightarrow> correction_policy_patch \<Rightarrow> correction_policy" where
  "merge_correction b p =
     \<lparr>cp_after_round = unwrap_or (cpp_after_round p) (cp_after_round b),
      cp_allow_communication_breakdown_exception =
        unwrap_or (cpp_allow_communication_breakdown_exception p)
          (cp_allow_communication_breakdown_exception b),
      cp_self_correction_attempts_before_model =
        unwrap_or (cpp_self_correction_attempts_before_model p)
          (cp_self_correction_attempts_before_model b),
      cp_quote_original_on_hint =
        unwrap_or (cpp_quote_original_on_hint p) (cp_quote_original_on_hint b),
      cp_show_original_with_model_correction =
        unwrap_or (cpp_show_original_with_model_correction p)
          (cp_show_original_with_model_correction b)\<rparr>"

definition map_patch :: "('a \<Rightarrow> 'p \<Rightarrow> 'a) \<Rightarrow> 'a \<Rightarrow> 'p option \<Rightarrow> 'a" where
  "map_patch f b p = (case p of None \<Rightarrow> b | Some v \<Rightarrow> f b v)"

lemma map_patch_simps [simp]: "map_patch f b None = b" "map_patch f b (Some v) = f b v"
  by (simp_all add: map_patch_def)

definition merge :: "preferences \<Rightarrow> preference_patch \<Rightarrow> preferences" where
  "merge b p =
     \<lparr>pf_learning_focus = unwrap_or (pfp_learning_focus p) (pf_learning_focus b),
      pf_default_practice_mode =
        unwrap_or (pfp_default_practice_mode p) (pf_default_practice_mode b),
      pf_excluded_drill_types =
        unwrap_or (pfp_excluded_drill_types p) (pf_excluded_drill_types b),
      pf_prompt_policy =
        map_patch merge_prompt_policy (pf_prompt_policy b) (pfp_prompt_policy p),
      pf_written_round_budget =
        map_patch merge_budget (pf_written_round_budget b) (pfp_written_round_budget p),
      pf_correction_policy =
        map_patch merge_correction (pf_correction_policy b) (pfp_correction_policy p)\<rparr>"

definition patched :: "preferences \<Rightarrow> preference_patch \<Rightarrow> string + preferences" where
  "patched base patch =
     (let p = merge base patch; lf = pf_learning_focus p; wb = pf_written_round_budget p in
      bindE (seqE
        [bail_if
           (lf_skills lf = [] \<or> length (lf_skills lf) > 4 \<or>
            list_ex (\<lambda>s. s \<notin> set (map lit [''writing'', ''speaking'', ''reading'', ''listening'']))
              (lf_skills lf) \<or>
            card (set (lf_skills lf)) \<noteq> length (lf_skills lf) \<or>
            some_and (lf_daily_minutes lf) (\<lambda>m. m = 0 \<or> m > 240) \<or>
            lf_exam_practice_percent lf > 100)
           ''invalid learning focus: unique skills, 1-240 minutes, and 0-100 exam percent required'',
         bail_if (wb_minimum wb = 0 \<or> wb_maximum wb < wb_minimum wb \<or> wb_maximum wb > 50)
           ''invalid written initial sentence budget'',
         bail_if (cp_self_correction_attempts_before_model (pf_correction_policy p) > 5)
           ''at most five self-correction attempts''])
       (\<lambda>_. Inr p))"

text \<open>The patch that sets every field, as \<open>seed\<close> builds it through JSON.\<close>

definition patch_of :: "preferences \<Rightarrow> preference_patch" where
  "patch_of p =
     (let q = pf_prompt_policy p; b = pf_written_round_budget p; c = pf_correction_policy p in
      \<lparr>pfp_learning_focus = Some (pf_learning_focus p),
       pfp_default_practice_mode = Some (pf_default_practice_mode p),
       pfp_excluded_drill_types = Some (pf_excluded_drill_types p),
       pfp_prompt_policy = Some
         \<lparr>ppp_allow_required_constructions = Some (pp_allow_required_constructions q),
          ppp_allow_sentence_starters = Some (pp_allow_sentence_starters q),
          ppp_allow_model_answer_before_attempt =
            Some (pp_allow_model_answer_before_attempt q),
          ppp_prefer_actual_recent_experiences = Some (pp_prefer_actual_recent_experiences q),
          ppp_one_turn_at_a_time = Some (pp_one_turn_at_a_time q),
          ppp_adaptive_followups = Some (pp_adaptive_followups q)\<rparr>,
       pfp_written_round_budget = Some
         \<lparr>wbp_minimum = Some (wb_minimum b), wbp_maximum = Some (wb_maximum b)\<rparr>,
       pfp_correction_policy = Some
         \<lparr>cpp_after_round = Some (cp_after_round c),
          cpp_allow_communication_breakdown_exception =
            Some (cp_allow_communication_breakdown_exception c),
          cpp_self_correction_attempts_before_model =
            Some (cp_self_correction_attempts_before_model c),
          cpp_quote_original_on_hint = Some (cp_quote_original_on_hint c),
          cpp_show_original_with_model_correction =
            Some (cp_show_original_with_model_correction c)\<rparr>\<rparr>)"

section \<open>The saved row\<close>

record preference_row =
  pr_version :: nat
  pr_preferences :: preferences
  pr_updated_at :: ustring
  pr_source :: ustring

type_synonym preference_db = "preference_row option"

record preference_view =
  pv_version :: nat
  pv_preferences :: preferences
  pv_updated_at :: "ustring option"
  pv_source :: ustring

definition get :: "preference_db \<Rightarrow> preference_view" where
  "get db =
     (case db of
        Some row \<Rightarrow> \<lparr>pv_version = pr_version row, pv_preferences = pr_preferences row,
          pv_updated_at = Some (pr_updated_at row), pv_source = pr_source row\<rparr>
      | None \<Rightarrow> \<lparr>pv_version = 0, pv_preferences = defaults, pv_updated_at = None,
          pv_source = lit ''system defaults''\<rparr>)"

text \<open>\<open>INSERT ... ON CONFLICT(id) DO UPDATE ... WHERE version = expected\<close>: new table, rows changed.\<close>

definition upsert :: "preference_row \<Rightarrow> nat \<Rightarrow> preference_db \<Rightarrow> preference_db \<times> nat" where
  "upsert row expected db =
     (case db of
        None \<Rightarrow> (Some row, 1)
      | Some old \<Rightarrow> if pr_version old = expected then (Some row, 1) else (Some old, 0))"

text \<open>
  \<open>update\<close>, with the two statements that touch the table apart: the row it reads
  (\<open>snapshot\<close>) and the row it writes over (\<open>db\<close>), since the function opens no transaction
  of its own. \<open>now\<close> is the database's clock.
\<close>

definition update_commit ::
    "ustring \<Rightarrow> preference_db \<Rightarrow> preference_db \<Rightarrow> update_preferences_request \<Rightarrow>
     (string + preference_view) \<times> preference_db" where
  "update_commit now snapshot db x =
     (if blank (up_source x) \<or> blen (up_source x) > 1000
      then (Inl ''source must contain 1-1000 bytes describing learner intent'', db)
      else let current = get snapshot in
        if pv_version current \<noteq> up_expected_version x
        then (Inl ''preference_version_conflict'', db)
        else case patched (pv_preferences current) (up_patch x) of
            Inl e \<Rightarrow> (Inl e, db)
          | Inr p \<Rightarrow>
              (let (db', changed) = upsert
                 \<lparr>pr_version = up_expected_version x + 1, pr_preferences = p,
                  pr_updated_at = now, pr_source = up_source x\<rparr>
                 (up_expected_version x) db
               in if changed \<noteq> 1 then (Inl ''preference_version_conflict'', db')
                  else (Inr (get db'), db')))"

definition update ::
    "ustring \<Rightarrow> preference_db \<Rightarrow> update_preferences_request \<Rightarrow>
     (string + preference_view) \<times> preference_db" where
  "update now db x = update_commit now db db x"

definition seed :: "ustring \<Rightarrow> preference_db \<Rightarrow> (string + preference_view) \<times> preference_db" where
  "seed now db =
     (if pv_version (get db) \<noteq> 0 then (Inr (get db), db)
      else update now db
        \<lparr>up_patch = patch_of approved, up_expected_version = 0,
         up_source = lit ''Learner-approved SPONTANEOUS_PRODUCTION.md, 2026-09-06; explicit deployment seed''\<rparr>)"

section \<open>Resolving the policy of a request\<close>

record resolved_policy =
  rp_effective_preferences :: preferences
  rp_preference_version :: nat
  rp_session_overrides :: "session_override option"
  rp_conflicts :: "string list"

definition resolve ::
    "preference_db \<Rightarrow> practice_mode option \<Rightarrow> session_override option \<Rightarrow>
     string + resolved_policy" where
  "resolve db mode over =
     (let saved = get db in
      bindE
        (case over of
           None \<Rightarrow> Inr (pv_preferences saved)
         | Some o1 \<Rightarrow>
             if blank (so_source o1) \<or> blen (so_source o1) > 1000
             then Inl ''session override requires a concise learner intent source''
             else patched (pv_preferences saved) (so_patch o1))
        (\<lambda>p. Inr
          \<lparr>rp_effective_preferences = p, rp_preference_version = pv_version saved,
           rp_session_overrides = over,
           rp_conflicts =
             (if some_and mode (\<lambda>m. m \<noteq> pf_default_practice_mode p)
              then [''practice_mode conflicts with preferences; supply session_overrides with learner intent'']
              else [])\<rparr>))"

section \<open>Official task constraints\<close>

datatype json =
    JNull | JBool bool | JNum nat | JStr string | JArr "json list" | JObj "(string \<times> json) list"

definition exam_task_constraints :: "string \<Rightarrow> json option" where
  "exam_task_constraints task =
     (if task = ''reading'' then Some (JObj
        [(''task_key'', JStr ''reading''), (''skill'', JStr ''reading''),
         (''duration_seconds'', JNum 3600), (''task_count'', JNum 4),
         (''item_count'', JNum 25), (''official'', JBool True)])
      else if task = ''listening'' then Some (JObj
        [(''task_key'', JStr ''listening''), (''skill'', JStr ''listening''),
         (''duration_seconds'', JNum 2400), (''task_count'', JNum 4),
         (''item_count'', JNum 25), (''official'', JBool True),
         (''modality_required'', JStr ''audio_source'')])
      else if task = ''full_writing'' then Some (JObj
        [(''task_key'', JStr ''full_writing''), (''skill'', JStr ''writing''),
         (''duration_seconds'', JNum 2700), (''task_count'', JNum 2),
         (''word_ranges'', JArr
           [JObj [(''task'', JStr ''writing_task_1''), (''min'', JNum 60), (''max'', JNum 70)],
            JObj [(''task'', JStr ''writing_task_2''), (''min'', JNum 70), (''max'', JNum 80)]]),
         (''official'', JBool True)])
      else if task = ''writing_task_1'' then Some (JObj
        [(''task_key'', JStr ''writing_task_1''), (''skill'', JStr ''writing''),
         (''test_duration_seconds'', JNum 2700), (''duration_seconds'', JNull),
         (''word_min'', JNum 60), (''word_max'', JNum 70), (''official'', JBool True)])
      else if task = ''writing_task_2'' then Some (JObj
        [(''task_key'', JStr ''writing_task_2''), (''skill'', JStr ''writing''),
         (''test_duration_seconds'', JNum 2700), (''duration_seconds'', JNull),
         (''word_min'', JNum 70), (''word_max'', JNum 80), (''official'', JBool True)])
      else if task = ''full_oral'' then Some (JObj
        [(''task_key'', JStr ''full_oral''), (''skill'', JStr ''speaking''),
         (''duration_seconds'', JNum 720), (''preparation_seconds'', JNum 720),
         (''task_count'', JNum 3), (''official'', JBool True)])
      else if task = ''oral_task_1'' then Some (JObj
        [(''task_key'', JStr ''oral_task_1''), (''skill'', JStr ''speaking''),
         (''duration_min_seconds'', JNum 120), (''duration_max_seconds'', JNum 180),
         (''test_duration_seconds'', JNum 720), (''shared_preparation_seconds'', JNum 720),
         (''official'', JBool True)])
      else if task = ''oral_task_2'' then Some (JObj
        [(''task_key'', JStr ''oral_task_2''), (''skill'', JStr ''speaking''),
         (''duration_min_seconds'', JNum 120), (''duration_max_seconds'', JNum 180),
         (''test_duration_seconds'', JNum 720), (''shared_preparation_seconds'', JNum 720),
         (''official'', JBool True)])
      else if task = ''oral_task_3'' then Some (JObj
        [(''task_key'', JStr ''oral_task_3''), (''skill'', JStr ''speaking''),
         (''duration_min_seconds'', JNum 180), (''duration_max_seconds'', JNum 240),
         (''test_duration_seconds'', JNum 720), (''shared_preparation_seconds'', JNum 720),
         (''official'', JBool True)])
      else None)"

lemma exam_task_supported: "\<exists>j. exam_task_constraints (exam_task_as_str t) = Some j"
  by (cases t) (simp_all add: exam_task_constraints_def)

section \<open>Narrowing a practice brief\<close>

fun apply_exam_task :: "exam_task \<Rightarrow> practice_brief_request \<Rightarrow> practice_brief_request" where
  "apply_exam_task t r =
     (case t of
        Exam_WritingTask1 \<Rightarrow>
          r\<lparr>pb_count := Some 1, pb_allowed_drill_types := Some [Drill_MicroStory]\<rparr>
      | Exam_WritingTask2 \<Rightarrow>
          r\<lparr>pb_count := Some 1, pb_allowed_drill_types := Some [Drill_MicroStory]\<rparr>
      | Exam_FullWriting \<Rightarrow>
          r\<lparr>pb_count := Some 2, pb_allowed_drill_types := Some [Drill_MicroStory]\<rparr>
      | Exam_OralTask1 \<Rightarrow>
          r\<lparr>pb_count := Some 1, pb_allowed_drill_types := Some [Drill_SituationalResponse]\<rparr>
      | Exam_OralTask2 \<Rightarrow>
          r\<lparr>pb_count := Some 1, pb_allowed_drill_types := Some [Drill_SituationalResponse]\<rparr>
      | Exam_OralTask3 \<Rightarrow>
          r\<lparr>pb_count := Some 1, pb_allowed_drill_types := Some [Drill_SituationalResponse]\<rparr>
      | Exam_FullOral \<Rightarrow>
          r\<lparr>pb_count := Some 3, pb_allowed_drill_types := Some [Drill_SituationalResponse]\<rparr>
      | Exam_Reading \<Rightarrow> r
      | Exam_Listening \<Rightarrow> r)"

definition permitted :: "preferences \<Rightarrow> drill_type \<Rightarrow> bool" where
  "permitted p d \<longleftrightarrow>
     d \<notin> set (pf_excluded_drill_types p) \<and>
     (pf_default_practice_mode p = Practice_Spontaneous \<longrightarrow>
        d \<in> {Drill_SituationalResponse, Drill_QuestionAnswer, Drill_MicroStory, Drill_Retell})"

definition all_drill_types :: "drill_type list" where
  "all_drill_types =
     [Drill_Translation, Drill_SituationalResponse, Drill_SentenceTransformation,
      Drill_QuestionAnswer, Drill_SentenceCompletion, Drill_SentenceCombining,
      Drill_ErrorCorrection, Drill_MinimalPairChoice, Drill_DialogueCompletion,
      Drill_MicroStory, Drill_Retell, Drill_Fluency432]"

definition brief_conflicts :: "preferences \<Rightarrow> practice_brief_request \<Rightarrow> string list" where
  "brief_conflicts p r =
     (let spontaneous = (pf_default_practice_mode p = Practice_Spontaneous) in
      (if some_and (pb_allowed_drill_types r) (\<lambda>ds. list_ex (\<lambda>d. \<not> permitted p d) ds)
       then [''allowed_drill_types contains an excluded initial format; use an explicit session override'']
       else []) @
      (if spontaneous \<and> pb_drill_mix r \<in>
            {Some Mix_TranslationOnly, Some Mix_RecognitionToProduction, Some Mix_Fluency}
       then [''drill_mix conflicts with spontaneous mode''] else []) @
      (if spontaneous \<and> some_and (pb_activity_type r) (\<lambda>a. a \<notin>
            {Act_SituationalResponse, Act_PictureNarration, Act_RolePlayComplications,
             Act_QuestionAnswerSprint, Act_VoiceDiary, Act_CorrectiveConversation})
       then [''activity requires controlled or repeated source production; override mode for this session'']
       else []))"

definition constrain ::
    "preference_db \<Rightarrow> practice_brief_request \<Rightarrow>
     string + (resolved_policy \<times> practice_brief_request)" where
  "constrain db r =
     bindE (resolve db (pb_practice_mode r) (pb_session_overrides r)) (\<lambda>resolved.
     let p = rp_effective_preferences resolved;
         spontaneous = (pf_default_practice_mode p = Practice_Spontaneous) in
     bindE
       (case pb_exam_task r of
          None \<Rightarrow> Inr r
        | Some task \<Rightarrow>
            bindE (ok_or (exam_task_constraints (exam_task_as_str task))
                ''unsupported exam task {}'')
              (\<lambda>_. Inr (apply_exam_task task r)))
       (\<lambda>r1.
         let conflicts = rp_conflicts resolved @ brief_conflicts p r1;
             r2 = (if spontaneous \<or> pf_excluded_drill_types p \<noteq> []
                   then r1\<lparr>pb_allowed_drill_types := Some (filter (permitted p)
                     (unwrap_or (pb_allowed_drill_types r1) all_drill_types))\<rparr>
                   else r1);
             r3 = (if spontaneous
                   then r2\<lparr>pb_count := Some (min (unwrap_or (pb_count r2) 3)
                     (wb_maximum (pf_written_round_budget p)))\<rparr>
                   else r2)
         in Inr (resolved\<lparr>rp_conflicts := conflicts\<rparr>, r3)))"

section \<open>Well-formed preferences\<close>

definition learning_focus_wf :: "learning_focus \<Rightarrow> bool" where
  "learning_focus_wf lf \<longleftrightarrow>
     lf_skills lf \<noteq> [] \<and> distinct (lf_skills lf) \<and>
     set (lf_skills lf) \<subseteq>
       {lit ''writing'', lit ''speaking'', lit ''reading'', lit ''listening''} \<and>
     (\<forall>m. lf_daily_minutes lf = Some m \<longrightarrow> 1 \<le> m \<and> m \<le> 240) \<and>
     lf_exam_practice_percent lf \<le> 100"

definition preferences_wf :: "preferences \<Rightarrow> bool" where
  "preferences_wf p \<longleftrightarrow>
     learning_focus_wf (pf_learning_focus p) \<and>
     1 \<le> wb_minimum (pf_written_round_budget p) \<and>
     wb_minimum (pf_written_round_budget p) \<le> wb_maximum (pf_written_round_budget p) \<and>
     wb_maximum (pf_written_round_budget p) \<le> 50 \<and>
     cp_self_correction_attempts_before_model (pf_correction_policy p) \<le> 5"

lemma four_skills_length:
  assumes "distinct xs" and "set xs \<subseteq> {a, b, c, d}"
  shows "length xs \<le> 4"
proof -
  have "length xs = card (set xs)" using assms(1) by (simp add: distinct_card)
  also have "\<dots> \<le> card {a, b, c, d}" using assms(2) by (intro card_mono) auto
  also have "\<dots> \<le> 4" by (simp add: card_insert_if)
  finally show ?thesis .
qed

lemma patched_iff [ok_simps]:
  "patched base patch = Inr p \<longleftrightarrow> p = merge base patch \<and> preferences_wf p"
proof -
  have "card (set xs) = length xs \<longleftrightarrow> distinct xs" for xs :: "ustring list"
    by (metis card_distinct distinct_card)
  moreover have "learning_focus_wf (pf_learning_focus p) \<Longrightarrow>
      length (lf_skills (pf_learning_focus p)) \<le> 4" for p
    by (rule four_skills_length) (auto simp: learning_focus_wf_def)
  ultimately show ?thesis
    unfolding patched_def Let_def
    by (auto simp: ok_simps preferences_wf_def learning_focus_wf_def some_and_iff list_ex_iff
        not_less subset_iff)
qed

lemma patched_InlD: "patched base patch = Inl e \<Longrightarrow> \<not> preferences_wf (merge base patch)"
  by (metis patched_iff sum.distinct(1))

lemma merge_patch_of [simp]: "merge base (patch_of p) = p"
  by (simp add: merge_def patch_of_def Let_def merge_prompt_policy_def merge_budget_def
      merge_correction_def)

lemma defaults_wf: "preferences_wf defaults"
  by (simp add: defaults_def default_learning_focus_def preferences_wf_def learning_focus_wf_def
      lit_def)

lemma approved_wf: "preferences_wf approved"
  by (simp add: approved_def defaults_def default_learning_focus_def preferences_wf_def
      learning_focus_wf_def lit_def)

definition preference_db_wf :: "preference_db \<Rightarrow> bool" where
  "preference_db_wf db \<longleftrightarrow>
     (\<forall>row. db = Some row \<longrightarrow> 1 \<le> pr_version row \<and> preferences_wf (pr_preferences row) \<and>
        text_ok (pr_source row) 1000)"

lemma get_wf: "preference_db_wf db \<Longrightarrow> preferences_wf (pv_preferences (get db))"
  by (cases db) (auto simp: get_def preference_db_wf_def defaults_wf)

lemma update_commit_Inr:
  "update_commit now snapshot db x = (Inr v, db') \<longleftrightarrow>
     text_ok (up_source x) 1000 \<and> pv_version (get snapshot) = up_expected_version x \<and>
     (db = None \<or> (\<exists>row. db = Some row \<and> pr_version row = up_expected_version x)) \<and>
     (let p = merge (pv_preferences (get snapshot)) (up_patch x) in
      preferences_wf p \<and>
      db' = Some \<lparr>pr_version = up_expected_version x + 1, pr_preferences = p,
                  pr_updated_at = now, pr_source = up_source x\<rparr> \<and>
      v = get db')"
  by (auto simp: update_commit_def text_ok_def Let_def upsert_def ok_simps
      dest: patched_InlD split: if_splits sum.splits option.splits)

lemma update_commit_Inl:
  "update_commit now snapshot db x = (Inl e, db') \<Longrightarrow> db' = db"
  by (auto simp: update_commit_def Let_def upsert_def split: if_splits sum.splits option.splits)

lemma resolve_Inr:
  assumes "resolve db mode over = Inr rp"
  shows "rp_preference_version rp = pv_version (get db)"
    and "over = None \<Longrightarrow> rp_effective_preferences rp = pv_preferences (get db)"
    and "over = Some o1 \<Longrightarrow>
      rp_effective_preferences rp = merge (pv_preferences (get db)) (so_patch o1) \<and>
      preferences_wf (rp_effective_preferences rp) \<and> text_ok (so_source o1) 1000"
  using assms
  by (auto simp: resolve_def Let_def ok_simps text_ok_def split: option.splits if_splits)

lemma resolve_wf:
  "preference_db_wf db \<Longrightarrow> resolve db mode over = Inr rp \<Longrightarrow>
     preferences_wf (rp_effective_preferences rp)"
  by (cases over) (use get_wf resolve_Inr in \<open>metis\<close>)+

end
