(* ===== verification/Production.thy ===== *)
theory Production
  imports Preferences
begin

text \<open>
  \<open>src/production.rs\<close>, lines 441-1178: rule checks of a proposed plan, the consistency of
  recorded production evidence, the class of an attempt, the decision whether a review is
  eligible to move the schedule, the session audit and the repetition summary. Rows of the
  database a function looks up are an argument (\<open>known\<close>: the keys of \<open>weaknesses\<close>).
\<close>

section \<open>Prompts\<close>

record finding_rec =
  fd_code :: string
  fd_evidence_span :: ustring

definition construction_markers :: "ustring list" where
  "construction_markers =
     [lit ''expr'' @ [233] @ lit ''salo con'', lit ''expresalo con'', lit ''usando '',
      lit ''utiliza '', lit ''usa la estructura'', lit ''une las'', lit ''completa la frase'',
      lit ''transforma '', lit ''rellena '', lit ''___'']"

definition target_markers :: "ustring list" where
  "target_markers =
     [lit ''llevas'', lit ''llevo'', lit ''lleva '', lit ''llevamos'', lit ''llevar +'',
      lit ''para que'']"

definition prompt_findings :: "ustring \<Rightarrow> ustring list \<Rightarrow> finding_rec list" where
  "prompt_findings prompt targets =
     (let lower = to_lowercase prompt;
          llevar = list_ex (\<lambda>k. contains k (lit ''llevar'') \<or>
            contains k (lit ''duration_llevar'')) targets;
          para = list_ex (\<lambda>k. contains k (lit ''para_que'')) targets
      in map (\<lambda>m. \<lparr>fd_code = ''explicit_construction_or_completion'', fd_evidence_span = m\<rparr>)
           (filter (contains lower) construction_markers) @
         map (\<lambda>m. \<lparr>fd_code = ''target_construction_supplied'', fd_evidence_span = m\<rparr>)
           (filter (\<lambda>m. ((llevar \<and> m \<noteq> lit ''para que'') \<or> (para \<and> m = lit ''para que'')) \<and>
              contains lower m) target_markers))"

section \<open>Validation of a plan\<close>

record plan_check =
  ck_code :: string
  ck_turn_no :: "nat option"
  ck_evidence_span :: "ustring option"

datatype plan_status = Structural_checks_passed | Revision_required

record plan_response =
  pl_status :: plan_status
  pl_policy_version :: nat
  pl_checks :: "plan_check list"
  pl_exam_task :: "json option"

definition turn_findings :: "preferences \<Rightarrow> proposed_turn \<Rightarrow> plan_check list" where
  "turn_findings p t =
     (if pf_default_practice_mode p = Practice_Spontaneous
      then map (\<lambda>f. \<lparr>ck_code = fd_code f, ck_turn_no = Some (pt_turn_no t),
                    ck_evidence_span = Some (fd_evidence_span f)\<rparr>)
             (prompt_findings (pt_prompt t) (pt_target_weakness_keys t))
      else [])"

definition turn_conflicts ::
    "preferences \<Rightarrow> validate_plan_request \<Rightarrow> proposed_turn \<Rightarrow> plan_check list" where
  "turn_conflicts p r t =
     map (\<lambda>(_, code). \<lparr>ck_code = code, ck_turn_no = Some (pt_turn_no t),
            ck_evidence_span = Some (pt_prompt t)\<rparr>)
       (filter fst
         [(pt_drill_type t \<in> set (pf_excluded_drill_types p), ''excluded_format''),
          (pt_sentence_starter t \<noteq> None \<and>
             \<not> pp_allow_sentence_starters (pf_prompt_policy p), ''sentence_starter''),
          (pt_model_answer t \<noteq> None \<and>
             \<not> pp_allow_model_answer_before_attempt (pf_prompt_policy p),
           ''model_answer_before_attempt''),
          (pt_prompt t \<in> set (vp_preceding_context r), ''repeated_prompt'')])"

definition check_turn ::
    "preferences \<Rightarrow> validate_plan_request \<Rightarrow> nat set \<times> plan_check list \<Rightarrow> proposed_turn \<Rightarrow>
     string + nat set \<times> plan_check list" where
  "check_turn p r st t =
     bindE (bail_if (pt_turn_no t = 0 \<or> pt_turn_no t \<in> fst st \<or> blank (pt_prompt t))
       ''invalid turn number or empty prompt'') (\<lambda>_.
     bindE (forE (\<lambda>key. bail_if (key \<notin> to_weakness_key ` set (vp_target_opportunities r))
         ''invalid target opportunity reference'') (pt_target_weakness_keys t)) (\<lambda>_.
     Inr (insert (pt_turn_no t) (fst st),
          snd st @ turn_findings p t @ turn_conflicts p r t)))"

definition validate ::
    "(ustring \<Rightarrow> bool) \<Rightarrow> preference_db \<Rightarrow> validate_plan_request \<Rightarrow> string + plan_response" where
  "validate known db r =
     bindE (resolve db None (vp_session_overrides r)) (\<lambda>policy.
     bindE (bail_if (rp_preference_version policy \<noteq> vp_policy_version r)
       ''preference_version_conflict'') (\<lambda>_.
     let p = rp_effective_preferences policy in
     bindE (bail_if (vp_turns r = [] \<or> length (vp_turns r) > 20 \<or>
         length (vp_preceding_context r) > 20)
       ''validate between one and twenty delivered/proposed turns or context entries'') (\<lambda>_.
     bindE (forE (\<lambda>o1. bail_if (\<not> known (to_weakness_key o1))
         ''invalid target opportunity reference'') (vp_target_opportunities r)) (\<lambda>_.
     bindE (foldE (check_turn p r) ({}, []) (vp_turns r)) (\<lambda>(_, checks1).
     let checks = checks1 @
       (if vp_exam_task r = None \<and> some_and (vp_planned_initial_sentences r)
            (\<lambda>n. n < wb_minimum (pf_written_round_budget p) \<or>
                 n > wb_maximum (pf_written_round_budget p))
        then [\<lparr>ck_code = ''impossible_budget'', ck_turn_no = None, ck_evidence_span = None\<rparr>]
        else [])
     in Inr
       \<lparr>pl_status = (if checks = [] then Structural_checks_passed else Revision_required),
        pl_policy_version = vp_policy_version r, pl_checks = checks,
        pl_exam_task = map_option (\<lambda>t. unwrap_or (exam_task_constraints (exam_task_as_str t))
          (JObj [(''task_key'', JStr (exam_task_as_str t)), (''status'', JStr ''unknown'')]))
          (vp_exam_task r)\<rparr>)))))"

section \<open>Recorded evidence\<close>

definition observations :: "record_request \<Rightarrow> observation_input list" where
  "observations r =
     rr_observations r @ concat (map it_observations (rr_items r)) @
     concat (map at_observations (rr_attempts r))"

definition attempt_by_no :: "record_request \<Rightarrow> nat \<Rightarrow> attempt_input option" where
  "attempt_by_no r n = find (\<lambda>v. at_attempt_no v = n) (rr_attempts r)"

definition attempt_exists :: "record_request \<Rightarrow> nat \<Rightarrow> bool" where
  "attempt_exists r n \<longleftrightarrow> list_ex (\<lambda>v. at_attempt_no v = n) (rr_attempts r)"

definition check_attempt_evidence ::
    "record_request \<Rightarrow> nat set \<Rightarrow> attempt_evidence \<Rightarrow> string + nat set" where
  "check_attempt_evidence r seen a =
     bindE (bail_if (ae_attempt_no a \<in> seen) ''duplicate attempt evidence'') (\<lambda>_.
     bindE (ok_or (attempt_by_no r (ae_attempt_no a)) ''invalid attempt reference'') (\<lambda>attempt.
     bindE (seqE
       [bail_if (blank (at_transcript attempt) \<or>
            \<not> list_ex (\<lambda>i. Some (it_item_no i) = at_practice_item_no attempt) (rr_items r))
          ''each production attempt requires an actual item/prompt and learner transcript'',
        bail_if (blank (ap_evidence (ae_assessment_provenance a)))
          ''assessment provenance requires supporting evidence'',
        optE (ae_original_attempt_no a) (\<lambda>original.
          bail_if (original \<ge> ae_attempt_no a \<or> \<not> attempt_exists r original)
            ''invalid original attempt reference/order''),
        bail_if (ae_attempt_kind a = Attempt_SelfCorrection \<and> ae_original_attempt_no a = None)
          ''self-correction requires original_attempt_no'',
        bail_if (ae_attempt_kind a = Attempt_Initial \<and> ae_original_attempt_no a \<noteq> None)
          ''initial attempt cannot be a retry''])
       (\<lambda>_. Inr (insert (ae_attempt_no a) seen))))"

definition accuracy_consistent :: "target_accuracy \<Rightarrow> observation_outcome \<Rightarrow> bool" where
  "accuracy_consistent acc outcome =
     (case acc of
        Acc_Correct \<Rightarrow> outcome \<in> {Outcome_Correct, Outcome_PromptedCorrect}
      | Acc_Incorrect \<Rightarrow> outcome = Outcome_Incorrect
      | Acc_PartiallyCorrect \<Rightarrow> outcome = Outcome_PartiallyCorrect
      | Acc_NotAssessable \<Rightarrow> True)"

definition check_observation_evidence ::
    "record_request \<Rightarrow> observation_input list \<Rightarrow> nat set \<Rightarrow> observation_evidence \<Rightarrow>
     string + nat set" where
  "check_observation_evidence r obs seen o1 =
     bindE (bail_if (oe_observation_no o1 \<in> seen) ''duplicate observation evidence'') (\<lambda>_.
     bindE (ok_or (find (\<lambda>a. ob_observation_no a = oe_observation_no o1) obs)
         ''invalid observation reference'') (\<lambda>actual.
     bindE (ok_or (attempt_by_no r (oe_attempt_no o1))
         ''invalid observation attempt reference'') (\<lambda>a.
     bindE (seqE
       [bail_if (\<not> list_ex (\<lambda>v. ob_observation_no v = oe_observation_no o1) (at_observations a))
          ''production observations must be nested under the supporting attempt'',
        bail_if (oe_target_realization o1 \<in> {Real_NotObserved, Real_Ambiguous} \<and>
            oe_target_accuracy o1 \<noteq> Acc_NotAssessable)
          ''unobserved/ambiguous targets cannot have assessed accuracy'',
        bail_if (blank (ap_evidence (oe_assessment_provenance o1)))
          ''observation provenance requires evidence'',
        if oe_target_realization o1 \<in> {Real_Used, Real_Attempted}
        then bail_if (\<not> accuracy_consistent (oe_target_accuracy o1) (ob_outcome actual))
          ''target accuracy conflicts with observation outcome''
        else bail_if (ob_outcome actual \<noteq> Outcome_Omitted)
          ''not observed or ambiguous target must use omitted outcome''])
       (\<lambda>_. Inr (insert (oe_observation_no o1) seen)))))"

definition check_intervention ::
    "record_request \<Rightarrow> nat set \<Rightarrow> intervention \<Rightarrow> string + nat set" where
  "check_intervention r seen i =
     bindE (bail_if
       (iv_intervention_no i = 0 \<or> iv_intervention_no i \<in> seen \<or> blank (iv_text i) \<or>
        \<not> attempt_exists r (iv_after_attempt_no i) \<or>
        some_and (iv_before_attempt_no i)
          (\<lambda>n. n \<le> iv_after_attempt_no i \<or> \<not> attempt_exists r n))
       ''invalid intervention reference, text or ordering'')
     (\<lambda>_. Inr (insert (iv_intervention_no i) seen))"

definition check_self_correction ::
    "production_evidence \<Rightarrow> attempt_evidence \<Rightarrow> string + unit" where
  "check_self_correction e a =
     bail_if (ae_attempt_kind a = Attempt_SelfCorrection \<and>
         \<not> list_ex (\<lambda>i. some_and (ae_original_attempt_no a) (\<lambda>n. n \<le> iv_after_attempt_no i) \<and>
             iv_before_attempt_no i = Some (ae_attempt_no a)) (pe_interventions e))
       ''self-correction requires the actual intervention and its timing''"

definition check_variation ::
    "observation_input list \<Rightarrow> variation_assessment \<Rightarrow> string + unit" where
  "check_variation obs v =
     bail_if (blank (va_rationale v) \<or>
         list_ex (\<lambda>n. \<not> list_ex (\<lambda>o1. ob_observation_no o1 = n \<and>
             ob_weakness_key o1 = va_weakness_key v) obs) (va_observation_nos v))
       ''invalid variation assessment''"

definition validate_evidence :: "record_request \<Rightarrow> string + unit" where
  "validate_evidence r =
     (case rr_production_evidence r of
        None \<Rightarrow> Inr ()
      | Some e \<Rightarrow>
         (let obs = observations r in
          bindE (foldE (check_attempt_evidence r) {} (pe_attempts e)) (\<lambda>seen1.
          bindE (bail_if (card seen1 \<noteq> length (rr_attempts r))
            ''all attempts require production evidence'') (\<lambda>_.
          bindE (foldE (check_observation_evidence r obs) {} (pe_observations e)) (\<lambda>seen2.
          bindE (bail_if (card seen2 \<noteq> length obs)
            ''all observations require production evidence and attempt linkage'') (\<lambda>_.
          bindE (foldE (check_intervention r) {} (pe_interventions e)) (\<lambda>_.
          seqE [forE (check_self_correction e) (pe_attempts e),
                forE (check_variation obs) (pe_variation_assessments e)])))))))"

section \<open>The class of an attempt\<close>

datatype evidence_class =
    Class_Independent | Class_CuedControlled | Class_Assisted | Class_Unknown

text \<open>
  A finding of an attempt: a finding of its prompt, or a broken reference (which
  \<open>validate_evidence\<close> excludes).
\<close>

datatype attempt_finding =
    Prompt_finding finding_rec
  | Invalid_attempt_reference nat
  | Invalid_practice_item_reference nat

definition attempt_class ::
    "record_request \<Rightarrow> production_evidence \<Rightarrow> attempt_evidence \<Rightarrow>
     evidence_class \<times> attempt_finding list" where
  "attempt_class r e a =
     (case attempt_by_no r (ae_attempt_no a) of
        None \<Rightarrow> (Class_Unknown, [Invalid_attempt_reference (ae_attempt_no a)])
      | Some attempt \<Rightarrow>
     (case find (\<lambda>x. Some (it_item_no x) = at_practice_item_no attempt) (rr_items r) of
        None \<Rightarrow> (Class_Unknown, [Invalid_practice_item_reference (ae_attempt_no a)])
      | Some item \<Rightarrow>
         (let targets = it_target_weakness_keys item @
                map ob_weakness_key (at_observations attempt);
              findings = prompt_findings (it_prompt item) targets;
              exposed = list_ex (\<lambda>i. iv_after_attempt_no i < ae_attempt_no a \<and>
                (iv_target_weakness_keys i = [] \<or>
                 list_ex (\<lambda>k. k \<in> set targets) (iv_target_weakness_keys i)))
                (pe_interventions e);
              hinted = list_ex (\<lambda>o1. some_and (ob_hint_level o1) (\<lambda>h. h \<noteq> Hint_None))
                (at_observations attempt);
              class =
               (if hinted \<or> ae_attempt_kind a = Attempt_SelfCorrection \<or> exposed \<or>
                   ae_prior_target_exposure a \<in> {Exposure_Model, Exposure_RelevantWording}
                then Class_Assisted
                else if findings \<noteq> [] \<or>
                   ae_prompt_cueing a \<in>
                     {Cue_Indirect, Cue_TargetFormSupplied, Cue_ModelSupplied} \<or>
                   it_drill_type item \<in>
                     {Drill_Translation, Drill_SentenceTransformation, Drill_SentenceCompletion,
                      Drill_SentenceCombining, Drill_ErrorCorrection, Drill_MinimalPairChoice,
                      Drill_DialogueCompletion}
                then Class_CuedControlled
                else if ae_prompt_cueing a = Cue_Unknown \<or>
                   ae_prior_target_exposure a = Exposure_Unknown
                then Class_Unknown
                else Class_Independent)
          in (class, map Prompt_finding findings))))"

section \<open>Eligibility of a review\<close>

definition exclusion_reason ::
    "evidence_class \<times> attempt_finding list \<Rightarrow> attempt_evidence \<Rightarrow> observation_input \<Rightarrow>
     observation_evidence \<Rightarrow> string option" where
  "exclusion_reason cf a actual o1 =
     (let (class, findings) = cf in
      if oe_target_realization o1 \<in> {Real_NotObserved, Real_Ambiguous}
      then Some ''target_not_observed''
      else if findings \<noteq> [] then Some ''prompt_supplied_target''
      else if ae_attempt_kind a = Attempt_SelfCorrection then Some ''assisted_retry''
      else if class = Class_Unknown \<or> ob_hint_level actual = None
      then Some ''unknown_assistance''
      else if class \<noteq> Class_Independent \<or> ob_hint_level actual \<noteq> Some Hint_None
      then Some ''assisted_or_cued''
      else if ob_assessment_phase actual \<notin> {Some Phase_ColdRetrieval, Some Phase_Transfer}
      then Some ''not_independent_assessment_phase''
      else if oe_target_accuracy o1 = Acc_NotAssessable
      then Some ''insufficient_rating_evidence''
      else None)"

text \<open>What the loop over the target's observations accumulates.\<close>

record decision_state =
  ds_reasons :: "string list"
  ds_supporting :: "nat list"
  ds_excluded :: "nat list"
  ds_failure :: bool
  ds_scenarios :: "ustring set"

definition is_failure :: "observation_evidence \<Rightarrow> bool" where
  "is_failure o1 \<longleftrightarrow> oe_target_accuracy o1 \<in> {Acc_Incorrect, Acc_PartiallyCorrect}"

definition attempt_evidence_by_no :: "production_evidence \<Rightarrow> nat \<Rightarrow> attempt_evidence option" where
  "attempt_evidence_by_no e n = find (\<lambda>a. ae_attempt_no a = n) (pe_attempts e)"

definition decision_step ::
    "record_request \<Rightarrow> production_evidence \<Rightarrow> observation_input list \<Rightarrow> nat list \<Rightarrow>
     decision_state \<Rightarrow> observation_evidence \<Rightarrow> decision_state" where
  "decision_step r e obs cited d o1 =
     (let n = oe_observation_no o1 in
      case attempt_evidence_by_no e (oe_attempt_no o1) of
        None \<Rightarrow> d\<lparr>ds_reasons := ds_reasons d @ [''invalid_attempt_reference'']\<rparr>
      | Some a \<Rightarrow>
     (case find (\<lambda>v. ob_observation_no v = n) obs of
        None \<Rightarrow> d\<lparr>ds_reasons := ds_reasons d @ [''invalid_observation_reference'']\<rparr>
      | Some actual \<Rightarrow>
     (case exclusion_reason (attempt_class r e a) a actual o1 of
        Some reason \<Rightarrow>
          if n \<in> set cited
          then d\<lparr>ds_excluded := ds_excluded d @ [n], ds_reasons := ds_reasons d @ [reason]\<rparr>
          else d
      | None \<Rightarrow>
         (let d1 = d\<lparr>ds_failure := ds_failure d \<or> is_failure o1\<rparr>;
              d2 = (if is_failure o1 \<and> n \<notin> set cited
                    then d1\<lparr>ds_reasons := ds_reasons d1 @ [''independent_failure_not_cited'']\<rparr>
                    else d1)
          in if n \<in> set cited
             then d2\<lparr>ds_supporting := ds_supporting d2 @ [n],
                     ds_scenarios := insert (ae_scenario_tag a) (ds_scenarios d2)\<rparr>
             else d2))))"

definition decision_init :: decision_state where
  "decision_init =
     \<lparr>ds_reasons = [], ds_supporting = [], ds_excluded = [], ds_failure = False,
      ds_scenarios = {}\<rparr>"

definition target_observations ::
    "production_evidence \<Rightarrow> observation_input list \<Rightarrow> ustring \<Rightarrow> observation_evidence list" where
  "target_observations e obs key =
     filter (\<lambda>o1. list_ex (\<lambda>v. ob_observation_no v = oe_observation_no o1 \<and>
         ob_weakness_key v = key) obs) (pe_observations e)"

definition decision_loop ::
    "record_request \<Rightarrow> production_evidence \<Rightarrow> review_input \<Rightarrow> decision_state" where
  "decision_loop r e review =
     foldl (decision_step r e (observations r) (rv_evidence_observation_nos review))
       decision_init (target_observations e (observations r) (rv_weakness_key review))"

text \<open>The reasons added after the loop, in source order.\<close>

definition closing_reasons ::
    "record_request \<Rightarrow> production_evidence \<Rightarrow> review_input \<Rightarrow> decision_state \<Rightarrow> string list" where
  "closing_reasons r e review d =
     (if rv_rating review \<noteq> Rating_Again \<and>
         list_ex (\<lambda>o1. ob_learner_effort o1 = None \<or> ob_learner_effort o1 = Some Effort_Unknown)
           (filter (\<lambda>o1. ob_observation_no o1 \<in> set (ds_supporting d)) (observations r))
      then [''insufficient_rating_evidence''] else []) @
     (if length (ds_supporting d) < 2 \<or> card (ds_scenarios d) < 2 \<or>
         \<not> list_ex (\<lambda>v. va_weakness_key v = rv_weakness_key review \<and>
             list_all (\<lambda>n. n \<in> set (va_observation_nos v)) (ds_supporting d))
           (pe_variation_assessments e)
      then [''insufficient_varied_evidence''] else []) @
     (if ds_failure d \<and> rv_rating review \<noteq> Rating_Again
      then [''independent_failure_requires_again''] else []) @
     (if \<not> ds_failure d \<and> rv_rating review = Rating_Again
      then [''rating_conflicts_with_success''] else []) @
     (if rv_rating review \<in> {Rating_Good, Rating_Hard, Rating_Easy} \<and>
         (case rv_rating_rationale review of None \<Rightarrow> True | Some s \<Rightarrow> blank s)
      then [''insufficient_rating_evidence''] else [])"

definition blocking_reasons :: "string list" where
  "blocking_reasons =
     [''insufficient_varied_evidence'', ''independent_failure_requires_again'',
      ''independent_failure_not_cited'', ''rating_conflicts_with_success'',
      ''insufficient_rating_evidence'']"

definition review_decision ::
    "record_request \<Rightarrow> review_input \<Rightarrow> nat \<Rightarrow> review_decision_rec" where
  "review_decision r review version =
     (case rr_production_evidence r of
        None \<Rightarrow>
          \<lparr>rd_weakness_key = rv_weakness_key review, rd_eligible = False,
           rd_reason_codes = [lit ''unknown_assistance''],
           rd_supporting_observation_nos = [],
           rd_excluded_observation_nos = rv_evidence_observation_nos review,
           rd_policy_version = version, rd_applied_rating = None\<rparr>
      | Some e \<Rightarrow>
         (let d = decision_loop r e review;
              codes = remdups_adj (sort (ds_reasons d @ closing_reasons r e review d))
          in \<lparr>rd_weakness_key = rv_weakness_key review,
              rd_eligible = (length (ds_supporting d) \<ge> 2 \<and>
                \<not> list_ex (\<lambda>s. s \<in> set blocking_reasons) codes),
              rd_reason_codes = map lit codes,
              rd_supporting_observation_nos = ds_supporting d,
              rd_excluded_observation_nos = ds_excluded d,
              rd_policy_version = version, rd_applied_rating = None\<rparr>))"

section \<open>Session audit\<close>

record audit_turn =
  au_attempt_no :: nat
  au_attempt_kind :: attempt_kind
  au_observed_evidence_class :: evidence_class
  au_communicative_outcome :: communicative_outcome
  au_topic_tag :: ustring
  au_scenario_tag :: ustring
  au_prompt_excerpt :: ustring

datatype violation =
    Violation_finding attempt_finding
  | Violation_excluded_format nat
  | Violation_output_budget

record audit_state =
  as_counts :: "evidence_class \<Rightarrow> nat"
  as_sentences :: nat
  as_violations :: "violation list"
  as_turns :: "audit_turn list"

definition audit_step ::
    "record_request \<Rightarrow> production_evidence \<Rightarrow> preferences \<Rightarrow> audit_state \<Rightarrow> attempt_evidence \<Rightarrow>
     audit_state" where
  "audit_step r e p st a =
     (let (class, findings) = attempt_class r e a;
          initial = (ae_attempt_kind a = Attempt_Initial);
          st1 = (if initial
                 then st\<lparr>as_counts := (as_counts st)(class := as_counts st class + 1),
                         as_sentences := as_sentences st + unwrap_or (ae_initial_sentence_count a) 0\<rparr>
                 else st);
          st2 = (if pf_default_practice_mode p = Practice_Spontaneous \<or>
                    \<not> pp_allow_required_constructions (pf_prompt_policy p)
                 then st1\<lparr>as_violations := as_violations st1 @ map Violation_finding findings\<rparr>
                 else st1)
      in case attempt_by_no r (ae_attempt_no a) of
           None \<Rightarrow> st2\<lparr>as_violations := as_violations st2 @
             [Violation_finding (Invalid_attempt_reference (ae_attempt_no a))]\<rparr>
         | Some attempt \<Rightarrow>
        (case find (\<lambda>i. Some (it_item_no i) = at_practice_item_no attempt) (rr_items r) of
           None \<Rightarrow> st2\<lparr>as_violations := as_violations st2 @
             [Violation_finding (Invalid_practice_item_reference (ae_attempt_no a))]\<rparr>
         | Some item \<Rightarrow>
            (let st3 = (if initial \<and> it_drill_type item \<in> set (pf_excluded_drill_types p)
                   then st2\<lparr>as_violations := as_violations st2 @
                     [Violation_excluded_format (it_item_no item)]\<rparr>
                   else st2)
             in st3\<lparr>as_turns := as_turns st3 @
               [\<lparr>au_attempt_no = ae_attempt_no a, au_attempt_kind = ae_attempt_kind a,
                 au_observed_evidence_class = class,
                 au_communicative_outcome = ae_communicative_outcome a,
                 au_topic_tag = ae_topic_tag a, au_scenario_tag = ae_scenario_tag a,
                 au_prompt_excerpt = take 180 (it_prompt item)\<rparr>]\<rparr>)))"

record session_audit_rec =
  sx_initial_turn_denominator :: nat
  sx_initial_turn_counts :: "evidence_class \<Rightarrow> nat"
  sx_initial_sentence_count_reported :: nat
  sx_sentence_count_complete :: bool
  sx_turns :: "audit_turn list"
  sx_policy_violations :: "violation list"
  sx_review_decisions :: "review_decision_rec list"

datatype audit_result =
    Audit_Unknown nat "review_decision_rec list"
  | Audit_Known session_audit_rec

definition audit ::
    "record_request \<Rightarrow> resolved_policy \<Rightarrow> review_decision_rec list \<Rightarrow> audit_result" where
  "audit r policy decisions =
     (case rr_production_evidence r of
        None \<Rightarrow> Audit_Unknown (length (rr_attempts r)) decisions
      | Some e \<Rightarrow>
         (let p = rp_effective_preferences policy;
              st = foldl (audit_step r e p)
                \<lparr>as_counts = (\<lambda>_. 0), as_sentences = 0, as_violations = [], as_turns = []\<rparr>
                (pe_attempts e);
              violations = as_violations st @
                (if as_sentences st > wb_maximum (pf_written_round_budget p)
                 then [Violation_output_budget] else [])
          in Audit_Known
            \<lparr>sx_initial_turn_denominator = sum_list (map (as_counts st)
               [Class_Assisted, Class_CuedControlled, Class_Independent, Class_Unknown]),
             sx_initial_turn_counts = as_counts st,
             sx_initial_sentence_count_reported = as_sentences st,
             sx_sentence_count_complete = list_all (\<lambda>a. ae_initial_sentence_count a \<noteq> None)
               (filter (\<lambda>a. ae_attempt_kind a = Attempt_Initial) (pe_attempts e)),
             sx_turns = as_turns st, sx_policy_violations = violations,
             sx_review_decisions = decisions\<rparr>))"

section \<open>Repetition across sessions\<close>

record repetition_rec =
  rp_topics :: "ustring \<Rightarrow> nat"
  rp_scenarios :: "ustring \<Rightarrow> nat"
  rp_tagged :: nat
  rp_unknown_sessions :: nat

definition count_tag :: "ustring \<Rightarrow> (ustring \<Rightarrow> nat) \<Rightarrow> ustring \<Rightarrow> nat" where
  "count_tag tag m = (if tag = [] then m else m(tag := m tag + 1))"

definition repetition_turn :: "repetition_rec \<Rightarrow> audit_turn \<Rightarrow> repetition_rec" where
  "repetition_turn st t =
     st\<lparr>rp_tagged := rp_tagged st + 1,
        rp_topics := count_tag (au_topic_tag t) (rp_topics st),
        rp_scenarios := count_tag (au_scenario_tag t) (rp_scenarios st)\<rparr>"

text \<open>A session is the list of audited turns, or None when it has no production audit.\<close>

definition repetition_session ::
    "repetition_rec \<Rightarrow> audit_turn list option \<Rightarrow> repetition_rec" where
  "repetition_session st session =
     (case session of
        Some turns \<Rightarrow> foldl repetition_turn st
          (filter (\<lambda>t. au_attempt_kind t = Attempt_Initial) turns)
      | None \<Rightarrow> st\<lparr>rp_unknown_sessions := rp_unknown_sessions st + 1\<rparr>)"

definition repetition_summary :: "audit_turn list option list \<Rightarrow> repetition_rec" where
  "repetition_summary sessions =
     foldl repetition_session
       \<lparr>rp_topics = (\<lambda>_. 0), rp_scenarios = (\<lambda>_. 0), rp_tagged = 0, rp_unknown_sessions = 0\<rparr>
       sessions"

end
