(* ===== verification/Samples.thy ===== *)
theory Samples
  imports Model
begin

text \<open>
  Small concrete requests, used where a property is applied to an input: a session with two
  independent answers to one target and a review of it, and a role play with one
  complication.
\<close>

definition empty_request :: record_request where
  "empty_request =
     \<lparr>rr_production_evidence = None, rr_idempotency_key = lit ''key'', rr_session_date = None,
      rr_reviewed_at = None, rr_task_ref = None,
      rr_exercise_type_key = Ex_ProductionDrill, rr_topic = None, rr_notes = None,
      rr_new_weaknesses = [], rr_items = [], rr_attempts = [], rr_observations = [],
      rr_findings = [], rr_reviews = [], rr_activity_runs = [], rr_task_requirements = [],
      rr_requested_point_assessments = []\<rparr>"

definition sample_item :: "nat \<Rightarrow> drill_type \<Rightarrow> practice_item_input" where
  "sample_item n d =
     \<lparr>it_item_no = n, it_drill_type = d, it_prompt = lit ''Cuenta'', it_response = None,
      it_corrected_response = None, it_reference_answer = None, it_feedback = None,
      it_outcome = None, it_activity_run_no = None, it_item_phase = None,
      it_target_weakness_keys = [lit ''k''], it_observations = []\<rparr>"

definition sample_observation :: "nat \<Rightarrow> observation_outcome \<Rightarrow> observation_input" where
  "sample_observation n out =
     \<lparr>ob_observation_no = n, ob_weakness_key = lit ''k'', ob_outcome = out,
      ob_role = Role_Targeted, ob_assessment_phase = Some Phase_ColdRetrieval,
      ob_hint_level = Some Hint_None, ob_learner_effort = Some Effort_SomeEffort,
      ob_evidence_source = None, ob_evidence_strength = Some Strength_SpontaneousProduction,
      ob_severity = None, ob_produced = None, ob_correction = None, ob_error_span = None,
      ob_notes = None\<rparr>"

definition sample_attempt :: "nat \<Rightarrow> observation_input list \<Rightarrow> attempt_input" where
  "sample_attempt n obs =
     \<lparr>at_attempt_no = n, at_practice_item_no = Some n, at_transcript = lit ''Fui'',
      at_target_duration_seconds = None, at_actual_duration_milliseconds = None,
      at_response_mode = None, at_response_latency_milliseconds = None,
      at_timing_source = None, at_observations = obs, at_reflections = []\<rparr>"

definition sample_provenance :: assessment_provenance where
  "sample_provenance = \<lparr>ap_kind = Prov_TutorJudgment, ap_evidence = lit ''x''\<rparr>"

definition sample_attempt_evidence :: "nat \<Rightarrow> string \<Rightarrow> attempt_evidence" where
  "sample_attempt_evidence n scenario =
     \<lparr>ae_attempt_no = n, ae_attempt_kind = Attempt_Initial, ae_original_attempt_no = None,
      ae_prompt_cueing = Cue_NoneDetected, ae_prior_target_exposure = Exposure_NoneKnown,
      ae_exposure_source = None, ae_communicative_outcome = Comm_Successful,
      ae_assessment_provenance = sample_provenance, ae_scenario_tag = lit scenario,
      ae_topic_tag = lit ''t'', ae_initial_sentence_count = Some 2\<rparr>"

definition sample_observation_evidence :: "nat \<Rightarrow> target_accuracy \<Rightarrow> observation_evidence" where
  "sample_observation_evidence n acc =
     \<lparr>oe_observation_no = n, oe_attempt_no = n, oe_target_realization = Real_Used,
      oe_target_accuracy = acc, oe_assessment_provenance = sample_provenance\<rparr>"

definition sample_evidence :: production_evidence where
  "sample_evidence =
     \<lparr>pe_policy_version = 1, pe_session_overrides = None, pe_target_opportunities = [],
      pe_attempts = [sample_attempt_evidence 1 ''a'', sample_attempt_evidence 2 ''b''],
      pe_observations = [sample_observation_evidence 1 Acc_Correct,
        sample_observation_evidence 2 Acc_Correct],
      pe_interventions = [],
      pe_variation_assessments =
        [\<lparr>va_weakness_key = lit ''k'', va_observation_nos = [1, 2], va_rationale = lit ''r''\<rparr>]\<rparr>"

definition two_answers :: record_request where
  "two_answers = empty_request
     \<lparr>rr_production_evidence := Some sample_evidence,
      rr_items := [sample_item 1 Drill_QuestionAnswer, sample_item 2 Drill_MicroStory],
      rr_attempts := [sample_attempt 1 [sample_observation 1 Outcome_Correct],
        sample_attempt 2 [sample_observation 2 Outcome_Correct]]\<rparr>"

definition sample_review :: "fsrs_rating \<Rightarrow> review_input" where
  "sample_review rating =
     \<lparr>rv_weakness_key = lit ''k'', rv_rating = rating,
      rv_retrieval_mode = Retrieval_SpontaneousProduction,
      rv_evidence_strength = Strength_SpontaneousProduction,
      rv_evidence_observation_nos = [1, 2], rv_rating_rationale = Some (lit ''fluent''),
      rv_rating_source = RatedBy_AssistantSuggestedConfirmed, rv_evidence = lit ''{}''\<rparr>"

definition sample_run :: activity_run_input where
  "sample_run =
     \<lparr>run_run_no = 1, run_activity_type = Act_RolePlayComplications,
      run_planned_duration_seconds = Some 600, run_actual_duration_milliseconds = None,
      run_timing_source = None,
      run_config = Some \<lparr>cf_preparation_seconds = None, cf_response_seconds = None,
        cf_question_count = None, cf_exposure_count = None,
        cf_source_hidden_before_response = None, cf_unpredictable_followups = Some True,
        cf_complication_count = Some 1\<rparr>,
      run_notes = None,
      run_stimuli = [\<lparr>st_stimulus_no = 1, st_kind = Stim_Situation,
        st_delivery_mode = Deliver_Read, st_content_text = Some (lit ''bar''),
        st_source_uri = None\<rparr>]\<rparr>"

definition role_play :: record_request where
  "role_play = empty_request
     \<lparr>rr_activity_runs := [sample_run],
      rr_items :=
       [(sample_item 1 Drill_SituationalResponse)
          \<lparr>it_activity_run_no := Some 1, it_item_phase := Some Item_Initial\<rparr>,
        (sample_item 2 Drill_DialogueCompletion)
          \<lparr>it_activity_run_no := Some 1, it_item_phase := Some Item_Complication\<rparr>],
      rr_attempts := [sample_attempt 1 [], sample_attempt 2 []]\<rparr>"

lemmas sample_defs =
  empty_request_def sample_item_def sample_observation_def sample_attempt_def
  sample_provenance_def sample_attempt_evidence_def sample_observation_evidence_def
  sample_evidence_def two_answers_def sample_review_def sample_run_def role_play_def

lemma sample_fields [simp]:
  "ob_observation_no (sample_observation n out) = n"
  "ob_weakness_key (sample_observation n out) = lit ''k''"
  "ob_outcome (sample_observation n out) = out"
  "ob_assessment_phase (sample_observation n out) = Some Phase_ColdRetrieval"
  "ob_hint_level (sample_observation n out) = Some Hint_None"
  "ob_learner_effort (sample_observation n out) = Some Effort_SomeEffort"
  "ae_attempt_no (sample_attempt_evidence n s) = n"
  "ae_attempt_kind (sample_attempt_evidence n s) = Attempt_Initial"
  "ae_scenario_tag (sample_attempt_evidence n s) = lit s"
  "ae_initial_sentence_count (sample_attempt_evidence n s) = Some 2"
  "oe_observation_no (sample_observation_evidence n acc) = n"
  "oe_attempt_no (sample_observation_evidence n acc) = n"
  "oe_target_realization (sample_observation_evidence n acc) = Real_Used"
  "oe_target_accuracy (sample_observation_evidence n acc) = acc"
  "pe_attempts sample_evidence =
     [sample_attempt_evidence 1 ''a'', sample_attempt_evidence 2 ''b'']"
  "pe_observations sample_evidence =
     [sample_observation_evidence 1 Acc_Correct, sample_observation_evidence 2 Acc_Correct]"
  "pe_variation_assessments sample_evidence =
     [\<lparr>va_weakness_key = lit ''k'', va_observation_nos = [1, 2], va_rationale = lit ''r''\<rparr>]"
  "rr_production_evidence two_answers = Some sample_evidence"
  "rv_weakness_key (sample_review rating) = lit ''k''"
  "rv_rating (sample_review rating) = rating"
  "rv_evidence_observation_nos (sample_review rating) = [1, 2]"
  "rv_rating_rationale (sample_review rating) = Some (lit ''fluent'')"
  by (simp_all add: sample_defs)

lemma blank_lit: "blank (lit s) \<longleftrightarrow> (\<forall>c\<in>set s. is_white (of_char c))"
  by (simp add: blank_iff lit_def)

end
