(* ===== verification/ReviewPolicy.thy ===== *)
theory ReviewPolicy
  imports Production Samples
begin

text \<open>
  What the evidence rules of \<open>src/production.rs\<close> establish: when a review may move the
  schedule, which evidence it then rests on, what accepted production evidence looks like,
  which plans pass, and what the audit and the repetition summary count.
\<close>

section \<open>Eligibility\<close>

text \<open>An observation that counts as independent evidence, and its scenario.\<close>

definition evidence_context ::
    "record_request \<Rightarrow> production_evidence \<Rightarrow> observation_evidence \<Rightarrow>
     (attempt_evidence \<times> observation_input) option" where
  "evidence_context r e o1 =
     (case attempt_evidence_by_no e (oe_attempt_no o1) of
        None \<Rightarrow> None
      | Some a \<Rightarrow> map_option (\<lambda>actual. (a, actual))
          (find (\<lambda>v. ob_observation_no v = oe_observation_no o1) (observations r)))"

definition reason_of ::
    "record_request \<Rightarrow> production_evidence \<Rightarrow> observation_evidence \<Rightarrow> string option" where
  "reason_of r e o1 =
     (case evidence_context r e o1 of
        None \<Rightarrow> Some ''invalid_reference''
      | Some (a, actual) \<Rightarrow> exclusion_reason (attempt_class r e a) a actual o1)"

definition scenario_of ::
    "record_request \<Rightarrow> production_evidence \<Rightarrow> observation_evidence \<Rightarrow> ustring" where
  "scenario_of r e o1 =
     (case evidence_context r e o1 of None \<Rightarrow> [] | Some (a, _) \<Rightarrow> ae_scenario_tag a)"

definition targeted ::
    "record_request \<Rightarrow> production_evidence \<Rightarrow> review_input \<Rightarrow> observation_evidence list" where
  "targeted r e review = target_observations e (observations r) (rv_weakness_key review)"

definition cited :: "review_input \<Rightarrow> observation_evidence \<Rightarrow> bool" where
  "cited review o1 \<longleftrightarrow> oe_observation_no o1 \<in> set (rv_evidence_observation_nos review)"

definition supporting ::
    "record_request \<Rightarrow> production_evidence \<Rightarrow> review_input \<Rightarrow> observation_evidence list" where
  "supporting r e review =
     filter (\<lambda>o1. reason_of r e o1 = None \<and> cited review o1) (targeted r e review)"

definition independent_failures ::
    "record_request \<Rightarrow> production_evidence \<Rightarrow> review_input \<Rightarrow> observation_evidence list" where
  "independent_failures r e review =
     filter (\<lambda>o1. reason_of r e o1 = None \<and> is_failure o1) (targeted r e review)"

definition loop_reasons ::
    "record_request \<Rightarrow> production_evidence \<Rightarrow> review_input \<Rightarrow> observation_evidence \<Rightarrow>
     string list" where
  "loop_reasons r e review o1 =
     (case attempt_evidence_by_no e (oe_attempt_no o1) of
        None \<Rightarrow> [''invalid_attempt_reference'']
      | Some a \<Rightarrow>
     (case find (\<lambda>v. ob_observation_no v = oe_observation_no o1) (observations r) of
        None \<Rightarrow> [''invalid_observation_reference'']
      | Some actual \<Rightarrow>
     (case exclusion_reason (attempt_class r e a) a actual o1 of
        Some reason \<Rightarrow> if cited review o1 then [reason] else []
      | None \<Rightarrow> if is_failure o1 \<and> \<not> cited review o1
          then [''independent_failure_not_cited''] else [])))"

lemma decision_step_fields:
  defines "step \<equiv> \<lambda>r e review. decision_step r e (observations r) (rv_evidence_observation_nos review)"
  shows "ds_reasons (step r e review d x) = ds_reasons d @ loop_reasons r e review x"
    and "ds_supporting (step r e review d x) = ds_supporting d @
      (if reason_of r e x = None \<and> cited review x then [oe_observation_no x] else [])"
    and "ds_failure (step r e review d x) \<longleftrightarrow>
      ds_failure d \<or> (reason_of r e x = None \<and> is_failure x)"
    and "ds_scenarios (step r e review d x) = ds_scenarios d \<union>
      (if reason_of r e x = None \<and> cited review x then {scenario_of r e x} else {})"
  unfolding step_def
  by (simp_all add: decision_step_def loop_reasons_def reason_of_def scenario_of_def
      evidence_context_def cited_def Let_def split: option.splits)

lemma decision_fold_fields:
  defines "loop \<equiv> \<lambda>r e review.
    foldl (decision_step r e (observations r) (rv_evidence_observation_nos review))"
  shows "ds_reasons (loop r e review d xs) =
      ds_reasons d @ concat (map (loop_reasons r e review) xs)"
    and "ds_supporting (loop r e review d xs) = ds_supporting d @ map oe_observation_no
      (filter (\<lambda>o1. reason_of r e o1 = None \<and> cited review o1) xs)"
    and "ds_failure (loop r e review d xs) \<longleftrightarrow>
      ds_failure d \<or> (\<exists>o1\<in>set xs. reason_of r e o1 = None \<and> is_failure o1)"
    and "ds_scenarios (loop r e review d xs) = ds_scenarios d \<union> scenario_of r e `
      set (filter (\<lambda>o1. reason_of r e o1 = None \<and> cited review o1) xs)"
  unfolding loop_def
  by (induction xs arbitrary: d) (auto simp: decision_step_fields)

lemma decision_loop_fields:
  "ds_supporting (decision_loop r e review) = map oe_observation_no (supporting r e review)"
  "ds_failure (decision_loop r e review) \<longleftrightarrow> independent_failures r e review \<noteq> []"
  "ds_scenarios (decision_loop r e review) = scenario_of r e ` set (supporting r e review)"
  "ds_reasons (decision_loop r e review) =
     concat (map (loop_reasons r e review) (targeted r e review))"
  unfolding decision_loop_def decision_fold_fields
  by (auto simp: decision_init_def supporting_def targeted_def independent_failures_def
      filter_empty_conv)

lemma exclusion_reason_range:
  "exclusion_reason cf a actual o1 = Some s \<Longrightarrow>
     s \<in> {''target_not_observed'', ''prompt_supplied_target'', ''assisted_retry'',
          ''unknown_assistance'', ''assisted_or_cued'', ''not_independent_assessment_phase'',
          ''insufficient_rating_evidence''}"
  by (auto simp: exclusion_reason_def Let_def split: prod.splits if_splits)

definition not_assessable :: "record_request \<Rightarrow> production_evidence \<Rightarrow> observation_evidence \<Rightarrow> bool" where
  "not_assessable r e o1 \<longleftrightarrow> reason_of r e o1 = Some ''insufficient_rating_evidence''"

lemma loop_reasons_cases:
  "loop_reasons r e review o1 \<in>
     {[''invalid_attempt_reference''], [''invalid_observation_reference'']} \<and>
     reason_of r e o1 = Some ''invalid_reference'' \<or>
   loop_reasons r e review o1 =
     (case reason_of r e o1 of
        Some reason \<Rightarrow> if cited review o1 then [reason] else []
      | None \<Rightarrow> if is_failure o1 \<and> \<not> cited review o1
          then [''independent_failure_not_cited''] else [])"
  by (simp add: loop_reasons_def reason_of_def evidence_context_def split: option.splits)

lemma reason_of_range:
  assumes "reason_of r e o1 = Some s" and "s \<in> set blocking_reasons"
  shows "s = ''insufficient_rating_evidence''"
proof (cases "evidence_context r e o1")
  case None
  with assms show ?thesis by (auto simp: reason_of_def blocking_reasons_def)
next
  case (Some p)
  with assms(1) have "exclusion_reason (attempt_class r e (fst p)) (fst p) (snd p) o1 = Some s"
    by (cases p) (simp add: reason_of_def)
  from exclusion_reason_range [OF this] assms(2) show ?thesis
    by (auto simp: blocking_reasons_def)
qed

lemma loop_reasons_blocking:
  "s \<in> set (loop_reasons r e review o1) \<and> s \<in> set blocking_reasons \<longleftrightarrow>
     (s = ''insufficient_rating_evidence'' \<and> cited review o1 \<and> not_assessable r e o1) \<or>
     (s = ''independent_failure_not_cited'' \<and> \<not> cited review o1 \<and> reason_of r e o1 = None \<and>
        is_failure o1)"
proof (cases "loop_reasons r e review o1 \<in>
     {[''invalid_attempt_reference''], [''invalid_observation_reference'']} \<and>
     reason_of r e o1 = Some ''invalid_reference''")
  case True
  then show ?thesis by (auto simp: blocking_reasons_def not_assessable_def)
next
  case False
  then have eq: "loop_reasons r e review o1 =
     (case reason_of r e o1 of
        Some reason \<Rightarrow> if cited review o1 then [reason] else []
      | None \<Rightarrow> if is_failure o1 \<and> \<not> cited review o1
          then [''independent_failure_not_cited''] else [])"
    using loop_reasons_cases by blast
  show ?thesis
  proof (cases "reason_of r e o1")
    case None
    then show ?thesis unfolding eq by (auto simp: blocking_reasons_def not_assessable_def)
  next
    case (Some t)
    have "''insufficient_rating_evidence'' \<in> set blocking_reasons"
      by (simp add: blocking_reasons_def)
    with Some show ?thesis
      unfolding eq not_assessable_def by (auto dest: reason_of_range)
  qed
qed

text \<open>The rule a reviewer would write down.\<close>

definition efforts_known :: "record_request \<Rightarrow> nat list \<Rightarrow> bool" where
  "efforts_known r ns \<longleftrightarrow>
     (\<forall>o1\<in>set (observations r). ob_observation_no o1 \<in> set ns \<longrightarrow>
        ob_learner_effort o1 \<notin> {None, Some Effort_Unknown})"

definition review_eligible ::
    "record_request \<Rightarrow> production_evidence \<Rightarrow> review_input \<Rightarrow> bool" where
  "review_eligible r e review \<longleftrightarrow>
     (let sup = supporting r e review; nos = map oe_observation_no sup in
      2 \<le> length sup \<and> 2 \<le> card (scenario_of r e ` set sup) \<and>
      (\<exists>v\<in>set (pe_variation_assessments e). va_weakness_key v = rv_weakness_key review \<and>
         set nos \<subseteq> set (va_observation_nos v)) \<and>
      (independent_failures r e review \<noteq> [] \<longleftrightarrow> rv_rating review = Rating_Again) \<and>
      (\<forall>o1\<in>set (independent_failures r e review). cited review o1) \<and>
      (\<forall>o1\<in>set (targeted r e review). cited review o1 \<longrightarrow> \<not> not_assessable r e o1) \<and>
      (rv_rating review \<noteq> Rating_Again \<longrightarrow>
         efforts_known r nos \<and> (\<exists>s. rv_rating_rationale review = Some s \<and> \<not> blank s)))"

lemma loop_blocking:
  "(\<forall>s\<in>set (concat (map (loop_reasons r e review) (targeted r e review))).
      s \<notin> set blocking_reasons) \<longleftrightarrow>
   (\<forall>o1\<in>set (independent_failures r e review). cited review o1) \<and>
   (\<forall>o1\<in>set (targeted r e review). cited review o1 \<longrightarrow> \<not> not_assessable r e o1)"
  (is "?L \<longleftrightarrow> ?R")
proof -
  have "?L \<longleftrightarrow> (\<forall>o1\<in>set (targeted r e review). \<forall>s.
      \<not> (s \<in> set (loop_reasons r e review o1) \<and> s \<in> set blocking_reasons))"
    by auto
  also have "\<dots> \<longleftrightarrow> ?R"
    unfolding loop_reasons_blocking independent_failures_def by auto
  finally show ?thesis .
qed

lemma closing_blocking:
  "(\<forall>s\<in>set (closing_reasons r e review d). s \<notin> set blocking_reasons) \<longleftrightarrow>
     closing_reasons r e review d = []"
  by (auto simp: closing_reasons_def blocking_reasons_def)

lemma closing_reasons_Nil:
  "closing_reasons r e review d = [] \<longleftrightarrow>
     2 \<le> length (ds_supporting d) \<and> 2 \<le> card (ds_scenarios d) \<and>
     (\<exists>v\<in>set (pe_variation_assessments e). va_weakness_key v = rv_weakness_key review \<and>
        set (ds_supporting d) \<subseteq> set (va_observation_nos v)) \<and>
     (ds_failure d \<longleftrightarrow> rv_rating review = Rating_Again) \<and>
     (rv_rating review \<noteq> Rating_Again \<longrightarrow>
        efforts_known r (ds_supporting d) \<and>
        (\<exists>s. rv_rating_rationale review = Some s \<and> \<not> blank s))"
proof -
  have rating: "rv_rating review \<in> {Rating_Good, Rating_Hard, Rating_Easy} \<longleftrightarrow>
      rv_rating review \<noteq> Rating_Again"
    by (cases "rv_rating review") auto
  show ?thesis
    unfolding closing_reasons_def efforts_known_def rating
    by (auto simp: list_ex_iff list_all_iff not_less subset_iff split: option.splits)
qed

lemma review_decision_eligible_iff:
  "rd_eligible (review_decision r review v) \<longleftrightarrow>
     (\<exists>e. rr_production_evidence r = Some e \<and> review_eligible r e review)"
proof (cases "rr_production_evidence r")
  case None
  then show ?thesis by (simp add: review_decision_def)
next
  case (Some e)
  let ?d = "decision_loop r e review"
  have "rd_eligible (review_decision r review v) \<longleftrightarrow>
      2 \<le> length (ds_supporting ?d) \<and>
      (\<forall>s\<in>set (ds_reasons ?d). s \<notin> set blocking_reasons) \<and>
      (\<forall>s\<in>set (closing_reasons r e review ?d). s \<notin> set blocking_reasons)"
    by (auto simp: review_decision_def Some Let_def list_ex_iff)
  also have "\<dots> \<longleftrightarrow> review_eligible r e review"
    unfolding closing_blocking closing_reasons_Nil decision_loop_fields loop_blocking
      review_eligible_def Let_def by auto
  finally show ?thesis by (simp add: Some)
qed

text \<open>What independence means for one observation.\<close>

lemma reason_of_None:
  assumes "reason_of r e o1 = None"
  obtains a actual where "attempt_evidence_by_no e (oe_attempt_no o1) = Some a"
    and "find (\<lambda>v. ob_observation_no v = oe_observation_no o1) (observations r) = Some actual"
    and "attempt_class r e a = (Class_Independent, [])"
    and "ae_attempt_kind a \<noteq> Attempt_SelfCorrection"
    and "ob_hint_level actual = Some Hint_None"
    and "ob_assessment_phase actual \<in> {Some Phase_ColdRetrieval, Some Phase_Transfer}"
    and "oe_target_realization o1 \<in> {Real_Used, Real_Attempted}"
    and "oe_target_accuracy o1 \<noteq> Acc_NotAssessable"
proof -
  from assms obtain a actual where ctx:
      "attempt_evidence_by_no e (oe_attempt_no o1) = Some a"
      "find (\<lambda>v. ob_observation_no v = oe_observation_no o1) (observations r) = Some actual"
    and none: "exclusion_reason (attempt_class r e a) a actual o1 = None"
    by (auto simp: reason_of_def evidence_context_def split: option.splits)
  obtain c fs where cf: "attempt_class r e a = (c, fs)" by fastforce
  have real: "oe_target_realization o1 \<notin> {Real_NotObserved, Real_Ambiguous}"
    and "fs = []" "c = Class_Independent"
    and rest: "ae_attempt_kind a \<noteq> Attempt_SelfCorrection" "ob_hint_level actual = Some Hint_None"
      "ob_assessment_phase actual \<in> {Some Phase_ColdRetrieval, Some Phase_Transfer}"
      "oe_target_accuracy o1 \<noteq> Acc_NotAssessable"
    using none unfolding cf exclusion_reason_def by (auto split: if_splits)
  moreover have "oe_target_realization o1 \<in> {Real_Used, Real_Attempted}"
    using real by (cases "oe_target_realization o1") auto
  ultimately show ?thesis using that ctx cf by blast
qed

section \<open>Accepted production evidence\<close>

definition attempt_evidence_wf :: "record_request \<Rightarrow> attempt_evidence \<Rightarrow> bool" where
  "attempt_evidence_wf r a \<longleftrightarrow>
     (case attempt_by_no r (ae_attempt_no a) of
        None \<Rightarrow> False
      | Some t \<Rightarrow> \<not> blank (at_transcript t) \<and>
          (\<exists>i\<in>set (rr_items r). Some (it_item_no i) = at_practice_item_no t)) \<and>
     \<not> blank (ap_evidence (ae_assessment_provenance a)) \<and>
     (case ae_original_attempt_no a of
        None \<Rightarrow> ae_attempt_kind a \<noteq> Attempt_SelfCorrection
      | Some n \<Rightarrow> ae_attempt_kind a \<noteq> Attempt_Initial \<and> n < ae_attempt_no a \<and>
          attempt_exists r n)"

definition observation_evidence_wf :: "record_request \<Rightarrow> observation_evidence \<Rightarrow> bool" where
  "observation_evidence_wf r o1 \<longleftrightarrow>
     (case find (\<lambda>a. ob_observation_no a = oe_observation_no o1) (observations r) of
        None \<Rightarrow> False
      | Some actual \<Rightarrow>
          (if oe_target_realization o1 \<in> {Real_Used, Real_Attempted}
           then accuracy_consistent (oe_target_accuracy o1) (ob_outcome actual)
           else ob_outcome actual = Outcome_Omitted \<and>
             oe_target_accuracy o1 = Acc_NotAssessable)) \<and>
     (case attempt_by_no r (oe_attempt_no o1) of
        None \<Rightarrow> False
      | Some t \<Rightarrow> oe_observation_no o1 \<in> ob_observation_no ` set (at_observations t)) \<and>
     \<not> blank (ap_evidence (oe_assessment_provenance o1))"

definition intervention_wf :: "record_request \<Rightarrow> intervention \<Rightarrow> bool" where
  "intervention_wf r i \<longleftrightarrow>
     \<not> blank (iv_text i) \<and> attempt_exists r (iv_after_attempt_no i) \<and>
     (\<forall>n. iv_before_attempt_no i = Some n \<longrightarrow> iv_after_attempt_no i < n \<and> attempt_exists r n)"

interpretation attempt_evidences: unique_check ae_attempt_no "\<lambda>s. s" "check_attempt_evidence r"
    "attempt_evidence_wf r" for r
  by unfold_locales
    (auto simp: check_attempt_evidence_def attempt_evidence_wf_def ok_simps list_ex_iff not_le
      split: option.splits)

lemma attempt_evidence_wf_attempt:
  "attempt_evidence_wf r a \<Longrightarrow> \<exists>t. attempt_by_no r (ae_attempt_no a) = Some t"
  by (auto simp: attempt_evidence_wf_def split: option.splits)

lemma list_ex_eq_image: "list_ex (\<lambda>v. f v = n) xs \<longleftrightarrow> n \<in> f ` set xs"
  by (auto simp: list_ex_iff)

lemma realization_two:
  "x \<notin> {Real_NotObserved, Real_Ambiguous} \<longleftrightarrow> x \<in> {Real_Used, Real_Attempted}"
  by (cases x) auto

interpretation observation_evidences: unique_check oe_observation_no "\<lambda>s. s"
    "check_observation_evidence r (observations r)" "observation_evidence_wf r" for r
proof
  fix s s' x
  have wf: "(\<exists>s'. check_observation_evidence r (observations r) s x = Inr s') \<longleftrightarrow>
      oe_observation_no x \<notin> s \<and> observation_evidence_wf r x" for s
    unfolding check_observation_evidence_def observation_evidence_wf_def
    using realization_two [of "oe_target_realization x"]
    by (auto simp: ok_simps list_ex_eq_image split: option.splits if_splits)
  show "check_observation_evidence r (observations r) s x = Inr s' \<Longrightarrow> oe_observation_no x \<notin> s"
    "check_observation_evidence r (observations r) s x = Inr s' \<Longrightarrow> observation_evidence_wf r x"
    "oe_observation_no x \<notin> s \<Longrightarrow> observation_evidence_wf r x \<Longrightarrow>
      \<exists>s'. check_observation_evidence r (observations r) s x = Inr s'"
    using wf [of s] by blast+
  show "check_observation_evidence r (observations r) s x = Inr s' \<Longrightarrow>
      s' = insert (oe_observation_no x) s"
    by (auto simp: check_observation_evidence_def ok_simps)
qed

interpretation intervention_numbers: numbered_check iv_intervention_no "\<lambda>s. s"
    "check_intervention r" "intervention_wf r" for r
  by unfold_locales
    (auto simp: check_intervention_def intervention_wf_def ok_simps some_and_iff not_le)

definition production_evidence_wf :: "record_request \<Rightarrow> production_evidence \<Rightarrow> bool" where
  "production_evidence_wf r e \<longleftrightarrow>
     distinct (map ae_attempt_no (pe_attempts e)) \<and>
     (\<forall>a\<in>set (pe_attempts e). attempt_evidence_wf r a) \<and>
     length (pe_attempts e) = length (rr_attempts r) \<and>
     distinct (map oe_observation_no (pe_observations e)) \<and>
     (\<forall>o1\<in>set (pe_observations e). observation_evidence_wf r o1) \<and>
     length (pe_observations e) = length (observations r) \<and>
     distinct (map iv_intervention_no (pe_interventions e)) \<and>
     0 \<notin> iv_intervention_no ` set (pe_interventions e) \<and>
     (\<forall>i\<in>set (pe_interventions e). intervention_wf r i) \<and>
     (\<forall>a\<in>set (pe_attempts e). ae_attempt_kind a = Attempt_SelfCorrection \<longrightarrow>
        (\<exists>i\<in>set (pe_interventions e). iv_before_attempt_no i = Some (ae_attempt_no a) \<and>
           (\<exists>n. ae_original_attempt_no a = Some n \<and> n \<le> iv_after_attempt_no i))) \<and>
     (\<forall>v\<in>set (pe_variation_assessments e). \<not> blank (va_rationale v) \<and>
        (\<forall>n\<in>set (va_observation_nos v). \<exists>o1\<in>set (observations r).
           ob_observation_no o1 = n \<and> ob_weakness_key o1 = va_weakness_key v))"

lemma unique_loop_card:
  assumes "unique_loop number (\<lambda>s. s) body" and "foldE body {} xs = Inr s"
  shows "card s = length xs"
  using unique_loop.loop_seen [OF assms] unique_loop.loop_unique [OF assms]
  by (simp add: card_image_distinct)

lemma check_self_correction_iff:
  "check_self_correction e a = Inr () \<longleftrightarrow>
     (ae_attempt_kind a = Attempt_SelfCorrection \<longrightarrow>
        (\<exists>i\<in>set (pe_interventions e). iv_before_attempt_no i = Some (ae_attempt_no a) \<and>
           (\<exists>n. ae_original_attempt_no a = Some n \<and> n \<le> iv_after_attempt_no i)))"
  by (auto simp: check_self_correction_def ok_simps list_ex_iff some_and_iff)

lemma check_variation_iff:
  "check_variation obs v = Inr () \<longleftrightarrow> \<not> blank (va_rationale v) \<and>
     (\<forall>n\<in>set (va_observation_nos v). \<exists>o1\<in>set obs.
        ob_observation_no o1 = n \<and> ob_weakness_key o1 = va_weakness_key v)"
  by (auto simp: check_variation_def ok_simps list_ex_iff)

lemma validate_evidence_iff:
  "validate_evidence r = Inr () \<longleftrightarrow>
     (\<forall>e. rr_production_evidence r = Some e \<longrightarrow> production_evidence_wf r e)"
proof (cases "rr_production_evidence r")
  case None
  then show ?thesis by (simp add: validate_evidence_def)
next
  case (Some e)
  have "validate_evidence r = Inr () \<longleftrightarrow>
      (\<exists>s. foldE (check_attempt_evidence r) {} (pe_attempts e) = Inr s \<and>
         card s = length (rr_attempts r)) \<and>
      (\<exists>s. foldE (check_observation_evidence r (observations r)) {} (pe_observations e) = Inr s \<and>
         card s = length (observations r)) \<and>
      (\<exists>s. foldE (check_intervention r) {} (pe_interventions e) = Inr s) \<and>
      (\<forall>a\<in>set (pe_attempts e). check_self_correction e a = Inr ()) \<and>
      (\<forall>v\<in>set (pe_variation_assessments e). check_variation (observations r) v = Inr ())"
    by (auto simp: validate_evidence_def Some Let_def ok_simps)
  also have "(\<exists>s. foldE (check_attempt_evidence r) {} (pe_attempts e) = Inr s \<and>
         card s = length (rr_attempts r)) \<longleftrightarrow>
      (\<exists>s. foldE (check_attempt_evidence r) {} (pe_attempts e) = Inr s) \<and>
      length (pe_attempts e) = length (rr_attempts r)"
    using unique_loop_card [OF attempt_evidences.unique_loop_axioms] by metis
  also have "(\<exists>s. foldE (check_observation_evidence r (observations r)) {} (pe_observations e) =
         Inr s \<and> card s = length (observations r)) \<longleftrightarrow>
      (\<exists>s. foldE (check_observation_evidence r (observations r)) {} (pe_observations e) = Inr s) \<and>
      length (pe_observations e) = length (observations r)"
    using unique_loop_card [OF observation_evidences.unique_loop_axioms] by metis
  finally show ?thesis
    unfolding production_evidence_wf_def check_self_correction_iff check_variation_iff
      attempt_evidences.loop_unique_iff observation_evidences.loop_unique_iff
      intervention_numbers.loop_iff
    by (simp add: Some)
qed

text \<open>With distinct attempt numbers, accepted evidence covers exactly the recorded attempts.\<close>

lemma attempt_by_no_SomeD:
  "attempt_by_no r n = Some t \<Longrightarrow> t \<in> set (rr_attempts r) \<and> at_attempt_no t = n"
  by (auto simp: attempt_by_no_def dest: find_SomeD)

lemma evidence_covers_attempts:
  assumes "production_evidence_wf r e" and "distinct (map at_attempt_no (rr_attempts r))"
  shows "ae_attempt_no ` set (pe_attempts e) = at_attempt_no ` set (rr_attempts r)"
proof (rule card_seteq)
  show "ae_attempt_no ` set (pe_attempts e) \<subseteq> at_attempt_no ` set (rr_attempts r)"
  proof
    fix n assume "n \<in> ae_attempt_no ` set (pe_attempts e)"
    then obtain a where "a \<in> set (pe_attempts e)" "n = ae_attempt_no a" by blast
    with assms(1) obtain t where "attempt_by_no r n = Some t"
      using attempt_evidence_wf_attempt unfolding production_evidence_wf_def by metis
    then show "n \<in> at_attempt_no ` set (rr_attempts r)"
      by (auto dest: attempt_by_no_SomeD)
  qed
  have "card (ae_attempt_no ` set (pe_attempts e)) = length (pe_attempts e)"
    "card (at_attempt_no ` set (rr_attempts r)) = length (rr_attempts r)"
    using assms by (simp_all add: card_image_distinct production_evidence_wf_def)
  with assms(1) show "card (at_attempt_no ` set (rr_attempts r))
      \<le> card (ae_attempt_no ` set (pe_attempts e))"
    by (simp add: production_evidence_wf_def)
qed simp

section \<open>Plans\<close>

definition turn_wf :: "validate_plan_request \<Rightarrow> proposed_turn \<Rightarrow> bool" where
  "turn_wf r t \<longleftrightarrow> \<not> blank (pt_prompt t) \<and>
     set (pt_target_weakness_keys t) \<subseteq> to_weakness_key ` set (vp_target_opportunities r)"

interpretation turn_numbers: numbered_check pt_turn_no fst "check_turn p r" "turn_wf r" for p r
  by unfold_locales (auto simp: check_turn_def turn_wf_def ok_simps)

lemma check_turns_checks:
  "foldE (check_turn p r) st ts = Inr st' \<Longrightarrow>
     snd st' = snd st @ concat (map (\<lambda>t. turn_findings p t @ turn_conflicts p r t) ts)"
proof (induction ts arbitrary: st)
  case (Cons t ts)
  then obtain st1 where st1: "check_turn p r st t = Inr st1"
    and rest: "foldE (check_turn p r) st1 ts = Inr st'"
    by (auto simp: foldE_Cons_Inr simp del: foldE.simps split_paired_Ex)
  from st1 have "snd st1 = snd st @ turn_findings p t @ turn_conflicts p r t"
    by (auto simp: check_turn_def ok_simps)
  with Cons.IH [OF rest] show ?case by simp
qed simp

text \<open>A turn the effective policy has nothing against.\<close>

definition turn_permitted :: "preferences \<Rightarrow> validate_plan_request \<Rightarrow> proposed_turn \<Rightarrow> bool" where
  "turn_permitted p r t \<longleftrightarrow>
     pt_drill_type t \<notin> set (pf_excluded_drill_types p) \<and>
     (pt_sentence_starter t = None \<or> pp_allow_sentence_starters (pf_prompt_policy p)) \<and>
     (pt_model_answer t = None \<or> pp_allow_model_answer_before_attempt (pf_prompt_policy p)) \<and>
     pt_prompt t \<notin> set (vp_preceding_context r) \<and>
     (pf_default_practice_mode p = Practice_Spontaneous \<longrightarrow>
        prompt_findings (pt_prompt t) (pt_target_weakness_keys t) = [])"

lemma turn_checks_Nil:
  "turn_findings p t @ turn_conflicts p r t = [] \<longleftrightarrow> turn_permitted p r t"
  by (auto simp: turn_findings_def turn_conflicts_def turn_permitted_def filter_empty_conv)

definition opt_between_budget :: "written_round_budget \<Rightarrow> nat option \<Rightarrow> bool" where
  "opt_between_budget b n = (case n of None \<Rightarrow> True
     | Some k \<Rightarrow> wb_minimum b \<le> k \<and> k \<le> wb_maximum b)"

definition budget_ok :: "preferences \<Rightarrow> validate_plan_request \<Rightarrow> bool" where
  "budget_ok p r \<longleftrightarrow> vp_exam_task r \<noteq> None \<or>
     opt_between_budget (pf_written_round_budget p) (vp_planned_initial_sentences r)"

definition plan_result ::
    "preferences \<Rightarrow> validate_plan_request \<Rightarrow> plan_check list \<Rightarrow> plan_response" where
  "plan_result p r turn_checks =
     (let checks = turn_checks @
        (if budget_ok p r then [] else
          [\<lparr>ck_code = ''impossible_budget'', ck_turn_no = None, ck_evidence_span = None\<rparr>])
      in
       \<lparr>pl_status = (if checks = [] then Structural_checks_passed else Revision_required),
        pl_policy_version = vp_policy_version r, pl_checks = checks,
        pl_exam_task = map_option (\<lambda>t. the (exam_task_constraints (exam_task_as_str t)))
          (vp_exam_task r)\<rparr>)"

lemma validate_Inr:
  assumes "resolve db None (vp_session_overrides r) = Inr policy"
  defines "p \<equiv> rp_effective_preferences policy"
  shows "validate known db r = Inr resp \<longleftrightarrow>
     rp_preference_version policy = vp_policy_version r \<and>
     vp_turns r \<noteq> [] \<and> length (vp_turns r) \<le> 20 \<and> length (vp_preceding_context r) \<le> 20 \<and>
     (\<forall>o1\<in>set (vp_target_opportunities r). known (to_weakness_key o1)) \<and>
     distinct (map pt_turn_no (vp_turns r)) \<and> 0 \<notin> pt_turn_no ` set (vp_turns r) \<and>
     (\<forall>t\<in>set (vp_turns r). turn_wf r t) \<and>
     resp = plan_result p r
       (concat (map (\<lambda>t. turn_findings p t @ turn_conflicts p r t) (vp_turns r)))"
proof -
  have exam: "map_option (\<lambda>t. unwrap_or (exam_task_constraints (exam_task_as_str t)) (d t)) x =
      map_option (\<lambda>t. the (exam_task_constraints (exam_task_as_str t))) x" for d x
  proof (cases x)
    case (Some t)
    then show ?thesis using exam_task_supported [of t] by auto
  qed simp
  have budget: "vp_exam_task r = None \<and> some_and (vp_planned_initial_sentences r)
      (\<lambda>n. n < wb_minimum b \<or> n > wb_maximum b) \<longleftrightarrow>
      \<not> (vp_exam_task r \<noteq> None \<or> opt_between_budget b (vp_planned_initial_sentences r))" for b
    by (cases "vp_planned_initial_sentences r") (auto simp: opt_between_budget_def)
  have loop: "(\<exists>st. foldE (check_turn p r) ({}, []) (vp_turns r) = Inr st \<and> Q (snd st)) \<longleftrightarrow>
      distinct (map pt_turn_no (vp_turns r)) \<and> 0 \<notin> pt_turn_no ` set (vp_turns r) \<and>
      (\<forall>t\<in>set (vp_turns r). turn_wf r t) \<and>
      Q (concat (map (\<lambda>t. turn_findings p t @ turn_conflicts p r t) (vp_turns r)))" for Q
  proof -
    have "(\<exists>st. foldE (check_turn p r) ({}, []) (vp_turns r) = Inr st \<and> Q (snd st)) \<longleftrightarrow>
      (\<exists>st. foldE (check_turn p r) ({}, []) (vp_turns r) = Inr st) \<and>
      Q (concat (map (\<lambda>t. turn_findings p t @ turn_conflicts p r t) (vp_turns r)))"
      using check_turns_checks [of p r "({}, [])" "vp_turns r"] by fastforce
    then show ?thesis by (simp only: turn_numbers.loop_iff) auto
  qed
  have step: "validate known db r = Inr resp \<longleftrightarrow>
     rp_preference_version policy = vp_policy_version r \<and>
     vp_turns r \<noteq> [] \<and> length (vp_turns r) \<le> 20 \<and> length (vp_preceding_context r) \<le> 20 \<and>
     (\<forall>o1\<in>set (vp_target_opportunities r). known (to_weakness_key o1)) \<and>
     (\<exists>st. foldE (check_turn p r) ({}, []) (vp_turns r) = Inr st \<and>
       resp = plan_result p r (snd st))"
    unfolding validate_def assms(1) bindE_simps exam budget
    by (auto simp: ok_simps p_def [symmetric] Let_def budget_ok_def plan_result_def not_less)
  show ?thesis
    unfolding step loop [of "\<lambda>cs. resp = plan_result p r cs"] by blast
qed

lemma plan_passes_iff:
  assumes "resolve db None (vp_session_overrides r) = Inr policy"
    and "validate known db r = Inr resp"
  shows "pl_status resp = Structural_checks_passed \<longleftrightarrow>
     (\<forall>t\<in>set (vp_turns r). turn_permitted (rp_effective_preferences policy) r t) \<and>
     budget_ok (rp_effective_preferences policy) r"
proof -
  let ?p = "rp_effective_preferences policy"
  have "pl_status resp = Structural_checks_passed \<longleftrightarrow>
      concat (map (\<lambda>t. turn_findings ?p t @ turn_conflicts ?p r t) (vp_turns r)) = [] \<and>
      budget_ok ?p r"
    using assms(2) unfolding validate_Inr [OF assms(1)] plan_result_def Let_def by auto
  also have "concat (map (\<lambda>t. turn_findings ?p t @ turn_conflicts ?p r t) (vp_turns r)) = [] \<longleftrightarrow>
      (\<forall>t\<in>set (vp_turns r). turn_permitted ?p r t)"
    by (simp only: concat_eq_Nil_conv set_map ball_simps turn_checks_Nil)
  finally show ?thesis .
qed

section \<open>Counts\<close>

definition initial_attempts :: "production_evidence \<Rightarrow> attempt_evidence list" where
  "initial_attempts e = filter (\<lambda>a. ae_attempt_kind a = Attempt_Initial) (pe_attempts e)"

lemma audit_step_counts:
  "as_counts (audit_step r e p st a) =
     (if ae_attempt_kind a = Attempt_Initial
      then (as_counts st)(fst (attempt_class r e a) := as_counts st (fst (attempt_class r e a)) + 1)
      else as_counts st)"
  "as_sentences (audit_step r e p st a) =
     as_sentences st + (if ae_attempt_kind a = Attempt_Initial
       then unwrap_or (ae_initial_sentence_count a) 0 else 0)"
  by (simp_all add: audit_step_def Let_def split: prod.splits option.splits)

lemma audit_loop_counts:
  "as_counts (foldl (audit_step r e p) st xs) c = as_counts st c +
     length (filter (\<lambda>a. ae_attempt_kind a = Attempt_Initial \<and> fst (attempt_class r e a) = c) xs)"
  "as_sentences (foldl (audit_step r e p) st xs) = as_sentences st +
     sum_list (map (\<lambda>a. unwrap_or (ae_initial_sentence_count a) 0)
       (filter (\<lambda>a. ae_attempt_kind a = Attempt_Initial) xs))"
  by (induction xs arbitrary: st) (auto simp: audit_step_counts)

lemma class_partition:
  "sum_list (map (\<lambda>c. length (filter (\<lambda>a. P a \<and> f a = c) xs))
     [Class_Assisted, Class_CuedControlled, Class_Independent, Class_Unknown]) =
   length (filter P xs)"
proof (induction xs)
  case (Cons x xs)
  then show ?case by (cases "f x") auto
qed simp

lemma audit_counts:
  assumes "rr_production_evidence r = Some e" and "audit r policy decisions = Audit_Known s"
  shows "sx_initial_turn_denominator s = length (initial_attempts e)"
    and "sx_initial_turn_counts s c =
      length (filter (\<lambda>a. fst (attempt_class r e a) = c) (initial_attempts e))"
    and "sx_initial_sentence_count_reported s =
      sum_list (map (\<lambda>a. unwrap_or (ae_initial_sentence_count a) 0) (initial_attempts e))"
  using assms class_partition [of "\<lambda>a. ae_attempt_kind a = Attempt_Initial"
      "\<lambda>a. fst (attempt_class r e a)" "pe_attempts e"]
  by (auto simp: audit_def Let_def audit_loop_counts initial_attempts_def conj_commute)

definition initial_turns :: "audit_turn list option list \<Rightarrow> audit_turn list" where
  "initial_turns sessions =
     concat (map (\<lambda>s. filter (\<lambda>t. au_attempt_kind t = Attempt_Initial) (unwrap_or s [])) sessions)"

lemma repetition_turns:
  "rp_tagged (foldl repetition_turn st ts) = rp_tagged st + length ts"
  "rp_unknown_sessions (foldl repetition_turn st ts) = rp_unknown_sessions st"
  "tag \<noteq> [] \<Longrightarrow> rp_topics (foldl repetition_turn st ts) tag = rp_topics st tag +
     length (filter (\<lambda>t. au_topic_tag t = tag) ts)"
  "tag \<noteq> [] \<Longrightarrow> rp_scenarios (foldl repetition_turn st ts) tag = rp_scenarios st tag +
     length (filter (\<lambda>t. au_scenario_tag t = tag) ts)"
  by (induction ts arbitrary: st) (auto simp: repetition_turn_def count_tag_def)

lemma repetition_sessions:
  "rp_tagged (foldl repetition_session st ss) = rp_tagged st + length (initial_turns ss)"
  "rp_unknown_sessions (foldl repetition_session st ss) =
     rp_unknown_sessions st + length (filter (\<lambda>s. s = None) ss)"
  "tag \<noteq> [] \<Longrightarrow> rp_topics (foldl repetition_session st ss) tag = rp_topics st tag +
     length (filter (\<lambda>t. au_topic_tag t = tag) (initial_turns ss))"
  "tag \<noteq> [] \<Longrightarrow> rp_scenarios (foldl repetition_session st ss) tag = rp_scenarios st tag +
     length (filter (\<lambda>t. au_scenario_tag t = tag) (initial_turns ss))"
  by (induction ss arbitrary: st)
    (auto simp: repetition_session_def initial_turns_def repetition_turns split: option.splits)

section \<open>A session with two independent answers\<close>

lemma prompt_sample: "prompt_findings (lit ''Cuenta'') ts = []"
  by (simp add: prompt_findings_def Let_def construction_markers_def target_markers_def
      to_lowercase_def lower_cp_def lit_def starts_with_def)

lemma sample_class:
  "attempt_class two_answers sample_evidence (sample_attempt_evidence 1 s) = (Class_Independent, [])"
  "attempt_class two_answers sample_evidence (sample_attempt_evidence 2 s) = (Class_Independent, [])"
  by (simp_all add: attempt_class_def attempt_by_no_def prompt_sample Let_def sample_defs)

lemma sample_observations: "observations two_answers =
    [sample_observation 1 Outcome_Correct, sample_observation 2 Outcome_Correct]"
  by (simp add: observations_def sample_defs)

lemma sample_reasons:
  "reason_of two_answers sample_evidence (sample_observation_evidence 1 Acc_Correct) = None"
  "reason_of two_answers sample_evidence (sample_observation_evidence 2 Acc_Correct) = None"
  by (simp_all add: reason_of_def evidence_context_def attempt_evidence_by_no_def
      exclusion_reason_def sample_class sample_class [unfolded One_nat_def] sample_observations)

lemma sample_supporting:
  "targeted two_answers sample_evidence (sample_review Rating_Good) = pe_observations sample_evidence"
  "supporting two_answers sample_evidence (sample_review Rating_Good) = pe_observations sample_evidence"
  "independent_failures two_answers sample_evidence (sample_review Rating_Good) = []"
proof -
  show t: "targeted two_answers sample_evidence (sample_review Rating_Good) =
      pe_observations sample_evidence"
    by (simp add: targeted_def target_observations_def sample_observations)
  show "supporting two_answers sample_evidence (sample_review Rating_Good) =
      pe_observations sample_evidence"
    by (simp add: supporting_def t sample_reasons sample_reasons [unfolded One_nat_def] cited_def)
  show "independent_failures two_answers sample_evidence (sample_review Rating_Good) = []"
    by (simp add: independent_failures_def t sample_reasons sample_reasons [unfolded One_nat_def]
        is_failure_def)
qed

lemma sample_scenarios:
  "scenario_of two_answers sample_evidence (sample_observation_evidence 1 Acc_Correct) = lit ''a''"
  "scenario_of two_answers sample_evidence (sample_observation_evidence 2 Acc_Correct) = lit ''b''"
  by (simp_all add: scenario_of_def evidence_context_def attempt_evidence_by_no_def
      sample_observations)

lemma sample_eligible: "review_eligible two_answers sample_evidence (sample_review Rating_Good)"
  unfolding review_eligible_def sample_supporting
  by (simp add: sample_scenarios [unfolded One_nat_def] sample_reasons [unfolded One_nat_def]
      sample_scenarios sample_reasons not_assessable_def efforts_known_def sample_observations
      blank_lit is_white_def)

lemma sample_evidence_wf: "production_evidence_wf two_answers sample_evidence"
  by (simp add: production_evidence_wf_def attempt_evidence_wf_def observation_evidence_wf_def
      intervention_wf_def attempt_by_no_def attempt_exists_def observations_def
      accuracy_consistent_def blank_lit blank_iff lit_def is_white_def sample_defs)

section \<open>Properties\<close>

text \<open>
  Property C12. A review is declared eligible exactly when the recorded production evidence
  satisfies the written rule \<open>review_eligible\<close>: at least two cited, independently produced
  observations of the target, from at least two scenarios and covered by one variation
  assessment; independent failures all cited, and the rating Again exactly when there is one;
  and for any other rating known effort and a rationale.
\<close>

theorem eligibility_rule:
  "rd_eligible (review_decision r review v) \<longleftrightarrow>
     (case rr_production_evidence r of None \<Rightarrow> False | Some e \<Rightarrow> review_eligible r e review)"
  by (simp add: review_decision_eligible_iff split: option.split)

text \<open>
  Every observation that supports an eligible review was produced
  independently: by an attempt of class independent whose prompt supplied nothing, not a
  self-correction, without a hint, in a cold-retrieval or transfer phase, with the target
  used or attempted and assessable.
\<close>

theorem eligible_support_is_independent:
  assumes "rd_eligible (review_decision r review v)"
    and "n \<in> set (rd_supporting_observation_nos (review_decision r review v))"
  shows "\<exists>e o1 a actual. rr_production_evidence r = Some e \<and> o1 \<in> set (pe_observations e) \<and>
    oe_observation_no o1 = n \<and> attempt_evidence_by_no e (oe_attempt_no o1) = Some a \<and>
    find (\<lambda>v. ob_observation_no v = n) (observations r) = Some actual \<and>
    attempt_class r e a = (Class_Independent, []) \<and>
    ae_attempt_kind a \<noteq> Attempt_SelfCorrection \<and> ob_hint_level actual = Some Hint_None \<and>
    ob_assessment_phase actual \<in> {Some Phase_ColdRetrieval, Some Phase_Transfer} \<and>
    oe_target_realization o1 \<in> {Real_Used, Real_Attempted} \<and>
    oe_target_accuracy o1 \<noteq> Acc_NotAssessable"
proof -
  from assms(1) obtain e where e: "rr_production_evidence r = Some e"
    by (auto simp: review_decision_eligible_iff)
  have "rd_supporting_observation_nos (review_decision r review v) =
      map oe_observation_no (supporting r e review)"
    by (simp add: review_decision_def e Let_def decision_loop_fields)
  with assms(2) obtain o1 where o1: "o1 \<in> set (pe_observations e)" "oe_observation_no o1 = n"
      "reason_of r e o1 = None"
    by (auto simp: supporting_def targeted_def target_observations_def)
  from reason_of_None [OF o1(3)] o1 e show ?thesis by metis
qed

theorem eligible_support_is_independent_witness:
  "rd_eligible (review_decision two_answers (sample_review Rating_Good) 1) \<and>
   (\<exists>e o1 a actual. rr_production_evidence two_answers = Some e \<and> o1 \<in> set (pe_observations e) \<and>
    oe_observation_no o1 = 2 \<and> attempt_evidence_by_no e (oe_attempt_no o1) = Some a \<and>
    find (\<lambda>v. ob_observation_no v = 2) (observations two_answers) = Some actual \<and>
    attempt_class two_answers e a = (Class_Independent, []) \<and>
    ob_hint_level actual = Some Hint_None)"
proof -
  have el: "rd_eligible (review_decision two_answers (sample_review Rating_Good) 1)"
    by (simp add: review_decision_eligible_iff sample_eligible)
  moreover have "2 \<in> set (rd_supporting_observation_nos
      (review_decision two_answers (sample_review Rating_Good) 1))"
    by (simp add: review_decision_def Let_def decision_loop_fields sample_supporting)
  ultimately show ?thesis using eligible_support_is_independent [of two_answers _ 1 2] by blast
qed

text \<open>
  Property C19. The production evidence of a request is accepted exactly when it is well
  formed: one entry per attempt and per observation, each resolving to a recorded attempt
  with an item and a transcript or to an observation nested under the cited attempt, with
  accuracy consistent with the outcome, ordered retries, and interventions that explain every
  self-correction.
\<close>

theorem evidence_accepted_iff:
  "validate_evidence r = Inr () \<longleftrightarrow>
     (case rr_production_evidence r of None \<Rightarrow> True | Some e \<Rightarrow> production_evidence_wf r e)"
  by (simp add: validate_evidence_iff split: option.split)

text \<open>
  When the attempts of a request have distinct numbers, accepted production
  evidence covers exactly the recorded attempts: none is left without evidence, none is
  invented.
\<close>

theorem accepted_evidence_covers_attempts:
  assumes "validate_evidence r = Inr ()" and "rr_production_evidence r = Some e"
    and "distinct (map at_attempt_no (rr_attempts r))"
  shows "ae_attempt_no ` set (pe_attempts e) = at_attempt_no ` set (rr_attempts r)"
  using assms by (intro evidence_covers_attempts) (auto simp: validate_evidence_iff)

theorem accepted_evidence_covers_attempts_witness:
  "validate_evidence two_answers = Inr () \<and>
   ae_attempt_no ` set (pe_attempts sample_evidence) = at_attempt_no ` set (rr_attempts two_answers)"
proof -
  have ok: "validate_evidence two_answers = Inr ()"
    by (simp add: validate_evidence_iff sample_evidence_wf)
  with accepted_evidence_covers_attempts [of two_answers sample_evidence] show ?thesis
    by (simp add: sample_defs)
qed

text \<open>
  A plan is answered with structural checks passed exactly when every proposed
  turn is permitted by the effective policy (no excluded format, no forbidden starter or
  model answer, no repeated prompt and, in spontaneous mode, no prompt that supplies the
  construction) and the planned sentences fit the budget or an exam task is named.
\<close>

theorem plan_status_iff:
  assumes "resolve db None (vp_session_overrides r) = Inr policy"
    and "validate known db r = Inr resp"
  shows "pl_status resp = Structural_checks_passed \<longleftrightarrow>
     (\<forall>t\<in>set (vp_turns r). turn_permitted (rp_effective_preferences policy) r t) \<and>
     budget_ok (rp_effective_preferences policy) r"
  by (rule plan_passes_iff [OF assms])

definition sample_plan :: validate_plan_request where
  "sample_plan =
     \<lparr>vp_policy_version = 0, vp_session_overrides = None,
      vp_turns = [\<lparr>pt_turn_no = 1, pt_prompt = lit ''Cuenta'', pt_drill_type = Drill_Retell,
        pt_target_weakness_keys = [], pt_sentence_starter = None, pt_model_answer = None,
        pt_topic_tag = None\<rparr>],
      vp_target_opportunities = [], vp_preceding_context = [lit ''Cuenta''],
      vp_planned_initial_sentences = Some 4, vp_exam_task = None\<rparr>"

theorem plan_status_iff_witness:
  "\<exists>policy resp. resolve None None None = Inr policy \<and>
     validate (\<lambda>_. True) None sample_plan = Inr resp \<and> pl_status resp = Revision_required"
proof -
  obtain policy where policy: "resolve None None None = Inr policy"
    by (simp add: resolve_def Let_def)
  have res: "resolve None None (vp_session_overrides sample_plan) = Inr policy"
    by (simp add: sample_plan_def policy)
  have version: "rp_preference_version policy = 0"
    using resolve_Inr(1) [OF policy] by (simp add: get_def)
  obtain resp where resp: "validate (\<lambda>_. True) None sample_plan = Inr resp"
    using validate_Inr [OF res] version
    by (auto simp: sample_plan_def turn_wf_def blank_lit is_white_def)
  have "\<not> turn_permitted (rp_effective_preferences policy) sample_plan (hd (vp_turns sample_plan))"
    by (simp add: turn_permitted_def sample_plan_def)
  then have "pl_status resp \<noteq> Structural_checks_passed"
    using plan_status_iff [OF res resp] by (simp add: sample_plan_def)
  with policy resp show ?thesis by (metis plan_status.exhaust)
qed

text \<open>
  The audit counts every initial attempt exactly once: the denominator is the
  number of initial attempts, each class counts its own, and the reported sentences are
  theirs.
\<close>

theorem audit_counts_initial_attempts:
  assumes "rr_production_evidence r = Some e" and "audit r policy decisions = Audit_Known s"
  shows "sx_initial_turn_denominator s = length (initial_attempts e) \<and>
    sx_initial_turn_counts s c =
      length (filter (\<lambda>a. fst (attempt_class r e a) = c) (initial_attempts e)) \<and>
    sx_initial_sentence_count_reported s =
      sum_list (map (\<lambda>a. unwrap_or (ae_initial_sentence_count a) 0) (initial_attempts e))"
  using audit_counts [OF assms] by blast

theorem audit_counts_initial_attempts_witness:
  "\<exists>s policy. audit two_answers policy [] = Audit_Known s \<and> sx_initial_turn_denominator s = 2 \<and>
     sx_initial_turn_counts s Class_Independent = 2 \<and> sx_initial_sentence_count_reported s = 4"
proof -
  obtain s and policy :: resolved_policy where s: "audit two_answers policy [] = Audit_Known s"
    by (simp add: audit_def Let_def)
  have "initial_attempts sample_evidence = pe_attempts sample_evidence"
    by (simp add: initial_attempts_def)
  then show ?thesis
    using audit_counts_initial_attempts [OF _ s, of sample_evidence Class_Independent] s
    by (auto simp: sample_class sample_class [unfolded One_nat_def])
qed

text \<open>
  The repetition summary counts each non-empty topic and scenario tag over the
  initial turns of the sessions that have an audit, and counts the others as unknown.
\<close>

theorem repetition_summary_counts:
  assumes "tag \<noteq> []"
  shows "rp_tagged (repetition_summary ss) = length (initial_turns ss) \<and>
    rp_unknown_sessions (repetition_summary ss) = length (filter (\<lambda>s. s = None) ss) \<and>
    rp_topics (repetition_summary ss) tag =
      length (filter (\<lambda>t. au_topic_tag t = tag) (initial_turns ss)) \<and>
    rp_scenarios (repetition_summary ss) tag =
      length (filter (\<lambda>t. au_scenario_tag t = tag) (initial_turns ss))"
  using assms by (simp add: repetition_summary_def repetition_sessions)

theorem repetition_summary_counts_witness:
  "rp_unknown_sessions (repetition_summary [None, Some []]) = 1 \<and>
   rp_topics (repetition_summary [None, Some []]) (lit ''t'') = 0"
  using repetition_summary_counts [of "lit ''t''" "[None, Some []]"]
  by (simp add: lit_def initial_turns_def)

end
