(* ===== verification/Evidence.thy ===== *)
theory Evidence
  imports Model
begin

text \<open>
  \<open>src/evidence.rs\<close>: the assessment phase an observation is stored with, and the numbering
  of observations across a session. The numbering loop is an instance of the \<open>numbered_check\<close>
  contract of the prelude.
\<close>

definition normalized_phase :: "observation_input \<Rightarrow> string + assessment_phase" where
  "normalized_phase o1 =
     bindE
       (case ob_assessment_phase o1 of
          Some phase \<Rightarrow> Inr phase
        | None \<Rightarrow>
            (case ob_role o1 of
               Role_Incidental \<Rightarrow> Inr Phase_Incidental
             | Role_Targeted \<Rightarrow> Inl ''targeted observations must declare an assessment_phase''))
       (\<lambda>phase. bindE
          (seqE
            [case ob_role o1 of
               Role_Incidental \<Rightarrow>
                 (if phase = Phase_Incidental then Inr ()
                  else Inl ''incidental observations must use assessment_phase=incidental'')
             | Role_Targeted \<Rightarrow>
                 (case phase of
                    Phase_ColdRetrieval \<Rightarrow> Inr ()
                  | Phase_GuidedPractice \<Rightarrow> Inr ()
                  | Phase_ImmediateRetry \<Rightarrow> Inr ()
                  | Phase_Transfer \<Rightarrow> Inr ()
                  | Phase_Historical \<Rightarrow> Inl ''historical is reserved for migrated observations''
                  | Phase_Incidental \<Rightarrow>
                      Inl ''targeted observations cannot use assessment_phase=incidental''),
             bail_if (phase \<noteq> Phase_Incidental \<and> ob_evidence_strength o1 = None)
               ''deliberate observations require evidence_strength'',
             bail_if (ob_hint_level o1 = Some Hint_AnswerShown \<and> ob_outcome o1 = Outcome_Correct)
               ''answer_shown cannot be recorded as correct; use prompted_correct''])
          (\<lambda>_. Inr phase))"

definition validate_one :: "nat set \<Rightarrow> observation_input \<Rightarrow> string + nat set" where
  "validate_one numbers o1 =
     (if ob_observation_no o1 = 0 \<or> ob_observation_no o1 \<in> numbers
      then Inl ''observation_no values must be unique integers of at least 1 across the session''
      else bindE (normalized_phase o1) (\<lambda>_. Inr (insert (ob_observation_no o1) numbers)))"

text \<open>The order in which the session's observations are visited.\<close>

definition session_observations :: "record_request \<Rightarrow> observation_input list" where
  "session_observations r =
     rr_observations r @ concat (map at_observations (rr_attempts r)) @
     concat (map it_observations (rr_items r))"

definition validate_session_observation_numbers :: "record_request \<Rightarrow> string + unit" where
  "validate_session_observation_numbers r =
     bindE (foldE validate_one {} (rr_observations r)) (\<lambda>s1.
     bindE (foldE (\<lambda>s a. foldE validate_one s (at_observations a)) s1 (rr_attempts r)) (\<lambda>s2.
     bindE (foldE (\<lambda>s i. foldE validate_one s (it_observations i)) s2 (rr_items r)) (\<lambda>_.
     Inr ())))"

section \<open>What the checks establish\<close>

text \<open>The pairs of role and phase that are stored, with their side conditions.\<close>

definition phase_admissible :: "observation_input \<Rightarrow> assessment_phase \<Rightarrow> bool" where
  "phase_admissible o1 p \<longleftrightarrow>
     (case ob_role o1 of
        Role_Incidental \<Rightarrow> p = Phase_Incidental \<and> ob_assessment_phase o1 \<in> {None, Some p}
      | Role_Targeted \<Rightarrow>
          ob_assessment_phase o1 = Some p \<and>
          p \<in> {Phase_ColdRetrieval, Phase_GuidedPractice, Phase_ImmediateRetry, Phase_Transfer} \<and>
          ob_evidence_strength o1 \<noteq> None) \<and>
     \<not> (ob_hint_level o1 = Some Hint_AnswerShown \<and> ob_outcome o1 = Outcome_Correct)"

lemma normalized_phase_iff: "normalized_phase o1 = Inr p \<longleftrightarrow> phase_admissible o1 p"
proof (cases "ob_assessment_phase o1")
  case None
  then show ?thesis
    by (cases "ob_role o1")
      (auto simp: normalized_phase_def phase_admissible_def ok_simps bail_if_def)
next
  case (Some q)
  then show ?thesis
    by (cases "ob_role o1"; cases q)
      (auto simp: normalized_phase_def phase_admissible_def ok_simps bail_if_def)
qed

interpretation observation_numbers:
    numbered_check ob_observation_no "\<lambda>s. s" validate_one "\<lambda>o1. \<exists>p. phase_admissible o1 p"
  by unfold_locales
    (auto simp: validate_one_def ok_simps normalized_phase_iff [symmetric] split: if_splits)

lemma foldE_concat:
  "foldE (\<lambda>s x. foldE f s (g x)) s xs = foldE f s (concat (map g xs))"
  by (induction xs arbitrary: s) (simp_all add: foldE_append)

lemma validate_session_observation_numbers_eq:
  "validate_session_observation_numbers r =
     bindE (foldE validate_one {} (session_observations r)) (\<lambda>_. Inr ())"
  by (simp add: validate_session_observation_numbers_def session_observations_def foldE_concat
      foldE_append bindE_def split: sum.splits)

lemma validate_numbers_iff:
  "validate_session_observation_numbers r = Inr () \<longleftrightarrow>
     distinct (map ob_observation_no (session_observations r)) \<and>
     0 \<notin> ob_observation_no ` set (session_observations r) \<and>
     (\<forall>o1\<in>set (session_observations r). \<exists>p. phase_admissible o1 p)"
  by (simp add: validate_session_observation_numbers_eq ok_simps observation_numbers.loop_iff)

section \<open>Properties\<close>

text \<open>
  The observation check accepts a session exactly when its observations, taken
  over the session, its attempts and its items, have distinct positive numbers and each has
  an admissible pair of role and phase.
\<close>

theorem observation_numbers_accepted_iff:
  "validate_session_observation_numbers r = Inr () \<longleftrightarrow>
     distinct (map ob_observation_no (session_observations r)) \<and>
     0 \<notin> ob_observation_no ` set (session_observations r) \<and>
     list_all (\<lambda>o1. \<exists>p. phase_admissible o1 p) (session_observations r)"
  by (simp add: validate_numbers_iff list_all_iff)

text \<open>
  The phase an observation is stored with is determined by the request: the
  normalisation returns a phase exactly when it is admissible for the observation's role,
  strength and hint, so an incidental observation is always stored as incidental and a shown
  answer is never stored as correct.
\<close>

theorem stored_phase_iff:
  "normalized_phase o1 = Inr p \<longleftrightarrow> phase_admissible o1 p"
  by (rule normalized_phase_iff)

end
