(* ===== verification/Activities.thy ===== *)
theory Activities
  imports Evidence
begin

text \<open>
  \<open>src/activities.rs\<close>: the catalogue of speaking activities, the merging and checking of
  their configuration, the stimulus rules, the phase of each planned item, and the checks a
  recorded session with activity runs must pass. The declarative counterpart
  \<open>activity_recording_wf\<close> states what the last of these accepts.
\<close>

section \<open>The catalogue\<close>

record stimulus_alternative_spec =
  sa_kind :: stimulus_kind
  sa_allowed_delivery_modes :: "stimulus_delivery_mode list"
  sa_content_text_required :: bool
  sa_source_uri_allowed :: bool

type_synonym stimulus_requirement_spec = "stimulus_alternative_spec list"

record activity_spec_rec =
  as_activity_type :: activity_type
  as_label :: string
  as_interaction_mode :: activity_interaction_mode
  as_default_count :: nat
  as_compatible_drills :: "drill_type list"
  as_default_config :: activity_config_input
  as_default_planned_duration_seconds :: "nat option"
  as_intended_evidence_strength :: string
  as_stimulus_requirements :: "stimulus_requirement_spec list"

definition SITUATIONAL :: "drill_type list" where
  "SITUATIONAL = [Drill_SituationalResponse]"
definition PICTURE :: "drill_type list" where
  "PICTURE = [Drill_MicroStory, Drill_Retell]"
definition QA :: "drill_type list" where
  "QA = [Drill_QuestionAnswer]"
definition RETELL :: "drill_type list" where
  "RETELL = [Drill_Retell]"
definition CONVERSATION :: "drill_type list" where
  "CONVERSATION = [Drill_QuestionAnswer, Drill_SituationalResponse, Drill_DialogueCompletion]"
definition TRANSFORMATION :: "drill_type list" where
  "TRANSFORMATION = [Drill_SentenceTransformation]"
definition ROLE_PLAY :: "drill_type list" where
  "ROLE_PLAY = [Drill_SituationalResponse, Drill_DialogueCompletion, Drill_QuestionAnswer]"

definition READ :: "stimulus_delivery_mode list" where
  "READ = [Deliver_Read]"
definition VIEWED :: "stimulus_delivery_mode list" where
  "VIEWED = [Deliver_Viewed]"
definition HEARD_OR_VIEWED :: "stimulus_delivery_mode list" where
  "HEARD_OR_VIEWED = [Deliver_HeardReported, Deliver_Viewed]"
definition READ_OR_CONVERSATION :: "stimulus_delivery_mode list" where
  "READ_OR_CONVERSATION = [Deliver_Read, Deliver_Conversation]"

definition NO_STIMULUS_REQUIREMENTS :: "stimulus_requirement_spec list" where
  "NO_STIMULUS_REQUIREMENTS = []"

definition PICTURE_REQUIREMENTS :: "stimulus_requirement_spec list" where
  "PICTURE_REQUIREMENTS =
     [[\<lparr>sa_kind = Stim_ImageDescription, sa_allowed_delivery_modes = VIEWED,
        sa_content_text_required = True, sa_source_uri_allowed = False\<rparr>,
       \<lparr>sa_kind = Stim_ImageSequenceDescription, sa_allowed_delivery_modes = VIEWED,
        sa_content_text_required = True, sa_source_uri_allowed = False\<rparr>]]"

definition RETELL_REQUIREMENTS :: "stimulus_requirement_spec list" where
  "RETELL_REQUIREMENTS =
     [[\<lparr>sa_kind = Stim_SourceText, sa_allowed_delivery_modes = READ,
        sa_content_text_required = True, sa_source_uri_allowed = False\<rparr>,
       \<lparr>sa_kind = Stim_MediaTranscript, sa_allowed_delivery_modes = HEARD_OR_VIEWED,
        sa_content_text_required = True, sa_source_uri_allowed = False\<rparr>]]"

definition READ_CLOSE_REQUIREMENTS :: "stimulus_requirement_spec list" where
  "READ_CLOSE_REQUIREMENTS =
     [[\<lparr>sa_kind = Stim_SourceText, sa_allowed_delivery_modes = READ,
        sa_content_text_required = True, sa_source_uri_allowed = False\<rparr>,
       \<lparr>sa_kind = Stim_ArticleReference, sa_allowed_delivery_modes = READ,
        sa_content_text_required = False, sa_source_uri_allowed = True\<rparr>]]"

definition ROLE_PLAY_REQUIREMENTS :: "stimulus_requirement_spec list" where
  "ROLE_PLAY_REQUIREMENTS =
     [[\<lparr>sa_kind = Stim_Situation, sa_allowed_delivery_modes = READ_OR_CONVERSATION,
        sa_content_text_required = True, sa_source_uri_allowed = False\<rparr>]]"

definition config ::
    "nat option \<Rightarrow> nat option \<Rightarrow> nat option \<Rightarrow> nat option \<Rightarrow> bool option \<Rightarrow> bool option \<Rightarrow>
     nat option \<Rightarrow> activity_config_input" where
  "config prep resp quest expo hidden unpred compl =
     \<lparr>cf_preparation_seconds = prep, cf_response_seconds = resp, cf_question_count = quest,
      cf_exposure_count = expo, cf_source_hidden_before_response = hidden,
      cf_unpredictable_followups = unpred, cf_complication_count = compl\<rparr>"

definition spec_rec ::
    "activity_type \<Rightarrow> string \<Rightarrow> activity_interaction_mode \<Rightarrow> nat \<Rightarrow> drill_type list \<Rightarrow>
     activity_config_input \<Rightarrow> nat option \<Rightarrow> string \<Rightarrow> stimulus_requirement_spec list \<Rightarrow>
     activity_spec_rec" where
  "spec_rec a l m n ds c p e rs =
     \<lparr>as_activity_type = a, as_label = l, as_interaction_mode = m, as_default_count = n,
      as_compatible_drills = ds, as_default_config = c,
      as_default_planned_duration_seconds = p, as_intended_evidence_strength = e,
      as_stimulus_requirements = rs\<rparr>"

fun activity_spec :: "activity_type \<Rightarrow> activity_spec_rec" where
  "activity_spec Act_SituationalResponse =
     spec_rec Act_SituationalResponse ''Situational response'' Mode_Sprint 4 SITUATIONAL
       (config (Some 3) (Some 45) None None None None None)
       None ''spontaneous_production'' NO_STIMULUS_REQUIREMENTS"
| "activity_spec Act_PictureNarration =
     spec_rec Act_PictureNarration ''Picture/comic narration'' Mode_SingleResponse 1 PICTURE
       (config (Some 30) (Some 120) None None None None None)
       None ''spontaneous_production'' PICTURE_REQUIREMENTS"
| "activity_spec Act_QuestionAnswerSprint =
     spec_rec Act_QuestionAnswerSprint ''Question-answer sprint'' Mode_Sprint 6 QA
       (config (Some 3) (Some 30) (Some 6) None None None None)
       None ''spontaneous_production'' NO_STIMULUS_REQUIREMENTS"
| "activity_spec Act_RetellReconstruction =
     spec_rec Act_RetellReconstruction ''Retell/reconstruction'' Mode_SingleResponse 1 RETELL
       (config None (Some 120) None (Some 1) (Some True) None None)
       None ''spontaneous_production'' RETELL_REQUIREMENTS"
| "activity_spec Act_CorrectiveConversation =
     spec_rec Act_CorrectiveConversation ''Conversation with corrective feedback''
       Mode_MultiTurn 6 CONVERSATION
       (config None None None None None (Some True) None)
       (Some 1200) ''spontaneous_production'' NO_STIMULUS_REQUIREMENTS"
| "activity_spec Act_SentenceTransformationSprint =
     spec_rec Act_SentenceTransformationSprint ''Sentence-transformation sprint''
       Mode_Sprint 6 TRANSFORMATION
       (config None None None None None None None)
       None ''controlled_production'' NO_STIMULUS_REQUIREMENTS"
| "activity_spec Act_Dictogloss =
     spec_rec Act_Dictogloss ''Dictogloss'' Mode_SingleResponse 1 RETELL
       (config None (Some 180) None (Some 2) (Some True) None None)
       None ''controlled_production'' RETELL_REQUIREMENTS"
| "activity_spec Act_VoiceDiary =
     spec_rec Act_VoiceDiary ''Voice diary'' Mode_SingleResponse 1
       [Drill_SituationalResponse, Drill_MicroStory]
       (config None (Some 180) None None None None None)
       None ''spontaneous_production'' NO_STIMULUS_REQUIREMENTS"
| "activity_spec Act_ReadCloseExplain =
     spec_rec Act_ReadCloseExplain ''Read, close, explain'' Mode_SingleResponse 1 RETELL
       (config None (Some 120) None None (Some True) None None)
       None ''spontaneous_production'' READ_CLOSE_REQUIREMENTS"
| "activity_spec Act_RolePlayComplications =
     spec_rec Act_RolePlayComplications ''Role-play with complications'' Mode_MultiTurn 4
       ROLE_PLAY
       (config None None None None None (Some True) (Some 1))
       None ''spontaneous_production'' ROLE_PLAY_REQUIREMENTS"

definition activity_catalog :: "activity_spec_rec list" where
  "activity_catalog = map activity_spec activity_type_ALL"

definition is_single_response :: "activity_type \<Rightarrow> bool" where
  "is_single_response a \<longleftrightarrow>
     a \<in> {Act_PictureNarration, Act_RetellReconstruction, Act_Dictogloss, Act_VoiceDiary,
          Act_ReadCloseExplain}"

lemmas catalogue_defs =
  spec_rec_def config_def SITUATIONAL_def PICTURE_def QA_def RETELL_def CONVERSATION_def
  TRANSFORMATION_def ROLE_PLAY_def READ_def VIEWED_def HEARD_OR_VIEWED_def
  READ_OR_CONVERSATION_def NO_STIMULUS_REQUIREMENTS_def PICTURE_REQUIREMENTS_def
  RETELL_REQUIREMENTS_def READ_CLOSE_REQUIREMENTS_def ROLE_PLAY_REQUIREMENTS_def

section \<open>Configuration\<close>

text \<open>The closure \<open>accepts\<close>: which fields apply to which activity.\<close>

datatype config_field =
    PreparationSeconds | ResponseSeconds | QuestionCount | ExposureCount
  | SourceHiddenBeforeResponse | UnpredictableFollowups | ComplicationCount

fun accepts :: "activity_type \<Rightarrow> config_field \<Rightarrow> bool" where
  "accepts a PreparationSeconds \<longleftrightarrow>
     a \<in> {Act_SituationalResponse, Act_PictureNarration, Act_QuestionAnswerSprint}"
| "accepts a ResponseSeconds \<longleftrightarrow>
     a \<in> {Act_SituationalResponse, Act_PictureNarration, Act_QuestionAnswerSprint,
          Act_RetellReconstruction, Act_Dictogloss, Act_VoiceDiary, Act_ReadCloseExplain}"
| "accepts a QuestionCount \<longleftrightarrow> a = Act_QuestionAnswerSprint"
| "accepts a ExposureCount \<longleftrightarrow> a \<in> {Act_RetellReconstruction, Act_Dictogloss}"
| "accepts a SourceHiddenBeforeResponse \<longleftrightarrow>
     a \<in> {Act_RetellReconstruction, Act_Dictogloss, Act_ReadCloseExplain}"
| "accepts a UnpredictableFollowups \<longleftrightarrow>
     a \<in> {Act_CorrectiveConversation, Act_RolePlayComplications}"
| "accepts a ComplicationCount \<longleftrightarrow> a = Act_RolePlayComplications"

definition config_fields :: "activity_config_input \<Rightarrow> (config_field \<times> bool) list" where
  "config_fields c =
     [(PreparationSeconds, cf_preparation_seconds c \<noteq> None),
      (ResponseSeconds, cf_response_seconds c \<noteq> None),
      (QuestionCount, cf_question_count c \<noteq> None),
      (ExposureCount, cf_exposure_count c \<noteq> None),
      (SourceHiddenBeforeResponse, cf_source_hidden_before_response c \<noteq> None),
      (UnpredictableFollowups, cf_unpredictable_followups c \<noteq> None),
      (ComplicationCount, cf_complication_count c \<noteq> None)]"

definition validate_config_fields ::
    "activity_type \<Rightarrow> activity_config_input \<Rightarrow> string + unit" where
  "validate_config_fields a c =
     seqE
      [forE (\<lambda>(field, present). bail_if (present \<and> \<not> accepts a field)
          ''activity config field {field} does not apply to {}'') (config_fields c),
       bail_if (some_and (cf_source_hidden_before_response c) (\<lambda>hidden. \<not> hidden) \<and>
           a \<in> {Act_Dictogloss, Act_ReadCloseExplain})
         ''{} requires source_hidden_before_response=true'']"

definition validate_config_bounds :: "activity_config_input \<Rightarrow> string + unit" where
  "validate_config_bounds c =
     seqE
      [bail_if (some_and (cf_preparation_seconds c) (\<lambda>v. \<not> (1 \<le> v \<and> v \<le> 3600)))
         ''preparation_seconds must be between 1 and 3600'',
       bail_if (some_and (cf_response_seconds c) (\<lambda>v. \<not> (1 \<le> v \<and> v \<le> 3600)))
         ''response_seconds must be between 1 and 3600'',
       bail_if (some_and (cf_question_count c) (\<lambda>v. \<not> (1 \<le> v \<and> v \<le> 20)))
         ''question_count must be between 1 and 20'',
       bail_if (some_and (cf_exposure_count c) (\<lambda>v. \<not> (1 \<le> v \<and> v \<le> 10)))
         ''exposure_count must be between 1 and 10'',
       bail_if (some_and (cf_complication_count c) (\<lambda>v. v > 10))
         ''complication_count must be between 0 and 10'']"

definition merged_config ::
    "activity_type \<Rightarrow> activity_config_input option \<Rightarrow> string + activity_config_input" where
  "merged_config a override_config =
     bindE
       (optE override_config (\<lambda>overrides. seqE
          [validate_config_fields a overrides,
           bail_if (activity_config_is_empty overrides)
             ''activity config must contain at least one field when supplied'']))
       (\<lambda>_. let defaults = as_default_config (activity_spec a) in
         case override_config of
           None \<Rightarrow> Inr defaults
         | Some overrides \<Rightarrow> Inr
             \<lparr>cf_preparation_seconds =
                or_else (cf_preparation_seconds overrides) (cf_preparation_seconds defaults),
              cf_response_seconds =
                or_else (cf_response_seconds overrides) (cf_response_seconds defaults),
              cf_question_count =
                or_else (cf_question_count overrides) (cf_question_count defaults),
              cf_exposure_count =
                or_else (cf_exposure_count overrides) (cf_exposure_count defaults),
              cf_source_hidden_before_response =
                or_else (cf_source_hidden_before_response overrides)
                  (cf_source_hidden_before_response defaults),
              cf_unpredictable_followups =
                or_else (cf_unpredictable_followups overrides)
                  (cf_unpredictable_followups defaults),
              cf_complication_count =
                or_else (cf_complication_count overrides) (cf_complication_count defaults)\<rparr>)"

section \<open>Stimuli\<close>

definition has_content :: "ustring option \<Rightarrow> bool" where
  "has_content s = some_and s (\<lambda>v. \<not> blank v)"

fun allowed_delivery :: "stimulus_kind \<Rightarrow> stimulus_delivery_mode list" where
  "allowed_delivery Stim_Situation = [Deliver_Read, Deliver_Conversation]"
| "allowed_delivery Stim_SourceText = [Deliver_Read]"
| "allowed_delivery Stim_ArticleReference = [Deliver_Read]"
| "allowed_delivery Stim_ImageDescription = [Deliver_Viewed]"
| "allowed_delivery Stim_ImageSequenceDescription = [Deliver_Viewed]"
| "allowed_delivery Stim_MediaTranscript = [Deliver_HeardReported, Deliver_Viewed]"
| "allowed_delivery Stim_Complication = [Deliver_Conversation]"

definition validate_stimulus :: "activity_stimulus_input \<Rightarrow> string + unit" where
  "validate_stimulus s =
     (let has_text = has_content (st_content_text s);
          has_uri = has_content (st_source_uri s)
      in seqE
        [bail_if (st_delivery_mode s \<notin> set (allowed_delivery (st_kind s)))
           ''stimulus kind {} cannot use delivery mode {}'',
         bail_if (\<not> has_text \<and> \<not> has_uri)
           ''stimulus must contain non-empty content_text or source_uri'',
         bail_if (st_kind s \<noteq> Stim_ArticleReference \<and> has_uri)
           ''source_uri is only allowed for article_reference stimuli'',
         bail_if (st_kind s \<in> {Stim_Situation, Stim_SourceText, Stim_ImageDescription,
               Stim_ImageSequenceDescription, Stim_MediaTranscript, Stim_Complication} \<and>
             \<not> has_text)
           ''{} stimuli require content_text''])"

definition stimulus_matches ::
    "stimulus_alternative_spec \<Rightarrow> activity_stimulus_input \<Rightarrow> bool" where
  "stimulus_matches alt s \<longleftrightarrow>
     st_kind s = sa_kind alt \<and> st_delivery_mode s \<in> set (sa_allowed_delivery_modes alt) \<and>
     (\<not> sa_content_text_required alt \<or> has_content (st_content_text s)) \<and>
     (sa_source_uri_allowed alt \<or> st_source_uri s = None)"

definition activity_stimuli_satisfy_requirements ::
    "activity_type \<Rightarrow> activity_stimulus_input list \<Rightarrow> bool" where
  "activity_stimuli_satisfy_requirements a stimuli \<longleftrightarrow>
     list_all (\<lambda>requirement.
       list_ex (\<lambda>alternative. list_ex (stimulus_matches alternative) stimuli) requirement)
       (as_stimulus_requirements (activity_spec a))"

section \<open>Phases of planned items\<close>

definition phase_for_item ::
    "activity_type \<Rightarrow> nat \<Rightarrow> nat \<Rightarrow> nat \<Rightarrow> activity_item_phase" where
  "phase_for_item a item_index item_count complication_count =
     (case a of
        Act_CorrectiveConversation \<Rightarrow>
          if item_index = 0 then Item_Initial else Item_FollowUp
      | Act_RolePlayComplications \<Rightarrow>
          if item_index = 0 then Item_Initial
          else if complication_count > 0 \<and> item_index \<ge> item_count - complication_count
          then Item_Complication else Item_FollowUp
      | _ \<Rightarrow> Item_Initial)"

section \<open>What the configuration checks establish\<close>

definition config_field_present :: "activity_config_input \<Rightarrow> config_field \<Rightarrow> bool" where
  "config_field_present c f \<longleftrightarrow> (f, True) \<in> set (config_fields c)"

definition config_fields_wf :: "activity_type \<Rightarrow> activity_config_input \<Rightarrow> bool" where
  "config_fields_wf a c \<longleftrightarrow>
     (\<forall>f. config_field_present c f \<longrightarrow> accepts a f) \<and>
     (a \<in> {Act_Dictogloss, Act_ReadCloseExplain} \<longrightarrow>
        cf_source_hidden_before_response c \<noteq> Some False)"

definition opt_between :: "nat \<Rightarrow> nat \<Rightarrow> nat option \<Rightarrow> bool" where
  "opt_between lo hi x \<longleftrightarrow> (case x of None \<Rightarrow> True | Some v \<Rightarrow> lo \<le> v \<and> v \<le> hi)"

lemma opt_between_simps [simp]:
  "opt_between lo hi None"
  "opt_between lo hi (Some v) \<longleftrightarrow> lo \<le> v \<and> v \<le> hi"
  by (simp_all add: opt_between_def)

lemma some_and_not_between:
  "\<not> some_and x (\<lambda>v. lo \<le> v \<longrightarrow> \<not> v \<le> hi) \<longleftrightarrow> opt_between lo hi x"
  "\<not> some_and y (\<lambda>v. hi < v) \<longleftrightarrow> opt_between 0 hi y"
  by (cases x; cases y; auto)+

definition config_bounds_wf :: "activity_config_input \<Rightarrow> bool" where
  "config_bounds_wf c \<longleftrightarrow>
     opt_between 1 3600 (cf_preparation_seconds c) \<and>
     opt_between 1 3600 (cf_response_seconds c) \<and>
     opt_between 1 20 (cf_question_count c) \<and>
     opt_between 1 10 (cf_exposure_count c) \<and>
     opt_between 0 10 (cf_complication_count c)"

lemma validate_config_bounds_iff [ok_simps]:
  "validate_config_bounds c = Inr () \<longleftrightarrow> config_bounds_wf c"
  by (simp add: validate_config_bounds_def config_bounds_wf_def ok_simps some_and_not_between
      flip: One_nat_def)

lemma config_field_present_simps [simp]:
  "config_field_present c PreparationSeconds \<longleftrightarrow> cf_preparation_seconds c \<noteq> None"
  "config_field_present c ResponseSeconds \<longleftrightarrow> cf_response_seconds c \<noteq> None"
  "config_field_present c QuestionCount \<longleftrightarrow> cf_question_count c \<noteq> None"
  "config_field_present c ExposureCount \<longleftrightarrow> cf_exposure_count c \<noteq> None"
  "config_field_present c SourceHiddenBeforeResponse \<longleftrightarrow>
     cf_source_hidden_before_response c \<noteq> None"
  "config_field_present c UnpredictableFollowups \<longleftrightarrow> cf_unpredictable_followups c \<noteq> None"
  "config_field_present c ComplicationCount \<longleftrightarrow> cf_complication_count c \<noteq> None"
  by (auto simp: config_field_present_def config_fields_def)

lemma config_field_all:
  "(\<forall>f. P f) \<longleftrightarrow> P PreparationSeconds \<and> P ResponseSeconds \<and> P QuestionCount \<and>
     P ExposureCount \<and> P SourceHiddenBeforeResponse \<and> P UnpredictableFollowups \<and>
     P ComplicationCount"
  by (metis config_field.exhaust)

lemma some_false_iff: "some_and x (\<lambda>h. \<not> h) \<longleftrightarrow> x = Some False"
  by (cases x) auto

lemma validate_config_fields_iff [ok_simps]:
  "validate_config_fields a c = Inr () \<longleftrightarrow> config_fields_wf a c"
proof -
  have "validate_config_fields a c = Inr () \<longleftrightarrow>
      (\<forall>(f, p)\<in>set (config_fields c). \<not> (p \<and> \<not> accepts a f)) \<and>
      \<not> (cf_source_hidden_before_response c = Some False \<and>
           a \<in> {Act_Dictogloss, Act_ReadCloseExplain})"
    by (simp only: validate_config_fields_def ok_simps some_false_iff list.set ball_simps
        case_prod_unfold) auto
  also have "(\<forall>(f, p)\<in>set (config_fields c). \<not> (p \<and> \<not> accepts a f)) \<longleftrightarrow>
      (\<forall>f. config_field_present c f \<longrightarrow> accepts a f)"
    by (auto simp: config_field_present_def)
  finally show ?thesis by (auto simp: config_fields_wf_def)
qed

text \<open>A field set by the override wins over the default of the catalogue.\<close>

lemma merged_config_Inr:
  "merged_config a (Some ov) = Inr c \<longleftrightarrow>
     config_fields_wf a ov \<and> \<not> activity_config_is_empty ov \<and>
     (let d = as_default_config (activity_spec a) in
      c = \<lparr>cf_preparation_seconds =
             or_else (cf_preparation_seconds ov) (cf_preparation_seconds d),
           cf_response_seconds = or_else (cf_response_seconds ov) (cf_response_seconds d),
           cf_question_count = or_else (cf_question_count ov) (cf_question_count d),
           cf_exposure_count = or_else (cf_exposure_count ov) (cf_exposure_count d),
           cf_source_hidden_before_response =
             or_else (cf_source_hidden_before_response ov)
               (cf_source_hidden_before_response d),
           cf_unpredictable_followups =
             or_else (cf_unpredictable_followups ov) (cf_unpredictable_followups d),
           cf_complication_count =
             or_else (cf_complication_count ov) (cf_complication_count d)\<rparr>)"
  by (auto simp: merged_config_def ok_simps Let_def)

lemma merged_config_None [simp]: "merged_config a None = Inr (as_default_config (activity_spec a))"
  by (simp add: merged_config_def)

lemma default_config_fields: "config_fields_wf a (as_default_config (activity_spec a))"
  by (cases a) (auto simp: config_fields_wf_def config_field_all catalogue_defs)

lemma default_config_bounds: "config_bounds_wf (as_default_config (activity_spec a))"
  by (cases a) (auto simp: config_bounds_wf_def catalogue_defs)

lemma or_else_ne_None: "or_else x y \<noteq> None \<longleftrightarrow> x \<noteq> None \<or> y \<noteq> None"
  by (cases x) auto

lemma or_else_between:
  "opt_between lo hi x \<Longrightarrow> opt_between lo hi y \<Longrightarrow> opt_between lo hi (or_else x y)"
  by (cases x) auto

lemma or_else_ne_False: "x \<noteq> Some False \<Longrightarrow> y \<noteq> Some False \<Longrightarrow> or_else x y \<noteq> Some False"
  by (cases x) auto

lemma merged_config_fields_wf:
  assumes "merged_config a ov = Inr c"
  shows "config_fields_wf a c"
proof (cases ov)
  case None
  with assms default_config_fields [of a] show ?thesis by simp
next
  case (Some v)
  define d where "d = as_default_config (activity_spec a)"
  have d: "config_fields_wf a d" by (simp add: d_def default_config_fields)
  from assms Some have v: "config_fields_wf a v" by (simp add: merged_config_Inr)
  from assms [unfolded Some merged_config_Inr Let_def, folded d_def]
  have sel: "cf_preparation_seconds c = or_else (cf_preparation_seconds v) (cf_preparation_seconds d)"
      "cf_response_seconds c = or_else (cf_response_seconds v) (cf_response_seconds d)"
      "cf_question_count c = or_else (cf_question_count v) (cf_question_count d)"
      "cf_exposure_count c = or_else (cf_exposure_count v) (cf_exposure_count d)"
      "cf_source_hidden_before_response c = or_else (cf_source_hidden_before_response v)
         (cf_source_hidden_before_response d)"
      "cf_unpredictable_followups c = or_else (cf_unpredictable_followups v)
         (cf_unpredictable_followups d)"
      "cf_complication_count c = or_else (cf_complication_count v) (cf_complication_count d)"
    by simp_all
  have "config_field_present c f \<longrightarrow> accepts a f" for f
    using d v by (cases f) (auto simp only: config_fields_wf_def config_field_present_simps
        sel or_else_ne_None config_field_all)
  with d v sel(5) or_else_ne_False show ?thesis
    by (auto simp only: config_fields_wf_def)
qed

lemma merged_config_bounds_wf:
  assumes "merged_config a ov = Inr c" and "\<And>v. ov = Some v \<Longrightarrow> config_bounds_wf v"
  shows "config_bounds_wf c"
proof (cases ov)
  case None
  with assms default_config_bounds [of a] show ?thesis by simp
next
  case (Some v)
  with assms default_config_bounds [of a] show ?thesis
    by (auto simp: merged_config_Inr Let_def config_bounds_wf_def intro!: or_else_between)
qed

section \<open>What the stimulus checks establish\<close>

definition stimulus_content_wf :: "activity_stimulus_input \<Rightarrow> bool" where
  "stimulus_content_wf s \<longleftrightarrow>
     st_delivery_mode s \<in> set (allowed_delivery (st_kind s)) \<and>
     (if st_kind s = Stim_ArticleReference
      then has_content (st_content_text s) \<or> has_content (st_source_uri s)
      else has_content (st_content_text s) \<and> \<not> has_content (st_source_uri s))"

lemma validate_stimulus_iff [ok_simps]:
  "validate_stimulus s = Inr () \<longleftrightarrow> stimulus_content_wf s"
  by (cases "st_kind s")
    (auto simp: validate_stimulus_def stimulus_content_wf_def ok_simps Let_def)

text \<open>
  The alternatives of the catalogue ask for a delivery mode the stimulus check allows.
\<close>

lemma catalogue_alternatives_deliverable:
  "requirement \<in> set (as_stimulus_requirements (activity_spec a)) \<Longrightarrow>
   alternative \<in> set requirement \<Longrightarrow>
   set (sa_allowed_delivery_modes alternative) \<subseteq> set (allowed_delivery (sa_kind alternative)) \<and>
   sa_allowed_delivery_modes alternative \<noteq> []"
  by (cases a) (auto simp: catalogue_defs)

section \<open>Phases\<close>

lemma phase_role_play:
  assumes "c < n" and "i < n"
  shows "phase_for_item Act_RolePlayComplications i n c = Item_Complication \<longleftrightarrow> n - c \<le> i"
  using assms by (auto simp: phase_for_item_def)

lemma phase_other:
  "a \<noteq> Act_RolePlayComplications \<Longrightarrow> phase_for_item a i n c \<noteq> Item_Complication"
  by (cases a) (auto simp: phase_for_item_def)

lemma length_filter_upt_ge: "k \<le> n \<Longrightarrow> length (filter ((\<le>) k) [0..<n]) = n - k"
proof -
  assume "k \<le> n"
  then have "[0..<n] = [0..<k] @ [k..<n]"
    using upt_add_eq_append [of 0 k "n - k"] by simp
  moreover have "filter ((\<le>) k) [0..<k] = []" "filter ((\<le>) k) [k..<n] = [k..<n]"
    by (auto simp: filter_empty_conv filter_id_conv)
  ultimately show ?thesis by simp
qed

definition planned_phases :: "activity_type \<Rightarrow> nat \<Rightarrow> nat \<Rightarrow> activity_item_phase list" where
  "planned_phases a n c = map (\<lambda>i. phase_for_item a i n c) [0..<n]"

lemma planned_complications:
  assumes "c < n"
  shows "length (filter (\<lambda>p. p = Item_Complication)
           (planned_phases Act_RolePlayComplications n c)) = c"
proof -
  have "filter (\<lambda>i. phase_for_item Act_RolePlayComplications i n c = Item_Complication) [0..<n]
      = filter ((\<le>) (n - c)) [0..<n]"
    by (rule filter_cong) (auto simp: phase_role_play assms)
  then show ?thesis
    using assms length_filter_upt_ge [of "n - c" n]
    by (simp add: planned_phases_def filter_map comp_def)
qed

section \<open>Properties\<close>

text \<open>
  The catalogue agrees with the rules that use it: an activity is single
  response exactly when its mode says so, it has compatible drills, its default configuration
  passes the field and bound checks, and every stimulus alternative it asks for can be
  delivered in a mode the stimulus check allows.
\<close>

theorem catalogue_consistent:
  "let s = activity_spec a in
     as_activity_type s = a \<and>
     (is_single_response a \<longleftrightarrow> as_interaction_mode s = Mode_SingleResponse) \<and>
     as_compatible_drills s \<noteq> [] \<and>
     validate_config_fields a (as_default_config s) = Inr () \<and>
     validate_config_bounds (as_default_config s) = Inr () \<and>
     list_all (list_all (\<lambda>alt. sa_allowed_delivery_modes alt \<noteq> [] \<and>
       set (sa_allowed_delivery_modes alt) \<subseteq> set (allowed_delivery (sa_kind alt))))
       (as_stimulus_requirements s)"
proof -
  have "as_activity_type (activity_spec a) = a \<and>
      (is_single_response a \<longleftrightarrow> as_interaction_mode (activity_spec a) = Mode_SingleResponse) \<and>
      as_compatible_drills (activity_spec a) \<noteq> []"
    by (cases a) (simp_all add: is_single_response_def catalogue_defs)
  moreover have "list_all (list_all (\<lambda>alt. sa_allowed_delivery_modes alt \<noteq> [] \<and>
      set (sa_allowed_delivery_modes alt) \<subseteq> set (allowed_delivery (sa_kind alt))))
      (as_stimulus_requirements (activity_spec a))"
    using catalogue_alternatives_deliverable by (auto simp: list_all_iff)
  ultimately show ?thesis
    by (simp add: Let_def validate_config_fields_iff validate_config_bounds_iff
        default_config_fields default_config_bounds)
qed



end
