(* ===== verification/ActivityRecording.thy ===== *)
theory ActivityRecording
  imports Activities Samples
begin

text \<open>
  \<open>validate_activity_recording\<close> of \<open>src/activities.rs\<close>, split where the source loops: one
  definition for a stimulus, a run, an item, the per-run consistency check, an attempt and a
  reflection. \<open>runs\<close> (a \<open>HashMap\<close>) is a map, \<open>item_runs\<close> an association list without
  duplicate keys, of which only the values are inspected.
\<close>

section \<open>Runs\<close>

definition check_run_stimulus ::
    "nat set \<Rightarrow> activity_stimulus_input \<Rightarrow> string + nat set" where
  "check_run_stimulus stimuli s =
     bindE
       (seqE
         [bail_if (st_stimulus_no s = 0 \<or> st_stimulus_no s \<in> stimuli)
            ''stimulus_no values must be unique integers of at least 1'',
          bail_if (some_and (st_content_text s) (\<lambda>v. blen v > 8000))
            ''stimulus content_text must be at most 8000 bytes'',
          bail_if (some_and (st_source_uri s) (\<lambda>v. blen v > 2000))
            ''stimulus source_uri must be at most 2000 bytes'',
          bail_if (some_and (st_content_text s) blank)
            ''stimulus content_text must not be empty'',
          bail_if (some_and (st_source_uri s) blank)
            ''stimulus source_uri must not be empty'',
          validate_stimulus s])
       (\<lambda>_. Inr (insert (st_stimulus_no s) stimuli))"

text \<open>The checks of one run after its number, in source order.\<close>

definition check_run_body :: "activity_run_input \<Rightarrow> string + unit" where
  "check_run_body run =
     seqE
      [bail_if (some_and (run_planned_duration_seconds run) (\<lambda>v. \<not> (1 \<le> v \<and> v \<le> 7200)))
         ''planned_duration_seconds must be between 1 and 7200'',
       bail_if (some_and (run_actual_duration_milliseconds run)
           (\<lambda>v. \<not> (1 \<le> v \<and> v \<le> 86400000)))
         ''activity actual_duration_milliseconds must be between 1 and 86400000'',
       bail_if (run_actual_duration_milliseconds run \<noteq> None \<and> run_timing_source run = None)
         ''activity run actual duration requires timing_source'',
       bail_if (run_actual_duration_milliseconds run = None \<and> run_timing_source run \<noteq> None)
         ''activity run timing_source requires actual duration'',
       optE (run_config run) (\<lambda>c. seqE
         [validate_config_fields (run_activity_type run) c,
          validate_config_bounds c,
          bail_if (activity_config_is_empty c)
            ''activity config must contain at least one field when supplied'']),
       bail_if (some_and (run_notes run) (\<lambda>v. blen v > 4000))
         ''activity run notes must be at most 4000 bytes'',
       bail_if (some_and (run_notes run) blank) ''activity run notes must not be empty'',
       bail_if (length (run_stimuli run) > 20)
         ''an activity run may contain at most 20 stimuli'',
       bindE (foldE check_run_stimulus {} (run_stimuli run)) (\<lambda>_. Inr ())]"

definition check_run ::
    "(nat \<rightharpoonup> activity_type) \<Rightarrow> activity_run_input \<Rightarrow> string + (nat \<rightharpoonup> activity_type)" where
  "check_run runs run =
     (if run_run_no run = 0 \<or> runs (run_run_no run) \<noteq> None
      then Inl ''run_no values must be unique integers of at least 1''
      else bindE (check_run_body run)
        (\<lambda>_. Inr (runs(run_run_no run \<mapsto> run_activity_type run))))"

section \<open>Items\<close>

type_synonym item_run_state = "nat set \<times> (nat \<times> nat \<times> activity_item_phase) list"

definition check_item ::
    "bool \<Rightarrow> (nat \<rightharpoonup> activity_type) \<Rightarrow> item_run_state \<Rightarrow> practice_item_input \<Rightarrow>
     string + item_run_state" where
  "check_item activity_aware runs st item =
     (let item_numbers = insert (it_item_no item) (fst st); item_runs = snd st in
      if activity_aware then
        bindE (ok_or (it_activity_run_no item)
            ''every activity-aware item requires activity_run_no'') (\<lambda>run_no.
        bindE (ok_or (runs run_no) ''item references unknown activity run {run_no}'')
          (\<lambda>activity_type.
        bindE (seqE
           [bail_if (length (it_target_weakness_keys item) \<noteq> 1)
              ''each activity item must target exactly one weakness'',
            bail_if (it_drill_type item \<notin>
                set (as_compatible_drills (activity_spec activity_type)))
              ''drill type {} is incompatible with activity {}'',
            bail_if (unwrap_or (it_item_phase item) Item_Initial = Item_Complication \<and>
                activity_type \<notin> {Act_RolePlayComplications, Act_CorrectiveConversation})
              ''complication item phase is not valid for this activity''])
          (\<lambda>_. Inr (item_numbers,
             AList.update (it_item_no item)
               (run_no, unwrap_or (it_item_phase item) Item_Initial) item_runs))))
      else if it_activity_run_no item \<noteq> None \<or> it_item_phase item \<noteq> None
      then Inl ''activity item fields require declared activity_runs''
      else Inr (item_numbers, item_runs))"

section \<open>Runs against their items\<close>

text \<open>
  The tail of the loop body: what the configuration of a run says about the items linked
  to it.
\<close>

definition check_run_counts ::
    "activity_run_input \<Rightarrow> (nat \<times> activity_item_phase) list \<Rightarrow> string + unit" where
  "check_run_counts run linked =
     optE (run_config run) (\<lambda>c. seqE
       [optE (cf_question_count c) (\<lambda>n. bail_if (n \<noteq> length linked)
          ''question_count must equal linked item count''),
        optE (cf_complication_count c) (\<lambda>n. seqE
          [bail_if (n \<noteq> length (filter (\<lambda>(_, phase). phase = Item_Complication) linked))
             ''complication_count must equal complication item count'',
           bail_if (n \<ge> length linked)
             ''complication_count must be smaller than item count''])])"

definition check_run_required_config :: "activity_run_input \<Rightarrow> string + unit" where
  "check_run_required_config run =
     (case run_activity_type run of
        Act_Dictogloss \<Rightarrow>
          bindE (ok_or (run_config run) ''dictogloss requires activity config'') (\<lambda>c. seqE
            [bail_if (cf_exposure_count c = None)
               ''dictogloss requires config.exposure_count'',
             bail_if (cf_source_hidden_before_response c \<noteq> Some True)
               ''dictogloss requires source_hidden_before_response=true''])
      | Act_ReadCloseExplain \<Rightarrow>
          bail_if (Option.bind (run_config run) cf_source_hidden_before_response \<noteq> Some True)
            ''read_close_explain requires source_hidden_before_response=true''
      | _ \<Rightarrow> Inr ())"

definition check_run_items ::
    "(nat \<times> nat \<times> activity_item_phase) list \<Rightarrow> activity_run_input \<Rightarrow> string + unit" where
  "check_run_items item_runs run =
     (let linked = filter (\<lambda>(run_no, _). run_no = run_run_no run) (map snd item_runs) in
      seqE
       [bail_if (is_single_response (run_activity_type run) \<and> length linked \<noteq> 1)
          ''{} requires exactly one practice item'',
        bail_if (\<not> is_single_response (run_activity_type run) \<and> linked = [])
          ''{} requires at least one practice item'',
        bail_if (\<not> activity_stimuli_satisfy_requirements (run_activity_type run)
            (run_stimuli run))
          ''{} does not contain a stimulus satisfying its declared requirements'',
        check_run_required_config run,
        check_run_counts run linked])"

section \<open>Attempts\<close>

definition check_reflection ::
    "nat set \<Rightarrow> attempt_reflection_input \<Rightarrow> string + nat set" where
  "check_reflection numbers rf =
     bindE (seqE
       [bail_if (rf_reflection_no rf = 0 \<or> rf_reflection_no rf \<in> numbers)
          ''reflection_no values must be unique integers of at least 1'',
        bail_if (blank (rf_note rf)) ''reflection.note must not be empty'',
        bail_if (blen (rf_note rf) > 2000) ''reflection.note must be at most 2000 bytes'',
        bail_if (rf_source rf = Refl_Assistant \<and> rf_kind rf \<noteq> ReflKind_General)
          ''assistant reflections may only use kind=general'',
        bail_if (rf_kind rf \<noteq> ReflKind_General \<and> rf_source rf \<noteq> Refl_Learner)
          ''reported reflections require source=learner''])
       (\<lambda>_. Inr (insert (rf_reflection_no rf) numbers))"

definition check_attempt :: "bool \<Rightarrow> attempt_input \<Rightarrow> string + unit" where
  "check_attempt activity_aware a =
     seqE
      [bail_if (some_and (at_response_latency_milliseconds a)
           (\<lambda>v. \<not> (1 \<le> v \<and> v \<le> 3600000)))
         ''response_latency_milliseconds must be between 1 and 3600000'',
       bail_if (at_response_latency_milliseconds a \<noteq> None \<and> at_timing_source a = None)
         ''response latency requires timing_source'',
       bail_if (at_actual_duration_milliseconds a \<noteq> None \<and> at_timing_source a = None \<and>
           activity_aware)
         ''activity-aware attempt actual duration requires timing_source'',
       bail_if (some_and (at_actual_duration_milliseconds a)
           (\<lambda>v. \<not> (1 \<le> v \<and> v \<le> 86400000)))
         ''actual_duration_milliseconds must be between 1 and 86400000'',
       bail_if (at_timing_source a \<noteq> None \<and> at_actual_duration_milliseconds a = None \<and>
           at_response_latency_milliseconds a = None)
         ''attempt timing_source requires a duration or response latency'',
       bail_if (length (at_reflections a) > 20)
         ''an attempt may contain at most 20 reflections'',
       bindE (foldE check_reflection {} (at_reflections a)) (\<lambda>_. Inr ())]"

definition check_attempt_item :: "nat set \<Rightarrow> attempt_input \<Rightarrow> string + unit" where
  "check_attempt_item item_numbers a =
     bindE (ok_or (at_practice_item_no a)
         ''activity-aware attempts require practice_item_no'')
       (\<lambda>item_no. bail_if (item_no \<notin> item_numbers)
         ''attempt references unknown practice item {item_no}'')"

definition validate_activity_recording :: "record_request \<Rightarrow> string + unit" where
  "validate_activity_recording r =
     bindE (bail_if (length (rr_activity_runs r) > 10)
       ''a session may contain at most 10 activity runs'') (\<lambda>_.
     let activity_aware = (rr_activity_runs r \<noteq> []) in
     bindE (foldE check_run Map.empty (rr_activity_runs r)) (\<lambda>runs.
     bindE (foldE (check_item activity_aware runs) ({}, []) (rr_items r)) (\<lambda>st.
     seqE
      [if activity_aware
       then seqE [forE (check_attempt_item (fst st)) (rr_attempts r),
                  forE (check_run_items (snd st)) (rr_activity_runs r)]
       else Inr (),
       forE (check_attempt activity_aware) (rr_attempts r)])))"

section \<open>What a recorded session may contain\<close>

text \<open>
  The declarative counterpart. Texts are neither blank nor over their limit, numbers are
  positive and distinct, a duration comes with the source of its timing.
\<close>

definition numbers_ok :: "nat list \<Rightarrow> bool" where
  "numbers_ok ns \<longleftrightarrow> distinct ns \<and> 0 \<notin> set ns"

lemma numbers_ok_map:
  "numbers_ok (map f xs) \<longleftrightarrow> distinct (map f xs) \<and> 0 \<notin> f ` set xs"
  by (simp add: numbers_ok_def)

lemma opt_text_ok_iff:
  "opt_text_ok x n \<longleftrightarrow> \<not> some_and x (\<lambda>v. n < blen v) \<and> \<not> some_and x blank"
  by (cases x) (auto simp: opt_text_ok_def text_ok_def)

definition stimulus_wf :: "activity_stimulus_input \<Rightarrow> bool" where
  "stimulus_wf s \<longleftrightarrow> opt_text_ok (st_content_text s) 8000 \<and> opt_text_ok (st_source_uri s) 2000 \<and>
     stimulus_content_wf s"

definition run_wf :: "activity_run_input \<Rightarrow> bool" where
  "run_wf run \<longleftrightarrow>
     opt_between 1 7200 (run_planned_duration_seconds run) \<and>
     opt_between 1 86400000 (run_actual_duration_milliseconds run) \<and>
     (run_actual_duration_milliseconds run = None \<longleftrightarrow> run_timing_source run = None) \<and>
     (\<forall>c. run_config run = Some c \<longrightarrow>
        config_fields_wf (run_activity_type run) c \<and> config_bounds_wf c \<and>
        \<not> activity_config_is_empty c) \<and>
     opt_text_ok (run_notes run) 4000 \<and>
     length (run_stimuli run) \<le> 20 \<and>
     numbers_ok (map st_stimulus_no (run_stimuli run)) \<and>
     (\<forall>s\<in>set (run_stimuli run). stimulus_wf s)"

definition reflection_wf :: "attempt_reflection_input \<Rightarrow> bool" where
  "reflection_wf rf \<longleftrightarrow> text_ok (rf_note rf) 2000 \<and>
     (rf_kind rf = ReflKind_General \<or> rf_source rf = Refl_Learner)"

definition attempt_wf :: "bool \<Rightarrow> attempt_input \<Rightarrow> bool" where
  "attempt_wf activity_aware a \<longleftrightarrow>
     opt_between 1 3600000 (at_response_latency_milliseconds a) \<and>
     opt_between 1 86400000 (at_actual_duration_milliseconds a) \<and>
     (at_timing_source a = None \<longrightarrow>
        at_response_latency_milliseconds a = None \<and>
        (activity_aware \<longrightarrow> at_actual_duration_milliseconds a = None)) \<and>
     (at_timing_source a \<noteq> None \<longrightarrow>
        at_response_latency_milliseconds a \<noteq> None \<or> at_actual_duration_milliseconds a \<noteq> None) \<and>
     length (at_reflections a) \<le> 20 \<and>
     numbers_ok (map rf_reflection_no (at_reflections a)) \<and>
     (\<forall>rf\<in>set (at_reflections a). reflection_wf rf)"

text \<open>The phase an item is counted under, and the items of a run.\<close>

definition item_phase :: "practice_item_input \<Rightarrow> activity_item_phase" where
  "item_phase item = unwrap_or (it_item_phase item) Item_Initial"

definition items_of_run ::
    "practice_item_input list \<Rightarrow> activity_run_input \<Rightarrow> practice_item_input list" where
  "items_of_run items run = filter (\<lambda>i. it_activity_run_no i = Some (run_run_no run)) items"

definition item_wf :: "activity_run_input list \<Rightarrow> practice_item_input \<Rightarrow> bool" where
  "item_wf runs item \<longleftrightarrow>
     (\<exists>run\<in>set runs. it_activity_run_no item = Some (run_run_no run) \<and>
        length (it_target_weakness_keys item) = 1 \<and>
        it_drill_type item \<in> set (as_compatible_drills (activity_spec (run_activity_type run))) \<and>
        (item_phase item = Item_Complication \<longrightarrow>
           run_activity_type run \<in> {Act_RolePlayComplications, Act_CorrectiveConversation}))"

definition run_items_wf :: "practice_item_input list \<Rightarrow> activity_run_input \<Rightarrow> bool" where
  "run_items_wf items run \<longleftrightarrow>
     (let linked = items_of_run items run in
      (if is_single_response (run_activity_type run) then length linked = 1 else linked \<noteq> []) \<and>
      activity_stimuli_satisfy_requirements (run_activity_type run) (run_stimuli run) \<and>
      (run_activity_type run \<in> {Act_Dictogloss, Act_ReadCloseExplain} \<longrightarrow>
         (\<exists>c. run_config run = Some c \<and> cf_source_hidden_before_response c = Some True \<and>
            (run_activity_type run = Act_Dictogloss \<longrightarrow> cf_exposure_count c \<noteq> None))) \<and>
      (\<forall>c. run_config run = Some c \<longrightarrow>
         (\<forall>n. cf_question_count c = Some n \<longrightarrow> length linked = n) \<and>
         (\<forall>n. cf_complication_count c = Some n \<longrightarrow>
            length (filter (\<lambda>i. item_phase i = Item_Complication) linked) = n \<and>
            n < length linked)))"

definition activity_recording_wf :: "record_request \<Rightarrow> bool" where
  "activity_recording_wf r \<longleftrightarrow>
     length (rr_activity_runs r) \<le> 10 \<and>
     numbers_ok (map run_run_no (rr_activity_runs r)) \<and>
     (\<forall>run\<in>set (rr_activity_runs r). run_wf run) \<and>
     (\<forall>a\<in>set (rr_attempts r). attempt_wf (rr_activity_runs r \<noteq> []) a) \<and>
     (if rr_activity_runs r = []
      then \<forall>i\<in>set (rr_items r). it_activity_run_no i = None \<and> it_item_phase i = None
      else
        (\<forall>i\<in>set (rr_items r). item_wf (rr_activity_runs r) i) \<and>
        (\<forall>a\<in>set (rr_attempts r). \<exists>i\<in>set (rr_items r). at_practice_item_no a = Some (it_item_no i)) \<and>
        (\<forall>run\<in>set (rr_activity_runs r). run_items_wf (rr_items r) run))"

section \<open>The loops\<close>

interpretation stimulus_numbers:
    numbered_check st_stimulus_no "\<lambda>s. s" check_run_stimulus stimulus_wf
  by unfold_locales (auto simp: check_run_stimulus_def stimulus_wf_def opt_text_ok_iff ok_simps)

lemma run_duration_timing:
  "\<not> (d \<noteq> None \<and> t = None) \<and> \<not> (d = None \<and> t \<noteq> None) \<longleftrightarrow> (d = None \<longleftrightarrow> t = None)"
  by auto

lemma check_run_body_iff [ok_simps]: "check_run_body run = Inr () \<longleftrightarrow> run_wf run"
  unfolding check_run_body_def run_wf_def numbers_ok_map opt_text_ok_iff
  by (auto simp: ok_simps stimulus_numbers.loop_iff some_and_not_between not_less
      simp flip: One_nat_def)

interpretation run_numbers: numbered_check run_run_no dom check_run run_wf
  by unfold_locales (auto simp: check_run_def ok_simps split: if_splits)

interpretation reflection_numbers:
    numbered_check rf_reflection_no "\<lambda>s. s" check_reflection reflection_wf
  by unfold_locales
    (auto simp: check_reflection_def reflection_wf_def text_ok_def ok_simps not_less
      intro: reflection_source.exhaust)

lemma check_attempt_iff [ok_simps]:
  "check_attempt activity_aware a = Inr () \<longleftrightarrow> attempt_wf activity_aware a"
  unfolding check_attempt_def attempt_wf_def numbers_ok_map
  by (auto simp: ok_simps reflection_numbers.loop_iff some_and_not_between not_less
      simp flip: One_nat_def)

section \<open>The declared runs as a map\<close>

lemma check_runs_map:
  "foldE check_run m xs = Inr m' \<Longrightarrow>
     m' = m ++ map_of (map (\<lambda>run. (run_run_no run, run_activity_type run)) xs)"
proof (induction xs arbitrary: m)
  case (Cons x xs)
  then obtain m1 where m1: "check_run m x = Inr m1" and rest: "foldE check_run m1 xs = Inr m'"
    by (auto simp: ok_simps)
  from m1 have m1_eq: "m1 = m(run_run_no x \<mapsto> run_activity_type x)"
    by (auto simp: check_run_def ok_simps split: if_splits)
  from run_numbers.loop_distinct [OF Cons.prems]
  have "run_run_no x \<notin> dom (map_of (map (\<lambda>run. (run_run_no run, run_activity_type run)) xs))"
    by (auto simp: dom_map_of_conv_image_fst)
  with Cons.IH [OF rest] m1_eq show ?case
    by (auto simp: map_add_def fun_eq_iff dom_def split: option.splits)
qed simp

lemma check_runs_lookup:
  assumes "foldE check_run Map.empty xs = Inr runs"
  shows "runs n = Some t \<longleftrightarrow> (\<exists>run\<in>set xs. run_run_no run = n \<and> run_activity_type run = t)"
proof -
  have "distinct (map fst (map (\<lambda>run. (run_run_no run, run_activity_type run)) xs))"
    using run_numbers.loop_distinct [OF assms] by (simp add: comp_def)
  then show ?thesis
    using check_runs_map [OF assms] by (auto simp: map_of_eq_Some_iff)
qed

section \<open>The items\<close>

definition item_entry :: "practice_item_input \<Rightarrow> nat \<times> nat \<times> activity_item_phase" where
  "item_entry i = (it_item_no i, the (it_activity_run_no i), item_phase i)"

definition item_ok :: "(nat \<rightharpoonup> activity_type) \<Rightarrow> practice_item_input \<Rightarrow> bool" where
  "item_ok runs i \<longleftrightarrow>
     (\<exists>run_no t. it_activity_run_no i = Some run_no \<and> runs run_no = Some t \<and>
        length (it_target_weakness_keys i) = 1 \<and>
        it_drill_type i \<in> set (as_compatible_drills (activity_spec t)) \<and>
        (item_phase i = Item_Complication \<longrightarrow>
           t \<in> {Act_RolePlayComplications, Act_CorrectiveConversation}))"

lemma check_item_aware:
  "check_item True runs st i = Inr st' \<longleftrightarrow>
     item_ok runs i \<and>
     st' = (insert (it_item_no i) (fst st),
            AList.update (it_item_no i) (snd (item_entry i)) (snd st))"
  by (auto simp: check_item_def item_ok_def item_entry_def item_phase_def ok_simps Let_def)

lemma check_item_unaware:
  "check_item False runs st i = Inr st' \<longleftrightarrow>
     it_activity_run_no i = None \<and> it_item_phase i = None \<and>
     st' = (insert (it_item_no i) (fst st), snd st)"
  by (auto simp: check_item_def Let_def)

lemma AList_update_fresh: "k \<notin> fst ` set xs \<Longrightarrow> AList.update k v xs = xs @ [(k, v)]"
  by (induction xs) auto

lemma check_items_aware:
  assumes "distinct (map it_item_no items)"
    and "it_item_no ` set items \<inter> fst ` set (snd st) = {}"
  shows "foldE (check_item True runs) st items = Inr st' \<longleftrightarrow>
     (\<forall>i\<in>set items. item_ok runs i) \<and>
     st' = (fst st \<union> it_item_no ` set items, snd st @ map item_entry items)"
  using assms
proof (induction items arbitrary: st)
  case Nil
  show ?case by (auto simp: prod_eq_iff)
next
  case (Cons i items)
  let ?st = "(insert (it_item_no i) (fst st), snd st @ [item_entry i])"
  from Cons.prems have upd:
    "AList.update (it_item_no i) (snd (item_entry i)) (snd st) = snd st @ [item_entry i]"
    by (subst AList_update_fresh) (auto simp: item_entry_def)
  have IH: "foldE (check_item True runs) ?st items = Inr st' \<longleftrightarrow>
     (\<forall>i\<in>set items. item_ok runs i) \<and>
     st' = (fst ?st \<union> it_item_no ` set items, snd ?st @ map item_entry items)"
    by (rule Cons.IH) (use Cons.prems in \<open>auto simp: item_entry_def\<close>)
  have "foldE (check_item True runs) st (i # items) = Inr st' \<longleftrightarrow>
      item_ok runs i \<and> foldE (check_item True runs) ?st items = Inr st'"
    by (auto simp: foldE_Cons_Inr check_item_aware upd simp del: foldE.simps)
  with IH show ?case by auto
qed

lemma check_items_unaware:
  "(\<exists>st'. foldE (check_item False runs) st items = Inr st') \<longleftrightarrow>
     (\<forall>i\<in>set items. it_activity_run_no i = None \<and> it_item_phase i = None)"
  by (induction items arbitrary: st)
    (simp_all add: foldE_Cons_Inr check_item_unaware del: foldE.simps(2) split_paired_Ex)

section \<open>The runs against their items\<close>

lemma linked_items:
  assumes "\<forall>i\<in>set items. it_activity_run_no i \<noteq> None"
  shows "filter (\<lambda>(run_no, _). run_no = run_run_no run) (map snd (map item_entry items)) =
    map (snd \<circ> item_entry) (items_of_run items run)"
  using assms by (induction items) (auto simp: items_of_run_def item_entry_def)

lemma complications_linked:
  "length (filter (\<lambda>(_, phase). phase = Item_Complication) (map (snd \<circ> item_entry) items)) =
   length (filter (\<lambda>i. item_phase i = Item_Complication) items)"
  by (induction items) (auto simp: item_entry_def)

lemma check_run_required_config_iff [ok_simps]:
  "check_run_required_config run = Inr () \<longleftrightarrow>
     (run_activity_type run \<in> {Act_Dictogloss, Act_ReadCloseExplain} \<longrightarrow>
        (\<exists>c. run_config run = Some c \<and> cf_source_hidden_before_response c = Some True \<and>
           (run_activity_type run = Act_Dictogloss \<longrightarrow> cf_exposure_count c \<noteq> None)))"
  by (cases "run_activity_type run"; cases "run_config run")
    (auto simp: check_run_required_config_def ok_simps)

lemma check_run_counts_iff:
  "check_run_counts run (map (snd \<circ> item_entry) items) = Inr () \<longleftrightarrow>
     (\<forall>c. run_config run = Some c \<longrightarrow>
        (\<forall>n. cf_question_count c = Some n \<longrightarrow> length items = n) \<and>
        (\<forall>n. cf_complication_count c = Some n \<longrightarrow>
           length (filter (\<lambda>i. item_phase i = Item_Complication) items) = n \<and>
           n < length items))"
  unfolding check_run_counts_def complications_linked by (auto simp: ok_simps)

lemma check_run_items_iff:
  assumes "\<forall>i\<in>set items. it_activity_run_no i \<noteq> None"
  shows "check_run_items (map item_entry items) run = Inr () \<longleftrightarrow> run_items_wf items run"
  unfolding check_run_items_def run_items_wf_def linked_items [OF assms] Let_def
  by (auto simp: ok_simps check_run_counts_iff)

lemma validate_activity_recording_iff:
  assumes "distinct (map it_item_no (rr_items r))"
  shows "validate_activity_recording r = Inr () \<longleftrightarrow> activity_recording_wf r"
proof (cases "rr_activity_runs r = []")
  case True
  then show ?thesis
    by (auto simp: validate_activity_recording_def activity_recording_wf_def ok_simps Let_def
        numbers_ok_def check_items_unaware simp del: split_paired_Ex)
next
  case False
  let ?runs = "rr_activity_runs r" and ?items = "rr_items r"
  have items: "(\<forall>i\<in>set ?items. item_ok runs i) \<longleftrightarrow> (\<forall>i\<in>set ?items. item_wf ?runs i)"
    if "foldE check_run Map.empty ?runs = Inr runs" for runs
    by (auto simp: item_ok_def item_wf_def check_runs_lookup [OF that]) blast+
  have st: "foldE (check_item True runs) ({}, []) ?items = Inr st \<longleftrightarrow>
      (\<forall>i\<in>set ?items. item_ok runs i) \<and> st = (it_item_no ` set ?items, map item_entry ?items)"
    for runs st
    using check_items_aware [OF assms, of "({}, [])"] by simp
  have att: "(\<forall>a\<in>set (rr_attempts r). check_attempt_item (it_item_no ` set ?items) a = Inr ()) \<longleftrightarrow>
      (\<forall>a\<in>set (rr_attempts r). \<exists>i\<in>set ?items. at_practice_item_no a = Some (it_item_no i))"
    by (auto simp: check_attempt_item_def ok_simps)
  have linked: "(\<forall>run\<in>set ?runs. check_run_items (map item_entry ?items) run = Inr ()) \<longleftrightarrow>
      (\<forall>run\<in>set ?runs. run_items_wf ?items run)"
    if "\<forall>i\<in>set ?items. item_wf ?runs i"
    using that by (intro ball_cong check_run_items_iff) (auto simp: item_wf_def)
  have "validate_activity_recording r = Inr () \<longleftrightarrow>
      length ?runs \<le> 10 \<and>
      (\<exists>runs. foldE check_run Map.empty ?runs = Inr runs \<and> (\<forall>i\<in>set ?items. item_ok runs i)) \<and>
      (\<forall>a\<in>set (rr_attempts r). check_attempt_item (it_item_no ` set ?items) a = Inr ()) \<and>
      (\<forall>run\<in>set ?runs. check_run_items (map item_entry ?items) run = Inr ()) \<and>
      (\<forall>a\<in>set (rr_attempts r). attempt_wf True a)"
    using False
    by (auto simp: validate_activity_recording_def ok_simps Let_def st)
  also have "\<dots> \<longleftrightarrow> length ?runs \<le> 10 \<and>
      (\<exists>runs. foldE check_run Map.empty ?runs = Inr runs) \<and> (\<forall>i\<in>set ?items. item_wf ?runs i) \<and>
      (\<forall>a\<in>set (rr_attempts r). \<exists>i\<in>set ?items. at_practice_item_no a = Some (it_item_no i)) \<and>
      (\<forall>run\<in>set ?runs. run_items_wf ?items run) \<and>
      (\<forall>a\<in>set (rr_attempts r). attempt_wf True a)"
    using items att linked by blast
  also have "\<dots> \<longleftrightarrow> activity_recording_wf r"
    using False
    by (auto simp: activity_recording_wf_def run_numbers.loop_iff numbers_ok_map)
  finally show ?thesis .
qed

section \<open>Properties\<close>

text \<open>
  Property C20. \<open>validate_activity_recording\<close> accepts a session (whose items have distinct
  numbers) exactly when it satisfies the declarative rules \<open>activity_recording_wf\<close> on runs,
  stimuli, configurations, items, attempts and reflections.
\<close>

theorem activity_recording_accepted_iff:
  assumes "distinct (map it_item_no (rr_items r))"
  shows "validate_activity_recording r = Inr () \<longleftrightarrow> activity_recording_wf r"
  by (rule validate_activity_recording_iff [OF assms])

lemma role_play_wf: "activity_recording_wf role_play"
  by (simp add: activity_recording_wf_def run_wf_def stimulus_wf_def stimulus_content_wf_def
      attempt_wf_def config_fields_wf_def config_field_all config_bounds_wf_def
      activity_config_is_empty_def numbers_ok_def item_wf_def run_items_wf_def items_of_run_def
      item_phase_def opt_text_ok_def text_ok_def has_content_def is_single_response_def
      activity_stimuli_satisfy_requirements_def stimulus_matches_def catalogue_defs
      blank_lit is_white_def blen_def lit_def cp_len_def blank_iff sample_defs)

theorem activity_recording_accepted_iff_witness:
  "validate_activity_recording role_play = Inr ()"
  using activity_recording_accepted_iff [of role_play] role_play_wf by (simp add: sample_defs)

text \<open>
  The phases planned for a role play with \<open>c\<close> complications in \<open>n\<close> items are
  ones the recorder accepts for that configuration: exactly the last \<open>c\<close> items are
  complications, and a session that follows the plan passes the run's count checks.
\<close>

theorem planned_phases_recorded:
  assumes "c < n" and "map item_phase items = planned_phases Act_RolePlayComplications n c"
    and "run_config run = Some cfg" and "cf_question_count cfg = None"
    and "cf_complication_count cfg = Some c"
  shows "check_run_counts run (map (snd \<circ> item_entry) items) = Inr () \<and>
    planned_phases Act_RolePlayComplications n c ! 0 = Item_Initial"
proof -
  have "length items = n"
    using arg_cong [OF assms(2), of length] by (simp add: planned_phases_def)
  moreover have "length (filter (\<lambda>i. item_phase i = Item_Complication) items) = c"
  proof -
    have "length (filter (\<lambda>i. item_phase i = Item_Complication) items) =
        length (filter (\<lambda>p. p = Item_Complication) (map item_phase items))"
      by (simp add: filter_map comp_def)
    then show ?thesis by (simp add: assms(2) planned_complications [OF assms(1)])
  qed
  moreover have "planned_phases Act_RolePlayComplications n c ! 0 = Item_Initial"
    using assms(1) by (simp add: planned_phases_def phase_for_item_def)
  ultimately show ?thesis using assms by (simp add: check_run_counts_iff)
qed

theorem planned_phases_recorded_witness:
  "check_run_counts sample_run (map (snd \<circ> item_entry) (rr_items role_play)) = Inr ()"
proof -
  have "map item_phase (rr_items role_play) = planned_phases Act_RolePlayComplications 2 1"
    by (simp add: sample_defs item_phase_def planned_phases_def phase_for_item_def upt_rec)
  moreover obtain cfg where "run_config sample_run = Some cfg" "cf_question_count cfg = None"
      "cf_complication_count cfg = Some 1"
    by (simp add: sample_run_def)
  ultimately show ?thesis
    using planned_phases_recorded [of 1 2 "rr_items role_play" sample_run cfg] by simp
qed

end
