(* ===== verification/PreferenceUpdates.thy ===== *)
theory PreferenceUpdates
  imports Preferences
begin

text \<open>
  Interleavings of \<open>update\<close> (\<open>src/production.rs\<close>): any number of requests are in flight,
  each of which has read the row (\<open>SELECT\<close>) and later runs its conditional write. The
  version column is the guard: a write succeeds only against the row its request read, so
  no accepted change is lost.
\<close>

record update_world =
  uw_db :: preference_db
  uw_pending :: "nat \<rightharpoonup> update_preferences_request \<times> preference_db"
  uw_accepted :: "preference_patch list"

text \<open>The patches accepted so far are recorded, latest first.\<close>

inductive update_step :: "update_world \<Rightarrow> update_world \<Rightarrow> bool" where
  read: "uw_pending w c = None \<Longrightarrow>
     update_step w (w\<lparr>uw_pending := (uw_pending w)(c \<mapsto> (x, uw_db w))\<rparr>)"
| accept: "uw_pending w c = Some (x, snapshot) \<Longrightarrow>
     update_commit now snapshot (uw_db w) x = (Inr v, db') \<Longrightarrow>
     update_step w (w\<lparr>uw_db := db', uw_pending := (uw_pending w)(c := None),
        uw_accepted := up_patch x # uw_accepted w\<rparr>)"
| refuse: "uw_pending w c = Some (x, snapshot) \<Longrightarrow>
     update_commit now snapshot (uw_db w) x = (Inl e, db') \<Longrightarrow>
     update_step w (w\<lparr>uw_db := db', uw_pending := (uw_pending w)(c := None)\<rparr>)"

inductive_cases update_stepE: "update_step w w'"

definition update_init :: update_world where
  "update_init = \<lparr>uw_db = None, uw_pending = Map.empty, uw_accepted = []\<rparr>"

definition update_reachable :: "update_world \<Rightarrow> bool" where
  "update_reachable w \<longleftrightarrow> update_step\<^sup>*\<^sup>* update_init w"

text \<open>The abstract history: the accepted patches, merged in order over the defaults.\<close>

definition replay :: "preference_patch list \<Rightarrow> preferences" where
  "replay ps = foldr (\<lambda>p b. merge b p) ps defaults"

lemma replay_simps [simp]: "replay [] = defaults" "replay (p # ps) = merge (replay ps) p"
  by (simp_all add: replay_def)

definition update_inv :: "update_world \<Rightarrow> bool" where
  "update_inv w \<longleftrightarrow>
     pv_version (get (uw_db w)) = length (uw_accepted w) \<and>
     pv_preferences (get (uw_db w)) = replay (uw_accepted w) \<and>
     preference_db_wf (uw_db w) \<and>
     (\<forall>c x snapshot. uw_pending w c = Some (x, snapshot) \<longrightarrow>
        pv_version (get snapshot) \<le> pv_version (get (uw_db w)) \<and>
        (pv_version (get snapshot) = pv_version (get (uw_db w)) \<longrightarrow> snapshot = uw_db w))"

lemma get_simps [simp]:
  "pv_version (get None) = 0" "pv_preferences (get None) = defaults"
  "pv_version (get (Some row)) = pr_version row"
  "pv_preferences (get (Some row)) = pr_preferences row"
  by (simp_all add: get_def)

lemma update_commit_version:
  assumes "update_commit now snapshot db x = (Inr v, db')"
    and "preference_db_wf db"
  shows "pv_version (get snapshot) = up_expected_version x"
    and "pv_version (get db) = up_expected_version x \<or> db = None"
    and "pv_version (get db') = Suc (up_expected_version x)"
    and "pv_preferences (get db') = merge (pv_preferences (get snapshot)) (up_patch x)"
    and "preference_db_wf db'"
  using assms by (auto simp: update_commit_Inr Let_def preference_db_wf_def)

lemma update_inv_accept:
  assumes inv: "update_inv w" and pend: "uw_pending w c = Some (x, snapshot)"
    and commit: "update_commit now snapshot (uw_db w) x = (Inr v, db')"
  shows "snapshot = uw_db w"
    and "update_inv (w\<lparr>uw_db := db', uw_pending := (uw_pending w)(c := None),
           uw_accepted := up_patch x # uw_accepted w\<rparr>)"
proof -
  have wf: "preference_db_wf (uw_db w)" using inv by (simp add: update_inv_def)
  note v = update_commit_version [OF commit wf]
  have le: "pv_version (get snapshot) \<le> pv_version (get (uw_db w))"
    and eq: "pv_version (get snapshot) = pv_version (get (uw_db w)) \<longrightarrow> snapshot = uw_db w"
    using inv pend unfolding update_inv_def by blast+
  have ver: "pv_version (get (uw_db w)) = up_expected_version x"
    using v(1) v(2) le by auto
  then show snap: "snapshot = uw_db w" using v(1) eq by simp
  have "pv_version (get s) \<le> pv_version (get db') \<and> pv_version (get s) \<noteq> pv_version (get db')"
    if "uw_pending w d = Some (y, s)" for d y s
    using inv that ver v(3) unfolding update_inv_def by (metis le_SucI not_less_eq_eq order_refl)
  then show "update_inv (w\<lparr>uw_db := db', uw_pending := (uw_pending w)(c := None),
           uw_accepted := up_patch x # uw_accepted w\<rparr>)"
    using inv v ver snap unfolding update_inv_def by (auto split: if_splits)
qed

lemma update_inv_step: "update_step w w' \<Longrightarrow> update_inv w \<Longrightarrow> update_inv w'"
proof (induction rule: update_step.induct)
  case (read w c x)
  then show ?case by (auto simp: update_inv_def)
next
  case (accept w c x snapshot now v db')
  then show ?case by (rule_tac update_inv_accept(2))
next
  case (refuse w c x snapshot now e db')
  then have "db' = uw_db w" by (blast dest: update_commit_Inl)
  with refuse show ?case unfolding update_inv_def by (auto split: if_splits)
qed

lemma update_inv_reachable: "update_reachable w \<Longrightarrow> update_inv w"
  unfolding update_reachable_def
proof (induction rule: rtranclp_induct)
  case base
  show ?case by (simp add: update_inv_def update_init_def preference_db_wf_def)
next
  case (step y z)
  then show ?case by (blast intro: update_inv_step)
qed

section \<open>The narrowed brief\<close>

lemma constrain_Inr:
  assumes "constrain db r = Inr (rp, r')"
  shows "\<exists>resolved r1. resolve db (pb_practice_mode r) (pb_session_overrides r) = Inr resolved \<and>
     r1 = (case pb_exam_task r of None \<Rightarrow> r | Some t \<Rightarrow> apply_exam_task t r) \<and>
     rp = resolved\<lparr>rp_conflicts := rp_conflicts resolved @
            brief_conflicts (rp_effective_preferences resolved) r1\<rparr> \<and>
     (let p = rp_effective_preferences resolved;
          spontaneous = (pf_default_practice_mode p = Practice_Spontaneous);
          r2 = (if spontaneous \<or> pf_excluded_drill_types p \<noteq> []
                then r1\<lparr>pb_allowed_drill_types := Some (filter (permitted p)
                  (unwrap_or (pb_allowed_drill_types r1) all_drill_types))\<rparr> else r1)
      in r' = (if spontaneous
           then r2\<lparr>pb_count := Some (min (unwrap_or (pb_count r2) 3)
                     (wb_maximum (pf_written_round_budget p)))\<rparr> else r2))"
proof -
  from assms obtain resolved where res:
    "resolve db (pb_practice_mode r) (pb_session_overrides r) = Inr resolved"
    by (auto simp: constrain_def ok_simps)
  show ?thesis
  proof (cases "pb_exam_task r")
    case None
    with assms res show ?thesis by (simp add: constrain_def Let_def)
  next
    case (Some t)
    with assms res exam_task_supported [of t] show ?thesis by (auto simp: constrain_def Let_def)
  qed
qed

lemma all_drill_types_complete: "d \<in> set all_drill_types"
  by (cases d) (simp_all add: all_drill_types_def)

lemma constrain_spontaneous:
  assumes "constrain db r = Inr (rp, r')"
    and "pf_default_practice_mode (rp_effective_preferences rp) = Practice_Spontaneous"
  shows "\<exists>ds n. pb_allowed_drill_types r' = Some ds \<and>
      (\<forall>d\<in>set ds. permitted (rp_effective_preferences rp) d) \<and>
      pb_count r' = Some n \<and>
      n \<le> wb_maximum (pf_written_round_budget (rp_effective_preferences rp))"
  using constrain_Inr [OF assms(1)] assms(2) by (auto simp: Let_def)

lemma constrain_no_conflict:
  assumes "constrain db r = Inr (rp, r')" and "rp_conflicts rp = []"
    and "pb_exam_task r = None" and "pb_allowed_drill_types r = Some ds"
  shows "pb_allowed_drill_types r' = Some ds"
proof -
  have *: "\<not> list_ex (\<lambda>d. \<not> P d) xs \<Longrightarrow> filter P xs = xs" for P and xs :: "drill_type list"
    by (induction xs) auto
  from constrain_Inr [OF assms(1)] assms(2-4) show ?thesis
    by (auto simp: Let_def brief_conflicts_def * split: if_splits)
qed

section \<open>Properties\<close>

text \<open>
  Property C15. However the reads and the conditional writes of concurrent updates
  interleave, no accepted change is lost: the stored version is the number of accepted
  updates, and the stored preferences are the accepted patches merged in order over the
  defaults; they are well formed throughout.
\<close>

theorem no_lost_update:
  assumes "update_reachable w"
  shows "pv_version (get (uw_db w)) = length (uw_accepted w) \<and>
    pv_preferences (get (uw_db w)) = replay (uw_accepted w) \<and>
    preferences_wf (pv_preferences (get (uw_db w)))"
  using update_inv_reachable [OF assms] get_wf [of "uw_db w"] by (auto simp: update_inv_def)

definition empty_patch :: preference_patch where
  "empty_patch =
     \<lparr>pfp_learning_focus = None, pfp_default_practice_mode = None,
      pfp_excluded_drill_types = None, pfp_prompt_policy = None,
      pfp_written_round_budget = None, pfp_correction_policy = None\<rparr>"

definition spontaneous_request :: update_preferences_request where
  "spontaneous_request =
     \<lparr>up_patch = empty_patch\<lparr>pfp_default_practice_mode := Some Practice_Spontaneous\<rparr>,
      up_expected_version = 0, up_source = lit ''learner''\<rparr>"

lemma merge_spontaneous:
  "merge defaults (up_patch spontaneous_request) =
     defaults\<lparr>pf_default_practice_mode := Practice_Spontaneous\<rparr>"
  by (simp add: merge_def spontaneous_request_def empty_patch_def)

lemma spontaneous_wf:
  "preferences_wf (defaults\<lparr>pf_default_practice_mode := Practice_Spontaneous\<rparr>)"
  using defaults_wf by (simp add: preferences_wf_def)

lemma update_spontaneous:
  "\<exists>v row. update_commit now None None spontaneous_request = (Inr v, Some row) \<and>
     pr_version row = 1 \<and> pf_default_practice_mode (pr_preferences row) = Practice_Spontaneous"
proof -
  have "text_ok (up_source spontaneous_request) 1000"
    by (simp add: spontaneous_request_def text_ok_def blank_iff blen_def cp_len_def lit_def
        is_white_def)
  then show ?thesis
    using merge_spontaneous spontaneous_wf
    by (auto simp: update_commit_Inr Let_def spontaneous_request_def [THEN arg_cong, of up_expected_version])
qed

text \<open>Two clients read the defaults and send the same change; the second is refused.\<close>

theorem no_lost_update_witness:
  "\<exists>w. update_reachable w \<and> length (uw_accepted w) = 1 \<and> pv_version (get (uw_db w)) = 1 \<and>
     preferences_wf (pv_preferences (get (uw_db w)))"
proof -
  let ?x = spontaneous_request
  obtain v row where commit: "update_commit [] None None ?x = (Inr v, Some row)"
    using update_spontaneous by blast
  define w1 where "w1 = update_init\<lparr>uw_pending := (uw_pending update_init)(0 \<mapsto> (?x, uw_db update_init))\<rparr>"
  define w2 where "w2 = w1\<lparr>uw_db := Some row, uw_pending := (uw_pending w1)(0 := None),
    uw_accepted := up_patch ?x # uw_accepted w1\<rparr>"
  have "update_step update_init w1"
    unfolding w1_def by (rule update_step.read) (simp add: update_init_def)
  moreover have "update_step w1 w2"
    unfolding w2_def
    by (rule update_step.accept [where snapshot = None and now = "[]" and v = v])
      (simp_all add: w1_def update_init_def commit)
  ultimately have r: "update_reachable w2"
    by (auto simp: update_reachable_def)
  have "length (uw_accepted w2) = 1" by (simp add: w2_def w1_def update_init_def)
  with no_lost_update [OF r] r show ?thesis by auto
qed

text \<open>
  A brief narrowed in spontaneous mode only asks for formats that mode permits
  and the learner has not excluded, and for at most as many items as the written budget
  allows; the request's formats are left alone when no conflict is reported and no exam task
  is named.
\<close>

theorem spontaneous_brief_permitted:
  assumes "constrain db r = Inr (rp, r')"
    and "pf_default_practice_mode (rp_effective_preferences rp) = Practice_Spontaneous"
  shows "\<exists>ds n. pb_allowed_drill_types r' = Some ds \<and>
      list_all (permitted (rp_effective_preferences rp)) ds \<and> pb_count r' = Some n \<and>
      n \<le> wb_maximum (pf_written_round_budget (rp_effective_preferences rp)) \<and>
      (rp_conflicts rp = [] \<and> pb_exam_task r = None \<and> pb_allowed_drill_types r \<noteq> None \<longrightarrow>
         pb_allowed_drill_types r' = pb_allowed_drill_types r)"
  using constrain_spontaneous [OF assms] constrain_no_conflict [OF assms(1)]
  by (auto simp: list_all_iff)

definition sample_brief :: practice_brief_request where
  "sample_brief =
     \<lparr>pb_task_first = None, pb_practice_mode = None, pb_session_overrides = None,
      pb_count = Some 9, pb_objective = None, pb_level = None, pb_drill_mix = None,
      pb_allowed_drill_types = Some [Drill_Retell, Drill_Translation], pb_weakness_keys = None,
      pb_categories = None, pb_concept_keys = None, pb_scheme_keys = None,
      pb_collection_keys = None, pb_target_types = None, pb_include_upcoming = None,
      pb_recent_prompts_per_weakness = None, pb_as_of = None, pb_activity_type = None,
      pb_planned_duration_seconds = None, pb_activity_config = None, pb_exam_task = None\<rparr>"

definition approved_db :: preference_db where
  "approved_db = Some \<lparr>pr_version = 1, pr_preferences = approved, pr_updated_at = [],
     pr_source = lit ''seed''\<rparr>"

theorem spontaneous_brief_permitted_witness:
  "\<exists>rp r'. constrain approved_db sample_brief = Inr (rp, r') \<and>
     pb_allowed_drill_types r' = Some [Drill_Retell] \<and> pb_count r' = Some 5 \<and>
     rp_conflicts rp \<noteq> []"
proof -
  obtain rp r' where c: "constrain approved_db sample_brief = Inr (rp, r')"
    and mode: "pf_default_practice_mode (rp_effective_preferences rp) = Practice_Spontaneous"
    and more: "pb_allowed_drill_types r' = Some [Drill_Retell]" "pb_count r' = Some 5"
      "rp_conflicts rp \<noteq> []"
    by (simp add: constrain_def resolve_def sample_brief_def approved_db_def approved_def
        defaults_def permitted_def brief_conflicts_def Let_def)
  from spontaneous_brief_permitted [OF c mode] c more show ?thesis by auto
qed

text \<open>
  The deployment seed stores the approved preferences as version 1 in an empty
  table, and running it again changes nothing.
\<close>

theorem seed_is_idempotent:
  "let db = snd (seed now None) in
     pv_version (get db) = 1 \<and> pv_preferences (get db) = approved \<and>
     fst (seed now None) = Inr (get db) \<and> seed later db = (Inr (get db), db)"
proof -
  let ?x = "\<lparr>up_patch = patch_of approved, up_expected_version = 0,
    up_source = lit ''Learner-approved SPONTANEOUS_PRODUCTION.md, 2026-09-06; explicit deployment seed''\<rparr>"
  let ?row = "\<lparr>pr_version = 1, pr_preferences = approved, pr_updated_at = now,
    pr_source = up_source ?x\<rparr>"
  have "text_ok (up_source ?x) 1000"
    by (simp add: text_ok_def blank_iff blen_def cp_len_def lit_def is_white_def)
  then have "update_commit now None None ?x = (Inr (get (Some ?row)), Some ?row)"
    by (simp add: update_commit_Inr Let_def approved_wf)
  then have "seed now None = (Inr (get (Some ?row)), Some ?row)"
    by (simp add: seed_def update_def)
  then show ?thesis by (simp add: Let_def seed_def)
qed

end
