(* ===== verification/Tutoring.thy ===== *)
theory Tutoring
  imports Model
begin

text \<open>
  \<open>src/tutoring.rs\<close>: the compact recording request and its expansion into the canonical
  one. Indices are zero-based as in the source's loops; the hash maps of attempt metadata and
  observation numbers are association lists in insertion order. The messages leave out the
  path of the offending element.
\<close>

section \<open>The compact request\<close>

record attempt_ref =
  tar_turn :: nat
  tar_attempt :: nat

record observation_ref =
  tor_turn :: nat
  tor_attempt :: nat
  tor_observation :: nat

record tutoring_attempt_evidence =
  tae_kind :: attempt_kind
  tae_original_attempt :: "attempt_ref option"
  tae_cueing :: prompt_cueing
  tae_exposure :: exposure
  tae_exposure_source :: "ustring option"
  tae_outcome :: communicative_outcome
  tae_provenance :: assessment_provenance
  tae_scenario :: ustring
  tae_topic :: ustring
  tae_sentence_count :: "nat option"
  tae_effort :: "learner_effort option"

record tutoring_observation_assessment =
  toa_target_realization :: target_realization
  toa_target_accuracy :: target_accuracy
  toa_provenance :: assessment_provenance

record tutoring_observation =
  toi_weakness_key :: ustring
  toi_outcome :: observation_outcome
  toi_role :: "observation_role option"
  toi_assessment_phase :: "assessment_phase option"
  toi_hint_level :: "hint_level option"
  toi_learner_effort :: "learner_effort option"
  toi_evidence_source :: "evidence_source option"
  toi_evidence_strength :: "evidence_strength option"
  toi_severity :: "observation_severity option"
  toi_produced :: "ustring option"
  toi_correction :: "ustring option"
  toi_error_span :: "ustring option"
  toi_notes :: "ustring option"
  toi_assessment :: "tutoring_observation_assessment option"

record tutoring_finding =
  tfi_assessment_kind :: finding_kind
  tfi_original :: ustring
  tfi_suggestion :: "ustring option"
  tfi_note :: "ustring option"

record tutoring_intervention =
  tii_kind :: intervention_kind
  tii_text :: ustring
  tii_target_weakness_keys :: "ustring list"

record tutoring_attempt =
  tai_transcript :: ustring
  tai_response_mode :: "response_mode option"
  tai_target_duration_seconds :: "nat option"
  tai_actual_duration_milliseconds :: "nat option"
  tai_response_latency_milliseconds :: "nat option"
  tai_timing_source :: "timing_source option"
  tai_evidence :: "tutoring_attempt_evidence option"
  tai_observations :: "tutoring_observation list"
  tai_findings :: "tutoring_finding list"
  tai_interventions_after :: "tutoring_intervention list"

record tutoring_turn =
  tti_drill_type :: drill_type
  tti_prompt :: ustring
  tti_target_weakness_keys :: "ustring list"
  tti_communicative_function :: "ustring option"
  tti_attempts :: "tutoring_attempt list"

record tutoring_variation =
  tvi_observation_refs :: "observation_ref list"
  tvi_rationale :: ustring

record tutoring_review =
  tri_target :: ustring
  tri_rating :: fsrs_rating
  tri_retrieval_mode :: retrieval_mode
  tri_evidence_strength :: evidence_strength
  tri_observation_refs :: "observation_ref list"
  tri_rating_rationale :: "ustring option"
  tri_rating_source :: "rating_source option"
  tri_evidence :: ustring
  tri_variation :: "tutoring_variation option"

record tutoring_task_assessment =
  tta_attempt :: attempt_ref
  tta_point_key :: ustring
  tta_status :: requested_point_status
  tta_supporting_excerpt :: "ustring option"
  tta_reason :: "ustring option"
  tta_evaluator :: ustring
  tta_rubric_version :: "ustring option"

record tutoring_request =
  trs_task_requirements :: "task_requirement_input list"
  trs_task_assessments :: "tutoring_task_assessment list"
  trs_idempotency_key :: ustring
  trs_exercise_type_key :: exercise_type_key
  trs_session_date :: "ustring option"
  trs_reviewed_at :: "ustring option"
  trs_task_ref :: "ustring option"
  trs_topic :: "ustring option"
  trs_notes :: "ustring option"
  trs_policy_version :: "nat option"
  trs_session_overrides :: "session_override option"
  trs_new_weaknesses :: "new_weakness_input list"
  trs_turns :: "tutoring_turn list"
  trs_reviews :: "tutoring_review list"

section \<open>Helpers\<close>

definition text_check :: "ustring \<Rightarrow> nat \<Rightarrow> string + unit" where
  "text_check v limit =
     seqE [bail_if (blank v) ''{path} must not be blank'',
           bail_if (blen v > limit) ''{path} must be at most {max} UTF-8 bytes'']"

definition optional_text :: "ustring option \<Rightarrow> nat \<Rightarrow> string + unit" where
  "optional_text v limit = optE v (\<lambda>s. text_check s limit)"

definition checked_index :: "nat \<Rightarrow> nat \<Rightarrow> string + nat" where
  "checked_index v len =
     (if v = 0 \<or> v > len then Inl ''{path} references an out-of-range array element''
      else Inr (v - 1))"

text \<open>\<open>checked_add(1)\<close> on \<open>u16\<close>.\<close>

definition checked_succ :: "nat \<Rightarrow> string \<Rightarrow> string + nat" where
  "checked_succ n msg = (if n < 65535 then Inr (n + 1) else Inl msg)"

type_synonym observation_numbers = "((nat \<times> nat \<times> nat) \<times> nat) list"

definition resolve_observation ::
    "tutoring_turn list \<Rightarrow> observation_numbers \<Rightarrow> observation_ref \<Rightarrow> string + nat" where
  "resolve_observation turns numbers ref =
     bindE (checked_index (tor_turn ref) (length turns)) (\<lambda>turn.
     bindE (checked_index (tor_attempt ref) (length (tti_attempts (turns ! turn)))) (\<lambda>attempt.
     bindE (checked_index (tor_observation ref)
         (length (tai_observations (tti_attempts (turns ! turn) ! attempt)))) (\<lambda>observation.
     ok_or (map_of numbers (turn, attempt, observation))
       ''{path} references an observation that is not available'')))"

definition compact_observation :: "tutoring_observation \<Rightarrow> nat \<Rightarrow> observation_input" where
  "compact_observation v n =
     \<lparr>ob_observation_no = n, ob_weakness_key = toi_weakness_key v, ob_outcome = toi_outcome v,
      ob_role = unwrap_or (toi_role v) Role_Incidental,
      ob_assessment_phase = toi_assessment_phase v, ob_hint_level = toi_hint_level v,
      ob_learner_effort = toi_learner_effort v, ob_evidence_source = toi_evidence_source v,
      ob_evidence_strength = toi_evidence_strength v, ob_severity = toi_severity v,
      ob_produced = toi_produced v, ob_correction = toi_correction v,
      ob_error_span = toi_error_span v, ob_notes = toi_notes v\<rparr>"

definition finding_of :: "tutoring_finding \<Rightarrow> nat \<Rightarrow> nat \<Rightarrow> finding_input" where
  "finding_of v item_no attempt_no =
     \<lparr>fi_practice_item_no = Some item_no, fi_attempt_no = Some attempt_no,
      fi_assessment_kind = tfi_assessment_kind v, fi_original = tfi_original v,
      fi_suggestion = tfi_suggestion v, fi_note = tfi_note v\<rparr>"

text \<open>\<open>parts.join("\n")\<close>.\<close>

fun join_lines :: "ustring list \<Rightarrow> ustring" where
  "join_lines [] = []"
| "join_lines [s] = s"
| "join_lines (s # t # ss) = s @ 10 # join_lines (t # ss)"

definition turn_interventions :: "tutoring_turn \<Rightarrow> tutoring_intervention list" where
  "turn_interventions turn = concat (map tai_interventions_after (tti_attempts turn))"

definition feedback_for_turn :: "tutoring_turn \<Rightarrow> string + ustring option" where
  "feedback_for_turn turn =
     bindE (forE (\<lambda>i. text_check (tii_text i) 4000) (turn_interventions turn)) (\<lambda>_.
     let parts = map tii_text (turn_interventions turn) in
     if parts = [] then Inr None
     else bindE (text_check (join_lines parts) 4000) (\<lambda>_. Inr (Some (join_lines parts))))"

section \<open>First pass: checks and attempt numbers\<close>

record attempt_meta =
  am_key :: "nat \<times> nat"
  am_item_no :: nat
  am_attempt_no :: nat
  am_original :: "(nat \<times> nat) option"

record pass_state =
  ps_metas :: "attempt_meta list"
  ps_attempt_no :: nat
  ps_observations_total :: nat
  ps_findings_total :: nat
  ps_interventions_total :: nat

definition meta_of :: "attempt_meta list \<Rightarrow> nat \<times> nat \<Rightarrow> attempt_meta option" where
  "meta_of metas key = find (\<lambda>m. am_key m = key) metas"

definition check_observation_texts :: "tutoring_observation \<Rightarrow> string + unit" where
  "check_observation_texts v =
     seqE [text_check (toi_weakness_key v) 160, optional_text (toi_produced v) 2000,
           optional_text (toi_correction v) 2000, optional_text (toi_error_span v) 1000,
           optional_text (toi_notes v) 2000]"

definition check_finding :: "nat \<Rightarrow> tutoring_finding \<Rightarrow> string + nat" where
  "check_finding tally v =
     bindE (seqE
       [bail_if (tally + 1 > 300) ''a session may contain at most 300 findings'',
        text_check (tfi_original v) 4000, optional_text (tfi_suggestion v) 4000,
        optional_text (tfi_note v) 2000])
       (\<lambda>_. Inr (tally + 1))"

definition resolve_original ::
    "tutoring_turn list \<Rightarrow> tutoring_attempt \<Rightarrow> string + (nat \<times> nat) option" where
  "resolve_original turns a =
     (case Option.bind (tai_evidence a) tae_original_attempt of
        None \<Rightarrow> Inr None
      | Some ref \<Rightarrow>
          bindE (checked_index (tar_turn ref) (length turns)) (\<lambda>turn.
          bindE (checked_index (tar_attempt ref) (length (tti_attempts (turns ! turn)))) (\<lambda>attempt.
          Inr (Some (turn, attempt)))))"

definition pass_attempt ::
    "tutoring_turn list \<Rightarrow> nat \<Rightarrow> nat \<Rightarrow> pass_state \<Rightarrow> nat \<times> tutoring_attempt \<Rightarrow>
     string + pass_state" where
  "pass_attempt turns turn_index item_no st ia =
     (let (attempt_index, a) = ia in
      bindE (checked_succ (ps_attempt_no st) ''expanded attempt numbers exceed u16 range'')
        (\<lambda>attempt_no.
      bindE (seqE
        [bail_if (attempt_no > 100) ''a session may contain at most 100 attempts'',
         text_check (tai_transcript a) 8000,
         bail_if (tai_actual_duration_milliseconds a \<noteq> None \<and> tai_timing_source a = None)
           ''timing_source is required with actual_duration_milliseconds'',
         bail_if (tai_response_latency_milliseconds a \<noteq> None \<and> tai_timing_source a = None)
           ''timing_source is required with response_latency_milliseconds'',
         bail_if (ps_observations_total st + length (tai_observations a) > 300)
           ''a session may contain at most 300 observations'',
         forE check_observation_texts (tai_observations a)]) (\<lambda>_.
      bindE (foldE check_finding (ps_findings_total st) (tai_findings a)) (\<lambda>findings_total.
      bindE (seqE
        [bail_if (length (tai_interventions_after a) > 20)
           ''interventions_after may contain at most 20 values'',
         bail_if (ps_interventions_total st + length (tai_interventions_after a) > 300)
           ''a session may contain at most 300 interventions'']) (\<lambda>_.
      bindE (resolve_original turns a) (\<lambda>original.
      Inr \<lparr>ps_metas = ps_metas st @
             [\<lparr>am_key = (turn_index, attempt_index), am_item_no = item_no,
               am_attempt_no = attempt_no, am_original = original\<rparr>],
           ps_attempt_no = attempt_no,
           ps_observations_total = ps_observations_total st + length (tai_observations a),
           ps_findings_total = findings_total,
           ps_interventions_total =
             ps_interventions_total st + length (tai_interventions_after a)\<rparr>))))))"

text \<open>\<open>u16::try_from(turn_index + 1)\<close>.\<close>

definition item_number :: "nat \<Rightarrow> string + nat" where
  "item_number turn_index =
     checked_succ turn_index ''turn index exceeds canonical item number range''"

definition pass_turn ::
    "tutoring_turn list \<Rightarrow> pass_state \<Rightarrow> nat \<times> tutoring_turn \<Rightarrow> string + pass_state" where
  "pass_turn turns st it =
     (let (turn_index, turn) = it in
      bindE (item_number turn_index) (\<lambda>item_no.
      bindE (seqE
        [text_check (tti_prompt turn) 4000,
         bail_if (length (tti_target_weakness_keys turn) > 20)
           ''target_weakness_keys may contain at most 20 values'',
         forE (\<lambda>key. text_check key 160) (tti_target_weakness_keys turn),
         optional_text (tti_communicative_function turn) 1000,
         bail_if (length (tti_attempts turn) > 20) ''attempts may contain at most 20 values'']) (\<lambda>_.
      foldE (pass_attempt turns turn_index item_no) st (enumerate 0 (tti_attempts turn)))))"

definition first_pass :: "tutoring_turn list \<Rightarrow> string + pass_state" where
  "first_pass turns =
     foldE (pass_turn turns)
       \<lparr>ps_metas = [], ps_attempt_no = 0, ps_observations_total = 0, ps_findings_total = 0,
        ps_interventions_total = 0\<rparr> (enumerate 0 turns)"

section \<open>Second pass: observation numbers\<close>

definition number_observation ::
    "nat \<Rightarrow> nat \<Rightarrow> observation_numbers \<times> nat \<Rightarrow> nat \<Rightarrow> string + observation_numbers \<times> nat" where
  "number_observation turn_index attempt_index st observation_index =
     bindE (checked_succ (snd st) ''expanded observation numbers exceed u16 range'') (\<lambda>n.
     Inr (fst st @ [((turn_index, attempt_index, observation_index), n)], n))"

definition number_observations :: "tutoring_turn list \<Rightarrow> string + observation_numbers \<times> nat" where
  "number_observations turns =
     foldE (\<lambda>st (turn_index, turn).
       foldE (\<lambda>st (attempt_index, a).
         foldE (number_observation turn_index attempt_index) st
           [0..<length (tai_observations a)])
         st (enumerate 0 (tti_attempts turn)))
       ([], 0) (enumerate 0 turns)"

section \<open>Third pass: the canonical rows\<close>

definition production_present :: "tutoring_request \<Rightarrow> bool" where
  "production_present r \<longleftrightarrow>
     (let attempts = concat (map tti_attempts (trs_turns r)) in
      list_ex (\<lambda>a. tai_evidence a \<noteq> None) attempts \<or>
      list_ex (\<lambda>o1. toi_assessment o1 \<noteq> None) (concat (map tai_observations attempts)) \<or>
      list_ex (\<lambda>v. tri_variation v \<noteq> None) (trs_reviews r))"

definition canonical_item :: "bool \<Rightarrow> nat \<times> tutoring_turn \<Rightarrow> string + practice_item_input" where
  "canonical_item production it =
     (let (turn_index, turn) = it in
      bindE (item_number turn_index) (\<lambda>item_no.
      bindE (if production then Inr None else feedback_for_turn turn) (\<lambda>feedback.
      Inr \<lparr>it_item_no = item_no, it_drill_type = tti_drill_type turn,
           it_prompt = tti_prompt turn, it_response = None, it_corrected_response = None,
           it_reference_answer = None, it_feedback = feedback, it_outcome = None,
           it_activity_run_no = None, it_item_phase = None,
           it_target_weakness_keys = tti_target_weakness_keys turn, it_observations = []\<rparr>)))"

record emit_state =
  es_attempts :: "attempt_input list"
  es_findings :: "finding_input list"
  es_production_attempts :: "attempt_evidence list"
  es_production_observations :: "observation_evidence list"
  es_production_interventions :: "intervention list"
  es_intervention_no :: nat

definition effort_reflections :: "tutoring_attempt \<Rightarrow> attempt_reflection_input list" where
  "effort_reflections a =
     (case Option.bind (tai_evidence a) tae_effort of
        None \<Rightarrow> []
      | Some effort \<Rightarrow>
          [\<lparr>rf_reflection_no = 1, rf_source = Refl_Learner, rf_kind = ReflKind_General,
            rf_note = lit ''Reported effort: '' @ lit (learner_effort_as_str effort)\<rparr>])"

text \<open>One observation: its canonical row and, with production evidence, its assessment.\<close>

definition emit_observation ::
    "observation_numbers \<Rightarrow> bool \<Rightarrow> nat \<times> nat \<Rightarrow> nat \<Rightarrow>
     observation_input list \<times> observation_evidence list \<Rightarrow> nat \<times> tutoring_observation \<Rightarrow>
     string + observation_input list \<times> observation_evidence list" where
  "emit_observation numbers production key attempt_no acc io =
     (let (observation_index, o1) = io;
          n = the (map_of numbers (fst key, snd key, observation_index));
          rows = fst acc @ [compact_observation o1 n] in
      if production then
        bindE (ok_or (toi_assessment o1)
            ''assessment is required when production evidence is supplied'') (\<lambda>assessment.
        Inr (rows, snd acc @
          [\<lparr>oe_observation_no = n, oe_attempt_no = attempt_no,
            oe_target_realization = toa_target_realization assessment,
            oe_target_accuracy = toa_target_accuracy assessment,
            oe_assessment_provenance = toa_provenance assessment\<rparr>]))
      else Inr (rows, snd acc))"

text \<open>The attempt an intervention precedes: the next of its turn, else the first retry.\<close>

definition min_list_opt :: "nat list \<Rightarrow> nat option" where
  "min_list_opt ns = (if ns = [] then None else Some (fold min (tl ns) (hd ns)))"

definition before_attempt ::
    "attempt_meta list \<Rightarrow> tutoring_turn \<Rightarrow> attempt_meta \<Rightarrow> nat option" where
  "before_attempt metas turn meta =
     (let (turn_index, attempt_index) = am_key meta in
      or_else
       (if attempt_index + 1 < length (tti_attempts turn)
        then map_option am_attempt_no (meta_of metas (turn_index, attempt_index + 1)) else None)
       (min_list_opt (map am_attempt_no
         (filter (\<lambda>m. am_original m = Some (am_key meta)) metas))))"

definition emit_intervention ::
    "attempt_meta list \<Rightarrow> bool \<Rightarrow> tutoring_turn \<Rightarrow> attempt_meta \<Rightarrow>
     intervention list \<times> nat \<Rightarrow> tutoring_intervention \<Rightarrow> string + intervention list \<times> nat" where
  "emit_intervention metas production turn meta acc i =
     bindE (text_check (tii_text i) 4000) (\<lambda>_.
     bindE (checked_succ (snd acc) ''expanded intervention numbers exceed u16 range'') (\<lambda>n.
     Inr (if production
          then fst acc @ [\<lparr>iv_intervention_no = n, iv_kind = tii_kind i, iv_text = tii_text i,
                 iv_target_weakness_keys = tii_target_weakness_keys i,
                 iv_after_attempt_no = am_attempt_no meta,
                 iv_before_attempt_no = before_attempt metas turn meta\<rparr>]
          else fst acc, n)))"

definition attempt_evidence_of ::
    "attempt_meta list \<Rightarrow> attempt_meta \<Rightarrow> tutoring_attempt \<Rightarrow> string + attempt_evidence" where
  "attempt_evidence_of metas meta a =
     bindE (ok_or (tai_evidence a) ''evidence is required when production evidence is supplied'')
       (\<lambda>e.
     bindE (case am_original meta of
              None \<Rightarrow> Inr None
            | Some key \<Rightarrow> bindE (ok_or (meta_of metas key)
                ''evidence.original_attempt refers to a missing attempt'')
                (\<lambda>m. Inr (Some (am_attempt_no m)))) (\<lambda>original_attempt_no.
     bindE (seqE
       [bail_if (tae_kind e = Attempt_Initial \<and> original_attempt_no \<noteq> None)
          ''evidence.original_attempt is not valid for an initial attempt'',
        bail_if (tae_kind e = Attempt_SelfCorrection \<and> original_attempt_no = None)
          ''evidence.original_attempt is required for self_correction'',
        bail_if (some_and original_attempt_no (\<lambda>n. n \<ge> am_attempt_no meta))
          ''evidence.original_attempt must refer to an earlier array element'',
        text_check (tae_scenario e) 160, text_check (tae_topic e) 160,
        optional_text (tae_exposure_source e) 500]) (\<lambda>_.
     Inr \<lparr>ae_attempt_no = am_attempt_no meta, ae_attempt_kind = tae_kind e,
          ae_original_attempt_no = original_attempt_no, ae_prompt_cueing = tae_cueing e,
          ae_prior_target_exposure = tae_exposure e, ae_exposure_source = tae_exposure_source e,
          ae_communicative_outcome = tae_outcome e,
          ae_assessment_provenance = tae_provenance e, ae_scenario_tag = tae_scenario e,
          ae_topic_tag = tae_topic e, ae_initial_sentence_count = tae_sentence_count e\<rparr>)))"

definition canonical_attempt ::
    "attempt_meta \<Rightarrow> tutoring_attempt \<Rightarrow> observation_input list \<Rightarrow> attempt_input" where
  "canonical_attempt meta a rows =
     \<lparr>at_attempt_no = am_attempt_no meta, at_practice_item_no = Some (am_item_no meta),
      at_transcript = tai_transcript a,
      at_target_duration_seconds = tai_target_duration_seconds a,
      at_actual_duration_milliseconds = tai_actual_duration_milliseconds a,
      at_response_mode = tai_response_mode a,
      at_response_latency_milliseconds = tai_response_latency_milliseconds a,
      at_timing_source = tai_timing_source a, at_observations = rows,
      at_reflections = effort_reflections a\<rparr>"

definition emit_attempt ::
    "attempt_meta list \<Rightarrow> observation_numbers \<Rightarrow> bool \<Rightarrow> nat \<Rightarrow> tutoring_turn \<Rightarrow>
     emit_state \<Rightarrow> nat \<times> tutoring_attempt \<Rightarrow> string + emit_state" where
  "emit_attempt metas numbers production turn_index turn st ia =
     (let (attempt_index, a) = ia in
      bindE (ok_or (meta_of metas (turn_index, attempt_index))
        ''attempt is missing attempt metadata'') (\<lambda>meta.
      bindE (foldE (emit_observation numbers production (turn_index, attempt_index)
          (am_attempt_no meta)) ([], es_production_observations st)
          (enumerate 0 (tai_observations a))) (\<lambda>(rows, p_observations).
      bindE (foldE (emit_intervention metas production turn meta)
          (es_production_interventions st, es_intervention_no st)
          (tai_interventions_after a)) (\<lambda>(p_interventions, intervention_no).
      bindE (if production then mapE (\<lambda>e. es_production_attempts st @ [e])
                 (attempt_evidence_of metas meta a)
             else Inr (es_production_attempts st)) (\<lambda>p_attempts.
      Inr \<lparr>es_attempts = es_attempts st @ [canonical_attempt meta a rows],
           es_findings = es_findings st @
             map (\<lambda>f. finding_of f (am_item_no meta) (am_attempt_no meta)) (tai_findings a),
           es_production_attempts = p_attempts,
           es_production_observations = p_observations,
           es_production_interventions = p_interventions,
           es_intervention_no = intervention_no\<rparr>)))))"

definition emit_turns ::
    "attempt_meta list \<Rightarrow> observation_numbers \<Rightarrow> bool \<Rightarrow> tutoring_turn list \<Rightarrow>
     string + emit_state" where
  "emit_turns metas numbers production turns =
     foldE (\<lambda>st (turn_index, turn).
       foldE (emit_attempt metas numbers production turn_index turn) st
         (enumerate 0 (tti_attempts turn)))
       \<lparr>es_attempts = [], es_findings = [], es_production_attempts = [],
        es_production_observations = [], es_production_interventions = [],
        es_intervention_no = 0\<rparr> (enumerate 0 turns)"

section \<open>Reviews, opportunities, task assessments\<close>

definition emit_review ::
    "tutoring_turn list \<Rightarrow> observation_numbers \<Rightarrow> bool \<Rightarrow>
     review_input list \<times> variation_assessment list \<Rightarrow> tutoring_review \<Rightarrow>
     string + review_input list \<times> variation_assessment list" where
  "emit_review turns numbers production acc v =
     bindE (text_check (tri_target v) 160) (\<lambda>_.
     bindE (collectE (resolve_observation turns numbers) (tri_observation_refs v)) (\<lambda>nos.
     let reviews = fst acc @
       [\<lparr>rv_weakness_key = tri_target v, rv_rating = tri_rating v,
         rv_retrieval_mode = tri_retrieval_mode v,
         rv_evidence_strength = tri_evidence_strength v, rv_evidence_observation_nos = nos,
         rv_rating_rationale = tri_rating_rationale v,
         rv_rating_source = unwrap_or (tri_rating_source v) RatedBy_AssistantSuggested,
         rv_evidence = tri_evidence v\<rparr>] in
     case tri_variation v of
       None \<Rightarrow> Inr (reviews, snd acc)
     | Some variation \<Rightarrow>
         if production then
           bindE (bail_if (tvi_observation_refs variation = [])
             ''variation.observation_refs must not be empty'') (\<lambda>_.
           bindE (collectE (resolve_observation turns numbers) (tvi_observation_refs variation))
             (\<lambda>vnos.
           bindE (text_check (tvi_rationale variation) 2000) (\<lambda>_.
           Inr (reviews, snd acc @
             [\<lparr>va_weakness_key = tri_target v, va_observation_nos = vnos,
               va_rationale = tvi_rationale variation\<rparr>]))))
         else Inr (reviews, snd acc)))"

definition opportunities :: "tutoring_turn list \<Rightarrow> target_opportunity list" where
  "opportunities turns = concat (map (\<lambda>turn.
     case tti_communicative_function turn of
       None \<Rightarrow> []
     | Some f \<Rightarrow> map (\<lambda>k. \<lparr>to_weakness_key = k, to_communicative_function = f\<rparr>)
         (tti_target_weakness_keys turn)) turns)"

definition point_assessment ::
    "tutoring_turn list \<Rightarrow> attempt_meta list \<Rightarrow> tutoring_task_assessment \<Rightarrow>
     string + requested_point_assessment_input" where
  "point_assessment turns metas v =
     bindE (checked_index (tar_turn (tta_attempt v)) (length turns)) (\<lambda>turn.
     bindE (checked_index (tar_attempt (tta_attempt v))
       (length (tti_attempts (turns ! turn)))) (\<lambda>attempt.
     bindE (ok_or (meta_of metas (turn, attempt)) ''task assessment attempt unavailable'') (\<lambda>m.
     Inr \<lparr>pa_attempt_no = am_attempt_no m, pa_point_key = tta_point_key v,
          pa_status = tta_status v, pa_supporting_excerpt = tta_supporting_excerpt v,
          pa_reason = tta_reason v, pa_evaluator = tta_evaluator v,
          pa_rubric_version = tta_rubric_version v, pa_assessed_at = None,
          pa_retrospective = False\<rparr>)))"

section \<open>The expansion\<close>

definition check_envelope :: "tutoring_request \<Rightarrow> string + unit" where
  "check_envelope r =
     seqE
      [text_check (trs_idempotency_key r) 128, optional_text (trs_session_date r) 10,
       optional_text (trs_reviewed_at r) 128, optional_text (trs_task_ref r) 160,
       optional_text (trs_topic r) 500, optional_text (trs_notes r) 4000,
       bail_if (length (trs_turns r) > 100) ''turns may contain at most 100 values'',
       bail_if (length (trs_new_weaknesses r) > 100)
         ''new_weaknesses may contain at most 100 values'',
       bail_if (length (trs_reviews r) > 100) ''reviews may contain at most 100 values'']"

definition expand :: "tutoring_request \<Rightarrow> string + record_request" where
  "expand r =
     bindE (check_envelope r) (\<lambda>_.
     bindE (first_pass (trs_turns r)) (\<lambda>ps.
     bindE (number_observations (trs_turns r)) (\<lambda>(numbers, _).
     let production = production_present r; metas = ps_metas ps in
     bindE (bail_if (production \<and> trs_policy_version r = None)
       ''policy_version is required when production evidence is supplied'') (\<lambda>_.
     bindE (collectE (canonical_item production) (enumerate 0 (trs_turns r))) (\<lambda>items.
     bindE (emit_turns metas numbers production (trs_turns r)) (\<lambda>es.
     bindE (foldE (emit_review (trs_turns r) numbers production) ([], []) (trs_reviews r))
       (\<lambda>(reviews, variation).
     bindE (if production then
         bindE (ok_or (trs_policy_version r)
           ''policy_version is required when production evidence is supplied'') (\<lambda>version.
         Inr (Some
           \<lparr>pe_policy_version = version, pe_session_overrides = trs_session_overrides r,
            pe_target_opportunities = opportunities (trs_turns r),
            pe_attempts = es_production_attempts es,
            pe_observations = es_production_observations es,
            pe_interventions = es_production_interventions es,
            pe_variation_assessments = variation\<rparr>))
       else Inr None) (\<lambda>evidence.
     bindE (collectE (point_assessment (trs_turns r) metas) (trs_task_assessments r)) (\<lambda>points.
     Inr \<lparr>rr_production_evidence = evidence, rr_idempotency_key = trs_idempotency_key r,
          rr_session_date = trs_session_date r, rr_reviewed_at = trs_reviewed_at r,
          rr_task_ref = trs_task_ref r, rr_exercise_type_key = trs_exercise_type_key r,
          rr_topic = trs_topic r, rr_notes = trs_notes r,
          rr_new_weaknesses = trs_new_weaknesses r, rr_items = items,
          rr_attempts = es_attempts es, rr_observations = [], rr_findings = es_findings es,
          rr_reviews = reviews, rr_activity_runs = [],
          rr_task_requirements = trs_task_requirements r,
          rr_requested_point_assessments = points\<rparr>)))))))))"

end
