(* ===== verification/TutoringNumbers.thy ===== *)
theory TutoringNumbers
  imports Tutoring Evidence
begin

text \<open>
  The expansion of a compact tutoring request numbers everything by position: attempts and
  observations are numbered 1, 2, ... in array order, every attempt carries its own content
  and the number of its turn, and a reference resolves to the observation it names.
\<close>

section \<open>Attempts and observations in array order\<close>

lemma foldE_map: "foldE f s (map h xs) = foldE (\<lambda>s x. f s (h x)) s xs"
  by (induction xs arbitrary: s) auto

lemma foldE_nested:
  "foldE (\<lambda>s x. foldE (f x) s (g x)) s xs =
     foldE (\<lambda>s (x, y). f x s y) s (concat (map (\<lambda>x. map (Pair x) (g x)) xs))"
  by (induction xs arbitrary: s) (simp_all add: foldE_append foldE_map)

type_synonym position = "(nat \<times> tutoring_turn) \<times> nat \<times> tutoring_attempt"

definition positions :: "tutoring_turn list \<Rightarrow> position list" where
  "positions turns =
     concat (map (\<lambda>it. map (Pair it) (enumerate 0 (tti_attempts (snd it)))) (enumerate 0 turns))"

fun pos_key :: "position \<Rightarrow> nat \<times> nat" where
  "pos_key ((ti, turn), (ai, a)) = (ti, ai)"

fun pos_attempt :: "position \<Rightarrow> tutoring_attempt" where
  "pos_attempt ((ti, turn), (ai, a)) = a"

lemma pos_key_eq: "pos_key p = (fst (fst p), fst (snd p))"
  by (cases p rule: pos_key.cases) simp

lemma pos_attempt_eq: "pos_attempt p = snd (snd p)"
  by (cases p rule: pos_attempt.cases) simp

definition observation_keys :: "tutoring_turn list \<Rightarrow> (nat \<times> nat \<times> nat) list" where
  "observation_keys turns = concat (map (\<lambda>p. map (\<lambda>oi. (fst (pos_key p), snd (pos_key p), oi))
     [0..<length (tai_observations (pos_attempt p))]) (positions turns))"

lemma distinct_pairs:
  assumes "distinct xs" and "\<And>x. distinct (f x)"
  shows "distinct (concat (map (\<lambda>x. map (Pair x) (f x)) xs))"
  using assms(1)
proof (induction xs)
  case (Cons x xs)
  have "distinct (map (Pair x) (f x))" using assms(2) by (simp add: distinct_map inj_on_def)
  with Cons show ?case by auto
qed simp

lemma positions_keys_distinct: "distinct (map pos_key (positions turns))"
proof -
  have "map pos_key (positions turns) = concat (map (\<lambda>i. map (Pair i)
      [0..<length (tti_attempts (turns ! i))]) [0..<length turns])"
  proof -
    have "map (\<lambda>it. map pos_key (map (Pair it) (enumerate 0 (tti_attempts (snd it)))))
        (enumerate 0 turns) =
      map (\<lambda>it. map (Pair (fst it)) [0..<length (tti_attempts (snd it))]) (enumerate 0 turns)"
      by (rule map_cong) (auto simp: enumerate_eq_zip map_zip_map2 zip_map2 comp_def
          simp flip: map_fst_zip intro!: nth_equalityI)
    also have "\<dots> = map (\<lambda>i. map (Pair i) [0..<length (tti_attempts (turns ! i))]) [0..<length turns]"
      by (rule nth_equalityI) (simp_all add: nth_enumerate_eq)
    finally show ?thesis by (simp add: positions_def map_concat comp_def)
  qed
  then show ?thesis by (simp add: distinct_pairs)
qed

lemma observation_keys_distinct: "distinct (observation_keys turns)"
proof -
  have "observation_keys turns = map (\<lambda>((ti, ai), oi). (ti, ai, oi))
      (concat (map (\<lambda>p. map (Pair (pos_key p))
        [0..<length (tai_observations (pos_attempt p))]) (positions turns)))"
    by (simp add: observation_keys_def map_concat comp_def split_beta)
  moreover have "distinct (concat (map (\<lambda>p. map (Pair (k p)) (g p)) ps))"
    if "distinct (map k ps)" "\<And>p. distinct (g p)" for k :: "position \<Rightarrow> nat \<times> nat" and g :: "position \<Rightarrow> nat list" and ps
    using that(1)
  proof (induction ps)
    case (Cons p ps)
    have "distinct (map (Pair (k p)) (g p))" using that(2) by (simp add: distinct_map inj_on_def)
    moreover have "set (map (Pair (k p)) (g p)) \<inter>
        set (concat (map (\<lambda>p. map (Pair (k p)) (g p)) ps)) = {}"
      using Cons.prems by (auto simp: image_iff)
    ultimately show ?case using Cons by simp
  qed simp
  moreover have "inj_on (\<lambda>((ti, ai), oi). (ti, ai, oi)) A" for A :: "((nat \<times> nat) \<times> nat) set"
    by (auto simp: inj_on_def)
  ultimately show ?thesis
    using positions_keys_distinct by (simp only: distinct_map) simp
qed

lemma positions_attempts: "map pos_attempt (positions turns) = concat (map tti_attempts turns)"
proof -
  have "map pos_attempt (map (Pair it) (enumerate n xs)) = xs" for it n xs
    by (cases it, induction xs arbitrary: n) (simp_all add: enumerate_simps)
  then have "map pos_attempt (positions turns) =
      concat (map (\<lambda>it. tti_attempts (snd it)) (enumerate 0 turns))"
    by (simp add: positions_def map_concat comp_def)
  also have "map (\<lambda>it. tti_attempts (snd it)) (enumerate 0 turns) = map tti_attempts turns"
    using map_map [of tti_attempts snd "enumerate 0 turns"] by (simp add: comp_def)
  finally show ?thesis .
qed

section \<open>First pass\<close>

definition pass_step :: "tutoring_turn list \<Rightarrow> pass_state \<Rightarrow> position \<Rightarrow> string + pass_state" where
  "pass_step turns st p = (case p of ((ti, turn), ia) \<Rightarrow> pass_attempt turns ti (ti + 1) st ia)"

lemma pass_turn_Inr:
  assumes "pass_turn turns st it = Inr st'"
  shows "foldE (pass_attempt turns (fst it) (fst it + 1)) st (enumerate 0 (tti_attempts (snd it)))
    = Inr st'"
  using assms by (auto simp: pass_turn_def item_number_def checked_succ_def ok_simps Let_def
      split: if_splits prod.splits)

lemma foldE_mono_Inr:
  assumes "foldE f s xs = Inr r" and "\<And>s x s'. f s x = Inr s' \<Longrightarrow> g s x = Inr s'"
  shows "foldE g s xs = Inr r"
  using assms(1) by (induction xs arbitrary: s) (auto simp: ok_simps dest: assms(2))

lemma first_pass_flat:
  assumes "first_pass turns = Inr ps"
  shows "foldE (pass_step turns) \<lparr>ps_metas = [], ps_attempt_no = 0, ps_observations_total = 0,
     ps_findings_total = 0, ps_interventions_total = 0\<rparr> (positions turns) = Inr ps"
proof -
  have "foldE (\<lambda>st it. foldE (pass_attempt turns (fst it) (fst it + 1)) st
      (enumerate 0 (tti_attempts (snd it)))) \<lparr>ps_metas = [], ps_attempt_no = 0,
     ps_observations_total = 0, ps_findings_total = 0, ps_interventions_total = 0\<rparr>
      (enumerate 0 turns) = Inr ps"
    using assms unfolding first_pass_def by (rule foldE_mono_Inr) (rule pass_turn_Inr)
  then show ?thesis
    unfolding foldE_nested positions_def
    by (simp add: pass_step_def [abs_def] case_prod_unfold)
qed

lemma pass_step_Inr:
  assumes "pass_step turns st p = Inr st'"
  shows "\<exists>m. ps_metas st' = ps_metas st @ [m] \<and> am_key m = pos_key p \<and>
      am_item_no m = fst (pos_key p) + 1 \<and> am_attempt_no m = ps_attempt_no st + 1 \<and>
      ps_attempt_no st' = ps_attempt_no st + 1 \<and> ps_attempt_no st' \<le> 100 \<and>
      ps_observations_total st' = ps_observations_total st + length (tai_observations (pos_attempt p)) \<and>
      ps_observations_total st' \<le> 300 \<and>
      resolve_original turns (pos_attempt p) = Inr (am_original m)"
  using assms
  by (cases p) (auto simp: pass_step_def pass_attempt_def checked_succ_def ok_simps Let_def
      not_less split: prod.splits if_splits)

lemma pass_flat_metas:
  assumes "foldE (pass_step turns) st xs = Inr st'"
  shows "\<exists>ms. ps_metas st' = ps_metas st @ ms \<and> map am_key ms = map pos_key xs \<and>
      map am_item_no ms = map (\<lambda>p. fst (pos_key p) + 1) xs \<and>
      map am_attempt_no ms = [ps_attempt_no st + 1..<ps_attempt_no st + 1 + length xs] \<and>
      ps_attempt_no st' = ps_attempt_no st + length xs \<and>
      ps_observations_total st' = ps_observations_total st +
        sum_list (map (\<lambda>p. length (tai_observations (pos_attempt p))) xs)"
  using assms
proof (induction xs arbitrary: st)
  case (Cons x xs)
  then obtain s1 where s1: "pass_step turns st x = Inr s1"
    and rest: "foldE (pass_step turns) s1 xs = Inr st'" by (auto simp: ok_simps)
  from pass_step_Inr [OF s1] obtain m where m: "ps_metas s1 = ps_metas st @ [m]"
    "am_key m = pos_key x" "am_item_no m = fst (pos_key x) + 1"
    "am_attempt_no m = ps_attempt_no st + 1" "ps_attempt_no s1 = ps_attempt_no st + 1"
    "ps_observations_total s1 = ps_observations_total st + length (tai_observations (pos_attempt x))"
    by blast
  from Cons.IH [OF rest] obtain ms where ms: "ps_metas st' = ps_metas s1 @ ms"
    "map am_key ms = map pos_key xs" "map am_item_no ms = map (\<lambda>p. fst (pos_key p) + 1) xs"
    "map am_attempt_no ms = [ps_attempt_no s1 + 1..<ps_attempt_no s1 + 1 + length xs]"
    "ps_attempt_no st' = ps_attempt_no s1 + length xs"
    "ps_observations_total st' = ps_observations_total s1 +
        sum_list (map (\<lambda>p. length (tai_observations (pos_attempt p))) xs)" by blast
  show ?case
    by (rule exI [of _ "m # ms"]) (use m ms in \<open>simp add: upt_conv_Cons del: upt_Suc\<close>)
qed simp

text \<open>The metadata list: one entry per attempt, in order, numbered from one.\<close>

lemma first_pass_metas:
  assumes "first_pass turns = Inr ps"
  shows "map am_key (ps_metas ps) = map pos_key (positions turns)"
    and "map am_item_no (ps_metas ps) = map (\<lambda>p. fst (pos_key p) + 1) (positions turns)"
    and "map am_attempt_no (ps_metas ps) = [1..<Suc (length (positions turns))]"
  using pass_flat_metas [OF first_pass_flat [OF assms]] by auto

section \<open>Second pass\<close>

definition number_step ::
    "observation_numbers \<times> nat \<Rightarrow> nat \<times> nat \<times> nat \<Rightarrow> string + observation_numbers \<times> nat" where
  "number_step st k = number_observation (fst k) (fst (snd k)) st (snd (snd k))"

lemma foldE_concat_keys:
  "foldE (\<lambda>st p. foldE (\<lambda>st oi. f st (h p oi)) st (g p)) s xs =
     foldE f s (concat (map (\<lambda>p. map (h p) (g p)) xs))"
  by (induction xs arbitrary: s) (simp_all add: foldE_append foldE_map)

lemma number_observations_flat:
  "number_observations turns = foldE number_step ([], 0) (observation_keys turns)"
proof -
  have "number_observations turns = foldE (\<lambda>st it. foldE (\<lambda>st ia.
      foldE (number_observation (fst it) (fst ia)) st [0..<length (tai_observations (snd ia))]) st
      (enumerate 0 (tti_attempts (snd it)))) ([], 0) (enumerate 0 turns)"
    by (simp add: number_observations_def case_prod_unfold)
  also have "\<dots> = foldE (\<lambda>st p. foldE (number_observation (fst (fst p)) (fst (snd p))) st
      [0..<length (tai_observations (snd (snd p)))]) ([], 0) (positions turns)"
    unfolding positions_def
    by (subst foldE_nested [where f = "\<lambda>it st ia. foldE (number_observation (fst it) (fst ia)) st
      [0..<length (tai_observations (snd ia))]"]) (simp add: case_prod_unfold)
  also have "\<dots> = foldE (\<lambda>st p. foldE (\<lambda>st oi.
      number_step st (fst (pos_key p), snd (pos_key p), oi)) st
      [0..<length (tai_observations (pos_attempt p))]) ([], 0) (positions turns)"
    by (simp add: pos_key_eq pos_attempt_eq number_step_def)
  also have "\<dots> = foldE number_step ([], 0) (observation_keys turns)"
    unfolding observation_keys_def
    by (rule foldE_concat_keys [where f = number_step
          and h = "\<lambda>p oi. (fst (pos_key p), snd (pos_key p), oi)"])
  finally show ?thesis .
qed

lemma number_flat:
  assumes "foldE number_step st ks = Inr st'"
  shows "fst st' = fst st @ zip ks [snd st + 1..<snd st + 1 + length ks]"
  using assms
proof (induction ks arbitrary: st)
  case (Cons k ks)
  then obtain s1 where s1: "number_step st k = Inr s1" and rest: "foldE number_step s1 ks = Inr st'"
    by (auto simp: foldE_Cons_Inr simp del: foldE.simps split_paired_Ex)
  from s1 have "s1 = (fst st @ [(k, snd st + 1)], snd st + 1)"
    by (auto simp: number_step_def number_observation_def checked_succ_def ok_simps split: if_splits)
  with Cons.IH [OF rest] show ?case by (simp add: upt_conv_Cons del: upt_Suc)
qed simp

lemma number_observations_Inr:
  assumes "number_observations turns = Inr (numbers, n)"
  shows "numbers = zip (observation_keys turns) [1..<Suc (length (observation_keys turns))]"
  using number_flat [OF assms [unfolded number_observations_flat]] by simp

text \<open>Looking the keys up in order gives 1, 2, ...\<close>

lemma map_of_zip_order:
  assumes "distinct ks" and "length ks = length vs"
  shows "map (\<lambda>k. the (map_of (zip ks vs) k)) ks = vs"
  using assms
proof (induction ks vs rule: list_induct2')
  case (4 k ks v vs)
  then have "map (\<lambda>x. the (map_of (zip (k # ks) (v # vs)) x)) ks = vs"
    by (auto intro!: trans [OF map_cong [OF refl] 4(1)])
  then show ?case by simp
qed auto

section \<open>Third pass\<close>

definition number_of :: "observation_numbers \<Rightarrow> nat \<times> nat \<Rightarrow> nat \<Rightarrow> nat" where
  "number_of numbers key oi = the (map_of numbers (fst key, snd key, oi))"

definition canonical_observations ::
    "observation_numbers \<Rightarrow> position \<Rightarrow> observation_input list" where
  "canonical_observations numbers p =
     map (\<lambda>(oi, o1). compact_observation o1 (number_of numbers (pos_key p) oi))
       (enumerate 0 (tai_observations (pos_attempt p)))"

lemma emit_observations_rows:
  assumes "foldE (emit_observation numbers production key n) acc xs = Inr acc'"
  shows "fst acc' = fst acc @ map (\<lambda>(oi, o1). compact_observation o1 (number_of numbers key oi)) xs"
    and "production \<Longrightarrow> map oe_observation_no (snd acc') = map oe_observation_no (snd acc) @
      map (\<lambda>(oi, o1). number_of numbers key oi) xs"
    and "production \<Longrightarrow> map oe_attempt_no (snd acc') = map oe_attempt_no (snd acc) @
      map (\<lambda>_. n) xs"
  using assms
proof (induction xs arbitrary: acc)
  case (Cons x xs)
  {
    case 1
    then obtain a1 where a1: "emit_observation numbers production key n acc x = Inr a1"
      and rest: "foldE (emit_observation numbers production key n) a1 xs = Inr acc'"
      by (auto simp: foldE_Cons_Inr simp del: foldE.simps split_paired_Ex)
    from a1 have "fst a1 = fst acc @ [compact_observation (snd x) (number_of numbers key (fst x))]"
      by (auto simp: emit_observation_def number_of_def ok_simps Let_def split: prod.splits if_splits)
    with Cons.IH(1) [OF rest] show ?case by (simp add: case_prod_unfold)
  next
    case 2
    then obtain a1 where a1: "emit_observation numbers production key n acc x = Inr a1"
      and rest: "foldE (emit_observation numbers production key n) a1 xs = Inr acc'"
      by (auto simp: foldE_Cons_Inr simp del: foldE.simps split_paired_Ex)
    from a1 2(1) have "map oe_observation_no (snd a1) = map oe_observation_no (snd acc) @
        [number_of numbers key (fst x)]"
      by (auto simp: emit_observation_def number_of_def ok_simps Let_def split: prod.splits if_splits)
    with Cons.IH(2) [OF 2(1) rest] show ?case by (simp add: case_prod_unfold)
  next
    case 3
    then obtain a1 where a1: "emit_observation numbers production key n acc x = Inr a1"
      and rest: "foldE (emit_observation numbers production key n) a1 xs = Inr acc'"
      by (auto simp: foldE_Cons_Inr simp del: foldE.simps split_paired_Ex)
    from a1 3(1) have "map oe_attempt_no (snd a1) = map oe_attempt_no (snd acc) @ [n]"
      by (auto simp: emit_observation_def ok_simps Let_def split: prod.splits if_splits)
    with Cons.IH(3) [OF 3(1) rest] show ?case by simp
  }
qed simp_all

definition emit_step ::
    "attempt_meta list \<Rightarrow> observation_numbers \<Rightarrow> bool \<Rightarrow> emit_state \<Rightarrow> position \<Rightarrow>
     string + emit_state" where
  "emit_step metas numbers production st p = (case p of
     ((ti, turn), ia) \<Rightarrow> emit_attempt metas numbers production ti turn st ia)"

lemma emit_turns_flat:
  "emit_turns metas numbers production turns =
     foldE (emit_step metas numbers production)
      \<lparr>es_attempts = [], es_findings = [], es_production_attempts = [],
       es_production_observations = [], es_production_interventions = [],
       es_intervention_no = 0\<rparr> (positions turns)"
  unfolding emit_turns_def positions_def
  by (simp add: case_prod_unfold foldE_nested emit_step_def [abs_def])

text \<open>What one attempt becomes.\<close>

definition attempt_row ::
    "attempt_meta list \<Rightarrow> observation_numbers \<Rightarrow> position \<Rightarrow> attempt_input" where
  "attempt_row metas numbers p =
     canonical_attempt (the (meta_of metas (pos_key p))) (pos_attempt p)
       (canonical_observations numbers p)"

lemma emit_step_Inr:
  assumes "emit_step metas numbers production st p = Inr st'"
  shows "es_attempts st' = es_attempts st @ [attempt_row metas numbers p]"
    and "production \<Longrightarrow> map ae_attempt_no (es_production_attempts st') =
      map ae_attempt_no (es_production_attempts st) @
        [am_attempt_no (the (meta_of metas (pos_key p)))]"
    and "production \<Longrightarrow> map oe_observation_no (es_production_observations st') =
      map oe_observation_no (es_production_observations st) @
        map ob_observation_no (canonical_observations numbers p)"
proof -
  obtain ti turn ai a where p: "p = ((ti, turn), ai, a)" by (metis prod.collapse)
  from assms obtain meta rows pobs where meta: "meta_of metas (ti, ai) = Some meta"
    and obs: "foldE (emit_observation numbers production (ti, ai) (am_attempt_no meta))
      ([], es_production_observations st) (enumerate 0 (tai_observations a)) = Inr (rows, pobs)"
    and st': "es_attempts st' = es_attempts st @ [canonical_attempt meta a rows]"
      "es_production_observations st' = pobs"
      "production \<Longrightarrow> \<exists>e. attempt_evidence_of metas meta a = Inr e \<and>
         es_production_attempts st' = es_production_attempts st @ [e]"
    unfolding p emit_step_def
    by (auto simp: emit_attempt_def ok_simps Let_def split: prod.splits if_splits)
  note rows = emit_observations_rows [OF obs]
  show "es_attempts st' = es_attempts st @ [attempt_row metas numbers p]"
    using st'(1) rows(1) meta by (simp add: attempt_row_def canonical_observations_def p)
  show "map ae_attempt_no (es_production_attempts st') =
      map ae_attempt_no (es_production_attempts st) @
        [am_attempt_no (the (meta_of metas (pos_key p)))]" if production
    using st'(3) [OF that] meta by (auto simp: p attempt_evidence_of_def ok_simps)
  show "map oe_observation_no (es_production_observations st') =
      map oe_observation_no (es_production_observations st) @
        map ob_observation_no (canonical_observations numbers p)" if production
    using rows(2) [OF that] st'(2)
    by (simp add: p canonical_observations_def comp_def case_prod_unfold compact_observation_def)
qed

lemma emit_flat:
  assumes "foldE (emit_step metas numbers production) st xs = Inr st'"
  shows "es_attempts st' = es_attempts st @ map (attempt_row metas numbers) xs"
    and "production \<Longrightarrow> map ae_attempt_no (es_production_attempts st') =
      map ae_attempt_no (es_production_attempts st) @
        map (\<lambda>p. am_attempt_no (the (meta_of metas (pos_key p)))) xs"
    and "production \<Longrightarrow> map oe_observation_no (es_production_observations st') =
      map oe_observation_no (es_production_observations st) @
        concat (map (\<lambda>p. map ob_observation_no (canonical_observations numbers p)) xs)"
proof -
  have *: "es_attempts st' = es_attempts st @ map (attempt_row metas numbers) xs \<and>
    (production \<longrightarrow> map ae_attempt_no (es_production_attempts st') =
      map ae_attempt_no (es_production_attempts st) @
        map (\<lambda>p. am_attempt_no (the (meta_of metas (pos_key p)))) xs) \<and>
    (production \<longrightarrow> map oe_observation_no (es_production_observations st') =
      map oe_observation_no (es_production_observations st) @
        concat (map (\<lambda>p. map ob_observation_no (canonical_observations numbers p)) xs))"
    using assms
  proof (induction xs arbitrary: st)
    case (Cons x xs)
    then obtain s1 where s1: "emit_step metas numbers production st x = Inr s1"
      and rest: "foldE (emit_step metas numbers production) s1 xs = Inr st'"
      by (auto simp: ok_simps)
    from emit_step_Inr [OF s1] Cons.IH [OF rest] show ?case by simp
  qed simp
  then show "es_attempts st' = es_attempts st @ map (attempt_row metas numbers) xs"
    and "production \<Longrightarrow> map ae_attempt_no (es_production_attempts st') =
      map ae_attempt_no (es_production_attempts st) @
        map (\<lambda>p. am_attempt_no (the (meta_of metas (pos_key p)))) xs"
    and "production \<Longrightarrow> map oe_observation_no (es_production_observations st') =
      map oe_observation_no (es_production_observations st) @
        concat (map (\<lambda>p. map ob_observation_no (canonical_observations numbers p)) xs)"
    by simp_all
qed

end
