(* ===== verification/TutoringCorrect.thy ===== *)
theory TutoringCorrect
  imports TutoringNumbers
begin

text \<open>What \<open>expand\<close> of \<open>src/tutoring.rs\<close> returns, stated on its result.\<close>

lemma expand_Inr:
  assumes "expand r = Inr c"
  obtains ps numbers n es reviews variation where
    "first_pass (trs_turns r) = Inr ps"
    "number_observations (trs_turns r) = Inr (numbers, n)"
    "collectE (canonical_item (production_present r)) (enumerate 0 (trs_turns r)) = Inr (rr_items c)"
    "emit_turns (ps_metas ps) numbers (production_present r) (trs_turns r) = Inr es"
    "rr_attempts c = es_attempts es" "rr_observations c = []"
    "foldE (emit_review (trs_turns r) numbers (production_present r)) ([], []) (trs_reviews r) =
       Inr (reviews, variation)"
    "rr_reviews c = reviews" "rr_activity_runs c = []"
    "rr_production_evidence c = (if production_present r then Some
       \<lparr>pe_policy_version = the (trs_policy_version r),
        pe_session_overrides = trs_session_overrides r,
        pe_target_opportunities = opportunities (trs_turns r),
        pe_attempts = es_production_attempts es,
        pe_observations = es_production_observations es,
        pe_interventions = es_production_interventions es,
        pe_variation_assessments = variation\<rparr> else None)"
    "check_envelope r = Inr ()"
  using assms unfolding expand_def
  by (auto simp: ok_simps Let_def split: prod.splits if_splits)

lemma metas_lookup:
  assumes "distinct (map am_key ms)"
  shows "map (\<lambda>k. the (meta_of ms k)) (map am_key ms) = ms"
proof -
  have "the (meta_of ms (am_key m)) = m" if "m \<in> set ms" for m
    using distinct_map_find [OF assms that] by (simp add: meta_of_def)
  then show ?thesis by (simp add: map_idI)
qed

lemma positions_metas:
  assumes "first_pass turns = Inr ps"
  shows "map (\<lambda>p. the (meta_of (ps_metas ps) (pos_key p))) (positions turns) = ps_metas ps"
  using metas_lookup [of "ps_metas ps"] first_pass_metas(1) [OF assms] positions_keys_distinct
  by (metis (no_types, lifting) comp_apply map_eq_conv map_map)

lemma canonical_numbers:
  "map ob_observation_no (canonical_observations numbers p) =
     map (number_of numbers (pos_key p)) [0..<length (tai_observations (pos_attempt p))]"
proof -
  have "map ob_observation_no (canonical_observations numbers p) =
      map (\<lambda>q. number_of numbers (pos_key p) (fst q)) (enumerate 0 (tai_observations (pos_attempt p)))"
    by (simp add: canonical_observations_def comp_def case_prod_unfold compact_observation_def)
  also have "\<dots> = map (number_of numbers (pos_key p))
      (map fst (enumerate 0 (tai_observations (pos_attempt p))))"
    by (simp only: map_map comp_def)
  finally show ?thesis by (simp only: map_fst_enumerate) simp
qed

lemma observation_numbers_in_order:
  assumes "number_observations turns = Inr (numbers, n)"
  shows "concat (map (\<lambda>p. map ob_observation_no (canonical_observations numbers p)) (positions turns))
    = [1..<Suc (length (observation_keys turns))]"
proof -
  have "concat (map (\<lambda>p. map ob_observation_no (canonical_observations numbers p)) (positions turns))
      = map (\<lambda>k. the (map_of numbers k)) (observation_keys turns)"
    by (simp add: canonical_numbers observation_keys_def map_concat comp_def number_of_def [abs_def])
  also have "\<dots> = [1..<Suc (length (observation_keys turns))]"
    unfolding number_observations_Inr [OF assms]
    by (rule map_of_zip_order [OF observation_keys_distinct]) (simp del: upt_Suc)
  finally show ?thesis .
qed

lemma observation_keys_length:
  "length (observation_keys turns) =
     length (concat (map tai_observations (concat (map tti_attempts turns))))"
proof -
  have "length (observation_keys turns) =
      sum_list (map (\<lambda>a. length (tai_observations a)) (map pos_attempt (positions turns)))"
    by (simp add: observation_keys_def length_concat comp_def)
  then show ?thesis by (simp only: positions_attempts length_concat map_map comp_def)
qed

lemma positions_length: "length (positions turns) = length (concat (map tti_attempts turns))"
  by (metis length_map positions_attempts)

lemma expand_attempt_rows:
  assumes "first_pass turns = Inr ps" and "emit_turns (ps_metas ps) numbers production turns = Inr es"
  shows "es_attempts es = map (attempt_row (ps_metas ps) numbers) (positions turns)"
  using emit_flat(1) [OF assms(2) [unfolded emit_turns_flat]] by simp

lemma attempt_row_fields [simp]:
  "at_attempt_no (attempt_row metas numbers p) = am_attempt_no (the (meta_of metas (pos_key p)))"
  "at_practice_item_no (attempt_row metas numbers p) =
     Some (am_item_no (the (meta_of metas (pos_key p))))"
  "at_transcript (attempt_row metas numbers p) = tai_transcript (pos_attempt p)"
  "at_observations (attempt_row metas numbers p) = canonical_observations numbers p"
  by (simp_all add: attempt_row_def canonical_attempt_def)

lemma collect_items:
  "collectE (canonical_item production) (enumerate k turns) = Inr items \<Longrightarrow>
     map it_item_no items = [k + 1..<k + 1 + length turns] \<and> map it_observations items = map (\<lambda>_. []) turns"
proof (induction turns arbitrary: k items)
  case (Cons t ts)
  then obtain i is' where i: "canonical_item production (k, t) = Inr i"
    and rest: "collectE (canonical_item production) (enumerate (Suc k) ts) = Inr is'"
    and items: "items = i # is'"
    by (auto simp: ok_simps enumerate_simps)
  from i have "it_item_no i = k + 1 \<and> it_observations i = []"
    by (auto simp: canonical_item_def item_number_def checked_succ_def ok_simps split: if_splits)
  with Cons.IH [OF rest] items show ?case by (simp add: upt_conv_Cons del: upt_Suc)
qed simp

text \<open>Attempts, items and observations are numbered by position and keep their content.\<close>

lemma expand_numbers:
  assumes "expand r = Inr c"
  defines "attempts \<equiv> concat (map tti_attempts (trs_turns r))"
  shows "map at_attempt_no (rr_attempts c) = [1..<Suc (length attempts)]"
    and "map at_transcript (rr_attempts c) = map tai_transcript attempts"
    and "map it_item_no (rr_items c) = [1..<Suc (length (trs_turns r))]"
    and "map ob_observation_no (session_observations c) =
      [1..<Suc (length (concat (map tai_observations attempts)))]"
    and "at_practice_item_no ` set (rr_attempts c) \<subseteq> Some ` it_item_no ` set (rr_items c)"
proof -
  obtain ps numbers n es reviews variation where
    pass: "first_pass (trs_turns r) = Inr ps"
    and nums: "number_observations (trs_turns r) = Inr (numbers, n)"
    and items: "collectE (canonical_item (production_present r)) (enumerate 0 (trs_turns r)) = Inr (rr_items c)"
    and emit: "emit_turns (ps_metas ps) numbers (production_present r) (trs_turns r) = Inr es"
    and c: "rr_attempts c = es_attempts es" "rr_observations c = []"
    using assms(1) by (rule expand_Inr)
  have rows: "rr_attempts c = map (attempt_row (ps_metas ps) numbers) (positions (trs_turns r))"
    using expand_attempt_rows [OF pass emit] c(1) by simp
  note metas = positions_metas [OF pass] first_pass_metas [OF pass]
  have "map at_attempt_no (rr_attempts c) = map am_attempt_no
      (map (\<lambda>p. the (meta_of (ps_metas ps) (pos_key p))) (positions (trs_turns r)))"
    by (simp add: rows comp_def)
  then have "map at_attempt_no (rr_attempts c) = map am_attempt_no (ps_metas ps)"
    by (simp only: metas(1))
  then show "map at_attempt_no (rr_attempts c) = [1..<Suc (length attempts)]"
    using metas(4) by (simp only: attempts_def positions_length)
  have "map at_transcript (rr_attempts c) = map tai_transcript (map pos_attempt (positions (trs_turns r)))"
    by (simp add: rows comp_def)
  then show "map at_transcript (rr_attempts c) = map tai_transcript attempts"
    by (simp only: positions_attempts attempts_def)
  show item_nos: "map it_item_no (rr_items c) = [1..<Suc (length (trs_turns r))]"
    using collect_items [OF items] by simp
  have no_item_obs: "concat (map it_observations (rr_items c)) = []"
    using collect_items [OF items] by simp
  have "map ob_observation_no (session_observations c) =
      concat (map (\<lambda>p. map ob_observation_no (canonical_observations numbers p)) (positions (trs_turns r)))"
    by (simp only: session_observations_def c(2) no_item_obs rows append_Nil append_Nil2 map_map)
      (simp add: map_concat comp_def)
  then show "map ob_observation_no (session_observations c) =
      [1..<Suc (length (concat (map tai_observations attempts)))]"
    by (simp only: observation_numbers_in_order [OF nums] observation_keys_length attempts_def)
  have "am_item_no ` set (ps_metas ps) = (\<lambda>p. fst (pos_key p) + 1) ` set (positions (trs_turns r))"
    using metas(3) by (metis list.set_map)
  moreover have "fst (pos_key p) < length (trs_turns r)" if "p \<in> set (positions (trs_turns r))" for p
    using that by (auto simp: positions_def enumerate_eq_zip dest!: set_zip_leftD)
  ultimately have in_range: "m \<in> am_item_no ` set (ps_metas ps) \<Longrightarrow> m \<in> set [1..<Suc (length (trs_turns r))]" for m
    by (auto simp: less_Suc_eq_le Suc_le_eq simp del: upt_Suc)
  have "the (meta_of (ps_metas ps) (pos_key p)) \<in> set (ps_metas ps)"
    if "p \<in> set (positions (trs_turns r))" for p
    using that metas(1) by (metis (no_types, lifting) image_eqI list.set_map)
  then have "am_item_no (the (meta_of (ps_metas ps) (pos_key p))) \<in> it_item_no ` set (rr_items c)"
    if "p \<in> set (positions (trs_turns r))" for p
    using that in_range item_nos by (metis image_eqI list.set_map)
  then show "at_practice_item_no ` set (rr_attempts c) \<subseteq> Some ` it_item_no ` set (rr_items c)"
    by (auto simp: rows)
qed

text \<open>Every observation of the expansion is one of the compact request.\<close>

lemma expand_observations:
  assumes "expand r = Inr c"
  shows "set (session_observations c) \<subseteq> {compact_observation o1 n | o1 n.
    o1 \<in> set (concat (map tai_observations (concat (map tti_attempts (trs_turns r)))))}"
proof -
  obtain ps numbers n es reviews variation where
    pass: "first_pass (trs_turns r) = Inr ps"
    and items: "collectE (canonical_item (production_present r)) (enumerate 0 (trs_turns r)) = Inr (rr_items c)"
    and emit: "emit_turns (ps_metas ps) numbers (production_present r) (trs_turns r) = Inr es"
    and c: "rr_attempts c = es_attempts es" "rr_observations c = []"
    using assms(1) by (rule expand_Inr)
  have rows: "rr_attempts c = map (attempt_row (ps_metas ps) numbers) (positions (trs_turns r))"
    using expand_attempt_rows [OF pass emit] c(1) by simp
  have "concat (map it_observations (rr_items c)) = []" using collect_items [OF items] by simp
  then have eq: "set (session_observations c) =
      (\<Union>p\<in>set (positions (trs_turns r)). set (canonical_observations numbers p))"
    by (simp add: session_observations_def c(2) rows)
  have "o1 \<in> {compact_observation o2 k | o2 k.
      o2 \<in> set (concat (map tai_observations (concat (map tti_attempts (trs_turns r)))))}"
    if p: "p \<in> set (positions (trs_turns r))" and o1: "o1 \<in> set (canonical_observations numbers p)"
    for p o1
  proof -
    have "pos_attempt p \<in> set (concat (map tti_attempts (trs_turns r)))"
      using p unfolding positions_attempts [symmetric] by simp
    moreover obtain k o2 where "o1 = compact_observation o2 k"
        "o2 \<in> set (tai_observations (pos_attempt p))"
      using o1 by (auto simp: canonical_observations_def in_set_enumerate_eq)
    ultimately show ?thesis by auto
  qed
  with eq show ?thesis by blast
qed

section \<open>References\<close>

definition referenced :: "tutoring_turn list \<Rightarrow> observation_ref \<Rightarrow> tutoring_observation" where
  "referenced turns ref =
     tai_observations (tti_attempts (turns ! (tor_turn ref - 1)) ! (tor_attempt ref - 1)) !
       (tor_observation ref - 1)"

lemma checked_index_Inr [ok_simps]:
  "checked_index v len = Inr i \<longleftrightarrow> 0 < v \<and> v \<le> len \<and> i = v - 1"
  by (auto simp: checked_index_def not_less)

lemma resolve_observation_row:
  assumes "resolve_observation turns numbers ref = Inr n"
  shows "\<exists>p\<in>set (positions turns). compact_observation (referenced turns ref) n
    \<in> set (canonical_observations numbers p)"
proof -
  let ?ti = "tor_turn ref - 1" and ?ai = "tor_attempt ref - 1" and ?oi = "tor_observation ref - 1"
  let ?as = "tti_attempts (turns ! ?ti)"
  let ?p = "((?ti, turns ! ?ti), (?ai, ?as ! ?ai))"
  from assms have ti: "?ti < length turns" and ai: "?ai < length ?as"
    and oi: "?oi < length (tai_observations (?as ! ?ai))"
    and n: "map_of numbers (?ti, ?ai, ?oi) = Some n"
    by (auto simp: resolve_observation_def ok_simps)
  have "(?ti, turns ! ?ti) \<in> set (enumerate 0 turns)" using ti
    by (auto simp: in_set_enumerate_eq)
  moreover have "(?ai, ?as ! ?ai) \<in> set (enumerate 0 ?as)" using ai
    by (auto simp: in_set_enumerate_eq)
  ultimately have p: "?p \<in> set (positions turns)"
    by (force simp: positions_def)
  have "(?oi, referenced turns ref) \<in> set (enumerate 0 (tai_observations (?as ! ?ai)))"
    using oi by (auto simp: in_set_enumerate_eq referenced_def)
  then have "compact_observation (referenced turns ref) n \<in> set (canonical_observations numbers ?p)"
    using n by (force simp: canonical_observations_def number_of_def)
  with p show ?thesis by blast
qed

lemma emit_reviews:
  assumes "foldE (emit_review turns numbers production) acc vs = Inr acc'"
  shows "\<exists>new. fst acc' = fst acc @ new \<and>
    list_all2 (\<lambda>v rv. rv_weakness_key rv = tri_target v \<and> rv_rating rv = tri_rating v \<and>
      collectE (resolve_observation turns numbers) (tri_observation_refs v) =
        Inr (rv_evidence_observation_nos rv)) vs new"
  using assms
proof (induction vs arbitrary: acc)
  case (Cons v vs)
  then obtain a1 where a1: "emit_review turns numbers production acc v = Inr a1"
    and rest: "foldE (emit_review turns numbers production) a1 vs = Inr acc'"
    by (auto simp: foldE_Cons_Inr simp del: foldE.simps split_paired_Ex)
  from a1 have "\<exists>rv. fst a1 = fst acc @ [rv] \<and> rv_weakness_key rv = tri_target v \<and>
      rv_rating rv = tri_rating v \<and>
      collectE (resolve_observation turns numbers) (tri_observation_refs v) =
        Inr (rv_evidence_observation_nos rv)"
    by (auto simp: emit_review_def ok_simps Let_def split: option.splits if_splits)
  then obtain rv where rv: "fst a1 = fst acc @ [rv]" "rv_weakness_key rv = tri_target v"
      "rv_rating rv = tri_rating v"
      "collectE (resolve_observation turns numbers) (tri_observation_refs v) =
        Inr (rv_evidence_observation_nos rv)" by blast
  from Cons.IH [OF rest] obtain new where new: "fst acc' = fst a1 @ new"
    "list_all2 (\<lambda>v rv. rv_weakness_key rv = tri_target v \<and> rv_rating rv = tri_rating v \<and>
      collectE (resolve_observation turns numbers) (tri_observation_refs v) =
        Inr (rv_evidence_observation_nos rv)) vs new" by blast
  show ?case by (rule exI [of _ "rv # new"]) (use rv new in simp)
qed simp

text \<open>A review's evidence numbers are those of the observations its references name.\<close>

lemma expand_reviews:
  assumes "expand r = Inr c"
  shows "list_all2 (\<lambda>v rv. rv_weakness_key rv = tri_target v \<and> rv_rating rv = tri_rating v \<and>
      list_all2 (\<lambda>ref n. compact_observation (referenced (trs_turns r) ref) n
        \<in> set (session_observations c)) (tri_observation_refs v) (rv_evidence_observation_nos rv))
    (trs_reviews r) (rr_reviews c)"
proof -
  obtain ps numbers n es reviews variation where
    pass: "first_pass (trs_turns r) = Inr ps"
    and emit: "emit_turns (ps_metas ps) numbers (production_present r) (trs_turns r) = Inr es"
    and c: "rr_attempts c = es_attempts es"
    and rev: "foldE (emit_review (trs_turns r) numbers (production_present r)) ([], []) (trs_reviews r) =
       Inr (reviews, variation)" "rr_reviews c = reviews"
    using assms(1) by (rule expand_Inr)
  have rows: "rr_attempts c = map (attempt_row (ps_metas ps) numbers) (positions (trs_turns r))"
    using expand_attempt_rows [OF pass emit] c by simp
  have obs: "compact_observation (referenced (trs_turns r) ref) n \<in> set (session_observations c)"
    if "resolve_observation (trs_turns r) numbers ref = Inr n" for ref n
    using resolve_observation_row [OF that] by (auto simp: session_observations_def rows)
  from emit_reviews [OF rev(1)] rev(2)
  have "list_all2 (\<lambda>v rv. rv_weakness_key rv = tri_target v \<and> rv_rating rv = tri_rating v \<and>
      collectE (resolve_observation (trs_turns r) numbers) (tri_observation_refs v) =
        Inr (rv_evidence_observation_nos rv)) (trs_reviews r) (rr_reviews c)" by simp
  then show ?thesis
    by (rule list_all2_mono) (auto simp: collectE_Inr intro: list_all2_mono obs)
qed

text \<open>The production evidence covers the attempts and the observations, in the same order.\<close>

lemma expand_production:
  assumes "expand r = Inr c" and "rr_production_evidence c = Some e"
  shows "map ae_attempt_no (pe_attempts e) = map at_attempt_no (rr_attempts c)"
    and "map oe_observation_no (pe_observations e) = map ob_observation_no (session_observations c)"
proof -
  obtain ps numbers n es reviews variation where
    pass: "first_pass (trs_turns r) = Inr ps"
    and nums: "number_observations (trs_turns r) = Inr (numbers, n)"
    and emit: "emit_turns (ps_metas ps) numbers (production_present r) (trs_turns r) = Inr es"
    and c: "rr_attempts c = es_attempts es"
    and pe: "rr_production_evidence c = (if production_present r then Some
       \<lparr>pe_policy_version = the (trs_policy_version r),
        pe_session_overrides = trs_session_overrides r,
        pe_target_opportunities = opportunities (trs_turns r),
        pe_attempts = es_production_attempts es,
        pe_observations = es_production_observations es,
        pe_interventions = es_production_interventions es,
        pe_variation_assessments = variation\<rparr> else None)"
    using assms(1) by (rule expand_Inr)
  from pe assms(2) have prod: "production_present r"
    and e: "pe_attempts e = es_production_attempts es" "pe_observations e = es_production_observations es"
    by (auto split: if_splits)
  note flat = emit_flat [OF emit [unfolded emit_turns_flat]]
  have rows: "rr_attempts c = map (attempt_row (ps_metas ps) numbers) (positions (trs_turns r))"
    using expand_attempt_rows [OF pass emit] c by simp
  show "map ae_attempt_no (pe_attempts e) = map at_attempt_no (rr_attempts c)"
    using flat(2) [OF prod] by (simp add: e rows comp_def)
  have "map oe_observation_no (pe_observations e) = [1..<Suc (length (observation_keys (trs_turns r)))]"
    using flat(3) [OF prod] observation_numbers_in_order [OF nums] by (simp add: e)
  then show "map oe_observation_no (pe_observations e) = map ob_observation_no (session_observations c)"
    using expand_numbers(4) [OF assms(1)] by (simp only: observation_keys_length)
qed

end
