(* ===== verification/Expansion.thy ===== *)
theory Expansion
  imports TutoringCorrect Evidence Samples
begin

text \<open>
  The properties of the expansion of a compact request (\<open>expand\<close>), and its composition with
  the numbering check of the canonical request (\<open>src/evidence.rs\<close>).
\<close>

section \<open>A compact request with production evidence\<close>

definition compact_attempt :: "string \<Rightarrow> tutoring_attempt" where
  "compact_attempt scenario =
     \<lparr>tai_transcript = lit scenario, tai_response_mode = None,
      tai_target_duration_seconds = None, tai_actual_duration_milliseconds = None,
      tai_response_latency_milliseconds = None, tai_timing_source = None,
      tai_evidence = Some
        \<lparr>tae_kind = Attempt_Initial, tae_original_attempt = None, tae_cueing = Cue_NoneDetected,
         tae_exposure = Exposure_NoneKnown, tae_exposure_source = None,
         tae_outcome = Comm_Successful, tae_provenance = sample_provenance,
         tae_scenario = lit scenario, tae_topic = lit ''t'', tae_sentence_count = Some 2,
         tae_effort = None\<rparr>,
      tai_observations =
        [\<lparr>toi_weakness_key = lit ''k'', toi_outcome = Outcome_Correct, toi_role = None,
          toi_assessment_phase = None, toi_hint_level = None, toi_learner_effort = None,
          toi_evidence_source = None, toi_evidence_strength = None, toi_severity = None,
          toi_produced = None, toi_correction = None, toi_error_span = None, toi_notes = None,
          toi_assessment = Some \<lparr>toa_target_realization = Real_Used,
            toa_target_accuracy = Acc_Correct, toa_provenance = sample_provenance\<rparr>\<rparr>],
      tai_findings = [], tai_interventions_after = []\<rparr>"

definition compact_turn :: "string \<Rightarrow> tutoring_turn" where
  "compact_turn scenario =
     \<lparr>tti_drill_type = Drill_QuestionAnswer, tti_prompt = lit ''Cuenta'',
      tti_target_weakness_keys = [lit ''k''], tti_communicative_function = None,
      tti_attempts = [compact_attempt scenario]\<rparr>"

definition compact_review :: tutoring_review where
  "compact_review =
     \<lparr>tri_target = lit ''k'', tri_rating = Rating_Good,
      tri_retrieval_mode = Retrieval_SpontaneousProduction,
      tri_evidence_strength = Strength_SpontaneousProduction,
      tri_observation_refs =
        [\<lparr>tor_turn = 2, tor_attempt = 1, tor_observation = 1\<rparr>,
         \<lparr>tor_turn = 1, tor_attempt = 1, tor_observation = 1\<rparr>],
      tri_rating_rationale = None, tri_rating_source = None, tri_evidence = lit ''{}'',
      tri_variation = None\<rparr>"

definition compact_request :: tutoring_request where
  "compact_request =
     \<lparr>trs_task_requirements = [], trs_task_assessments = [], trs_idempotency_key = lit ''key'',
      trs_exercise_type_key = Ex_ProductionDrill, trs_session_date = None,
      trs_reviewed_at = None, trs_task_ref = None, trs_topic = None, trs_notes = None,
      trs_policy_version = Some 1, trs_session_overrides = None, trs_new_weaknesses = [],
      trs_turns = [compact_turn ''a'', compact_turn ''b''], trs_reviews = [compact_review]\<rparr>"

lemmas compact_defs = compact_attempt_def compact_turn_def compact_review_def compact_request_def

lemma short_text:
  "text_check (lit s) limit = Inr () \<longleftrightarrow> \<not> blank (lit s) \<and> blen (lit s) \<le> limit"
  by (auto simp: text_check_def ok_simps)

text \<open>The expansion of the sample, stage by stage.\<close>

lemma compact_texts:
  "text_check (lit ''Cuenta'') 4000 = Inr ()" "text_check (lit ''k'') 160 = Inr ()"
  "text_check (lit ''a'') 160 = Inr ()" "text_check (lit ''b'') 160 = Inr ()"
  "text_check (lit ''a'') 8000 = Inr ()" "text_check (lit ''b'') 8000 = Inr ()"
  "text_check (lit ''t'') 160 = Inr ()" "text_check (lit ''key'') 128 = Inr ()"
  unfolding short_text blank_lit
  by (auto simp: short_text blank_lit is_white_def blen_def lit_def cp_len_def)

definition compact_metas :: "attempt_meta list" where
  "compact_metas =
     [\<lparr>am_key = (0, 0), am_item_no = 1, am_attempt_no = 1, am_original = None\<rparr>,
      \<lparr>am_key = (1, 0), am_item_no = 2, am_attempt_no = 2, am_original = None\<rparr>]"

definition compact_numbers :: observation_numbers where
  "compact_numbers = [((0, 0, 0), 1), ((1, 0, 0), 2)]"

lemma compact_first_pass:
  "first_pass (trs_turns compact_request) = Inr
     \<lparr>ps_metas = compact_metas, ps_attempt_no = 2, ps_observations_total = 2,
      ps_findings_total = 0, ps_interventions_total = 0\<rparr>"
  by (simp add: compact_request_def first_pass_def pass_turn_def item_number_def checked_succ_def
      compact_turn_def compact_attempt_def compact_texts pass_attempt_def enumerate_simps
      check_observation_texts_def optional_text_def resolve_original_def compact_metas_def
      compact_numbers_def optE_def bail_if_def Let_def seqE.simps forE_simps)

lemma compact_number_observations:
  "number_observations (trs_turns compact_request) = Inr (compact_numbers, 2)"
  by (simp add: compact_request_def number_observations_def compact_turn_def compact_attempt_def
      enumerate_simps number_observation_def checked_succ_def compact_numbers_def)

lemma compact_production: "production_present compact_request"
  by (simp add: production_present_def compact_defs)

lemma compact_items:
  "\<exists>items. collectE (canonical_item True) (enumerate 0 (trs_turns compact_request)) = Inr items"
  by (simp add: canonical_item_def item_number_def checked_succ_def compact_request_def
      enumerate_simps)

lemma compact_emit:
  "\<exists>es. emit_turns compact_metas compact_numbers True (trs_turns compact_request) = Inr es"
  by (simp add: emit_turns_def emit_attempt_def emit_observation_def attempt_evidence_of_def
      compact_request_def compact_turn_def compact_attempt_def enumerate_simps compact_metas_def
      compact_numbers_def meta_of_def compact_texts optional_text_def optE_def bail_if_def
      ok_or_def some_and_def seqE.simps mapE_def)

lemma compact_reviews:
  "\<exists>reviews. foldE (emit_review (trs_turns compact_request) compact_numbers True) ([], [])
     (trs_reviews compact_request) = Inr (reviews, [])"
  by (simp add: emit_review_def compact_request_def compact_review_def compact_texts
      resolve_observation_def checked_index_def compact_turn_def compact_attempt_def
      compact_numbers_def ok_or_def)

lemma compact_envelope: "check_envelope compact_request = Inr ()"
  by (simp add: check_envelope_def compact_request_def compact_texts optional_text_def optE_def
      bail_if_def seqE.simps)

lemma compact_fields:
  "trs_policy_version compact_request = Some 1" "trs_task_assessments compact_request = []"
  by (simp_all add: compact_request_def)

lemma compact_expands: "\<exists>c e. expand compact_request = Inr c \<and> rr_production_evidence c = Some e"
proof -
  obtain items where "collectE (canonical_item True) (enumerate 0 (trs_turns compact_request)) = Inr items"
    using compact_items by blast
  moreover obtain es where
    "emit_turns compact_metas compact_numbers True (trs_turns compact_request) = Inr es"
    using compact_emit by blast
  moreover obtain reviews where
    "foldE (emit_review (trs_turns compact_request) compact_numbers True) ([], [])
      (trs_reviews compact_request) = Inr (reviews, [])"
    using compact_reviews by blast
  ultimately show ?thesis
    by (simp add: expand_def compact_envelope compact_first_pass compact_number_observations
        compact_production Let_def bail_if_def ok_or_def compact_fields)
qed

section \<open>Properties\<close>

text \<open>
  Property C14. The expansion numbers by position and loses nothing: attempts, items and
  observations of the canonical request are numbered 1, 2, 3, ... in the order in which the
  compact request lists them, the transcripts are kept, and every attempt belongs to an item
  of the request.
\<close>

theorem expansion_numbers_by_position:
  assumes "expand r = Inr c"
  shows "map at_attempt_no (rr_attempts c) =
      [1..<Suc (length (concat (map tti_attempts (trs_turns r))))] \<and>
    map at_transcript (rr_attempts c) =
      map tai_transcript (concat (map tti_attempts (trs_turns r))) \<and>
    map it_item_no (rr_items c) = [1..<Suc (length (trs_turns r))] \<and>
    map ob_observation_no (session_observations c) =
      [1..<Suc (length (concat (map tai_observations (concat (map tti_attempts (trs_turns r))))))] \<and>
    at_practice_item_no ` set (rr_attempts c) \<subseteq> Some ` it_item_no ` set (rr_items c)"
  using expand_numbers [OF assms] by blast

theorem expansion_numbers_by_position_witness:
  "\<exists>c. expand compact_request = Inr c \<and> map at_attempt_no (rr_attempts c) = [1, 2] \<and>
     map ob_observation_no (session_observations c) = [1, 2]"
proof -
  obtain c where c: "expand compact_request = Inr c" using compact_expands by blast
  from expansion_numbers_by_position [OF c] c show ?thesis
    by (auto simp: compact_defs upt_conv_Cons simp del: upt_Suc)
qed

text \<open>
  References survive the expansion: each review keeps its target and rating, and
  each evidence number of a canonical review is the number of an observation of the canonical
  request with the content of the compact observation that the reference names by its turn,
  attempt and position.
\<close>

theorem expansion_keeps_references:
  assumes "expand r = Inr c"
  shows "list_all2 (\<lambda>v rv. rv_weakness_key rv = tri_target v \<and> rv_rating rv = tri_rating v \<and>
      list_all2 (\<lambda>ref n. compact_observation (referenced (trs_turns r) ref) n
        \<in> set (session_observations c)) (tri_observation_refs v) (rv_evidence_observation_nos rv))
    (trs_reviews r) (rr_reviews c)"
  by (rule expand_reviews [OF assms])

theorem expansion_keeps_references_witness:
  "\<exists>c n m. expand compact_request = Inr c \<and>
     compact_observation (hd (tai_observations (compact_attempt ''b''))) n
       \<in> set (session_observations c) \<and>
     compact_observation (hd (tai_observations (compact_attempt ''a''))) m
       \<in> set (session_observations c)"
proof -
  obtain c where c: "expand compact_request = Inr c" using compact_expands by blast
  from expansion_keeps_references [OF c] c show ?thesis
    by (auto simp: compact_request_def compact_review_def compact_turn_def compact_attempt_def
        list_all2_Cons1 referenced_def)
qed

text \<open>
  When the expansion supplies production evidence, that evidence speaks of
  exactly the expanded attempts and observations, in their order.
\<close>

theorem expansion_pairs_evidence:
  assumes "expand r = Inr c" and "rr_production_evidence c = Some e"
  shows "map ae_attempt_no (pe_attempts e) = map at_attempt_no (rr_attempts c) \<and>
    map oe_observation_no (pe_observations e) = map ob_observation_no (session_observations c)"
  using expand_production [OF assms] by simp

theorem expansion_pairs_evidence_witness:
  "\<exists>c e. expand compact_request = Inr c \<and> rr_production_evidence c = Some e \<and>
     map ae_attempt_no (pe_attempts e) = [1, 2]"
proof -
  obtain c e where c: "expand compact_request = Inr c" and e: "rr_production_evidence c = Some e"
    using compact_expands by blast
  from expansion_pairs_evidence [OF c e] expand_numbers(1) [OF c] c e show ?thesis
    by (auto simp: compact_defs upt_conv_Cons simp del: upt_Suc)
qed

text \<open>
  The numbering of an expanded request is never the reason to refuse it: the
  session's observation check accepts the expansion exactly when every observation has an
  admissible pair of role and phase.
\<close>

theorem expansion_passes_numbering:
  assumes "expand r = Inr c"
  shows "validate_session_observation_numbers c = Inr () \<longleftrightarrow>
    list_all (\<lambda>o1. \<exists>p. normalized_phase o1 = Inr p) (session_observations c)"
proof -
  have "set (map ob_observation_no (session_observations c)) \<subseteq> {1..}"
    unfolding expand_numbers(4) [OF assms] by auto
  then have "0 \<notin> ob_observation_no ` set (session_observations c)" by auto
  moreover have "distinct (map ob_observation_no (session_observations c))"
    unfolding expand_numbers(4) [OF assms] by (simp only: distinct_upt)
  ultimately show ?thesis
    by (simp add: validate_numbers_iff normalized_phase_iff list_all_iff)
qed

theorem expansion_passes_numbering_witness:
  "\<exists>c. expand compact_request = Inr c \<and> validate_session_observation_numbers c = Inr ()"
proof -
  obtain c where c: "expand compact_request = Inr c" using compact_expands by blast
  have "\<exists>p. normalized_phase (compact_observation o1 n) = Inr p"
    if "o1 = hd (tai_observations (compact_attempt s))" for o1 n s
    using that by (simp add: compact_observation_def compact_attempt_def normalized_phase_def
        unwrap_or_def bail_if_def seqE.simps)
  moreover have "list_all (\<lambda>o1. \<exists>n s. o1 = compact_observation
      (hd (tai_observations (compact_attempt s))) n) (session_observations c)"
    using expand_observations [OF c]
    by (auto simp: list_all_iff compact_request_def compact_turn_def compact_attempt_def)
  ultimately have "list_all (\<lambda>o1. \<exists>p. normalized_phase o1 = Inr p) (session_observations c)"
    by (auto simp: list_all_iff)
  with expansion_passes_numbering [OF c] c show ?thesis by blast
qed

end
