(* ===== verification/PracticeApi.thy ===== *)
theory PracticeApi
  imports Complex_Main Prelude "HOL-Library.Word"
begin

unbundle bit_operations_syntax

text \<open>
  The pure part of \<open>src/practice/mod.rs\<close>: the errors of the recording service and their
  HTTP form, MIME handling, the checks of the two request bodies, managed media paths and
  the digest comparison. Durations and byte counts are \<open>nat\<close>; a floating point amount is
  an \<open>amount\<close>: not finite, or a rational.
\<close>

section \<open>Errors\<close>

datatype practice_error =
    Invalid string | TooLarge string | Unsupported string | NotFound string
  | Conflict string | Internal string

record http_error =
  he_status :: nat
  he_code :: string
  he_message :: string

fun into_response :: "practice_error \<Rightarrow> http_error" where
  "into_response (Invalid m) = \<lparr>he_status = 400, he_code = ''invalid_request'', he_message = m\<rparr>"
| "into_response (TooLarge m) = \<lparr>he_status = 413, he_code = ''too_large'', he_message = m\<rparr>"
| "into_response (Unsupported m) =
     \<lparr>he_status = 415, he_code = ''unsupported_media'', he_message = m\<rparr>"
| "into_response (NotFound m) = \<lparr>he_status = 404, he_code = ''not_found'', he_message = m\<rparr>"
| "into_response (Conflict m) = \<lparr>he_status = 409, he_code = ''conflict'', he_message = m\<rparr>"
| "into_response (Internal m) =
     \<lparr>he_status = 500, he_code = ''internal_error'',
      he_message = ''The practice service could not complete the request.''\<rparr>"

section \<open>Limits\<close>

definition MAX_AUDIO_BYTES :: nat where "MAX_AUDIO_BYTES = 10 * 1024 * 1024"
definition MAX_IMAGE_BYTES :: nat where "MAX_IMAGE_BYTES = 5 * 1024 * 1024"
definition MAX_UPLOAD_BODY_BYTES :: nat where "MAX_UPLOAD_BODY_BYTES = 12 * 1024 * 1024"
definition MAX_TASK_CHARS :: nat where "MAX_TASK_CHARS = 2000"
definition MAX_AUDIO_DURATION_MS :: nat where "MAX_AUDIO_DURATION_MS = 600000"

text \<open>Seconds.\<close>

definition SERVER_AUDIO_TTL :: nat where "SERVER_AUDIO_TTL = 24 * 60 * 60"
definition ABANDONED_MEDIA_TTL :: nat where "ABANDONED_MEDIA_TTL = 7 * 24 * 60 * 60"

section \<open>MIME types\<close>

definition normalize_mime :: "ustring \<Rightarrow> ustring" where
  "normalize_mime value = ascii_lower (trim (takeWhile (\<lambda>c. c \<noteq> 59) value))"

definition is_audio_mime :: "ustring \<Rightarrow> bool" where
  "is_audio_mime value \<longleftrightarrow> normalize_mime value \<in> set (map lit
     [''audio/m4a'', ''audio/mp4'', ''audio/webm'', ''audio/ogg'', ''audio/opus''])"

definition is_image_mime :: "ustring \<Rightarrow> bool" where
  "is_image_mime value \<longleftrightarrow> normalize_mime value \<in> set (map lit
     [''image/jpeg'', ''image/png'', ''image/webp''])"

definition max_upload_bytes :: "ustring \<Rightarrow> nat" where
  "max_upload_bytes mime = (if is_image_mime mime then MAX_IMAGE_BYTES else MAX_AUDIO_BYTES)"

definition extension_for_mime :: "ustring \<Rightarrow> ustring" where
  "extension_for_mime value =
     (let m = normalize_mime value in
      if m = lit ''audio/m4a'' \<or> m = lit ''audio/mp4'' then lit ''.m4a''
      else if m = lit ''audio/ogg'' \<or> m = lit ''audio/opus'' then lit ''.ogg''
      else if m = lit ''image/png'' then lit ''.png''
      else if m = lit ''image/webp'' then lit ''.webp''
      else lit ''.webm'')"

section \<open>Managed media paths\<close>

fun split_on :: "'a \<Rightarrow> 'a list \<Rightarrow> 'a list list" where
  "split_on c [] = [[]]"
| "split_on c (x # xs) =
     (if x = c then [] # split_on c xs
      else case split_on c xs of [] \<Rightarrow> [[x]] | w # ws \<Rightarrow> (x # w) # ws)"

definition safe_char :: "nat \<Rightarrow> bool" where
  "safe_char c \<longleftrightarrow> is_ascii_alnum c \<or> c = 45 \<or> c = 95 \<or> c = 46"

text \<open>\<open>media_dir.join(relative_path)\<close> for a relative path; the components are kept apart.\<close>

definition safe_media_path ::
    "ustring list \<Rightarrow> ustring \<Rightarrow> string + ustring list" where
  "safe_media_path media_dir relative_path =
     (if relative_path = [] \<or> starts_with relative_path [47] \<or> contains relative_path [92] \<or>
         list_ex (\<lambda>c. c = [] \<or> c = lit ''.'' \<or> c = lit ''..'') (split_on 47 relative_path) \<or>
         list_ex (\<lambda>c. \<not> list_all safe_char c) (split_on 47 relative_path)
      then Inl ''invalid managed media path''
      else Inr (media_dir @ split_on 47 relative_path))"

section \<open>Request bodies\<close>

record create_upload_request =
  cu_recording_id :: ustring
  cu_sha256 :: ustring
  cu_bytes :: nat
  cu_mime_type :: ustring
  cu_kind :: "ustring option"
  cu_idempotency_key :: ustring

datatype amount = Not_finite | Finite rat

record request_analysis_request =
  ra_recording_id :: ustring
  ra_idempotency_key :: ustring
  ra_task :: ustring
  ra_duration_ms :: nat
  ra_requested_stages :: "ustring list"
  ra_spending_reservation_usd :: "amount option"
  ra_image_upload_id :: "ustring option"
  ra_image_hash :: "ustring option"

definition validate_upload_request :: "create_upload_request \<Rightarrow> practice_error + unit" where
  "validate_upload_request input =
     (let is_image = (case cu_kind input of
            Some kind \<Rightarrow> kind = lit ''image'' | None \<Rightarrow> is_image_mime (cu_mime_type input));
          is_audio = (case cu_kind input of
            Some kind \<Rightarrow> kind = lit ''audio'' | None \<Rightarrow> is_audio_mime (cu_mime_type input))
      in seqE
       [bail_if (blank (cu_recording_id input) \<or> length (cu_recording_id input) > 128 \<or>
            \<not> list_all safe_char (cu_recording_id input))
          (Invalid ''recording_id is required and bounded''),
        bail_if (blank (cu_idempotency_key input) \<or> length (cu_idempotency_key input) > 160)
          (Invalid ''idempotency_key is required and bounded''),
        bail_if (blen (cu_sha256 input) \<noteq> 64 \<or> \<not> list_all is_ascii_hex (cu_sha256 input))
          (Invalid ''sha256 must be a 64-character hexadecimal digest''),
        bail_if (\<not> is_image \<and> \<not> is_audio)
          (Invalid ''kind must be audio or image and match the MIME type''),
        bail_if ((is_image \<and> \<not> is_image_mime (cu_mime_type input)) \<or>
            (is_audio \<and> \<not> is_audio_mime (cu_mime_type input)))
          (Unsupported ''the declared kind does not match the MIME type''),
        bail_if (cu_bytes input = 0 \<or> cu_bytes input > max_upload_bytes (cu_mime_type input))
          (TooLarge ''the upload is empty or exceeds its media type limit'')])"

definition validate_analysis_request :: "request_analysis_request \<Rightarrow> practice_error + unit" where
  "validate_analysis_request input =
     seqE
      [bail_if (blank (ra_recording_id input) \<or> blank (ra_idempotency_key input))
         (Invalid ''recording_id and idempotency_key are required''),
       bail_if (blank (ra_task input) \<or> length (ra_task input) > MAX_TASK_CHARS)
         (Invalid ''task is required and bounded''),
       bail_if (ra_duration_ms input = 0 \<or> ra_duration_ms input > MAX_AUDIO_DURATION_MS)
         (Invalid ''duration_ms must be between 1 ms and 10 minutes''),
       bail_if (ra_requested_stages input = [] \<or> length (ra_requested_stages input) > 4)
         (Invalid ''requested_stages must contain one to four stages''),
       bail_if (some_and (ra_spending_reservation_usd input)
           (\<lambda>v. case v of Not_finite \<Rightarrow> True | Finite x \<Rightarrow> x < 0))
         (Invalid ''spending_reservation_usd must be finite and nonnegative'')]"

section \<open>Digests\<close>

type_synonym byte = "8 word"

text \<open>The UTF-8 form of a code point.\<close>

definition utf8_cp :: "nat \<Rightarrow> byte list" where
  "utf8_cp c =
     (if c < 128 then [of_nat c]
      else if c < 2048 then [of_nat (192 + c div 64), of_nat (128 + c mod 64)]
      else if c < 65536 then
        [of_nat (224 + c div 4096), of_nat (128 + c div 64 mod 64), of_nat (128 + c mod 64)]
      else [of_nat (240 + c div 262144), of_nat (128 + c div 4096 mod 64),
            of_nat (128 + c div 64 mod 64), of_nat (128 + c mod 64)])"

definition utf8 :: "ustring \<Rightarrow> byte list" where
  "utf8 s = concat (map utf8_cp s)"

definition constant_time_string_eq :: "ustring \<Rightarrow> ustring \<Rightarrow> bool" where
  "constant_time_string_eq left right \<longleftrightarrow>
     length (utf8 left) = length (utf8 right) \<and>
     foldl (\<lambda>acc (a, b). acc OR (a XOR b)) (0 :: byte) (zip (utf8 left) (utf8 right)) = 0"

section \<open>What the checks establish\<close>

definition text_ok_chars :: "ustring \<Rightarrow> nat \<Rightarrow> bool" where
  "text_ok_chars s limit \<longleftrightarrow> \<not> blank s \<and> length s \<le> limit"

lemma split_on_not_Nil [simp]: "split_on c xs \<noteq> []"
  by (cases xs) (auto split: list.splits)

lemma split_on_no_sep: "w \<in> set (split_on c xs) \<Longrightarrow> c \<notin> set w"
proof (induction xs arbitrary: w)
  case (Cons x xs)
  then show ?case by (cases "split_on c xs") (auto split: if_splits)
qed simp

lemma split_on_append:
  "c \<notin> set xs \<Longrightarrow> split_on c (xs @ c # ys) = xs # split_on c ys"
  by (induction xs) auto

lemma split_on_single: "c \<notin> set xs \<Longrightarrow> split_on c xs = [xs]"
  by (induction xs) auto

lemma split_on_set: "w \<in> set (split_on c xs) \<Longrightarrow> set w \<subseteq> set xs"
proof (induction xs arbitrary: w)
  case (Cons x xs)
  show ?case
  proof (cases "split_on c xs")
    case Nil
    then show ?thesis by simp
  next
    case (Cons v vs)
    with Cons.prems Cons.IH [of v] Cons.IH [of w] show ?thesis
      by (auto split: if_splits)
  qed
qed simp

text \<open>Resolving \<open>.\<close> and \<open>..\<close> the way a file system does.\<close>

fun resolve_components :: "ustring list \<Rightarrow> ustring list \<Rightarrow> ustring list" where
  "resolve_components base [] = base"
| "resolve_components base (c # cs) =
     resolve_components
       (if c = [] \<or> c = lit ''.'' then base else if c = lit ''..'' then butlast base else base @ [c])
       cs"

lemma resolve_plain:
  "\<forall>c\<in>set cs. c \<noteq> [] \<and> c \<noteq> lit ''.'' \<and> c \<noteq> lit ''..'' \<Longrightarrow> resolve_components base cs = base @ cs"
  by (induction cs arbitrary: base) auto

lemma safe_media_path_Inr:
  "safe_media_path media_dir rel = Inr p \<longleftrightarrow>
     (\<forall>c\<in>set (split_on 47 rel). c \<noteq> [] \<and> c \<noteq> lit ''.'' \<and> c \<noteq> lit ''..'' \<and>
        list_all safe_char c) \<and> p = media_dir @ split_on 47 rel"
  (is "?L \<longleftrightarrow> ?R")
proof
  assume ?L
  then show ?R by (auto simp: safe_media_path_def list_ex_iff split: if_splits)
next
  assume r: ?R
  have "rel \<noteq> []" using r by auto
  moreover have "\<not> starts_with rel [47]"
    using r by (cases rel) (auto simp: starts_with_def split: if_splits)
  moreover have "\<not> contains rel [92]"
  proof
    assume "contains rel [92]"
    then obtain a b where "rel = a @ 92 # b" by (auto simp: contains_iff)
    then have "92 \<in> set (concat (split_on 47 rel))"
    proof -
      have "y \<noteq> 47 \<Longrightarrow> y \<in> set xs \<Longrightarrow> y \<in> set (concat (split_on 47 xs))" for y :: nat and xs
        by (induction xs) (auto split: list.splits)
      then show ?thesis using \<open>rel = a @ 92 # b\<close> by simp
    qed
    then obtain w where "w \<in> set (split_on 47 rel)" "92 \<in> set w" by auto
    with r have "safe_char 92" by (auto simp: list_all_iff)
    then show False
      by (simp add: safe_char_def is_ascii_alnum_def is_ascii_digit_def is_ascii_lower_def)
  qed
  ultimately show ?L using r by (auto simp: safe_media_path_def list_ex_iff)
qed

lemma utf8_ascii: "\<forall>c\<in>set s. c < 128 \<Longrightarrow> utf8 s = map of_nat s"
  by (induction s) (auto simp: utf8_def utf8_cp_def)

lemma or_zero_iff: "(a :: byte) OR b = 0 \<longleftrightarrow> a = 0 \<and> b = 0"
  by (simp add: or_eq_0_iff)

lemma xor_zero_iff: "(a :: byte) XOR b = 0 \<longleftrightarrow> a = b"
  by (auto simp: bit_eq_iff bit_xor_iff)

lemma fold_difference:
  "foldl (\<lambda>acc (a, b). acc OR (a XOR b)) (x :: byte) zs = 0 \<longleftrightarrow>
     x = 0 \<and> (\<forall>(a, b)\<in>set zs. a = b)"
  by (induction zs arbitrary: x) (auto simp: or_zero_iff xor_zero_iff)

lemma zip_all_eq:
  "length xs = length ys \<Longrightarrow> (\<forall>(a, b)\<in>set (zip xs ys). a = b) \<longleftrightarrow> xs = ys"
  by (induction xs ys rule: list_induct2) auto

lemma constant_time_string_eq_iff:
  "constant_time_string_eq l r \<longleftrightarrow> utf8 l = utf8 r"
  unfolding constant_time_string_eq_def fold_difference
  using zip_all_eq [of "utf8 l" "utf8 r"] by auto

section \<open>Paths of recordings\<close>

definition recording_path :: "ustring \<Rightarrow> ustring \<Rightarrow> ustring" where
  "recording_path recording_id mime =
     lit ''recordings/'' @ recording_id @ extension_for_mime mime"

lemma extension_cases:
  "extension_for_mime m \<in>
     {lit ''.m4a'', lit ''.ogg'', lit ''.png'', lit ''.webp'', lit ''.webm''}"
  by (simp add: extension_for_mime_def Let_def)

lemma extension_suffix_unique:
  assumes "a @ extension_for_mime m = b @ extension_for_mime n"
  shows "a = b \<and> extension_for_mime m = extension_for_mime n"
proof -
  have "rev (extension_for_mime m) @ rev a = rev (extension_for_mime n) @ rev b"
    using assms by (metis rev_append)
  with extension_cases [of m] extension_cases [of n] show ?thesis
    by (auto simp: lit_def)
qed

lemma recording_path_inj:
  "recording_path a m = recording_path b n \<Longrightarrow>
     a = b \<and> extension_for_mime m = extension_for_mime n"
  unfolding recording_path_def same_append_eq by (rule extension_suffix_unique)

lemma recording_path_eq_iff:
  "recording_path a m = recording_path b n \<longleftrightarrow>
     a = b \<and> extension_for_mime m = extension_for_mime n"
  using recording_path_inj by (metis recording_path_def)

lemma extension_safe: "list_all safe_char (extension_for_mime m)"
  using extension_cases [of m]
  by (auto simp: lit_def safe_char_def is_ascii_alnum_def is_ascii_digit_def is_ascii_lower_def)

lemma safe_char_no_slash: "list_all safe_char w \<Longrightarrow> 47 \<notin> set w"
  by (auto simp: list_all_iff safe_char_def is_ascii_alnum_def is_ascii_digit_def
      is_ascii_lower_def)

lemma recording_path_components:
  assumes "list_all safe_char rid"
  shows "split_on 47 (recording_path rid m) = [lit ''recordings'', rid @ extension_for_mime m]"
proof -
  have path: "recording_path rid m =
      lit ''recordings'' @ 47 # (rid @ extension_for_mime m)"
    by (simp add: recording_path_def lit_def)
  have tail: "47 \<notin> set (rid @ extension_for_mime m)"
    using assms extension_safe by (intro safe_char_no_slash) simp
  have "47 \<notin> set (lit ''recordings'')" by (simp add: lit_def)
  then show ?thesis
    unfolding path split_on_single [OF tail, symmetric] by (rule split_on_append)
qed

lemma recording_path_safe:
  assumes "list_all safe_char rid"
  shows "safe_media_path dir (recording_path rid m) =
     Inr (dir @ [lit ''recordings'', rid @ extension_for_mime m])"
proof -
  have ext: "rid @ extension_for_mime m \<noteq> []" "rid @ extension_for_mime m \<noteq> lit ''.''"
    "rid @ extension_for_mime m \<noteq> lit ''..''"
    using extension_cases [of m] by (auto simp: lit_def append_eq_Cons_conv)
  have rs: "list_all safe_char (lit ''recordings'')" "lit ''recordings'' \<noteq> []"
    "lit ''recordings'' \<noteq> lit ''.''" "lit ''recordings'' \<noteq> lit ''..''"
    by (simp_all add: lit_def safe_char_def is_ascii_alnum_def is_ascii_digit_def
        is_ascii_lower_def)
  have full: "list_all safe_char (rid @ extension_for_mime m)"
    using assms extension_safe by simp
  show ?thesis
    unfolding safe_media_path_Inr recording_path_components [OF assms]
    using ext rs full by simp
qed

lemma validate_upload_Inr:
  "validate_upload_request input = Inr () \<longleftrightarrow>
     text_ok_chars (cu_recording_id input) 128 \<and> list_all safe_char (cu_recording_id input) \<and>
     text_ok_chars (cu_idempotency_key input) 160 \<and>
     blen (cu_sha256 input) = 64 \<and> list_all is_ascii_hex (cu_sha256 input) \<and>
     (is_image_mime (cu_mime_type input) \<and> cu_kind input \<in> {None, Some (lit ''image'')} \<or>
      is_audio_mime (cu_mime_type input) \<and> cu_kind input \<in> {None, Some (lit ''audio'')}) \<and>
     0 < cu_bytes input \<and> cu_bytes input \<le> max_upload_bytes (cu_mime_type input)"
proof -
  have excl: "\<not> (is_image_mime m \<and> is_audio_mime m)" for m
    by (auto simp: is_image_mime_def is_audio_mime_def lit_def)
  have "lit ''image'' \<noteq> lit ''audio''" by (simp add: lit_def)
  then show ?thesis
    unfolding validate_upload_request_def Let_def text_ok_chars_def
    using excl [of "cu_mime_type input"]
    by (cases "cu_kind input") (auto simp: ok_simps not_less)
qed

section \<open>Properties\<close>

text \<open>
  A path that \<open>safe_media_path\<close> returns stays inside the media directory: the
  components below it are plain names, so resolving them never leaves the directory.
\<close>

theorem media_path_confined:
  assumes "safe_media_path media_dir rel = Inr p"
  shows "\<exists>cs. cs \<noteq> [] \<and> p = media_dir @ cs \<and>
    resolve_components media_dir cs = media_dir @ cs \<and>
    list_all (\<lambda>c. c \<noteq> [] \<and> list_all safe_char c) cs"
proof -
  from assms have cs: "\<forall>c\<in>set (split_on 47 rel). c \<noteq> [] \<and> c \<noteq> lit ''.'' \<and> c \<noteq> lit ''..'' \<and>
      list_all safe_char c" and p: "p = media_dir @ split_on 47 rel"
    by (simp_all add: safe_media_path_Inr)
  then have "resolve_components media_dir (split_on 47 rel) = media_dir @ split_on 47 rel"
    by (intro resolve_plain) blast
  with cs p show ?thesis by (intro exI [of _ "split_on 47 rel"]) (simp add: list_all_iff)
qed

theorem media_path_confined_witness:
  "safe_media_path [lit ''data''] (lit ''staging/a.upload'') =
     Inr [lit ''data'', lit ''staging'', lit ''a.upload''] \<and>
   (\<exists>cs. [lit ''data'', lit ''staging'', lit ''a.upload''] = [lit ''data''] @ cs \<and>
     resolve_components [lit ''data''] cs = [lit ''data''] @ cs)"
proof -
  have path: "safe_media_path [lit ''data''] (lit ''staging/a.upload'') =
      Inr [lit ''data'', lit ''staging'', lit ''a.upload'']"
    by (simp add: safe_media_path_def lit_def starts_with_def safe_char_def is_ascii_alnum_def
        is_ascii_digit_def is_ascii_lower_def)
  from media_path_confined [OF this] path show ?thesis by blast
qed

text \<open>
  Every accepted upload can be finalised to a path of its own: a validated
  recording id gives a safe path of two components, and two ids (or two file extensions) never
  share a path.
\<close>

theorem recording_paths_safe_and_distinct:
  assumes "validate_upload_request input = Inr ()"
  shows "safe_media_path dir (recording_path (cu_recording_id input) (cu_mime_type input)) =
      Inr (dir @ [lit ''recordings'',
        cu_recording_id input @ extension_for_mime (cu_mime_type input)]) \<and>
    (recording_path other mime = recording_path (cu_recording_id input) (cu_mime_type input) \<longleftrightarrow>
      other = cu_recording_id input \<and>
      extension_for_mime mime = extension_for_mime (cu_mime_type input))"
proof -
  have "list_all safe_char (cu_recording_id input)"
    using assms by (simp add: validate_upload_Inr)
  then have "safe_media_path dir (recording_path (cu_recording_id input) (cu_mime_type input)) =
      Inr (dir @ [lit ''recordings'',
        cu_recording_id input @ extension_for_mime (cu_mime_type input)])"
    by (rule recording_path_safe)
  then show ?thesis by (simp add: recording_path_eq_iff)
qed

definition sample_upload :: "ustring \<Rightarrow> create_upload_request" where
  "sample_upload sha =
     \<lparr>cu_recording_id = lit ''r'', cu_sha256 = sha, cu_bytes = 5,
      cu_mime_type = lit ''audio/mp4'', cu_kind = None, cu_idempotency_key = lit ''k''\<rparr>"

lemma sample_upload_valid:
  "length sha = 64 \<Longrightarrow> list_all is_ascii_hex sha \<Longrightarrow>
     validate_upload_request (sample_upload sha) = Inr ()"
proof -
  assume sha: "length sha = 64" "list_all is_ascii_hex sha"
  have "blen s = length s" if "list_all is_ascii_hex s" for s
    using that by (induction s)
      (auto simp: blen_def cp_len_def is_ascii_hex_def is_ascii_digit_def)
  with sha show ?thesis
    by (auto simp: validate_upload_Inr sample_upload_def text_ok_chars_def blank_iff lit_def
        is_white_def safe_char_def is_ascii_alnum_def is_ascii_digit_def is_ascii_lower_def
        is_audio_mime_def is_image_mime_def normalize_mime_def ascii_lower_def trim_def
        max_upload_bytes_def MAX_AUDIO_BYTES_def)
qed

theorem recording_paths_safe_and_distinct_witness:
  "safe_media_path [] (recording_path (lit ''r'') (lit ''audio/mp4'')) =
     Inr [lit ''recordings'', lit ''r'' @ extension_for_mime (lit ''audio/mp4'')] \<and>
   recording_path (lit ''s'') (lit ''audio/mp4'') \<noteq> recording_path (lit ''r'') (lit ''audio/mp4'')"
proof -
  have "validate_upload_request (sample_upload (replicate 64 48)) = Inr ()"
    by (rule sample_upload_valid) (simp_all add: is_ascii_hex_def is_ascii_digit_def list_all_iff)
  from recording_paths_safe_and_distinct [OF this, of "[]" "lit ''s''" "lit ''audio/mp4''"]
  show ?thesis by (simp add: sample_upload_def)
qed

text \<open>
  The digest comparison, which inspects every byte whatever differs, decides
  equality of the UTF-8 texts. A declared digest with an upper-case letter is accepted by the
  request check and yet never equals a computed digest, which is in lower case.
\<close>

theorem digest_comparison:
  "(constant_time_string_eq l r \<longleftrightarrow> utf8 l = utf8 r) \<and>
   validate_upload_request (sample_upload (replicate 64 65)) = Inr () \<and>
   \<not> (list_all (\<lambda>c. is_ascii_digit c \<or> is_ascii_lower c) l \<and>
      constant_time_string_eq l (replicate 64 65))"
proof -
  have "validate_upload_request (sample_upload (replicate 64 65)) = Inr ()"
    by (rule sample_upload_valid) (simp_all add: is_ascii_hex_def is_ascii_digit_def list_all_iff)
  moreover have "\<not> constant_time_string_eq l (replicate 64 65)"
    if l: "list_all (\<lambda>c. is_ascii_digit c \<or> is_ascii_lower c) l"
  proof
    assume "constant_time_string_eq l (replicate 64 65)"
    then have eq: "utf8 l = utf8 (replicate 64 65)" by (simp add: constant_time_string_eq_iff)
    have "utf8 l = map of_nat l"
      using l by (intro utf8_ascii) (auto simp: list_all_iff is_ascii_digit_def is_ascii_lower_def)
    moreover have "utf8 (replicate 64 65) = map of_nat (replicate 64 65)"
      by (rule utf8_ascii) simp
    ultimately have m: "map of_nat l = (replicate 64 65 :: byte list)" using eq by simp
    then have "l \<noteq> []" by auto
    then obtain c cs where l': "l = c # cs" by (cases l) auto
    have "(of_nat c :: byte) = 65"
      using m l' by (metis Cons_eq_map_D list.inject replicate_Suc numeral_eq_Suc list.simps(9) nth_Cons_0 nth_replicate zero_less_numeral)
    then have "unat (of_nat c :: byte) = 65" by simp
    moreover have "c < 256" using l l' by (auto simp: is_ascii_digit_def is_ascii_lower_def)
    ultimately have "c = 65" by (simp add: unat_of_nat)
    with l l' show False by (simp add: is_ascii_digit_def is_ascii_lower_def)
  qed
  ultimately show ?thesis by (auto simp: constant_time_string_eq_iff)
qed

end
