(* ===== verification/JobStore.thy ===== *)
theory JobStore
  imports PracticeApi
begin

text \<open>
  \<open>PracticeJobStore\<close> of \<open>src/practice/mod.rs\<close>: the four tables (uploads, recordings, jobs,
  spend reservations) and one function per method. A table is the list of its rows in
  insertion order, an UPDATE is a map, a DELETE a filter; a method returns its result and
  the new tables. The owner column is constant and left out. Times are numbers that order
  like the RFC 3339 texts, a month key is a number; both come with the clock of the call,
  as does the fresh identifier (\<open>Uuid::new_v4\<close>) an insert uses. Dollar amounts are exact
  rationals instead of \<open>f64\<close>.
\<close>

section \<open>Tables\<close>

datatype upload_status = Upload_created | Upload_uploaded | Upload_finalized
datatype recording_status = Recording_ready | Recording_deleted | Recording_expired
datatype job_status = Job_queued | Job_running | Job_completed | Job_failed | Job_cancelled
datatype spend_status = Spend_reserved | Spend_settled | Spend_released

record upload_row =
  up_id :: ustring
  up_client_recording_id :: ustring
  up_idempotency_key :: ustring
  up_payload_hash :: ustring
  up_expected_hash :: ustring
  up_expected_bytes :: nat
  up_mime_type :: ustring
  up_staging_path :: ustring
  up_status :: upload_status
  up_expires_at :: nat

record recording_row =
  rec_id :: ustring
  rec_upload_id :: ustring
  rec_relative_path :: ustring
  rec_hash :: ustring
  rec_bytes :: nat
  rec_mime_type :: ustring
  rec_expires_at :: nat
  rec_status :: recording_status

record job_row =
  job_id :: ustring
  job_recording_id :: ustring
  job_idempotency_key :: ustring
  job_payload_hash :: ustring
  job_request :: request_analysis_request
  job_status :: job_status
  job_result :: "ustring option"
  job_error :: "(string \<times> string) option"
  job_cancel_requested :: bool
  job_lease_until :: "nat option"
  job_created_at :: nat
  job_updated_at :: nat
  job_expires_at :: nat

record spend_row =
  sp_job_id :: ustring
  sp_month_key :: nat
  sp_amount_usd :: rat
  sp_status :: spend_status

record job_store =
  js_uploads :: "upload_row list"
  js_recordings :: "recording_row list"
  js_jobs :: "job_row list"
  js_spend :: "spend_row list"

record job_work =
  wk_id :: ustring
  wk_recording_id :: ustring
  wk_relative_path :: ustring
  wk_mime_type :: ustring
  wk_request :: request_analysis_request

record api_config =
  ac_server_audio_cap_bytes :: nat
  ac_monthly_spend_cap_usd :: rat
  ac_analysis_reservation_usd :: rat

record clock =
  ck_now :: nat
  ck_month :: nat

section \<open>Uploads\<close>

definition find_upload :: "job_store \<Rightarrow> ustring \<Rightarrow> practice_error + upload_row" where
  "find_upload st upload_id =
     ok_or (find (\<lambda>u. up_id u = upload_id) (js_uploads st)) (NotFound ''upload not found'')"

definition find_recording :: "job_store \<Rightarrow> ustring \<Rightarrow> practice_error + recording_row" where
  "find_recording st recording_id =
     ok_or (find (\<lambda>r. rec_id r = recording_id) (js_recordings st))
       (NotFound ''recording not found'')"

definition find_job :: "job_store \<Rightarrow> ustring \<Rightarrow> practice_error + job_row" where
  "find_job st jid =
     ok_or (find (\<lambda>j. job_id j = jid) (js_jobs st)) (NotFound ''analysis job not found'')"

text \<open>\<open>mime_type LIKE 'audio/%'\<close> (ASCII letters in either case, no trimming).\<close>

definition counts_as_audio :: "recording_row \<Rightarrow> bool" where
  "counts_as_audio r \<longleftrightarrow> rec_status r = Recording_ready \<and>
     starts_with (ascii_lower (rec_mime_type r)) (lit ''audio/'')"

definition current_audio_bytes :: "job_store \<Rightarrow> nat" where
  "current_audio_bytes st =
     sum_list (map rec_bytes (filter counts_as_audio (js_recordings st)))"

definition create_upload ::
    "clock \<Rightarrow> ustring \<Rightarrow> create_upload_request \<Rightarrow> ustring \<Rightarrow> ustring \<Rightarrow> job_store \<Rightarrow>
     (practice_error + upload_row) \<times> job_store" where
  "create_upload ck uid input payload_hash staging_path st =
     (case find (\<lambda>u. up_idempotency_key u = cu_idempotency_key input) (js_uploads st) of
        Some existing \<Rightarrow>
          if up_payload_hash existing \<noteq> payload_hash
          then (Inl (Conflict ''idempotency key was already used with a different upload''), st)
          else (Inr existing, st)
      | None \<Rightarrow>
          if uid \<in> up_id ` set (js_uploads st)
          then (Inl (Internal ''database operation failed: {error}''), st)
          else (let row =
            \<lparr>up_id = uid, up_client_recording_id = cu_recording_id input,
             up_idempotency_key = cu_idempotency_key input, up_payload_hash = payload_hash,
             up_expected_hash = cu_sha256 input, up_expected_bytes = cu_bytes input,
             up_mime_type = cu_mime_type input, up_staging_path = staging_path,
             up_status = Upload_created, up_expires_at = ck_now ck + ABANDONED_MEDIA_TTL\<rparr>
            in (Inr row, st\<lparr>js_uploads := js_uploads st @ [row]\<rparr>)))"

definition set_upload_status :: "ustring \<Rightarrow> upload_status \<Rightarrow> job_store \<Rightarrow> job_store" where
  "set_upload_status uid s st =
     st\<lparr>js_uploads := map (\<lambda>u. if up_id u = uid then u\<lparr>up_status := s\<rparr> else u) (js_uploads st)\<rparr>"

definition mark_upload_written :: "ustring \<Rightarrow> job_store \<Rightarrow> job_store" where
  "mark_upload_written upload_id st = set_upload_status upload_id Upload_uploaded st"

text \<open>
  \<open>finalize_upload\<close>: the cap is checked against the tables as another call may have seen
  them (\<open>snapshot\<close>, since the lock is dropped between the check and the write). The insert
  needs the upload's row (the foreign key of \<open>upload_id\<close>) and replaces a row with the same
  id or the same upload.
\<close>

definition finalize_upload_at ::
    "clock \<Rightarrow> api_config \<Rightarrow> job_store \<Rightarrow> upload_row \<Rightarrow> ustring \<Rightarrow> nat \<Rightarrow> ustring \<Rightarrow>
     job_store \<Rightarrow> (practice_error + recording_row) \<times> job_store" where
  "finalize_upload_at ck cfg snapshot upload hash bytes relative_path st =
     (if is_audio_mime (up_mime_type upload) \<and>
         current_audio_bytes snapshot + bytes > ac_server_audio_cap_bytes cfg
      then (Inl (TooLarge ''the server processing audio cap is full; delete a completed recording and retry''), st)
      else if up_id upload \<notin> up_id ` set (js_uploads st)
      then (Inl (Internal ''database operation failed: {error}''), st)
      else (let row =
          \<lparr>rec_id = up_client_recording_id upload, rec_upload_id = up_id upload,
           rec_relative_path = relative_path, rec_hash = hash, rec_bytes = bytes,
           rec_mime_type = up_mime_type upload,
           rec_expires_at = ck_now ck + SERVER_AUDIO_TTL, rec_status = Recording_ready\<rparr>;
          st1 = set_upload_status (up_id upload) Upload_finalized st
        in (Inr row,
            st1\<lparr>js_recordings := filter (\<lambda>r. rec_id r \<noteq> rec_id row \<and>
                  rec_upload_id r \<noteq> rec_upload_id row) (js_recordings st1) @ [row]\<rparr>)))"

definition finalize_upload ::
    "clock \<Rightarrow> api_config \<Rightarrow> upload_row \<Rightarrow> ustring \<Rightarrow> nat \<Rightarrow> ustring \<Rightarrow>
     job_store \<Rightarrow> (practice_error + recording_row) \<times> job_store" where
  "finalize_upload ck cfg upload hash bytes relative_path st =
     finalize_upload_at ck cfg st upload hash bytes relative_path st"

section \<open>Jobs\<close>

definition requests_coaching :: "request_analysis_request \<Rightarrow> bool" where
  "requests_coaching input \<longleftrightarrow>
     list_ex (\<lambda>stage. stage = lit ''gemini'' \<or> stage = lit ''coaching'') (ra_requested_stages input)"

text \<open>\<open>spending_reservation_usd.unwrap_or(default).max(default)\<close>; \<open>max\<close> ignores a NaN.\<close>

definition reservation_usd :: "api_config \<Rightarrow> request_analysis_request \<Rightarrow> rat" where
  "reservation_usd cfg input =
     (if requests_coaching input
      then (case ra_spending_reservation_usd input of
          Some (Finite x) \<Rightarrow> max x (ac_analysis_reservation_usd cfg)
        | _ \<Rightarrow> ac_analysis_reservation_usd cfg)
      else 0)"

definition reserved_in_month :: "job_store \<Rightarrow> nat \<Rightarrow> rat" where
  "reserved_in_month st month =
     sum_list (map sp_amount_usd (filter (\<lambda>s. sp_month_key s = month \<and>
       sp_status s \<in> {Spend_reserved, Spend_settled}) (js_spend st)))"

definition new_job ::
    "clock \<Rightarrow> ustring \<Rightarrow> request_analysis_request \<Rightarrow> ustring \<Rightarrow> job_row" where
  "new_job ck jid input payload_hash =
     \<lparr>job_id = jid, job_recording_id = ra_recording_id input,
      job_idempotency_key = ra_idempotency_key input, job_payload_hash = payload_hash,
      job_request = input, job_status = Job_queued, job_result = None,
      job_error = None, job_cancel_requested = False, job_lease_until = None,
      job_created_at = ck_now ck, job_updated_at = ck_now ck,
      job_expires_at = ck_now ck + ABANDONED_MEDIA_TTL\<rparr>"

definition create_job ::
    "clock \<Rightarrow> api_config \<Rightarrow> ustring \<Rightarrow> request_analysis_request \<Rightarrow> ustring \<Rightarrow> job_store \<Rightarrow>
     (practice_error + job_row) \<times> job_store" where
  "create_job ck cfg jid input payload_hash st =
     (case find (\<lambda>j. job_idempotency_key j = ra_idempotency_key input) (js_jobs st) of
        Some existing \<Rightarrow>
          if job_payload_hash existing \<noteq> payload_hash
          then (Inl (Conflict ''idempotency key was already used with a different analysis request''), st)
          else (Inr existing, st)
      | None \<Rightarrow>
         (let reservation = reservation_usd cfg input in
          if reservation > ac_monthly_spend_cap_usd cfg
          then (Inl (Conflict ''the requested analysis reservation exceeds the monthly server cap''), st)
          else if reserved_in_month st (ck_month ck) + reservation > ac_monthly_spend_cap_usd cfg
          then (Inl (Conflict ''the monthly analysis cap has been reached; wait for the next period or increase the server cap''), st)
          else if jid \<in> job_id ` set (js_jobs st) \<or>
            ra_recording_id input \<notin> rec_id ` set (js_recordings st)
          then (Inl (Internal ''database operation failed: {error}''), st)
          else (let row = new_job ck jid input payload_hash
            in (Inr row,
                st\<lparr>js_jobs := js_jobs st @ [row],
                   js_spend := js_spend st @
                     [\<lparr>sp_job_id = jid, sp_month_key = ck_month ck,
                       sp_amount_usd = reservation, sp_status = Spend_reserved\<rparr>]\<rparr>))))"

text \<open>The UPDATE statements.\<close>

definition update_jobs :: "(job_row \<Rightarrow> bool) \<Rightarrow> (job_row \<Rightarrow> job_row) \<Rightarrow> job_store \<Rightarrow> job_store" where
  "update_jobs P f st = st\<lparr>js_jobs := map (\<lambda>j. if P j then f j else j) (js_jobs st)\<rparr>"

definition update_spend ::
    "(spend_row \<Rightarrow> bool) \<Rightarrow> spend_status \<Rightarrow> job_store \<Rightarrow> job_store" where
  "update_spend P s st =
     st\<lparr>js_spend := map (\<lambda>r. if P r then r\<lparr>sp_status := s\<rparr> else r) (js_spend st)\<rparr>"

section \<open>The worker's operations\<close>

definition LEASE_SECONDS :: nat where "LEASE_SECONDS = 10 * 60"

text \<open>First statement of \<open>claim_job\<close>: expired leases go back to the queue.\<close>

definition requeue_expired :: "clock \<Rightarrow> job_store \<Rightarrow> job_store" where
  "requeue_expired ck = update_jobs
     (\<lambda>j. job_status j = Job_running \<and> \<not> job_cancel_requested j \<and>
        some_and (job_lease_until j) (\<lambda>t. t < ck_now ck))
     (\<lambda>j. j\<lparr>job_status := Job_queued, job_lease_until := None, job_updated_at := ck_now ck\<rparr>)"

text \<open>\<open>ORDER BY created_at ASC LIMIT 1\<close>: the first of the oldest rows.\<close>

fun oldest :: "job_row list \<Rightarrow> job_row option" where
  "oldest [] = None"
| "oldest (j # js) =
     (case oldest js of
        None \<Rightarrow> Some j
      | Some k \<Rightarrow> if job_created_at j \<le> job_created_at k then Some j else Some k)"

definition next_queued :: "job_store \<Rightarrow> job_row option" where
  "next_queued st =
     oldest (filter (\<lambda>j. job_status j = Job_queued \<and> \<not> job_cancel_requested j) (js_jobs st))"

definition fail_missing :: "clock \<Rightarrow> ustring \<Rightarrow> job_store \<Rightarrow> job_store" where
  "fail_missing ck jid st =
     update_spend (\<lambda>s. sp_job_id s = jid) Spend_released
       (update_jobs (\<lambda>j. job_id j = jid)
         (\<lambda>j. j\<lparr>job_status := Job_failed,
            job_error := Some (''recording_missing'', ''recording is no longer available''),
            job_updated_at := ck_now ck\<rparr>) st)"

definition take_lease :: "clock \<Rightarrow> ustring \<Rightarrow> job_store \<Rightarrow> job_store" where
  "take_lease ck jid = update_jobs (\<lambda>j. job_id j = jid \<and> job_status j = Job_queued)
     (\<lambda>j. j\<lparr>job_status := Job_running, job_lease_until := Some (ck_now ck + LEASE_SECONDS),
        job_updated_at := ck_now ck\<rparr>)"

definition work_of :: "job_row \<Rightarrow> recording_row \<Rightarrow> job_work" where
  "work_of j r =
     \<lparr>wk_id = job_id j, wk_recording_id = job_recording_id j,
      wk_relative_path = rec_relative_path r, wk_mime_type = rec_mime_type r,
      wk_request = job_request j\<rparr>"

definition claim_job :: "clock \<Rightarrow> job_store \<Rightarrow> job_work option \<times> job_store" where
  "claim_job ck st =
     (let st1 = requeue_expired ck st in
      case next_queued st1 of
        None \<Rightarrow> (None, st1)
      | Some j \<Rightarrow>
         (case find (\<lambda>r. rec_id r = job_recording_id j \<and> rec_status r = Recording_ready)
              (js_recordings st1) of
            None \<Rightarrow> (None, fail_missing ck (job_id j) st1)
          | Some r \<Rightarrow> (Some (work_of j r), take_lease ck (job_id j) st1)))"

definition finish_job ::
    "clock \<Rightarrow> ustring \<Rightarrow> job_status \<Rightarrow> ustring option \<Rightarrow> (string \<times> string) option \<Rightarrow>
     job_store \<Rightarrow> job_store" where
  "finish_job ck jid status result error st =
     (let st1 = update_jobs (\<lambda>j. job_id j = jid)
        (\<lambda>j. j\<lparr>job_status := (if job_cancel_requested j then Job_cancelled else status),
           job_result := result, job_error := error, job_lease_until := None,
           job_updated_at := ck_now ck\<rparr>) st
      in update_spend (\<lambda>s. sp_job_id s = jid)
        (if list_ex (\<lambda>j. job_id j = jid \<and> job_status j = Job_completed) (js_jobs st1)
         then Spend_settled else Spend_released) st1)"

definition cancellation_requested :: "ustring \<Rightarrow> job_store \<Rightarrow> practice_error + bool" where
  "cancellation_requested jid st =
     mapE job_cancel_requested
       (ok_or (find (\<lambda>j. job_id j = jid) (js_jobs st))
         (Internal ''database operation failed: {error}''))"

definition request_cancel :: "clock \<Rightarrow> job_row \<Rightarrow> job_row" where
  "request_cancel ck j =
     j\<lparr>job_cancel_requested := True,
       job_status := (if job_status j \<in> {Job_queued, Job_running} then Job_cancelled
                      else job_status j),
       job_updated_at := ck_now ck\<rparr>"

definition cancel_job ::
    "clock \<Rightarrow> ustring \<Rightarrow> job_store \<Rightarrow> (practice_error + job_row) \<times> job_store" where
  "cancel_job ck jid st =
     (let st2 = update_spend (\<lambda>s. sp_job_id s = jid \<and> sp_status s = Spend_reserved)
        Spend_released (update_jobs (\<lambda>j. job_id j = jid) (request_cancel ck) st)
      in (find_job st2 jid, st2))"

definition delete_recording ::
    "clock \<Rightarrow> ustring \<Rightarrow> job_store \<Rightarrow> (practice_error + recording_row) \<times> job_store" where
  "delete_recording ck recording_id st =
     (case find_recording st recording_id of
        Inl e \<Rightarrow> (Inl e, st)
      | Inr recording \<Rightarrow>
         (let st1 = st\<lparr>js_recordings := map (\<lambda>r. if rec_id r = recording_id
                then r\<lparr>rec_status := Recording_deleted\<rparr> else r) (js_recordings st)\<rparr>;
              st2 = update_jobs (\<lambda>j. job_recording_id j = recording_id) (request_cancel ck) st1;
              st3 = update_spend (\<lambda>s. sp_job_id s \<in> job_id ` set (filter
                  (\<lambda>j. job_recording_id j = recording_id) (js_jobs st2)) \<and>
                  sp_status s = Spend_reserved) Spend_released st2
          in (Inr recording, st3)))"

section \<open>Cleanup\<close>

text \<open>The first loop removes the files and marks the rows; \<open>removed\<close> counts the rows.\<close>

definition expire_recording ::
    "ustring list \<Rightarrow> (job_store \<times> nat \<times> ustring list list) \<Rightarrow> ustring \<Rightarrow>
     practice_error + (job_store \<times> nat \<times> ustring list list)" where
  "expire_recording media_dir acc relative_path =
     (let (st, removed, files) = acc;
          hit = (\<lambda>r. rec_relative_path r = relative_path \<and> rec_status r = Recording_ready) in
      bindE (map_errE Internal (safe_media_path media_dir relative_path)) (\<lambda>path.
      Inr (st\<lparr>js_recordings := map (\<lambda>r. if hit r then r\<lparr>rec_status := Recording_expired\<rparr> else r)
                (js_recordings st)\<rparr>,
           removed + length (filter hit (js_recordings st)), files @ [path])))"

text \<open>The statements on the jobs, in order.\<close>

definition expire_jobs :: "clock \<Rightarrow> job_store \<Rightarrow> job_store" where
  "expire_jobs ck st =
     (let now = ck_now ck;
          st1 = update_jobs
            (\<lambda>j. job_expires_at j < now \<and> job_status j \<in> {Job_queued, Job_running})
            (\<lambda>j. j\<lparr>job_status := Job_failed,
               job_error := Some (''expired'', ''analysis job expired before completion''),
               job_lease_until := None, job_updated_at := now\<rparr>) st;
          st2 = update_spend (\<lambda>s. sp_job_id s \<in> job_id ` set (filter
              (\<lambda>j. job_expires_at j < now \<and> job_status j = Job_failed) (js_jobs st1)) \<and>
              sp_status s = Spend_reserved) Spend_released st1;
          gone = (\<lambda>j. job_expires_at j < now \<and>
            job_status j \<in> {Job_completed, Job_failed, Job_cancelled});
          gone_ids = map job_id (filter gone (js_jobs st2))
      in st2\<lparr>js_jobs := filter (\<lambda>j. \<not> gone j) (js_jobs st2),
             js_spend := filter (\<lambda>s. sp_job_id s \<notin> set gone_ids) (js_spend st2)\<rparr>)"

text \<open>
  Result, new tables, removed files. A database error inside the loop or at the deletion
  of uploads (a row still referenced by a recording) leaves the earlier statements in force.
\<close>

fun expire_recordings ::
    "ustring list \<Rightarrow> job_store \<times> nat \<times> ustring list list \<Rightarrow> ustring list \<Rightarrow>
     practice_error option \<times> job_store \<times> nat \<times> ustring list list" where
  "expire_recordings media_dir acc [] = (None, acc)"
| "expire_recordings media_dir acc (p # ps) =
     (case expire_recording media_dir acc p of
        Inl e \<Rightarrow> (Some e, acc)
      | Inr acc' \<Rightarrow> expire_recordings media_dir acc' ps)"

definition cleanup_expired ::
    "clock \<Rightarrow> ustring list \<Rightarrow> job_store \<Rightarrow>
     (practice_error + nat) \<times> job_store \<times> ustring list list" where
  "cleanup_expired ck media_dir st =
     (let now = ck_now ck;
          paths = map rec_relative_path (filter (\<lambda>r. rec_expires_at r < now \<and>
            rec_status r = Recording_ready) (js_recordings st))
      in case expire_recordings media_dir (st, 0, []) paths of
           (Some e, st1, _, files) \<Rightarrow> (Inl e, st1, files)
         | (None, st1, removed, files) \<Rightarrow>
            (let gone = (\<lambda>u. up_expires_at u < now \<and> up_status u \<noteq> Upload_finalized) in
             if list_ex (\<lambda>u. gone u \<and> up_id u \<in> rec_upload_id ` set (js_recordings st1))
                (js_uploads st1)
             then (Inl (Internal ''database operation failed: {error}''), st1, files)
             else (Inr removed,
               expire_jobs ck (st1\<lparr>js_uploads := filter (\<lambda>u. \<not> gone u) (js_uploads st1)\<rparr>),
               files)))"

end
