(* ===== verification/JobSafety.thy ===== *)
theory JobSafety
  imports JobStore
begin

text \<open>
  The invariant of the job tables under the server's handlers and one worker: each job has
  one reservation, whose state follows the job's, and no month's reserved and settled
  amounts exceed the cap. The worlds of the step relation are the tables, the clock and the
  work the worker holds; a crash loses the work.
\<close>

section \<open>Jobs and their reservations\<close>

definition spend_follows :: "job_row \<Rightarrow> spend_row \<Rightarrow> bool" where
  "spend_follows j s \<longleftrightarrow>
     sp_job_id s = job_id j \<and> 0 \<le> sp_amount_usd s \<and>
     (case job_status j of
        Job_queued \<Rightarrow> sp_status s = Spend_reserved \<and> \<not> job_cancel_requested j
      | Job_running \<Rightarrow> sp_status s = Spend_reserved \<and> \<not> job_cancel_requested j
      | Job_completed \<Rightarrow> sp_status s = Spend_settled
      | Job_failed \<Rightarrow> sp_status s = Spend_released
      | Job_cancelled \<Rightarrow> sp_status s = Spend_released \<and> job_cancel_requested j)"

definition jobs_inv :: "job_store \<Rightarrow> bool" where
  "jobs_inv st \<longleftrightarrow> distinct (map job_id (js_jobs st)) \<and>
     distinct (map job_idempotency_key (js_jobs st)) \<and>
     list_all2 spend_follows (js_jobs st) (js_spend st)"

lemma list_all2_map_upd:
  assumes "list_all2 R xs ys"
    and "\<And>x y. x \<in> set xs \<Longrightarrow> R x y \<Longrightarrow> R' (f x) (g y)"
  shows "list_all2 R' (map f xs) (map g ys)"
  using assms by (induction xs ys rule: list_all2_induct) auto

lemma id_in_filter:
  assumes "distinct (map f xs)" and "x \<in> set xs"
  shows "f x \<in> f ` set (filter P xs) \<longleftrightarrow> P x"
  using assms by (auto simp: distinct_map inj_on_def)

lemma filter_map_upd_ids:
  "(\<And>x. P (f x) = P x) \<Longrightarrow> (\<And>x. k (f x) = k x) \<Longrightarrow>
     k ` set (filter P (map (\<lambda>x. if Q x then f x else x) xs)) = k ` set (filter P xs)"
  by (induction xs) auto

lemma update_fields [simp]:
  "js_jobs (update_jobs P f st) = map (\<lambda>j. if P j then f j else j) (js_jobs st)"
  "js_spend (update_jobs P f st) = js_spend st"
  "js_recordings (update_jobs P f st) = js_recordings st"
  "js_uploads (update_jobs P f st) = js_uploads st"
  "js_jobs (update_spend Q v st) = js_jobs st"
  "js_spend (update_spend Q v st) = map (\<lambda>r. if Q r then r\<lparr>sp_status := v\<rparr> else r) (js_spend st)"
  "js_recordings (update_spend Q v st) = js_recordings st"
  "js_uploads (update_spend Q v st) = js_uploads st"
  by (simp_all add: update_jobs_def update_spend_def)

text \<open>A change of the jobs that keeps their keys, with the matching change of the reservations.\<close>

lemma map_key_upd:
  "(\<And>x. k (f x) = k x) \<Longrightarrow> map k (map (\<lambda>x. if P x then f x else x) xs) = map k xs"
  by (induction xs) auto

lemma jobs_inv_update:
  assumes "jobs_inv st"
    and "\<And>j. job_id (f j) = job_id j" and "\<And>j. job_idempotency_key (f j) = job_idempotency_key j"
    and "\<And>j s. j \<in> set (js_jobs st) \<Longrightarrow> spend_follows j s \<Longrightarrow>
      spend_follows (if P j then f j else j) (if Q s then s\<lparr>sp_status := v\<rparr> else s)"
  shows "jobs_inv (update_spend Q v (update_jobs P f st))"
  using assms(1) unfolding jobs_inv_def
  by (auto simp: map_key_upd assms(2,3) simp del: map_map intro!: list_all2_map_upd assms(4))

lemma jobs_inv_only_jobs:
  assumes "jobs_inv st"
    and "\<And>j. job_id (f j) = job_id j" and "\<And>j. job_idempotency_key (f j) = job_idempotency_key j"
    and "\<And>j s. j \<in> set (js_jobs st) \<Longrightarrow> spend_follows j s \<Longrightarrow>
      spend_follows (if P j then f j else j) s"
  shows "jobs_inv (update_jobs P f st)"
  using assms(1) unfolding jobs_inv_def
  by (auto simp: map_key_upd assms(2,3) simp del: map_map
      intro!: list_all2_map_upd [where g = "\<lambda>s. s", simplified list.map_ident] assms(4))

lemma jobs_inv_cong:
  "js_jobs st = js_jobs st' \<Longrightarrow> js_spend st = js_spend st' \<Longrightarrow> jobs_inv st = jobs_inv st'"
  by (simp add: jobs_inv_def)

lemma spend_of_same_id:
  assumes "jobs_inv st" and "j \<in> set (js_jobs st)" and "k \<in> set (js_jobs st)"
    and "job_id j = job_id k"
  shows "j = k"
  using assms by (auto simp: jobs_inv_def distinct_map inj_on_def)

section \<open>The operations keep the invariant\<close>

lemma requeue_inv: "jobs_inv st \<Longrightarrow> jobs_inv (requeue_expired ck st)"
  unfolding requeue_expired_def
  by (rule jobs_inv_only_jobs) (auto simp: spend_follows_def)

lemma take_lease_inv: "jobs_inv st \<Longrightarrow> jobs_inv (take_lease ck jid st)"
  unfolding take_lease_def
  by (rule jobs_inv_only_jobs) (auto simp: spend_follows_def)

lemma fail_missing_inv: "jobs_inv st \<Longrightarrow> jobs_inv (fail_missing ck jid st)"
  unfolding fail_missing_def
  by (rule jobs_inv_update) (auto simp: spend_follows_def split: job_status.splits)

lemma request_cancel_follows:
  "spend_follows j s \<Longrightarrow> spend_follows (request_cancel ck j)
     (if sp_status s = Spend_reserved then s\<lparr>sp_status := Spend_released\<rparr> else s)"
  by (auto simp: spend_follows_def request_cancel_def split: job_status.splits)

lemma request_cancel_keys [simp]:
  "job_id (request_cancel ck j) = job_id j"
  "job_idempotency_key (request_cancel ck j) = job_idempotency_key j"
  "job_recording_id (request_cancel ck j) = job_recording_id j"
  by (simp_all add: request_cancel_def)

lemma cancel_job_inv: "jobs_inv st \<Longrightarrow> jobs_inv (snd (cancel_job ck jid st))"
  unfolding cancel_job_def Let_def snd_conv
proof (rule jobs_inv_update)
  fix j s assume "spend_follows j s"
  then have "sp_job_id s = job_id j" by (simp add: spend_follows_def)
  with request_cancel_follows [OF \<open>spend_follows j s\<close>, of ck] \<open>spend_follows j s\<close>
  show "spend_follows (if job_id j = jid then request_cancel ck j else j)
      (if sp_job_id s = jid \<and> sp_status s = Spend_reserved
       then s\<lparr>sp_status := Spend_released\<rparr> else s)"
    by (auto split: if_splits)
qed simp_all

lemma delete_recording_inv:
  assumes "jobs_inv st"
  shows "jobs_inv (snd (delete_recording ck rid st))"
proof (cases "find_recording st rid")
  case (Inl e)
  with assms show ?thesis by (simp add: delete_recording_def)
next
  case (Inr r)
  define st1 where "st1 = st\<lparr>js_recordings := map (\<lambda>r. if rec_id r = rid
    then r\<lparr>rec_status := Recording_deleted\<rparr> else r) (js_recordings st)\<rparr>"
  define ids where "ids = job_id ` set (filter (\<lambda>j. job_recording_id j = rid)
    (js_jobs (update_jobs (\<lambda>j. job_recording_id j = rid) (request_cancel ck) st1)))"
  have st1: "jobs_inv st1" using assms by (simp add: st1_def jobs_inv_def)
  have ids: "job_id j \<in> ids \<longleftrightarrow> job_recording_id j = rid" if "j \<in> set (js_jobs st1)" for j
  proof -
    have "ids = job_id ` set (filter (\<lambda>j. job_recording_id j = rid) (js_jobs st1))"
      unfolding ids_def update_fields by (rule filter_map_upd_ids) simp_all
    then show ?thesis
      using id_in_filter [of job_id "js_jobs st1" j] st1 that by (simp add: jobs_inv_def)
  qed
  have "jobs_inv (update_spend (\<lambda>s. sp_job_id s \<in> ids \<and> sp_status s = Spend_reserved)
      Spend_released (update_jobs (\<lambda>j. job_recording_id j = rid) (request_cancel ck) st1))"
  proof (rule jobs_inv_update [OF st1])
    fix j s assume j: "j \<in> set (js_jobs st1)" and js: "spend_follows j s"
    then have "sp_job_id s \<in> ids \<longleftrightarrow> job_recording_id j = rid"
      using ids [OF j] by (simp add: spend_follows_def)
    with request_cancel_follows [OF js, of ck] js
    show "spend_follows (if job_recording_id j = rid then request_cancel ck j else j)
        (if sp_job_id s \<in> ids \<and> sp_status s = Spend_reserved
         then s\<lparr>sp_status := Spend_released\<rparr> else s)"
      by (auto split: if_splits)
  qed simp_all
  then show ?thesis
    by (simp add: delete_recording_def Inr Let_def ids_def st1_def)
qed

lemma list_all2_filter_sync:
  assumes "list_all2 R xs ys" and "\<And>x y. x \<in> set xs \<Longrightarrow> R x y \<Longrightarrow> P x = Q y"
  shows "list_all2 R (filter P xs) (filter Q ys)"
  using assms by (induction xs ys rule: list_all2_induct) auto

lemma filter_ids:
  assumes "distinct (map f xs)" and "x \<in> set xs"
  shows "f x \<notin> set (map f (filter P xs)) \<longleftrightarrow> \<not> P x"
  using id_in_filter [OF assms] by simp

lemma jobs_inv_filter:
  assumes "jobs_inv st"
  shows "jobs_inv (st\<lparr>js_jobs := filter (\<lambda>j. \<not> gone j) (js_jobs st),
     js_spend := filter (\<lambda>s. sp_job_id s \<notin> set (map job_id (filter gone (js_jobs st))))
       (js_spend st)\<rparr>)"
proof -
  have d: "distinct (map job_id (js_jobs st))" using assms by (simp add: jobs_inv_def)
  have "list_all2 spend_follows (filter (\<lambda>j. \<not> gone j) (js_jobs st))
      (filter (\<lambda>s. sp_job_id s \<notin> set (map job_id (filter gone (js_jobs st)))) (js_spend st))"
  proof (rule list_all2_filter_sync)
    show "list_all2 spend_follows (js_jobs st) (js_spend st)" using assms by (simp add: jobs_inv_def)
    fix j s assume "j \<in> set (js_jobs st)" "spend_follows j s"
    then show "(\<not> gone j) = (sp_job_id s \<notin> set (map job_id (filter gone (js_jobs st))))"
      using filter_ids [OF d, of j gone] by (simp add: spend_follows_def)
  qed
  then show ?thesis using assms
    by (simp add: jobs_inv_def distinct_map_filter)
qed

lemma expire_jobs_inv:
  assumes "jobs_inv st"
  shows "jobs_inv (expire_jobs ck st)"
proof -
  define P :: "job_row \<Rightarrow> bool" where "P = (\<lambda>j. job_expires_at j < ck_now ck \<and> job_status j \<in> {Job_queued, Job_running})"
  define f :: "job_row \<Rightarrow> job_row" where "f = (\<lambda>j. j\<lparr>job_status := Job_failed,
       job_error := Some (''expired'', ''analysis job expired before completion''),
       job_lease_until := None, job_updated_at := ck_now ck\<rparr>)"
  define st1 where "st1 = update_jobs P f st"
  define ids where "ids = job_id ` set (filter
    (\<lambda>j. job_expires_at j < ck_now ck \<and> job_status j = Job_failed) (js_jobs st1))"
  define st2 where "st2 = update_spend
    (\<lambda>s. sp_job_id s \<in> ids \<and> sp_status s = Spend_reserved) Spend_released st1"
  have d: "distinct (map job_id (js_jobs st))" using assms by (simp add: jobs_inv_def)
  have d1: "distinct (map job_id (js_jobs st1))"
    using d by (simp add: st1_def map_key_upd f_def del: map_map)
  have ids: "job_id j \<in> ids \<longleftrightarrow>
      job_expires_at j < ck_now ck \<and> job_status (if P j then f j else j) = Job_failed"
    if "j \<in> set (js_jobs st)" for j
  proof -
    have "(if P j then f j else j) \<in> set (js_jobs st1)" using that by (auto simp: st1_def)
    moreover have "job_id (if P j then f j else j) = job_id j"
      and "job_expires_at (if P j then f j else j) = job_expires_at j"
      by (simp_all add: f_def)
    ultimately show ?thesis
      using id_in_filter [OF d1, of "if P j then f j else j"
          "\<lambda>j. job_expires_at j < ck_now ck \<and> job_status j = Job_failed"]
      unfolding ids_def by (simp only:)
  qed
  have "jobs_inv st2" unfolding st2_def st1_def
  proof (rule jobs_inv_update [OF assms])
    fix j s assume j: "j \<in> set (js_jobs st)" and js: "spend_follows j s"
    have "sp_job_id s = job_id j" using js by (simp add: spend_follows_def)
    with ids [OF j] js show "spend_follows (if P j then f j else j)
        (if sp_job_id s \<in> ids \<and> sp_status s = Spend_reserved
         then s\<lparr>sp_status := Spend_released\<rparr> else s)"
      by (auto simp: P_def f_def spend_follows_def split: job_status.splits)
  qed (simp_all add: f_def)
  then show ?thesis
    unfolding st2_def st1_def ids_def P_def f_def expire_jobs_def Let_def
    by (rule jobs_inv_filter)
qed

lemma set_upload_status_fields [simp]:
  "js_jobs (set_upload_status u v st) = js_jobs st"
  "js_spend (set_upload_status u v st) = js_spend st"
  "js_recordings (set_upload_status u v st) = js_recordings st"
  by (simp_all add: set_upload_status_def)

lemma find_None_iff_map: "find (\<lambda>x. f x = k) xs = None \<longleftrightarrow> k \<notin> f ` set xs"
  by (auto simp: find_None_iff)

lemma reservation_nonneg: "0 \<le> ac_analysis_reservation_usd cfg \<Longrightarrow> 0 \<le> reservation_usd cfg x"
  by (auto simp: reservation_usd_def le_max_iff_disj split: option.splits amount.splits)

lemma create_job_cases:
  obtains (unchanged) "snd (create_job ck cfg jid input h st) = st"
  | (created) "create_job ck cfg jid input h st = (Inr (new_job ck jid input h),
        st\<lparr>js_jobs := js_jobs st @ [new_job ck jid input h],
           js_spend := js_spend st @ [\<lparr>sp_job_id = jid, sp_month_key = ck_month ck,
             sp_amount_usd = reservation_usd cfg input, sp_status = Spend_reserved\<rparr>]\<rparr>)"
      and "ra_idempotency_key input \<notin> job_idempotency_key ` set (js_jobs st)"
      and "jid \<notin> job_id ` set (js_jobs st)"
      and "ra_recording_id input \<in> rec_id ` set (js_recordings st)"
      and "reserved_in_month st (ck_month ck) + reservation_usd cfg input
             \<le> ac_monthly_spend_cap_usd cfg"
proof (cases "find (\<lambda>j. job_idempotency_key j = ra_idempotency_key input) (js_jobs st)")
  case None
  then have new: "ra_idempotency_key input \<notin> job_idempotency_key ` set (js_jobs st)"
    by (simp add: find_None_iff_map)
  show thesis
  proof (cases "reservation_usd cfg input > ac_monthly_spend_cap_usd cfg \<or>
      reserved_in_month st (ck_month ck) + reservation_usd cfg input > ac_monthly_spend_cap_usd cfg \<or>
      jid \<in> job_id ` set (js_jobs st) \<or> ra_recording_id input \<notin> rec_id ` set (js_recordings st)")
    case True
    show thesis
      by (rule unchanged) (use True None in \<open>auto simp: create_job_def Let_def\<close>)
  next
    case False
    show thesis
      by (rule created) (use False None new in \<open>simp_all add: create_job_def Let_def\<close>)
  qed
next
  case (Some j)
  show thesis by (rule unchanged) (simp add: create_job_def Some)
qed

lemma create_job_inv:
  assumes "jobs_inv st" and "0 \<le> ac_analysis_reservation_usd cfg"
  shows "jobs_inv (snd (create_job ck cfg jid input h st))"
proof (cases rule: create_job_cases [of ck cfg jid input h st])
  case unchanged
  with assms show ?thesis by simp
next
  case created
  with assms reservation_nonneg [OF assms(2)] show ?thesis
    by (auto simp: jobs_inv_def spend_follows_def new_job_def list_all2_appendI)
qed

lemma oldest_in: "oldest js = Some j \<Longrightarrow> j \<in> set js \<and> (\<forall>k\<in>set js. job_created_at j \<le> job_created_at k)"
proof (induction js arbitrary: j)
  case (Cons x xs)
  show ?case
  proof (cases "oldest xs")
    case None
    then have "xs = []" by (cases xs) (auto split: option.splits if_splits)
    with Cons.prems show ?thesis by auto
  next
    case (Some k)
    with Cons.IH [OF Some] Cons.prems show ?thesis by (auto split: if_splits)
  qed
qed simp

lemma oldest_None: "oldest js = None \<longleftrightarrow> js = []"
  by (cases js) (auto split: option.splits)

lemma next_queued_Some:
  assumes "next_queued st = Some j"
  shows "j \<in> set (js_jobs st)" and "job_status j = Job_queued" and "\<not> job_cancel_requested j"
    and "k \<in> set (js_jobs st) \<Longrightarrow> job_status k = Job_queued \<Longrightarrow> \<not> job_cancel_requested k \<Longrightarrow>
      job_created_at j \<le> job_created_at k"
  using oldest_in [OF assms [unfolded next_queued_def]] by auto

lemma claim_job_inv: "jobs_inv st \<Longrightarrow> jobs_inv (snd (claim_job ck st))"
  by (auto simp: claim_job_def Let_def intro!: take_lease_inv fail_missing_inv requeue_inv
      split: option.splits)

lemma expire_recordings_frame:
  "expire_recordings dir acc ps = (e, st', n, fs) \<Longrightarrow>
     js_jobs st' = js_jobs (fst acc) \<and> js_spend st' = js_spend (fst acc) \<and>
     js_uploads st' = js_uploads (fst acc)"
proof (induction ps arbitrary: acc)
  case (Cons p ps)
  show ?case
  proof (cases "expire_recording dir acc p")
    case (Inl err)
    with Cons.prems show ?thesis by auto
  next
    case (Inr acc')
    then have "js_jobs (fst acc') = js_jobs (fst acc) \<and> js_spend (fst acc') = js_spend (fst acc) \<and>
        js_uploads (fst acc') = js_uploads (fst acc)"
      by (auto simp: expire_recording_def Let_def ok_simps split: prod.splits)
    with Cons.IH [of acc'] Cons.prems Inr show ?thesis by simp
  qed
qed auto

lemma cleanup_cases:
  assumes "cleanup_expired ck dir st = (r, st', fs)"
  shows "(js_jobs st' = js_jobs st \<and> js_spend st' = js_spend st) \<or>
    (\<exists>st1. js_jobs st1 = js_jobs st \<and> js_spend st1 = js_spend st \<and> st' = expire_jobs ck st1)"
proof -
  obtain e st1 n fs1 where loop: "expire_recordings dir (st, 0, [])
      (map rec_relative_path (filter (\<lambda>r. rec_expires_at r < ck_now ck \<and>
         rec_status r = Recording_ready) (js_recordings st))) = (e, st1, n, fs1)"
    by (rule prod_cases4)
  from expire_recordings_frame [OF this]
  have "js_jobs st1 = js_jobs st" "js_spend st1 = js_spend st" by simp_all
  moreover have "st' = st1 \<or> (\<exists>us. st' = expire_jobs ck (st1\<lparr>js_uploads := us\<rparr>))"
  proof (cases e)
    case (Some err)
    with assms loop show ?thesis by (simp add: cleanup_expired_def Let_def)
  next
    case None
    let ?gone = "\<lambda>u. up_expires_at u < ck_now ck \<and> up_status u \<noteq> Upload_finalized"
    have "(r, st', fs) = (if list_ex (\<lambda>u. ?gone u \<and> up_id u \<in> rec_upload_id ` set (js_recordings st1))
          (js_uploads st1)
        then (Inl (Internal ''database operation failed: {error}''), st1, fs1)
        else (Inr n, expire_jobs ck (st1\<lparr>js_uploads := filter (\<lambda>u. \<not> ?gone u) (js_uploads st1)\<rparr>), fs1))"
      using assms loop unfolding None cleanup_expired_def Let_def by (simp only: prod.case option.case)
    then show ?thesis by (auto split: if_splits)
  qed
  moreover have "js_jobs (st1\<lparr>js_uploads := us\<rparr>) = js_jobs st1 \<and>
      js_spend (st1\<lparr>js_uploads := us\<rparr>) = js_spend st1" for us by simp
  ultimately show ?thesis by metis
qed

lemma cleanup_inv:
  assumes "jobs_inv st" and "cleanup_expired ck dir st = (r, st', fs)"
  shows "jobs_inv st'"
  using cleanup_cases [OF assms(2)] assms(1) by (metis expire_jobs_inv jobs_inv_cong)

text \<open>A worker may finish a job it holds: one still running, or cancelled meanwhile.\<close>

definition holds :: "job_store \<Rightarrow> ustring \<Rightarrow> bool" where
  "holds st jid \<longleftrightarrow> (\<forall>j\<in>set (js_jobs st). job_id j = jid \<longrightarrow>
     job_status j = Job_running \<or> (job_status j = Job_cancelled \<and> job_cancel_requested j))"

lemma list_ex_unique:
  assumes "distinct (map k xs)" and "x \<in> set xs"
  shows "list_ex (\<lambda>y. k y = k x \<and> P y) xs \<longleftrightarrow> P x"
  using assms by (auto simp: list_ex_iff distinct_map inj_on_def)

lemma finish_job_inv:
  assumes inv: "jobs_inv st" and holds: "holds st jid"
    and status: "status \<in> {Job_completed, Job_failed}"
  shows "jobs_inv (finish_job ck jid status result error st)"
proof -
  define f :: "job_row \<Rightarrow> job_row" where "f = (\<lambda>j.
     j\<lparr>job_status := (if job_cancel_requested j then Job_cancelled else status),
       job_result := result, job_error := error, job_lease_until := None,
       job_updated_at := ck_now ck\<rparr>)"
  define v where "v = (if list_ex (\<lambda>j. job_id j = jid \<and> job_status j = Job_completed)
      (map (\<lambda>j. if job_id j = jid then f j else j) (js_jobs st))
    then Spend_settled else Spend_released)"
  have d: "distinct (map job_id (map (\<lambda>j. if job_id j = jid then f j else j) (js_jobs st)))"
    using inv by (simp add: jobs_inv_def f_def map_key_upd del: map_map)
  have "jobs_inv (update_spend (\<lambda>s. sp_job_id s = jid) v
      (update_jobs (\<lambda>j. job_id j = jid) f st))"
  proof (rule jobs_inv_update [OF inv])
    fix j s assume j: "j \<in> set (js_jobs st)" and js: "spend_follows j s"
    show "spend_follows (if job_id j = jid then f j else j)
        (if sp_job_id s = jid then s\<lparr>sp_status := v\<rparr> else s)"
    proof (cases "job_id j = jid")
      case False
      with js show ?thesis by (simp add: spend_follows_def)
    next
      case True
      have "f j \<in> set (map (\<lambda>j. if job_id j = jid then f j else j) (js_jobs st))"
        using j True by auto
      from list_ex_unique [OF d this, of "\<lambda>j. job_status j = Job_completed"] True
      have "v = (if job_status (f j) = Job_completed then Spend_settled else Spend_released)"
        by (simp add: v_def f_def)
      moreover have "job_status j = Job_running \<or>
          (job_status j = Job_cancelled \<and> job_cancel_requested j)"
        using holds j True by (simp add: holds_def)
      ultimately show ?thesis
        using js status True by (auto simp: spend_follows_def f_def split: job_status.splits)
    qed
  qed (simp_all add: f_def)
  then show ?thesis
    unfolding finish_job_def Let_def update_fields v_def f_def .
qed

end
