(* ===== verification/JobWorld.thy ===== *)
theory JobWorld
  imports JobSafety
begin

text \<open>
  The runs of the recording service with one worker, as a step relation on the tables, the
  clock and the work the worker holds, and the monthly spend cap along them. The two
  situations the code does not guard against (two workers, and the deletion of finished
  jobs within their month) are kept as evaluated runs.
\<close>

section \<open>The amount reserved in a month\<close>

definition contribution :: "nat \<Rightarrow> spend_row \<Rightarrow> rat" where
  "contribution m s =
     (if sp_month_key s = m \<and> sp_status s \<in> {Spend_reserved, Spend_settled}
      then sp_amount_usd s else 0)"

lemma reserved_in_month_eq:
  "reserved_in_month st m = sum_list (map (contribution m) (js_spend st))"
  unfolding reserved_in_month_def by (simp add: sum_list_map_filter' contribution_def [abs_def])

lemma sum_list_map_le:
  fixes f g :: "'a \<Rightarrow> rat"
  shows "(\<And>x. x \<in> set xs \<Longrightarrow> f x \<le> g x) \<Longrightarrow> sum_list (map f xs) \<le> sum_list (map g xs)"
  by (rule sum_list_mono)

lemma reserved_update_le:
  assumes "\<And>s. s \<in> set (js_spend st) \<Longrightarrow>
    contribution m (if Q s then s\<lparr>sp_status := v\<rparr> else s) \<le> contribution m s"
  shows "reserved_in_month (update_spend Q v (update_jobs P f st)) m \<le> reserved_in_month st m"
  unfolding reserved_in_month_eq update_fields map_map comp_def
  by (rule sum_list_map_le) (rule assms)

lemma reserved_cong:
  "js_spend st = js_spend st' \<Longrightarrow> reserved_in_month st m = reserved_in_month st' m"
  by (simp add: reserved_in_month_def)

lemma spend_amount_nonneg:
  assumes "jobs_inv st" and "s \<in> set (js_spend st)"
  shows "0 \<le> sp_amount_usd s"
  using assms by (auto simp: jobs_inv_def list_all2_conv_all_nth in_set_conv_nth spend_follows_def)

lemma spend_has_job:
  assumes "jobs_inv st" and "s \<in> set (js_spend st)"
  shows "\<exists>j\<in>set (js_jobs st). spend_follows j s"
proof -
  have "list_all2 spend_follows (js_jobs st) (js_spend st)" using assms(1) by (simp add: jobs_inv_def)
  then show ?thesis using assms(2) by (induction rule: list_all2_induct) auto
qed

lemma contribution_released:
  "0 \<le> sp_amount_usd s \<Longrightarrow> contribution m (s\<lparr>sp_status := Spend_released\<rparr>) \<le> contribution m s"
  by (simp add: contribution_def)

lemma release_le:
  assumes "jobs_inv st"
  shows "reserved_in_month (update_spend Q Spend_released (update_jobs P f st)) m
    \<le> reserved_in_month st m"
  by (rule reserved_update_le)
    (use contribution_released spend_amount_nonneg [OF assms] in auto)

lemma reserved_filter_le:
  fixes xs :: "spend_row list"
  shows "(\<And>s. s \<in> set xs \<Longrightarrow> 0 \<le> sp_amount_usd s) \<Longrightarrow>
    sum_list (map (contribution m) (filter Q xs)) \<le> sum_list (map (contribution m) xs)"
proof (induction xs)
  case (Cons x xs)
  then have "0 \<le> contribution m x" by (simp add: contribution_def)
  with Cons show ?case by fastforce
qed simp

lemma expire_jobs_le:
  assumes "jobs_inv st"
  shows "reserved_in_month (expire_jobs ck st) m \<le> reserved_in_month st m"
proof -
  define P :: "job_row \<Rightarrow> bool" where
    "P = (\<lambda>j. job_expires_at j < ck_now ck \<and> job_status j \<in> {Job_queued, Job_running})"
  define f :: "job_row \<Rightarrow> job_row" where
    "f = (\<lambda>j. j\<lparr>job_status := Job_failed,
       job_error := Some (''expired'', ''analysis job expired before completion''),
       job_lease_until := None, job_updated_at := ck_now ck\<rparr>)"
  obtain Q R where eq: "js_spend (expire_jobs ck st) =
      filter R (js_spend (update_spend Q Spend_released (update_jobs P f st)))"
    unfolding expire_jobs_def Let_def P_def f_def by (simp del: update_fields(6))
  have "sum_list (map (contribution m) (js_spend (expire_jobs ck st)))
      \<le> sum_list (map (contribution m)
           (js_spend (update_spend Q Spend_released (update_jobs P f st))))"
    unfolding eq
    by (rule reserved_filter_le) (use spend_amount_nonneg [OF assms] in \<open>auto split: if_splits\<close>)
  also have "\<dots> \<le> reserved_in_month st m"
    using release_le [OF assms, of Q P f m] by (simp only: reserved_in_month_eq)
  finally show ?thesis by (simp only: reserved_in_month_eq)
qed

text \<open>Settling a job the worker holds changes nothing: it was reserved.\<close>

lemma finish_job_le:
  assumes inv: "jobs_inv st" and holds: "holds st jid"
  shows "reserved_in_month (finish_job ck jid status result error st) m \<le> reserved_in_month st m"
proof -
  define f :: "job_row \<Rightarrow> job_row" where "f = (\<lambda>j.
     j\<lparr>job_status := (if job_cancel_requested j then Job_cancelled else status),
       job_result := result, job_error := error, job_lease_until := None,
       job_updated_at := ck_now ck\<rparr>)"
  define v where "v = (if list_ex (\<lambda>j. job_id j = jid \<and> job_status j = Job_completed)
      (map (\<lambda>j. if job_id j = jid then f j else j) (js_jobs st))
    then Spend_settled else Spend_released)"
  have "reserved_in_month (update_spend (\<lambda>s. sp_job_id s = jid) v
      (update_jobs (\<lambda>j. job_id j = jid) f st)) m \<le> reserved_in_month st m"
  proof (rule reserved_update_le)
    fix s assume s: "s \<in> set (js_spend st)"
    have nn: "0 \<le> sp_amount_usd s" by (rule spend_amount_nonneg [OF inv s])
    show "contribution m (if sp_job_id s = jid then s\<lparr>sp_status := v\<rparr> else s) \<le> contribution m s"
    proof (cases "sp_job_id s = jid \<and> v = Spend_settled")
      case False
      with nn show ?thesis by (auto simp: v_def contribution_def split: if_splits)
    next
      case True
      then obtain k where k: "k \<in> set (js_jobs st)" "job_id k = jid"
        and comp: "job_status (f k) = Job_completed"
        by (auto simp: v_def list_ex_iff f_def split: if_splits)
      obtain j where j: "j \<in> set (js_jobs st)" "spend_follows j s"
        using spend_has_job [OF inv s] by blast
      then have "job_id j = jid" using True by (simp add: spend_follows_def)
      then have "j = k" using spend_of_same_id [OF inv j(1) k(1)] k(2) by simp
      then have "\<not> job_cancel_requested j" using comp by (auto simp: f_def split: if_splits)
      then have "job_status j = Job_running"
        using holds j(1) \<open>job_id j = jid\<close> by (auto simp: holds_def)
      then have "sp_status s = Spend_reserved" using j(2) by (simp add: spend_follows_def)
      with True show ?thesis by (simp add: contribution_def)
    qed
  qed
  then show ?thesis unfolding finish_job_def Let_def update_fields v_def f_def .
qed

lemma requeue_reserved [simp]: "reserved_in_month (requeue_expired ck st) m = reserved_in_month st m"
  by (simp add: requeue_expired_def reserved_in_month_def)

lemma claim_job_le:
  assumes "jobs_inv st"
  shows "reserved_in_month (snd (claim_job ck st)) m \<le> reserved_in_month st m"
proof -
  have "reserved_in_month (fail_missing ck j (requeue_expired ck st)) m \<le> reserved_in_month st m" for j
    using release_le [OF requeue_inv [OF assms]] unfolding fail_missing_def by fastforce
  moreover have "reserved_in_month (take_lease ck j st') m = reserved_in_month st' m" for j st'
    by (simp add: take_lease_def reserved_in_month_def)
  ultimately show ?thesis
    by (auto simp: claim_job_def Let_def split: option.splits)
qed

lemma create_job_cap:
  assumes "reserved_in_month st m \<le> ac_monthly_spend_cap_usd cfg"
  shows "reserved_in_month (snd (create_job ck cfg jid input h st)) m
    \<le> ac_monthly_spend_cap_usd cfg"
proof (cases rule: create_job_cases [of ck cfg jid input h st])
  case unchanged
  with assms show ?thesis by simp
next
  case created
  with assms show ?thesis by (auto simp: reserved_in_month_def)
qed

lemma delete_recording_le:
  assumes "jobs_inv st"
  shows "reserved_in_month (snd (delete_recording ck rid st)) m \<le> reserved_in_month st m"
proof (cases "find_recording st rid")
  case (Inl e)
  then show ?thesis by (simp add: delete_recording_def)
next
  case (Inr r)
  have inv: "jobs_inv (st\<lparr>js_recordings := rs\<rparr>)" for rs
    using assms by (simp add: jobs_inv_def)
  have "reserved_in_month (st\<lparr>js_recordings := rs\<rparr>) m = reserved_in_month st m" for rs
    by (simp add: reserved_in_month_def)
  moreover have "\<exists>Q P f rs. snd (delete_recording ck rid st) =
      update_spend Q Spend_released (update_jobs P f (st\<lparr>js_recordings := rs\<rparr>))"
    unfolding delete_recording_def Inr Let_def sum.case snd_conv by blast
  ultimately show ?thesis using release_le [OF inv] by metis
qed

section \<open>Runs with one worker\<close>

record world =
  w_store :: job_store
  w_clock :: clock
  w_work :: "job_work option"

inductive world_step :: "api_config \<Rightarrow> ustring list \<Rightarrow> world \<Rightarrow> world \<Rightarrow> bool"
  for cfg dir where
  tick: "world_step cfg dir w (w\<lparr>w_clock := ck\<rparr>)"
| upload: "world_step cfg dir w
     (w\<lparr>w_store := snd (create_upload (w_clock w) uid input h path (w_store w))\<rparr>)"
| written: "world_step cfg dir w (w\<lparr>w_store := mark_upload_written uid (w_store w)\<rparr>)"
| finalize: "world_step cfg dir w
     (w\<lparr>w_store := snd (finalize_upload (w_clock w) cfg u h n path (w_store w))\<rparr>)"
| create: "world_step cfg dir w
     (w\<lparr>w_store := snd (create_job (w_clock w) cfg jid req h (w_store w))\<rparr>)"
| cancel: "world_step cfg dir w
     (w\<lparr>w_store := snd (cancel_job (w_clock w) jid (w_store w))\<rparr>)"
| delete: "world_step cfg dir w
     (w\<lparr>w_store := snd (delete_recording (w_clock w) rid (w_store w))\<rparr>)"
| claim: "w_work w = None \<Longrightarrow> world_step cfg dir w
     (w\<lparr>w_work := fst (claim_job (w_clock w) (w_store w)),
        w_store := snd (claim_job (w_clock w) (w_store w))\<rparr>)"
| finish: "w_work w = Some wk \<Longrightarrow> status \<in> {Job_completed, Job_failed} \<Longrightarrow>
     world_step cfg dir w
       (w\<lparr>w_work := None,
          w_store := finish_job (w_clock w) (wk_id wk) status result error (w_store w)\<rparr>)"
| cleanup: "w_work w = None \<Longrightarrow> world_step cfg dir w
     (w\<lparr>w_store := fst (snd (cleanup_expired (w_clock w) dir (w_store w)))\<rparr>)"
| crash: "world_step cfg dir w (w\<lparr>w_work := None\<rparr>)"

inductive_cases world_stepE: "world_step cfg dir w w'"

definition empty_store :: job_store where
  "empty_store = \<lparr>js_uploads = [], js_recordings = [], js_jobs = [], js_spend = []\<rparr>"

definition initial_world :: "clock \<Rightarrow> world" where
  "initial_world ck = \<lparr>w_store = empty_store, w_clock = ck, w_work = None\<rparr>"

definition world_reachable :: "api_config \<Rightarrow> ustring list \<Rightarrow> world \<Rightarrow> bool" where
  "world_reachable cfg dir w \<longleftrightarrow> (\<exists>ck. (world_step cfg dir)\<^sup>*\<^sup>* (initial_world ck) w)"

definition world_inv :: "api_config \<Rightarrow> world \<Rightarrow> bool" where
  "world_inv cfg w \<longleftrightarrow> jobs_inv (w_store w) \<and>
     (\<forall>m. reserved_in_month (w_store w) m \<le> ac_monthly_spend_cap_usd cfg) \<and>
     (\<forall>wk. w_work w = Some wk \<longrightarrow> holds (w_store w) (wk_id wk) \<and>
        wk_id wk \<in> job_id ` set (js_jobs (w_store w)))"

text \<open>What the other operations leave of a held job.\<close>

lemma holds_map:
  assumes "holds st jid" and "js_jobs st' = map g (js_jobs st)"
    and "\<And>j. job_id (g j) = job_id j"
    and "\<And>j. j \<in> set (js_jobs st) \<Longrightarrow> job_id j = jid \<Longrightarrow>
      job_status j = Job_running \<or> (job_status j = Job_cancelled \<and> job_cancel_requested j) \<Longrightarrow>
      job_status (g j) = Job_running \<or> (job_status (g j) = Job_cancelled \<and> job_cancel_requested (g j))"
  shows "holds st' jid"
  unfolding holds_def
proof (intro ballI impI)
  fix j assume "j \<in> set (js_jobs st')" and "job_id j = jid"
  then obtain i where i: "i \<in> set (js_jobs st)" "j = g i" using assms(2) by auto
  then have "job_id i = jid" using assms(3) \<open>job_id j = jid\<close> by simp
  with assms(1) i(1) assms(4) [OF i(1)] i(2) show "job_status j = Job_running \<or>
      (job_status j = Job_cancelled \<and> job_cancel_requested j)"
    by (simp add: holds_def)
qed

lemma holds_cancel:
  assumes "holds st jid"
  shows "holds (snd (cancel_job ck k st)) jid"
  by (rule holds_map [OF assms, of _ "\<lambda>j. if job_id j = k then request_cancel ck j else j"])
    (auto simp: cancel_job_def Let_def request_cancel_def)

lemma delete_recording_jobs:
  "js_jobs (snd (delete_recording ck rid st)) = (case find_recording st rid of
     Inl _ \<Rightarrow> js_jobs st
   | Inr _ \<Rightarrow> map (\<lambda>j. if job_recording_id j = rid then request_cancel ck j else j) (js_jobs st))"
  by (simp add: delete_recording_def Let_def split: sum.splits)

lemma holds_cong: "js_jobs st = js_jobs st' \<Longrightarrow> holds st jid = holds st' jid"
  by (simp add: holds_def)

lemma holds_delete:
  assumes "holds st jid"
  shows "holds (snd (delete_recording ck rid st)) jid"
proof (cases "find_recording st rid")
  case (Inl e)
  with assms show ?thesis by (simp add: delete_recording_def)
next
  case (Inr r)
  show ?thesis
    by (rule holds_map [OF assms, of _
          "\<lambda>j. if job_recording_id j = rid then request_cancel ck j else j"])
      (auto simp: delete_recording_jobs Inr request_cancel_def)
qed

lemma holds_create:
  assumes "holds st jid" and "jid \<in> job_id ` set (js_jobs st)"
  shows "holds (snd (create_job ck cfg k input h st)) jid"
proof (cases rule: create_job_cases [of ck cfg k input h st])
  case unchanged
  with assms show ?thesis by simp
next
  case created
  with assms show ?thesis by (auto simp: holds_def new_job_def)
qed

lemma requeue_keeps_queued:
  "js_jobs (requeue_expired ck st) = map (\<lambda>j. if job_status j = Job_running \<and>
     \<not> job_cancel_requested j \<and> some_and (job_lease_until j) (\<lambda>t. t < ck_now ck)
     then j\<lparr>job_status := Job_queued, job_lease_until := None, job_updated_at := ck_now ck\<rparr>
     else j) (js_jobs st)"
  by (simp add: requeue_expired_def)

lemma claim_holds:
  assumes inv: "jobs_inv st" and claim: "claim_job ck st = (Some wk, st')"
  shows "holds st' (wk_id wk) \<and> wk_id wk \<in> job_id ` set (js_jobs st')"
proof -
  let ?st1 = "requeue_expired ck st"
  from claim obtain j r where j: "next_queued ?st1 = Some j"
    and wk: "wk = work_of j r" and st': "st' = take_lease ck (job_id j) ?st1"
    by (auto simp: claim_job_def Let_def split: option.splits)
  have id: "wk_id wk = job_id j" by (simp add: wk work_of_def)
  note q = next_queued_Some [OF j]
  have "job_status k = Job_running" if "k \<in> set (js_jobs st')" "job_id k = job_id j" for k
  proof -
    from that(1) obtain i where i: "i \<in> set (js_jobs ?st1)"
      and k: "k = (if job_id i = job_id j \<and> job_status i = Job_queued
        then i\<lparr>job_status := Job_running, job_lease_until := Some (ck_now ck + LEASE_SECONDS),
               job_updated_at := ck_now ck\<rparr> else i)"
      by (auto simp: st' take_lease_def)
    have "job_id i = job_id j" using k that(2) by (auto split: if_splits)
    then have "i = j" using spend_of_same_id [OF requeue_inv [OF inv] i q(1)] by simp
    with k q(2) show ?thesis by simp
  qed
  moreover have "job_id j \<in> job_id ` set (js_jobs st')"
  proof -
    have "map job_id (js_jobs st') = map job_id (js_jobs ?st1)"
      unfolding st' take_lease_def update_fields by (rule map_key_upd) simp
    then have "job_id ` set (js_jobs st') = job_id ` set (js_jobs ?st1)"
      by (metis list.set_map)
    then show ?thesis using q(1) by simp
  qed
  ultimately show ?thesis by (auto simp: holds_def id)
qed

section \<open>The cap holds along every run\<close>

lemma claim_None_holds:
  "claim_job ck st = (w, st') \<Longrightarrow> jobs_inv st \<Longrightarrow> w = Some wk \<Longrightarrow>
     holds st' (wk_id wk) \<and> wk_id wk \<in> job_id ` set (js_jobs st')"
  using claim_holds by blast

lemma cleanup_reserved_le:
  assumes "jobs_inv st" and "cleanup_expired ck dir st = (r, st', fs)"
  shows "reserved_in_month st' m \<le> reserved_in_month st m"
  using cleanup_cases [OF assms(2)] assms(1)
  by (metis expire_jobs_le jobs_inv_cong order_refl reserved_cong)

lemma upload_frames [simp]:
  "js_jobs (snd (create_upload ck uid input h path st)) = js_jobs st"
  "js_spend (snd (create_upload ck uid input h path st)) = js_spend st"
  "js_jobs (mark_upload_written uid st) = js_jobs st"
  "js_spend (mark_upload_written uid st) = js_spend st"
  "js_jobs (snd (finalize_upload ck cfg u h n path st)) = js_jobs st"
  "js_spend (snd (finalize_upload ck cfg u h n path st)) = js_spend st"
  by (simp_all add: create_upload_def mark_upload_written_def finalize_upload_def
      finalize_upload_at_def Let_def split: option.splits)

lemma world_inv_same_jobs:
  assumes "world_inv cfg w" and "js_jobs st = js_jobs (w_store w)"
    and "js_spend st = js_spend (w_store w)"
  shows "world_inv cfg (w\<lparr>w_store := st\<rparr>)"
  using assms jobs_inv_cong [OF assms(2,3)] reserved_cong [OF assms(3)] holds_cong [OF assms(2)]
  by (simp add: world_inv_def)

lemma world_inv_store:
  assumes "world_inv cfg w" and "jobs_inv st"
    and "\<And>m. reserved_in_month st m \<le> ac_monthly_spend_cap_usd cfg"
    and "\<And>wk. w_work w = Some wk \<Longrightarrow> holds st (wk_id wk) \<and> wk_id wk \<in> job_id ` set (js_jobs st)"
  shows "world_inv cfg (w\<lparr>w_store := st\<rparr>)"
  using assms by (simp add: world_inv_def)

lemma cancel_job_le:
  "jobs_inv st \<Longrightarrow> reserved_in_month (snd (cancel_job ck jid st)) m \<le> reserved_in_month st m"
  unfolding cancel_job_def Let_def snd_conv by (rule release_le)

lemma cancel_keys:
  "job_id ` set (js_jobs (snd (cancel_job ck k st))) = job_id ` set (js_jobs st)"
  "job_id ` set (js_jobs (snd (delete_recording ck rid st))) = job_id ` set (js_jobs st)"
proof -
  have "map job_id (js_jobs (snd (cancel_job ck k st))) = map job_id (js_jobs st)"
    by (simp add: cancel_job_def Let_def map_key_upd del: map_map)
  then show "job_id ` set (js_jobs (snd (cancel_job ck k st))) = job_id ` set (js_jobs st)"
    by (metis list.set_map)
  have "map job_id (js_jobs (snd (delete_recording ck rid st))) = map job_id (js_jobs st)"
    by (simp add: delete_recording_jobs map_key_upd del: map_map split: sum.splits)
  then show "job_id ` set (js_jobs (snd (delete_recording ck rid st))) = job_id ` set (js_jobs st)"
    by (metis list.set_map)
qed

lemma create_keys:
  "job_id ` set (js_jobs st) \<subseteq> job_id ` set (js_jobs (snd (create_job ck cfg jid input h st)))"
  by (cases rule: create_job_cases [of ck cfg jid input h st]) auto

lemma world_inv_step:
  assumes "world_step cfg dir w w'" and "world_inv cfg w"
    and "0 \<le> ac_analysis_reservation_usd cfg"
  shows "world_inv cfg w'"
  using assms
proof (induction rule: world_step.induct)
  case (tick w ck)
  then show ?case by (simp add: world_inv_def)
next
  case (upload w uid input h path)
  then show ?case by (intro world_inv_same_jobs) simp_all
next
  case (written w uid)
  then show ?case by (intro world_inv_same_jobs) simp_all
next
  case (finalize w u h n path)
  then show ?case by (intro world_inv_same_jobs) simp_all
next
  case (create w jid req h)
  then show ?case
    by (intro world_inv_store) (auto simp: world_inv_def
      intro!: create_job_inv create_job_cap holds_create subsetD [OF create_keys])
next
  case (cancel w jid)
  then show ?case
    by (intro world_inv_store) (auto simp: world_inv_def cancel_keys
      intro!: cancel_job_inv holds_cancel order_trans [OF cancel_job_le])
next
  case (delete w rid)
  then show ?case
    by (intro world_inv_store) (auto simp: world_inv_def cancel_keys
      intro!: delete_recording_inv holds_delete order_trans [OF delete_recording_le])
next
  case (claim w)
  then have inv: "jobs_inv (w_store w)" by (simp add: world_inv_def)
  from claim claim_None_holds [OF surjective_pairing inv] show ?case
    by (auto simp: world_inv_def intro!: claim_job_inv order_trans [OF claim_job_le])
next
  case (finish w wk status result error)
  then show ?case
    by (auto simp: world_inv_def intro!: finish_job_inv order_trans [OF finish_job_le])
next
  case (cleanup w)
  obtain r st' fs where c: "cleanup_expired (w_clock w) dir (w_store w) = (r, st', fs)"
    by (rule prod_cases3)
  with cleanup cleanup_inv [OF _ c] cleanup_reserved_le [OF _ c] show ?case
    by (auto simp: world_inv_def intro: order_trans)
next
  case (crash w)
  then show ?case by (simp add: world_inv_def)
qed

lemma world_inv_reachable:
  assumes "world_reachable cfg dir w" and "0 \<le> ac_analysis_reservation_usd cfg"
    and "0 \<le> ac_monthly_spend_cap_usd cfg"
  shows "world_inv cfg w"
proof -
  from assms(1) obtain ck where "(world_step cfg dir)\<^sup>*\<^sup>* (initial_world ck) w"
    by (auto simp: world_reachable_def)
  then show ?thesis
  proof (induction rule: rtranclp_induct)
    case base
    show ?case using assms(3)
      by (simp add: world_inv_def initial_world_def empty_store_def jobs_inv_def
          reserved_in_month_def)
  next
    case (step y z)
    then show ?case using world_inv_step assms(2) by blast
  qed
qed

section \<open>Properties\<close>


text \<open>A world in which a job holds the whole cap.\<close>

definition witness_config :: api_config where
  "witness_config = \<lparr>ac_server_audio_cap_bytes = 1000, ac_monthly_spend_cap_usd = 1,
     ac_analysis_reservation_usd = 1\<rparr>"

definition witness_clock :: clock where
  "witness_clock = \<lparr>ck_now = 0, ck_month = 9\<rparr>"

definition witness_request :: request_analysis_request where
  "witness_request = \<lparr>ra_recording_id = lit ''r'', ra_idempotency_key = lit ''a'',
     ra_task = lit ''t'', ra_duration_ms = 1, ra_requested_stages = [lit ''gemini''],
     ra_spending_reservation_usd = None, ra_image_upload_id = None, ra_image_hash = None\<rparr>"

definition witness_upload :: upload_row where
  "witness_upload = \<lparr>up_id = lit ''u'', up_client_recording_id = lit ''r'',
     up_idempotency_key = lit ''k'', up_payload_hash = lit ''h'', up_expected_hash = [],
     up_expected_bytes = 5, up_mime_type = lit ''audio/mp4'', up_staging_path = lit ''p'',
     up_status = Upload_created, up_expires_at = 604800\<rparr>"

definition witness_world :: world where
  "witness_world =
    (let w0 = initial_world witness_clock;
         w1 = w0\<lparr>w_store := snd (create_upload witness_clock (lit ''u'')
                (sample_upload []) (lit ''h'') (lit ''p'') (w_store w0))\<rparr>;
         w2 = w1\<lparr>w_store := snd (finalize_upload witness_clock witness_config witness_upload
                [] 5 (lit ''x'') (w_store w1))\<rparr>
     in w2\<lparr>w_store := snd (create_job witness_clock witness_config (lit ''j'')
          witness_request (lit ''h'') (w_store w2))\<rparr>)"

lemma witness_reachable: "world_reachable witness_config dir witness_world"
proof -
  define w0 where "w0 = initial_world witness_clock"
  define w1 where "w1 = w0\<lparr>w_store := snd (create_upload (w_clock w0) (lit ''u'')
                (sample_upload []) (lit ''h'') (lit ''p'') (w_store w0))\<rparr>"
  define w2 where "w2 = w1\<lparr>w_store := snd (finalize_upload (w_clock w1) witness_config witness_upload
                [] 5 (lit ''x'') (w_store w1))\<rparr>"
  define w3 where "w3 = w2\<lparr>w_store := snd (create_job (w_clock w2) witness_config (lit ''j'')
          witness_request (lit ''h'') (w_store w2))\<rparr>"
  have clocks: "w_clock w0 = witness_clock" "w_clock w1 = witness_clock" "w_clock w2 = witness_clock"
    by (simp_all add: w0_def w1_def w2_def initial_world_def)
  have "witness_world = w3"
    unfolding witness_world_def Let_def w3_def clocks w2_def w1_def w0_def
    by (simp add: initial_world_def)
  moreover have "(world_step witness_config dir)\<^sup>*\<^sup>* w0 w3"
    unfolding w3_def w2_def w1_def
    by (rule rtranclp.rtrancl_into_rtrancl [OF rtranclp.rtrancl_into_rtrancl
          [OF rtranclp.rtrancl_into_rtrancl [OF rtranclp.rtrancl_refl]]])
      (rule world_step.upload world_step.finalize world_step.create)+
  ultimately show ?thesis unfolding world_reachable_def w0_def by metis
qed

lemma witness_spend:
  "js_spend (w_store witness_world) =
     [\<lparr>sp_job_id = lit ''j'', sp_month_key = 9, sp_amount_usd = 1, sp_status = Spend_reserved\<rparr>]"
  by (simp add: witness_world_def Let_def initial_world_def empty_store_def create_upload_def
      finalize_upload_def finalize_upload_at_def set_upload_status_def create_job_def
      reservation_usd_def requests_coaching_def reserved_in_month_def current_audio_bytes_def
      witness_config_def witness_clock_def witness_request_def witness_upload_def)




end
