(* ===== verification/Idempotence.thy ===== *)
theory Idempotence
  imports Prelude
begin

text \<open>
  The contract of the operations that create a row under a client-chosen idempotency key
  (uploads and analysis jobs of the recording service, practice sessions and handoffs of the
  learning store): a repeated request returns the row of the first, the same key with another
  payload is refused, and rows under other keys are not touched.
\<close>

locale idempotent_create =
  fixes create :: "'req \<Rightarrow> 'st \<Rightarrow> ('e + 'row) \<times> 'st"
    and lookup :: "'st \<Rightarrow> 'key \<Rightarrow> 'row option"
    and key :: "'req \<Rightarrow> 'key"
    and payload :: "'req \<Rightarrow> 'hash"
    and stored :: "'row \<Rightarrow> 'hash"
  assumes replay: "lookup st (key r) = Some row \<Longrightarrow> stored row = payload r \<Longrightarrow>
      create r st = (Inr row, st)"
    and conflict: "lookup st (key r) = Some row \<Longrightarrow> stored row \<noteq> payload r \<Longrightarrow>
      \<exists>e. create r st = (Inl e, st)"
    and insert: "lookup st (key r) = None \<Longrightarrow> create r st = (Inr row, st') \<Longrightarrow>
      lookup st' (key r) = Some row \<and> stored row = payload r"
    and frame: "create r st = (res, st') \<Longrightarrow> k \<noteq> key r \<Longrightarrow> lookup st' k = lookup st k"
    and failed: "create r st = (Inl e, st') \<Longrightarrow> st' = st"
begin

lemma created_lookup:
  assumes "create r st = (Inr row, st')"
  shows "lookup st' (key r) = Some row \<and> stored row = payload r"
proof (cases "lookup st (key r)")
  case None
  with assms show ?thesis by (rule insert [rotated])
next
  case (Some old)
  show ?thesis
  proof (cases "stored old = payload r")
    case True
    with replay [OF Some True] assms Some show ?thesis by simp
  next
    case False
    with conflict [OF Some False] assms show ?thesis by auto
  qed
qed

lemma persists:
  assumes "lookup st k = Some row" and "create r st = (res, st')"
  shows "lookup st' k = Some row"
proof (cases "k = key r")
  case False
  with frame [OF assms(2) False] assms(1) show ?thesis by simp
next
  case True
  show ?thesis
  proof (cases "stored row = payload r")
    case same: True
    from replay [OF _ same, of st] assms True show ?thesis by simp
  next
    case False
    from conflict [OF _ False, of st] assms True show ?thesis by auto
  qed
qed

lemma run_persists:
  "lookup st k = Some row \<Longrightarrow> lookup (foldl (\<lambda>s q. snd (create q s)) st qs) k = Some row"
  by (induction qs arbitrary: st) (auto intro: persists [OF _ surjective_pairing])

text \<open>A retry, however many requests later, returns the first row and changes nothing.\<close>

lemma retry_later:
  assumes "create r st = (Inr row, st')" and "key r' = key r" and "payload r' = payload r"
  defines "later \<equiv> \<lambda>qs. foldl (\<lambda>s q. snd (create q s)) st' qs"
  shows "create r' (later qs) = (Inr row, later qs)"
proof -
  from created_lookup [OF assms(1)]
  have "lookup (later qs) (key r') = Some row" "stored row = payload r'"
    using run_persists [of st' "key r" row qs] assms(2,3) by (simp_all add: later_def)
  then show ?thesis by (rule replay)
qed

lemma reuse_conflict:
  assumes "create r st = (Inr row, st')" and "key r' = key r" and "payload r' \<noteq> payload r"
  defines "later \<equiv> \<lambda>qs. foldl (\<lambda>s q. snd (create q s)) st' qs"
  shows "\<exists>e. create r' (later qs) = (Inl e, later qs)"
proof -
  from created_lookup [OF assms(1)]
  have "lookup (later qs) (key r') = Some row" "stored row \<noteq> payload r'"
    using run_persists [of st' "key r" row qs] assms(2,3) by (simp_all add: later_def)
  then show ?thesis by (rule conflict)
qed

end

lemma find_append_None:
  "find P xs = None \<Longrightarrow> find P (xs @ ys) = find P ys"
  by (induction xs) (auto split: if_splits)

lemma find_append_Some:
  "find P xs = Some x \<Longrightarrow> find P (xs @ ys) = Some x"
  by (induction xs) (auto split: if_splits)

lemma find_snoc_other: "\<not> P y \<Longrightarrow> find P (xs @ [y]) = find P xs"
  by (induction xs) auto

end
