(* ===== verification/JobRuns.thy ===== *)
theory JobRuns
  imports JobWorld Idempotence
begin

text \<open>
  Further facts on \<open>PracticeJobStore\<close>: creation is idempotent (the contract of
  \<open>Idempotence\<close>, interpreted on uploads and on jobs), the audio cap, which job a worker
  gets, and the two runs in which the monthly cap does not bound what is spent.
\<close>

section \<open>Idempotent creation\<close>

text \<open>The arguments of a creation: clock, fresh id, request, payload hash, staging path.\<close>

record upload_call =
  uc_clock :: clock
  uc_id :: ustring
  uc_request :: create_upload_request
  uc_hash :: ustring
  uc_path :: ustring

definition upload_create ::
    "upload_call \<Rightarrow> job_store \<Rightarrow> (practice_error + upload_row) \<times> job_store" where
  "upload_create c st =
     create_upload (uc_clock c) (uc_id c) (uc_request c) (uc_hash c) (uc_path c) st"

definition upload_lookup :: "job_store \<Rightarrow> ustring \<Rightarrow> upload_row option" where
  "upload_lookup st k = find (\<lambda>u. up_idempotency_key u = k) (js_uploads st)"

interpretation uploads: idempotent_create upload_create upload_lookup
    "\<lambda>c. cu_idempotency_key (uc_request c)" uc_hash up_payload_hash
  by unfold_locales
    (auto simp: upload_create_def upload_lookup_def create_upload_def Let_def
      find_append_None find_snoc_other split: option.splits if_splits)

record job_call =
  jc_clock :: clock
  jc_config :: api_config
  jc_id :: ustring
  jc_request :: request_analysis_request
  jc_hash :: ustring

definition job_create ::
    "job_call \<Rightarrow> job_store \<Rightarrow> (practice_error + job_row) \<times> job_store" where
  "job_create c st =
     create_job (jc_clock c) (jc_config c) (jc_id c) (jc_request c) (jc_hash c) st"

definition job_lookup :: "job_store \<Rightarrow> ustring \<Rightarrow> job_row option" where
  "job_lookup st k = find (\<lambda>j. job_idempotency_key j = k) (js_jobs st)"

interpretation jobs: idempotent_create job_create job_lookup
    "\<lambda>c. ra_idempotency_key (jc_request c)" jc_hash job_payload_hash
  by unfold_locales
    (auto simp: job_create_def job_lookup_def create_job_def new_job_def Let_def
      find_append_None find_snoc_other split: option.splits if_splits)

section \<open>The audio cap\<close>

lemma trim_nonwhite: "\<not> is_white c \<Longrightarrow> \<exists>y. trim (c # x) = c # y"
proof -
  assume c: "\<not> is_white c"
  have "\<exists>y. dropWhile is_white (rev x @ [c]) = y @ [c]"
    by (induction "rev x") (auto simp: c dropWhile_append)
  then obtain y where "dropWhile is_white (rev x @ [c]) = y @ [c]" by blast
  then have "trim (c # x) = c # rev y" using c by (simp add: trim_def)
  then show ?thesis by blast
qed

lemma audio_prefix_normalized:
  assumes "starts_with (ascii_lower m) (lit ''audio/'')"
  shows "\<exists>y. normalize_mime m = 97 # y"
proof -
  from assms obtain c m' where m: "m = c # m'" and c: "c = 97 \<or> c = 65"
    by (cases m) (auto simp: starts_with_def ascii_lower_def lit_def split: if_splits)
  from c have "\<not> is_white c" "c \<noteq> 59" by (auto simp: is_white_def)
  then obtain y where "trim (takeWhile (\<lambda>c. c \<noteq> 59) m) = c # y"
    using trim_nonwhite [of c "takeWhile (\<lambda>c. c \<noteq> 59) m'"] m by auto
  with c show ?thesis by (auto simp: normalize_mime_def ascii_lower_def)
qed

lemma image_not_audio_prefix:
  "is_image_mime m \<Longrightarrow> \<not> starts_with (ascii_lower m) (lit ''audio/'')"
  using audio_prefix_normalized [of m] by (auto simp: is_image_mime_def lit_def)

lemma sum_filter_sub:
  fixes f :: "'a \<Rightarrow> nat"
  shows "sum_list (map f (filter P (filter Q xs))) \<le> sum_list (map f (filter P xs))"
  by (induction xs) auto

lemma finalize_upload_cap:
  assumes "is_audio_mime (up_mime_type u) \<or> is_image_mime (up_mime_type u)"
    and "current_audio_bytes st \<le> ac_server_audio_cap_bytes cfg"
    and "finalize_upload ck cfg u h n path st = (r, st')"
  shows "current_audio_bytes st' \<le> ac_server_audio_cap_bytes cfg"
proof (cases r)
  case (Inl e)
  with assms show ?thesis
    by (auto simp: finalize_upload_def finalize_upload_at_def Let_def split: if_splits)
next
  case (Inr row)
  let ?keep = "\<lambda>r. rec_id r \<noteq> rec_id row \<and> rec_upload_id r \<noteq> rec_upload_id row"
  from assms(3) Inr have st': "js_recordings st' = filter ?keep (js_recordings st) @ [row]"
    and row: "rec_mime_type row = up_mime_type u" "rec_bytes row = n"
    and cap: "is_audio_mime (up_mime_type u) \<longrightarrow>
      current_audio_bytes st + n \<le> ac_server_audio_cap_bytes cfg"
    by (auto simp: finalize_upload_def finalize_upload_at_def Let_def not_less split: if_splits)
  have "sum_list (map rec_bytes (filter counts_as_audio (filter ?keep (js_recordings st))))
      \<le> current_audio_bytes st"
    unfolding current_audio_bytes_def by (rule sum_filter_sub)
  moreover have "counts_as_audio row \<Longrightarrow> is_audio_mime (up_mime_type u)"
    using assms(1) image_not_audio_prefix row by (auto simp: counts_as_audio_def)
  ultimately show ?thesis
    using cap assms(2) row by (auto simp: current_audio_bytes_def [of st'] st' )
qed

section \<open>Claiming\<close>

text \<open>
  A worker gets the oldest queued job whose recording is ready; a job whose lease has not
  expired is not handed out again.
\<close>

lemma claim_job_Some:
  assumes "claim_job ck st = (Some wk, st')"
  shows "\<exists>j\<in>set (js_jobs st). job_id j = wk_id wk \<and> \<not> job_cancel_requested j \<and>
      (job_status j = Job_queued \<or>
       job_status j = Job_running \<and> (\<exists>t. job_lease_until j = Some t \<and> t < ck_now ck)) \<and>
      (\<forall>k\<in>set (js_jobs st). job_status k = Job_queued \<longrightarrow> \<not> job_cancel_requested k \<longrightarrow>
         job_created_at j \<le> job_created_at k) \<and>
      (\<exists>r\<in>set (js_recordings st). rec_id r = job_recording_id j \<and>
         rec_status r = Recording_ready \<and> wk_relative_path wk = rec_relative_path r)"
proof -
  let ?f = "\<lambda>j. if job_status j = Job_running \<and> \<not> job_cancel_requested j \<and>
      some_and (job_lease_until j) (\<lambda>t. t < ck_now ck)
     then j\<lparr>job_status := Job_queued, job_lease_until := None, job_updated_at := ck_now ck\<rparr> else j"
  from assms obtain j r where j: "next_queued (requeue_expired ck st) = Some j"
    and r: "find (\<lambda>r. rec_id r = job_recording_id j \<and> rec_status r = Recording_ready)
      (js_recordings st) = Some r" and wk: "wk = work_of j r"
    by (auto simp: claim_job_def Let_def requeue_expired_def split: option.splits)
  note q = next_queued_Some [OF j]
  from q(1) obtain i where i: "i \<in> set (js_jobs st)" "j = ?f i"
    unfolding requeue_keeps_queued by auto
  have "job_created_at i \<le> job_created_at k"
    if "k \<in> set (js_jobs st)" "job_status k = Job_queued" "\<not> job_cancel_requested k" for k
  proof -
    have "k \<in> set (js_jobs (requeue_expired ck st))"
      unfolding requeue_keeps_queued using that by (force simp: image_iff)
    from q(4) [OF this that(2,3)] i(2) show ?thesis by (auto split: if_splits)
  qed
  moreover have "job_id i = wk_id wk" "job_recording_id i = job_recording_id j"
    using i(2) wk by (auto simp: work_of_def)
  moreover have "r \<in> set (js_recordings st) \<and> rec_id r = job_recording_id j \<and>
      rec_status r = Recording_ready"
    using find_SomeD [OF r] by simp
  moreover have "\<not> job_cancel_requested i \<and> (job_status i = Job_queued \<or>
      job_status i = Job_running \<and> (\<exists>t. job_lease_until i = Some t \<and> t < ck_now ck))"
    using i(2) q(2,3) by (auto simp: some_and_iff split: if_splits)
  moreover have "wk_relative_path wk = rec_relative_path r" using wk by (simp add: work_of_def)
  ultimately show ?thesis using i(1) by (intro bexI [of _ i]) auto
qed

section \<open>Two runs outside the guarded ones\<close>

text \<open>A configuration with room for one job, one recording and two requests.\<close>

definition small_config :: api_config where
  "small_config = \<lparr>ac_server_audio_cap_bytes = 1000, ac_monthly_spend_cap_usd = 1,
     ac_analysis_reservation_usd = 1\<rparr>"

definition sample_recording :: recording_row where
  "sample_recording = \<lparr>rec_id = lit ''r'', rec_upload_id = lit ''u'',
     rec_relative_path = lit ''recordings/r.m4a'', rec_hash = [], rec_bytes = 1,
     rec_mime_type = lit ''audio/mp4'', rec_expires_at = 10000000, rec_status = Recording_ready\<rparr>"

definition sample_store :: job_store where
  "sample_store = empty_store\<lparr>js_recordings := [sample_recording]\<rparr>"

definition coaching_request :: "ustring \<Rightarrow> request_analysis_request" where
  "coaching_request k = \<lparr>ra_recording_id = lit ''r'', ra_idempotency_key = k,
     ra_task = lit ''t'', ra_duration_ms = 1, ra_requested_stages = [lit ''coaching''],
     ra_spending_reservation_usd = None, ra_image_upload_id = None, ra_image_hash = None\<rparr>"

definition at_time :: "nat \<Rightarrow> clock" where
  "at_time t = \<lparr>ck_now = t, ck_month = 9\<rparr>"

lemma stage_fields [simp]:
  "ac_monthly_spend_cap_usd small_config = 1"
  "ac_analysis_reservation_usd small_config = 1"
  "rec_id sample_recording = lit ''r''"
  "rec_status sample_recording = Recording_ready"
  "rec_expires_at sample_recording = 10000000"
  "ck_now (at_time t) = t" "ck_month (at_time t) = 9"
  "ra_recording_id (coaching_request k) = lit ''r''"
  "ra_idempotency_key (coaching_request k) = k"
  "reservation_usd small_config (coaching_request k) = 1"
  by (simp_all add: small_config_def sample_recording_def at_time_def coaching_request_def
      reservation_usd_def requests_coaching_def)

text \<open>A stage of a run: its jobs as (id, key, status, lease, creation time) and its reservations.\<close>

definition sample_job ::
    "string \<Rightarrow> string \<Rightarrow> job_status \<Rightarrow> nat option \<Rightarrow> nat \<Rightarrow> nat \<Rightarrow> ustring option \<Rightarrow> job_row" where
  "sample_job j k status lease created updated result =
     \<lparr>job_id = lit j, job_recording_id = lit ''r'', job_idempotency_key = lit k,
      job_payload_hash = lit k, job_request = coaching_request (lit k), job_status = status,
      job_result = result, job_error = None, job_cancel_requested = False,
      job_lease_until = lease, job_created_at = created, job_updated_at = updated,
      job_expires_at = created + ABANDONED_MEDIA_TTL\<rparr>"

definition sample_spend :: "string \<Rightarrow> spend_status \<Rightarrow> spend_row" where
  "sample_spend j status =
     \<lparr>sp_job_id = lit j, sp_month_key = 9, sp_amount_usd = 1, sp_status = status\<rparr>"

definition stage :: "job_row list \<Rightarrow> spend_row list \<Rightarrow> job_store" where
  "stage js ss = \<lparr>js_uploads = [], js_recordings = [sample_recording], js_jobs = js, js_spend = ss\<rparr>"

lemmas stage_defs = stage_def sample_job_def sample_spend_def ABANDONED_MEDIA_TTL_def
  LEASE_SECONDS_def

lemmas op_defs =
  create_job_def new_job_def reserved_in_month_def claim_job_def requeue_expired_def
  next_queued_def take_lease_def update_jobs_def update_spend_def finish_job_def work_of_def

definition submit :: "nat \<Rightarrow> string \<Rightarrow> string \<Rightarrow> job_store \<Rightarrow> (practice_error + job_row) \<times> job_store" where
  "submit t j k = create_job (at_time t) small_config (lit j) (coaching_request (lit k)) (lit k)"

text \<open>
  First run: worker A takes the job and stalls past its lease; worker B takes it again,
  fails and releases the reservation, which lets a second job in; then A finishes.
\<close>

definition two_worker_run :: job_store where
  "two_worker_run =
     finish_job (at_time 703) (lit ''j1'') Job_completed (Some []) None
      (snd (submit 702 ''j2'' ''b''
       (finish_job (at_time 701) (lit ''j1'') Job_failed None None
        (snd (claim_job (at_time 700)
         (snd (claim_job (at_time 1)
          (snd (submit 0 ''j1'' ''a'' sample_store))))))))) "

text \<open>
  Second run: one job completes and is settled; eight days later, in the same month, the
  worker's cleanup deletes it with its reservation, and a second job is accepted.
\<close>

definition settled_store :: job_store where
  "settled_store =
     finish_job (at_time 2) (lit ''j1'') Job_completed (Some [])
      None (snd (claim_job (at_time 1) (snd (submit 0 ''j1'' ''a'' sample_store))))"

definition cleaned_store :: job_store where
  "cleaned_store = fst (snd (cleanup_expired (at_time 700000) [] settled_store))"

lemma sample_store_stage: "sample_store = stage [] []"
  by (simp add: sample_store_def stage_def empty_store_def)

lemma submit_first:
  "submit 0 ''j1'' ''a'' (stage [] []) =
     (Inr (sample_job ''j1'' ''a'' Job_queued None 0 0 None),
      stage [sample_job ''j1'' ''a'' Job_queued None 0 0 None] [sample_spend ''j1'' Spend_reserved])"
  by (simp add: submit_def op_defs stage_defs Let_def)

lemma claim_first:
  "snd (claim_job (at_time 1) (stage [sample_job ''j1'' ''a'' Job_queued None 0 0 None] ss)) =
     stage [sample_job ''j1'' ''a'' Job_running (Some 601) 0 1 None] ss"
  by (simp add: op_defs stage_defs Let_def)

lemma claim_second:
  "snd (claim_job (at_time 700) (stage [sample_job ''j1'' ''a'' Job_running (Some 601) 0 1 None] ss)) =
     stage [sample_job ''j1'' ''a'' Job_running (Some 1300) 0 700 None] ss"
  by (simp add: op_defs stage_defs Let_def)

lemma finish_failed:
  "finish_job (at_time 701) (lit ''j1'') Job_failed None None
     (stage [sample_job ''j1'' ''a'' Job_running l 0 u None] [sample_spend ''j1'' Spend_reserved]) =
   stage [sample_job ''j1'' ''a'' Job_failed None 0 701 None] [sample_spend ''j1'' Spend_released]"
  by (simp add: op_defs stage_defs Let_def)

lemma submit_second:
  "submit 702 ''j2'' ''b'' (stage [sample_job ''j1'' ''a'' Job_failed None 0 701 None]
      [sample_spend ''j1'' Spend_released]) =
   (Inr (sample_job ''j2'' ''b'' Job_queued None 702 702 None),
    stage [sample_job ''j1'' ''a'' Job_failed None 0 701 None,
           sample_job ''j2'' ''b'' Job_queued None 702 702 None]
      [sample_spend ''j1'' Spend_released, sample_spend ''j2'' Spend_reserved])"
  by (simp add: submit_def op_defs stage_defs Let_def)

lemma two_worker_run_spend:
  "js_spend two_worker_run =
     [sample_spend ''j1'' Spend_settled, sample_spend ''j2'' Spend_reserved]"
  unfolding two_worker_run_def sample_store_stage submit_first snd_conv claim_first claim_second
    finish_failed submit_second
  by (simp add: op_defs stage_defs Let_def)

lemma two_worker_run_exceeds:
  "reserved_in_month two_worker_run 9 = 2 \<and> ac_monthly_spend_cap_usd small_config = 1"
  by (simp add: reserved_in_month_def two_worker_run_spend sample_spend_def)

lemma settled_store_eq:
  "settled_store = stage [sample_job ''j1'' ''a'' Job_completed None 0 2 (Some [])]
     [sample_spend ''j1'' Spend_settled]"
  unfolding settled_store_def sample_store_stage submit_first snd_conv claim_first
  by (simp add: op_defs stage_defs Let_def)

lemma cleaned_store_eq: "cleaned_store = stage [] []"
  unfolding cleaned_store_def settled_store_eq
  by (simp add: cleanup_expired_def expire_jobs_def op_defs stage_defs Let_def image_iff)

lemma cleanup_forgets_spend:
  "reserved_in_month settled_store 9 = 1"
  "\<exists>e. fst (submit 700000 ''j2'' ''b'' settled_store) = Inl e"
  "\<exists>j. fst (submit 700000 ''j2'' ''b'' cleaned_store) = Inr j"
  unfolding settled_store_eq cleaned_store_eq
  by (simp_all add: submit_def op_defs stage_defs Let_def)

section \<open>Properties\<close>

text \<open>
  Submitting an analysis is idempotent: after a submission succeeded, a retry
  with the same key and payload hash returns the same job and changes nothing, however many
  other submissions came between; with another payload hash it is refused and changes nothing.
\<close>

theorem job_submission_idempotent:
  assumes "job_create c st = (Inr row, st')"
    and "ra_idempotency_key (jc_request c') = ra_idempotency_key (jc_request c)"
  shows "let later = foldl (\<lambda>s q. snd (job_create q s)) st' qs in
     (if jc_hash c' = jc_hash c then job_create c' later = (Inr row, later)
      else \<exists>e. job_create c' later = (Inl e, later))"
  using jobs.retry_later [OF assms] jobs.reuse_conflict [OF assms] by (simp add: Let_def)

definition sample_call :: "string \<Rightarrow> string \<Rightarrow> string \<Rightarrow> job_call" where
  "sample_call j k h = \<lparr>jc_clock = at_time 0, jc_config = small_config, jc_id = lit j,
     jc_request = coaching_request (lit k), jc_hash = lit h\<rparr>"

theorem job_submission_idempotent_witness:
  "\<exists>row st'. job_create (sample_call ''j1'' ''a'' ''a'') sample_store = (Inr row, st') \<and>
     job_create (sample_call ''j9'' ''a'' ''a'') st' = (Inr row, st') \<and>
     (\<exists>e. job_create (sample_call ''j9'' ''a'' ''b'') st' = (Inl e, st'))"
proof -
  have c: "job_create (sample_call ''j1'' ''a'' ''a'') sample_store =
      (Inr (sample_job ''j1'' ''a'' Job_queued None 0 0 None),
       stage [sample_job ''j1'' ''a'' Job_queued None 0 0 None] [sample_spend ''j1'' Spend_reserved])"
    using submit_first by (simp add: job_create_def sample_call_def submit_def sample_store_stage)
  show ?thesis
    using job_submission_idempotent [OF c, of "sample_call ''j9'' ''a'' ''a''" "[]"]
      job_submission_idempotent [OF c, of "sample_call ''j9'' ''a'' ''b''" "[]"] c
    by (auto simp: sample_call_def Let_def)
qed

text \<open>
  Reserving an upload is idempotent in the same sense: a retry returns the row of
  the first reservation, a reuse of the key for another upload is refused.
\<close>

theorem upload_reservation_idempotent:
  assumes "upload_create c st = (Inr row, st')"
    and "cu_idempotency_key (uc_request c') = cu_idempotency_key (uc_request c)"
  shows "let later = foldl (\<lambda>s q. snd (upload_create q s)) st' qs in
     (if uc_hash c' = uc_hash c then upload_create c' later = (Inr row, later)
      else \<exists>e. upload_create c' later = (Inl e, later))"
  using uploads.retry_later [OF assms] uploads.reuse_conflict [OF assms] by (simp add: Let_def)

definition sample_upload_call :: "string \<Rightarrow> string \<Rightarrow> upload_call" where
  "sample_upload_call u h = \<lparr>uc_clock = at_time 0, uc_id = lit u, uc_request = sample_upload [],
     uc_hash = lit h, uc_path = lit ''p''\<rparr>"

theorem upload_reservation_idempotent_witness:
  "\<exists>row st'. upload_create (sample_upload_call ''u'' ''a'') empty_store = (Inr row, st') \<and>
     upload_create (sample_upload_call ''v'' ''a'') st' = (Inr row, st') \<and>
     (\<exists>e. upload_create (sample_upload_call ''v'' ''b'') st' = (Inl e, st'))"
proof -
  obtain row st' where c: "upload_create (sample_upload_call ''u'' ''a'') empty_store = (Inr row, st')"
    by (simp add: upload_create_def create_upload_def empty_store_def Let_def)
  show ?thesis
    using upload_reservation_idempotent [OF c, of "sample_upload_call ''v'' ''a''" "[]"]
      upload_reservation_idempotent [OF c, of "sample_upload_call ''v'' ''b''" "[]"] c
    by (auto simp: sample_upload_call_def Let_def)
qed

text \<open>
  Finalising an upload of a validated MIME type keeps the ready audio counted by
  the server within its byte cap.
\<close>

theorem audio_cap_kept:
  assumes "is_audio_mime (up_mime_type u) \<or> is_image_mime (up_mime_type u)"
    and "current_audio_bytes st \<le> ac_server_audio_cap_bytes cfg"
    and "finalize_upload ck cfg u h n path st = (r, st')"
  shows "current_audio_bytes st' \<le> ac_server_audio_cap_bytes cfg"
  by (rule finalize_upload_cap [OF assms])

theorem audio_cap_kept_witness:
  "\<exists>r st'. finalize_upload (at_time 0) witness_config witness_upload [] 5 (lit ''x'')
      (empty_store\<lparr>js_uploads := [witness_upload]\<rparr>) = (r, st') \<and>
     current_audio_bytes st' = 5 \<and> 5 \<le> ac_server_audio_cap_bytes witness_config"
proof -
  let ?st = "empty_store\<lparr>js_uploads := [witness_upload]\<rparr>"
  have audio: "is_audio_mime (up_mime_type witness_upload)"
    by (simp add: witness_upload_def is_audio_mime_def normalize_mime_def ascii_lower_def trim_def
        lit_def is_white_def)
  obtain r st' where f: "finalize_upload (at_time 0) witness_config witness_upload [] 5 (lit ''x'')
      ?st = (r, st')" by fastforce
  have "current_audio_bytes st' = 5"
    using f audio
    by (auto simp: finalize_upload_def finalize_upload_at_def set_upload_status_def Let_def
        empty_store_def current_audio_bytes_def counts_as_audio_def witness_config_def
        witness_upload_def starts_with_def ascii_lower_def lit_def)
  moreover have "current_audio_bytes st' \<le> ac_server_audio_cap_bytes witness_config"
    by (rule audio_cap_kept [OF _ _ f]) (simp_all add: audio current_audio_bytes_def empty_store_def)
  ultimately show ?thesis using f by auto
qed

text \<open>
  A worker is only given a job that is queued, or running under an expired lease,
  and not cancelled, whose recording is ready; no queued job is older than it.
\<close>

theorem claimed_job_is_ready:
  assumes "claim_job ck st = (Some wk, st')"
  shows "\<exists>j\<in>set (js_jobs st). job_id j = wk_id wk \<and> \<not> job_cancel_requested j \<and>
      (job_status j = Job_queued \<or>
       job_status j = Job_running \<and> (\<exists>t. job_lease_until j = Some t \<and> t < ck_now ck)) \<and>
      (\<forall>k\<in>set (js_jobs st). job_status k = Job_queued \<longrightarrow> \<not> job_cancel_requested k \<longrightarrow>
         job_created_at j \<le> job_created_at k) \<and>
      (\<exists>r\<in>set (js_recordings st). rec_id r = job_recording_id j \<and>
         rec_status r = Recording_ready \<and> wk_relative_path wk = rec_relative_path r)"
  by (rule claim_job_Some [OF assms])

theorem claimed_job_is_ready_witness:
  "\<exists>wk st'. claim_job (at_time 700)
      (stage [sample_job ''j1'' ''a'' Job_running (Some 601) 0 1 None] []) = (Some wk, st') \<and>
     wk_id wk = lit ''j1''"
proof -
  let ?st = "stage [sample_job ''j1'' ''a'' Job_running (Some 601) 0 1 None] []"
  obtain wk st' where c: "claim_job (at_time 700) ?st = (Some wk, st')"
    by (simp add: op_defs stage_defs Let_def)
  from claimed_job_is_ready [OF c] c show ?thesis
    by (auto simp: stage_def sample_job_def)
qed



end
