(* ===== verification/Config.thy ===== *)
theory Config
  imports Prelude
begin

text \<open>
  \<open>src/config.rs\<close>: the configuration read from the environment. The environment is a map from
  names to values (a variable that is not valid Unicode reads as missing, as \<open>env::var\<close> has
  it). Parsing a socket address and the loopback test come as arguments.
\<close>

section \<open>Configuration values\<close>

record oidc_config =
  oi_public_base_url :: ustring
  oi_issuer :: ustring
  oi_jwks_url :: ustring
  oi_audience :: ustring
  oi_allowed_subject :: ustring
  oi_required_scope :: ustring

record embedded_oauth_config =
  eo_public_base_url :: ustring
  eo_username :: ustring
  eo_password_hash :: ustring
  eo_ed25519_private_key_path :: ustring
  eo_client_id :: ustring
  eo_redirect_uri :: ustring
  eo_required_scope :: ustring

datatype auth_config =
    AuthConfig_Disabled
  | AuthConfig_Oidc oidc_config
  | AuthConfig_Bearer ustring
  | AuthConfig_EmbeddedOauth embedded_oauth_config

record 'addr config_rec =
  cg_bind_addr :: 'addr
  cg_database_path :: ustring
  cg_database_timeout_seconds :: nat
  cg_max_request_bytes :: nat
  cg_auth :: auth_config

type_synonym environment = "string \<Rightarrow> ustring option"

section \<open>Reading the environment\<close>

definition required :: "environment \<Rightarrow> string \<Rightarrow> string + ustring" where
  "required env name = ok_or (env name) ''required environment variable {name} is not set''"

definition env_or :: "environment \<Rightarrow> string \<Rightarrow> string \<Rightarrow> ustring" where
  "env_or env name dflt = unwrap_or (env name) (lit dflt)"

text \<open>
  \<open>str::parse\<close> at an unsigned 64-bit type: an optional plus sign, then at least one digit,
  and no overflow.
\<close>

fun digits_value :: "nat \<Rightarrow> ustring \<Rightarrow> nat option" where
  "digits_value acc [] = Some acc"
| "digits_value acc (c # cs) =
     (if is_ascii_digit c \<and> acc * 10 + (c - 48) < 2 ^ 64
      then digits_value (acc * 10 + (c - 48)) cs else None)"

definition parse_u64 :: "ustring \<Rightarrow> nat option" where
  "parse_u64 s =
     (let ds = (case s of [] \<Rightarrow> [] | c # cs \<Rightarrow> if c = 43 then cs else s)
      in if ds = [] then None else digits_value 0 ds)"

definition parse_or :: "environment \<Rightarrow> string \<Rightarrow> nat \<Rightarrow> string + nat" where
  "parse_or env name dflt =
     (case env name of
        None \<Rightarrow> Inr dflt
      | Some v \<Rightarrow> ok_or (parse_u64 v) ''{name} has an invalid value'')"

function trim_trailing_slash :: "ustring \<Rightarrow> ustring" where
  "trim_trailing_slash v =
     (if v \<noteq> [] \<and> last v = 47 then trim_trailing_slash (butlast v) else v)"
  by pat_completeness auto
termination by (relation "measure length") auto

declare trim_trailing_slash.simps [simp del]

definition oidc_from_env :: "environment \<Rightarrow> string + oidc_config" where
  "oidc_from_env env =
     bindE (required env ''PUBLIC_BASE_URL'') (\<lambda>base.
     let public_base_url = trim_trailing_slash base in
     bindE (required env ''OIDC_ISSUER'') (\<lambda>issuer.
     bindE (required env ''OIDC_JWKS_URL'') (\<lambda>jwks_url.
     bindE (required env ''OIDC_ALLOWED_SUBJECT'') (\<lambda>allowed_subject.
     Inr \<lparr>oi_public_base_url = public_base_url, oi_issuer = trim_trailing_slash issuer,
          oi_jwks_url = jwks_url,
          oi_audience = unwrap_or (env ''OIDC_AUDIENCE'') public_base_url,
          oi_allowed_subject = allowed_subject,
          oi_required_scope = env_or env ''OIDC_REQUIRED_SCOPE'' ''learning:access''\<rparr>))))"

definition embedded_from_env :: "environment \<Rightarrow> string + embedded_oauth_config" where
  "embedded_from_env env =
     bindE (required env ''PUBLIC_BASE_URL'') (\<lambda>base.
     bindE (required env ''OAUTH_USERNAME'') (\<lambda>username.
     bindE (required env ''OAUTH_PASSWORD_HASH'') (\<lambda>password_hash.
     bindE (required env ''OAUTH_ED25519_KEY_PATH'') (\<lambda>key_path.
     bindE (required env ''OAUTH_CLIENT_ID'') (\<lambda>client_id.
     bindE (required env ''OAUTH_REDIRECT_URI'') (\<lambda>redirect_uri.
     Inr \<lparr>eo_public_base_url = trim_trailing_slash base, eo_username = username,
          eo_password_hash = password_hash, eo_ed25519_private_key_path = key_path,
          eo_client_id = client_id, eo_redirect_uri = redirect_uri,
          eo_required_scope = env_or env ''OIDC_REQUIRED_SCOPE'' ''learning:access''\<rparr>))))))"

definition auth_from_env :: "(bool) \<Rightarrow> environment \<Rightarrow> string + auth_config" where
  "auth_from_env loopback env =
     (let mode = env_or env ''AUTH_MODE'' ''oidc'' in
      if mode = lit ''oidc'' then mapE AuthConfig_Oidc (oidc_from_env env)
      else if mode = lit ''disabled'' then
        (let explicitly_allowed =
           (env_or env ''ALLOW_INSECURE_NO_AUTH'' ''false'' = lit ''true'') in
         if \<not> loopback \<and> \<not> explicitly_allowed
         then Inl ''AUTH_MODE=disabled may only bind to loopback unless ALLOW_INSECURE_NO_AUTH=true''
         else Inr AuthConfig_Disabled)
      else if mode = lit ''bearer'' then
        bindE (required env ''BEARER_TOKEN'') (\<lambda>token.
        if blen token < 32 then Inl ''BEARER_TOKEN must be at least 32 characters''
        else Inr (AuthConfig_Bearer token))
      else if mode = lit ''embedded_oauth'' then
        mapE AuthConfig_EmbeddedOauth (embedded_from_env env)
      else Inl ''unsupported AUTH_MODE'')"

definition from_env ::
    "(ustring \<Rightarrow> 'addr option) \<Rightarrow> ('addr \<Rightarrow> bool) \<Rightarrow> environment \<Rightarrow> string + 'addr config_rec" where
  "from_env parse_addr is_loopback env =
     bindE (ok_or (parse_addr (env_or env ''BIND_ADDR'' ''127.0.0.1:8080''))
       ''BIND_ADDR must be a socket address such as 127.0.0.1:8080'') (\<lambda>bind_addr.
     let database_path = env_or env ''DATABASE_PATH'' ''data/aprendiendo.sqlite3'' in
     bindE (parse_or env ''DATABASE_TIMEOUT_SECONDS'' 10) (\<lambda>timeout.
     bindE (parse_or env ''MAX_REQUEST_BYTES'' 131072) (\<lambda>max_request_bytes.
     bindE (auth_from_env (is_loopback bind_addr) env) (\<lambda>auth.
     Inr \<lparr>cg_bind_addr = bind_addr, cg_database_path = database_path,
          cg_database_timeout_seconds = timeout, cg_max_request_bytes = max_request_bytes,
          cg_auth = auth\<rparr>))))"

section \<open>What the configuration guarantees\<close>

lemma trim_slash_step:
  "v \<noteq> [] \<Longrightarrow> last v = 47 \<Longrightarrow> trim_trailing_slash v = trim_trailing_slash (butlast v)"
  "\<not> (v \<noteq> [] \<and> last v = 47) \<Longrightarrow> trim_trailing_slash v = v"
  using trim_trailing_slash.simps [of v] by auto

lemma trim_trailing_slash_Nil [simp]: "trim_trailing_slash [] = []"
  using trim_slash_step(2) [of "[]"] by simp

lemma trim_trailing_slash_snoc [simp]:
  "trim_trailing_slash (v @ [c]) = (if c = 47 then trim_trailing_slash v else v @ [c])"
  using trim_slash_step(1) [of "v @ [c]"] trim_slash_step(2) [of "v @ [c]"] by simp

lemma trim_trailing_slash_spec: "\<exists>n. v = trim_trailing_slash v @ replicate n 47"
proof (induction v rule: rev_induct)
  case Nil
  show ?case by simp
next
  case (snoc c v)
  show ?case
  proof (cases "c = 47")
    case True
    from snoc obtain n where "v = trim_trailing_slash v @ replicate n 47" by blast
    then have "v @ [47] = trim_trailing_slash v @ replicate (Suc n) 47"
      by (metis append_assoc replicate_append_same replicate_Suc)
    with True show ?thesis by (metis trim_trailing_slash_snoc)
  next
    case False
    then show ?thesis by (intro exI [of _ 0]) simp
  qed
qed

lemma trim_trailing_slash_last:
  "trim_trailing_slash v = [] \<or> last (trim_trailing_slash v) \<noteq> 47"
proof (induction v rule: rev_induct)
  case (snoc c v)
  then show ?case by (cases "c = 47") simp_all
qed simp

lemma digits_value_bound: "digits_value acc s = Some n \<Longrightarrow> acc < 2 ^ 64 \<Longrightarrow> n < 2 ^ 64"
  by (induction acc s rule: digits_value.induct) (auto split: if_splits)

lemma parse_u64_bound: "parse_u64 s = Some n \<Longrightarrow> n < 2 ^ 64"
  unfolding parse_u64_def Let_def by (auto dest: digits_value_bound split: if_splits)

end
