(* ===== verification/OAuth.thy ===== *)
theory OAuth
  imports Config
begin

text \<open>
  \<open>src/embedded_oauth.rs\<close>: the authorization code flow. The table of pending codes is a map.
  Code under other projects is an argument: the Argon2 check (\<open>parse_hash\<close>, \<open>verify_password\<close>),
  SHA-256 with URL-safe base64 (\<open>s256\<close>) and signing a token (\<open>sign\<close>). A fresh code
  (\<open>Uuid::new_v4\<close>) and the clocks come with the call: \<open>now\<close> is the monotonic clock in
  nanoseconds, \<open>unix\<close> the wall clock in seconds since the epoch, if it is after it.
\<close>

section \<open>Requests and state\<close>

record auth_code =
  ac_code :: ustring
  ac_client_id :: ustring
  ac_redirect_uri :: ustring
  ac_code_challenge :: ustring
  ac_code_challenge_method :: ustring
  ac_expires_at :: nat

type_synonym auth_codes = "ustring \<Rightarrow> auth_code option"

record authorize_query =
  aq_client_id :: ustring
  aq_redirect_uri :: ustring
  aq_response_type :: ustring
  aq_scope :: ustring
  aq_state :: "ustring option"
  aq_code_challenge :: ustring
  aq_code_challenge_method :: ustring

record login_form =
  lg_username :: "ustring option"
  lg_password :: "ustring option"
  lg_csrf_token :: ustring
  lg_action :: ustring

record token_request =
  tr_grant_type :: ustring
  tr_code :: ustring
  tr_client_id :: ustring
  tr_redirect_uri :: ustring
  tr_code_verifier :: ustring

record jwt_claims =
  jc_iss :: ustring
  jc_sub :: ustring
  jc_aud :: ustring
  jc_exp :: nat
  jc_scope :: ustring

record token_response =
  tk_access_token :: ustring
  tk_token_type :: ustring
  tk_expires_in :: nat
  tk_scope :: ustring

text \<open>A rejection carries the status code and the body's text.\<close>

type_synonym rejection = "nat \<times> string"

section \<open>The authorization endpoint\<close>

text \<open>\<open>split_ascii_whitespace\<close>: the maximal runs without ASCII white space.\<close>

definition is_ascii_white :: "nat \<Rightarrow> bool" where
  "is_ascii_white c \<longleftrightarrow> c = 32 \<or> c = 9 \<or> c = 10 \<or> c = 12 \<or> c = 13"

fun split_white :: "ustring \<Rightarrow> ustring \<Rightarrow> ustring list" where
  "split_white acc [] = (if acc = [] then [] else [rev acc])"
| "split_white acc (c # cs) =
     (if is_ascii_white c
      then (if acc = [] then split_white [] cs else rev acc # split_white [] cs)
      else split_white (c # acc) cs)"

definition split_ascii_whitespace :: "ustring \<Rightarrow> ustring list" where
  "split_ascii_whitespace s = split_white [] s"

text \<open>\<open>authorize_get\<close> answers with the token it puts in the cookie and in the form.\<close>

definition authorize_get ::
    "embedded_oauth_config \<Rightarrow> ustring \<Rightarrow> authorize_query \<Rightarrow> rejection + ustring" where
  "authorize_get cfg csrf_token query =
     bindE (seqE
       [bail_if (aq_client_id query \<noteq> eo_client_id cfg \<or>
            aq_redirect_uri query \<noteq> eo_redirect_uri cfg)
          (400, ''invalid client_id or redirect_uri''),
        bail_if (aq_response_type query \<noteq> lit ''code'') (400, ''unsupported response_type''),
        bail_if (aq_code_challenge_method query \<noteq> lit ''S256'')
          (400, ''unsupported code_challenge_method''),
        bail_if (eo_required_scope cfg \<notin> set (split_ascii_whitespace (aq_scope query)))
          (400, ''invalid scope'')])
       (\<lambda>_. Inr csrf_token)"

definition CODE_TTL :: nat where "CODE_TTL = 300 * 1000000000"

definition state_suffix :: "authorize_query \<Rightarrow> ustring" where
  "state_suffix query =
     (case aq_state query of None \<Rightarrow> [] | Some st \<Rightarrow> lit ''&state='' @ st)"

definition credentials_ok ::
    "(ustring \<Rightarrow> 'hash option) \<Rightarrow> (ustring \<Rightarrow> 'hash \<Rightarrow> bool) \<Rightarrow> embedded_oauth_config \<Rightarrow>
     login_form \<Rightarrow> bool" where
  "credentials_ok parse_hash verify_password cfg form \<longleftrightarrow>
     unwrap_or (lg_username form) [] = eo_username cfg \<and>
     (case parse_hash (eo_password_hash cfg) of
        Some parsed \<Rightarrow> verify_password (unwrap_or (lg_password form) []) parsed
      | None \<Rightarrow> False)"

text \<open>\<open>authorize_post\<close>: the redirect, and the codes after the request.\<close>

definition authorize_post ::
    "(ustring \<Rightarrow> 'hash option) \<Rightarrow> (ustring \<Rightarrow> 'hash \<Rightarrow> bool) \<Rightarrow> embedded_oauth_config \<Rightarrow>
     nat \<Rightarrow> ustring \<Rightarrow> ustring option \<Rightarrow> authorize_query \<Rightarrow> login_form \<Rightarrow> auth_codes \<Rightarrow>
     (rejection + ustring) \<times> auth_codes" where
  "authorize_post parse_hash verify_password cfg now code cookie query form codes =
     (if cookie \<noteq> Some (lg_csrf_token form) then (Inl (403, ''invalid CSRF token''), codes)
      else if aq_client_id query \<noteq> eo_client_id cfg \<or>
        aq_redirect_uri query \<noteq> eo_redirect_uri cfg
      then (Inl (400, ''invalid client_id or redirect_uri''), codes)
      else if lg_action form = lit ''deny'' then
        (Inr (aq_redirect_uri query @ lit ''?error=access_denied&iss='' @
           eo_public_base_url cfg @ state_suffix query), codes)
      else if \<not> credentials_ok parse_hash verify_password cfg form
      then (Inl (401, ''invalid username or password''), codes)
      else
        (Inr (aq_redirect_uri query @ lit ''?code='' @ code @ lit ''&iss='' @
           eo_public_base_url cfg @ state_suffix query),
         codes(code \<mapsto>
           \<lparr>ac_code = code, ac_client_id = aq_client_id query,
            ac_redirect_uri = aq_redirect_uri query,
            ac_code_challenge = aq_code_challenge query,
            ac_code_challenge_method = aq_code_challenge_method query,
            ac_expires_at = now + CODE_TTL\<rparr>)))"

section \<open>The token endpoint\<close>

definition EXPIRES_IN :: nat where "EXPIRES_IN = 3600"

definition retain_live :: "nat \<Rightarrow> auth_codes \<Rightarrow> auth_codes" where
  "retain_live now codes =
     (\<lambda>k. case codes k of Some v \<Rightarrow> if ac_expires_at v > now then Some v else None | None \<Rightarrow> None)"

definition token_claims :: "embedded_oauth_config \<Rightarrow> nat \<Rightarrow> jwt_claims" where
  "token_claims cfg unix =
     \<lparr>jc_iss = eo_public_base_url cfg, jc_sub = eo_username cfg,
      jc_aud = eo_public_base_url cfg, jc_exp = unix + EXPIRES_IN,
      jc_scope = eo_required_scope cfg\<rparr>"

definition issue_token ::
    "(jwt_claims \<Rightarrow> ustring option) \<Rightarrow> embedded_oauth_config \<Rightarrow> nat option \<Rightarrow>
     rejection + token_response" where
  "issue_token sign cfg unix =
     bindE (ok_or unix (500, ''server_error'')) (\<lambda>seconds.
     bindE (ok_or (sign (token_claims cfg seconds)) (500, ''server_error'')) (\<lambda>token.
     Inr \<lparr>tk_access_token = token, tk_token_type = lit ''Bearer'', tk_expires_in = EXPIRES_IN,
          tk_scope = eo_required_scope cfg\<rparr>))"

definition token_post ::
    "(ustring \<Rightarrow> ustring) \<Rightarrow> (jwt_claims \<Rightarrow> ustring option) \<Rightarrow> embedded_oauth_config \<Rightarrow>
     nat \<Rightarrow> nat option \<Rightarrow> token_request \<Rightarrow> auth_codes \<Rightarrow>
     (rejection + token_response) \<times> auth_codes" where
  "token_post s256 sign cfg now unix req codes =
     (if tr_grant_type req \<noteq> lit ''authorization_code''
      then (Inl (400, ''unsupported_grant_type''), codes)
      else (let live = retain_live now codes; rest = live(tr_code req := None) in
        case live (tr_code req) of
          None \<Rightarrow> (Inl (400, ''invalid_grant''), rest)
        | Some c \<Rightarrow>
            if ac_client_id c \<noteq> tr_client_id req \<or> ac_redirect_uri c \<noteq> tr_redirect_uri req
            then (Inl (400, ''invalid_grant''), rest)
            else if ac_code_challenge c \<noteq> s256 (tr_code_verifier req)
            then (Inl (400, ''invalid_grant''), rest)
            else (issue_token sign cfg unix, rest)))"

end
