(* ===== verification/Authenticator.thy ===== *)
theory Authenticator
  imports OAuth PracticeApi
begin

text \<open>
  \<open>src/auth.rs\<close>: verification of bearer tokens. The JWT library is an argument, a record of
  the two functions the code calls: reading a header and decoding with a key, an algorithm,
  the expected issuer and audience at a wall clock time (it checks signature and expiry).
  A JWK set is the list of its keys with their ids, the key fetch is the result it
  returned, \<open>None\<close> when it failed.
\<close>

section \<open>Claims\<close>

datatype scope_claim = SpaceSeparated ustring | ScopeList "ustring list"

record claims =
  cl_sub :: ustring
  cl_scope :: "scope_claim option"
  cl_scp :: "scope_claim option"
  cl_token_type :: "ustring option"

fun scope_contains :: "scope_claim \<Rightarrow> ustring \<Rightarrow> bool" where
  "scope_contains (SpaceSeparated v) required_scope \<longleftrightarrow>
     required_scope \<in> set (split_ascii_whitespace v)"
| "scope_contains (ScopeList vs) required_scope \<longleftrightarrow> required_scope \<in> set vs"

definition has_scope :: "claims \<Rightarrow> ustring \<Rightarrow> bool" where
  "has_scope c required_scope \<longleftrightarrow>
     some_and (cl_scope c) (\<lambda>s. scope_contains s required_scope) \<or>
     some_and (cl_scp c) (\<lambda>s. scope_contains s required_scope)"

section \<open>Authenticators\<close>

datatype jwt_algorithm = EdDSA | RS256 | RS384 | RS512 | OtherAlgorithm

record 'key jwt_library =
  jl_decode_header :: "ustring \<Rightarrow> (jwt_algorithm \<times> ustring option) option"
  jl_decode :: "'key \<Rightarrow> jwt_algorithm \<Rightarrow> ustring \<Rightarrow> ustring \<Rightarrow> nat \<Rightarrow> ustring \<Rightarrow> claims option"

type_synonym 'key jwks = "(ustring option \<times> 'key) list"

definition find_key :: "'key jwks \<Rightarrow> ustring \<Rightarrow> 'key option" where
  "find_key keys kid = map_option snd (find (\<lambda>k. fst k = Some kid) keys)"

record 'key oidc_state =
  os_keys :: "'key jwks"
  os_last_refresh :: nat

datatype 'key authenticator =
    Disabled
  | Oidc oidc_config
  | Bearer ustring
  | EmbeddedOauth embedded_oauth_config 'key

text \<open>\<open>constant_time_eq\<close> on the UTF-8 bytes.\<close>

definition constant_time_eq :: "ustring \<Rightarrow> ustring \<Rightarrow> bool" where
  "constant_time_eq a b \<longleftrightarrow>
     length (utf8 a) = length (utf8 b) \<and>
     foldl (\<lambda>diff (x, y). diff OR (x XOR y)) (0 :: byte) (zip (utf8 a) (utf8 b)) = 0"

fun supported_algorithm :: "'key authenticator \<Rightarrow> jwt_algorithm \<Rightarrow> bool" where
  "supported_algorithm (EmbeddedOauth _ _) alg \<longleftrightarrow> alg = EdDSA"
| "supported_algorithm (Oidc _) alg \<longleftrightarrow> alg \<in> {EdDSA, RS256, RS384, RS512}"
| "supported_algorithm _ alg \<longleftrightarrow> False"

text \<open>The checks on the claims, the same for both issuers.\<close>

definition check_claims :: "ustring \<Rightarrow> ustring \<Rightarrow> claims \<Rightarrow> string + unit" where
  "check_claims subject required_scope c =
     seqE
      [bail_if (cl_sub c \<noteq> subject) ''JWT subject is not authorized for this learner'',
       bail_if (cl_token_type c = Some (lit ''id-token''))
         ''OIDC ID tokens cannot be used as access tokens'',
       bail_if (\<not> has_scope c required_scope) ''JWT does not contain the required scope'']"

text \<open>The key of an OIDC token: from the cached set, else after a refresh at most each minute.\<close>

definition REFRESH_NANOS :: nat where "REFRESH_NANOS = 60 * 1000000000"

definition find_oidc_key ::
    "nat \<Rightarrow> 'key jwks option \<Rightarrow> ustring \<Rightarrow> 'key oidc_state \<Rightarrow>
     (string + 'key option) \<times> 'key oidc_state" where
  "find_oidc_key now fetched kid st =
     (case find_key (os_keys st) kid of
        Some k \<Rightarrow> (Inr (Some k), st)
      | None \<Rightarrow>
          if now - os_last_refresh st \<ge> REFRESH_NANOS
          then (case fetched of
              None \<Rightarrow> (Inl ''failed to fetch OIDC JWKS'', st)
            | Some keys \<Rightarrow> (Inr (find_key keys kid), \<lparr>os_keys = keys, os_last_refresh = now\<rparr>))
          else (Inr None, st))"

definition verify ::
    "'key jwt_library \<Rightarrow> nat \<Rightarrow> nat \<Rightarrow> 'key jwks option \<Rightarrow> 'key authenticator \<Rightarrow>
     ustring \<Rightarrow> 'key oidc_state \<Rightarrow> (string + unit) \<times> 'key oidc_state" where
  "verify jwt now unix fetched auth token st =
     (case auth of
        Bearer secret \<Rightarrow>
          (if constant_time_eq token secret then Inr () else Inl ''invalid bearer token'', st)
      | Disabled \<Rightarrow> (Inr (), st)
      | _ \<Rightarrow>
         if blen token > 16384 then (Inl ''JWT is too large'', st)
         else (case jl_decode_header jwt token of
             None \<Rightarrow> (Inl ''invalid JWT header'', st)
           | Some (alg, kid) \<Rightarrow>
               if \<not> supported_algorithm auth alg
               then (Inl ''unsupported JWT signing algorithm'', st)
               else (case kid of
                   None \<Rightarrow> (Inl ''JWT header has no kid'', st)
                 | Some kid \<Rightarrow>
                    (case auth of
                       EmbeddedOauth cfg public_jwk \<Rightarrow>
                         (bindE (if kid = lit ''1'' then Inr public_jwk
                                 else Inl ''JWT signing key is unknown'') (\<lambda>key.
                          bindE (ok_or (jl_decode jwt key alg (eo_public_base_url cfg)
                              (eo_public_base_url cfg) unix token) ''JWT validation failed'') (\<lambda>c.
                          check_claims (eo_username cfg) (eo_required_scope cfg) c)), st)
                     | Oidc cfg \<Rightarrow>
                         (let (found, st') = find_oidc_key now fetched kid st in
                          (bindE found (\<lambda>jwk.
                           bindE (ok_or jwk ''JWT signing key is unknown'') (\<lambda>key.
                           bindE (ok_or (jl_decode jwt key alg (oi_issuer cfg) (oi_audience cfg)
                               unix token) ''JWT validation failed'') (\<lambda>c.
                           check_claims (oi_allowed_subject cfg) (oi_required_scope cfg) c))), st'))
                     | _ \<Rightarrow> (Inr (), st)))))"

section \<open>Construction\<close>

text \<open>
  \<open>Authenticator::new\<close>: \<open>load_key\<close> reads the signing key's public half, \<open>fetched\<close> is the
  key set the provider returned.
\<close>

fun authenticator_new ::
    "(embedded_oauth_config \<Rightarrow> string + 'key) \<Rightarrow> 'key jwks option \<Rightarrow> nat \<Rightarrow> auth_config \<Rightarrow>
     string + 'key authenticator \<times> 'key oidc_state" where
  "authenticator_new load_key fetched now AuthConfig_Disabled =
     Inr (Disabled, \<lparr>os_keys = [], os_last_refresh = now\<rparr>)"
| "authenticator_new load_key fetched now (AuthConfig_Bearer token) =
     Inr (Bearer token, \<lparr>os_keys = [], os_last_refresh = now\<rparr>)"
| "authenticator_new load_key fetched now (AuthConfig_EmbeddedOauth cfg) =
     bindE (load_key cfg) (\<lambda>key.
     Inr (EmbeddedOauth cfg key, \<lparr>os_keys = [], os_last_refresh = now\<rparr>))"
| "authenticator_new load_key fetched now (AuthConfig_Oidc cfg) =
     bindE (ok_or fetched ''failed to fetch OIDC JWKS'') (\<lambda>keys.
     if keys = [] then Inl ''OIDC JWKS contains no signing keys''
     else Inr (Oidc cfg, \<lparr>os_keys = keys, os_last_refresh = now\<rparr>))"

section \<open>The middleware\<close>

definition strip_prefix :: "ustring \<Rightarrow> ustring \<Rightarrow> ustring option" where
  "strip_prefix p s = (if starts_with s p then Some (drop (length p) s) else None)"

fun challenge :: "'key authenticator \<Rightarrow> ustring option" where
  "challenge (Oidc cfg) = Some (lit ''Bearer resource_metadata='' @ [34] @ oi_public_base_url cfg @
     lit ''/.well-known/oauth-protected-resource'' @ [34] @ lit '', scope='' @ [34] @
     oi_required_scope cfg @ [34])"
| "challenge (EmbeddedOauth cfg _) = Some (lit ''Bearer resource_metadata='' @ [34] @
     eo_public_base_url cfg @ lit ''/.well-known/oauth-protected-resource'' @ [34] @
     lit '', scope='' @ [34] @ eo_required_scope cfg @ [34])"
| "challenge (Bearer _) = Some (lit ''Bearer'')"
| "challenge Disabled = None"

text \<open>
  \<open>require_auth\<close>: \<open>Inr\<close> when the request is passed on, \<open>Inl\<close> with the challenge of the 401
  answer otherwise. A header that is not text reads as missing.
\<close>

definition require_auth ::
    "'key jwt_library \<Rightarrow> nat \<Rightarrow> nat \<Rightarrow> 'key jwks option \<Rightarrow> 'key authenticator \<Rightarrow>
     ustring option \<Rightarrow> 'key oidc_state \<Rightarrow> (ustring option + unit) \<times> 'key oidc_state" where
  "require_auth jwt now unix fetched auth authorization_header st =
     (case auth of
        Disabled \<Rightarrow> (Inr (), st)
      | _ \<Rightarrow>
         (case Option.bind authorization_header (strip_prefix (lit ''Bearer '')) of
            None \<Rightarrow> (Inl (challenge auth), st)
          | Some token \<Rightarrow>
             (let (checked, st') = verify jwt now unix fetched auth token st in
              (map_errE (\<lambda>_. challenge auth) checked, st'))))"

end
