(* ===== verification/OAuthRuns.thy ===== *)
theory OAuthRuns
  imports Authenticator
begin

text \<open>
  Runs of the embedded authorization server. The log keeps, beside the server's table of
  codes, every login that was granted a code and every token that was issued.
\<close>

section \<open>Runs\<close>

record grant =
  gt_code :: ustring
  gt_cookie :: "ustring option"
  gt_query :: authorize_query
  gt_form :: login_form
  gt_time :: nat

record oauth_world =
  ow_codes :: auth_codes
  ow_now :: nat
  ow_grants :: "grant list"
  ow_tokens :: "(token_request \<times> nat) list"

definition granted :: "(rejection + ustring) \<Rightarrow> login_form \<Rightarrow> bool" where
  "granted answer form \<longleftrightarrow>
     (case answer of Inl _ \<Rightarrow> False | Inr _ \<Rightarrow> lg_action form \<noteq> lit ''deny'')"

inductive oauth_step ::
    "(ustring \<Rightarrow> 'hash option) \<Rightarrow> (ustring \<Rightarrow> 'hash \<Rightarrow> bool) \<Rightarrow> (ustring \<Rightarrow> ustring) \<Rightarrow>
     (jwt_claims \<Rightarrow> ustring option) \<Rightarrow> embedded_oauth_config \<Rightarrow> oauth_world \<Rightarrow> oauth_world \<Rightarrow> bool"
  for parse_hash verify_password s256 sign cfg where
  tick: "ow_now w \<le> now \<Longrightarrow>
     oauth_step parse_hash verify_password s256 sign cfg w (w\<lparr>ow_now := now\<rparr>)"
| authorize: "code \<notin> gt_code ` set (ow_grants w) \<Longrightarrow>
     authorize_post parse_hash verify_password cfg (ow_now w) code cookie query form (ow_codes w) =
       (answer, codes) \<Longrightarrow>
     oauth_step parse_hash verify_password s256 sign cfg w
       (w\<lparr>ow_codes := codes,
          ow_grants := (if granted answer form
            then \<lparr>gt_code = code, gt_cookie = cookie, gt_query = query, gt_form = form,
                   gt_time = ow_now w\<rparr> # ow_grants w
            else ow_grants w)\<rparr>)"
| token: "token_post s256 sign cfg (ow_now w) unix req (ow_codes w) = (answer, codes) \<Longrightarrow>
     oauth_step parse_hash verify_password s256 sign cfg w
       (w\<lparr>ow_codes := codes,
          ow_tokens := (case answer of
              Inl _ \<Rightarrow> ow_tokens w | Inr _ \<Rightarrow> (req, ow_now w) # ow_tokens w)\<rparr>)"

inductive_cases oauth_stepE: "oauth_step parse_hash verify_password s256 sign cfg w w'"

definition oauth_init :: "nat \<Rightarrow> oauth_world" where
  "oauth_init now = \<lparr>ow_codes = Map.empty, ow_now = now, ow_grants = [], ow_tokens = []\<rparr>"

definition oauth_reachable ::
    "(ustring \<Rightarrow> 'hash option) \<Rightarrow> (ustring \<Rightarrow> 'hash \<Rightarrow> bool) \<Rightarrow> (ustring \<Rightarrow> ustring) \<Rightarrow>
     (jwt_claims \<Rightarrow> ustring option) \<Rightarrow> embedded_oauth_config \<Rightarrow> oauth_world \<Rightarrow> bool" where
  "oauth_reachable parse_hash verify_password s256 sign cfg w \<longleftrightarrow>
     (\<exists>now. (oauth_step parse_hash verify_password s256 sign cfg)\<^sup>*\<^sup>* (oauth_init now) w)"

section \<open>The invariant\<close>

definition code_of :: "grant \<Rightarrow> auth_code" where
  "code_of g =
     \<lparr>ac_code = gt_code g, ac_client_id = aq_client_id (gt_query g),
      ac_redirect_uri = aq_redirect_uri (gt_query g),
      ac_code_challenge = aq_code_challenge (gt_query g),
      ac_code_challenge_method = aq_code_challenge_method (gt_query g),
      ac_expires_at = gt_time g + CODE_TTL\<rparr>"

text \<open>What a login proved.\<close>

definition login_ok ::
    "(ustring \<Rightarrow> 'hash option) \<Rightarrow> (ustring \<Rightarrow> 'hash \<Rightarrow> bool) \<Rightarrow> embedded_oauth_config \<Rightarrow> grant \<Rightarrow> bool" where
  "login_ok parse_hash verify_password cfg g \<longleftrightarrow>
     gt_cookie g = Some (lg_csrf_token (gt_form g)) \<and>
     aq_client_id (gt_query g) = eo_client_id cfg \<and>
     aq_redirect_uri (gt_query g) = eo_redirect_uri cfg \<and>
     credentials_ok parse_hash verify_password cfg (gt_form g)"

text \<open>The login a token request redeems.\<close>

definition redeems :: "(ustring \<Rightarrow> ustring) \<Rightarrow> token_request \<Rightarrow> nat \<Rightarrow> grant \<Rightarrow> bool" where
  "redeems s256 req t g \<longleftrightarrow>
     tr_code req = gt_code g \<and> tr_client_id req = aq_client_id (gt_query g) \<and>
     tr_redirect_uri req = aq_redirect_uri (gt_query g) \<and>
     s256 (tr_code_verifier req) = aq_code_challenge (gt_query g) \<and>
     gt_time g \<le> t \<and> t < gt_time g + CODE_TTL"

definition oauth_inv ::
    "(ustring \<Rightarrow> 'hash option) \<Rightarrow> (ustring \<Rightarrow> 'hash \<Rightarrow> bool) \<Rightarrow> (ustring \<Rightarrow> ustring) \<Rightarrow>
     embedded_oauth_config \<Rightarrow> oauth_world \<Rightarrow> bool" where
  "oauth_inv parse_hash verify_password s256 cfg w \<longleftrightarrow>
     (\<forall>k c. ow_codes w k = Some c \<longrightarrow> (\<exists>g\<in>set (ow_grants w). gt_code g = k \<and> c = code_of g)) \<and>
     (\<forall>g\<in>set (ow_grants w). login_ok parse_hash verify_password cfg g \<and> gt_time g \<le> ow_now w) \<and>
     distinct (map gt_code (ow_grants w)) \<and>
     distinct (map (\<lambda>q. tr_code (fst q)) (ow_tokens w)) \<and>
     (\<forall>q\<in>set (ow_tokens w). ow_codes w (tr_code (fst q)) = None \<and>
        (\<exists>g\<in>set (ow_grants w). redeems s256 (fst q) (snd q) g))"

lemma authorize_post_cases:
  assumes "authorize_post parse_hash verify_password cfg now code cookie query form codes =
    (answer, codes')"
  shows "\<not> granted answer form \<and> codes' = codes \<or>
    granted answer form \<and>
    (let g = \<lparr>gt_code = code, gt_cookie = cookie, gt_query = query, gt_form = form, gt_time = now\<rparr>
     in login_ok parse_hash verify_password cfg g \<and> codes' = codes(code \<mapsto> code_of g))"
  using assms
  by (auto simp: authorize_post_def granted_def Let_def login_ok_def code_of_def split: if_splits)

lemma token_post_cases:
  assumes "token_post s256 sign cfg now unix req codes = (answer, codes')"
  shows "(\<exists>e. answer = Inl e) \<and> (codes' = codes \<or> codes' = (retain_live now codes)(tr_code req := None)) \<or>
    (\<exists>c. codes (tr_code req) = Some c \<and> now < ac_expires_at c \<and>
       ac_client_id c = tr_client_id req \<and> ac_redirect_uri c = tr_redirect_uri req \<and>
       ac_code_challenge c = s256 (tr_code_verifier req) \<and>
       codes' = (retain_live now codes)(tr_code req := None))"
  using assms
  by (auto simp: token_post_def Let_def retain_live_def split: if_splits option.splits)

lemma retain_live_le: "retain_live now codes k = Some c \<Longrightarrow> codes k = Some c"
  by (auto simp: retain_live_def split: option.splits if_splits)

lemma oauth_inv_authorize:
  assumes inv: "oauth_inv parse_hash verify_password s256 cfg w"
    and fresh: "code \<notin> gt_code ` set (ow_grants w)"
    and post: "authorize_post parse_hash verify_password cfg (ow_now w) code cookie query form
      (ow_codes w) = (answer, codes)"
  shows "oauth_inv parse_hash verify_password s256 cfg (w\<lparr>ow_codes := codes,
          ow_grants := (if granted answer form
            then \<lparr>gt_code = code, gt_cookie = cookie, gt_query = query, gt_form = form,
                   gt_time = ow_now w\<rparr> # ow_grants w
            else ow_grants w)\<rparr>)"
proof -
  define g where "g = \<lparr>gt_code = code, gt_cookie = cookie, gt_query = query, gt_form = form,
    gt_time = ow_now w\<rparr>"
  have fields: "gt_code g = code" "gt_time g = ow_now w" by (simp_all add: g_def)
  have unused: "tr_code (fst q) \<noteq> code" if "q \<in> set (ow_tokens w)" for q
    using inv fresh that by (fastforce simp: oauth_inv_def redeems_def)
  from authorize_post_cases [OF post] show ?thesis
  proof (elim disjE conjE)
    assume "\<not> granted answer form" "codes = ow_codes w"
    with inv show ?thesis by (simp add: oauth_inv_def)
  next
    assume "granted answer form" and rest: "let g = \<lparr>gt_code = code, gt_cookie = cookie,
        gt_query = query, gt_form = form, gt_time = ow_now w\<rparr>
      in login_ok parse_hash verify_password cfg g \<and> codes = (ow_codes w)(code \<mapsto> code_of g)"
    moreover from rest have "login_ok parse_hash verify_password cfg g"
      "codes = (ow_codes w)(code \<mapsto> code_of g)"
      by (simp_all add: Let_def g_def)
    ultimately show ?thesis
      using inv fresh unused fields unfolding g_def [symmetric] oauth_inv_def
      by (auto dest: unused)
  qed
qed

lemma oauth_inv_shrink:
  assumes inv: "oauth_inv parse_hash verify_password s256 cfg w"
    and sub: "\<And>k c. codes k = Some c \<Longrightarrow> ow_codes w k = Some c"
  shows "oauth_inv parse_hash verify_password s256 cfg (w\<lparr>ow_codes := codes\<rparr>)"
proof -
  have gone: "codes (tr_code (fst q)) = None" if "q \<in> set (ow_tokens w)" for q
    using inv that sub by (cases "codes (tr_code (fst q))") (auto simp: oauth_inv_def)
  have known: "\<exists>g\<in>set (ow_grants w). gt_code g = k \<and> c = code_of g" if "codes k = Some c" for k c
    using inv sub [OF that] by (simp add: oauth_inv_def)
  show ?thesis
    using inv gone known unfolding oauth_inv_def by simp
qed

lemma oauth_inv_token:
  assumes inv: "oauth_inv parse_hash verify_password s256 cfg w"
    and post: "token_post s256 sign cfg (ow_now w) unix req (ow_codes w) = (answer, codes)"
  shows "oauth_inv parse_hash verify_password s256 cfg (w\<lparr>ow_codes := codes,
          ow_tokens := (case answer of
              Inl _ \<Rightarrow> ow_tokens w | Inr _ \<Rightarrow> (req, ow_now w) # ow_tokens w)\<rparr>)"
proof -
  let ?rest = "(retain_live (ow_now w) (ow_codes w))(tr_code req := None)"
  have sub: "codes k = Some c \<Longrightarrow> ow_codes w k = Some c" for k c
    using token_post_cases [OF post] retain_live_le by (auto split: if_splits)
  note shrunk = oauth_inv_shrink [OF inv sub]
  show ?thesis
  proof (cases answer)
    case (Inl e)
    with shrunk show ?thesis by simp
  next
    case (Inr r)
    with token_post_cases [OF post] obtain c where
      c: "ow_codes w (tr_code req) = Some c" "ow_now w < ac_expires_at c"
      "ac_client_id c = tr_client_id req" "ac_redirect_uri c = tr_redirect_uri req"
      "ac_code_challenge c = s256 (tr_code_verifier req)" and codes: "codes = ?rest"
      by auto
    from inv c(1) obtain g where g: "g \<in> set (ow_grants w)" "gt_code g = tr_code req" "c = code_of g"
      by (auto simp: oauth_inv_def)
    moreover have "gt_time g \<le> ow_now w" using inv g(1) by (auto simp: oauth_inv_def)
    ultimately have red: "redeems s256 req (ow_now w) g"
      using c by (simp add: redeems_def code_of_def)
    have unused: "tr_code (fst q) \<noteq> tr_code req" if "q \<in> set (ow_tokens w)" for q
      using inv c(1) that by (auto simp: oauth_inv_def)
    have "codes (tr_code req) = None" by (simp add: codes)
    with shrunk red g(1) unused Inr show ?thesis
      unfolding oauth_inv_def by (auto dest: unused)
  qed
qed

lemma oauth_inv_reachable:
  assumes "oauth_reachable parse_hash verify_password s256 sign cfg w"
  shows "oauth_inv parse_hash verify_password s256 cfg w"
proof -
  from assms obtain now where
    "(oauth_step parse_hash verify_password s256 sign cfg)\<^sup>*\<^sup>* (oauth_init now) w"
    by (auto simp: oauth_reachable_def)
  then show ?thesis
  proof (induction rule: rtranclp_induct)
    case base
    show ?case by (simp add: oauth_inv_def oauth_init_def)
  next
    case (step w w')
    from step(2) show ?case
    proof (cases rule: oauth_step.cases)
      case (tick now)
      with step(3) show ?thesis by (force simp: oauth_inv_def)
    next
      case authorize
      with step(3) show ?thesis using oauth_inv_authorize by blast
    next
      case token
      with step(3) show ?thesis using oauth_inv_token by blast
    qed
  qed
qed

section \<open>The middleware\<close>

lemma constant_time_eq_iff: "constant_time_eq a b \<longleftrightarrow> utf8 a = utf8 b"
  using constant_time_string_eq_iff [of a b]
  by (simp add: constant_time_eq_def constant_time_string_eq_def)

lemma check_claims_Inr [ok_simps]:
  "check_claims subject scope c = Inr u \<longleftrightarrow>
     cl_sub c = subject \<and> cl_token_type c \<noteq> Some (lit ''id-token'') \<and> has_scope c scope"
  by (auto simp: check_claims_def ok_simps)

lemma strip_prefix_Some: "strip_prefix p s = Some t \<longleftrightarrow> s = p @ t"
  by (auto simp: strip_prefix_def starts_with_iff)

text \<open>What a token proves to an issuer's checks.\<close>

definition token_valid ::
    "'key jwt_library \<Rightarrow> nat \<Rightarrow> 'key jwks option \<Rightarrow> 'key oidc_state \<Rightarrow> 'key authenticator \<Rightarrow> ustring \<Rightarrow> bool" where
  "token_valid jwt unix fetched st auth token \<longleftrightarrow>
     (case auth of
        Disabled \<Rightarrow> True
      | Bearer secret \<Rightarrow> utf8 token = utf8 secret
      | EmbeddedOauth cfg key \<Rightarrow>
          jl_decode_header jwt token = Some (EdDSA, Some (lit ''1'')) \<and>
          (\<exists>c. jl_decode jwt key EdDSA (eo_public_base_url cfg) (eo_public_base_url cfg) unix token =
               Some c \<and> cl_sub c = eo_username cfg \<and> cl_token_type c \<noteq> Some (lit ''id-token'') \<and>
             has_scope c (eo_required_scope cfg))
      | Oidc cfg \<Rightarrow>
          (\<exists>alg kid key c. jl_decode_header jwt token = Some (alg, Some kid) \<and>
             alg \<noteq> OtherAlgorithm \<and>
             (find_key (os_keys st) kid = Some key \<or>
              (\<exists>keys. fetched = Some keys \<and> find_key keys kid = Some key)) \<and>
             jl_decode jwt key alg (oi_issuer cfg) (oi_audience cfg) unix token = Some c \<and>
             cl_sub c = oi_allowed_subject cfg \<and> cl_token_type c \<noteq> Some (lit ''id-token'') \<and>
             has_scope c (oi_required_scope cfg)))"

lemma find_oidc_key_Some:
  "find_oidc_key now fetched kid st = (Inr (Some key), st') \<Longrightarrow>
     find_key (os_keys st) kid = Some key \<or>
     (\<exists>keys. fetched = Some keys \<and> find_key keys kid = Some key)"
  by (auto simp: find_oidc_key_def split: option.splits if_splits)

lemma verify_sound:
  assumes "verify jwt now unix fetched auth token st = (Inr (), st')"
  shows "token_valid jwt unix fetched st auth token"
proof (cases auth)
  case (Oidc cfg)
  with assms obtain alg kid where h: "jl_decode_header jwt token = Some (alg, Some kid)"
    and alg: "supported_algorithm auth alg"
    by (auto simp: verify_def split: option.splits if_splits prod.splits)
  obtain found st1 where f: "find_oidc_key now fetched kid st = (found, st1)" by fastforce
  from assms Oidc h alg f obtain key c where "found = Inr (Some key)"
    "jl_decode jwt key alg (oi_issuer cfg) (oi_audience cfg) unix token = Some c"
    "check_claims (oi_allowed_subject cfg) (oi_required_scope cfg) c = Inr ()"
    by (auto simp: verify_def ok_simps split: if_splits)
  then show ?thesis
    using Oidc h alg f find_oidc_key_Some by (fastforce simp: token_valid_def ok_simps)
qed (use assms in \<open>auto simp: token_valid_def verify_def constant_time_eq_iff ok_simps
      split: if_splits option.splits prod.splits\<close>)

lemma require_auth_Inr:
  assumes "fst (require_auth jwt now unix fetched auth hdr st) = Inr ()"
  shows "auth = Disabled \<or> (\<exists>token. hdr = Some (lit ''Bearer '' @ token) \<and>
    token_valid jwt unix fetched st auth token)"
proof (cases "auth = Disabled")
  case False
  with assms obtain token where t: "Option.bind hdr (strip_prefix (lit ''Bearer '')) = Some token"
    by (cases auth) (auto simp: require_auth_def split: option.splits)
  obtain checked st' where v: "verify jwt now unix fetched auth token st = (checked, st')"
    by fastforce
  have "checked = Inr ()"
    using assms False t v by (cases auth) (auto simp: require_auth_def ok_simps)
  with v verify_sound t show ?thesis
    by (metis (no_types, lifting) bind_eq_Some_conv strip_prefix_Some)
qed simp

lemma authenticator_new_Disabled:
  "authenticator_new load_key fetched now cfg = Inr (Disabled, st) \<Longrightarrow> cfg = AuthConfig_Disabled"
  by (cases cfg) (auto simp: ok_simps split: if_splits)

lemma auth_from_env_Disabled:
  "auth_from_env loopback env = Inr AuthConfig_Disabled \<Longrightarrow>
     loopback \<or> env ''ALLOW_INSECURE_NO_AUTH'' = Some (lit ''true'')"
  by (cases "env ''ALLOW_INSECURE_NO_AUTH''")
    (auto simp: auth_from_env_def Let_def ok_simps env_or_def split: if_splits)

lemma from_env_Inr:
  "from_env parse_addr is_loopback env = Inr c \<Longrightarrow>
     auth_from_env (is_loopback (cg_bind_addr c)) env = Inr (cg_auth c)"
  by (auto simp: from_env_def ok_simps Let_def)

lemma retain_live_keeps:
  "codes k = Some c \<Longrightarrow> now < ac_expires_at c \<Longrightarrow> retain_live now codes k = Some c"
  by (simp add: retain_live_def)

lemma other_tokens_keep:
  "codes k = Some c \<Longrightarrow> now < ac_expires_at c \<Longrightarrow> tr_code req \<noteq> k \<Longrightarrow>
     snd (token_post s256 sign cfg now unix req codes) k = Some c"
  by (auto simp: token_post_def Let_def retain_live_keeps split: option.splits)

lemma other_tokens_keep_all:
  assumes "codes k = Some c"
    and "\<And>t u q. (t, u, q) \<in> set others \<Longrightarrow> t < ac_expires_at c \<and> tr_code q \<noteq> k"
  shows "foldl (\<lambda>cs (t, u, q). snd (token_post s256 sign cfg t u q cs)) codes others k = Some c"
  using assms
proof (induction others arbitrary: codes)
  case (Cons o1 others)
  obtain t u q where o1: "o1 = (t, u, q)" by (rule prod_cases3)
  then have "snd (token_post s256 sign cfg t u q codes) k = Some c"
    using Cons.prems by (intro other_tokens_keep) auto
  then have "foldl (\<lambda>cs (t, u, q). snd (token_post s256 sign cfg t u q cs))
      (snd (token_post s256 sign cfg t u q codes)) others k = Some c"
    using Cons.prems(2) by (intro Cons.IH) auto
  with o1 show ?case by simp
qed simp

section \<open>Properties\<close>

text \<open>
  Property C23. A token is only ever issued for a login. Along every run of the authorization
  server, whatever requests are sent, each code is redeemed at most once, and each token
  request that was answered with a token redeems a login with the right user name, password
  and CSRF token, for the configured client and redirect, within five minutes, with the
  verifier whose digest that login declared.
\<close>

theorem tokens_follow_logins:
  assumes "oauth_reachable parse_hash verify_password s256 sign cfg w"
  shows "distinct (map (\<lambda>q. tr_code (fst q)) (ow_tokens w)) \<and>
    list_all (\<lambda>q. list_ex (\<lambda>g. redeems s256 (fst q) (snd q) g \<and>
      login_ok parse_hash verify_password cfg g) (ow_grants w)) (ow_tokens w)"
  using oauth_inv_reachable [OF assms]
  by (auto simp: oauth_inv_def list_all_iff list_ex_iff)

definition oauth_cfg :: embedded_oauth_config where
  "oauth_cfg =
     \<lparr>eo_public_base_url = lit ''u'', eo_username = lit ''ana'', eo_password_hash = lit ''pw'',
      eo_ed25519_private_key_path = [], eo_client_id = lit ''c'', eo_redirect_uri = lit ''r'',
      eo_required_scope = lit ''s''\<rparr>"

definition oauth_query :: authorize_query where
  "oauth_query =
     \<lparr>aq_client_id = lit ''c'', aq_redirect_uri = lit ''r'', aq_response_type = lit ''code'',
      aq_scope = lit ''s'', aq_state = None, aq_code_challenge = lit ''vv'',
      aq_code_challenge_method = lit ''S256''\<rparr>"

definition oauth_form :: login_form where
  "oauth_form =
     \<lparr>lg_username = Some (lit ''ana''), lg_password = Some (lit ''pw''),
      lg_csrf_token = lit ''x'', lg_action = lit ''authorize''\<rparr>"

definition oauth_request :: token_request where
  "oauth_request =
     \<lparr>tr_grant_type = lit ''authorization_code'', tr_code = lit ''k'', tr_client_id = lit ''c'',
      tr_redirect_uri = lit ''r'', tr_code_verifier = lit ''v''\<rparr>"

text \<open>Stand-ins for the libraries: a hash is the text itself, a digest the text twice.\<close>

definition sample_sign :: "jwt_claims \<Rightarrow> ustring option" where
  "sample_sign c = (if c = token_claims oauth_cfg 100 then Some (lit ''jwt'') else None)"

lemmas oauth_samples = oauth_cfg_def oauth_query_def oauth_form_def oauth_request_def

lemma sample_login:
  "authorize_post Some (=) oauth_cfg now (lit ''k'') (Some (lit ''x'')) oauth_query oauth_form codes =
     (Inr (lit ''r'' @ lit ''?code='' @ lit ''k'' @ lit ''&iss='' @ lit ''u''),
      codes(lit ''k'' \<mapsto> \<lparr>ac_code = lit ''k'', ac_client_id = lit ''c'', ac_redirect_uri = lit ''r'',
        ac_code_challenge = lit ''vv'', ac_code_challenge_method = lit ''S256'',
        ac_expires_at = now + CODE_TTL\<rparr>))"
  by (simp add: authorize_post_def credentials_ok_def state_suffix_def oauth_samples)

lemma sample_token:
  assumes "codes (lit ''k'') = Some \<lparr>ac_code = lit ''k'', ac_client_id = lit ''c'',
      ac_redirect_uri = lit ''r'', ac_code_challenge = lit ''vv'',
      ac_code_challenge_method = lit ''S256'', ac_expires_at = now + CODE_TTL\<rparr>"
  shows "fst (token_post (\<lambda>v. v @ v) sample_sign oauth_cfg now (Some 100) oauth_request codes) =
    Inr \<lparr>tk_access_token = lit ''jwt'', tk_token_type = lit ''Bearer'', tk_expires_in = EXPIRES_IN,
      tk_scope = lit ''s''\<rparr>"
proof -
  have "lit ''vv'' = lit ''v'' @ lit ''v''" by (simp add: lit_def)
  moreover have "0 < CODE_TTL" by (simp add: CODE_TTL_def)
  ultimately show ?thesis
    using assms
    by (simp add: token_post_def Let_def retain_live_def issue_token_def ok_or_def sample_sign_def
        oauth_samples)
qed

theorem tokens_follow_logins_witness:
  "\<exists>w. oauth_reachable Some (=) (\<lambda>v. v @ v) sample_sign oauth_cfg w \<and> length (ow_tokens w) = 1 \<and>
     list_all (\<lambda>q. list_ex (\<lambda>g. redeems (\<lambda>v. v @ v) (fst q) (snd q) g) (ow_grants w)) (ow_tokens w)"
proof -
  let ?step = "oauth_step Some (=) (\<lambda>v. v @ v) sample_sign oauth_cfg"
  let ?codes = "[lit ''k'' \<mapsto> \<lparr>ac_code = lit ''k'', ac_client_id = lit ''c'',
      ac_redirect_uri = lit ''r'', ac_code_challenge = lit ''vv'',
      ac_code_challenge_method = lit ''S256'', ac_expires_at = 0 + CODE_TTL\<rparr>]"
  define g where "g = \<lparr>gt_code = lit ''k'', gt_cookie = Some (lit ''x''), gt_query = oauth_query,
    gt_form = oauth_form, gt_time = 0\<rparr>"
  define w1 where "w1 = (oauth_init 0)\<lparr>ow_codes := ?codes, ow_grants := [g]\<rparr>"
  obtain answer codes where t: "token_post (\<lambda>v. v @ v) sample_sign oauth_cfg 0 (Some 100)
      oauth_request ?codes = (answer, codes)" by fastforce
  have "fst (token_post (\<lambda>v. v @ v) sample_sign oauth_cfg 0 (Some 100) oauth_request ?codes) =
      Inr \<lparr>tk_access_token = lit ''jwt'', tk_token_type = lit ''Bearer'', tk_expires_in = EXPIRES_IN,
        tk_scope = lit ''s''\<rparr>"
    by (rule sample_token) simp
  with t have answer: "\<exists>r. answer = Inr r" by simp
  define w2 where "w2 = w1\<lparr>ow_codes := codes, ow_tokens := [(oauth_request, 0)]\<rparr>"
  have "?step (oauth_init 0) w1"
    using oauth_step.authorize [of "lit ''k''" "oauth_init 0" Some "(=)" oauth_cfg
        "Some (lit ''x'')" oauth_query oauth_form _ _ "\<lambda>v. v @ v" sample_sign, OF _ sample_login]
    by (simp add: w1_def g_def oauth_init_def granted_def oauth_form_def)
  moreover have "?step w1 w2"
    using oauth_step.token [of "\<lambda>v. v @ v" sample_sign oauth_cfg w1 "Some 100" oauth_request answer
        codes Some "(=)"] t answer
    by (auto simp: w1_def w2_def oauth_init_def)
  ultimately have "oauth_reachable Some (=) (\<lambda>v. v @ v) sample_sign oauth_cfg w2"
    unfolding oauth_reachable_def by (meson rtranclp.rtrancl_refl rtranclp.rtrancl_into_rtrancl)
  from tokens_follow_logins [OF this] this show ?thesis
    by (intro exI [of _ w2]) (auto simp: w2_def list_ex_iff)
qed

text \<open>
  Property C38. A login is honoured. After a successful login the client gets its token with
  the right code and verifier at any time in the next five minutes, whatever token requests
  with other codes the server handles in between, provided that the token can be signed.
\<close>

theorem login_is_honoured:
  assumes "authorize_post parse_hash verify_password cfg now code cookie query form codes =
      (answer, codes')" and "granted answer form"
    and "\<And>t u q. (t, u, q) \<in> set others \<Longrightarrow> t < now + CODE_TTL \<and> tr_code q \<noteq> code"
    and "time < now + CODE_TTL" and "sign (token_claims cfg unix) = Some token"
    and "s256 verifier = aq_code_challenge query"
  shows "fst (token_post s256 sign cfg time (Some unix)
      \<lparr>tr_grant_type = lit ''authorization_code'', tr_code = code,
       tr_client_id = aq_client_id query, tr_redirect_uri = aq_redirect_uri query,
       tr_code_verifier = verifier\<rparr>
      (foldl (\<lambda>cs (t, u, q). snd (token_post s256 sign cfg t u q cs)) codes' others)) =
    Inr \<lparr>tk_access_token = token, tk_token_type = lit ''Bearer'', tk_expires_in = EXPIRES_IN,
      tk_scope = eo_required_scope cfg\<rparr>"
proof -
  define g where "g = \<lparr>gt_code = code, gt_cookie = cookie, gt_query = query, gt_form = form,
    gt_time = now\<rparr>"
  have "codes' = codes(code \<mapsto> code_of g)"
    using authorize_post_cases [OF assms(1)] assms(2) by (simp add: Let_def g_def)
  then have "codes' code = Some (code_of g)" by simp
  then have "foldl (\<lambda>cs (t, u, q). snd (token_post s256 sign cfg t u q cs)) codes' others code =
      Some (code_of g)"
    using assms(3) by (intro other_tokens_keep_all) (auto simp: code_of_def g_def)
  then show ?thesis
    using assms(4-6)
    by (simp add: token_post_def Let_def retain_live_def code_of_def g_def issue_token_def ok_or_def)
qed

theorem login_is_honoured_witness:
  "\<exists>answer codes'. authorize_post Some (=) oauth_cfg 0 (lit ''k'') (Some (lit ''x'')) oauth_query
       oauth_form Map.empty = (answer, codes') \<and>
     (\<exists>r. fst (token_post (\<lambda>v. v @ v) sample_sign oauth_cfg 5 (Some 100)
        \<lparr>tr_grant_type = lit ''authorization_code'', tr_code = lit ''k'',
         tr_client_id = aq_client_id oauth_query, tr_redirect_uri = aq_redirect_uri oauth_query,
         tr_code_verifier = lit ''v''\<rparr> codes') = Inr r \<and> tk_access_token r = lit ''jwt'')"
proof -
  have "granted (Inr (lit ''r'' @ lit ''?code='' @ lit ''k'' @ lit ''&iss='' @ lit ''u'')) oauth_form"
    by (simp add: granted_def oauth_form_def)
  from login_is_honoured [where others = "[]" and time = 5 and sign = sample_sign and unix = 100
      and token = "lit ''jwt''" and ?s256.0 = "\<lambda>v. v @ v" and verifier = "lit ''v''" and codes = Map.empty
      and now = 0, OF sample_login this] sample_login [of 0 Map.empty]
  show ?thesis
    by (auto simp: sample_sign_def CODE_TTL_def oauth_query_def lit_def)
qed

text \<open>
  The documented behaviour of the JWT library on one token: it reads back the header the
  server signs with and, with the matching key, issuer and audience and before the expiry,
  the claims it signed.
\<close>

definition decodes_signed :: "'key jwt_library \<Rightarrow> 'key \<Rightarrow> jwt_claims \<Rightarrow> ustring \<Rightarrow> bool" where
  "decodes_signed jwt key c token \<longleftrightarrow>
     jl_decode_header jwt token = Some (EdDSA, Some (lit ''1'')) \<and>
     (\<forall>time < jc_exp c. jl_decode jwt key EdDSA (jc_iss c) (jc_aud c) time token =
        Some \<lparr>cl_sub = jc_sub c, cl_scope = Some (SpaceSeparated (jc_scope c)), cl_scp = None,
          cl_token_type = None\<rparr>)"


definition sample_jwt :: "unit jwt_library" where
  "sample_jwt =
     \<lparr>jl_decode_header = (\<lambda>_. Some (EdDSA, Some (lit ''1''))),
      jl_decode = (\<lambda>_ _ _ _ time _. if time < 3700 then
        Some \<lparr>cl_sub = lit ''ana'', cl_scope = Some (SpaceSeparated (lit ''s'')), cl_scp = None,
          cl_token_type = None\<rparr> else None)\<rparr>"


text \<open>
  Property C26. The middleware is sound: a request is only passed on when authentication is
  disabled or its header is \<open>Bearer\<close> with a token that is valid for the configured issuer: the
  configured secret, or a token signed by a key of that issuer, with a supported algorithm,
  the configured subject and scope, and not an identity token.
\<close>

theorem passed_request_is_authentic:
  assumes "fst (require_auth jwt now unix fetched auth hdr st) = Inr ()"
  shows "auth = Disabled \<or> (\<exists>token. hdr = Some (lit ''Bearer '' @ token) \<and>
    token_valid jwt unix fetched st auth token)"
  by (rule require_auth_Inr [OF assms])

theorem passed_request_is_authentic_witness:
  "fst (require_auth sample_jwt 0 0 None (Bearer (lit ''s'')) (Some (lit ''Bearer s''))
      \<lparr>os_keys = [], os_last_refresh = 0\<rparr>) = Inr () \<and>
   (\<exists>token. Some (lit ''Bearer s'') = Some (lit ''Bearer '' @ token) \<and> utf8 token = utf8 (lit ''s''))"
proof -
  have "strip_prefix (lit ''Bearer '') (lit ''Bearer s'') = Some (lit ''s'')"
    by (simp add: strip_prefix_Some) (simp add: lit_def)
  then have p: "fst (require_auth sample_jwt 0 0 None (Bearer (lit ''s'')) (Some (lit ''Bearer s''))
      \<lparr>os_keys = [], os_last_refresh = 0\<rparr>) = Inr ()"
    by (simp add: require_auth_def verify_def constant_time_eq_iff map_errE_def)
  from passed_request_is_authentic [OF p] p show ?thesis by (auto simp: token_valid_def)
qed

text \<open>
  The service is not open by accident: when it is configured to listen on an
  address that is not loopback and the override variable is not \<open>true\<close>, a request without
  credentials is refused, with a challenge.
\<close>

theorem exposed_service_authenticates:
  assumes "from_env parse_addr is_loopback env = Inr c"
    and "authenticator_new load_key fetched now (cg_auth c) = Inr (auth, st)"
    and "\<not> is_loopback (cg_bind_addr c)"
    and "env ''ALLOW_INSECURE_NO_AUTH'' \<noteq> Some (lit ''true'')"
  shows "\<exists>text. require_auth jwt now' unix fetched' auth None st = (Inl (Some text), st)"
proof -
  have "auth \<noteq> Disabled"
    using assms from_env_Inr [OF assms(1)] auth_from_env_Disabled authenticator_new_Disabled
    by metis
  then show ?thesis by (cases auth) (simp_all add: require_auth_def)
qed

definition sample_env :: environment where
  "sample_env = [''AUTH_MODE'' \<mapsto> lit ''bearer'', ''BEARER_TOKEN'' \<mapsto> replicate 32 65]"

theorem exposed_service_authenticates_witness:
  "\<exists>c auth st text. from_env (\<lambda>_. Some ()) (\<lambda>_. False) sample_env = Inr c \<and>
     authenticator_new (\<lambda>_. Inr ()) None 0 (cg_auth c) = Inr (auth, st) \<and>
     require_auth sample_jwt 0 0 None auth None st = (Inl (Some text), st)"
proof -
  have "blen (replicate 32 65) = 32" by (simp add: blen_def cp_len_def sum_list_replicate)
  then have "auth_from_env False sample_env = Inr (AuthConfig_Bearer (replicate 32 65))"
    by (simp add: auth_from_env_def sample_env_def env_or_def required_def ok_or_def Let_def)
  then obtain c where c: "from_env (\<lambda>_. Some ()) (\<lambda>_. False) sample_env = Inr c"
    and auth: "cg_auth c = AuthConfig_Bearer (replicate 32 65)"
    by (simp add: from_env_def ok_or_def parse_or_def sample_env_def)
  have new: "authenticator_new (\<lambda>_. Inr ()) None 0 (cg_auth c) =
      Inr (Bearer (replicate 32 65), \<lparr>os_keys = [], os_last_refresh = 0\<rparr>)"
    by (simp add: auth)
  from exposed_service_authenticates [OF c new, of sample_jwt 0 0 None] c new show ?thesis
    by (auto simp: sample_env_def)
qed

end
