(* ===== verification/RecursiveQuery.thy ===== *)
theory RecursiveQuery
  imports Prelude
begin

text \<open>
  \<open>WITH RECURSIVE q AS (roots UNION step)\<close>, the recursive queries of \<open>src/taxonomy.rs\<close>: a row
  is taken from a queue, its successors that were not produced before are appended to the
  result and to the queue, until the queue is empty. The queries terminate on cyclic data
  too, and what they return is the reflexive transitive image of the roots.
\<close>

definition successors :: "('a \<times> 'a) list \<Rightarrow> 'a \<Rightarrow> 'a list" where
  "successors es x = map snd (filter (\<lambda>e. fst e = x) es)"

lemma set_successors: "set (successors es x) = {y. (x, y) \<in> set es}"
  by (force simp: successors_def)

definition fresh_rows :: "('a \<times> 'a) list \<Rightarrow> 'a list \<Rightarrow> 'a \<Rightarrow> 'a list" where
  "fresh_rows es seen x = remdups (filter (\<lambda>y. y \<notin> set seen) (successors es x))"

lemma set_fresh_rows: "set (fresh_rows es seen x) = {y. (x, y) \<in> set es} - set seen"
  by (auto simp: fresh_rows_def set_successors)

function query_loop :: "('a \<times> 'a) list \<Rightarrow> 'a list \<Rightarrow> 'a list \<Rightarrow> 'a list" where
  "query_loop es seen [] = seen"
| "query_loop es seen (x # queue) =
     query_loop es (seen @ fresh_rows es seen x) (queue @ fresh_rows es seen x)"
  by pat_completeness auto

text \<open>Each round takes a row out of the queue, and a row enters the queue only when it is new.\<close>

termination
proof (relation "measures [\<lambda>(es, seen, queue). card (set (map snd es) - set seen),
    \<lambda>(es, seen, queue). length queue]", goal_cases)
  case (2 es seen x queue)
  let ?rest = "\<lambda>s. set (map snd es) - set s"
  show ?case
  proof (cases "fresh_rows es seen x = []")
    case False
    then obtain y where y: "y \<in> set (fresh_rows es seen x)" by (cases "fresh_rows es seen x") auto
    have "?rest (seen @ fresh_rows es seen x) \<subset> ?rest seen"
      using y by (force simp: set_fresh_rows)
    then have "card (?rest (seen @ fresh_rows es seen x)) < card (?rest seen)"
      by (intro psubset_card_mono) auto
    then show ?thesis by simp
  qed simp
qed simp

definition recursive_query :: "('a \<times> 'a) list \<Rightarrow> 'a list \<Rightarrow> 'a list" where
  "recursive_query es roots = query_loop es (remdups roots) (remdups roots)"

text \<open>
  The invariant of the loop: the rows lie between the roots and what the edges reach from
  them, and the successors of every row outside the queue are rows.
\<close>

lemma query_loop_sound:
  assumes "set seen \<subseteq> (set es)\<^sup>* `` R" and "set queue \<subseteq> set seen"
  shows "set (query_loop es seen queue) \<subseteq> (set es)\<^sup>* `` R"
  using assms
proof (induction es seen queue rule: query_loop.induct)
  case (2 es seen x queue)
  have "set (fresh_rows es seen x) \<subseteq> (set es)\<^sup>* `` R"
  proof
    fix y
    assume "y \<in> set (fresh_rows es seen x)"
    then have "(x, y) \<in> set es" by (simp add: set_fresh_rows)
    moreover have "x \<in> (set es)\<^sup>* `` R" using 2(2,3) by auto
    ultimately show "y \<in> (set es)\<^sup>* `` R" by (auto intro: rtrancl_into_rtrancl)
  qed
  then show ?case using 2 by auto
qed simp

lemma query_loop_complete:
  assumes "set queue \<subseteq> set seen" and "set es `` (set seen - set queue) \<subseteq> set seen"
  shows "set seen \<subseteq> set (query_loop es seen queue) \<and>
    set es `` set (query_loop es seen queue) \<subseteq> set (query_loop es seen queue)"
  using assms
proof (induction es seen queue rule: query_loop.induct)
  case (2 es seen x queue)
  have "set es `` (set (seen @ fresh_rows es seen x) - set (queue @ fresh_rows es seen x))
      \<subseteq> set (seen @ fresh_rows es seen x)"
    using 2(2,3) by (auto simp: set_fresh_rows)
  moreover have "set (queue @ fresh_rows es seen x) \<subseteq> set (seen @ fresh_rows es seen x)"
    using 2(2) by auto
  ultimately show ?case using 2(1) by simp
qed simp

lemma set_recursive_query: "set (recursive_query es roots) = (set es)\<^sup>* `` set roots"
proof
  show "set (recursive_query es roots) \<subseteq> (set es)\<^sup>* `` set roots"
    unfolding recursive_query_def by (rule query_loop_sound) auto
  have closed: "set roots \<subseteq> set (recursive_query es roots)"
    "set es `` set (recursive_query es roots) \<subseteq> set (recursive_query es roots)"
    using query_loop_complete [of "remdups roots" "remdups roots" es]
    by (auto simp: recursive_query_def)
  show "(set es)\<^sup>* `` set roots \<subseteq> set (recursive_query es roots)"
  proof clarify
    fix x y
    assume "(x, y) \<in> (set es)\<^sup>*" and "x \<in> set roots"
    then show "y \<in> set (recursive_query es roots)"
      using closed by (induction rule: rtrancl_induct) auto
  qed
qed

lemma distinct_query_loop: "distinct seen \<Longrightarrow> distinct (query_loop es seen queue)"
proof (induction es seen queue rule: query_loop.induct)
  case (2 es seen x queue)
  have "set seen \<inter> set (fresh_rows es seen x) = {}" by (auto simp: set_fresh_rows)
  then show ?case using 2 by (simp add: fresh_rows_def)
qed simp

lemma distinct_recursive_query: "distinct (recursive_query es roots)"
  by (simp add: recursive_query_def distinct_query_loop)

text \<open>
  A query that counts the depth of its rows: the edges are those of \<open>r\<close> on rows of
  increasing depth, and a row \<open>(y, d)\<close> is reached from \<open>(x, 0)\<close> exactly along \<open>d\<close> edges.
\<close>

definition levelled :: "nat \<Rightarrow> ('a \<times> 'a) list \<Rightarrow> (('a \<times> nat) \<times> ('a \<times> nat)) list" where
  "levelled limit es = [((fst e, d), (snd e, Suc d)). e \<leftarrow> es, d \<leftarrow> [0..<limit]]"

lemma set_levelled:
  "set (levelled limit es) = {((x, d), (y, Suc d)) | x y d. (x, y) \<in> set es \<and> d < limit}"
  by (force simp: levelled_def)

lemma levelled_path:
  "((x, 0), (y, d)) \<in> (set (levelled limit es))\<^sup>* \<longleftrightarrow> d \<le> limit \<and> (x, y) \<in> set es ^^ d"
proof
  assume "((x, 0), (y, d)) \<in> (set (levelled limit es))\<^sup>*"
  then show "d \<le> limit \<and> (x, y) \<in> set es ^^ d"
    by (induction "(y, d)" arbitrary: y d rule: rtrancl_induct) (auto simp: set_levelled)
next
  assume "d \<le> limit \<and> (x, y) \<in> set es ^^ d"
  then show "((x, 0), (y, d)) \<in> (set (levelled limit es))\<^sup>*"
  proof (induction d arbitrary: y)
    case (Suc d)
    then obtain z where z: "(x, z) \<in> set es ^^ d" and e: "(z, y) \<in> set es" by auto
    have "((x, 0), (z, d)) \<in> (set (levelled limit es))\<^sup>*" using Suc z by simp
    moreover have "((z, d), (y, Suc d)) \<in> set (levelled limit es)"
      using e Suc.prems by (auto simp: set_levelled)
    ultimately show ?case by (rule rtrancl_into_rtrancl)
  qed simp
qed

text \<open>Adding an edge keeps a relation acyclic when its end does not reach its start.\<close>

lemma acyclic_snoc:
  "acyclic (set es) \<Longrightarrow> s \<notin> set (recursive_query es [t]) \<Longrightarrow> acyclic (set (es @ [(s, t)]))"
  by (simp add: set_recursive_query acyclic_insert)

lemma query_self: "x \<in> set (recursive_query es [x])"
  by (simp add: set_recursive_query)

end
