(* ===== verification/Taxonomy.thy ===== *)
theory Taxonomy
  imports RecursiveQuery Model "HOL-Library.List_Lexorder" "HOL-Library.Product_Lexorder"
begin

text \<open>
  The concept taxonomy: \<open>src/taxonomy.rs\<close> and the functions of \<open>src/db.rs\<close> that change and
  read it. A table is the list of its rows in insertion order, columns that only hold time
  stamps are left out, and \<open>INSERT OR IGNORE\<close> skips a row that violates the primary key or the
  check \<open>subject_id <> object_id\<close>, as \<open>sql/sqlite_schema.sql\<close> declares them. Rust and SQLite
  order texts by their bytes, which is the lexicographic order of code points.
\<close>

section \<open>Tables\<close>

record scheme_row =
  sc_id :: nat
  sc_key :: ustring
  sc_active :: bool

record concept =
  cn_id :: nat
  cn_scheme_id :: nat
  cn_key :: ustring
  cn_label :: ustring
  cn_definition :: "ustring option"
  cn_source_uri :: "ustring option"
  cn_sort_order :: int
  cn_active :: bool

record concept_edge =
  ce_subject_id :: nat
  ce_predicate :: ustring
  ce_object_id :: nat
  ce_provenance :: ustring
  ce_notes :: "ustring option"

record weakness =
  wk_id :: nat
  wk_key :: ustring
  wk_category :: ustring
  wk_description :: ustring
  wk_target_pattern :: "ustring option"
  wk_recommended_drill_types :: "drill_type list option"
  wk_target_type :: ustring
  wk_target_status :: ustring
  wk_classification_pending :: bool
  wk_active :: bool

record weakness_concept =
  wc_weakness_id :: nat
  wc_concept_id :: nat
  wc_role :: ustring

record weakness_relation =
  wr_subject_id :: nat
  wr_predicate :: ustring
  wr_object_id :: nat
  wr_notes :: "ustring option"

record scheduler_item =
  si_id :: nat
  si_weakness_id :: nat
  si_track :: ustring
  si_active :: bool

record collection =
  co_id :: nat
  co_key :: ustring
  co_label :: ustring

record collection_member =
  cm_collection_id :: nat
  cm_weakness_id :: nat

record learning_db =
  db_schemes :: "scheme_row list"
  db_concepts :: "concept list"
  db_edges :: "concept_edge list"
  db_weaknesses :: "weakness list"
  db_links :: "weakness_concept list"
  db_relations :: "weakness_relation list"
  db_scheduler :: "scheduler_item list"
  db_collections :: "collection list"
  db_members :: "collection_member list"

text \<open>The row id of an insertion into a table with an \<open>INTEGER PRIMARY KEY\<close>.\<close>

definition next_rowid :: "nat list \<Rightarrow> nat" where
  "next_rowid ids = Suc (foldr max ids 0)"

lemma le_foldr_max: "x \<in> set ids \<Longrightarrow> x \<le> foldr max ids (0 :: nat)"
  by (induction ids) auto

lemma next_rowid_new: "next_rowid ids \<notin> set ids"
  using le_foldr_max [of "next_rowid ids" ids] by (auto simp: next_rowid_def)

definition key_row :: "('a \<Rightarrow> ustring) \<Rightarrow> ustring \<Rightarrow> 'a list \<Rightarrow> string + 'a" where
  "key_row key_of k rows = ok_or (find (\<lambda>r. key_of r = k) rows) ''Query returned no rows''"

lemma key_row_Inr [ok_simps]: "key_row key_of k rows = Inr r \<longleftrightarrow> find (\<lambda>r. key_of r = k) rows = Some r"
  by (simp add: key_row_def ok_simps)

section \<open>Concept keys and predicates\<close>

definition MAX_CONCEPT_EDGES_PER_REQUEST :: nat where "MAX_CONCEPT_EDGES_PER_REQUEST = 20"

definition CONCEPT_KEY_MAX_BYTES :: nat where "CONCEPT_KEY_MAX_BYTES = 160"

text \<open>The state of the loop over the bytes is \<open>segment_is_empty\<close>.\<close>

definition key_separator :: "nat \<Rightarrow> bool" where
  "key_separator c \<longleftrightarrow> c = 46 \<or> c = 95 \<or> c = 45"

definition key_byte :: "bool \<Rightarrow> nat \<Rightarrow> string + bool" where
  "key_byte segment_is_empty c =
     (if is_ascii_lower c \<or> is_ascii_digit c then Inr False
      else if key_separator c \<and> \<not> segment_is_empty then Inr True
      else Inl ''concept key must match lower-case ASCII segments separated by . _ or -'')"

definition validate_concept_key :: "ustring \<Rightarrow> string + unit" where
  "validate_concept_key k =
     seqE
      [bail_if (k = [] \<or> blen k > CONCEPT_KEY_MAX_BYTES) ''concept key must be 1-160 bytes'',
       bindE (foldE key_byte True k) (\<lambda>segment_is_empty.
         bail_if segment_is_empty
           ''concept key must match lower-case ASCII segments separated by . _ or -'')]"

definition canonical_pair :: "ustring \<Rightarrow> ustring \<Rightarrow> ustring \<times> ustring" where
  "canonical_pair left right = (if left \<le> right then (left, right) else (right, left))"

definition validate_edge_predicate :: "ustring \<Rightarrow> string + unit" where
  "validate_edge_predicate p =
     bail_if (p \<notin> {lit ''broader'', lit ''requires'', lit ''contrasts_with'', lit ''related''})
       ''unsupported concept edge predicate''"

definition validate_target_relation_predicate :: "ustring \<Rightarrow> string + unit" where
  "validate_target_relation_predicate p =
     bail_if (p \<notin> {lit ''confusable_with'', lit ''variant_of'', lit ''supersedes'',
         lit ''practice_together''}) ''unsupported target relation predicate''"

definition active_flag_for_status :: "ustring \<Rightarrow> string + bool" where
  "active_flag_for_status status =
     (if status \<in> {lit ''candidate'', lit ''active''} then Inr True
      else if status \<in> {lit ''suspended'', lit ''retired'', lit ''merged''} then Inr False
      else Inl ''unsupported target status'')"

section \<open>Queries\<close>

definition primary_links :: "learning_db \<Rightarrow> nat \<Rightarrow> weakness_concept list" where
  "primary_links db w =
     filter (\<lambda>l. wc_weakness_id l = w \<and> wc_role l = lit ''primary'') (db_links db)"

definition open_target :: "weakness \<Rightarrow> bool" where
  "open_target w \<longleftrightarrow> wk_target_status w \<in> {lit ''candidate'', lit ''active''}"

definition validate_primary_links :: "learning_db \<Rightarrow> string + unit" where
  "validate_primary_links db =
     bail_if (length (filter (\<lambda>w. open_target w \<and> length (primary_links db (wk_id w)) \<noteq> 1)
         (db_weaknesses db)) \<noteq> 0)
       ''every candidate or active weakness must have exactly one primary concept''"

definition edge_pairs :: "ustring \<Rightarrow> concept_edge list \<Rightarrow> (nat \<times> nat) list" where
  "edge_pairs p es = map (\<lambda>e. (ce_subject_id e, ce_object_id e)) (filter (\<lambda>e. ce_predicate e = p) es)"

definition validate_edge_does_not_cycle ::
    "learning_db \<Rightarrow> nat \<Rightarrow> ustring \<Rightarrow> nat \<Rightarrow> string + unit" where
  "validate_edge_does_not_cycle db subject_id p object_id =
     bindE (validate_edge_predicate p) (\<lambda>_.
       if p \<notin> {lit ''broader'', lit ''requires''} then Inr ()
       else bail_if (subject_id \<in> set (recursive_query (edge_pairs p (db_edges db)) [object_id]))
         ''concept edge would create a cycle'')"

definition concept_id :: "learning_db \<Rightarrow> ustring \<Rightarrow> string + nat" where
  "concept_id db k = mapE cn_id (key_row cn_key k (db_concepts db))"

definition descendant_ids :: "learning_db \<Rightarrow> ustring list \<Rightarrow> nat \<Rightarrow> string + nat list" where
  "descendant_ids db roots max_depth =
     (if roots = [] then Inr []
      else if \<not> (1 \<le> max_depth \<and> max_depth \<le> 6) then Inl ''taxonomy depth must be between 1 and 6''
      else Inr (sort (remdups (map fst (recursive_query
        (levelled max_depth (map prod.swap (edge_pairs (lit ''broader'') (db_edges db))))
        (map (\<lambda>c. (cn_id c, 0)) (filter (\<lambda>c. cn_key c \<in> set roots) (db_concepts db))))))))"

definition ensure_concept_is_not_active_primary :: "learning_db \<Rightarrow> nat \<Rightarrow> string + unit" where
  "ensure_concept_is_not_active_primary db cid =
     bail_if (list_ex (\<lambda>l. wc_concept_id l = cid \<and> wc_role l = lit ''primary'' \<and>
         list_ex (\<lambda>w. wk_id w = wc_weakness_id l \<and> open_target w) (db_weaknesses db)) (db_links db))
       ''concept is the primary concept of a candidate or active target''"

section \<open>Changing the taxonomy\<close>

record concept_edge_input =
  ei_other_concept_key :: ustring
  ei_predicate :: ustring
  ei_provenance :: "ustring option"
  ei_notes :: "ustring option"

record upsert_concept_request =
  uc_key :: ustring
  uc_scheme_key :: ustring
  uc_label :: ustring
  uc_definition :: "ustring option"
  uc_source_uri :: "ustring option"
  uc_broader_concept_keys :: "ustring list option"
  uc_edges :: "concept_edge_input list"
  uc_active :: "bool option"

definition ensure_scheme :: "learning_db \<Rightarrow> ustring \<Rightarrow> string + unit" where
  "ensure_scheme db k =
     bail_if (\<not> list_ex (\<lambda>s. sc_key s = k \<and> sc_active s) (db_schemes db))
       ''unknown or inactive concept scheme''"

definition ensure_concept :: "learning_db \<Rightarrow> ustring \<Rightarrow> string + unit" where
  "ensure_concept db k =
     seqE
      [validate_concept_key k,
       bail_if (\<not> list_ex (\<lambda>c. cn_key c = k) (db_concepts db)) ''unknown concept key'']"

definition insert_edge :: "concept_edge \<Rightarrow> concept_edge list \<Rightarrow> concept_edge list" where
  "insert_edge e es =
     (if ce_subject_id e = ce_object_id e \<or>
         list_ex (\<lambda>f. ce_subject_id f = ce_subject_id e \<and> ce_predicate f = ce_predicate e \<and>
           ce_object_id f = ce_object_id e) es
      then es else es @ [e])"

definition insert_concept_edge_tx ::
    "ustring \<Rightarrow> ustring \<Rightarrow> ustring \<Rightarrow> ustring \<Rightarrow> ustring option \<Rightarrow> learning_db \<Rightarrow>
     string + learning_db" where
  "insert_concept_edge_tx a p b provenance notes db =
     bindE (validate_edge_predicate p) (\<lambda>_.
     bindE (bail_if (provenance \<notin> {lit ''curated'', lit ''external'', lit ''inferred''})
       ''invalid concept edge provenance'') (\<lambda>_.
     let (a, b) = (if p \<in> {lit ''contrasts_with'', lit ''related''} then canonical_pair a b
                   else (a, b)) in
     bindE (concept_id db a) (\<lambda>aid.
     bindE (concept_id db b) (\<lambda>bid.
     bindE (if p \<in> {lit ''broader'', lit ''requires''}
            then validate_edge_does_not_cycle db aid p bid else Inr ()) (\<lambda>_.
     Inr (db\<lparr>db_edges := insert_edge
       \<lparr>ce_subject_id = aid, ce_predicate = p, ce_object_id = bid, ce_provenance = provenance,
        ce_notes = notes\<rparr> (db_edges db)\<rparr>))))))"

definition insert_parent :: "ustring \<Rightarrow> learning_db \<Rightarrow> ustring \<Rightarrow> string + learning_db" where
  "insert_parent k db parent =
     bindE (ensure_concept db parent) (\<lambda>_.
     insert_concept_edge_tx k (lit ''broader'') parent (lit ''curated'') None db)"

definition insert_edge_input :: "ustring \<Rightarrow> learning_db \<Rightarrow> concept_edge_input \<Rightarrow> string + learning_db" where
  "insert_edge_input k db e =
     bindE (ensure_concept db (ei_other_concept_key e)) (\<lambda>_.
     insert_concept_edge_tx k (ei_predicate e) (ei_other_concept_key e)
       (unwrap_or (ei_provenance e) (lit ''curated'')) (ei_notes e) db)"

text \<open>The row of the concept: updated in place, or inserted.\<close>

definition write_concept ::
    "upsert_concept_request \<Rightarrow> nat \<Rightarrow> learning_db \<Rightarrow> string + nat \<times> learning_db" where
  "write_concept x scheme db =
     (case find (\<lambda>c. cn_key c = uc_key x) (db_concepts db) of
        Some c \<Rightarrow>
          bindE (if uc_active x = Some False
                 then ensure_concept_is_not_active_primary db (cn_id c) else Inr ()) (\<lambda>_.
          Inr (cn_id c, db\<lparr>db_concepts := map (\<lambda>r. if cn_id r = cn_id c
            then r\<lparr>cn_scheme_id := scheme, cn_label := uc_label x, cn_definition := uc_definition x,
                   cn_source_uri := uc_source_uri x, cn_active := unwrap_or (uc_active x) True\<rparr>
            else r) (db_concepts db)\<rparr>))
      | None \<Rightarrow>
          (let cid = next_rowid (map cn_id (db_concepts db)) in
           Inr (cid, db\<lparr>db_concepts := db_concepts db @
             [\<lparr>cn_id = cid, cn_scheme_id = scheme, cn_key = uc_key x, cn_label = uc_label x,
               cn_definition = uc_definition x, cn_source_uri = uc_source_uri x,
               cn_sort_order = 0, cn_active = unwrap_or (uc_active x) True\<rparr>]\<rparr>)))"

definition upsert_concept_tx ::
    "upsert_concept_request \<Rightarrow> learning_db \<Rightarrow> string + nat \<times> learning_db" where
  "upsert_concept_tx x db =
     bindE (validate_concept_key (uc_key x)) (\<lambda>_.
     bindE (ensure_scheme db (uc_scheme_key x)) (\<lambda>_.
     bindE (bail_if (blank (uc_label x) \<or> blen (uc_label x) > 500)
       ''concept label must be 1-500 bytes'') (\<lambda>_.
     bindE (bail_if (length (uc_edges x) +
         (case uc_broader_concept_keys x of None \<Rightarrow> 0 | Some ks \<Rightarrow> length ks)
           > MAX_CONCEPT_EDGES_PER_REQUEST)
       ''at most 20 concept edges may be supplied'') (\<lambda>_.
     bindE (mapE sc_id (key_row sc_key (uc_scheme_key x) (db_schemes db))) (\<lambda>scheme.
     bindE (write_concept x scheme db) (\<lambda>(cid, db1).
     bindE (foldE (insert_parent (uc_key x)) db1 (unwrap_or (uc_broader_concept_keys x) [])) (\<lambda>db2.
     bindE (foldE (insert_edge_input (uc_key x)) db2 (uc_edges x)) (\<lambda>db3.
     Inr (cid, db3)))))))))"

record concept_view =
  cv_key :: ustring
  cv_label :: ustring
  cv_scheme_key :: ustring
  cv_active :: bool
  cv_broader_concept_keys :: "ustring list"
  cv_definition :: "ustring option"
  cv_source_uri :: "ustring option"

text \<open>\<open>get_one_concept\<close> with \<open>full\<close>, as \<open>upsert_concept_json\<close> calls it.\<close>

definition get_one_concept :: "learning_db \<Rightarrow> nat \<Rightarrow> string + concept_view" where
  "get_one_concept db cid =
     bindE (ok_or (find (\<lambda>c. cn_id c = cid) (db_concepts db)) ''Query returned no rows'') (\<lambda>c.
     bindE (ok_or (find (\<lambda>s. sc_id s = cn_scheme_id c) (db_schemes db)) ''Query returned no rows'')
       (\<lambda>s.
     Inr \<lparr>cv_key = cn_key c, cv_label = cn_label c, cv_scheme_key = sc_key s,
       cv_active = cn_active c,
       cv_broader_concept_keys = sort (concat (map (\<lambda>e.
         if ce_subject_id e = cid \<and> ce_predicate e = lit ''broader''
         then map cn_key (filter (\<lambda>p. cn_id p = ce_object_id e) (db_concepts db)) else [])
         (db_edges db))),
       cv_definition = cn_definition c, cv_source_uri = cn_source_uri c\<rparr>))"

text \<open>The transaction: an error leaves the database as it was.\<close>

definition upsert_concept_json ::
    "upsert_concept_request \<Rightarrow> learning_db \<Rightarrow> (string + concept_view) \<times> learning_db" where
  "upsert_concept_json x db =
     (case bindE (upsert_concept_tx x db) (\<lambda>(cid, db').
        bindE (get_one_concept db' cid) (\<lambda>out. Inr (out, db'))) of
        Inl e \<Rightarrow> (Inl e, db)
      | Inr (out, db') \<Rightarrow> (Inr out, db'))"

section \<open>Reading the taxonomy\<close>

record taxonomy_request =
  tq_scheme_keys :: "ustring list option"
  tq_root_concept_keys :: "ustring list option"
  tq_include_descendants :: "bool option"
  tq_depth :: "nat option"
  tq_include_targets :: "bool option"
  tq_include_collections :: "bool option"
  tq_limit :: "nat option"
  tq_compact :: "bool option"

datatype edge_direction = Outgoing | Incoming

record taxonomy_edge =
  te_predicate :: ustring
  te_other_concept_key :: ustring
  te_direction :: edge_direction
  te_provenance :: ustring
  te_notes :: "ustring option"

record taxonomy_target =
  tt_key :: ustring
  tt_target_type :: ustring
  tt_target_status :: ustring
  tt_role :: ustring

record taxonomy_concept =
  tc_key :: ustring
  tc_label :: ustring
  tc_scheme_key :: ustring
  tc_active :: bool
  tc_definition :: "ustring option option"
  tc_source_uri :: "ustring option option"
  tc_edges :: "taxonomy_edge list"
  tc_targets :: "taxonomy_target list option"
  tc_collections :: "(ustring \<times> ustring) list option"

record taxonomy_view =
  tv_schemes :: "ustring list"
  tv_roots :: "ustring list"
  tv_depth :: nat
  tv_include_descendants :: bool
  tv_concepts :: "taxonomy_concept list"

text \<open>The concepts with a given id: one of them, the id being the primary key.\<close>

definition with_id :: "learning_db \<Rightarrow> nat \<Rightarrow> concept list" where
  "with_id db i = filter (\<lambda>c. cn_id c = i) (db_concepts db)"

definition concept_edges_of :: "learning_db \<Rightarrow> bool \<Rightarrow> nat \<Rightarrow> taxonomy_edge list" where
  "concept_edges_of db full cid = sort_key (\<lambda>e. (te_predicate e, te_other_concept_key e))
     [\<lparr>te_predicate = ce_predicate e,
       te_other_concept_key = (if ce_subject_id e = cid then cn_key b else cn_key a),
       te_direction = (if ce_subject_id e = cid then Outgoing else Incoming),
       te_provenance = ce_provenance e, te_notes = (if full then ce_notes e else None)\<rparr>.
      e \<leftarrow> filter (\<lambda>e. ce_subject_id e = cid \<or> ce_object_id e = cid) (db_edges db),
      a \<leftarrow> with_id db (ce_subject_id e), b \<leftarrow> with_id db (ce_object_id e)]"

definition concept_targets :: "learning_db \<Rightarrow> nat \<Rightarrow> taxonomy_target list" where
  "concept_targets db cid = take 100 (sort_key tt_key
     [\<lparr>tt_key = wk_key w, tt_target_type = wk_target_type w,
       tt_target_status = wk_target_status w, tt_role = wc_role l\<rparr>.
      l \<leftarrow> filter (\<lambda>l. wc_concept_id l = cid) (db_links db),
      w \<leftarrow> filter (\<lambda>w. wk_id w = wc_weakness_id l) (db_weaknesses db)])"

text \<open>\<open>GROUP BY co.id\<close>: every collection once.\<close>

definition concept_collections :: "learning_db \<Rightarrow> nat \<Rightarrow> (ustring \<times> ustring) list" where
  "concept_collections db cid = take 100 (sort_key fst
     (map (\<lambda>co. (co_key co, co_label co))
       (filter (\<lambda>co. list_ex (\<lambda>m. cm_collection_id m = co_id co \<and>
          list_ex (\<lambda>l. wc_weakness_id l = cm_weakness_id m \<and> wc_concept_id l = cid) (db_links db))
          (db_members db)) (db_collections db))))"

definition taxonomy_entry ::
    "learning_db \<Rightarrow> taxonomy_request \<Rightarrow> concept \<times> scheme_row \<Rightarrow> taxonomy_concept" where
  "taxonomy_entry db req row =
     (let (c, s) = row; full = (\<not> unwrap_or (tq_compact req) False) in
      \<lparr>tc_key = cn_key c, tc_label = cn_label c, tc_scheme_key = sc_key s, tc_active = cn_active c,
       tc_definition = (if full then Some (cn_definition c) else None),
       tc_source_uri = (if full then Some (cn_source_uri c) else None),
       tc_edges = concept_edges_of db full (cn_id c),
       tc_targets = (if unwrap_or (tq_include_targets req) False
         then Some (concept_targets db (cn_id c)) else None),
       tc_collections = (if unwrap_or (tq_include_collections req) False
         then Some (concept_collections db (cn_id c)) else None)\<rparr>)"

definition root_ids :: "learning_db \<Rightarrow> taxonomy_request \<Rightarrow> nat \<Rightarrow> string + nat list" where
  "root_ids db req depth =
     (let roots = unwrap_or (tq_root_concept_keys req) [] in
      if unwrap_or (tq_include_descendants req) True \<and> roots \<noteq> []
      then descendant_ids db roots depth
      else if roots \<noteq> [] then collectE (concept_id db) roots
      else Inr [])"

text \<open>The rows of the query: both optional filters apply only when their list is not empty.\<close>

definition taxonomy_rows :: "learning_db \<Rightarrow> taxonomy_request \<Rightarrow> nat list \<Rightarrow> (concept \<times> scheme_row) list"
  where
  "taxonomy_rows db req ids =
     (let schemes = unwrap_or (tq_scheme_keys req) [] in
      take (min (unwrap_or (tq_limit req) 200) 500)
       (sort_key (\<lambda>(c, s). (sc_key s, cn_sort_order c, cn_key c))
         [(c, s). c \<leftarrow> filter cn_active (db_concepts db),
            s \<leftarrow> filter (\<lambda>s. sc_id s = cn_scheme_id c) (db_schemes db),
            (schemes = [] \<or> sc_key s \<in> set schemes) \<and> (ids = [] \<or> cn_id c \<in> set ids)]))"

definition get_taxonomy :: "learning_db \<Rightarrow> taxonomy_request \<Rightarrow> string + taxonomy_view" where
  "get_taxonomy db req =
     (let depth = unwrap_or (tq_depth req) 3 in
      bindE (bail_if (\<not> (1 \<le> depth \<and> depth \<le> 6)) ''depth must be between 1 and 6'') (\<lambda>_.
      bindE (root_ids db req depth) (\<lambda>ids.
      Inr \<lparr>tv_schemes = unwrap_or (tq_scheme_keys req) [],
        tv_roots = unwrap_or (tq_root_concept_keys req) [], tv_depth = depth,
        tv_include_descendants = unwrap_or (tq_include_descendants req) True,
        tv_concepts = map (taxonomy_entry db req) (taxonomy_rows db req ids)\<rparr>)))"

end
