(* ===== verification/TaxonomyInvariant.thy ===== *)
theory TaxonomyInvariant
  imports Taxonomy
begin

text \<open>
  What holds of the taxonomy at all times: concepts have distinct ids and well-formed distinct
  keys, edges join two known concepts and are stored once, \<open>broader\<close> and \<open>requires\<close> are
  acyclic, the symmetric predicates are stored from the smaller key to the larger, and the
  primary concept of an open target is active.
\<close>

section \<open>Concept keys\<close>

definition key_char :: "nat \<Rightarrow> bool" where
  "key_char c \<longleftrightarrow> is_ascii_lower c \<or> is_ascii_digit c"

fun segments :: "ustring \<Rightarrow> ustring list" where
  "segments [] = [[]]"
| "segments (c # cs) =
     (if key_separator c then [] # segments cs
      else (c # hd (segments cs)) # tl (segments cs))"

definition segment_wf :: "ustring \<Rightarrow> bool" where
  "segment_wf s \<longleftrightarrow> s \<noteq> [] \<and> list_all key_char s"

definition concept_key_wf :: "ustring \<Rightarrow> bool" where
  "concept_key_wf k \<longleftrightarrow> blen k \<le> CONCEPT_KEY_MAX_BYTES \<and> list_all segment_wf (segments k)"

lemma segments_nonempty [simp]: "segments cs \<noteq> []"
  by (cases cs) auto

lemma key_char_not_separator: "key_char c \<Longrightarrow> \<not> key_separator c"
  by (auto simp: key_char_def key_separator_def is_ascii_lower_def is_ascii_digit_def)

lemma key_byte_simps:
  "key_char c \<Longrightarrow> key_byte e c = Inr False"
  "\<not> key_char c \<Longrightarrow> key_byte True c =
     Inl ''concept key must match lower-case ASCII segments separated by . _ or -''"
  "\<not> key_char c \<Longrightarrow> key_separator c \<Longrightarrow> key_byte False c = Inr True"
  "\<not> key_char c \<Longrightarrow> \<not> key_separator c \<Longrightarrow> key_byte e c =
     Inl ''concept key must match lower-case ASCII segments separated by . _ or -''"
  by (auto simp: key_byte_def key_char_def)

lemma key_bytes_Inr:
  "foldE key_byte e cs = Inr False \<longleftrightarrow>
     (e \<longrightarrow> hd (segments cs) \<noteq> []) \<and> list_all key_char (hd (segments cs)) \<and>
     list_all segment_wf (tl (segments cs))"
proof (induction cs arbitrary: e)
  case (Cons c cs)
  consider "key_char c" | "\<not> key_char c" "key_separator c" | "\<not> key_char c" "\<not> key_separator c"
    by blast
  then show ?case
  proof cases
    case 1
    then show ?thesis using key_char_not_separator [of c] by (simp add: key_byte_simps Cons.IH)
  next
    case 2
    then show ?thesis
      by (cases e; cases "segments cs") (auto simp: key_byte_simps Cons.IH segment_wf_def)
  qed (simp add: key_byte_simps)
qed auto

lemma validate_concept_key_iff [ok_simps]:
  "validate_concept_key k = Inr () \<longleftrightarrow> concept_key_wf k"
proof -
  have "list_all segment_wf (segments k) \<longleftrightarrow> foldE key_byte True k = Inr False"
    unfolding key_bytes_Inr by (cases "segments k") (auto simp: segment_wf_def)
  moreover have "list_all segment_wf (segments k) \<Longrightarrow> k \<noteq> []"
    by (auto simp: segment_wf_def)
  ultimately show ?thesis
    by (auto simp: validate_concept_key_def concept_key_wf_def ok_simps)
qed

section \<open>The invariant\<close>

definition concepts_wf :: "concept list \<Rightarrow> bool" where
  "concepts_wf cs \<longleftrightarrow> distinct (map cn_id cs) \<and> distinct (map cn_key cs) \<and>
     list_all (\<lambda>c. concept_key_wf (cn_key c)) cs"

definition concept_names :: "concept list \<Rightarrow> (nat \<times> ustring) set" where
  "concept_names cs = (\<lambda>c. (cn_id c, cn_key c)) ` set cs"

definition symmetric_predicate :: "ustring \<Rightarrow> bool" where
  "symmetric_predicate p \<longleftrightarrow> p = lit ''contrasts_with'' \<or> p = lit ''related''"

definition edge_wf :: "(nat \<times> ustring) set \<Rightarrow> concept_edge \<Rightarrow> bool" where
  "edge_wf names e \<longleftrightarrow> ce_subject_id e \<noteq> ce_object_id e \<and>
     ce_predicate e \<in> {lit ''broader'', lit ''requires'', lit ''contrasts_with'', lit ''related''} \<and>
     (\<exists>a b. (ce_subject_id e, a) \<in> names \<and> (ce_object_id e, b) \<in> names \<and>
       (symmetric_predicate (ce_predicate e) \<longrightarrow> a \<le> b))"

definition edge_key :: "concept_edge \<Rightarrow> nat \<times> ustring \<times> nat" where
  "edge_key e = (ce_subject_id e, ce_predicate e, ce_object_id e)"

definition edges_wf :: "(nat \<times> ustring) set \<Rightarrow> concept_edge list \<Rightarrow> bool" where
  "edges_wf names es \<longleftrightarrow> (\<forall>e\<in>set es. edge_wf names e) \<and> distinct (map edge_key es) \<and>
     acyclic (set (edge_pairs (lit ''broader'') es)) \<and>
     acyclic (set (edge_pairs (lit ''requires'') es))"

definition primaries_active :: "learning_db \<Rightarrow> bool" where
  "primaries_active db \<longleftrightarrow> (\<forall>l\<in>set (db_links db). \<forall>w\<in>set (db_weaknesses db).
     wc_role l = lit ''primary'' \<and> wc_weakness_id l = wk_id w \<and> open_target w \<longrightarrow>
     (\<forall>c\<in>set (db_concepts db). cn_id c = wc_concept_id l \<longrightarrow> cn_active c))"

definition taxonomy_wf :: "learning_db \<Rightarrow> bool" where
  "taxonomy_wf db \<longleftrightarrow> concepts_wf (db_concepts db) \<and>
     edges_wf (concept_names (db_concepts db)) (db_edges db) \<and> primaries_active db \<and>
     (\<forall>l\<in>set (db_links db). wc_concept_id l \<in> cn_id ` set (db_concepts db))"

section \<open>Edges\<close>

lemma edge_pairs_append: "edge_pairs p (es @ fs) = edge_pairs p es @ edge_pairs p fs"
  by (simp add: edge_pairs_def)

lemma edges_wf_mono: "edges_wf names es \<Longrightarrow> names \<subseteq> names' \<Longrightarrow> edges_wf names' es"
  unfolding edges_wf_def edge_wf_def by blast

lemma insert_edge_cases:
  obtains "insert_edge e es = es"
  | "insert_edge e es = es @ [e]" "ce_subject_id e \<noteq> ce_object_id e" "edge_key e \<notin> edge_key ` set es"
proof (cases "insert_edge e es = es")
  case False
  then have "insert_edge e es = es @ [e]" "ce_subject_id e \<noteq> ce_object_id e"
    "edge_key e \<notin> edge_key ` set es"
    by (auto simp: insert_edge_def list_ex_iff edge_key_def split: if_splits)
  then show ?thesis by (rule that(2))
qed (rule that(1))

text \<open>The check before the insertion is exactly what keeps a directed predicate acyclic.\<close>

lemma edges_wf_insert:
  assumes wf: "edges_wf names es"
    and e: "ce_subject_id e \<noteq> ce_object_id e \<Longrightarrow> edge_wf names e"
    and free: "ce_predicate e \<in> {lit ''broader'', lit ''requires''} \<Longrightarrow>
      ce_subject_id e \<notin> set (recursive_query (edge_pairs (ce_predicate e) es) [ce_object_id e])"
  shows "edges_wf names (insert_edge e es)"
proof (cases rule: insert_edge_cases [of e es])
  case 1
  with wf show ?thesis by simp
next
  case 2
  have pairs: "edge_pairs p (es @ [e]) =
      edge_pairs p es @ (if ce_predicate e = p then [(ce_subject_id e, ce_object_id e)] else [])" for p
    by (simp add: edge_pairs_def)
  have "acyclic (set (edge_pairs p (es @ [e])))"
    if "p \<in> {lit ''broader'', lit ''requires''}" "acyclic (set (edge_pairs p es))" for p
  proof (cases "ce_predicate e = p")
    case True
    then show ?thesis
      using acyclic_snoc [OF that(2) free [unfolded True]] that(1) pairs True by simp
  qed (use that pairs in simp)
  then show ?thesis using wf e 2 by (auto simp: edges_wf_def)
qed

lemma edge_refusal_iff:
  assumes "p \<in> {lit ''broader'', lit ''requires''}" and "acyclic (set (edge_pairs p (db_edges db)))"
  shows "validate_edge_does_not_cycle db s p t = Inr () \<longleftrightarrow>
    acyclic (insert (s, t) (set (edge_pairs p (db_edges db))))"
  using assms
  by (auto simp: validate_edge_does_not_cycle_def validate_edge_predicate_def ok_simps
      set_recursive_query acyclic_insert)

lemma concept_id_Inr:
  "concept_id db k = Inr i \<Longrightarrow> (i, k) \<in> concept_names (db_concepts db)"
  by (force simp: concept_id_def concept_names_def ok_simps find_Some_iff2 dest: find_SomeD)

lemma known_names:
  "(i, k) \<in> concept_names cs \<Longrightarrow> i \<in> cn_id ` set cs"
  by (auto simp: concept_names_def)

lemma canonical_pair_le: "fst (canonical_pair a b) \<le> snd (canonical_pair a b)"
  by (auto simp: canonical_pair_def)

text \<open>An inserted edge joins two known concepts; only the table of edges changes.\<close>

lemma insert_concept_edge_tx_Inr:
  assumes "insert_concept_edge_tx a p b provenance notes db = Inr db'"
  obtains e where "db' = db\<lparr>db_edges := insert_edge e (db_edges db)\<rparr>"
    and "ce_subject_id e \<noteq> ce_object_id e \<Longrightarrow> edge_wf (concept_names (db_concepts db)) e"
    and "ce_predicate e = p"
    and "ce_predicate e \<in> {lit ''broader'', lit ''requires''} \<Longrightarrow>
      ce_subject_id e \<notin>
        set (recursive_query (edge_pairs (ce_predicate e) (db_edges db)) [ce_object_id e])"
    and "\<not> symmetric_predicate p \<Longrightarrow> concept_id db a = Inr (ce_subject_id e) \<and>
      concept_id db b = Inr (ce_object_id e)"
    and "symmetric_predicate p \<Longrightarrow>
      concept_id db (fst (canonical_pair a b)) = Inr (ce_subject_id e) \<and>
      concept_id db (snd (canonical_pair a b)) = Inr (ce_object_id e)"
proof -
  let ?pair = "if symmetric_predicate p then canonical_pair a b else (a, b)"
  from assms obtain aid bid where p: "validate_edge_predicate p = Inr ()"
    and ids: "concept_id db (fst ?pair) = Inr aid" "concept_id db (snd ?pair) = Inr bid"
    and free: "p \<in> {lit ''broader'', lit ''requires''} \<Longrightarrow>
      validate_edge_does_not_cycle db aid p bid = Inr ()"
    and db': "db' = db\<lparr>db_edges := insert_edge \<lparr>ce_subject_id = aid, ce_predicate = p,
      ce_object_id = bid, ce_provenance = provenance, ce_notes = notes\<rparr> (db_edges db)\<rparr>"
    by (auto simp: insert_concept_edge_tx_def ok_simps symmetric_predicate_def
        split: prod.splits if_splits)
  show thesis
  proof (rule that [OF db'])
    show "edge_wf (concept_names (db_concepts db)) \<lparr>ce_subject_id = aid, ce_predicate = p,
        ce_object_id = bid, ce_provenance = provenance, ce_notes = notes\<rparr>"
      if "ce_subject_id \<lparr>ce_subject_id = aid, ce_predicate = p, ce_object_id = bid,
          ce_provenance = provenance, ce_notes = notes\<rparr> \<noteq> ce_object_id \<lparr>ce_subject_id = aid,
          ce_predicate = p, ce_object_id = bid, ce_provenance = provenance, ce_notes = notes\<rparr>"
    proof -
      obtain a' b' where pair: "?pair = (a', b')" by force
      have "symmetric_predicate p \<longrightarrow> a' \<le> b'"
        using canonical_pair_le [of a b] pair by auto
      moreover have "p \<in> {lit ''broader'', lit ''requires'', lit ''contrasts_with'', lit ''related''}"
        using p by (auto simp: validate_edge_predicate_def ok_simps)
      moreover have "(aid, a') \<in> concept_names (db_concepts db)"
        "(bid, b') \<in> concept_names (db_concepts db)"
        using concept_id_Inr [OF ids(1)] concept_id_Inr [OF ids(2)] by (simp_all only: pair fst_conv snd_conv)
      ultimately show ?thesis
        using that unfolding edge_wf_def concept_edge.simps by blast
    qed
  qed (use p free ids in
    \<open>auto simp: validate_edge_does_not_cycle_def validate_edge_predicate_def ok_simps\<close>)
qed

definition only_edges :: "learning_db \<Rightarrow> learning_db \<Rightarrow> bool" where
  "only_edges db db' \<longleftrightarrow> (\<exists>es. db' = db\<lparr>db_edges := es\<rparr> \<and> set (db_edges db) \<subseteq> set es)"

lemma only_edges_refl [simp]: "only_edges db db"
  unfolding only_edges_def by (intro exI [of _ "db_edges db"]) simp

lemma only_edges_trans: "only_edges a b \<Longrightarrow> only_edges b c \<Longrightarrow> only_edges a c"
  unfolding only_edges_def by fastforce

lemma only_edges_simps:
  assumes "only_edges db db'"
  shows "db_concepts db' = db_concepts db" "db_schemes db' = db_schemes db"
    "db_links db' = db_links db" "db_weaknesses db' = db_weaknesses db"
    "set (db_edges db) \<subseteq> set (db_edges db')"
  using assms by (auto simp: only_edges_def)

lemma set_insert_edge: "set es \<subseteq> set (insert_edge e es)"
  by (auto simp: insert_edge_def)

lemma insert_concept_edge_keeps:
  assumes "insert_concept_edge_tx a p b provenance notes db = Inr db'" and "taxonomy_wf db"
  shows "taxonomy_wf db' \<and> only_edges db db'"
proof -
  from insert_concept_edge_tx_Inr [OF assms(1)] obtain e where
    db': "db' = db\<lparr>db_edges := insert_edge e (db_edges db)\<rparr>"
    and e: "ce_subject_id e \<noteq> ce_object_id e \<Longrightarrow> edge_wf (concept_names (db_concepts db)) e"
    and free: "ce_predicate e \<in> {lit ''broader'', lit ''requires''} \<Longrightarrow>
      ce_subject_id e \<notin>
        set (recursive_query (edge_pairs (ce_predicate e) (db_edges db)) [ce_object_id e])"
    by metis
  have "edges_wf (concept_names (db_concepts db)) (insert_edge e (db_edges db))"
    using assms(2) e free by (intro edges_wf_insert) (auto simp: taxonomy_wf_def)
  moreover have "only_edges db db'"
    unfolding only_edges_def db' using set_insert_edge by blast
  ultimately show ?thesis
    using assms(2) unfolding db' by (auto simp: taxonomy_wf_def primaries_active_def)
qed

lemma insert_parent_keeps:
  "insert_parent k db x = Inr db' \<Longrightarrow> taxonomy_wf db \<Longrightarrow> taxonomy_wf db' \<and> only_edges db db'"
  by (auto simp: insert_parent_def ok_simps dest: insert_concept_edge_keeps)

lemma insert_edge_input_keeps:
  "insert_edge_input k db x = Inr db' \<Longrightarrow> taxonomy_wf db \<Longrightarrow> taxonomy_wf db' \<and> only_edges db db'"
  by (auto simp: insert_edge_input_def ok_simps dest: insert_concept_edge_keeps)

lemma edge_loop_keeps:
  assumes "foldE f db xs = Inr db'" and "taxonomy_wf db"
    and step: "\<And>db x db'. f db x = Inr db' \<Longrightarrow> taxonomy_wf db \<Longrightarrow> taxonomy_wf db' \<and> only_edges db db'"
  shows "taxonomy_wf db' \<and> only_edges db db'"
proof (rule foldE_invariant [OF assms(1), where I = "\<lambda>d. taxonomy_wf d \<and> only_edges db d"])
  show "taxonomy_wf db \<and> only_edges db db" using assms(2) by simp
  show "taxonomy_wf d' \<and> only_edges db d'"
    if "taxonomy_wf d \<and> only_edges db d" "x \<in> set xs" "f d x = Inr d'" for d x d'
    using that step [OF that(3)] only_edges_trans by blast
qed

section \<open>The row of a concept\<close>

lemma find_key_unique:
  "distinct (map cn_key cs) \<Longrightarrow> c \<in> set cs \<Longrightarrow> find (\<lambda>r. cn_key r = cn_key c) cs = Some c"
  by (induction cs) (auto simp: image_iff)

lemma write_concept_new_Inr:
  assumes "find (\<lambda>c. cn_key c = uc_key x) (db_concepts db) = None"
    and "write_concept x scheme db = Inr (cid, db')"
  shows "cid \<notin> cn_id ` set (db_concepts db)" "db' = db\<lparr>db_concepts := db_concepts db @
    [\<lparr>cn_id = cid, cn_scheme_id = scheme, cn_key = uc_key x, cn_label = uc_label x,
      cn_definition = uc_definition x, cn_source_uri = uc_source_uri x,
      cn_sort_order = 0, cn_active = unwrap_or (uc_active x) True\<rparr>]\<rparr>"
  using assms next_rowid_new [of "map cn_id (db_concepts db)"]
  by (auto simp: write_concept_def Let_def)

definition updated_concept :: "upsert_concept_request \<Rightarrow> nat \<Rightarrow> concept \<Rightarrow> concept" where
  "updated_concept x scheme r =
     r\<lparr>cn_scheme_id := scheme, cn_label := uc_label x, cn_definition := uc_definition x,
       cn_source_uri := uc_source_uri x, cn_active := unwrap_or (uc_active x) True\<rparr>"

lemma updated_concept_simps [simp]:
  "cn_id (updated_concept x s r) = cn_id r" "cn_key (updated_concept x s r) = cn_key r"
  "cn_active (updated_concept x s r) = unwrap_or (uc_active x) True"
  by (simp_all add: updated_concept_def)

lemma write_concept_old_Inr:
  assumes "find (\<lambda>c. cn_key c = uc_key x) (db_concepts db) = Some c"
    and "write_concept x scheme db = Inr (cid, db')"
  shows "cid = cn_id c"
    "uc_active x = Some False \<Longrightarrow> ensure_concept_is_not_active_primary db cid = Inr ()"
    "db' = db\<lparr>db_concepts := map (\<lambda>r. if cn_id r = cid then updated_concept x scheme r else r)
      (db_concepts db)\<rparr>"
  using assms by (auto simp: write_concept_def ok_simps updated_concept_def)

lemma write_concept_keeps:
  assumes wf: "taxonomy_wf db" and key: "concept_key_wf (uc_key x)"
    and done_row: "write_concept x scheme db = Inr (cid, db')"
  shows "taxonomy_wf db'"
proof (cases "find (\<lambda>c. cn_key c = uc_key x) (db_concepts db)")
  case None
  note new = write_concept_new_Inr [OF None done_row]
  have fresh: "uc_key x \<notin> cn_key ` set (db_concepts db)"
    using None by (auto simp: find_None_iff)
  have "concepts_wf (db_concepts db')"
    using wf key new fresh by (auto simp: taxonomy_wf_def concepts_wf_def)
  moreover have "concept_names (db_concepts db) \<subseteq> concept_names (db_concepts db')"
    using new(2) by (auto simp: concept_names_def)
  then have "edges_wf (concept_names (db_concepts db')) (db_edges db')"
    using wf new(2) edges_wf_mono by (fastforce simp: taxonomy_wf_def)
  moreover have "primaries_active db'"
    using wf new by (fastforce simp: taxonomy_wf_def primaries_active_def)
  ultimately show ?thesis
    using wf new(2) by (auto simp: taxonomy_wf_def)
next
  case (Some c)
  note old = write_concept_old_Inr [OF Some done_row]
  let ?f = "\<lambda>r. if cn_id r = cid then updated_concept x scheme r else r"
  have map_f: "map (cn_id \<circ> ?f) cs = map cn_id cs" "map (cn_key \<circ> ?f) cs = map cn_key cs" for cs
    by (induction cs) auto
  have names: "concept_names (map ?f cs) = concept_names cs" for cs
  proof -
    have "(cn_id (?f r), cn_key (?f r)) = (cn_id r, cn_key r)" for r by simp
    then show ?thesis unfolding concept_names_def set_map image_image by (simp only:)
  qed
  have new_rows: "db_concepts db' = map ?f (db_concepts db)" by (simp add: old(3))
  have "concepts_wf (db_concepts db')"
    using wf unfolding old(3)
    by (auto simp: taxonomy_wf_def concepts_wf_def list_all_iff map_f simp del: map_eq_conv)
  moreover have "primaries_active db'"
    unfolding primaries_active_def
  proof (intro ballI impI, elim conjE)
    fix l w r
    assume l: "l \<in> set (db_links db')" and w: "w \<in> set (db_weaknesses db')"
      and link: "wc_role l = lit ''primary''" "wc_weakness_id l = wk_id w" "open_target w"
      and r: "r \<in> set (db_concepts db')" "cn_id r = wc_concept_id l"
    from r(1) obtain r0 where r0: "r0 \<in> set (db_concepts db)" "r = ?f r0"
      unfolding old(3) by auto
    show "cn_active r"
    proof (cases "cn_id r0 = cid")
      case True
      then have "uc_active x \<noteq> Some False"
        using old(2) l w link r r0 unfolding old(3)
        by (auto simp: ensure_concept_is_not_active_primary_def ok_simps list_ex_iff)
      then show ?thesis using r0 True by (cases "uc_active x") auto
    next
      case False
      then show ?thesis
        using wf l w link r r0 unfolding old(3)
        by (auto simp: taxonomy_wf_def primaries_active_def)
    qed
  qed
  moreover have "cn_id ` set (db_concepts db') = cn_id ` set (db_concepts db)"
    by (simp only: new_rows set_map [symmetric] list.map_comp map_f)
  moreover have "concept_names (db_concepts db') = concept_names (db_concepts db)"
    "db_edges db' = db_edges db" "db_links db' = db_links db"
    using names by (simp_all add: old(3))
  ultimately show ?thesis using wf unfolding taxonomy_wf_def by (simp only: simp_thms) blast
qed

end
