(* ===== verification/Targets.thy ===== *)
theory Targets
  imports TaxonomyInvariant
begin

text \<open>
  Learning targets: \<open>upsert_weakness_tx\<close>, \<open>insert_target_relation\<close> and
  \<open>promote_target_if_needed\<close> of \<open>src/db.rs\<close> on the tables of \<open>Taxonomy\<close>. The columns of a
  target that only the legacy scheduler reads keep their values and are left out. The
  recommended drill types are the list whose JSON text the column holds.
\<close>

section \<open>Operations\<close>

definition unclassified_concept :: "ustring \<Rightarrow> ustring" where
  "unclassified_concept typ =
     (if typ = lit ''pronunciation'' then lit ''form.pronunciation''
      else if typ = lit ''orthography'' then lit ''form.orthography''
      else if typ \<in> {lit ''discourse_strategy'', lit ''sociopragmatic_choice''}
      then lit ''use.unclassified''
      else lit ''form.unclassified'')"

definition weakness_id :: "learning_db \<Rightarrow> ustring \<Rightarrow> string + nat" where
  "weakness_id db k = mapE wk_id (key_row wk_key k (db_weaknesses db))"

definition insert_relation :: "weakness_relation \<Rightarrow> weakness_relation list \<Rightarrow> weakness_relation list" where
  "insert_relation r rs =
     (if wr_subject_id r = wr_object_id r \<or>
         list_ex (\<lambda>q. wr_subject_id q = wr_subject_id r \<and> wr_predicate q = wr_predicate r \<and>
           wr_object_id q = wr_object_id r) rs
      then rs else rs @ [r])"

definition insert_target_relation ::
    "ustring \<Rightarrow> learning_db \<Rightarrow> target_relation_input \<Rightarrow> string + learning_db" where
  "insert_target_relation k db r =
     bindE (validate_target_relation_predicate (tr_predicate r)) (\<lambda>_.
     let other = tr_other_weakness_key r;
         (a, b) = (if tr_predicate r \<in> {lit ''confusable_with'', lit ''variant_of'',
             lit ''practice_together''} then canonical_pair k other else (k, other)) in
     bindE (weakness_id db a) (\<lambda>aid.
     bindE (weakness_id db b) (\<lambda>bid.
     Inr (db\<lparr>db_relations := insert_relation
       \<lparr>wr_subject_id = aid, wr_predicate = tr_predicate r, wr_object_id = bid,
        wr_notes = tr_notes r\<rparr> (db_relations db)\<rparr>))))"

definition target_status_for ::
    "new_weakness_input \<Rightarrow> weakness option \<Rightarrow> bool \<Rightarrow> bool \<Rightarrow> ustring" where
  "target_status_for w existing declared_item default_candidate =
     (case nw_active w of
        Some True \<Rightarrow> lit ''active''
      | Some False \<Rightarrow> lit ''suspended''
      | None \<Rightarrow> (case existing of
          Some e \<Rightarrow> wk_target_status e
        | None \<Rightarrow> if declared_item \<or> \<not> default_candidate then lit ''active'' else lit ''candidate''))"

definition target_type_for :: "new_weakness_input \<Rightarrow> weakness option \<Rightarrow> ustring" where
  "target_type_for w existing =
     unwrap_or (or_else (map_option (\<lambda>t. lit (target_type_as_str t)) (nw_target_type w))
       (map_option wk_target_type existing)) (lit ''grammatical_construction'')"

definition classification_supplied :: "new_weakness_input \<Rightarrow> bool" where
  "classification_supplied w \<longleftrightarrow> nw_primary_concept_key w \<noteq> None \<or> nw_concept_links w \<noteq> []"

text \<open>\<open>INSERT ... ON CONFLICT(key) DO UPDATE\<close>; an update keeps the drill types it does not name.\<close>

definition write_weakness ::
    "new_weakness_input \<Rightarrow> weakness option \<Rightarrow> ustring \<Rightarrow> ustring \<Rightarrow> bool \<Rightarrow> learning_db \<Rightarrow>
     nat \<times> learning_db" where
  "write_weakness w existing typ status is_active db =
     (let pending = (if classification_supplied w then False
            else case existing of None \<Rightarrow> True | Some e \<Rightarrow> wk_classification_pending e) in
      case existing of
        Some e \<Rightarrow> (wk_id e, db\<lparr>db_weaknesses := map (\<lambda>r. if wk_key r = nw_key w
          then r\<lparr>wk_category := nw_category w, wk_description := nw_description w,
                 wk_target_pattern := nw_target_pattern w,
                 wk_recommended_drill_types :=
                   or_else (nw_recommended_drill_types w) (wk_recommended_drill_types r),
                 wk_target_type := typ, wk_target_status := status,
                 wk_classification_pending := pending, wk_active := is_active\<rparr>
          else r) (db_weaknesses db)\<rparr>)
      | None \<Rightarrow>
         (let wid = next_rowid (map wk_id (db_weaknesses db)) in
          (wid, db\<lparr>db_weaknesses := db_weaknesses db @
            [\<lparr>wk_id = wid, wk_key = nw_key w, wk_category = nw_category w,
              wk_description = nw_description w, wk_target_pattern = nw_target_pattern w,
              wk_recommended_drill_types = nw_recommended_drill_types w, wk_target_type = typ,
              wk_target_status = status, wk_classification_pending = pending,
              wk_active = is_active\<rparr>]\<rparr>)))"

text \<open>
  A link is an insertion \<open>SELECT\<close>ing the concept by its key; it fails when the same concept is
  linked twice in one role.
\<close>

definition insert_link :: "nat \<Rightarrow> ustring \<Rightarrow> learning_db \<Rightarrow> ustring \<Rightarrow> string + learning_db" where
  "insert_link wid role db k =
     bindE (ensure_concept db k) (\<lambda>_.
     bindE (concept_id db k) (\<lambda>cid.
     if list_ex (\<lambda>l. wc_weakness_id l = wid \<and> wc_concept_id l = cid \<and> wc_role l = role) (db_links db)
     then Inl ''UNIQUE constraint failed: weakness_concepts''
     else Inr (db\<lparr>db_links := db_links db @
       [\<lparr>wc_weakness_id = wid, wc_concept_id = cid, wc_role = role\<rparr>]\<rparr>)))"

definition replace_links ::
    "new_weakness_input \<Rightarrow> ustring \<Rightarrow> nat \<Rightarrow> learning_db \<Rightarrow> string + learning_db" where
  "replace_links w typ wid db =
     (let db0 = db\<lparr>db_links := filter (\<lambda>l. wc_weakness_id l \<noteq> wid) (db_links db)\<rparr> in
      bindE (insert_link wid (lit ''primary'') db0
        (unwrap_or (nw_primary_concept_key w) (unclassified_concept typ))) (\<lambda>db1.
      foldE (\<lambda>d l. insert_link wid (lit (concept_link_role_as_str (cl_role l))) d (cl_concept_key l))
        db1 (nw_concept_links w)))"

text \<open>\<open>INSERT OR IGNORE\<close>: an existing item, active or not, stays as it is.\<close>

definition ensure_scheduler_item :: "nat \<Rightarrow> scheduler_item list \<Rightarrow> scheduler_item list" where
  "ensure_scheduler_item wid items =
     (if list_ex (\<lambda>i. si_weakness_id i = wid \<and> si_track i = lit ''general'') items then items
      else items @ [\<lparr>si_id = next_rowid (map si_id items), si_weakness_id = wid,
        si_track = lit ''general'', si_active = True\<rparr>])"

definition schedule_target :: "ustring \<Rightarrow> nat \<Rightarrow> learning_db \<Rightarrow> learning_db" where
  "schedule_target status wid db =
     (if status = lit ''active''
      then db\<lparr>db_scheduler := ensure_scheduler_item wid (db_scheduler db)\<rparr>
      else db\<lparr>db_scheduler := map (\<lambda>i. if si_weakness_id i = wid then i\<lparr>si_active := False\<rparr> else i)
        (db_scheduler db)\<rparr>)"

definition upsert_weakness_tx ::
    "new_weakness_input \<Rightarrow> bool \<Rightarrow> bool \<Rightarrow> bool \<Rightarrow> learning_db \<Rightarrow>
     string + (nat \<times> bool) \<times> learning_db" where
  "upsert_weakness_tx w declared_item default_candidate insert_relations db =
     (let existing = find (\<lambda>r. wk_key r = nw_key w) (db_weaknesses db);
          was_created = (existing = None);
          status = target_status_for w existing declared_item default_candidate;
          typ = target_type_for w existing in
      bindE (active_flag_for_status status) (\<lambda>is_active.
      let (wid, db1) = write_weakness w existing typ status is_active db in
      bindE (if classification_supplied w \<or> was_created then replace_links w typ wid db1
             else Inr db1) (\<lambda>db2.
      bindE (if insert_relations
             then foldE (insert_target_relation (nw_key w)) db2 (nw_target_relations w)
             else Inr db2) (\<lambda>db3.
      let db4 = schedule_target status wid db3 in
      bindE (validate_primary_links db4) (\<lambda>_. Inr ((wid, was_created), db4))))))"

text \<open>\<open>upsert_weakness_json\<close>: a transaction around it.\<close>

definition upsert_weakness_json ::
    "new_weakness_input \<Rightarrow> learning_db \<Rightarrow> (string + nat \<times> bool) \<times> learning_db" where
  "upsert_weakness_json w db =
     (case upsert_weakness_tx w False False True db of
        Inl e \<Rightarrow> (Inl e, db)
      | Inr (r, db') \<Rightarrow> (Inr r, db'))"

definition promote_target_if_needed :: "ustring \<Rightarrow> learning_db \<Rightarrow> learning_db" where
  "promote_target_if_needed k db =
     (case find (\<lambda>r. wk_key r = k) (db_weaknesses db) of
        None \<Rightarrow> db
      | Some e \<Rightarrow>
          if wk_target_status e = lit ''candidate''
          then db\<lparr>db_weaknesses := map (\<lambda>r. if wk_key r = k
                 then r\<lparr>wk_target_status := lit ''active'', wk_active := True\<rparr> else r)
                 (db_weaknesses db),
               db_scheduler := ensure_scheduler_item (wk_id e) (db_scheduler db)\<rparr>
          else db)"

text \<open>The rows that \<open>load_weaknesses\<close> reads for the queue: its join and its default filter.\<close>

definition in_queue :: "learning_db \<Rightarrow> weakness \<Rightarrow> bool" where
  "in_queue db w \<longleftrightarrow> wk_target_status w = lit ''active'' \<and>
     (let items = filter (\<lambda>i. si_weakness_id i = wk_id w \<and> si_track i = lit ''general'')
        (db_scheduler db)
      in items = [] \<or> list_ex si_active items)"

section \<open>The invariant\<close>

definition status_wf :: "weakness \<Rightarrow> bool" where
  "status_wf w \<longleftrightarrow> active_flag_for_status (wk_target_status w) = Inr (wk_active w)"

definition one_primary :: "learning_db \<Rightarrow> bool" where
  "one_primary db \<longleftrightarrow> (\<forall>w\<in>set (db_weaknesses db). open_target w \<longrightarrow>
     length (primary_links db (wk_id w)) = 1)"

definition links_known :: "learning_db \<Rightarrow> bool" where
  "links_known db \<longleftrightarrow> (\<forall>l\<in>set (db_links db). wc_weakness_id l \<in> wk_id ` set (db_weaknesses db) \<and>
     wc_concept_id l \<in> cn_id ` set (db_concepts db))"

definition scheduler_wf :: "learning_db \<Rightarrow> bool" where
  "scheduler_wf db \<longleftrightarrow> distinct (map (\<lambda>i. (si_weakness_id i, si_track i)) (db_scheduler db)) \<and>
     (\<forall>i\<in>set (db_scheduler db). si_weakness_id i \<in> wk_id ` set (db_weaknesses db) \<and>
        (si_active i \<longrightarrow> (\<exists>w\<in>set (db_weaknesses db). wk_id w = si_weakness_id i \<and>
           wk_target_status w = lit ''active'')))"

definition relations_wf :: "learning_db \<Rightarrow> bool" where
  "relations_wf db \<longleftrightarrow> (\<forall>r\<in>set (db_relations db). wr_subject_id r \<noteq> wr_object_id r \<and>
     wr_subject_id r \<in> wk_id ` set (db_weaknesses db) \<and>
     wr_object_id r \<in> wk_id ` set (db_weaknesses db))"

definition targets_wf :: "learning_db \<Rightarrow> bool" where
  "targets_wf db \<longleftrightarrow> distinct (map wk_id (db_weaknesses db)) \<and>
     distinct (map wk_key (db_weaknesses db)) \<and> list_all status_wf (db_weaknesses db) \<and>
     one_primary db \<and> links_known db \<and> scheduler_wf db \<and> relations_wf db"

end
