(* ===== verification/TaxonomyUpdates.thy ===== *)
theory TaxonomyUpdates
  imports TaxonomyInvariant
begin

text \<open>
  The properties of the taxonomy: what \<open>upsert_concept\<close> keeps and what it stores, which edges
  it refuses, which concepts the bounded descent returns.
\<close>

section \<open>Updates\<close>

lemma upsert_concept_tx_Inr:
  assumes "upsert_concept_tx x db = Inr (cid, db')"
  obtains scheme db1 db2 where "concept_key_wf (uc_key x)"
    and "find (\<lambda>s. sc_key s = uc_scheme_key x) (db_schemes db) = Some scheme"
    and "list_ex (\<lambda>s. sc_key s = uc_scheme_key x \<and> sc_active s) (db_schemes db)"
    and "text_ok (uc_label x) 500"
    and "write_concept x (sc_id scheme) db = Inr (cid, db1)"
    and "foldE (insert_parent (uc_key x)) db1 (unwrap_or (uc_broader_concept_keys x) []) = Inr db2"
    and "foldE (insert_edge_input (uc_key x)) db2 (uc_edges x) = Inr db'"
  using assms
  by (auto simp: upsert_concept_tx_def ok_simps ensure_scheme_def text_ok_def split: prod.splits)

lemma upsert_concept_tx_keeps:
  assumes "taxonomy_wf db" and "upsert_concept_tx x db = Inr (cid, db')"
  shows "taxonomy_wf db'"
proof (rule upsert_concept_tx_Inr [OF assms(2)])
  fix scheme db1 db2
  assume key: "concept_key_wf (uc_key x)"
    and row: "write_concept x (sc_id scheme) db = Inr (cid, db1)"
    and parents: "foldE (insert_parent (uc_key x)) db1 (unwrap_or (uc_broader_concept_keys x) []) = Inr db2"
    and edges: "foldE (insert_edge_input (uc_key x)) db2 (uc_edges x) = Inr db'"
  have "taxonomy_wf db1" by (rule write_concept_keeps [OF assms(1) key row])
  then have "taxonomy_wf db2" using edge_loop_keeps [OF parents] insert_parent_keeps by blast
  then show "taxonomy_wf db'" using edge_loop_keeps [OF edges] insert_edge_input_keeps by blast
qed

text \<open>
  Property C22. \<open>upsert_concept\<close> keeps the taxonomy well formed, whatever it is asked for and
  whether it succeeds or not: keys stay distinct and well formed, edges join known concepts,
  \<open>broader\<close> and \<open>requires\<close> stay acyclic, symmetric edges keep their canonical direction,
  and the primary concept of an open target stays active.
\<close>

theorem upsert_concept_keeps_taxonomy:
  assumes "taxonomy_wf db"
  shows "taxonomy_wf (snd (upsert_concept_json x db))"
  using assms upsert_concept_tx_keeps
  by (auto simp: upsert_concept_json_def bindE_def split: sum.splits prod.splits)

definition sample_scheme :: scheme_row where
  "sample_scheme = \<lparr>sc_id = 1, sc_key = lit ''a'', sc_active = True\<rparr>"

definition sample_concept :: "nat \<Rightarrow> string \<Rightarrow> concept" where
  "sample_concept i k =
     \<lparr>cn_id = i, cn_scheme_id = 1, cn_key = lit k, cn_label = lit k, cn_definition = None,
      cn_source_uri = None, cn_sort_order = 0, cn_active = True\<rparr>"

definition sample_broader :: "nat \<Rightarrow> nat \<Rightarrow> concept_edge" where
  "sample_broader i j =
     \<lparr>ce_subject_id = i, ce_predicate = lit ''broader'', ce_object_id = j,
      ce_provenance = lit ''curated'', ce_notes = None\<rparr>"

definition sample_taxonomy :: learning_db where
  "sample_taxonomy =
     \<lparr>db_schemes = [sample_scheme],
      db_concepts = [sample_concept 1 ''a'', sample_concept 2 ''b'',
        sample_concept 3 ''c''],
      db_edges = [sample_broader 2 1, sample_broader 3 2], db_weaknesses = [], db_links = [],
      db_relations = [], db_scheduler = [], db_collections = [], db_members = []\<rparr>"

definition new_request :: upsert_concept_request where
  "new_request =
     \<lparr>uc_key = lit ''d'', uc_scheme_key = lit ''a'', uc_label = lit ''d'', uc_definition = None,
      uc_source_uri = None, uc_broader_concept_keys = Some [lit ''a''], uc_edges = [],
      uc_active = None\<rparr>"

lemmas taxonomy_samples = sample_scheme_def sample_concept_def sample_broader_def
  sample_taxonomy_def new_request_def

lemma acyclic_descending:
  assumes "\<And>a b. (a, b) \<in> r \<Longrightarrow> b < (a :: nat)"
  shows "acyclic r"
proof -
  have "r\<inverse> \<subseteq> less_than" using assms by auto
  then have "acyclic (r\<inverse>)" using acyclic_subset wf_acyclic wf_less_than by blast
  then show ?thesis by (simp add: acyclic_converse)
qed

lemma sample_keys_wf:
  "concept_key_wf (lit ''a'')" "concept_key_wf (lit ''b'')" "concept_key_wf (lit ''c'')"
  "concept_key_wf (lit ''form.verb'')" "\<not> concept_key_wf (lit ''form..verb'')"
  by code_simp+

lemma sample_taxonomy_wf: "taxonomy_wf sample_taxonomy"
proof -
  have "acyclic (set (edge_pairs p (db_edges sample_taxonomy)))" for p
    by (rule acyclic_descending) (auto simp: edge_pairs_def taxonomy_samples split: if_splits)
  then show ?thesis
    by (auto simp: taxonomy_wf_def concepts_wf_def edges_wf_def edge_wf_def edge_key_def
        primaries_active_def concept_names_def symmetric_predicate_def taxonomy_samples
        sample_keys_wf)
qed

text \<open>A concept is added below a known one; the edge that would close a cycle is refused.\<close>

theorem upsert_concept_keeps_taxonomy_witness:
  "taxonomy_wf (snd (upsert_concept_json new_request sample_taxonomy)) \<and>
   map_sum (\<lambda>e. e) fst (write_concept new_request 1 sample_taxonomy) = Inr 4 \<and>
   insert_parent (lit ''a'') sample_taxonomy (lit ''c'') = Inl ''concept edge would create a cycle''"
proof (intro conjI)
  show "taxonomy_wf (snd (upsert_concept_json new_request sample_taxonomy))"
    by (rule upsert_concept_keeps_taxonomy [OF sample_taxonomy_wf])
  show "map_sum (\<lambda>e. e) fst (write_concept new_request 1 sample_taxonomy) = Inr 4" by code_simp
  show "insert_parent (lit ''a'') sample_taxonomy (lit ''c'') =
      Inl ''concept edge would create a cycle''" by code_simp
qed

section \<open>What a successful update stores\<close>

lemma insert_edge_has:
  "ce_subject_id e \<noteq> ce_object_id e \<Longrightarrow> edge_key e \<in> edge_key ` set (insert_edge e es)"
  by (auto simp: insert_edge_def list_ex_iff edge_key_def image_iff) metis

lemma concept_id_cong: "db_concepts db = db_concepts db' \<Longrightarrow> concept_id db k = concept_id db' k"
  by (simp add: concept_id_def)

definition has_parent :: "learning_db \<Rightarrow> nat \<Rightarrow> ustring \<Rightarrow> bool" where
  "has_parent db cid parent \<longleftrightarrow> (\<exists>i. concept_id db parent = Inr i \<and>
     (cid, lit ''broader'', i) \<in> edge_key ` set (db_edges db))"

lemma has_parent_mono: "only_edges db db' \<Longrightarrow> has_parent db cid p \<Longrightarrow> has_parent db' cid p"
  using only_edges_simps [of db db'] concept_id_cong [of db db'] by (auto simp: has_parent_def)

lemma insert_parent_has:
  assumes "insert_parent k db p = Inr db'" and "concept_id db k = Inr cid"
  shows "has_parent db' cid p"
proof -
  from assms(1) have edge: "insert_concept_edge_tx k (lit ''broader'') p (lit ''curated'') None db = Inr db'"
    by (auto simp: insert_parent_def ok_simps)
  show ?thesis
  proof (rule insert_concept_edge_tx_Inr [OF edge])
    fix e
    assume db': "db' = db\<lparr>db_edges := insert_edge e (db_edges db)\<rparr>"
      and p: "ce_predicate e = lit ''broader''"
      and free: "ce_predicate e \<in> {lit ''broader'', lit ''requires''} \<Longrightarrow> ce_subject_id e \<notin>
          set (recursive_query (edge_pairs (ce_predicate e) (db_edges db)) [ce_object_id e])"
      and ids: "\<not> symmetric_predicate (lit ''broader'') \<Longrightarrow>
        concept_id db k = Inr (ce_subject_id e) \<and> concept_id db p = Inr (ce_object_id e)"
    have "ce_subject_id e \<noteq> ce_object_id e"
      using free p query_self [of "ce_object_id e"] by force
    from insert_edge_has [OF this] have "edge_key e \<in> edge_key ` set (db_edges db')"
      by (simp add: db')
    moreover have "concept_id db' p = concept_id db p" by (rule concept_id_cong) (simp add: db')
    ultimately show ?thesis
      using assms(2) ids p by (auto simp: has_parent_def edge_key_def symmetric_predicate_def)
  qed
qed

lemma parents_stored:
  assumes "foldE (insert_parent k) db ps = Inr db'" and "taxonomy_wf db" and "concept_id db k = Inr cid"
  shows "\<forall>p\<in>set ps. has_parent db' cid p"
  using assms
proof (induction ps arbitrary: db)
  case (Cons p ps)
  from Cons.prems(1) obtain db1 where step: "insert_parent k db p = Inr db1"
    and rest: "foldE (insert_parent k) db1 ps = Inr db'" by (auto simp: ok_simps)
  from insert_parent_keeps [OF step Cons.prems(2)]
  have wf1: "taxonomy_wf db1" and only1: "only_edges db db1" by auto
  have "concept_id db1 k = Inr cid"
    using Cons.prems(3) only_edges_simps(1) [OF only1] concept_id_cong by metis
  then have "\<forall>p\<in>set ps. has_parent db' cid p" by (rule Cons.IH [OF rest wf1])
  moreover have "only_edges db1 db'" using edge_loop_keeps [OF rest wf1] insert_parent_keeps by blast
  ultimately show ?case
    using insert_parent_has [OF step Cons.prems(3)] has_parent_mono by auto
qed simp

definition stored_as :: "upsert_concept_request \<Rightarrow> nat \<Rightarrow> concept \<Rightarrow> bool" where
  "stored_as x cid c \<longleftrightarrow> cn_id c = cid \<and> cn_key c = uc_key x \<and> cn_label c = uc_label x \<and>
     cn_definition c = uc_definition x \<and> cn_source_uri c = uc_source_uri x \<and>
     cn_active c = unwrap_or (uc_active x) True"

lemma find_append_new: "find P xs = None \<Longrightarrow> P y \<Longrightarrow> find P (xs @ [y]) = Some y"
  by (induction xs) (auto split: if_splits)

lemma find_updated:
  "find P xs = Some c \<Longrightarrow> (\<And>r. P (f r) = P r) \<Longrightarrow> find P (map f xs) = Some (f c)"
  by (induction xs) (auto split: if_splits)

lemma write_concept_stores:
  assumes wf: "taxonomy_wf db" and row: "write_concept x scheme db = Inr (cid, db')"
  shows "concept_id db' (uc_key x) = Inr cid \<and> (\<exists>c\<in>set (db_concepts db'). stored_as x cid c) \<and>
      filter (\<lambda>c. cn_key c \<noteq> uc_key x) (db_concepts db') =
        filter (\<lambda>c. cn_key c \<noteq> uc_key x) (db_concepts db) \<and> db_edges db' = db_edges db"
proof (cases "find (\<lambda>c. cn_key c = uc_key x) (db_concepts db)")
  case None
  note new = write_concept_new_Inr [OF None row]
  show ?thesis
    by (simp add: new(2) concept_id_def key_row_def find_append_new [OF None] mapE_def stored_as_def)
next
  case (Some c)
  note old = write_concept_old_Inr [OF Some row]
  let ?f = "\<lambda>r. if cn_id r = cid then updated_concept x scheme r else r"
  have c: "c \<in> set (db_concepts db)" "cn_key c = uc_key x"
    using Some by (auto simp: find_Some_iff)
  have key_f: "cn_key (?f r) = cn_key r" for r by simp
  have rows: "db_concepts db' = map ?f (db_concepts db)" by (simp add: old(3))
  have "find (\<lambda>c. cn_key c = uc_key x) (db_concepts db') = Some (?f c)"
    unfolding rows by (rule find_updated [OF Some]) (simp add: key_f)
  then have "concept_id db' (uc_key x) = Inr cid"
    by (simp add: concept_id_def key_row_def mapE_def old(1))
  moreover have "stored_as x cid (?f c)"
    using c(2) old(1) by (simp add: stored_as_def updated_concept_def)
  then have "\<exists>c\<in>set (db_concepts db'). stored_as x cid c"
    unfolding rows set_map using c(1) by blast
  moreover have "?f r = r" if "r \<in> set (db_concepts db)" "cn_key r \<noteq> uc_key x" for r
  proof -
    have "distinct (map cn_id (db_concepts db))"
      using wf by (simp add: taxonomy_wf_def concepts_wf_def)
    then have "cn_id r \<noteq> cid"
      using that c old(1) by (metis distinct_map inj_on_eq_iff)
    then show ?thesis by simp
  qed
  then have "filter (\<lambda>c. cn_key c \<noteq> uc_key x) (db_concepts db') =
      filter (\<lambda>c. cn_key c \<noteq> uc_key x) (db_concepts db)"
    unfolding rows filter_map comp_def key_f by (intro map_idI) simp
  ultimately show ?thesis by (simp add: old(3))
qed

text \<open>
  A successful \<open>upsert_concept\<close> stores what was asked for: one concept under the
  key with the given label, texts and flag (active unless stated otherwise), a \<open>broader\<close> edge
  to every requested parent, and nothing else: the other concepts are unchanged and no edge is
  lost. A failing one changes nothing.
\<close>

theorem upsert_concept_stores:
  assumes "taxonomy_wf db"
  shows "case upsert_concept_tx x db of
      Inl e \<Rightarrow> upsert_concept_json x db = (Inl e, db)
    | Inr (cid, db') \<Rightarrow> (\<exists>c\<in>set (db_concepts db'). stored_as x cid c) \<and>
        list_all (has_parent db' cid) (unwrap_or (uc_broader_concept_keys x) []) \<and>
        filter (\<lambda>c. cn_key c \<noteq> uc_key x) (db_concepts db') =
          filter (\<lambda>c. cn_key c \<noteq> uc_key x) (db_concepts db) \<and>
        set (db_edges db) \<subseteq> set (db_edges db')"
proof (cases "upsert_concept_tx x db")
  case (Inr r)
  obtain cid db' where r: "r = (cid, db')" by (cases r)
  show ?thesis
    unfolding Inr r sum.case prod.case
  proof (rule upsert_concept_tx_Inr [OF Inr [unfolded r]])
    fix scheme db1 db2
    assume key: "concept_key_wf (uc_key x)"
      and row: "write_concept x (sc_id scheme) db = Inr (cid, db1)"
      and parents: "foldE (insert_parent (uc_key x)) db1 (unwrap_or (uc_broader_concept_keys x) []) = Inr db2"
      and edges: "foldE (insert_edge_input (uc_key x)) db2 (uc_edges x) = Inr db'"
    note stored = write_concept_stores [OF assms row]
    have wf1: "taxonomy_wf db1" by (rule write_concept_keeps [OF assms key row])
    have 2: "taxonomy_wf db2 \<and> only_edges db1 db2"
      using edge_loop_keeps [OF parents wf1] insert_parent_keeps by blast
    then have 3: "only_edges db2 db'"
      using edge_loop_keeps [OF edges] insert_edge_input_keeps by blast
    have "\<forall>p\<in>set (unwrap_or (uc_broader_concept_keys x) []). has_parent db' cid p"
      using parents_stored [OF parents wf1 conjunct1 [OF stored]] has_parent_mono [OF 3] by blast
    moreover have "only_edges db1 db'" using 2 3 only_edges_trans by blast
    ultimately show "(\<exists>c\<in>set (db_concepts db'). stored_as x cid c) \<and>
        list_all (has_parent db' cid) (unwrap_or (uc_broader_concept_keys x) []) \<and>
        filter (\<lambda>c. cn_key c \<noteq> uc_key x) (db_concepts db') =
          filter (\<lambda>c. cn_key c \<noteq> uc_key x) (db_concepts db) \<and>
        set (db_edges db) \<subseteq> set (db_edges db')"
      using stored only_edges_simps [of db1 db'] by (simp add: list_all_iff)
  qed
qed (simp add: upsert_concept_json_def)

theorem upsert_concept_stores_witness:
  "\<not> isl (upsert_concept_tx new_request sample_taxonomy) \<and>
   (case upsert_concept_tx new_request sample_taxonomy of
      Inl e \<Rightarrow> upsert_concept_json new_request sample_taxonomy = (Inl e, sample_taxonomy)
    | Inr (cid, db') \<Rightarrow> (\<exists>c\<in>set (db_concepts db'). stored_as new_request cid c) \<and>
        list_all (has_parent db' cid) (unwrap_or (uc_broader_concept_keys new_request) []) \<and>
        filter (\<lambda>c. cn_key c \<noteq> uc_key new_request) (db_concepts db') =
          filter (\<lambda>c. cn_key c \<noteq> uc_key new_request) (db_concepts sample_taxonomy) \<and>
        set (db_edges sample_taxonomy) \<subseteq> set (db_edges db'))"
  by (rule conjI [OF _ upsert_concept_stores [OF sample_taxonomy_wf]]) code_simp

section \<open>Keys, edges and the bounded descent\<close>

text \<open>
  The one-pass check of a concept key accepts exactly the keys of at most 160
  bytes that are non-empty segments of lower-case ASCII letters and digits, separated by
  single dots, underscores or hyphens.
\<close>

theorem concept_key_accepted_iff:
  "validate_concept_key k = Inr () \<longleftrightarrow>
     blen k \<le> CONCEPT_KEY_MAX_BYTES \<and> list_all segment_wf (segments k)"
  by (simp add: validate_concept_key_iff concept_key_wf_def)

text \<open>
  The cycle check is exact: on an acyclic predicate it refuses an edge if and only
  if the edge would close a cycle, and its query returns for every set of edges, cyclic ones
  included.
\<close>

theorem edge_refused_iff_cycle:
  assumes "p \<in> {lit ''broader'', lit ''requires''}" and "acyclic (set (edge_pairs p (db_edges db)))"
  shows "validate_edge_does_not_cycle db s p t = Inr () \<longleftrightarrow>
    acyclic (insert (s, t) (set (edge_pairs p (db_edges db))))"
  by (rule edge_refusal_iff [OF assms])

theorem edge_refused_iff_cycle_witness:
  "(validate_edge_does_not_cycle sample_taxonomy 1 (lit ''broader'') 3 = Inr () \<longleftrightarrow>
      acyclic (insert (1, 3) (set (edge_pairs (lit ''broader'') (db_edges sample_taxonomy))))) \<and>
   validate_edge_does_not_cycle sample_taxonomy 1 (lit ''broader'') 3 =
      Inl ''concept edge would create a cycle'' \<and>
   validate_edge_does_not_cycle sample_taxonomy 3 (lit ''broader'') 1 = Inr ()"
proof (intro conjI)
  have "acyclic (set (edge_pairs (lit ''broader'') (db_edges sample_taxonomy)))"
    using sample_taxonomy_wf by (simp add: taxonomy_wf_def edges_wf_def)
  then show "validate_edge_does_not_cycle sample_taxonomy 1 (lit ''broader'') 3 = Inr () \<longleftrightarrow>
      acyclic (insert (1, 3) (set (edge_pairs (lit ''broader'') (db_edges sample_taxonomy))))"
    by (rule edge_refused_iff_cycle [rotated]) simp
qed code_simp+

lemma swap_edge_pairs: "set (map prod.swap es) = (set es)\<inverse>"
  by force

lemma set_descendants:
  "set (map fst (recursive_query (levelled limit es) (map (\<lambda>c. (f c, 0)) cs))) =
     {i. \<exists>c\<in>set cs. \<exists>n\<le>limit. (f c, i) \<in> set es ^^ n}"
proof -
  have "i \<in> fst ` ((set (levelled limit es))\<^sup>* `` ((\<lambda>c. (f c, 0)) ` set cs)) \<longleftrightarrow>
      (\<exists>c\<in>set cs. \<exists>n\<le>limit. (f c, i) \<in> set es ^^ n)" for i
    by (force simp: levelled_path [symmetric] Image_iff image_iff)
  then show ?thesis unfolding set_map set_recursive_query by (intro set_eqI) simp
qed

lemma relpow_swap: "((r :: ('a \<times> 'a) set)\<inverse>) ^^ n = (r ^^ n)\<inverse>"
  by (induction n) (simp_all add: converse_relcomp [symmetric] relpow_commute)

lemma descent_set:
  assumes "roots \<noteq> []" and "1 \<le> depth" and "depth \<le> 6"
  shows "\<exists>ids. descendant_ids db roots depth = Inr ids \<and> sorted ids \<and> distinct ids \<and>
    set ids = {i. \<exists>c\<in>set (db_concepts db). cn_key c \<in> set roots \<and>
      (\<exists>n\<le>depth. (i, cn_id c) \<in> set (edge_pairs (lit ''broader'') (db_edges db)) ^^ n)}"
proof -
  let ?es = "edge_pairs (lit ''broader'') (db_edges db)"
  let ?roots = "filter (\<lambda>c. cn_key c \<in> set roots) (db_concepts db)"
  let ?ids = "sort (remdups (map fst (recursive_query (levelled depth (map prod.swap ?es))
    (map (\<lambda>c. (cn_id c, 0)) ?roots))))"
  have "descendant_ids db roots depth = Inr ?ids" using assms by (simp add: descendant_ids_def)
  moreover have "set ?ids = {i. \<exists>c\<in>set ?roots. \<exists>n\<le>depth. (cn_id c, i) \<in> (set ?es)\<inverse> ^^ n}"
    using set_descendants [of depth "map prod.swap ?es" cn_id ?roots]
    unfolding set_sort set_remdups swap_edge_pairs .
  ultimately show ?thesis by (auto simp: relpow_swap)
qed



section \<open>Roots of a taxonomy query\<close>

definition below :: "learning_db \<Rightarrow> nat \<Rightarrow> ustring list \<Rightarrow> nat \<Rightarrow> bool" where
  "below db depth roots i \<longleftrightarrow> (\<exists>c\<in>set (db_concepts db). cn_key c \<in> set roots \<and>
     (\<exists>n\<le>depth. (i, cn_id c) \<in> set (edge_pairs (lit ''broader'') (db_edges db)) ^^ n))"

lemma descendant_ids_below:
  "roots \<noteq> [] \<Longrightarrow> 1 \<le> depth \<Longrightarrow> depth \<le> 6 \<Longrightarrow>
     \<exists>ids. descendant_ids db roots depth = Inr ids \<and> set ids = {i. below db depth roots i}"
  using descent_set [of roots depth db] by (auto simp: below_def)

lemma set_taxonomy_rows:
  "(c, s) \<in> set (taxonomy_rows db req ids) \<Longrightarrow>
     c \<in> set (db_concepts db) \<and> (ids = [] \<or> cn_id c \<in> set ids)"
  by (auto simp: taxonomy_rows_def Let_def dest!: in_set_takeD)

text \<open>
  A query below given roots returns only concepts at most the given depth below
  one of them, provided one of the roots exists. When none exists the query does not return
  nothing: the restriction is dropped and every concept is returned.
\<close>

theorem unknown_roots_return_everything:
  assumes "tq_root_concept_keys req = Some roots" and "roots \<noteq> []"
    and "unwrap_or (tq_include_descendants req) True"
    and "1 \<le> unwrap_or (tq_depth req) 3" and "unwrap_or (tq_depth req) 3 \<le> 6"
  shows "if list_ex (\<lambda>c. cn_key c \<in> set roots) (db_concepts db)
    then \<exists>v. get_taxonomy db req = Inr v \<and> (\<forall>t\<in>set (tv_concepts v).
      \<exists>c\<in>set (db_concepts db). tc_key t = cn_key c \<and> below db (unwrap_or (tq_depth req) 3) roots (cn_id c))
    else mapE tv_concepts (get_taxonomy db req) =
      mapE tv_concepts (get_taxonomy db (req\<lparr>tq_root_concept_keys := None\<rparr>))"
proof -
  let ?depth = "unwrap_or (tq_depth req) 3"
  from descendant_ids_below [OF assms(2,4,5)] obtain ids where
    ids: "descendant_ids db roots ?depth = Inr ids" and set: "set ids = {i. below db ?depth roots i}"
    by blast
  have roots: "root_ids db req ?depth = Inr ids"
    using assms ids by (simp add: root_ids_def)
  show ?thesis
  proof (cases "list_ex (\<lambda>c. cn_key c \<in> set roots) (db_concepts db)")
    case True
    then obtain c where "c \<in> set (db_concepts db)" "cn_key c \<in> set roots"
      by (auto simp: list_ex_iff)
    then have "below db ?depth roots (cn_id c)"
      unfolding below_def by (intro bexI [of _ c] conjI exI [of _ 0]) auto
    then have "ids \<noteq> []" using set by auto
    then show ?thesis
      using True assms roots set set_taxonomy_rows [where req = req and ids = ids and db = db]
      by (fastforce simp: get_taxonomy_def bail_if_def taxonomy_entry_def Let_def)
  next
    case False
    then have "ids = []" using set by (auto simp: below_def list_ex_iff)
    then show ?thesis
      using False assms roots
      by (simp add: get_taxonomy_def bail_if_def mapE_def root_ids_def taxonomy_rows_def
          taxonomy_entry_def)
  qed
qed

definition unknown_roots :: taxonomy_request where
  "unknown_roots =
     \<lparr>tq_scheme_keys = None, tq_root_concept_keys = Some [lit ''x''], tq_include_descendants = None,
      tq_depth = None, tq_include_targets = None, tq_include_collections = None, tq_limit = None,
      tq_compact = None\<rparr>"

theorem unknown_roots_return_everything_witness:
  "mapE tv_concepts (get_taxonomy sample_taxonomy unknown_roots) =
     mapE tv_concepts (get_taxonomy sample_taxonomy (unknown_roots\<lparr>tq_root_concept_keys := None\<rparr>)) \<and>
   mapE (\<lambda>v. map tc_key (tv_concepts v))
     (get_taxonomy sample_taxonomy (unknown_roots\<lparr>tq_root_concept_keys := None\<rparr>)) =
     Inr [lit ''a'', lit ''b'', lit ''c'']"
proof (intro conjI)
  have "\<not> list_ex (\<lambda>c. cn_key c \<in> set [lit ''x'']) (db_concepts sample_taxonomy)" by code_simp
  then show "mapE tv_concepts (get_taxonomy sample_taxonomy unknown_roots) =
     mapE tv_concepts (get_taxonomy sample_taxonomy (unknown_roots\<lparr>tq_root_concept_keys := None\<rparr>))"
    using unknown_roots_return_everything [of unknown_roots "[lit ''x'']" sample_taxonomy]
    by (simp add: unknown_roots_def)
qed code_simp

end
