(* ===== verification/TargetUpdates.thy ===== *)
theory TargetUpdates
  imports Targets TaxonomyUpdates
begin

text \<open>
  \<open>upsert_weakness\<close> keeps the learning targets consistent, classifies a new target, and the
  one transition it gets wrong: a suspended target that is activated again stays out of the
  queue.
\<close>

section \<open>The row of the target\<close>

definition row_written ::
    "weakness list \<Rightarrow> nat \<Rightarrow> new_weakness_input \<Rightarrow> ustring \<Rightarrow> bool \<Rightarrow> weakness list \<Rightarrow> bool" where
  "row_written ws wid w status is_active ws' \<longleftrightarrow>
     distinct (map wk_id ws') \<and> distinct (map wk_key ws') \<and>
     wk_id ` set ws' = insert wid (wk_id ` set ws) \<and>
     (\<forall>r\<in>set ws'. if wk_id r = wid then wk_key r = nw_key w \<and> wk_target_status r = status \<and>
        wk_active r = is_active else r \<in> set ws)"

lemma key_id_iff:
  assumes "distinct (map wk_id ws)" "distinct (map wk_key ws)" "e \<in> set ws" "r \<in> set ws"
  shows "wk_key r = wk_key e \<longleftrightarrow> wk_id r = wk_id e"
  using assms by (metis distinct_map inj_on_eq_iff)

lemma write_weakness_written:
  assumes "distinct (map wk_id (db_weaknesses db))" "distinct (map wk_key (db_weaknesses db))"
    and found: "existing = find (\<lambda>r. wk_key r = nw_key w) (db_weaknesses db)"
    and written: "write_weakness w existing ty status is_active db = (wid, db')"
  shows "row_written (db_weaknesses db) wid w status is_active (db_weaknesses db') \<and>
    (\<exists>ws. db' = db\<lparr>db_weaknesses := ws\<rparr>) \<and>
    (existing = None \<longrightarrow> wid \<notin> wk_id ` set (db_weaknesses db))"
proof (cases existing)
  case None
  then have fresh: "nw_key w \<notin> wk_key ` set (db_weaknesses db)"
    using found by (auto simp: find_None_iff)
  define row where "row = \<lparr>wk_id = wid, wk_key = nw_key w, wk_category = nw_category w,
    wk_description = nw_description w, wk_target_pattern = nw_target_pattern w,
    wk_recommended_drill_types = nw_recommended_drill_types w, wk_target_type = ty,
    wk_target_status = status, wk_classification_pending = \<not> classification_supplied w,
    wk_active = is_active\<rparr>"
  have db': "wid = next_rowid (map wk_id (db_weaknesses db))"
    "db' = db\<lparr>db_weaknesses := db_weaknesses db @ [row]\<rparr>"
    using written None by (auto simp: write_weakness_def Let_def row_def)
  have new: "wid \<notin> wk_id ` set (db_weaknesses db)"
    using next_rowid_new [of "map wk_id (db_weaknesses db)"] db'(1) by simp
  moreover have "\<forall>r\<in>set (db_weaknesses db). wk_id r \<noteq> wid" using new by blast
  moreover have "wk_id row = wid" "wk_key row = nw_key w" "wk_target_status row = status"
    "wk_active row = is_active"
    by (simp_all add: row_def)
  ultimately show ?thesis
    using assms(1,2) fresh unfolding db'(2) row_written_def by auto
next
  case (Some e)
  then have e: "e \<in> set (db_weaknesses db)" "wk_key e = nw_key w"
    using found by (auto simp: find_Some_iff)
  define f where "f = (\<lambda>r :: weakness. if wk_key r = nw_key w
    then r\<lparr>wk_category := nw_category w, wk_description := nw_description w,
           wk_target_pattern := nw_target_pattern w,
           wk_recommended_drill_types :=
             or_else (nw_recommended_drill_types w) (wk_recommended_drill_types r),
           wk_target_type := ty, wk_target_status := status,
           wk_classification_pending :=
             (if classification_supplied w then False else wk_classification_pending e),
           wk_active := is_active\<rparr>
    else r)"
  have db': "wid = wk_id e" "db' = db\<lparr>db_weaknesses := map f (db_weaknesses db)\<rparr>"
    using written Some by (auto simp: write_weakness_def Let_def f_def)
  have f: "wk_id (f r) = wk_id r" "wk_key (f r) = wk_key r" for r by (simp_all add: f_def)
  have "map wk_id (map f ws) = map wk_id ws" "map wk_key (map f ws) = map wk_key ws" for ws
    by (simp_all add: f)
  moreover have "wk_id ` f ` set ws = wk_id ` set ws" for ws
    by (simp add: image_image f)
  moreover have "wk_id ` set (db_weaknesses db) = insert wid (wk_id ` set (db_weaknesses db))"
    using e(1) db'(1) by auto
  moreover have "if wk_id (f r) = wid then wk_key (f r) = nw_key w \<and>
      wk_target_status (f r) = status \<and> wk_active (f r) = is_active else f r \<in> set (db_weaknesses db)"
    if "r \<in> set (db_weaknesses db)" for r
    using key_id_iff [OF assms(1,2) e(1) that] e(2) db'(1) that by (auto simp: f_def)
  ultimately show ?thesis
    using assms(1,2) Some unfolding db' row_written_def by (auto simp del: map_map)
qed

section \<open>Links, relations and scheduler items\<close>

lemma insert_link_known:
  assumes "insert_link wid role db k = Inr db'" and "wid \<in> wk_id ` set (db_weaknesses db)"
    and "links_known db"
  shows "links_known db' \<and> (\<exists>ls. db' = db\<lparr>db_links := ls\<rparr>)"
proof -
  from assms(1) obtain cid where "concept_id db k = Inr cid"
    and "db' = db\<lparr>db_links := db_links db @
      [\<lparr>wc_weakness_id = wid, wc_concept_id = cid, wc_role = role\<rparr>]\<rparr>"
    by (auto simp: insert_link_def ok_simps split: if_splits)
  then show ?thesis
    using assms(2,3) known_names [OF concept_id_Inr] by (auto simp: links_known_def)
qed

lemma insert_links_known:
  assumes "foldE (\<lambda>d l. insert_link wid (role l) d (key_of l)) db ls = Inr db'"
    and "wid \<in> wk_id ` set (db_weaknesses db)" and "links_known db"
  shows "links_known db' \<and> (\<exists>ls. db' = db\<lparr>db_links := ls\<rparr>)"
proof (rule foldE_invariant [OF assms(1), where I = "\<lambda>d. links_known d \<and> (\<exists>ls. d = db\<lparr>db_links := ls\<rparr>)"])
  show "links_known db \<and> (\<exists>ls. db = db\<lparr>db_links := ls\<rparr>)"
    using assms(3) by (intro conjI exI [of _ "db_links db"]) simp_all
  show "links_known d' \<and> (\<exists>ls. d' = db\<lparr>db_links := ls\<rparr>)"
    if "links_known d \<and> (\<exists>ls. d = db\<lparr>db_links := ls\<rparr>)" "insert_link wid (role l) d (key_of l) = Inr d'"
    for d l d'
    using that assms(2) insert_link_known [OF that(2)] by auto
qed

lemma replace_links_known:
  assumes "replace_links w ty wid db = Inr db'"
    and "wid \<in> wk_id ` set (db_weaknesses db)" and "links_known db"
  shows "links_known db' \<and> (\<exists>ls. db' = db\<lparr>db_links := ls\<rparr>)"
proof -
  let ?db0 = "db\<lparr>db_links := filter (\<lambda>l. wc_weakness_id l \<noteq> wid) (db_links db)\<rparr>"
  from assms(1) obtain db1 where
    first: "insert_link wid (lit ''primary'') ?db0
      (unwrap_or (nw_primary_concept_key w) (unclassified_concept ty)) = Inr db1"
    and rest: "foldE (\<lambda>d l. insert_link wid (lit (concept_link_role_as_str (cl_role l))) d
      (cl_concept_key l)) db1 (nw_concept_links w) = Inr db'"
    by (auto simp: replace_links_def ok_simps)
  have "links_known ?db0" using assms(3) by (auto simp: links_known_def)
  with insert_link_known [OF first] assms(2)
  obtain ls where 1: "links_known db1" "db1 = ?db0\<lparr>db_links := ls\<rparr>" by auto
  then show ?thesis using insert_links_known [OF rest] assms(2) by auto
qed

lemma insert_link_tables:
  "insert_link wid role db k = Inr db' \<Longrightarrow>
     db_weaknesses db' = db_weaknesses db \<and> db_scheduler db' = db_scheduler db"
  by (auto simp: insert_link_def ok_simps split: if_splits)

lemma replace_links_tables:
  assumes "replace_links w ty wid db = Inr db'"
  shows "db_weaknesses db' = db_weaknesses db \<and> db_scheduler db' = db_scheduler db"
proof -
  let ?db0 = "db\<lparr>db_links := filter (\<lambda>l. wc_weakness_id l \<noteq> wid) (db_links db)\<rparr>"
  from assms obtain db1 where
    first: "insert_link wid (lit ''primary'') ?db0
      (unwrap_or (nw_primary_concept_key w) (unclassified_concept ty)) = Inr db1"
    and rest: "foldE (\<lambda>d l. insert_link wid (lit (concept_link_role_as_str (cl_role l))) d
      (cl_concept_key l)) db1 (nw_concept_links w) = Inr db'"
    by (auto simp: replace_links_def ok_simps)
  have "db_weaknesses db' = db_weaknesses db1 \<and> db_scheduler db' = db_scheduler db1"
    by (rule foldE_invariant [OF rest]) (auto dest: insert_link_tables)
  then show ?thesis using insert_link_tables [OF first] by simp
qed

lemma insert_target_relation_tables:
  "insert_target_relation k db r = Inr db' \<Longrightarrow>
     db_weaknesses db' = db_weaknesses db \<and> db_scheduler db' = db_scheduler db"
  by (auto simp: insert_target_relation_def Let_def ok_simps split: prod.splits)

lemma insert_relations_tables:
  assumes "foldE (insert_target_relation k) db rs = Inr db'"
  shows "db_weaknesses db' = db_weaknesses db \<and> db_scheduler db' = db_scheduler db"
  by (rule foldE_invariant [OF assms]) (auto dest: insert_target_relation_tables)

lemma insert_target_relation_wf:
  assumes "insert_target_relation k db r = Inr db'" and "relations_wf db"
  shows "relations_wf db' \<and> (\<exists>rs. db' = db\<lparr>db_relations := rs\<rparr>)"
proof -
  from assms(1) obtain a b aid bid where ids: "weakness_id db a = Inr aid" "weakness_id db b = Inr bid"
    and db': "db' = db\<lparr>db_relations := insert_relation \<lparr>wr_subject_id = aid,
      wr_predicate = tr_predicate r, wr_object_id = bid, wr_notes = tr_notes r\<rparr> (db_relations db)\<rparr>"
    by (auto simp: insert_target_relation_def Let_def ok_simps split: prod.splits)
  have "i \<in> wk_id ` set (db_weaknesses db)" if "weakness_id db x = Inr i" for x i
    using that by (auto simp: weakness_id_def ok_simps find_Some_iff)
  then have "relations_wf db'"
    using ids assms(2) unfolding db' by (auto simp: relations_wf_def insert_relation_def)
  then show ?thesis using db' by blast
qed

lemma insert_relations_wf:
  assumes "foldE (insert_target_relation k) db rs = Inr db'" and "relations_wf db"
  shows "relations_wf db' \<and> (\<exists>rs. db' = db\<lparr>db_relations := rs\<rparr>)"
proof (rule foldE_invariant [OF assms(1), where I = "\<lambda>d. relations_wf d \<and> (\<exists>rs. d = db\<lparr>db_relations := rs\<rparr>)"])
  show "relations_wf db \<and> (\<exists>rs. db = db\<lparr>db_relations := rs\<rparr>)"
    using assms(2) by (intro conjI exI [of _ "db_relations db"]) simp_all
  show "relations_wf d' \<and> (\<exists>rs. d' = db\<lparr>db_relations := rs\<rparr>)"
    if "relations_wf d \<and> (\<exists>rs. d = db\<lparr>db_relations := rs\<rparr>)" "insert_target_relation k d r = Inr d'"
    for d r d'
    using that insert_target_relation_wf [OF that(2)] by auto
qed

lemma scheduler_keys:
  "db_scheduler (schedule_target status wid db) =
     (if status = lit ''active'' then ensure_scheduler_item wid (db_scheduler db)
      else map (\<lambda>i. if si_weakness_id i = wid then i\<lparr>si_active := False\<rparr> else i) (db_scheduler db))"
  by (simp add: schedule_target_def)

lemma ensure_scheduler_item_cases:
  obtains "ensure_scheduler_item wid items = items"
  | i where "ensure_scheduler_item wid items = items @ [i]" "si_weakness_id i = wid"
    "(wid, si_track i) \<notin> (\<lambda>i. (si_weakness_id i, si_track i)) ` set items"
proof (cases "list_ex (\<lambda>i. si_weakness_id i = wid \<and> si_track i = lit ''general'') items")
  case True
  then have "ensure_scheduler_item wid items = items" by (simp add: ensure_scheduler_item_def)
  then show ?thesis by (rule that(1))
next
  case False
  define i where "i = \<lparr>si_id = next_rowid (map si_id items), si_weakness_id = wid,
    si_track = lit ''general'', si_active = True\<rparr>"
  show ?thesis
    by (rule that(2) [of i]) (use False in \<open>auto simp: ensure_scheduler_item_def i_def list_ex_iff\<close>)
qed

lemma schedule_keys_distinct:
  assumes "distinct (map (\<lambda>i. (si_weakness_id i, si_track i)) (db_scheduler db))"
  shows "distinct (map (\<lambda>i. (si_weakness_id i, si_track i)) (db_scheduler (schedule_target status wid db)))"
proof (cases "status = lit ''active''")
  case True
  show ?thesis
    by (cases rule: ensure_scheduler_item_cases [of wid "db_scheduler db"])
      (use True assms in \<open>auto simp: schedule_target_def\<close>)
next
  case False
  have "map (\<lambda>i. (si_weakness_id i, si_track i))
      (map (\<lambda>i. if si_weakness_id i = wid then i\<lparr>si_active := False\<rparr> else i) xs) =
      map (\<lambda>i. (si_weakness_id i, si_track i)) xs" for xs :: "scheduler_item list"
    by (induction xs) auto
  with assms False show ?thesis by (simp add: schedule_target_def del: map_map)
qed

text \<open>An item after the change was there before or belongs to the target.\<close>

lemma schedule_target_items:
  assumes "i \<in> set (db_scheduler (schedule_target status wid db))"
  shows "if si_weakness_id i = wid then status \<noteq> lit ''active'' \<longrightarrow> \<not> si_active i
    else i \<in> set (db_scheduler db)"
proof (cases "status = lit ''active''")
  case True
  show ?thesis
    by (cases rule: ensure_scheduler_item_cases [of wid "db_scheduler db"])
      (use True assms in \<open>auto simp: schedule_target_def\<close>)
qed (use assms in \<open>auto simp: schedule_target_def\<close>)

text \<open>
  Writing the row and then the scheduler items keeps every active item on an active target.
\<close>

lemma schedule_target_wf:
  assumes sched: "scheduler_wf db" and unique: "distinct (map wk_id (db_weaknesses db))"
    and row: "row_written (db_weaknesses db) wid w status is_active ws"
  shows "scheduler_wf (schedule_target status wid (db\<lparr>db_weaknesses := ws\<rparr>))"
proof -
  let ?db' = "schedule_target status wid (db\<lparr>db_weaknesses := ws\<rparr>)"
  have ids: "wk_id ` set ws = insert wid (wk_id ` set (db_weaknesses db))"
    and rows: "\<And>r. r \<in> set ws \<Longrightarrow> if wk_id r = wid then wk_target_status r = status
      else r \<in> set (db_weaknesses db)"
    using row by (auto simp: row_written_def)
  have ws: "db_weaknesses ?db' = ws" by (simp add: schedule_target_def)
  have kept: "v \<in> set ws" if "v \<in> set (db_weaknesses db)" "wk_id v \<noteq> wid" for v
  proof -
    from that ids have "wk_id v \<in> wk_id ` set ws" by auto
    then obtain r where r: "r \<in> set ws" "wk_id r = wk_id v" by auto
    with rows [of r] that have "r \<in> set (db_weaknesses db)" by simp
    with r that unique have "r = v" by (metis distinct_map inj_on_eq_iff)
    with r show ?thesis by simp
  qed
  have "si_weakness_id i \<in> wk_id ` set ws \<and> (si_active i \<longrightarrow>
      (\<exists>v\<in>set ws. wk_id v = si_weakness_id i \<and> wk_target_status v = lit ''active''))"
    if i: "i \<in> set (db_scheduler ?db')" for i
  proof (cases "si_weakness_id i = wid")
    case True
    obtain r where "r \<in> set ws" "wk_id r = wid" using ids by (metis imageE insertI1)
    then show ?thesis using rows [of r] True schedule_target_items [OF i] by auto
  next
    case False
    then have "i \<in> set (db_scheduler db)" using schedule_target_items [OF i] by simp
    then show ?thesis using sched False ids kept by (fastforce simp: scheduler_wf_def)
  qed
  moreover have "distinct (map (\<lambda>i. (si_weakness_id i, si_track i)) (db_scheduler ?db'))"
    by (rule schedule_keys_distinct) (use sched in \<open>simp add: scheduler_wf_def\<close>)
  ultimately show ?thesis by (simp add: scheduler_wf_def ws)
qed

section \<open>The whole operation\<close>

lemma upsert_weakness_tx_Inr:
  assumes "upsert_weakness_tx w declared cand rel db = Inr ((wid, created), db')"
  obtains existing status ty is_active db1 db2 db3 where
    "existing = find (\<lambda>r. wk_key r = nw_key w) (db_weaknesses db)"
    and "created \<longleftrightarrow> existing = None"
    and "status = target_status_for w existing declared cand" and "ty = target_type_for w existing"
    and "active_flag_for_status status = Inr is_active"
    and "write_weakness w existing ty status is_active db = (wid, db1)"
    and "(if classification_supplied w \<or> created then replace_links w ty wid db1 else Inr db1) =
      Inr db2"
    and "(if rel then foldE (insert_target_relation (nw_key w)) db2 (nw_target_relations w)
      else Inr db2) = Inr db3"
    and "db' = schedule_target status wid db3" and "validate_primary_links db' = Inr ()"
proof -
  let ?e = "find (\<lambda>r. wk_key r = nw_key w) (db_weaknesses db)"
  let ?s = "target_status_for w ?e declared cand" and ?t = "target_type_for w ?e"
  from assms obtain is_active where flag: "active_flag_for_status ?s = Inr is_active"
    by (auto simp: upsert_weakness_tx_def Let_def bindE_Inr)
  obtain wid0 db1 where written: "write_weakness w ?e ?t ?s is_active db = (wid0, db1)"
    by (cases "write_weakness w ?e ?t ?s is_active db")
  have "bindE (if classification_supplied w \<or> ?e = None then replace_links w ?t wid0 db1
           else Inr db1) (\<lambda>db2.
      bindE (if rel then foldE (insert_target_relation (nw_key w)) db2 (nw_target_relations w)
             else Inr db2) (\<lambda>db3.
      bindE (validate_primary_links (schedule_target ?s wid0 db3)) (\<lambda>_.
        Inr ((wid0, ?e = None), schedule_target ?s wid0 db3)))) = Inr ((wid, created), db')"
    using assms by (simp add: upsert_weakness_tx_def Let_def flag written)
  then obtain db2 db3 u where
    "(if classification_supplied w \<or> ?e = None then replace_links w ?t wid0 db1 else Inr db1) = Inr db2"
    "(if rel then foldE (insert_target_relation (nw_key w)) db2 (nw_target_relations w)
      else Inr db2) = Inr db3"
    "validate_primary_links (schedule_target ?s wid0 db3) = Inr u"
    "wid0 = wid" "(?e = None) = created" "schedule_target ?s wid0 db3 = db'"
    by (simp only: bindE_Inr sum.inject prod.inject) blast
  with flag written show thesis by (intro that [of ?e ?s ?t is_active db1 db2 db3]) auto
qed

lemma validate_primary_links_Inr: "validate_primary_links db = Inr () \<longleftrightarrow> one_primary db"
  by (auto simp: validate_primary_links_def one_primary_def ok_simps filter_empty_conv)

lemma upsert_weakness_tx_keeps:
  assumes wf: "targets_wf db" and step: "upsert_weakness_tx w declared cand rel db = Inr ((wid, created), db')"
  shows "targets_wf db'"
proof (rule upsert_weakness_tx_Inr [OF step])
  fix existing status ty is_active db1 db2 db3
  assume found: "existing = find (\<lambda>r. wk_key r = nw_key w) (db_weaknesses db)"
    and flag: "active_flag_for_status status = Inr is_active"
    and written: "write_weakness w existing ty status is_active db = (wid, db1)"
    and links: "(if classification_supplied w \<or> created then replace_links w ty wid db1 else Inr db1) =
      Inr db2"
    and rels: "(if rel then foldE (insert_target_relation (nw_key w)) db2 (nw_target_relations w)
      else Inr db2) = Inr db3"
    and db': "db' = schedule_target status wid db3" and primary: "validate_primary_links db' = Inr ()"
  from wf have unique: "distinct (map wk_id (db_weaknesses db))" "distinct (map wk_key (db_weaknesses db))"
    and parts: "list_all status_wf (db_weaknesses db)" "links_known db" "scheduler_wf db" "relations_wf db"
    by (auto simp: targets_wf_def)
  from write_weakness_written [OF unique found written] obtain ws where
    row: "row_written (db_weaknesses db) wid w status is_active ws"
    and db1: "db1 = db\<lparr>db_weaknesses := ws\<rparr>" by auto
  have ids: "wk_id ` set ws = insert wid (wk_id ` set (db_weaknesses db))"
    using row by (simp add: row_written_def)
  have "links_known db1" using parts(2) ids by (auto simp: links_known_def db1)
  moreover have "wid \<in> wk_id ` set (db_weaknesses db1)" using ids by (simp add: db1)
  ultimately have 2: "links_known db2 \<and> (\<exists>ls. db2 = db1\<lparr>db_links := ls\<rparr>)"
    using links replace_links_known [of w ty wid db1 db2]
    by (auto split: if_splits intro!: exI [of _ "db_links db1"])
  then obtain ls where db2: "db2 = db1\<lparr>db_links := ls\<rparr>" by blast
  have "relations_wf db2" using parts(4) ids by (auto simp: relations_wf_def db2 db1)
  then have 3: "relations_wf db3 \<and> (\<exists>rs. db3 = db2\<lparr>db_relations := rs\<rparr>)"
    using rels insert_relations_wf [of "nw_key w" db2 "nw_target_relations w" db3]
    by (auto split: if_splits intro!: exI [of _ "db_relations db2"])
  then obtain rs where db3: "db3 = db2\<lparr>db_relations := rs\<rparr>" by blast
  have "scheduler_wf (schedule_target status wid (db\<lparr>db_weaknesses := ws\<rparr>))"
    by (rule schedule_target_wf [OF parts(3) unique(1) row])
  moreover have "status_wf r" if "r \<in> set ws" for r
    using row that flag parts(1) by (auto simp: row_written_def status_wf_def list_all_iff split: if_splits)
  moreover have "one_primary db'" using primary by (simp add: validate_primary_links_Inr)
  ultimately show "targets_wf db'"
    using 2 3 row unfolding db'
    by (auto simp: targets_wf_def scheduler_wf_def links_known_def relations_wf_def row_written_def
        list_all_iff schedule_target_def db3 db2 db1)
qed

text \<open>
  Property C24. \<open>upsert_weakness\<close> keeps the learning targets consistent: ids and keys are distinct, the
  active flag matches the status, every candidate or active target has exactly one primary
  concept, links and relations join known rows, and only active targets have active scheduler
  items. A refused request changes nothing.
\<close>

theorem upsert_weakness_keeps_targets:
  assumes "targets_wf db"
  shows "targets_wf (snd (upsert_weakness_json w db)) \<and>
    (isl (fst (upsert_weakness_json w db)) \<longrightarrow> snd (upsert_weakness_json w db) = db)"
  using assms upsert_weakness_tx_keeps
  by (cases "upsert_weakness_tx w False False True db") (auto simp: upsert_weakness_json_def)

section \<open>Activating a target\<close>

definition general_items :: "learning_db \<Rightarrow> nat \<Rightarrow> scheduler_item list" where
  "general_items db wid =
     filter (\<lambda>i. si_weakness_id i = wid \<and> si_track i = lit ''general'') (db_scheduler db)"

definition schedulable :: "learning_db \<Rightarrow> nat \<Rightarrow> bool" where
  "schedulable db wid \<longleftrightarrow> general_items db wid = [] \<or> list_ex si_active (general_items db wid)"

lemma in_queue_iff: "in_queue db r \<longleftrightarrow> wk_target_status r = lit ''active'' \<and> schedulable db (wk_id r)"
  by (simp add: in_queue_def schedulable_def general_items_def Let_def)

lemma schedulable_schedule_target:
  "schedulable (schedule_target (lit ''active'') wid db) wid \<longleftrightarrow> schedulable db wid"
  by (auto simp: schedulable_def general_items_def schedule_target_def ensure_scheduler_item_def
      list_ex_iff filter_empty_conv)

lemma upsert_weakness_tx_row:
  assumes wf: "targets_wf db" and step: "upsert_weakness_tx w declared cand rel db = Inr ((wid, created), db')"
    and active: "nw_active w = Some True"
  shows "(\<exists>r\<in>set (db_weaknesses db'). wk_id r = wid \<and> wk_key r = nw_key w \<and>
      wk_target_status r = lit ''active'') \<and> (schedulable db' wid \<longleftrightarrow> schedulable db wid)"
proof (rule upsert_weakness_tx_Inr [OF step])
  fix existing status ty is_active db1 db2 db3
  assume found: "existing = find (\<lambda>r. wk_key r = nw_key w) (db_weaknesses db)"
    and status: "status = target_status_for w existing declared cand"
    and written: "write_weakness w existing ty status is_active db = (wid, db1)"
    and links: "(if classification_supplied w \<or> created then replace_links w ty wid db1 else Inr db1) =
      Inr db2"
    and rels: "(if rel then foldE (insert_target_relation (nw_key w)) db2 (nw_target_relations w)
      else Inr db2) = Inr db3"
    and db': "db' = schedule_target status wid db3"
  have st: "status = lit ''active''" by (simp add: status target_status_for_def active)
  from wf have unique: "distinct (map wk_id (db_weaknesses db))" "distinct (map wk_key (db_weaknesses db))"
    by (auto simp: targets_wf_def)
  from write_weakness_written [OF unique found written] obtain ws where
    row: "row_written (db_weaknesses db) wid w status is_active ws"
    and db1: "db1 = db\<lparr>db_weaknesses := ws\<rparr>" by auto
  have same2: "db_weaknesses db2 = ws \<and> db_scheduler db2 = db_scheduler db"
    using links by (auto simp: db1 split: if_splits dest: replace_links_tables)
  have same3: "db_weaknesses db3 = ws \<and> db_scheduler db3 = db_scheduler db"
    using rels same2 by (auto split: if_splits dest: insert_relations_tables)
  have "wid \<in> wk_id ` set ws" using row by (simp add: row_written_def)
  then obtain r where "r \<in> set ws" "wk_id r = wid" by auto
  moreover from this have "wk_key r = nw_key w \<and> wk_target_status r = lit ''active''"
    using row st by (auto simp: row_written_def)
  moreover have "db_weaknesses db' = ws" using same3 by (simp add: db' schedule_target_def)
  moreover have "schedulable db' wid \<longleftrightarrow> schedulable db wid"
    unfolding db' st schedulable_schedule_target using same3 by (simp add: schedulable_def general_items_def)
  ultimately show ?thesis by blast
qed

text \<open>
  Property C25. Activating a target through \<open>upsert_weakness\<close> does not always put it into the
  queue: it enters the queue exactly when it had no scheduler item yet or its item was active
  already. A target that was suspended, which deactivates its item, is active again but is
  never offered: the item is inserted with \<open>INSERT OR IGNORE\<close>, which keeps the inactive one.
\<close>

theorem activated_target_queued_iff:
  assumes "targets_wf db" and "nw_active w = Some True"
    and "upsert_weakness_json w db = (Inr (wid, created), db')"
  shows "\<exists>r\<in>set (db_weaknesses db'). wk_id r = wid \<and> wk_key r = nw_key w \<and>
    wk_target_status r = lit ''active'' \<and> (in_queue db' r \<longleftrightarrow> schedulable db wid)"
proof -
  have "upsert_weakness_tx w False False True db = Inr ((wid, created), db')"
    using assms(3) by (auto simp: upsert_weakness_json_def split: sum.splits)
  from upsert_weakness_tx_row [OF assms(1) this assms(2)] show ?thesis
    by (auto simp: in_queue_iff)
qed

definition suspended_target :: learning_db where
  "suspended_target = sample_taxonomy\<lparr>
     db_weaknesses := [\<lparr>wk_id = 1, wk_key = lit ''w'', wk_category = lit ''g'',
       wk_description = lit ''d'', wk_target_pattern = None, wk_recommended_drill_types = None,
       wk_target_type = lit ''lexical_item'', wk_target_status = lit ''suspended'',
       wk_classification_pending = False, wk_active = False\<rparr>],
     db_links := [\<lparr>wc_weakness_id = 1, wc_concept_id = 2, wc_role = lit ''primary''\<rparr>],
     db_scheduler := [\<lparr>si_id = 1, si_weakness_id = 1, si_track = lit ''general'',
       si_active = False\<rparr>]\<rparr>"

definition activation :: new_weakness_input where
  "activation =
     \<lparr>nw_key = lit ''w'', nw_category = lit ''g'', nw_description = lit ''d'',
      nw_target_pattern = None, nw_recommended_drill_types = None, nw_active = Some True,
      nw_target_type = None, nw_primary_concept_key = None, nw_concept_links = [],
      nw_target_relations = []\<rparr>"

lemma suspended_target_wf: "targets_wf suspended_target"
  by (simp add: targets_wf_def suspended_target_def taxonomy_samples status_wf_def
      active_flag_for_status_def one_primary_def open_target_def links_known_def scheduler_wf_def
      relations_wf_def)

lemma activation_accepted:
  "map_sum (\<lambda>e. e) (\<lambda>r. r) (fst (upsert_weakness_json activation suspended_target)) = Inr (1, False)"
  by code_simp

theorem activated_target_queued_iff_witness:
  "\<exists>db'. upsert_weakness_json activation suspended_target = (Inr (1, False), db') \<and>
     (\<exists>r\<in>set (db_weaknesses db'). wk_target_status r = lit ''active'' \<and> \<not> in_queue db' r)"
proof -
  obtain db' where up: "upsert_weakness_json activation suspended_target = (Inr (1, False), db')"
    using activation_accepted
    by (cases "upsert_weakness_json activation suspended_target") (auto simp: map_sum_def split: sum.splits)
  have "\<not> schedulable suspended_target 1" by code_simp
  with activated_target_queued_iff [OF suspended_target_wf _ up] up show ?thesis
    by (auto simp: activation_def)
qed

theorem upsert_weakness_keeps_targets_witness:
  "targets_wf (snd (upsert_weakness_json activation suspended_target)) \<and>
   fst (upsert_weakness_json activation suspended_target) = Inr (1, False)"
  using upsert_weakness_keeps_targets [OF suspended_target_wf, of activation] activation_accepted
  by (auto simp: map_sum_def split: sum.splits)

end
