(* ===== verification/Handoff.thy ===== *)
theory Handoff
  imports Prelude "HOL-Library.List_Lexorder" "HOL-Library.Product_Lexorder"
    "HOL-Library.AList"
begin

text \<open>
  Tutor handoffs, \<open>src/workflow.rs\<close>, with the reader \<open>session_evidence\<close> of
  \<open>src/curriculum.rs\<close>: a frozen copy of a recorded session, one feedback on it, and the
  learner's repairs. The tables hold the columns these functions read. JSON texts are the
  values they encode; the sizes of the encodings are the parameters \<open>source_bytes\<close> and
  \<open>body_bytes\<close>, new identifiers and the clock are arguments.
\<close>

section \<open>Tables\<close>

record stored_session =
  ss_id :: int
  ss_topic :: "ustring option"

record stored_item =
  st_id :: int
  st_item_no :: int
  st_prompt :: ustring
  st_effective_status :: ustring

record stored_attempt =
  sa_id :: int
  sa_session_id :: int
  sa_practice_item_id :: "int option"
  sa_attempt_no :: int
  sa_transcript :: ustring
  sa_response_mode :: "ustring option"
  sa_actual_duration_milliseconds :: "int option"

record stored_requirement =
  sr_session_id :: "int option"
  sr_practice_item_id :: "int option"
  sr_task_key :: ustring
  sr_skill :: ustring
  sr_requested_points :: "ustring list"
  sr_source :: ustring

record stored_assessment =
  sx_id :: int
  sx_attempt_id :: int
  sx_point_key :: ustring
  sx_status :: ustring
  sx_supporting_excerpt :: "ustring option"
  sx_reason :: "ustring option"
  sx_evaluator :: ustring

record snapshot_attempt =
  na_attempt_no :: int
  na_item_no :: int
  na_transcript :: ustring
  na_prompt :: ustring
  na_response_mode :: "ustring option"
  na_duration_ms :: "int option"

record snapshot_requirement =
  nr_task_key :: ustring
  nr_skill :: ustring
  nr_requested_points :: "ustring list"
  nr_source :: ustring
  nr_item_no :: "int option"

record snapshot_assessment =
  ns_attempt_no :: int
  ns_point_key :: ustring
  ns_status :: ustring
  ns_supporting_excerpt :: "ustring option"
  ns_reason :: "ustring option"
  ns_evaluator :: ustring

record snapshot_rec =
  sn_session_id :: int
  sn_topic :: "ustring option"
  sn_attempts :: "snapshot_attempt list"
  sn_requirements :: "snapshot_requirement list"
  sn_point_assessments :: "snapshot_assessment list"

datatype point_status = Point_Met | Point_Partial | Point_Missing | Point_Unclear

fun point_status_as_str :: "point_status \<Rightarrow> string" where
  "point_status_as_str Point_Met = ''met''"
| "point_status_as_str Point_Partial = ''partial''"
| "point_status_as_str Point_Missing = ''missing''"
| "point_status_as_str Point_Unclear = ''unclear''"

record create_handoff =
  ch_workspace_ref :: ustring
  ch_session_id :: int

record tutor_repair =
  tp_attempt_no :: int
  tp_original :: ustring
  tp_hint :: ustring
  tp_suggestion :: ustring
  tp_explanation :: ustring

record tutor_point =
  tn_attempt_no :: int
  tn_point_key :: ustring
  tn_status :: point_status
  tn_supporting_excerpt :: "ustring option"
  tn_reason :: ustring

record tutor_feedback =
  tf_handoff_id :: ustring
  tf_idempotency_key :: ustring
  tf_summary :: ustring
  tf_repairs :: "tutor_repair list"
  tf_point_assessments :: "tutor_point list"

record save_repair =
  sv_idempotency_key :: ustring
  sv_repair_no :: nat
  sv_response :: ustring

record handoff_row =
  hr_id :: ustring
  hr_workspace_ref :: ustring
  hr_session_id :: int
  hr_snapshot :: snapshot_rec
  hr_created_at :: ustring

record feedback_row =
  fr_id :: nat
  fr_handoff_id :: ustring
  fr_idempotency_key :: ustring
  fr_body :: tutor_feedback

record repair_row =
  rr_id :: nat
  rr_handoff_id :: ustring
  rr_repair_no :: nat
  rr_response :: ustring
  rr_idempotency_key :: ustring
  rr_created_at :: ustring

record study_db =
  sd_sessions :: "stored_session list"
  sd_items :: "stored_item list"
  sd_attempts :: "stored_attempt list"
  sd_requirements :: "stored_requirement list"
  sd_assessments :: "stored_assessment list"
  sd_handoffs :: "handoff_row list"
  sd_feedback :: "feedback_row list"
  sd_repairs :: "repair_row list"

section \<open>The source of a handoff\<close>

definition need_text :: "ustring \<Rightarrow> nat \<Rightarrow> string \<Rightarrow> string + unit" where
  "need_text v limit e = bail_if (blank v \<or> blen v > limit) e"

definition item_row :: "study_db \<Rightarrow> int option \<Rightarrow> stored_item option" where
  "item_row db i = (case i of None \<Rightarrow> None | Some k \<Rightarrow> find (\<lambda>p. st_id p = k) (sd_items db))"

definition active_item :: "stored_item \<Rightarrow> bool" where
  "active_item p \<longleftrightarrow> st_effective_status p = lit ''active''"

text \<open>A left join on the item that keeps rows without an item and rows of an active item.\<close>

definition item_absent_or_active :: "study_db \<Rightarrow> int option \<Rightarrow> bool" where
  "item_absent_or_active db i \<longleftrightarrow> (case item_row db i of None \<Rightarrow> True | Some p \<Rightarrow> active_item p)"

definition session_requirements :: "study_db \<Rightarrow> int \<Rightarrow> snapshot_requirement list" where
  "session_requirements db sid =
     map (\<lambda>t. \<lparr>nr_task_key = sr_task_key t, nr_skill = sr_skill t,
         nr_requested_points = sr_requested_points t, nr_source = sr_source t,
         nr_item_no = map_option st_item_no (item_row db (sr_practice_item_id t))\<rparr>)
       (filter (\<lambda>t. sr_session_id t = Some sid \<and> item_absent_or_active db (sr_practice_item_id t))
         (sd_requirements db))"

definition session_assessments :: "study_db \<Rightarrow> int \<Rightarrow> snapshot_assessment list" where
  "session_assessments db sid =
     sort_key (\<lambda>x. (ns_attempt_no x, ns_point_key x))
      [\<lparr>ns_attempt_no = sa_attempt_no a, ns_point_key = sx_point_key r, ns_status = sx_status r,
        ns_supporting_excerpt = sx_supporting_excerpt r, ns_reason = sx_reason r,
        ns_evaluator = sx_evaluator r\<rparr>.
       r \<leftarrow> sd_assessments db, a \<leftarrow> filter (\<lambda>a. sa_id a = sx_attempt_id r \<and>
         sa_session_id a = sid \<and> item_absent_or_active db (sa_practice_item_id a)) (sd_attempts db)]"

definition session_attempts :: "study_db \<Rightarrow> int \<Rightarrow> snapshot_attempt list" where
  "session_attempts db sid = take 65 (sort_key na_attempt_no
      [\<lparr>na_attempt_no = sa_attempt_no a, na_item_no = st_item_no p, na_transcript = sa_transcript a,
        na_prompt = st_prompt p, na_response_mode = sa_response_mode a,
        na_duration_ms = sa_actual_duration_milliseconds a\<rparr>.
       a \<leftarrow> filter (\<lambda>a. sa_session_id a = sid) (sd_attempts db),
       p \<leftarrow> filter active_item (case item_row db (sa_practice_item_id a) of
         None \<Rightarrow> [] | Some p \<Rightarrow> [p])])"

definition snapshot :: "(snapshot_rec \<Rightarrow> nat) \<Rightarrow> study_db \<Rightarrow> int \<Rightarrow> string + snapshot_rec" where
  "snapshot source_bytes db sid =
     bindE (ok_or (find (\<lambda>s. ss_id s = sid) (sd_sessions db)) ''not_found: session'') (\<lambda>s.
     let attempts = session_attempts db sid in
     bindE (bail_if (attempts = [] \<or> length attempts > 64)
       ''invalid: handoff needs 1-64 active item-linked attempts'') (\<lambda>_.
     let out = \<lparr>sn_session_id = sid, sn_topic = ss_topic s, sn_attempts = attempts,
       sn_requirements = session_requirements db sid,
       sn_point_assessments = session_assessments db sid\<rparr> in
     bindE (bail_if (source_bytes out > 128 * 1024) ''invalid: handoff source too large'') (\<lambda>_.
     Inr out)))"

section \<open>Reading and creating\<close>

record handoff_view =
  hv_handoff_id :: ustring
  hv_workspace_ref :: ustring
  hv_session_id :: int
  hv_snapshot :: snapshot_rec
  hv_source_current :: bool
  hv_created_at :: ustring
  hv_feedback :: "(nat \<times> tutor_feedback) option"
  hv_repair_attempts :: "(nat \<times> ustring \<times> ustring) list"

definition handoff_feedback_row :: "study_db \<Rightarrow> ustring \<Rightarrow> feedback_row option" where
  "handoff_feedback_row db hid = find (\<lambda>f. fr_handoff_id f = hid) (sd_feedback db)"

definition handoff_repair_rows :: "study_db \<Rightarrow> ustring \<Rightarrow> repair_row list" where
  "handoff_repair_rows db hid = filter (\<lambda>r. rr_handoff_id r = hid) (sd_repairs db)"

definition handoff_get :: "(snapshot_rec \<Rightarrow> nat) \<Rightarrow> study_db \<Rightarrow> ustring \<Rightarrow> string + handoff_view" where
  "handoff_get source_bytes db hid =
     bindE (need_text hid 160 ''invalid: handoff_id must be nonempty and at most 160 bytes'') (\<lambda>_.
     bindE (ok_or (find (\<lambda>h. hr_id h = hid) (sd_handoffs db)) ''not_found: handoff'') (\<lambda>h.
     Inr \<lparr>hv_handoff_id = hid, hv_workspace_ref = hr_workspace_ref h,
       hv_session_id = hr_session_id h, hv_snapshot = hr_snapshot h,
       hv_source_current = (snapshot source_bytes db (hr_session_id h) = Inr (hr_snapshot h)),
       hv_created_at = hr_created_at h,
       hv_feedback = map_option (\<lambda>f. (fr_id f, fr_body f)) (handoff_feedback_row db hid),
       hv_repair_attempts = map (\<lambda>r. (rr_repair_no r, rr_response r, rr_created_at r))
         (sort_key rr_id (handoff_repair_rows db hid))\<rparr>))"

definition handoff_create ::
    "(snapshot_rec \<Rightarrow> nat) \<Rightarrow> ustring \<Rightarrow> ustring \<Rightarrow> create_handoff \<Rightarrow> study_db \<Rightarrow>
     (string + handoff_view) \<times> study_db" where
  "handoff_create source_bytes new_id now req db =
     (case seqE
        [need_text (ch_workspace_ref req) 160
           ''invalid: workspace_ref must be nonempty and at most 160 bytes'',
         bail_if (ch_session_id req \<le> 0) ''invalid: positive session_id required''] of
        Inl e \<Rightarrow> (Inl e, db)
      | Inr _ \<Rightarrow>
        (case find (\<lambda>h. hr_workspace_ref h = ch_workspace_ref req) (sd_handoffs db) of
           Some h \<Rightarrow>
             if hr_session_id h \<noteq> ch_session_id req
             then (Inl ''conflict: workspace already points to another session'', db)
             else (handoff_get source_bytes db (hr_id h), db)
         | None \<Rightarrow>
            (case snapshot source_bytes db (ch_session_id req) of
               Inl e \<Rightarrow> (Inl e, db)
             | Inr source \<Rightarrow>
                 if list_ex (\<lambda>h. hr_id h = new_id) (sd_handoffs db)
                 then (Inl ''UNIQUE constraint failed: tutor_handoffs.id'', db)
                 else (let db' = db\<lparr>sd_handoffs := sd_handoffs db @
                         [\<lparr>hr_id = new_id, hr_workspace_ref = ch_workspace_ref req,
                           hr_session_id = ch_session_id req, hr_snapshot = source,
                           hr_created_at = now\<rparr>]\<rparr>
                       in (handoff_get source_bytes db' new_id, db')))))"

section \<open>Feedback\<close>

definition snapshot_attempt_no :: "snapshot_rec \<Rightarrow> int \<Rightarrow> string + snapshot_attempt" where
  "snapshot_attempt_no s no =
     ok_or (find (\<lambda>a. na_attempt_no a = no) (sn_attempts s)) ''invalid: unknown attempt_no''"

definition check_repair :: "snapshot_rec \<Rightarrow> tutor_repair \<Rightarrow> string + unit" where
  "check_repair s r =
     bindE (snapshot_attempt_no s (tp_attempt_no r)) (\<lambda>a.
     seqE
      [need_text (tp_original r) 2000 ''invalid: original'',
       need_text (tp_hint r) 2000 ''invalid: hint'',
       need_text (tp_suggestion r) 2000 ''invalid: suggestion'',
       need_text (tp_explanation r) 2000 ''invalid: explanation'',
       bail_if (\<not> contains (na_transcript a) (tp_original r))
         ''invalid: repair excerpt is absent from its attempt''])"

definition point_requested :: "snapshot_rec \<Rightarrow> snapshot_attempt \<Rightarrow> ustring \<Rightarrow> bool" where
  "point_requested s a k \<longleftrightarrow> list_ex (\<lambda>r. nr_item_no r = Some (na_item_no a) \<and>
     k \<in> set (nr_requested_points r)) (sn_requirements s)"

text \<open>The state of the loop is the set of assessed points.\<close>

definition check_point ::
    "snapshot_rec \<Rightarrow> (int \<times> ustring) set \<Rightarrow> tutor_point \<Rightarrow> string + (int \<times> ustring) set" where
  "check_point s assessed p =
     bindE (snapshot_attempt_no s (tn_attempt_no p)) (\<lambda>a.
     bindE (seqE
      [need_text (tn_point_key p) 500 ''invalid: point_key'',
       need_text (tn_reason p) 2000 ''invalid: reason'',
       bail_if ((tn_attempt_no p, tn_point_key p) \<in> assessed) ''invalid: duplicate point assessment'',
       bail_if (\<not> point_requested s a (tn_point_key p))
         ''invalid: point is not requested by the task of this attempt'',
       optE (tn_supporting_excerpt p) (\<lambda>x. seqE
         [need_text x 2000 ''invalid: supporting_excerpt'',
          bail_if (\<not> contains (na_transcript a) x)
            ''invalid: point excerpt is absent from its attempt'']),
       bail_if (tn_status p \<in> {Point_Met, Point_Partial} \<and> tn_supporting_excerpt p = None)
         ''invalid: met/partial points require an excerpt'']) (\<lambda>_.
     Inr (insert (tn_attempt_no p, tn_point_key p) assessed)))"

datatype feedback_status = Feedback_Replayed | Feedback_Created

definition check_feedback :: "(snapshot_rec \<Rightarrow> nat) \<Rightarrow> tutor_feedback \<Rightarrow> study_db \<Rightarrow> string + unit" where
  "check_feedback source_bytes req db =
     bindE (seqE
      [need_text (tf_summary req) 4000 ''invalid: summary must be nonempty and at most 4000 bytes'',
       bail_if (length (tf_repairs req) > 2 \<or> length (tf_point_assessments req) > 40)
         ''invalid: at most two repairs and forty point assessments'']) (\<lambda>_.
     bindE (handoff_get source_bytes db (tf_handoff_id req)) (\<lambda>h.
     seqE
      [bail_if (\<not> hv_source_current h)
         ''conflict: handoff source changed; create a new workspace handoff'',
       bail_if (hv_feedback h \<noteq> None)
         ''conflict: feedback already exists; original assessment is immutable'',
       forE (check_repair (hv_snapshot h)) (tf_repairs req),
       mapE (\<lambda>_. ()) (foldE (check_point (hv_snapshot h)) {} (tf_point_assessments req))]))"

definition feedback ::
    "(snapshot_rec \<Rightarrow> nat) \<Rightarrow> (tutor_feedback \<Rightarrow> nat) \<Rightarrow> tutor_feedback \<Rightarrow> study_db \<Rightarrow>
     (string + handoff_view \<times> feedback_status) \<times> study_db" where
  "feedback source_bytes body_bytes req db =
     (case seqE
        [need_text (tf_idempotency_key req) 160
           ''invalid: idempotency_key must be nonempty and at most 160 bytes'',
         bail_if (body_bytes req > 65536) ''invalid: feedback too large''] of
        Inl e \<Rightarrow> (Inl e, db)
      | Inr _ \<Rightarrow>
        (case find (\<lambda>f. fr_idempotency_key f = tf_idempotency_key req) (sd_feedback db) of
           Some f \<Rightarrow>
             if fr_body f \<noteq> req
             then (Inl ''conflict: feedback idempotency key has a different payload'', db)
             else (mapE (\<lambda>v. (v, Feedback_Replayed)) (handoff_get source_bytes db (fr_handoff_id f)), db)
         | None \<Rightarrow>
            (case check_feedback source_bytes req db of
               Inl e \<Rightarrow> (Inl e, db)
             | Inr _ \<Rightarrow>
                (let db' = db\<lparr>sd_feedback := sd_feedback db @
                   [\<lparr>fr_id = Suc (foldr max (map fr_id (sd_feedback db)) 0),
                     fr_handoff_id = tf_handoff_id req,
                     fr_idempotency_key = tf_idempotency_key req, fr_body = req\<rparr>]\<rparr>
                 in (mapE (\<lambda>v. (v, Feedback_Created))
                      (handoff_get source_bytes db' (tf_handoff_id req)), db')))))"

section \<open>Repairs\<close>

definition feedback_repairs :: "handoff_view \<Rightarrow> nat" where
  "feedback_repairs h = (case hv_feedback h of None \<Rightarrow> 0 | Some (_, b) \<Rightarrow> length (tf_repairs b))"

definition check_repair_request :: "save_repair \<Rightarrow> handoff_view \<Rightarrow> string + unit" where
  "check_repair_request req h =
     seqE
      [bail_if (sv_repair_no req = 0 \<or> sv_repair_no req > feedback_repairs h)
         ''invalid: unknown repair_no'',
       bail_if (\<not> hv_source_current h) ''conflict: source is no longer current'']"

definition repair ::
    "(snapshot_rec \<Rightarrow> nat) \<Rightarrow> ustring \<Rightarrow> ustring \<Rightarrow> save_repair \<Rightarrow> study_db \<Rightarrow>
     (string + handoff_view) \<times> study_db" where
  "repair source_bytes now hid req db =
     (case bindE (seqE
        [need_text (sv_idempotency_key req) 160
           ''invalid: idempotency_key must be nonempty and at most 160 bytes'',
         need_text (sv_response req) 4000
           ''invalid: response must be nonempty and at most 4000 bytes'']) (\<lambda>_.
        bindE (handoff_get source_bytes db hid) (check_repair_request req)) of
        Inl e \<Rightarrow> (Inl e, db)
      | Inr _ \<Rightarrow>
        (case find (\<lambda>r. rr_idempotency_key r = sv_idempotency_key req) (sd_repairs db) of
           Some r \<Rightarrow>
             if rr_handoff_id r \<noteq> hid \<or> rr_repair_no r \<noteq> sv_repair_no req \<or>
               rr_response r \<noteq> sv_response req
             then (Inl ''conflict: repair idempotency key has a different payload'', db)
             else (handoff_get source_bytes db hid, db)
         | None \<Rightarrow>
             if length (handoff_repair_rows db hid) \<ge> 64
             then (Inl ''invalid: repair attempt limit reached'', db)
             else (let db' = db\<lparr>sd_repairs := sd_repairs db @
                     [\<lparr>rr_id = Suc (foldr max (map rr_id (sd_repairs db)) 0), rr_handoff_id = hid,
                       rr_repair_no = sv_repair_no req, rr_response = sv_response req,
                       rr_idempotency_key = sv_idempotency_key req, rr_created_at = now\<rparr>]\<rparr>
                   in (handoff_get source_bytes db' hid, db'))))"

section \<open>Next actions and task gaps\<close>

text \<open>\<open>ORDER BY created_at DESC\<close>, rows of the same time in table order.\<close>

definition newest_first :: "handoff_row list \<Rightarrow> handoff_row list" where
  "newest_first hs = rev (sort_key hr_created_at (rev hs))"

record repair_action =
  ra_handoff_id :: ustring
  ra_workspace_ref :: ustring
  ra_session_id :: int
  ra_remaining_repairs :: nat

definition repairs_done :: "study_db \<Rightarrow> ustring \<Rightarrow> nat" where
  "repairs_done db hid = length (remdups (map rr_repair_no (handoff_repair_rows db hid)))"

definition action_of ::
    "(snapshot_rec \<Rightarrow> nat) \<Rightarrow> study_db \<Rightarrow> repair_action list \<Rightarrow> handoff_row \<Rightarrow>
     string + repair_action list" where
  "action_of source_bytes db out h =
     (case handoff_feedback_row db (hr_id h) of
        None \<Rightarrow> Inr out
      | Some f \<Rightarrow>
         (let count = length (tf_repairs (fr_body f)); finished = repairs_done db (hr_id h) in
          if count > finished
          then bindE (handoff_get source_bytes db (hr_id h)) (\<lambda>v.
             Inr (if hv_source_current v
               then out @ [\<lparr>ra_handoff_id = hr_id h, ra_workspace_ref = hr_workspace_ref h,
                 ra_session_id = hr_session_id h, ra_remaining_repairs = count - finished\<rparr>]
               else out))
          else Inr out))"

definition actions :: "(snapshot_rec \<Rightarrow> nat) \<Rightarrow> study_db \<Rightarrow> string + repair_action list" where
  "actions source_bytes db =
     foldE (action_of source_bytes db) [] (take 20 (newest_first (sd_handoffs db)))"

text \<open>
  \<open>task_gaps\<close>: the latest session of the task family, the assessments recorded with it, then
  those of its current handoffs. \<open>accept\<close> keeps the assessment of the latest attempt.
\<close>

type_synonym latest_points = "((int \<times> ustring) \<times> (int \<times> bool)) list"

definition accept_point :: "latest_points \<Rightarrow> int \<times> ustring \<times> int \<times> ustring \<Rightarrow> latest_points" where
  "accept_point latest x =
     (let (item, point, att, status) = x;
          new = (att, status \<in> {lit ''partial'', lit ''missing''})
      in AList.update (item, point)
        (case map_of latest (item, point) of
           None \<Rightarrow> new
         | Some old \<Rightarrow> if att \<ge> fst old then new else old) latest)"

definition task_session :: "study_db \<Rightarrow> ustring \<Rightarrow> int option" where
  "task_session db k =
     (let ids = concat (map (\<lambda>t. case (sr_session_id t, item_row db (sr_practice_item_id t)) of
          (Some sid, Some p) \<Rightarrow> if sr_task_key t = k \<and> active_item p then [sid] else []
        | _ \<Rightarrow> []) (sd_requirements db))
      in if ids = [] then None else Some (foldr max ids (hd ids)))"

definition canonical_points :: "study_db \<Rightarrow> int \<Rightarrow> ustring \<Rightarrow> (int \<times> ustring \<times> int \<times> ustring) list" where
  "canonical_points db sid k = take 300 (map snd (sort_key fst
     [((sa_attempt_no a, sx_id r), (st_item_no p, sx_point_key r, sa_attempt_no a, sx_status r)).
      r \<leftarrow> filter (\<lambda>r. sx_evaluator r \<noteq> lit ''learner_self_report'') (sd_assessments db),
      a \<leftarrow> filter (\<lambda>a. sa_id a = sx_attempt_id r \<and> sa_session_id a = sid) (sd_attempts db),
      p \<leftarrow> filter active_item (case item_row db (sa_practice_item_id a) of
        None \<Rightarrow> [] | Some p \<Rightarrow> [p]),
      t \<leftarrow> filter (\<lambda>t. sr_practice_item_id t = Some (st_id p) \<and> sr_task_key t = k)
        (sd_requirements db)]))"

definition handoff_points ::
    "ustring \<Rightarrow> handoff_view \<Rightarrow> (int \<times> ustring \<times> int \<times> ustring) list" where
  "handoff_points k v =
     (if \<not> hv_source_current v then []
      else case hv_feedback v of
        None \<Rightarrow> []
      | Some (_, b) \<Rightarrow> concat (map (\<lambda>p.
          case find (\<lambda>a. na_attempt_no a = tn_attempt_no p) (sn_attempts (hv_snapshot v)) of
            None \<Rightarrow> []
          | Some a \<Rightarrow>
              if list_ex (\<lambda>r. nr_item_no r = Some (na_item_no a) \<and> nr_task_key r = k)
                (sn_requirements (hv_snapshot v))
              then [(na_item_no a, tn_point_key p, tn_attempt_no p,
                     lit (point_status_as_str (tn_status p)))]
              else []) (tf_point_assessments b)))"

definition task_gaps :: "(snapshot_rec \<Rightarrow> nat) \<Rightarrow> study_db \<Rightarrow> ustring \<Rightarrow> string + nat" where
  "task_gaps source_bytes db k =
     (case task_session db k of
        None \<Rightarrow> Inr 0
      | Some sid \<Rightarrow>
         bindE (foldE (\<lambda>latest h. bindE (handoff_get source_bytes db (hr_id h)) (\<lambda>v.
             Inr (foldl accept_point latest (handoff_points k v))))
           (foldl accept_point [] (canonical_points db sid k))
           (take 20 (filter (\<lambda>h. hr_session_id h = sid) (sd_handoffs db)))) (\<lambda>latest.
         Inr (length (filter (\<lambda>e. snd (snd e)) latest))))"

end
