(* ===== verification/HandoffRuns.thy ===== *)
theory HandoffRuns
  imports Handoff Idempotence
begin

text \<open>
  The runs of the handoff workflow, with any change of the recorded sessions in between: what
  a stored feedback satisfies, what is never rewritten, and what a retry returns.
\<close>

section \<open>Well-formed handoffs\<close>

definition attempt_in :: "snapshot_rec \<Rightarrow> int \<Rightarrow> snapshot_attempt option" where
  "attempt_in s no = find (\<lambda>a. na_attempt_no a = no) (sn_attempts s)"

definition repair_valid :: "snapshot_rec \<Rightarrow> tutor_repair \<Rightarrow> bool" where
  "repair_valid s r \<longleftrightarrow>
     some_and (attempt_in s (tp_attempt_no r)) (\<lambda>a. contains (na_transcript a) (tp_original r)) \<and>
     text_ok (tp_original r) 2000 \<and> text_ok (tp_hint r) 2000 \<and>
     text_ok (tp_suggestion r) 2000 \<and> text_ok (tp_explanation r) 2000"

definition point_valid :: "snapshot_rec \<Rightarrow> tutor_point \<Rightarrow> bool" where
  "point_valid s p \<longleftrightarrow>
     some_and (attempt_in s (tn_attempt_no p)) (\<lambda>a. point_requested s a (tn_point_key p) \<and>
       (case tn_supporting_excerpt p of
          None \<Rightarrow> tn_status p \<notin> {Point_Met, Point_Partial}
        | Some x \<Rightarrow> text_ok x 2000 \<and> contains (na_transcript a) x)) \<and>
     text_ok (tn_point_key p) 500 \<and> text_ok (tn_reason p) 2000"

definition feedback_valid :: "snapshot_rec \<Rightarrow> tutor_feedback \<Rightarrow> bool" where
  "feedback_valid s b \<longleftrightarrow> text_ok (tf_summary b) 4000 \<and> length (tf_repairs b) \<le> 2 \<and>
     length (tf_point_assessments b) \<le> 40 \<and> list_all (repair_valid s) (tf_repairs b) \<and>
     list_all (point_valid s) (tf_point_assessments b) \<and>
     distinct (map (\<lambda>p. (tn_attempt_no p, tn_point_key p)) (tf_point_assessments b))"

definition handoff_wf :: "study_db \<Rightarrow> bool" where
  "handoff_wf db \<longleftrightarrow>
     distinct (map hr_id (sd_handoffs db)) \<and> distinct (map hr_workspace_ref (sd_handoffs db)) \<and>
     (\<forall>h\<in>set (sd_handoffs db). 1 \<le> length (sn_attempts (hr_snapshot h)) \<and>
        length (sn_attempts (hr_snapshot h)) \<le> 64) \<and>
     distinct (map fr_handoff_id (sd_feedback db)) \<and>
     distinct (map fr_idempotency_key (sd_feedback db)) \<and>
     (\<forall>f\<in>set (sd_feedback db). tf_idempotency_key (fr_body f) = fr_idempotency_key f \<and>
        tf_handoff_id (fr_body f) = fr_handoff_id f \<and> text_ok (fr_handoff_id f) 160 \<and>
        (\<exists>h\<in>set (sd_handoffs db). hr_id h = fr_handoff_id f \<and> feedback_valid (hr_snapshot h) (fr_body f))) \<and>
     distinct (map rr_idempotency_key (sd_repairs db)) \<and>
     (\<forall>r\<in>set (sd_repairs db). 1 \<le> rr_repair_no r \<and>
        (\<exists>f\<in>set (sd_feedback db). fr_handoff_id f = rr_handoff_id r \<and>
           rr_repair_no r \<le> length (tf_repairs (fr_body f)))) \<and>
     (\<forall>hid. length (handoff_repair_rows db hid) \<le> 64)"

section \<open>The checks of a feedback\<close>

lemma need_text_Inr [ok_simps]: "need_text v limit e = Inr u \<longleftrightarrow> text_ok v limit"
  by (auto simp: need_text_def text_ok_def ok_simps)

lemma check_repair_iff: "check_repair s r = Inr () \<longleftrightarrow> repair_valid s r"
  by (auto simp: check_repair_def repair_valid_def snapshot_attempt_no_def attempt_in_def ok_simps
      some_and_iff)

lemma check_point_iff:
  "check_point s seen p = Inr seen' \<longleftrightarrow> point_valid s p \<and>
     (tn_attempt_no p, tn_point_key p) \<notin> seen \<and> seen' = insert (tn_attempt_no p, tn_point_key p) seen"
  by (cases "tn_supporting_excerpt p")
    (auto simp: check_point_def point_valid_def snapshot_attempt_no_def attempt_in_def ok_simps
      some_and_iff)

interpretation point_loop: unique_check "\<lambda>p. (tn_attempt_no p, tn_point_key p)" "\<lambda>s. s"
    "check_point s" "point_valid s"
  for s
  by unfold_locales (auto simp: check_point_iff)

lemma check_feedback_iff:
  "check_feedback sb req db = Inr () \<longleftrightarrow> (\<exists>v. handoff_get sb db (tf_handoff_id req) = Inr v \<and>
     hv_source_current v \<and> hv_feedback v = None \<and> feedback_valid (hv_snapshot v) req)"
proof -
  have points: "mapE (\<lambda>_. ()) (foldE (check_point s) {} ps) = Inr () \<longleftrightarrow>
      distinct (map (\<lambda>p. (tn_attempt_no p, tn_point_key p)) ps) \<and> list_all (point_valid s) ps" for s ps
    using point_loop.loop_unique_iff [of s "{}" ps] by (simp add: mapE_Inr list_all_iff)
  show ?thesis
    unfolding check_feedback_def bindE_Inr seqE_Inr
    by (auto simp: ok_simps points feedback_valid_def list_all_iff check_repair_iff not_less
        simp del: mapE_Inr not_None_eq split_paired_Ex)
qed

section \<open>Runs\<close>

text \<open>Any change of the recorded sessions: the handoff tables stay as they are.\<close>

inductive handoff_step ::
    "(snapshot_rec \<Rightarrow> nat) \<Rightarrow> (tutor_feedback \<Rightarrow> nat) \<Rightarrow> study_db \<Rightarrow> study_db \<Rightarrow> bool"
  for sb :: "snapshot_rec \<Rightarrow> nat" and bb :: "tutor_feedback \<Rightarrow> nat" where
  create_step: "handoff_step sb bb db (snd (handoff_create sb new_id now req db))"
| feedback_step: "handoff_step sb bb db (snd (feedback sb bb freq db))"
| repair_step: "handoff_step sb bb db (snd (repair sb now hid rreq db))"
| study_step: "sd_handoffs db' = sd_handoffs db \<Longrightarrow> sd_feedback db' = sd_feedback db \<Longrightarrow>
    sd_repairs db' = sd_repairs db \<Longrightarrow> handoff_step sb bb db db'"

definition handoff_reachable ::
    "(snapshot_rec \<Rightarrow> nat) \<Rightarrow> (tutor_feedback \<Rightarrow> nat) \<Rightarrow> study_db \<Rightarrow> study_db \<Rightarrow> bool" where
  "handoff_reachable sb bb = (handoff_step sb bb)\<^sup>*\<^sup>*"

text \<open>The three writes: each appends one row that its checks admit, or changes nothing.\<close>

lemma snapshot_attempts:
  "snapshot sb db sid = Inr s \<Longrightarrow> 1 \<le> length (sn_attempts s) \<and> length (sn_attempts s) \<le> 64"
  by (auto simp: snapshot_def Let_def ok_simps not_less Suc_le_eq)

lemma handoff_create_cases:
  obtains "snd (handoff_create sb new_id now req db) = db"
  | h where "snd (handoff_create sb new_id now req db) = db\<lparr>sd_handoffs := sd_handoffs db @ [h]\<rparr>"
    and "hr_id h = new_id" and "hr_workspace_ref h = ch_workspace_ref req"
    and "new_id \<notin> hr_id ` set (sd_handoffs db)"
    and "ch_workspace_ref req \<notin> hr_workspace_ref ` set (sd_handoffs db)"
    and "snapshot sb db (ch_session_id req) = Inr (hr_snapshot h)"
proof (cases "snd (handoff_create sb new_id now req db) = db")
  case False
  then obtain source where
    none: "find (\<lambda>h. hr_workspace_ref h = ch_workspace_ref req) (sd_handoffs db) = None"
    and source: "snapshot sb db (ch_session_id req) = Inr source"
    and new: "\<not> list_ex (\<lambda>h. hr_id h = new_id) (sd_handoffs db)"
    and db': "snd (handoff_create sb new_id now req db) = db\<lparr>sd_handoffs := sd_handoffs db @
      [\<lparr>hr_id = new_id, hr_workspace_ref = ch_workspace_ref req, hr_session_id = ch_session_id req,
        hr_snapshot = source, hr_created_at = now\<rparr>]\<rparr>"
    by (auto simp: handoff_create_def Let_def split: sum.splits option.splits if_splits)
  show thesis
    by (rule that(2) [OF db']) (use none source new in \<open>auto simp: find_None_iff list_ex_iff\<close>)
qed (rule that(1))

lemma feedback_cases:
  obtains "snd (feedback sb bb req db) = db"
  | f where "snd (feedback sb bb req db) = db\<lparr>sd_feedback := sd_feedback db @ [f]\<rparr>"
    and "fr_body f = req" and "fr_handoff_id f = tf_handoff_id req"
    and "fr_idempotency_key f = tf_idempotency_key req"
    and "tf_idempotency_key req \<notin> fr_idempotency_key ` set (sd_feedback db)"
    and "check_feedback sb req db = Inr ()"
proof (cases "snd (feedback sb bb req db) = db")
  case False
  then have
    none: "find (\<lambda>f. fr_idempotency_key f = tf_idempotency_key req) (sd_feedback db) = None"
    and ok: "check_feedback sb req db = Inr ()"
    and db': "snd (feedback sb bb req db) = db\<lparr>sd_feedback := sd_feedback db @
      [\<lparr>fr_id = Suc (foldr max (map fr_id (sd_feedback db)) 0), fr_handoff_id = tf_handoff_id req,
        fr_idempotency_key = tf_idempotency_key req, fr_body = req\<rparr>]\<rparr>"
    by (auto simp: feedback_def Let_def split: sum.splits option.splits if_splits)
  show thesis by (rule that(2) [OF db']) (use none ok in \<open>auto simp: find_None_iff\<close>)
qed (rule that(1))

lemma repair_cases:
  obtains "snd (repair sb now hid req db) = db"
  | r v where "snd (repair sb now hid req db) = db\<lparr>sd_repairs := sd_repairs db @ [r]\<rparr>"
    and "rr_handoff_id r = hid" and "rr_repair_no r = sv_repair_no req"
    and "rr_idempotency_key r \<notin> rr_idempotency_key ` set (sd_repairs db)"
    and "length (handoff_repair_rows db hid) < 64"
    and "handoff_get sb db hid = Inr v" and "check_repair_request req v = Inr ()"
proof (cases "snd (repair sb now hid req db) = db")
  case False
  then obtain v where v: "handoff_get sb db hid = Inr v" "check_repair_request req v = Inr ()"
    and none: "find (\<lambda>r. rr_idempotency_key r = sv_idempotency_key req) (sd_repairs db) = None"
    and limit: "length (handoff_repair_rows db hid) < 64"
    and db': "snd (repair sb now hid req db) = db\<lparr>sd_repairs := sd_repairs db @
      [\<lparr>rr_id = Suc (foldr max (map rr_id (sd_repairs db)) 0), rr_handoff_id = hid,
        rr_repair_no = sv_repair_no req, rr_response = sv_response req,
        rr_idempotency_key = sv_idempotency_key req, rr_created_at = now\<rparr>]\<rparr>"
    by (auto simp: repair_def Let_def bindE_Inr split: sum.splits option.splits if_splits)
  show thesis
    by (rule that(2) [OF db' _ _ _ limit v]) (use none in \<open>auto simp: find_None_iff\<close>)
qed (rule that(1))

definition view_of :: "(snapshot_rec \<Rightarrow> nat) \<Rightarrow> study_db \<Rightarrow> ustring \<Rightarrow> handoff_row \<Rightarrow> handoff_view" where
  "view_of sb db hid h =
     \<lparr>hv_handoff_id = hid, hv_workspace_ref = hr_workspace_ref h,
      hv_session_id = hr_session_id h, hv_snapshot = hr_snapshot h,
      hv_source_current = (snapshot sb db (hr_session_id h) = Inr (hr_snapshot h)),
      hv_created_at = hr_created_at h,
      hv_feedback = map_option (\<lambda>f. (fr_id f, fr_body f)) (handoff_feedback_row db hid),
      hv_repair_attempts = map (\<lambda>r. (rr_repair_no r, rr_response r, rr_created_at r))
        (sort_key rr_id (handoff_repair_rows db hid))\<rparr>"

lemma handoff_get_eq:
  "handoff_get sb db hid = Inr v \<longleftrightarrow> text_ok hid 160 \<and>
     (\<exists>h. find (\<lambda>h. hr_id h = hid) (sd_handoffs db) = Some h \<and> v = view_of sb db hid h)"
  by (auto simp: handoff_get_def view_of_def ok_simps)

lemma handoff_get_Inr:
  assumes "handoff_get sb db hid = Inr v"
  obtains h where "find (\<lambda>h. hr_id h = hid) (sd_handoffs db) = Some h" and "h \<in> set (sd_handoffs db)"
    and "hr_id h = hid" and "hv_snapshot v = hr_snapshot h" and "text_ok hid 160"
    and "hv_feedback v = map_option (\<lambda>f. (fr_id f, fr_body f)) (handoff_feedback_row db hid)"
    and "hv_source_current v \<longleftrightarrow> snapshot sb db (hr_session_id h) = Inr (hr_snapshot h)"
proof -
  from assms obtain h where h: "find (\<lambda>h. hr_id h = hid) (sd_handoffs db) = Some h" "text_ok hid 160"
    and v: "v = view_of sb db hid h"
    by (auto simp: handoff_get_eq)
  show thesis
    by (rule that [OF h(1)]) (use find_SomeD [OF h(1)] h(2) v in \<open>simp_all add: view_of_def\<close>)
qed

lemma create_keeps:
  assumes "handoff_wf db"
  shows "handoff_wf (snd (handoff_create sb new_id now req db))"
proof (cases rule: handoff_create_cases [of sb new_id now req db])
  case (2 h)
  then show ?thesis
    using assms snapshot_attempts [OF 2(6)] unfolding handoff_wf_def 2(1)
    by (simp add: handoff_repair_rows_def)
qed (use assms in simp)

lemma feedback_keeps:
  assumes "handoff_wf db"
  shows "handoff_wf (snd (feedback sb bb req db))"
proof (cases rule: feedback_cases [of sb bb req db])
  case (2 f)
  from 2(6) obtain v where v: "handoff_get sb db (tf_handoff_id req) = Inr v"
    "hv_feedback v = None" "feedback_valid (hv_snapshot v) req"
    unfolding check_feedback_iff by blast
  from handoff_get_Inr [OF v(1)] obtain h where
    h: "h \<in> set (sd_handoffs db)" "hr_id h = tf_handoff_id req" "hv_snapshot v = hr_snapshot h"
    "text_ok (tf_handoff_id req) 160"
    "hv_feedback v = map_option (\<lambda>f. (fr_id f, fr_body f)) (handoff_feedback_row db (tf_handoff_id req))"
    by metis
  have "tf_handoff_id req \<notin> fr_handoff_id ` set (sd_feedback db)"
    using h(5) v(2) by (auto simp: handoff_feedback_row_def find_None_iff)
  then show ?thesis
    using assms h v 2 unfolding handoff_wf_def 2(1)
    by (simp add: handoff_repair_rows_def) blast
qed (use assms in simp)

lemma repair_keeps:
  assumes "handoff_wf db"
  shows "handoff_wf (snd (repair sb now hid req db))"
proof (cases rule: repair_cases [of sb now hid req db])
  case (2 r v)
  from handoff_get_Inr [OF 2(6)] have
    fb: "hv_feedback v = map_option (\<lambda>f. (fr_id f, fr_body f)) (handoff_feedback_row db hid)" by metis
  have "sv_repair_no req \<noteq> 0" "sv_repair_no req \<le> feedback_repairs v"
    using 2(7) by (auto simp: check_repair_request_def ok_simps)
  with fb obtain f where f: "f \<in> set (sd_feedback db)" "fr_handoff_id f = hid"
    "sv_repair_no req \<le> length (tf_repairs (fr_body f))" "sv_repair_no req \<noteq> 0"
    by (auto simp: feedback_repairs_def handoff_feedback_row_def split: option.splits dest!: find_SomeD)
  have rows: "length (handoff_repair_rows (db\<lparr>sd_repairs := sd_repairs db @ [r]\<rparr>) i) \<le> 64" for i
  proof -
    have "length (handoff_repair_rows db i) \<le> 64" using assms unfolding handoff_wf_def by blast
    then show ?thesis using 2(2,5) by (auto simp: handoff_repair_rows_def)
  qed
  show ?thesis
    using assms f rows 2 unfolding handoff_wf_def 2(1) by (simp add: Suc_le_eq) blast
qed (use assms in simp)

lemma handoff_step_wf: "handoff_step sb bb db db' \<Longrightarrow> handoff_wf db \<Longrightarrow> handoff_wf db'"
proof (induction rule: handoff_step.induct)
  case (study_step db' db)
  then show ?case by (simp add: handoff_wf_def handoff_repair_rows_def)
qed (auto intro: create_keeps feedback_keeps repair_keeps)

lemma handoff_reachable_wf:
  "handoff_reachable sb bb db db' \<Longrightarrow> handoff_wf db \<Longrightarrow> handoff_wf db'"
  unfolding handoff_reachable_def by (induction rule: rtranclp_induct) (auto intro: handoff_step_wf)

lemma handoff_step_grows:
  assumes "handoff_step sb bb db db'"
  shows "prefix (sd_handoffs db) (sd_handoffs db') \<and> prefix (sd_feedback db) (sd_feedback db') \<and>
    prefix (sd_repairs db) (sd_repairs db')"
  using assms
proof cases
  case (create_step new_id now req)
  show ?thesis by (cases rule: handoff_create_cases [of sb new_id now req db]) (simp_all add: create_step)
next
  case (feedback_step req)
  show ?thesis by (cases rule: feedback_cases [of sb bb req db]) (simp_all add: feedback_step)
next
  case (repair_step now hid req)
  show ?thesis by (cases rule: repair_cases [of sb now hid req db]) (simp_all add: repair_step)
qed simp

lemma handoff_reachable_grows:
  assumes "handoff_reachable sb bb db db'"
  shows "prefix (sd_handoffs db) (sd_handoffs db') \<and> prefix (sd_feedback db) (sd_feedback db') \<and>
    prefix (sd_repairs db) (sd_repairs db')"
  using assms unfolding handoff_reachable_def
proof (induction rule: rtranclp_induct)
  case (step y z)
  with handoff_step_grows [OF step(2)] show ?case by (meson prefix_order.trans)
qed simp

lemma find_prefix: "prefix xs ys \<Longrightarrow> find P xs = Some x \<Longrightarrow> find P ys = Some x"
  by (auto elim!: prefixE simp: find_append_Some)

text \<open>
  Property C30. In every run of the handoff workflow, whatever happens to the recorded
  sessions, the handoff tables stay well formed: one handoff per workspace with 1 to 64 frozen
  attempts, at most one feedback per handoff, whose excerpts are verbatim parts of the frozen
  transcripts and whose points were requested by the task, repairs only of listed items, and
  at most 64 repairs per handoff.
\<close>

theorem handoffs_stay_wf:
  assumes "handoff_wf db" and "handoff_reachable sb bb db db'"
  shows "handoff_wf db'"
  by (rule handoff_reachable_wf [OF assms(2,1)])

lemma handoff_is_frozen_lemma:
  assumes "handoff_get sb db hid = Inr v" and "handoff_reachable sb bb db db'"
  shows "\<exists>v'. handoff_get sb db' hid = Inr v' \<and> hv_snapshot v' = hv_snapshot v \<and>
    hv_workspace_ref v' = hv_workspace_ref v \<and> hv_session_id v' = hv_session_id v \<and>
    (hv_feedback v = None \<or> hv_feedback v' = hv_feedback v)"
proof -
  from assms(1) obtain h where h: "find (\<lambda>h. hr_id h = hid) (sd_handoffs db) = Some h"
    and ok: "text_ok hid 160" and v: "v = view_of sb db hid h"
    unfolding handoff_get_eq by blast
  from handoff_reachable_grows [OF assms(2)]
  have h': "find (\<lambda>h. hr_id h = hid) (sd_handoffs db') = Some h"
    and fb: "\<And>f. handoff_feedback_row db hid = Some f \<Longrightarrow> handoff_feedback_row db' hid = Some f"
    unfolding handoff_feedback_row_def by (auto intro: find_prefix [OF _ h] find_prefix)
  show ?thesis
  proof (intro exI conjI)
    show "handoff_get sb db' hid = Inr (view_of sb db' hid h)"
      using ok h' unfolding handoff_get_eq by blast
    show "hv_feedback v = None \<or> hv_feedback (view_of sb db' hid h) = hv_feedback v"
      using fb unfolding v view_of_def handoff_view.simps
      by (cases "handoff_feedback_row db hid") (simp_all only: option.map, blast+)
  qed (simp_all add: v view_of_def)
qed

text \<open>
  Property C31. A handoff is frozen: once it can be read, every later state of the workflow
  shows the same source, and once it has a feedback every later state shows that feedback.
\<close>

theorem handoff_is_frozen:
  assumes "handoff_get sb db hid = Inr v" and "handoff_reachable sb bb db db'"
  shows "\<exists>v'. handoff_get sb db' hid = Inr v' \<and> hv_snapshot v' = hv_snapshot v \<and>
    hv_workspace_ref v' = hv_workspace_ref v \<and> hv_session_id v' = hv_session_id v \<and>
    (hv_feedback v = None \<or> hv_feedback v' = hv_feedback v)"
  by (rule handoff_is_frozen_lemma [OF assms])

lemma feedback_created_iff:
  "(\<exists>v db'. feedback sb bb req db = (Inr (v, Feedback_Created), db')) \<longleftrightarrow>
     text_ok (tf_idempotency_key req) 160 \<and> bb req \<le> 65536 \<and>
     tf_idempotency_key req \<notin> fr_idempotency_key ` set (sd_feedback db) \<and>
     (\<exists>v. handoff_get sb db (tf_handoff_id req) = Inr v \<and> hv_source_current v \<and>
        hv_feedback v = None \<and> feedback_valid (hv_snapshot v) req)"
  (is "?created \<longleftrightarrow> ?key \<and> ?size \<and> ?new \<and> ?valid")
proof -
  have top: "seqE [need_text (tf_idempotency_key req) 160 e1, bail_if (bb req > 65536) e2] = Inr () \<longleftrightarrow>
      ?key \<and> ?size" for e1 e2
    by (auto simp: ok_simps)
  have key: "find (\<lambda>f. fr_idempotency_key f = tf_idempotency_key req) (sd_feedback db) = None \<longleftrightarrow> ?new"
    by (auto simp: find_None_iff image_iff)
  show ?thesis
  proof
    assume ?created
    then show "?key \<and> ?size \<and> ?new \<and> ?valid"
      using top key check_feedback_iff [of sb req db]
      by (auto simp: feedback_def mapE_Inr Let_def split: sum.splits option.splits if_splits)
  next
    assume ok: "?key \<and> ?size \<and> ?new \<and> ?valid"
    then have "check_feedback sb req db = Inr ()" unfolding check_feedback_iff by blast
    moreover obtain h where "find (\<lambda>h. hr_id h = tf_handoff_id req) (sd_handoffs db) = Some h"
      and "text_ok (tf_handoff_id req) 160"
      using ok handoff_get_eq by metis
    then have "\<exists>v. handoff_get sb (db\<lparr>sd_feedback := fs\<rparr>) (tf_handoff_id req) = Inr v" for fs
      unfolding handoff_get_eq by simp
    ultimately show ?created
      using ok top key by (auto simp: feedback_def mapE_Inr Let_def split: sum.splits)
  qed
qed


lemma created_row:
  assumes "feedback sb bb req db = (Inr (v, Feedback_Created), db1)"
  shows "\<exists>f. find (\<lambda>f. fr_idempotency_key f = tf_idempotency_key req) (sd_feedback db1) = Some f \<and>
    fr_body f = req \<and> fr_handoff_id f = tf_handoff_id req \<and>
    handoff_get sb db1 (tf_handoff_id req) = Inr v \<and>
    text_ok (tf_idempotency_key req) 160 \<and> bb req \<le> 65536"
proof -
  have "text_ok (tf_idempotency_key req) 160 \<and> bb req \<le> 65536"
    and new: "find (\<lambda>f. fr_idempotency_key f = tf_idempotency_key req) (sd_feedback db) = None"
    using feedback_created_iff [of sb bb req db] assms by (auto simp: find_None_iff image_iff)
  with assms show ?thesis
    by (auto simp: feedback_def mapE_Inr Let_def find_append_None [OF new]
        split: sum.splits option.splits if_splits)
qed

text \<open>
  A retry of an accepted feedback, however much later, writes nothing and returns
  the feedback stored first; another payload under the same key is refused and writes nothing.
\<close>

theorem feedback_retry_is_replayed:
  assumes "feedback sb bb req db = (Inr (v, Feedback_Created), db1)"
    and "handoff_reachable sb bb db1 db2"
  shows "\<exists>v'. feedback sb bb req db2 = (Inr (v', Feedback_Replayed), db2) \<and>
    hv_feedback v' = hv_feedback v \<and>
    (tf_idempotency_key req' = tf_idempotency_key req \<and> req' \<noteq> req \<longrightarrow>
      isl (fst (feedback sb bb req' db2)) \<and> snd (feedback sb bb req' db2) = db2)"
proof -
  from created_row [OF assms(1)] obtain f where
    f: "find (\<lambda>f. fr_idempotency_key f = tf_idempotency_key req) (sd_feedback db1) = Some f"
      "fr_body f = req" "fr_handoff_id f = tf_handoff_id req"
    and get: "handoff_get sb db1 (tf_handoff_id req) = Inr v"
    and ok: "text_ok (tf_idempotency_key req) 160" "bb req \<le> 65536" by blast
  have f2: "find (\<lambda>f. fr_idempotency_key f = tf_idempotency_key req) (sd_feedback db2) = Some f"
    using handoff_reachable_grows [OF assms(2)] find_prefix [OF _ f(1)] by blast
  have seq: "seqE [need_text (tf_idempotency_key req) 160 e1, bail_if (bb req > 65536) e2] = Inr ()"
    for e1 e2 using ok by (auto simp: ok_simps)
  from handoff_is_frozen_lemma [OF get assms(2)] obtain v' where
    v': "handoff_get sb db2 (tf_handoff_id req) = Inr v'"
      "hv_feedback v = None \<or> hv_feedback v' = hv_feedback v" by blast
  from handoff_get_Inr [OF get]
  have "hv_feedback v = map_option (\<lambda>f. (fr_id f, fr_body f)) (handoff_feedback_row db1 (tf_handoff_id req))"
    by metis
  moreover have "handoff_feedback_row db1 (tf_handoff_id req) \<noteq> None"
    using find_SomeD [OF f(1)] f(3) by (auto simp: handoff_feedback_row_def find_None_iff)
  ultimately have "hv_feedback v' = hv_feedback v" using v'(2) by auto
  then have "\<exists>v'. feedback sb bb req db2 = (Inr (v', Feedback_Replayed), db2) \<and>
      hv_feedback v' = hv_feedback v"
    using f2 f v'(1) seq by (simp add: feedback_def mapE_def)
  moreover have "isl (fst (feedback sb bb req' db2)) \<and> snd (feedback sb bb req' db2) = db2"
    if "tf_idempotency_key req' = tf_idempotency_key req" "req' \<noteq> req"
    using that f2 f(2) by (auto simp: feedback_def split: sum.splits)
  ultimately show ?thesis by blast
qed

section \<open>Task gaps\<close>

abbreviation point_key_of :: "int \<times> ustring \<times> int \<times> ustring \<Rightarrow> int \<times> ustring" where
  "point_key_of x \<equiv> (fst x, fst (snd x))"

abbreviation attempt_of :: "int \<times> ustring \<times> int \<times> ustring \<Rightarrow> int" where
  "attempt_of x \<equiv> fst (snd (snd x))"

definition is_gap :: "int \<times> ustring \<times> int \<times> ustring \<Rightarrow> bool" where
  "is_gap x \<longleftrightarrow> snd (snd (snd x)) \<in> {lit ''partial'', lit ''missing''}"

text \<open>The assessment that counts for a point: of its latest attempt, the last one given.\<close>

definition newest :: "('a \<Rightarrow> int) \<Rightarrow> 'a list \<Rightarrow> 'a" where
  "newest f ys = last (filter (\<lambda>y. f y = Max (f ` set ys)) ys)"

definition decisive :: "(int \<times> ustring \<times> int \<times> ustring) list \<Rightarrow> int \<times> ustring \<Rightarrow>
    (int \<times> ustring \<times> int \<times> ustring) option" where
  "decisive xs k =
     (let ys = filter (\<lambda>x. point_key_of x = k) xs in
      if ys = [] then None else Some (newest attempt_of ys))"

definition gap_points :: "(int \<times> ustring \<times> int \<times> ustring) list \<Rightarrow> (int \<times> ustring) set" where
  "gap_points xs = {k. some_and (decisive xs k) is_gap}"

lemma newest_Max:
  assumes "ys \<noteq> []"
  shows "f (newest f ys) = Max (f ` set ys)"
proof -
  have "Max (f ` set ys) \<in> f ` set ys" using assms by (intro Max_in) auto
  then have "filter (\<lambda>y. f y = Max (f ` set ys)) ys \<noteq> []" by (auto simp: filter_empty_conv)
  from last_in_set [OF this] show ?thesis by (auto simp: newest_def)
qed

lemma newest_snoc:
  assumes "ys \<noteq> []"
  shows "newest f (ys @ [x]) = (if f x \<ge> f (newest f ys) then x else newest f ys)"
proof -
  let ?m = "Max (f ` set ys)"
  have m: "Max (f ` set (ys @ [x])) = max (f x) ?m" using assms by simp
  show ?thesis
  proof (cases "f x \<ge> ?m")
    case True
    then show ?thesis unfolding newest_Max [OF assms] by (simp add: newest_def m del: set_append)
  next
    case False
    then have "filter (\<lambda>y. f y = max (f x) ?m) (ys @ [x]) = filter (\<lambda>y. f y = ?m) ys"
      by (auto simp: max_def)
    then have "newest f (ys @ [x]) = newest f ys" by (simp only: newest_def m)
    with False show ?thesis unfolding newest_Max [OF assms] by simp
  qed
qed

lemma decisive_snoc:
  "decisive (xs @ [x]) k =
     (if point_key_of x \<noteq> k then decisive xs k
      else case decisive xs k of
        None \<Rightarrow> Some x
      | Some y \<Rightarrow> if attempt_of x \<ge> attempt_of y then Some x else Some y)"
  using newest_snoc [of "filter (\<lambda>x. point_key_of x = k) xs" attempt_of x]
  by (auto simp: decisive_def Let_def newest_def [of _ "[x]"])

text \<open>The accumulator holds the decisive assessment of every point.\<close>

lemma accept_point_eq:
  "accept_point latest x = AList.update (point_key_of x)
     (case map_of latest (point_key_of x) of
        None \<Rightarrow> (attempt_of x, is_gap x)
      | Some old \<Rightarrow> if attempt_of x \<ge> fst old then (attempt_of x, is_gap x) else old) latest"
  by (simp add: accept_point_def is_gap_def Let_def split: prod.splits option.splits)

lemma accept_points_decisive:
  "map_of (foldl accept_point [] xs) k =
     map_option (\<lambda>x. (attempt_of x, is_gap x)) (decisive xs k)"
proof (induction xs arbitrary: k rule: rev_induct)
  case Nil
  show ?case by (simp add: decisive_def)
next
  case (snoc x xs)
  show ?case
    unfolding decisive_snoc foldl_append foldl.simps accept_point_eq [of _ x] update_conv' snoc
    by (cases "decisive xs (point_key_of x)") (simp_all del: split_paired_All)
qed

lemma distinct_accept_points: "distinct (map fst (foldl accept_point [] xs))"
  by (induction xs rule: rev_induct) (simp_all add: accept_point_eq distinct_update)

lemma count_gaps:
  "length (filter (\<lambda>e. snd (snd e)) (foldl accept_point [] xs)) = card (gap_points xs)"
proof -
  let ?l = "foldl accept_point [] xs"
  have "distinct (map fst (filter (\<lambda>e. snd (snd e)) ?l))"
    using distinct_accept_points by (rule distinct_map_filter)
  then have "card (fst ` set (filter (\<lambda>e. snd (snd e)) ?l)) = length (filter (\<lambda>e. snd (snd e)) ?l)"
    by (rule card_image_distinct)
  moreover have "k \<in> fst ` set (filter (\<lambda>e. snd (snd e)) ?l) \<longleftrightarrow> k \<in> gap_points xs" for k
  proof -
    have "k \<in> fst ` set (filter (\<lambda>e. snd (snd e)) ?l) \<longleftrightarrow> (\<exists>a. map_of ?l k = Some (a, True))"
      using distinct_accept_points [of xs] by (force simp: map_of_eq_Some_iff simp del: split_paired_All)
    also have "\<dots> \<longleftrightarrow> k \<in> gap_points xs"
      unfolding accept_points_decisive gap_points_def by (cases "decisive xs k") auto
    finally show ?thesis .
  qed
  ultimately show ?thesis by (metis subsetI subset_antisym)
qed

lemma handoff_loop:
  "foldE (\<lambda>latest h. bindE (g h) (\<lambda>v. Inr (foldl f latest (p v)))) s hs =
     mapE (\<lambda>vs. foldl f s (concat (map p vs))) (collectE g hs)"
proof (induction hs arbitrary: s)
  case (Cons h hs)
  then show ?case by (cases "g h") (auto simp: mapE_def bindE_def split: sum.splits)
qed (simp add: mapE_def)

text \<open>
  \<open>task_gaps\<close> counts the requested points whose decisive assessment is partial or
  missing: of the latest recorded session of the task, over the assessments stored with it and
  those of its handoffs whose source is unchanged, the assessment of the latest attempt
  decides, and of two on the same attempt the later one.
\<close>

theorem task_gaps_counts_decisive:
  "task_gaps sb db k =
     (case task_session db k of
        None \<Rightarrow> Inr 0
      | Some sid \<Rightarrow>
          mapE (\<lambda>vs. card (gap_points (canonical_points db sid k @ concat (map (handoff_points k) vs))))
            (collectE (\<lambda>h. handoff_get sb db (hr_id h))
              (take 20 (filter (\<lambda>h. hr_session_id h = sid) (sd_handoffs db)))))"
proof (cases "task_session db k")
  case (Some sid)
  have "length (filter (\<lambda>e. snd (snd e)) (foldl accept_point (foldl accept_point [] xs) ys)) =
      card (gap_points (xs @ ys))" for xs ys
    by (simp add: count_gaps [symmetric])
  then show ?thesis
    by (simp add: task_gaps_def Some handoff_loop mapE_def) (simp add: bindE_def split: sum.splits)
qed (simp add: task_gaps_def)

section \<open>A run\<close>

definition sample_study :: study_db where
  "sample_study =
     \<lparr>sd_sessions = [\<lparr>ss_id = 1, ss_topic = None\<rparr>],
      sd_items = [\<lparr>st_id = 1, st_item_no = 1, st_prompt = lit ''p'', st_effective_status = lit ''active''\<rparr>],
      sd_attempts = [\<lparr>sa_id = 1, sa_session_id = 1, sa_practice_item_id = Some 1, sa_attempt_no = 1,
        sa_transcript = lit ''ayer voy'', sa_response_mode = None,
        sa_actual_duration_milliseconds = None\<rparr>],
      sd_requirements = [\<lparr>sr_session_id = Some 1, sr_practice_item_id = Some 1,
        sr_task_key = lit ''t'', sr_skill = lit ''s'', sr_requested_points = [lit ''q''],
        sr_source = lit ''official''\<rparr>],
      sd_assessments = [], sd_handoffs = [], sd_feedback = [], sd_repairs = []\<rparr>"

definition sample_create :: create_handoff where
  "sample_create = \<lparr>ch_workspace_ref = lit ''w'', ch_session_id = 1\<rparr>"

definition sample_feedback :: tutor_feedback where
  "sample_feedback =
     \<lparr>tf_handoff_id = lit ''h'', tf_idempotency_key = lit ''k'', tf_summary = lit ''s'',
      tf_repairs = [\<lparr>tp_attempt_no = 1, tp_original = lit ''voy'', tp_hint = lit ''h'',
        tp_suggestion = lit ''fui'', tp_explanation = lit ''e''\<rparr>],
      tf_point_assessments = [\<lparr>tn_attempt_no = 1, tn_point_key = lit ''q'', tn_status = Point_Missing,
        tn_supporting_excerpt = None, tn_reason = lit ''r''\<rparr>]\<rparr>"

definition sample_handoff :: handoff_row where
  "sample_handoff =
     \<lparr>hr_id = lit ''h'', hr_workspace_ref = lit ''w'', hr_session_id = 1,
      hr_snapshot = \<lparr>sn_session_id = 1, sn_topic = None,
        sn_attempts = [\<lparr>na_attempt_no = 1, na_item_no = 1, na_transcript = lit ''ayer voy'',
          na_prompt = lit ''p'', na_response_mode = None, na_duration_ms = None\<rparr>],
        sn_requirements = [\<lparr>nr_task_key = lit ''t'', nr_skill = lit ''s'',
          nr_requested_points = [lit ''q''], nr_source = lit ''official'', nr_item_no = Some 1\<rparr>],
        sn_point_assessments = []\<rparr>, hr_created_at = lit ''n''\<rparr>"

definition handed_off :: study_db where
  "handed_off = sample_study\<lparr>sd_handoffs := [sample_handoff]\<rparr>"

lemma sample_snapshot:
  "snapshot (\<lambda>_. 0) sample_study 1 = Inr (hr_snapshot sample_handoff)"
  by (simp add: snapshot_def session_attempts_def session_requirements_def session_assessments_def
      item_absent_or_active_def item_row_def active_item_def sample_study_def sample_handoff_def
      bail_if_def)

lemma sample_texts:
  "text_ok (lit ''k'') 160" "text_ok (lit ''h'') 2000" "text_ok (lit ''e'') 2000"
  "text_ok (lit ''s'') 4000" "text_ok (lit ''voy'') 2000" "text_ok (lit ''fui'') 2000"
  "text_ok (lit ''q'') 500" "text_ok (lit ''r'') 2000" "text_ok (lit ''h'') 160"
  "contains (lit ''ayer voy'') (lit ''voy'')"
  by (simp_all add: text_ok_def blank_iff lit_def is_white_def blen_def cp_len_def starts_with_def)

lemma sample_feedback_valid: "feedback_valid (hr_snapshot sample_handoff) sample_feedback"
  by (simp add: feedback_valid_def repair_valid_def point_valid_def attempt_in_def
      point_requested_def sample_feedback_def sample_handoff_def sample_texts)

lemma handed_off_simps:
  "sd_handoffs handed_off = [sample_handoff]" "sd_feedback handed_off = []" "sd_repairs handed_off = []"
  by (simp_all add: handed_off_def sample_study_def)

lemma handed_off_wf: "handoff_wf handed_off"
  by (simp add: handoff_wf_def handed_off_simps handoff_repair_rows_def sample_handoff_def)

lemma handed_off_snapshot: "snapshot (\<lambda>_. 0) handed_off 1 = Inr (hr_snapshot sample_handoff)"
  by (simp add: snapshot_def session_attempts_def session_requirements_def session_assessments_def
      item_absent_or_active_def item_row_def active_item_def handed_off_def sample_study_def
      sample_handoff_def bail_if_def)

lemma handed_off_get:
  "handoff_get (\<lambda>_. 0) handed_off (lit ''h'') = Inr (view_of (\<lambda>_. 0) handed_off (lit ''h'') sample_handoff)"
  unfolding handoff_get_eq by (simp add: handed_off_simps sample_handoff_def sample_texts)

lemma sample_feedback_created:
  "\<exists>v db'. feedback (\<lambda>_. 0) (\<lambda>_. 0) sample_feedback handed_off = (Inr (v, Feedback_Created), db')"
proof -
  have "hr_session_id sample_handoff = 1" by (simp add: sample_handoff_def)
  then have "hv_source_current (view_of (\<lambda>_. 0) handed_off (lit ''h'') sample_handoff)"
    using handed_off_snapshot by (simp add: view_of_def)
  moreover have "hv_feedback (view_of (\<lambda>_. 0) handed_off (lit ''h'') sample_handoff) = None"
    by (simp add: view_of_def handoff_feedback_row_def handed_off_simps)
  moreover have "hv_snapshot (view_of (\<lambda>_. 0) handed_off (lit ''h'') sample_handoff) =
      hr_snapshot sample_handoff" by (simp add: view_of_def)
  moreover have "tf_handoff_id sample_feedback = lit ''h''" "tf_idempotency_key sample_feedback = lit ''k''"
    by (simp_all add: sample_feedback_def)
  ultimately show ?thesis
    unfolding feedback_created_iff using sample_feedback_valid handed_off_get
    by (simp add: sample_texts handed_off_simps)
qed

lemma one_step: "handoff_step sb bb db db' \<Longrightarrow> handoff_reachable sb bb db db'"
  by (simp add: handoff_reachable_def r_into_rtranclp)

theorem handoffs_stay_wf_witness:
  "handoff_wf (snd (feedback (\<lambda>_. 0) (\<lambda>_. 0) sample_feedback handed_off)) \<and>
   (\<exists>v db'. feedback (\<lambda>_. 0) (\<lambda>_. 0) sample_feedback handed_off = (Inr (v, Feedback_Created), db'))"
  by (intro conjI handoffs_stay_wf [OF handed_off_wf one_step [OF handoff_step.feedback_step]]
      sample_feedback_created)

theorem handoff_is_frozen_witness:
  "\<exists>v'. handoff_get (\<lambda>_. 0) (snd (feedback (\<lambda>_. 0) (\<lambda>_. 0) sample_feedback handed_off)) (lit ''h'') =
     Inr v' \<and> hv_snapshot v' = hr_snapshot sample_handoff"
  using handoff_is_frozen [OF handed_off_get one_step [OF handoff_step.feedback_step],
      of "\<lambda>_. 0" sample_feedback]
  by (auto simp: view_of_def)

theorem feedback_retry_is_replayed_witness:
  "\<exists>v db1. feedback (\<lambda>_. 0) (\<lambda>_. 0) sample_feedback handed_off = (Inr (v, Feedback_Created), db1) \<and>
     (\<exists>v'. feedback (\<lambda>_. 0) (\<lambda>_. 0) sample_feedback db1 = (Inr (v', Feedback_Replayed), db1) \<and>
       hv_feedback v' = hv_feedback v) \<and>
     isl (fst (feedback (\<lambda>_. 0) (\<lambda>_. 0) (sample_feedback\<lparr>tf_repairs := []\<rparr>) db1))"
proof -
  obtain v db1 where
    c: "feedback (\<lambda>_. 0) (\<lambda>_. 0) sample_feedback handed_off = (Inr (v, Feedback_Created), db1)"
    using sample_feedback_created by blast
  have "handoff_reachable (\<lambda>_. 0) (\<lambda>_. 0) db1 db1" by (simp add: handoff_reachable_def)
  from feedback_retry_is_replayed [OF c this, of "sample_feedback\<lparr>tf_repairs := []\<rparr>"] c
  show ?thesis by (auto simp: sample_feedback_def)
qed

end
