(* ===== verification/RecordRequest.thy ===== *)
theory RecordRequest
  imports Evidence ActivityRecording
begin

text \<open>
  \<open>validate_record_practice_request\<close> of \<open>src/db.rs\<close>, the gate every session passes before
  anything is written: one definition per loop of the source (new weaknesses, items, task
  requirements, attempts, assessments, observations, findings, reviews), composed in the
  source's order. \<open>record_request_wf\<close> states declaratively which requests pass.

  The field paths in the messages keep their placeholders (\<open>new_weaknesses[{index}].key\<close>).
  The evidence of a review is its serialized text, so serialising it cannot fail here; in the
  source it is a \<open>serde_json::Value\<close>, whose serialisation does not fail either.
\<close>

datatype record_error =
    InvalidArgument string
  | UnknownReference string
  | RecordIdempotencyConflict
  | RecordInternal string

section \<open>The three closures\<close>

definition record_text :: "ustring \<Rightarrow> string \<Rightarrow> nat \<Rightarrow> record_error + unit" where
  "record_text s field limit = seqE
     [bail_if (blank s) (InvalidArgument (field @ '' must not be blank'')),
      bail_if (limit < blen s) (InvalidArgument (field @ '' must be at most {max} UTF-8 bytes''))]"

definition record_optional_text :: "ustring option \<Rightarrow> string \<Rightarrow> nat \<Rightarrow> record_error + unit" where
  "record_optional_text s field limit = optE s (\<lambda>v. record_text v field limit)"

definition record_list :: "nat \<Rightarrow> string \<Rightarrow> nat \<Rightarrow> record_error + unit" where
  "record_list n field limit =
     bail_if (limit < n) (InvalidArgument (field @ '' may contain at most {max} values''))"

section \<open>The envelope and the new weaknesses\<close>

definition record_envelope :: "record_request \<Rightarrow> record_error + unit" where
  "record_envelope r = seqE
     [record_text (rr_idempotency_key r) ''idempotency_key'' 128,
      record_optional_text (rr_session_date r) ''session_date'' 10,
      record_optional_text (rr_reviewed_at r) ''reviewed_at'' 128,
      record_optional_text (rr_task_ref r) ''task_ref'' 160,
      record_optional_text (rr_topic r) ''topic'' 500,
      record_optional_text (rr_notes r) ''notes'' 4000,
      record_list (length (rr_new_weaknesses r)) ''new_weaknesses'' 100,
      record_list (length (rr_items r)) ''items'' 100,
      record_list (length (rr_attempts r)) ''attempts'' 100,
      record_list (length (rr_reviews r)) ''reviews'' 100,
      record_list (length (rr_activity_runs r)) ''activity_runs'' 10,
      record_list (length (rr_findings r)) ''findings'' 300,
      record_list (length (rr_task_requirements r)) ''task_requirements'' 100,
      record_list (length (rr_requested_point_assessments r)) ''requested_point_assessments'' 300]"

definition record_relation :: "target_relation_input \<Rightarrow> record_error + unit" where
  "record_relation t = seqE
     [record_text (tr_other_weakness_key t)
        ''new_weaknesses[{index}].target_relations[{relation_index}].other_weakness_key'' 160,
      record_text (tr_predicate t)
        ''new_weaknesses[{index}].target_relations[{relation_index}].predicate'' 40,
      record_optional_text (tr_notes t)
        ''new_weaknesses[{index}].target_relations[{relation_index}].notes'' 2000]"

definition record_weakness_body :: "new_weakness_input \<Rightarrow> record_error + unit" where
  "record_weakness_body w = seqE
     [record_text (nw_key w) ''new_weaknesses[{index}].key'' 160,
      record_text (nw_category w) ''new_weaknesses[{index}].category'' 80,
      record_text (nw_description w) ''new_weaknesses[{index}].description'' 1000,
      record_optional_text (nw_target_pattern w) ''new_weaknesses[{index}].target_pattern'' 1000,
      record_list (case nw_recommended_drill_types w of None \<Rightarrow> 0 | Some ds \<Rightarrow> length ds)
        ''new_weaknesses[{index}].recommended_drill_types'' 12,
      record_list (length (nw_concept_links w)) ''new_weaknesses[{index}].concept_links'' 20,
      record_list (length (nw_target_relations w)) ''new_weaknesses[{index}].target_relations'' 20,
      forE (\<lambda>l. record_text (cl_concept_key l)
        ''new_weaknesses[{index}].concept_links[{link_index}].concept_key'' 160)
        (nw_concept_links w),
      forE record_relation (nw_target_relations w)]"

definition record_weakness :: "ustring set \<Rightarrow> new_weakness_input \<Rightarrow> record_error + ustring set" where
  "record_weakness keys w =
     (if nw_key w \<in> keys then Inl (InvalidArgument ''new_weaknesses[{index}].key is duplicated'')
      else bindE (record_weakness_body w) (\<lambda>_. Inr (insert (nw_key w) keys)))"

section \<open>Observations and items\<close>

definition record_observation ::
    "string \<Rightarrow> nat set \<Rightarrow> observation_input \<Rightarrow> record_error + nat set" where
  "record_observation path numbers o1 =
     (if ob_observation_no o1 = 0 \<or> ob_observation_no o1 \<in> numbers
      then Inl (InvalidArgument
        (path @ ''.observation_no must be positive and unique across the session''))
      else bindE (seqE
        [record_text (ob_weakness_key o1) (path @ ''.weakness_key'') 160,
         record_optional_text (ob_produced o1) (path @ ''.produced'') 2000,
         record_optional_text (ob_correction o1) (path @ ''.correction'') 2000,
         record_optional_text (ob_error_span o1) (path @ ''.error_span'') 1000,
         record_optional_text (ob_notes o1) (path @ ''.notes'') 2000])
        (\<lambda>_. Inr (insert (ob_observation_no o1) numbers)))"

text \<open>
  The state of the loops over items and attempts: the numbers of the elements seen, the
  numbers of the observations seen so far in the session, and the observation count.
\<close>

type_synonym record_state = "nat set \<times> nat set \<times> nat"

definition record_item_body :: "practice_item_input \<Rightarrow> record_error + unit" where
  "record_item_body i = seqE
     [record_text (it_prompt i) ''items[{index}].prompt'' 4000,
      record_optional_text (it_response i) ''items[{index}].response'' 8000,
      record_optional_text (it_corrected_response i) ''items[{index}].corrected_response'' 8000,
      record_optional_text (it_reference_answer i) ''items[{index}].reference_answer'' 8000,
      record_optional_text (it_feedback i) ''items[{index}].feedback'' 4000,
      record_list (length (it_target_weakness_keys i)) ''items[{index}].target_weakness_keys'' 20,
      forE (\<lambda>k. record_text k ''items[{index}].target_weakness_keys[{key_index}]'' 160)
        (it_target_weakness_keys i),
      record_list (length (it_observations i)) ''items[{index}].observations'' 300]"

definition record_item :: "record_state \<Rightarrow> practice_item_input \<Rightarrow> record_error + record_state" where
  "record_item st i =
     (let (item_numbers, observation_numbers, observation_count) = st in
      if it_item_no i = 0 \<or> it_item_no i \<in> item_numbers
      then Inl (InvalidArgument ''items[{index}].item_no must be positive and unique'')
      else bindE (record_item_body i) (\<lambda>_.
        bindE (foldE (record_observation ''items[{index}].observations[{observation_index}]'')
            observation_numbers (it_observations i)) (\<lambda>observation_numbers'.
        Inr (insert (it_item_no i) item_numbers, observation_numbers',
          observation_count + length (it_observations i)))))"

section \<open>Task requirements and attempts\<close>

definition record_requirement ::
    "nat set \<Rightarrow> task_requirement_input \<Rightarrow> record_error + unit" where
  "record_requirement item_numbers q = seqE
     [bail_if (some_and (rq_practice_item_no q) (\<lambda>n. n \<notin> item_numbers)) (UnknownReference
        ''task_requirements[{index}].practice_item_no references an item not in this request''),
      record_text (rq_skill q) ''task_requirements[{index}].skill'' 40,
      record_text (rq_task_key q) ''task_requirements[{index}].task_key'' 80,
      record_optional_text (rq_exam_key q) ''task_requirements[{index}].exam_key'' 80,
      record_optional_text (rq_specification_version q)
        ''task_requirements[{index}].specification_version'' 80,
      bail_if (rq_source q = Req_Official \<and>
          (rq_exam_key q = None \<or> rq_specification_version q = None)) (InvalidArgument
        ''task_requirements[{index}].official requirements need exam_key and specification_version''),
      bail_if (some_and (rq_word_max q) (\<lambda>upper. some_and (rq_word_min q) (\<lambda>lower. upper < lower)))
        (InvalidArgument ''task_requirements[{index}].word_max must be at least word_min''),
      bail_if (50 < length (rq_requested_points q) \<or>
          list_ex (\<lambda>p. blank p \<or> 160 < blen p) (rq_requested_points q)) (InvalidArgument
        ''task_requirements[{index}].requested_points contains an empty or oversized point''),
      optE (rq_prompt_hash q) (\<lambda>h. bail_if (blen h \<noteq> 64 \<or> list_ex (\<lambda>c. \<not> is_ascii_hex c) h)
        (InvalidArgument ''task_requirements[{index}].prompt_hash must be a SHA-256 hex digest''))]"

definition record_reflection ::
    "nat set \<Rightarrow> attempt_reflection_input \<Rightarrow> record_error + nat set" where
  "record_reflection numbers rf =
     (if rf_reflection_no rf = 0 \<or> rf_reflection_no rf \<in> numbers
      then Inl (InvalidArgument
        ''attempts[{index}].reflections[{reflection_index}].reflection_no must be positive and unique'')
      else bindE (record_text (rf_note rf)
          ''attempts[{index}].reflections[{reflection_index}].note'' 4000)
        (\<lambda>_. Inr (insert (rf_reflection_no rf) numbers)))"

definition record_attempt_head :: "nat set \<Rightarrow> attempt_input \<Rightarrow> record_error + unit" where
  "record_attempt_head item_numbers a = seqE
     [bail_if (some_and (at_practice_item_no a) (\<lambda>n. n \<notin> item_numbers)) (UnknownReference
        ''attempts[{index}].practice_item_no references an item not in this request''),
      record_text (at_transcript a) ''attempts[{index}].transcript'' 8000,
      bail_if (at_actual_duration_milliseconds a \<noteq> None \<and> at_timing_source a = None)
        (InvalidArgument
          ''attempts[{index}].timing_source is required with actual_duration_milliseconds''),
      bail_if (at_actual_duration_milliseconds a = None \<and> at_timing_source a \<noteq> None)
        (InvalidArgument
          ''attempts[{index}].actual_duration_milliseconds is required with timing_source''),
      bail_if (at_response_latency_milliseconds a \<noteq> None \<and> at_timing_source a = None)
        (InvalidArgument
          ''attempts[{index}].timing_source is required with response_latency_milliseconds''),
      record_list (length (at_observations a)) ''attempts[{index}].observations'' 300]"

definition record_attempt ::
    "nat set \<Rightarrow> record_state \<Rightarrow> attempt_input \<Rightarrow> record_error + record_state" where
  "record_attempt item_numbers st a =
     (let (attempt_numbers, observation_numbers, observation_count) = st in
      if at_attempt_no a = 0 \<or> at_attempt_no a \<in> attempt_numbers
      then Inl (InvalidArgument ''attempts[{index}].attempt_no must be positive and unique'')
      else bindE (record_attempt_head item_numbers a) (\<lambda>_.
        bindE (foldE (record_observation ''attempts[{index}].observations[{observation_index}]'')
            observation_numbers (at_observations a)) (\<lambda>observation_numbers'.
        bindE (record_list (length (at_reflections a)) ''attempts[{index}].reflections'' 20) (\<lambda>_.
        bindE (foldE record_reflection {} (at_reflections a)) (\<lambda>_.
        Inr (insert (at_attempt_no a) attempt_numbers, observation_numbers',
          observation_count + length (at_observations a)))))))"

section \<open>Assessments, findings, reviews\<close>

definition record_assessment ::
    "nat set \<Rightarrow> requested_point_assessment_input \<Rightarrow> record_error + unit" where
  "record_assessment attempt_numbers p = seqE
     [bail_if (pa_attempt_no p = 0 \<or> pa_attempt_no p \<notin> attempt_numbers) (UnknownReference
        ''requested_point_assessments[{index}].attempt_no references an attempt not in this request''),
      record_text (pa_point_key p) ''requested_point_assessments[{index}].point_key'' 160,
      record_text (pa_evaluator p) ''requested_point_assessments[{index}].evaluator'' 160,
      record_optional_text (pa_supporting_excerpt p)
        ''requested_point_assessments[{index}].supporting_excerpt'' 4000,
      record_optional_text (pa_reason p) ''requested_point_assessments[{index}].reason'' 2000,
      record_optional_text (pa_rubric_version p)
        ''requested_point_assessments[{index}].rubric_version'' 160,
      record_optional_text (pa_assessed_at p)
        ''requested_point_assessments[{index}].assessed_at'' 128,
      bail_if (pa_supporting_excerpt p = None \<and> pa_reason p = None) (InvalidArgument
        ''requested_point_assessments[{index}] needs supporting_excerpt or reason'')]"

definition record_finding ::
    "record_request \<Rightarrow> nat set \<Rightarrow> finding_input \<Rightarrow> record_error + unit" where
  "record_finding r item_numbers f = seqE
     [record_text (fi_original f) ''findings[{index}].original'' 4000,
      record_optional_text (fi_suggestion f) ''findings[{index}].suggestion'' 4000,
      record_optional_text (fi_note f) ''findings[{index}].note'' 2000,
      optE (fi_practice_item_no f) (\<lambda>item_no. bail_if (item_no \<notin> item_numbers) (UnknownReference
        ''findings[{index}].practice_item_no references an item not in this request'')),
      optE (fi_attempt_no f) (\<lambda>attempt_no.
        bindE (ok_or (find (\<lambda>a. at_attempt_no a = attempt_no) (rr_attempts r)) (UnknownReference
          ''findings[{index}].attempt_no references an attempt not in this request'')) (\<lambda>a.
        optE (fi_practice_item_no f) (\<lambda>item_no.
          bail_if (at_practice_item_no a \<noteq> Some item_no) (InvalidArgument
            ''findings[{index}].practice_item_no and attempt_no must refer to the same turn''))))]"

definition record_evidence_number ::
    "record_request \<Rightarrow> nat set \<Rightarrow> ustring \<Rightarrow> nat set \<Rightarrow> nat \<Rightarrow> record_error + nat set" where
  "record_evidence_number r observation_numbers key numbers n =
     bindE (seqE
       [bail_if (n = 0 \<or> n \<in> numbers) (InvalidArgument
          ''reviews[{index}].evidence_observation_nos[{number_index}] must be positive and unique''),
        bail_if (list_ex (\<lambda>o1. ob_observation_no o1 = n \<and> ob_weakness_key o1 \<noteq> key)
            (rr_observations r @ concat (map it_observations (rr_items r)) @
             concat (map at_observations (rr_attempts r))))
          (InvalidArgument ''review observations must have the same weakness''),
        bail_if (n \<notin> observation_numbers) (UnknownReference
          ''reviews[{index}].evidence_observation_nos[{number_index}] references an observation not in this request'')])
       (\<lambda>_. Inr (insert n numbers))"

definition record_review ::
    "record_request \<Rightarrow> nat set \<Rightarrow> review_input \<Rightarrow> record_error + unit" where
  "record_review r observation_numbers v = seqE
     [record_text (rv_weakness_key v) ''reviews[{index}].weakness_key'' 160,
      bail_if (rv_evidence_observation_nos v = []) (InvalidArgument
        ''reviews[{index}].evidence_observation_nos must not be empty''),
      bindE (foldE (record_evidence_number r observation_numbers (rv_weakness_key v)) {}
        (rv_evidence_observation_nos v)) (\<lambda>_. Inr ()),
      record_optional_text (rv_rating_rationale v) ''reviews[{index}].rating_rationale'' 1000,
      bail_if (4096 < blen (rv_evidence v)) (InvalidArgument
        ''reviews[{index}].evidence must be at most 4096 serialized bytes'')]"

section \<open>The whole check\<close>

definition validate_record_practice_request :: "record_request \<Rightarrow> record_error + unit" where
  "validate_record_practice_request r =
     bindE (record_envelope r) (\<lambda>_.
     bindE (foldE record_weakness {} (rr_new_weaknesses r)) (\<lambda>_.
     bindE (foldE record_item ({}, {}, length (rr_observations r)) (rr_items r))
       (\<lambda>(item_numbers, numbers1, count1).
     bindE (forE (record_requirement item_numbers) (rr_task_requirements r)) (\<lambda>_.
     bindE (foldE (record_attempt item_numbers) ({}, numbers1, count1) (rr_attempts r))
       (\<lambda>(attempt_numbers, numbers2, observation_count).
     bindE (forE (record_assessment attempt_numbers) (rr_requested_point_assessments r)) (\<lambda>_.
     bindE (record_list (length (rr_observations r)) ''observations'' 300) (\<lambda>_.
     bindE (foldE (record_observation ''observations[{index}]'') numbers2 (rr_observations r))
       (\<lambda>observation_numbers.
     seqE
      [bail_if (300 < observation_count) (InvalidArgument
         ''a session may contain at most 300 observations''),
       map_errE InvalidArgument (validate_session_observation_numbers r),
       map_errE InvalidArgument (validate_activity_recording r),
       forE (record_finding r item_numbers) (rr_findings r),
       forE (record_review r observation_numbers) (rr_reviews r)]))))))))"

end
