(* ===== verification/Scheduling.thy ===== *)
theory Scheduling
  imports Prelude Complex_Main
begin

text \<open>
  Learning days and memory states: the date helpers of \<open>src/db.rs\<close> and the whole of
  \<open>src/fsrs_adapter.rs\<close>. The crates the code calls are parameters: \<open>time_lib\<close> holds what it
  uses of \<open>chrono\<close> and \<open>chrono_tz\<close> (an instant is an \<open>int\<close>, a calendar day the \<open>int\<close> that
  counts it), \<open>fsrs_lib\<close> what it uses of \<open>fsrs\<close> and the rounding of a number to single
  precision (\<open>None\<close> when the result is not finite). Finite floating point numbers are
  rationals; the library is taken to return finite ones.
\<close>

section \<open>Learning days\<close>

record time_lib =
  tl_parse_rfc3339 :: "ustring \<Rightarrow> int option"
  tl_to_rfc3339 :: "int \<Rightarrow> ustring"
  tl_timezone :: "ustring \<Rightarrow> (int \<Rightarrow> int \<times> nat) option"
  tl_parse_date :: "ustring \<Rightarrow> int option"
  tl_format_date :: "int \<Rightarrow> ustring"

definition normalized_timestamp ::
    "time_lib \<Rightarrow> int \<Rightarrow> ustring option \<Rightarrow> string + ustring \<times> int" where
  "normalized_timestamp T now_utc v =
     bindE (case v of
         None \<Rightarrow> Inr now_utc
       | Some s \<Rightarrow> ok_or (tl_parse_rfc3339 T s) ''reviewed_at must be a valid ISO-8601 timestamp'')
       (\<lambda>dt. Inr (tl_to_rfc3339 T dt, dt))"

text \<open>The day of an instant in the learner's time zone; it begins at the cutoff hour.\<close>

definition learning_day :: "time_lib \<Rightarrow> int \<Rightarrow> ustring \<Rightarrow> nat \<Rightarrow> string + int" where
  "learning_day T dt timezone cutoff =
     bindE (ok_or (tl_timezone T timezone) ''invalid IANA scheduler timezone: {name}'') (\<lambda>local.
       let (day, hour) = local dt in
       Inr (if hour < cutoff then day - 1 else day))"

definition learning_day_delta ::
    "time_lib \<Rightarrow> ustring \<Rightarrow> ustring \<Rightarrow> ustring \<Rightarrow> nat \<Rightarrow> string + int" where
  "learning_day_delta T previous current timezone cutoff =
     bindE (ok_or (tl_parse_rfc3339 T previous) ''ParseError'') (\<lambda>a.
     bindE (ok_or (tl_parse_rfc3339 T current) ''ParseError'') (\<lambda>b.
     bindE (learning_day T b timezone cutoff) (\<lambda>day_b.
     bindE (learning_day T a timezone cutoff) (\<lambda>day_a.
     let delta = day_b - day_a in
     if delta < 0
     then Inl ''reviewed_at must not be earlier than the scheduler item's last review''
     else Inr delta))))"

definition valid_date :: "time_lib \<Rightarrow> ustring \<Rightarrow> string \<Rightarrow> string + int" where
  "valid_date T v field =
     bindE (ok_or (tl_parse_date T v) (field @ '' must be a valid YYYY-MM-DD date'')) (\<lambda>date.
     if tl_format_date T date \<noteq> v then Inl (field @ '' must use the exact YYYY-MM-DD format'')
     else Inr date)"

section \<open>The FSRS adapter\<close>

record memory_state =
  ms_stability :: rat
  ms_difficulty :: rat

record item_state =
  is_memory :: memory_state
  is_interval :: rat

record next_states =
  ns_again :: item_state
  ns_hard :: item_state
  ns_good :: item_state
  ns_easy :: item_state

text \<open>
  \<open>fl_new\<close> checks the parameters (\<open>FSRS::new\<close>) and gives the function \<open>next_states\<close> of the
  scheduler, which may fail.
\<close>

record fsrs_lib =
  fl_f32 :: "rat \<Rightarrow> rat option"
  fl_new :: "rat list \<Rightarrow>
    (memory_state option \<Rightarrow> rat \<Rightarrow> nat \<Rightarrow> next_states option) option"
  fl_retrievability :: "memory_state \<Rightarrow> nat \<Rightarrow> rat \<Rightarrow> rat"
  fl_default_decay :: rat

record scheduled_state =
  sd_memory :: memory_state
  sd_interval_days :: int

text \<open>\<open>round().max(1.0) as i32\<close>: half away from zero, saturating.\<close>

definition interval_days :: "rat \<Rightarrow> int" where
  "interval_days x =
     (let rounded = (if x < 0 then - \<lfloor>- x + 1 / 2\<rfloor> else \<lfloor>x + 1 / 2\<rfloor>) in
      min (max rounded 1) 2147483647)"

definition retention_allowed :: "fsrs_lib \<Rightarrow> rat \<Rightarrow> bool" where
  "retention_allowed F r =
     (case (fl_f32 F (70 / 100), fl_f32 F (97 / 100)) of
        (Some low, Some high) \<Rightarrow> low \<le> r \<and> r \<le> high
      | _ \<Rightarrow> False)"

definition state_for_rating :: "next_states \<Rightarrow> int \<Rightarrow> item_state" where
  "state_for_rating n rating =
     (if rating = 1 then ns_again n else if rating = 2 then ns_hard n
      else if rating = 3 then ns_good n else ns_easy n)"

definition schedule ::
    "fsrs_lib \<Rightarrow> memory_state option \<Rightarrow> int \<Rightarrow> int \<Rightarrow> rat \<Rightarrow> rat list \<Rightarrow>
     string + scheduled_state" where
  "schedule F previous elapsed_days rating desired_retention parameters =
     (if \<not> (1 \<le> rating \<and> rating \<le> 4) \<or> elapsed_days < 0
      then Inl ''invalid FSRS scheduling input''
      else if elapsed_days \<ge> 2 ^ 32 then Inl ''elapsed days overflow''
      else if \<not> retention_allowed F desired_retention then Inl ''invalid desired retention''
      else bindE (ok_or (fl_new F parameters) ''invalid FSRS parameters'') (\<lambda>next_states.
        bindE (ok_or (next_states previous desired_retention (nat elapsed_days))
          ''FSRS scheduling failed'') (\<lambda>n.
        let state = state_for_rating n rating in
        Inr \<lparr>sd_memory = is_memory state, sd_interval_days = interval_days (is_interval state)\<rparr>)))"

definition retrievability ::
    "fsrs_lib \<Rightarrow> memory_state \<Rightarrow> int \<Rightarrow> rat list \<Rightarrow> string + rat" where
  "retrievability F state elapsed_days parameters =
     (if elapsed_days < 0 then Inl ''elapsed days cannot be negative''
      else
        let decay = (if 20 < length parameters then parameters ! 20 else fl_default_decay F) in
        Inr (fl_retrievability F state (nat elapsed_days) decay))"

definition cached_memory_state :: "fsrs_lib \<Rightarrow> rat \<Rightarrow> rat \<Rightarrow> string + memory_state" where
  "cached_memory_state F stability difficulty =
     (case (fl_f32 F stability, fl_f32 F difficulty) of
        (Some s, Some d) \<Rightarrow>
          if s \<le> 0 \<or> \<not> (1 \<le> d \<and> d \<le> 10) then Inl ''invalid cached FSRS memory state''
          else Inr \<lparr>ms_stability = s, ms_difficulty = d\<rparr>
      | _ \<Rightarrow> Inl ''invalid cached FSRS memory state'')"

section \<open>What they establish\<close>

lemma interval_days_bounds: "1 \<le> interval_days x" "interval_days x \<le> 2147483647"
  by (simp_all add: interval_days_def Let_def)

text \<open>Within the range the interval is the nearest whole number of days.\<close>

lemma interval_days_nearest:
  assumes "1 \<le> x" and "x \<le> 2147483646"
  shows "\<bar>of_int (interval_days x) - x\<bar> \<le> 1 / 2"
proof -
  have "1 \<le> \<lfloor>x + 1 / 2\<rfloor>" using assms(1) by (simp add: le_floor_iff)
  moreover have "\<lfloor>x + 1 / 2\<rfloor> \<le> 2147483647"
    using assms(2) by (simp add: floor_le_iff)
  ultimately have "interval_days x = \<lfloor>x + 1 / 2\<rfloor>"
    using assms(1) by (simp add: interval_days_def Let_def)
  then show ?thesis
    using of_int_floor_le [of "x + 1 / 2"] floor_correct [of "x + 1 / 2"]
    unfolding abs_le_iff by linarith
qed

lemma learning_day_Inr [ok_simps]:
  "learning_day T dt timezone cutoff = Inr d \<longleftrightarrow>
     (\<exists>local. tl_timezone T timezone = Some local \<and>
        d = (if snd (local dt) < cutoff then fst (local dt) - 1 else fst (local dt)))"
  by (cases "tl_timezone T timezone") (auto simp: learning_day_def split: prod.split)

lemma learning_day_delta_nonneg: "learning_day_delta T p c z h = Inr d \<Longrightarrow> 0 \<le> d"
  by (auto simp: learning_day_delta_def ok_simps Let_def split: if_splits)

lemma valid_date_Inr [ok_simps]:
  "valid_date T v field = Inr d \<longleftrightarrow> tl_parse_date T v = Some d \<and> tl_format_date T d = v"
  by (auto simp: valid_date_def ok_simps)

lemma schedule_Inr:
  "schedule F p e rating r ps = Inr s \<longleftrightarrow>
     1 \<le> rating \<and> rating \<le> 4 \<and> 0 \<le> e \<and> e < 2 ^ 32 \<and> retention_allowed F r \<and>
     (\<exists>next_states n. fl_new F ps = Some next_states \<and> next_states p r (nat e) = Some n \<and>
        s = \<lparr>sd_memory = is_memory (state_for_rating n rating),
             sd_interval_days = interval_days (is_interval (state_for_rating n rating))\<rparr>)"
  by (auto simp: schedule_def ok_simps Let_def)

lemma cached_memory_state_Inr:
  "cached_memory_state F s d = Inr m \<longleftrightarrow>
     fl_f32 F s = Some (ms_stability m) \<and> fl_f32 F d = Some (ms_difficulty m) \<and>
     0 < ms_stability m \<and> 1 \<le> ms_difficulty m \<and> ms_difficulty m \<le> 10"
  by (cases m) (auto simp: cached_memory_state_def split: option.splits)

end
