(* ===== verification/RecordTables.thy ===== *)
theory RecordTables
  imports RecordRequest Production Targets Scheduling
begin

text \<open>
  The tables a recorded session is written to (\<open>sql/sqlite_schema.sql\<close>) and one function per
  insertion of \<open>record_practice\<close> in \<open>src/db.rs\<close>. Tables are lists of rows in insertion order; a
  column whose text is the name of an enumeration holds its value, a column with JSON text the
  value it encodes; creation times and the columns with constant defaults are left out. The
  memory columns of a scheduler item are all null or all set (the table's check), so they are
  an optional record kept per item.

  A violated constraint of the schema is the internal error SQLite raises; the constraints that
  an accepted request can violate are written out at the insertions. Digests and the
  classification of letters and digits are parameters.
\<close>

section \<open>Tables\<close>

record scheduler_config_row =
  sf_algorithm :: ustring
  sf_algorithm_version :: ustring
  sf_parameters :: "rat list"
  sf_desired_retention :: rat
  sf_timezone :: ustring
  sf_cutoff :: nat
  sf_parameter_set_id :: nat

record memory_columns =
  mc_stability :: rat
  mc_difficulty :: rat
  mc_due_learning_day :: ustring
  mc_last_review_at :: ustring
  mc_algorithm_version :: ustring
  mc_parameter_set_id :: nat

record session_row =
  se_id :: nat
  se_session_date :: ustring
  se_exercise_type_key :: exercise_type_key
  se_task_ref :: "ustring option"
  se_topic :: "ustring option"
  se_notes :: "ustring option"

record run_row =
  ru_id :: nat
  ru_session_id :: nat
  ru_run_no :: nat
  ru_activity_type :: activity_type
  ru_planned_duration_seconds :: "nat option"
  ru_actual_duration_milliseconds :: "nat option"
  ru_timing_source :: "timing_source option"
  ru_config :: "activity_config_input option"
  ru_notes :: "ustring option"

record stimulus_row =
  sl_activity_run_id :: nat
  sl_stimulus_no :: nat
  sl_kind :: stimulus_kind
  sl_delivery_mode :: stimulus_delivery_mode
  sl_content_text :: "ustring option"
  sl_source_uri :: "ustring option"
  sl_content_fingerprint :: "ustring option"

record practice_item_row =
  pi_id :: nat
  pi_session_id :: nat
  pi_item_no :: nat
  pi_drill_type :: drill_type
  pi_prompt :: ustring
  pi_prompt_fingerprint :: ustring
  pi_response :: "ustring option"
  pi_corrected_response :: "ustring option"
  pi_reference_answer :: "ustring option"
  pi_feedback :: "ustring option"
  pi_outcome :: "practice_item_outcome option"
  pi_activity_run_id :: "nat option"
  pi_item_phase :: activity_item_phase
  pi_computed_word_count :: "nat option"
  pi_word_counter_version :: "string option"

record requirement_row =
  qr_session_id :: nat
  qr_practice_item_id :: "nat option"
  qr_exam_key :: "ustring option"
  qr_specification_version :: "ustring option"
  qr_skill :: ustring
  qr_task_key :: ustring
  qr_prompt_hash :: "ustring option"
  qr_requested_points :: "ustring list"
  qr_word_min :: "nat option"
  qr_word_max :: "nat option"
  qr_time_budget_seconds :: "nat option"
  qr_preparation_budget_seconds :: "nat option"
  qr_source :: task_requirement_source

record attempt_row_rec =
  ta_id :: nat
  ta_session_id :: nat
  ta_attempt_no :: nat
  ta_practice_item_id :: "nat option"
  ta_transcript :: ustring
  ta_target_duration_seconds :: "nat option"
  ta_actual_duration_milliseconds :: "nat option"
  ta_response_mode :: "response_mode option"
  ta_response_latency_milliseconds :: "nat option"
  ta_timing_source :: "timing_source option"

record reflection_row =
  rx_attempt_id :: nat
  rx_reflection_no :: nat
  rx_source :: reflection_source
  rx_kind :: reflection_kind
  rx_note :: ustring

record assessment_row =
  px_attempt_id :: nat
  px_point_key :: ustring
  px_status :: requested_point_status
  px_supporting_excerpt :: "ustring option"
  px_reason :: "ustring option"
  px_evaluator :: ustring
  px_rubric_version :: "ustring option"
  px_assessed_at :: ustring
  px_retrospective :: bool

record observation_row =
  ow_id :: nat
  ow_session_id :: nat
  ow_attempt_id :: "nat option"
  ow_practice_item_id :: "nat option"
  ow_weakness_id :: nat
  ow_observation_no :: nat
  ow_outcome :: observation_outcome
  ow_role :: observation_role
  ow_assessment_phase :: assessment_phase
  ow_hint_level :: hint_level
  ow_learner_effort :: "learner_effort option"
  ow_evidence_source :: evidence_source
  ow_evidence_strength :: "evidence_strength option"
  ow_severity :: "observation_severity option"
  ow_produced :: "ustring option"
  ow_correction :: "ustring option"
  ow_error_span :: "ustring option"
  ow_notes :: "ustring option"

record session_finding_row =
  fw_session_id :: nat
  fw_practice_item_id :: "nat option"
  fw_attempt_id :: "nat option"
  fw_assessment_kind :: finding_kind
  fw_original :: ustring
  fw_suggestion :: "ustring option"
  fw_note :: "ustring option"

record review_row =
  vw_id :: nat
  vw_scheduler_item_id :: nat
  vw_session_id :: nat
  vw_reviewed_at :: ustring
  vw_review_learning_day :: ustring
  vw_rating :: int
  vw_rating_source :: rating_source
  vw_rating_rationale :: "ustring option"
  vw_retrieval_mode :: retrieval_mode
  vw_evidence_strength :: evidence_strength
  vw_evidence :: ustring
  vw_elapsed_days :: int
  vw_desired_retention :: rat
  vw_retrievability_before :: "rat option"
  vw_memory_before :: "memory_state option"
  vw_memory_after :: memory_state
  vw_scheduled_interval_days :: int
  vw_due_learning_day :: ustring
  vw_algorithm :: ustring
  vw_algorithm_version :: ustring
  vw_parameter_set_id :: nat

record review_observation_row =
  ro_review_id :: nat
  ro_observation_id :: nat
  ro_evidence_role :: string

record review_update =
  ud_weakness_key :: ustring
  ud_rating :: string
  ud_retrievability_before :: "rat option"
  ud_stability_before :: "rat option"
  ud_stability_after :: rat
  ud_difficulty_before :: "rat option"
  ud_difficulty_after :: rat
  ud_scheduled_interval_days :: int
  ud_due_learning_day :: ustring

record record_response =
  re_review_decisions :: "review_decision_rec list"
  re_contract_version :: nat
  re_session_id :: nat
  re_status :: record_status
  re_exercise_type_key :: exercise_type_key
  re_exercise_type_label :: string
  re_item_count :: nat
  re_attempt_count :: nat
  re_observation_count :: nat
  re_activity_run_count :: nat
  re_stimulus_count :: nat
  re_reflection_count :: nat
  re_new_weaknesses_created :: "ustring list"
  re_review_updates :: "review_update list"
  re_finding_counts :: "string \<rightharpoonup> nat"

record production_row =
  pn_session_id :: nat
  pn_policy :: resolved_policy
  pn_evidence :: "production_evidence option"
  pn_audit :: audit_result

record ledger_row =
  lg_idempotency_key :: ustring
  lg_session_id :: nat
  lg_request_hash :: ustring
  lg_response :: record_response
  lg_replayable :: bool

record study_store =
  ys_learning :: learning_db
  ys_preferences :: preference_db
  ys_config :: "scheduler_config_row option"
  ys_seen :: "ustring \<rightharpoonup> ustring \<times> ustring"
  ys_memory :: "nat \<rightharpoonup> memory_columns"
  ys_sessions :: "session_row list"
  ys_unobserved :: "(nat \<times> nat) list"
  ys_runs :: "run_row list"
  ys_stimuli :: "stimulus_row list"
  ys_items :: "practice_item_row list"
  ys_item_targets :: "(nat \<times> nat) list"
  ys_requirements :: "requirement_row list"
  ys_attempts :: "attempt_row_rec list"
  ys_reflections :: "reflection_row list"
  ys_assessments :: "assessment_row list"
  ys_observations :: "observation_row list"
  ys_findings :: "session_finding_row list"
  ys_reviews :: "review_row list"
  ys_review_observations :: "review_observation_row list"
  ys_production :: "production_row list"
  ys_ledger :: "ledger_row list"

text \<open>What the code calls outside the repository, and the clock.\<close>

record record_env =
  ev_time :: time_lib
  ev_fsrs :: fsrs_lib
  ev_now :: int
  ev_serialized_len :: "record_request \<Rightarrow> nat"
  ev_request_hash :: "record_request \<Rightarrow> ustring"
  ev_sha256 :: "ustring \<Rightarrow> ustring"
  ev_alphanumeric :: "nat \<Rightarrow> bool"

section \<open>Texts\<close>

fun split_words :: "ustring \<Rightarrow> ustring \<Rightarrow> ustring list" where
  "split_words acc [] = (if acc = [] then [] else [rev acc])"
| "split_words acc (c # cs) =
     (if is_white c then (if acc = [] then split_words [] cs else rev acc # split_words [] cs)
      else split_words (c # acc) cs)"

definition split_whitespace :: "ustring \<Rightarrow> ustring list" where
  "split_whitespace s = split_words [] s"

fun join_words :: "ustring list \<Rightarrow> ustring" where
  "join_words [] = []"
| "join_words [w] = w"
| "join_words (w # ws) = w @ 32 # join_words ws"

definition prompt_fingerprint :: "record_env \<Rightarrow> ustring \<Rightarrow> ustring" where
  "prompt_fingerprint E prompt = ev_sha256 E (join_words (split_whitespace (to_lowercase prompt)))"

definition stimulus_fingerprint ::
    "record_env \<Rightarrow> ustring option \<Rightarrow> ustring option \<Rightarrow> ustring option" where
  "stimulus_fingerprint E content_text source_uri =
     map_option (ev_sha256 E)
       (or_else (map_option (\<lambda>t. join_words (split_whitespace (to_lowercase t))) content_text)
         (map_option trim source_uri))"

definition word_count :: "record_env \<Rightarrow> ustring \<Rightarrow> nat" where
  "word_count E s = length (filter (list_ex (ev_alphanumeric E)) (split_whitespace s))"

definition word_counter_version :: string where
  "word_counter_version = ''unicode-alnum-whitespace-v1''"

end
