(* ===== verification/Recording.thy ===== *)
theory Recording
  imports RecordTables
begin

text \<open>
  \<open>record_practice\<close> of \<open>src/db.rs\<close>: the insertions, the database checks, the review of a target
  with its evidence rules, and the transaction that composes them. The maps from the numbers of
  a request to row ids are association lists; \<open>?\<close> on a database or library error gives
  \<open>RecordInternal\<close>.
\<close>

definition internal :: "string + 'a \<Rightarrow> record_error + 'a" where
  "internal m = map_errE RecordInternal m"

definition invalid :: "string + 'a \<Rightarrow> record_error + 'a" where
  "invalid m = map_errE InvalidArgument m"

record recording =
  rc_store :: study_store
  rc_runs :: "(nat \<times> nat) list"
  rc_items :: "(nat \<times> nat) list"
  rc_attempts :: "(nat \<times> nat) list"
  rc_observations :: "(nat \<times> nat) list"

section \<open>Insertions\<close>

definition find_weakness :: "study_store \<Rightarrow> ustring \<Rightarrow> weakness option" where
  "find_weakness st k = find (\<lambda>w. wk_key w = k) (db_weaknesses (ys_learning st))"

definition weakness_exists :: "study_store \<Rightarrow> ustring \<Rightarrow> bool" where
  "weakness_exists st k \<longleftrightarrow> list_ex (\<lambda>w. wk_key w = k) (db_weaknesses (ys_learning st))"

definition insert_session :: "ustring \<Rightarrow> record_request \<Rightarrow> study_store \<Rightarrow> nat \<times> study_store" where
  "insert_session date r st =
     (let sid = next_rowid (map se_id (ys_sessions st)) in
      (sid, st\<lparr>ys_sessions := ys_sessions st @
        [\<lparr>se_id = sid, se_session_date = date, se_exercise_type_key = rr_exercise_type_key r,
          se_task_ref = rr_task_ref r, se_topic = rr_topic r, se_notes = rr_notes r\<rparr>]\<rparr>))"

definition insert_unobserved :: "nat \<Rightarrow> record_request \<Rightarrow> study_store \<Rightarrow> study_store" where
  "insert_unobserved sid r st =
     (case rr_production_evidence r of
        None \<Rightarrow> st
      | Some e \<Rightarrow> st\<lparr>ys_unobserved := ys_unobserved st @
          map (\<lambda>oe. (sid, oe_observation_no oe))
            (filter (\<lambda>oe. oe_target_realization oe = Real_NotObserved \<or>
               oe_target_realization oe = Real_Ambiguous) (pe_observations e))\<rparr>)"

definition stimulus_row_of ::
    "record_env \<Rightarrow> nat \<Rightarrow> activity_stimulus_input \<Rightarrow> stimulus_row" where
  "stimulus_row_of E run_id s =
     \<lparr>sl_activity_run_id = run_id, sl_stimulus_no = st_stimulus_no s, sl_kind = st_kind s,
      sl_delivery_mode = st_delivery_mode s, sl_content_text = st_content_text s,
      sl_source_uri = st_source_uri s,
      sl_content_fingerprint = stimulus_fingerprint E (st_content_text s) (st_source_uri s)\<rparr>"

definition insert_run :: "record_env \<Rightarrow> nat \<Rightarrow> recording \<Rightarrow> activity_run_input \<Rightarrow> recording" where
  "insert_run E sid rc run =
     (let st = rc_store rc; run_id = next_rowid (map ru_id (ys_runs st)) in
      rc\<lparr>rc_store := st\<lparr>ys_runs := ys_runs st @
             [\<lparr>ru_id = run_id, ru_session_id = sid, ru_run_no = run_run_no run,
               ru_activity_type = run_activity_type run,
               ru_planned_duration_seconds = run_planned_duration_seconds run,
               ru_actual_duration_milliseconds = run_actual_duration_milliseconds run,
               ru_timing_source = run_timing_source run, ru_config = run_config run,
               ru_notes = run_notes run\<rparr>],
           ys_stimuli := ys_stimuli st @ map (stimulus_row_of E run_id) (run_stimuli run)\<rparr>,
         rc_runs := AList.update (run_run_no run) run_id (rc_runs rc)\<rparr>)"

text \<open>A target named twice in an item violates the primary key.\<close>

definition insert_item_target :: "nat \<Rightarrow> study_store \<Rightarrow> ustring \<Rightarrow> record_error + study_store" where
  "insert_item_target iid st k =
     (let st1 = st\<lparr>ys_learning := promote_target_if_needed k (ys_learning st)\<rparr> in
      case find_weakness st1 k of
        None \<Rightarrow> Inr st1
      | Some w \<Rightarrow>
          if (iid, wk_id w) \<in> set (ys_item_targets st1)
          then Inl (RecordInternal ''UNIQUE constraint failed: practice_item_targets'')
          else Inr (st1\<lparr>ys_item_targets := ys_item_targets st1 @ [(iid, wk_id w)]\<rparr>))"

definition item_row_of ::
    "record_env \<Rightarrow> nat \<Rightarrow> recording \<Rightarrow> practice_item_input \<Rightarrow> practice_item_row" where
  "item_row_of E sid rc i =
     \<lparr>pi_id = next_rowid (map pi_id (ys_items (rc_store rc))), pi_session_id = sid,
      pi_item_no = it_item_no i, pi_drill_type = it_drill_type i, pi_prompt = it_prompt i,
      pi_prompt_fingerprint = prompt_fingerprint E (it_prompt i), pi_response = it_response i,
      pi_corrected_response = it_corrected_response i,
      pi_reference_answer = it_reference_answer i, pi_feedback = it_feedback i,
      pi_outcome = it_outcome i,
      pi_activity_run_id = Option.bind (it_activity_run_no i) (map_of (rc_runs rc)),
      pi_item_phase = unwrap_or (it_item_phase i) Item_Initial,
      pi_computed_word_count = map_option (word_count E) (it_response i),
      pi_word_counter_version = map_option (\<lambda>_. word_counter_version) (it_response i)\<rparr>"

definition insert_item ::
    "record_env \<Rightarrow> nat \<Rightarrow> recording \<Rightarrow> practice_item_input \<Rightarrow> record_error + recording" where
  "insert_item E sid rc i =
     (let row = item_row_of E sid rc i; st = rc_store rc in
      bindE (foldE (insert_item_target (pi_id row)) (st\<lparr>ys_items := ys_items st @ [row]\<rparr>)
        (it_target_weakness_keys i)) (\<lambda>st'.
      Inr (rc\<lparr>rc_store := st', rc_items := AList.update (it_item_no i) (pi_id row) (rc_items rc)\<rparr>)))"

definition insert_requirement ::
    "nat \<Rightarrow> recording \<Rightarrow> task_requirement_input \<Rightarrow> record_error + recording" where
  "insert_requirement sid rc q =
     (let st = rc_store rc;
          item_id = Option.bind (rq_practice_item_no q) (map_of (rc_items rc)) in
      bindE (case (item_id, rq_prompt_hash q) of
          (Some iid, Some expected_hash) \<Rightarrow>
            bindE (ok_or (find (\<lambda>p. pi_id p = iid \<and> pi_session_id p = sid) (ys_items st))
              (RecordInternal ''Query returned no rows'')) (\<lambda>p.
            bail_if (pi_prompt_fingerprint p \<noteq> expected_hash)
              (InvalidArgument ''task requirement prompt_hash does not match item {}''))
        | _ \<Rightarrow> Inr ()) (\<lambda>_.
      if rq_time_budget_seconds q = Some 0 \<or> rq_preparation_budget_seconds q = Some 0
      then Inl (RecordInternal ''CHECK constraint failed: task_requirements'')
      else Inr (rc\<lparr>rc_store := st\<lparr>ys_requirements := ys_requirements st @
        [\<lparr>qr_session_id = sid, qr_practice_item_id = item_id, qr_exam_key = rq_exam_key q,
          qr_specification_version = rq_specification_version q, qr_skill = rq_skill q,
          qr_task_key = rq_task_key q, qr_prompt_hash = rq_prompt_hash q,
          qr_requested_points = rq_requested_points q, qr_word_min = rq_word_min q,
          qr_word_max = rq_word_max q, qr_time_budget_seconds = rq_time_budget_seconds q,
          qr_preparation_budget_seconds = rq_preparation_budget_seconds q,
          qr_source = rq_source q\<rparr>]\<rparr>\<rparr>)))"

definition observation_row_of ::
    "nat \<Rightarrow> nat option \<Rightarrow> nat option \<Rightarrow> nat \<Rightarrow> nat \<Rightarrow> assessment_phase \<Rightarrow> observation_input \<Rightarrow>
     observation_row" where
  "observation_row_of sid aid iid oid wid phase o1 =
     \<lparr>ow_id = oid, ow_session_id = sid, ow_attempt_id = aid, ow_practice_item_id = iid,
      ow_weakness_id = wid, ow_observation_no = ob_observation_no o1, ow_outcome = ob_outcome o1,
      ow_role = ob_role o1, ow_assessment_phase = phase,
      ow_hint_level = unwrap_or (ob_hint_level o1) Hint_None,
      ow_learner_effort = ob_learner_effort o1,
      ow_evidence_source = unwrap_or (ob_evidence_source o1) Source_Assistant,
      ow_evidence_strength = ob_evidence_strength o1, ow_severity = ob_severity o1,
      ow_produced = ob_produced o1, ow_correction = ob_correction o1,
      ow_error_span = ob_error_span o1, ow_notes = ob_notes o1\<rparr>"

definition insert_observation ::
    "nat \<Rightarrow> nat option \<Rightarrow> nat option \<Rightarrow> recording \<Rightarrow> observation_input \<Rightarrow> record_error + recording" where
  "insert_observation sid aid iid rc o1 =
     (let st = rc_store rc in
      bindE (internal (normalized_phase o1)) (\<lambda>phase.
      bindE (ok_or (find_weakness st (ob_weakness_key o1))
        (RecordInternal ''unknown weakness key: {}'')) (\<lambda>w.
      let oid = next_rowid (map ow_id (ys_observations st)) in
      Inr (rc\<lparr>rc_store := st\<lparr>ys_observations := ys_observations st @
             [observation_row_of sid aid iid oid (wk_id w) phase o1]\<rparr>,
           rc_observations := AList.update (ob_observation_no o1) oid (rc_observations rc)\<rparr>))))"

text \<open>A target duration of zero violates a check of the table.\<close>

definition attempt_row_of :: "nat \<Rightarrow> nat \<Rightarrow> nat option \<Rightarrow> attempt_input \<Rightarrow> attempt_row_rec" where
  "attempt_row_of sid aid iid a =
     \<lparr>ta_id = aid, ta_session_id = sid, ta_attempt_no = at_attempt_no a,
      ta_practice_item_id = iid, ta_transcript = at_transcript a,
      ta_target_duration_seconds = at_target_duration_seconds a,
      ta_actual_duration_milliseconds = at_actual_duration_milliseconds a,
      ta_response_mode = at_response_mode a,
      ta_response_latency_milliseconds = at_response_latency_milliseconds a,
      ta_timing_source = at_timing_source a\<rparr>"

definition reflection_row_of :: "nat \<Rightarrow> attempt_reflection_input \<Rightarrow> reflection_row" where
  "reflection_row_of aid rf =
     \<lparr>rx_attempt_id = aid, rx_reflection_no = rf_reflection_no rf, rx_source = rf_source rf,
      rx_kind = rf_kind rf, rx_note = rf_note rf\<rparr>"

definition insert_attempt ::
    "nat \<Rightarrow> recording \<Rightarrow> attempt_input \<Rightarrow> record_error + recording" where
  "insert_attempt sid rc a =
     (let st = rc_store rc;
          iid = Option.bind (at_practice_item_no a) (map_of (rc_items rc));
          aid = next_rowid (map ta_id (ys_attempts st)) in
      bindE (bail_if (at_target_duration_seconds a = Some 0)
        (RecordInternal ''CHECK constraint failed: attempts'')) (\<lambda>_.
      foldE (insert_observation sid (Some aid) iid)
        (rc\<lparr>rc_store := st\<lparr>ys_attempts := ys_attempts st @ [attempt_row_of sid aid iid a],
             ys_reflections := ys_reflections st @
               map (reflection_row_of aid) (at_reflections a)\<rparr>,
           rc_attempts := AList.update (at_attempt_no a) aid (rc_attempts rc)\<rparr>)
        (at_observations a)))"

definition insert_assessment ::
    "ustring \<Rightarrow> recording \<Rightarrow> requested_point_assessment_input \<Rightarrow> record_error + recording" where
  "insert_assessment reviewed_at rc p =
     (let st = rc_store rc in
      bindE (ok_or (map_of (rc_attempts rc) (pa_attempt_no p))
        (RecordInternal ''requested point assessment references unknown attempt'')) (\<lambda>aid.
      if list_ex (\<lambda>x. px_attempt_id x = aid \<and> px_point_key x = pa_point_key p) (ys_assessments st)
      then Inl (RecordInternal ''UNIQUE constraint failed: requested_point_assessments'')
      else Inr (rc\<lparr>rc_store := st\<lparr>ys_assessments := ys_assessments st @
        [\<lparr>px_attempt_id = aid, px_point_key = pa_point_key p, px_status = pa_status p,
          px_supporting_excerpt = pa_supporting_excerpt p, px_reason = pa_reason p,
          px_evaluator = pa_evaluator p, px_rubric_version = pa_rubric_version p,
          px_assessed_at = unwrap_or (pa_assessed_at p) reviewed_at,
          px_retrospective = pa_retrospective p\<rparr>]\<rparr>\<rparr>)))"

definition insert_item_observations ::
    "nat \<Rightarrow> recording \<Rightarrow> practice_item_input \<Rightarrow> record_error + recording" where
  "insert_item_observations sid rc i =
     foldE (insert_observation sid None (map_of (rc_items rc) (it_item_no i))) rc (it_observations i)"

definition insert_finding :: "nat \<Rightarrow> recording \<Rightarrow> finding_input \<Rightarrow> recording" where
  "insert_finding sid rc f =
     (let st = rc_store rc in
      rc\<lparr>rc_store := st\<lparr>ys_findings := ys_findings st @
        [\<lparr>fw_session_id = sid,
          fw_practice_item_id = Option.bind (fi_practice_item_no f) (map_of (rc_items rc)),
          fw_attempt_id = Option.bind (fi_attempt_no f) (map_of (rc_attempts rc)),
          fw_assessment_kind = fi_assessment_kind f, fw_original = fi_original f,
          fw_suggestion = fi_suggestion f, fw_note = fi_note f\<rparr>]\<rparr>\<rparr>)"

text \<open>\<open>first_seen\<close> and \<open>last_seen\<close> of a target; \<open>min\<close> and \<open>max\<close> compare texts.\<close>

definition touch_seen :: "ustring \<Rightarrow> study_store \<Rightarrow> ustring \<Rightarrow> study_store" where
  "touch_seen date st k =
     (if weakness_exists st k
      then st\<lparr>ys_seen := (ys_seen st)(k \<mapsto>
        (case ys_seen st k of
           None \<Rightarrow> (date, date)
         | Some (first_seen, last_seen) \<Rightarrow> (min first_seen date, max last_seen date)))\<rparr>
      else st)"

end
