(* ===== verification/RecordPractice.thy ===== *)
theory RecordPractice
  imports Recording
begin

text \<open>
  \<open>record_practice\<close> of \<open>src/db.rs\<close>, continued: the references checked against the database, the
  days, the evidence of a review, its effect on the scheduler, and the transaction.
\<close>

section \<open>References\<close>

definition all_weakness_keys :: "record_request \<Rightarrow> ustring list" where
  "all_weakness_keys r =
     map nw_key (rr_new_weaknesses r) @
     concat (map it_target_weakness_keys (rr_items r)) @
     concat (map (\<lambda>i. map ob_weakness_key (it_observations i)) (rr_items r)) @
     concat (map (\<lambda>a. map ob_weakness_key (at_observations a)) (rr_attempts r)) @
     map ob_weakness_key (rr_observations r) @
     map rv_weakness_key (rr_reviews r) @
     (case rr_production_evidence r of
        None \<Rightarrow> []
      | Some e \<Rightarrow> map to_weakness_key (pe_target_opportunities e) @
          concat (map iv_target_weakness_keys (pe_interventions e)))"

definition reference_concept :: "study_store \<Rightarrow> ustring \<Rightarrow> string \<Rightarrow> record_error + unit" where
  "reference_concept st k path = seqE
     [map_errE (\<lambda>e. InvalidArgument (path @ '': '' @ e)) (validate_concept_key k),
      bail_if (\<not> list_ex (\<lambda>c. cn_key c = k) (db_concepts (ys_learning st)))
        (UnknownReference (path @ '' does not exist''))]"

definition reference_relation ::
    "study_store \<Rightarrow> ustring set \<Rightarrow> ustring \<Rightarrow> target_relation_input \<Rightarrow> record_error + unit" where
  "reference_relation st new_keys k t = seqE
     [map_errE (\<lambda>e. InvalidArgument
        (''new_weaknesses[{index}].target_relations[{relation_index}].predicate: '' @ e))
        (validate_target_relation_predicate (tr_predicate t)),
      bail_if (tr_other_weakness_key t = k) (InvalidArgument
        ''new_weaknesses[{index}].target_relations[{relation_index}] cannot target itself''),
      bail_if (tr_other_weakness_key t \<notin> new_keys \<and>
          \<not> weakness_exists st (tr_other_weakness_key t)) (UnknownReference
        ''other_weakness_key does not exist and is not declared in new_weaknesses'')]"

definition reference_weakness ::
    "study_store \<Rightarrow> ustring set \<Rightarrow> new_weakness_input \<Rightarrow> record_error + unit" where
  "reference_weakness st new_keys w = seqE
     [optE (nw_primary_concept_key w)
        (\<lambda>k. reference_concept st k ''new_weaknesses[{index}].primary_concept_key''),
      forE (\<lambda>l. reference_concept st (cl_concept_key l)
        ''new_weaknesses[{index}].concept_links[{link_index}].concept_key'') (nw_concept_links w),
      forE (reference_relation st new_keys (nw_key w)) (nw_target_relations w)]"

definition validate_record_database_references ::
    "study_store \<Rightarrow> record_request \<Rightarrow> record_error + unit" where
  "validate_record_database_references st r =
     (let new_keys = set (map nw_key (rr_new_weaknesses r));
          run_numbers = set (map run_run_no (rr_activity_runs r)) in
      seqE
       [forE (\<lambda>k. bail_if (k \<notin> new_keys \<and> \<not> weakness_exists st k) (UnknownReference
          ''weakness_key does not exist and is not declared in new_weaknesses''))
          (all_weakness_keys r),
        forE (\<lambda>i. bail_if (some_and (it_activity_run_no i) (\<lambda>n. n \<notin> run_numbers))
          (UnknownReference
            ''items[{index}].activity_run_no references an activity run not in this request''))
          (rr_items r),
        forE (reference_weakness st new_keys) (rr_new_weaknesses r)])"

section \<open>Days\<close>

definition record_days ::
    "record_env \<Rightarrow> scheduler_config_row \<Rightarrow> record_request \<Rightarrow>
     record_error + ustring \<times> int \<times> ustring" where
  "record_days E cfg r =
     bindE (invalid (normalized_timestamp (ev_time E) (ev_now E) (rr_reviewed_at r)))
       (\<lambda>(reviewed_at, review_dt).
     bindE (internal (learning_day (ev_time E) review_dt (sf_timezone cfg) (sf_cutoff cfg)))
       (\<lambda>review_day.
     bindE (internal (learning_day (ev_time E) (ev_now E) (sf_timezone cfg) (sf_cutoff cfg)))
       (\<lambda>today.
     let date = unwrap_or (rr_session_date r) (tl_format_date (ev_time E) review_day) in
     bindE (invalid (valid_date (ev_time E) date ''session_date'')) (\<lambda>session_day.
     bindE (seqE
       [bail_if (rr_reviewed_at r = None \<and> session_day \<noteq> today) (InvalidArgument
          ''backdated or future session_date requires reviewed_at''),
        bail_if (rr_reviewed_at r \<noteq> None \<and> session_day \<noteq> review_day) (InvalidArgument
          ''session_date must match the learning day of reviewed_at'')]) (\<lambda>_.
     Inr (reviewed_at, review_day, date))))))"

section \<open>New targets\<close>

definition record_new_weakness ::
    "ustring set \<Rightarrow> ustring set \<times> ustring list \<times> study_store \<Rightarrow> new_weakness_input \<Rightarrow>
     record_error + ustring set \<times> ustring list \<times> study_store" where
  "record_new_weakness declared s w =
     (let (new_keys, created, st) = s in
      if nw_key w \<in> new_keys then Inl (InvalidArgument ''duplicate new weakness key: {}'')
      else bindE (internal (upsert_weakness_tx w (nw_key w \<in> declared) True False (ys_learning st)))
        (\<lambda>((_, was_created), db).
        Inr (insert (nw_key w) new_keys, if was_created then created @ [nw_key w] else created,
          st\<lparr>ys_learning := db\<rparr>)))"

definition record_weakness_relations ::
    "study_store \<Rightarrow> new_weakness_input \<Rightarrow> record_error + study_store" where
  "record_weakness_relations st w =
     bindE (internal (foldE (insert_target_relation (nw_key w)) (ys_learning st)
       (nw_target_relations w))) (\<lambda>db. Inr (st\<lparr>ys_learning := db\<rparr>))"

section \<open>The evidence of a review\<close>

definition has_target :: "study_store \<Rightarrow> nat \<Rightarrow> ustring \<Rightarrow> bool" where
  "has_target st sid k \<longleftrightarrow>
     list_ex (\<lambda>(iid, wid).
       list_ex (\<lambda>p. pi_id p = iid \<and> pi_session_id p = sid) (ys_items st) \<and>
       list_ex (\<lambda>w. wk_id w = wid \<and> wk_key w = k) (db_weaknesses (ys_learning st)))
       (ys_item_targets st)"

definition observation_in :: "study_store \<Rightarrow> nat \<Rightarrow> nat \<Rightarrow> observation_row option" where
  "observation_in st sid oid =
     find (\<lambda>ow. ow_id ow = oid \<and> ow_session_id ow = sid) (ys_observations st)"

definition collect_evidence ::
    "study_store \<Rightarrow> nat \<Rightarrow> nat \<Rightarrow> (nat \<times> nat) list \<Rightarrow> nat set \<times> (nat \<times> observation_row) list \<Rightarrow> nat \<Rightarrow>
     string + nat set \<times> (nat \<times> observation_row) list" where
  "collect_evidence st sid wid ids s n =
     (let (seen, records) = s in
      bindE (bail_if (n \<in> seen) ''review evidence observation numbers must be unique'') (\<lambda>_.
      bindE (ok_or (map_of ids n) ''review references unknown observation_no {no}'') (\<lambda>oid.
      bindE (ok_or (observation_in st sid oid)
        ''review observation is not in the current session'') (\<lambda>ow.
      bindE (bail_if (ow_weakness_id ow \<noteq> wid)
        ''review observations must have the same weakness'') (\<lambda>_.
      Inr (insert n seen, records @ [(n, ow)]))))))"

definition cold_retrieval :: "observation_row \<Rightarrow> bool" where
  "cold_retrieval ow \<longleftrightarrow> ow_role ow = Role_Targeted \<and>
     ow_assessment_phase ow = Phase_ColdRetrieval \<and> ow_hint_level ow = Hint_None"

text \<open>\<open>min_by_key\<close>: the first of the smallest.\<close>

fun min_by_number :: "(nat \<times> 'a) list \<Rightarrow> (nat \<times> 'a) option" where
  "min_by_number [] = None"
| "min_by_number (x # xs) =
     (case min_by_number xs of
        None \<Rightarrow> Some x
      | Some y \<Rightarrow> Some (if fst y < fst x then y else x))"

definition validate_review_evidence ::
    "study_store \<Rightarrow> nat \<Rightarrow> nat \<Rightarrow> review_input \<Rightarrow> (nat \<times> nat) list \<Rightarrow> string + nat" where
  "validate_review_evidence st sid wid review ids =
     bindE (seqE
       [bail_if (rv_evidence_observation_nos review = [])
          ''review must reference at least one observation'',
        bail_if (some_and (rv_rating_rationale review) (\<lambda>x. blen x > 1000))
          ''rating_rationale must be at most 1000 bytes'',
        bail_if (rv_rating_source review = RatedBy_AssistantSuggested \<and>
            rv_rating review = Rating_Easy) ''easy requires learner confirmation'']) (\<lambda>_.
     bindE (foldE (collect_evidence st sid wid ids) ({}, []) (rv_evidence_observation_nos review))
       (\<lambda>(_, records).
     bindE (ok_or (min_by_number (filter (\<lambda>(_, ow). cold_retrieval ow) records))
       ''review requires a targeted cold retrieval with no hint'') (\<lambda>(initial, ow).
     bindE (seqE
       [bail_if (ow_evidence_strength ow \<noteq> Some (rv_evidence_strength review))
          ''review evidence_strength must match the initial cold observation'',
        bail_if (rv_rating review = Rating_Easy \<and>
            \<not> (rv_rating_source review \<in> {RatedBy_Learner, RatedBy_AssistantSuggestedConfirmed} \<and>
               ow_learner_effort ow = Some Effort_Effortless))
          ''easy requires learner confirmation and effortless initial evidence'',
        bail_if (rv_retrieval_mode review = Retrieval_Recognition \<and>
            rv_evidence_strength review \<noteq> Strength_Recognition)
          ''recognition retrieval must use recognition evidence strength'']) (\<lambda>_.
     Inr initial))))"

definition evidence_role :: "study_store \<Rightarrow> nat \<Rightarrow> nat \<Rightarrow> (nat \<times> nat) list \<Rightarrow> nat \<Rightarrow>
     string + nat \<times> string" where
  "evidence_role st sid initial ids n =
     (if n = initial then Inr (n, ''initial'')
      else
        bindE (ok_or (Option.bind (map_of ids n) (observation_in st sid))
          ''Query returned no rows'') (\<lambda>ow.
        Inr (n, if ow_assessment_phase ow = Phase_Transfer then ''transfer'' else ''supporting'')))"

definition review_evidence_roles ::
    "study_store \<Rightarrow> nat \<Rightarrow> review_input \<Rightarrow> nat \<Rightarrow> (nat \<times> nat) list \<Rightarrow>
     string + (nat \<times> string) list" where
  "review_evidence_roles st sid review initial ids =
     collectE (evidence_role st sid initial ids) (rv_evidence_observation_nos review)"

section \<open>Applying a review\<close>

text \<open>The scheduler item \<open>load_weaknesses\<close> joins to a target.\<close>

definition general_item :: "study_store \<Rightarrow> nat \<Rightarrow> nat option" where
  "general_item st wid = map_option si_id
     (find (\<lambda>i. si_weakness_id i = wid \<and> si_track i = lit ''general'')
       (db_scheduler (ys_learning st)))"

text \<open>The checks of \<open>weakness_reviews\<close> on numbers that come from the library or the configuration.\<close>

definition review_columns_ok :: "review_row \<Rightarrow> bool" where
  "review_columns_ok v \<longleftrightarrow>
     70 / 100 \<le> vw_desired_retention v \<and> vw_desired_retention v \<le> 97 / 100 \<and>
     (case vw_retrievability_before v of None \<Rightarrow> True | Some x \<Rightarrow> 0 \<le> x \<and> x \<le> 1) \<and>
     0 < ms_stability (vw_memory_after v) \<and> 1 \<le> ms_difficulty (vw_memory_after v) \<and>
     ms_difficulty (vw_memory_after v) \<le> 10"

definition review_row_of ::
    "scheduler_config_row \<Rightarrow> nat \<Rightarrow> nat \<Rightarrow> nat \<Rightarrow> ustring \<Rightarrow> ustring \<Rightarrow> ustring \<Rightarrow> review_input \<Rightarrow>
     memory_state option \<Rightarrow> int \<Rightarrow> rat option \<Rightarrow> scheduled_state \<Rightarrow> review_row" where
  "review_row_of cfg rid item sid reviewed_at review_date due review prior elapsed before scheduled =
     \<lparr>vw_id = rid, vw_scheduler_item_id = item, vw_session_id = sid, vw_reviewed_at = reviewed_at,
      vw_review_learning_day = review_date, vw_rating = fsrs_rating_number (rv_rating review),
      vw_rating_source = rv_rating_source review,
      vw_rating_rationale = rv_rating_rationale review,
      vw_retrieval_mode = rv_retrieval_mode review,
      vw_evidence_strength = rv_evidence_strength review, vw_evidence = rv_evidence review,
      vw_elapsed_days = elapsed, vw_desired_retention = sf_desired_retention cfg,
      vw_retrievability_before = before, vw_memory_before = prior,
      vw_memory_after = sd_memory scheduled,
      vw_scheduled_interval_days = sd_interval_days scheduled, vw_due_learning_day = due,
      vw_algorithm = sf_algorithm cfg, vw_algorithm_version = sf_algorithm_version cfg,
      vw_parameter_set_id = sf_parameter_set_id cfg\<rparr>"

definition memory_columns_of ::
    "scheduler_config_row \<Rightarrow> ustring \<Rightarrow> ustring \<Rightarrow> scheduled_state \<Rightarrow> memory_columns" where
  "memory_columns_of cfg reviewed_at due scheduled =
     \<lparr>mc_stability = ms_stability (sd_memory scheduled),
      mc_difficulty = ms_difficulty (sd_memory scheduled), mc_due_learning_day = due,
      mc_last_review_at = reviewed_at, mc_algorithm_version = sf_algorithm_version cfg,
      mc_parameter_set_id = sf_parameter_set_id cfg\<rparr>"

definition link_evidence ::
    "nat \<Rightarrow> (nat \<times> nat) list \<Rightarrow> nat \<times> string \<Rightarrow> record_error + review_observation_row" where
  "link_evidence rid ids p =
     bindE (ok_or (map_of ids (fst p)) (RecordInternal ''panic: no such observation'')) (\<lambda>oid.
     Inr \<lparr>ro_review_id = rid, ro_observation_id = oid, ro_evidence_role = snd p\<rparr>)"

definition schedule_review ::
    "record_env \<Rightarrow> scheduler_config_row \<Rightarrow> nat \<Rightarrow> ustring \<Rightarrow> int \<Rightarrow> (nat \<times> nat) list \<Rightarrow> nat \<Rightarrow>
     nat \<Rightarrow> review_input \<Rightarrow> study_store \<Rightarrow> record_error + study_store \<times> review_update" where
  "schedule_review E cfg sid reviewed_at review_day ids wid initial review st =
     (let item_id = general_item st wid; columns = Option.bind item_id (ys_memory st);
          rating = fsrs_rating_number (rv_rating review) in
      bindE (case columns of
          None \<Rightarrow> Inr None
        | Some m \<Rightarrow> mapE Some (internal
            (cached_memory_state (ev_fsrs E) (mc_stability m) (mc_difficulty m)))) (\<lambda>prior.
      bindE (case columns of
          None \<Rightarrow> Inr 0
        | Some m \<Rightarrow> internal (learning_day_delta (ev_time E) (mc_last_review_at m) reviewed_at
            (sf_timezone cfg) (sf_cutoff cfg))) (\<lambda>elapsed.
      bindE (case prior of
          None \<Rightarrow> Inr None
        | Some p \<Rightarrow> mapE Some (internal
            (retrievability (ev_fsrs E) p elapsed (sf_parameters cfg)))) (\<lambda>before.
      bindE (internal (schedule (ev_fsrs E) prior elapsed rating (sf_desired_retention cfg)
          (sf_parameters cfg))) (\<lambda>scheduled.
      let due = tl_format_date (ev_time E) (review_day + sd_interval_days scheduled) in
      bindE (ok_or item_id
        (RecordInternal ''NOT NULL constraint failed: weakness_reviews.scheduler_item_id'')) (\<lambda>item.
      let rid = next_rowid (map vw_id (ys_reviews st));
          row = review_row_of cfg rid item sid reviewed_at
            (tl_format_date (ev_time E) review_day) due review prior elapsed before scheduled in
      bindE (bail_if (\<not> review_columns_ok row)
        (RecordInternal ''CHECK constraint failed: weakness_reviews'')) (\<lambda>_.
      bindE (internal (review_evidence_roles st sid review initial ids)) (\<lambda>roles.
      bindE (collectE (link_evidence rid ids) roles) (\<lambda>links.
      Inr (st\<lparr>ys_reviews := ys_reviews st @ [row],
             ys_review_observations := ys_review_observations st @ links,
             ys_memory := (ys_memory st)(item \<mapsto> memory_columns_of cfg reviewed_at due scheduled)\<rparr>,
           \<lparr>ud_weakness_key = rv_weakness_key review, ud_rating = rating_name rating,
            ud_retrievability_before = before,
            ud_stability_before = map_option ms_stability prior,
            ud_stability_after = ms_stability (sd_memory scheduled),
            ud_difficulty_before = map_option ms_difficulty prior,
            ud_difficulty_after = ms_difficulty (sd_memory scheduled),
            ud_scheduled_interval_days = sd_interval_days scheduled,
            ud_due_learning_day = due\<rparr>))))))))))"

record review_loop =
  vl_store :: study_store
  vl_keys :: "ustring set"
  vl_updates :: "review_update list"
  vl_decisions :: "review_decision_rec list"

definition apply_review ::
    "record_env \<Rightarrow> record_request \<Rightarrow> resolved_policy \<Rightarrow> scheduler_config_row \<Rightarrow> nat \<Rightarrow> ustring \<Rightarrow> int \<Rightarrow>
     (nat \<times> nat) list \<Rightarrow> review_loop \<Rightarrow> review_input \<Rightarrow> record_error + review_loop" where
  "apply_review E r policy cfg sid reviewed_at review_day ids vl review =
     (let st = vl_store vl; k = rv_weakness_key review in
      bindE (bail_if (k \<in> vl_keys vl) (InvalidArgument
        ''only one FSRS review per weakness is allowed in a session'')) (\<lambda>_.
      bindE (ok_or (find_weakness st k) (UnknownReference ''reviews weakness_key does not exist''))
        (\<lambda>w.
      bindE (bail_if (\<not> has_target st sid k) (InvalidArgument
        ''reviews weakness_key must target a declared practice item'')) (\<lambda>_.
      let decision = review_decision r review (rp_preference_version policy);
          vl1 = vl\<lparr>vl_keys := insert k (vl_keys vl)\<rparr> in
      if \<not> rd_eligible decision then Inr (vl1\<lparr>vl_decisions := vl_decisions vl @ [decision]\<rparr>)
      else
        (case validate_review_evidence st sid (wk_id w)
            (review\<lparr>rv_evidence_observation_nos := rd_supporting_observation_nos decision\<rparr>) ids of
           Inl e \<Rightarrow> Inr (vl1\<lparr>vl_decisions := vl_decisions vl @
             [decision\<lparr>rd_eligible := False,
               rd_reason_codes := rd_reason_codes decision @ [lit (''rating_policy: '' @ e)]\<rparr>]\<rparr>)
         | Inr initial \<Rightarrow>
             bindE (schedule_review E cfg sid reviewed_at review_day ids (wk_id w) initial review st)
               (\<lambda>(st', update).
             Inr (vl1\<lparr>vl_store := st', vl_updates := vl_updates vl @ [update],
               vl_decisions := vl_decisions vl @ [decision\<lparr>rd_applied_rating :=
                 Some (lit (rating_name (fsrs_rating_number (rv_rating review))))\<rparr>]\<rparr>)))))))"

section \<open>The transaction\<close>

text \<open>Everything that is inserted before the reviews.\<close>

definition record_rows ::
    "record_env \<Rightarrow> record_request \<Rightarrow> nat \<Rightarrow> ustring \<Rightarrow> study_store \<Rightarrow> record_error + recording" where
  "record_rows E r sid reviewed_at st =
     (let rc0 = \<lparr>rc_store = insert_unobserved sid r st, rc_runs = [], rc_items = [],
            rc_attempts = [], rc_observations = []\<rparr>;
          rc1 = foldl (insert_run E sid) rc0 (rr_activity_runs r) in
      bindE (foldE (insert_item E sid) rc1 (rr_items r)) (\<lambda>rc2.
      bindE (foldE (insert_requirement sid) rc2 (rr_task_requirements r)) (\<lambda>rc3.
      bindE (foldE (insert_attempt sid) rc3 (rr_attempts r)) (\<lambda>rc4.
      bindE (foldE (insert_assessment reviewed_at) rc4 (rr_requested_point_assessments r)) (\<lambda>rc5.
      bindE (foldE (insert_item_observations sid) rc5 (rr_items r)) (\<lambda>rc6.
      bindE (foldE (insert_observation sid None None) rc6 (rr_observations r)) (\<lambda>rc7.
      Inr (foldl (insert_finding sid) rc7 (rr_findings r)))))))))"

definition finding_counts :: "finding_input list \<Rightarrow> string \<rightharpoonup> nat" where
  "finding_counts fs = foldl (\<lambda>m f. let k = finding_kind_as_str (fi_assessment_kind f) in
     m(k \<mapsto> Suc (case m k of None \<Rightarrow> 0 | Some n \<Rightarrow> n))) Map.empty fs"

definition response_of ::
    "record_request \<Rightarrow> nat \<Rightarrow> nat \<Rightarrow> ustring list \<Rightarrow> review_loop \<Rightarrow> record_response" where
  "response_of r sid observation_count created vl =
     \<lparr>re_review_decisions = vl_decisions vl, re_contract_version = 2, re_session_id = sid,
      re_status = Record_Created, re_exercise_type_key = rr_exercise_type_key r,
      re_exercise_type_label = exercise_type_key_label (rr_exercise_type_key r),
      re_item_count = length (rr_items r), re_attempt_count = length (rr_attempts r),
      re_observation_count = observation_count,
      re_activity_run_count = length (rr_activity_runs r),
      re_stimulus_count = sum_list (map (\<lambda>run. length (run_stimuli run)) (rr_activity_runs r)),
      re_reflection_count = sum_list (map (\<lambda>a. length (at_reflections a)) (rr_attempts r)),
      re_new_weaknesses_created = created, re_review_updates = vl_updates vl,
      re_finding_counts = finding_counts (rr_findings r)\<rparr>"

definition record_fresh ::
    "record_env \<Rightarrow> record_request \<Rightarrow> study_store \<Rightarrow> record_error + record_response \<times> study_store" where
  "record_fresh E r st =
     bindE (internal (resolve (ys_preferences st) None
       (Option.bind (rr_production_evidence r) pe_session_overrides))) (\<lambda>policy.
     bindE (bail_if (some_and (rr_production_evidence r)
         (\<lambda>e. rp_preference_version policy \<noteq> pe_policy_version e))
       (InvalidArgument ''preference_version_conflict'')) (\<lambda>_.
     bindE (ok_or (ys_config st) (RecordInternal ''Query returned no rows'')) (\<lambda>cfg.
     bindE (record_days E cfg r) (\<lambda>(reviewed_at, review_day, date).
     bindE (validate_record_database_references st r) (\<lambda>_.
     let declared = set (concat (map it_target_weakness_keys (rr_items r))) in
     bindE (foldE (record_new_weakness declared) ({}, [], st) (rr_new_weaknesses r))
       (\<lambda>(_, created, st1).
     bindE (foldE record_weakness_relations st1 (rr_new_weaknesses r)) (\<lambda>st2.
     bindE (forE (\<lambda>k. bail_if (\<not> weakness_exists st2 k) (UnknownReference
       ''weakness_key does not exist and is not declared in new_weaknesses''))
       (all_weakness_keys r)) (\<lambda>_.
     let (sid, st3) = insert_session date r st2 in
     bindE (record_rows E r sid reviewed_at st3) (\<lambda>rc.
     let st4 = foldl (touch_seen date) (rc_store rc) (all_weakness_keys r) in
     bindE (foldE (apply_review E r policy cfg sid reviewed_at review_day (rc_observations rc))
       \<lparr>vl_store = st4, vl_keys = {}, vl_updates = [], vl_decisions = []\<rparr> (rr_reviews r)) (\<lambda>vl.
     let response = response_of r sid (length (rc_observations rc)) created vl; st5 = vl_store vl in
     Inr (response, st5
       \<lparr>ys_production := ys_production st5 @ [\<lparr>pn_session_id = sid, pn_policy = policy,
          pn_evidence = rr_production_evidence r, pn_audit = audit r policy (vl_decisions vl)\<rparr>],
        ys_ledger := ys_ledger st5 @ [\<lparr>lg_idempotency_key = rr_idempotency_key r,
          lg_session_id = sid, lg_request_hash = ev_request_hash E r, lg_response = response,
          lg_replayable = True\<rparr>]\<rparr>)))))))))))"

text \<open>The checks before the transaction opens.\<close>

definition record_gate :: "record_env \<Rightarrow> record_request \<Rightarrow> record_error + unit" where
  "record_gate E r = seqE
     [validate_record_practice_request r,
      invalid (validate_evidence r),
      bail_if (ev_serialized_len E r > 65536)
        (InvalidArgument ''serialized practice session must be at most 64 KiB'')]"

definition replay_row :: "record_env \<Rightarrow> record_request \<Rightarrow> ledger_row \<Rightarrow> record_error + record_response" where
  "replay_row E r row =
     bindE (seqE
       [bail_if (\<not> lg_replayable row) (RecordInternal
          ''non-replayable idempotency row remains after schema migration''),
        bail_if (lg_request_hash row \<noteq> ev_request_hash E r) RecordIdempotencyConflict,
        bail_if (re_session_id (lg_response row) \<noteq> lg_session_id row) (RecordInternal
          ''recorded response session_id does not match idempotency ledger'')]) (\<lambda>_.
     Inr ((lg_response row)\<lparr>re_status := Record_Replayed\<rparr>))"

text \<open>A transaction that is not committed leaves the tables as they were.\<close>

definition record_practice ::
    "record_env \<Rightarrow> record_request \<Rightarrow> study_store \<Rightarrow> (record_error + record_response) \<times> study_store" where
  "record_practice E r st =
     (case record_gate E r of
        Inl e \<Rightarrow> (Inl e, st)
      | Inr _ \<Rightarrow>
          (case find (\<lambda>row. lg_idempotency_key row = rr_idempotency_key r) (ys_ledger st) of
             Some row \<Rightarrow> (replay_row E r row, st)
           | None \<Rightarrow>
               (case record_fresh E r st of
                  Inl e \<Rightarrow> (Inl e, st)
                | Inr (response, st') \<Rightarrow> (Inr response, st'))))"

end
