(* ===== verification/Ordering.thy ===== *)
theory Ordering
  imports Prelude "HOL-Library.Multiset"
begin

text \<open>
  Comparators as the code writes them: \<open>Ordering\<close> with \<open>then_with\<close>, \<open>reverse\<close> and the stable
  \<open>sort_by\<close>. The locale \<open>comparison\<close> states what \<open>sort_by\<close> expects of a comparator; its lemmas
  say what sorting with one gives.
\<close>

datatype ordering = Less | Equal | Greater

fun reverse :: "ordering \<Rightarrow> ordering" where
  "reverse Less = Greater"
| "reverse Equal = Equal"
| "reverse Greater = Less"

fun then_with :: "ordering \<Rightarrow> ordering \<Rightarrow> ordering" where
  "then_with Equal other = other"
| "then_with Less other = Less"
| "then_with Greater other = Greater"

definition cmp :: "'a::linorder \<Rightarrow> 'a \<Rightarrow> ordering" where
  "cmp a b = (if a < b then Less else if a = b then Equal else Greater)"

fun insert_by :: "('a \<Rightarrow> 'a \<Rightarrow> ordering) \<Rightarrow> 'a \<Rightarrow> 'a list \<Rightarrow> 'a list" where
  "insert_by c x [] = [x]"
| "insert_by c x (y # ys) = (if c x y = Greater then y # insert_by c x ys else x # y # ys)"

definition sort_by :: "('a \<Rightarrow> 'a \<Rightarrow> ordering) \<Rightarrow> 'a list \<Rightarrow> 'a list" where
  "sort_by c xs = foldr (insert_by c) xs []"

lemma cmp_simps [simp]:
  "cmp a a = Equal" "cmp a b = Equal \<longleftrightarrow> a = b" "cmp a b = Less \<longleftrightarrow> a < b"
  "cmp a b = Greater \<longleftrightarrow> b < a"
  by (auto simp: cmp_def)

lemma reverse_eq [simp]:
  "reverse o1 = Less \<longleftrightarrow> o1 = Greater" "reverse o1 = Equal \<longleftrightarrow> o1 = Equal"
  "reverse o1 = Greater \<longleftrightarrow> o1 = Less" "reverse (reverse o1) = o1"
  by (cases o1; simp)+

lemma then_with_eq:
  "then_with a b = Less \<longleftrightarrow> a = Less \<or> a = Equal \<and> b = Less"
  "then_with a b = Equal \<longleftrightarrow> a = Equal \<and> b = Equal"
  "then_with a b = Greater \<longleftrightarrow> a = Greater \<or> a = Equal \<and> b = Greater"
  by (cases a; simp)+

lemma reverse_then_with: "reverse (then_with a b) = then_with (reverse a) (reverse b)"
  by (cases a) simp_all

lemma mset_sort_by [simp]: "mset (sort_by c xs) = mset xs"
proof -
  have "mset (insert_by c x ys) = add_mset x (mset ys)" for x ys
    by (induction ys) auto
  then show ?thesis by (induction xs) (auto simp: sort_by_def)
qed

lemma set_sort_by [simp]: "set (sort_by c xs) = set xs"
  by (metis mset_sort_by set_mset_mset)

lemma length_sort_by [simp]: "length (sort_by c xs) = length xs"
  by (metis mset_sort_by size_mset)

lemma distinct_sort_by: "distinct (map f (sort_by c xs)) = distinct (map f xs)"
  by (metis mset_eq_imp_distinct_iff mset_map mset_sort_by)

locale comparison =
  fixes c :: "'a \<Rightarrow> 'a \<Rightarrow> ordering"
  assumes same: "c x x = Equal"
    and swap: "c y x = reverse (c x y)"
    and trans: "c x y \<noteq> Greater \<Longrightarrow> c y z \<noteq> Greater \<Longrightarrow> c x z \<noteq> Greater"
begin

lemma flip: "c y x = Greater \<longleftrightarrow> c x y = Less" "c y x = Equal \<longleftrightarrow> c x y = Equal"
  using swap [of x y] by auto

lemma le_iff: "c x y \<noteq> Greater \<longleftrightarrow> c x y = Less \<or> c x y = Equal"
  by (cases "c x y") auto

lemma equal_trans: "c x y = Equal \<Longrightarrow> c y z = Equal \<Longrightarrow> c x z = Equal"
  using trans [of x y z] trans [of z y x] flip [of x y] flip [of y z] flip [of x z]
  by (auto simp: le_iff)

lemma less_trans: "c x y = Less \<Longrightarrow> c y z \<noteq> Greater \<Longrightarrow> c x z = Less"
  using trans [of x y z] trans [of y z x] flip [of x y] flip [of x z]
  by (auto simp: le_iff)

lemma less_trans': "c x y \<noteq> Greater \<Longrightarrow> c y z = Less \<Longrightarrow> c x z = Less"
  using trans [of x y z] trans [of z x y] flip [of y z] flip [of x z]
  by (auto simp: le_iff)

lemma insert_sorted:
  assumes "sorted_wrt (\<lambda>x y. c x y \<noteq> Greater) ys"
  shows "sorted_wrt (\<lambda>x y. c x y \<noteq> Greater) (insert_by c x ys)"
  using assms
proof (induction ys)
  case (Cons y ys)
  have set: "set (insert_by c x ys) = insert x (set ys)"
    by (induction ys) auto
  show ?case
  proof (cases "c x y = Greater")
    case True
    then have "c y x \<noteq> Greater" using swap [of y x] by simp
    with True Cons show ?thesis by (auto simp: set)
  next
    case False
    with Cons.prems show ?thesis using trans [of x y] by auto
  qed
qed simp

lemma sort_by_sorted: "sorted_wrt (\<lambda>x y. c x y \<noteq> Greater) (sort_by c xs)"
  by (induction xs) (auto simp: sort_by_def insert_sorted)

text \<open>Elements that compare equal keep their order.\<close>

lemma sort_by_stable: "filter (\<lambda>y. c x y = Equal) (sort_by c xs) = filter (\<lambda>y. c x y = Equal) xs"
proof -
  have step: "filter (\<lambda>y. c x y = Equal) (insert_by c z ys) =
      (if c x z = Equal then z # filter (\<lambda>y. c x y = Equal) ys else filter (\<lambda>y. c x y = Equal) ys)"
    if "sorted_wrt (\<lambda>x y. c x y \<noteq> Greater) ys" for z ys
    using that
  proof (induction ys)
    case (Cons y ys)
    show ?case
    proof (cases "c z y = Greater")
      case True
      have "\<not> (c x z = Equal \<and> c x y = Equal)"
        using True equal_trans [of z x y] swap [of x z] by auto
      with True Cons show ?thesis by auto
    qed simp
  qed simp
  show ?thesis
  proof (induction xs)
    case (Cons z zs)
    from step [OF sort_by_sorted [of zs], of z] Cons show ?case by (simp add: sort_by_def)
  qed (simp add: sort_by_def)
qed

end

section \<open>Building comparators\<close>

lemma comparisonI:
  assumes "\<And>x. c x x = Equal" and "\<And>x y. c y x = reverse (c x y)"
    and "\<And>x y z. c x y \<noteq> Greater \<Longrightarrow> c y z \<noteq> Greater \<Longrightarrow> c x z \<noteq> Greater"
  shows "comparison c"
  using assms by unfold_locales blast+

lemma comparison_cmp: "comparison (\<lambda>x y. cmp (f x) (f y))"
  by (rule comparisonI) (auto simp: cmp_def split: if_splits)

lemma cmp_swap: "cmp b a = reverse (cmp a b)"
  by (auto simp: cmp_def)

lemma comparison_reverse: "comparison c \<Longrightarrow> comparison (\<lambda>x y. c y x)"
  by (rule comparisonI) (blast intro: comparison.same comparison.swap dest: comparison.trans)+

lemma comparison_down: "comparison (\<lambda>x y. cmp (f y) (f x))"
  by (rule comparison_reverse [OF comparison_cmp])

text \<open>
  The second comparator is asked only where the first finds the elements equal, and may be
  switched off on a class of elements the first one tells apart.
\<close>

lemma comparison_then:
  assumes c: "comparison c" and d: "comparison d" and p: "\<And>x y. c x y = Equal \<Longrightarrow> p x = p y"
  shows "comparison (\<lambda>x y. then_with (c x y) (if p x \<and> p y then d x y else Equal))"
proof (rule comparisonI)
  fix x y z
  show "then_with (c x x) (if p x \<and> p x then d x x else Equal) = Equal"
    by (simp add: comparison.same [OF c] comparison.same [OF d])
  show "then_with (c y x) (if p y \<and> p x then d y x else Equal) =
      reverse (then_with (c x y) (if p x \<and> p y then d x y else Equal))"
    using comparison.swap [OF c, of x y] comparison.swap [OF d, of x y]
    by (simp add: reverse_then_with)
  assume 1: "then_with (c x y) (if p x \<and> p y then d x y else Equal) \<noteq> Greater"
    and 2: "then_with (c y z) (if p y \<and> p z then d y z else Equal) \<noteq> Greater"
  from 1 2 have le: "c x y \<noteq> Greater" "c y z \<noteq> Greater" by (auto simp: then_with_eq)
  show "then_with (c x z) (if p x \<and> p z then d x z else Equal) \<noteq> Greater"
  proof (cases "c x y = Equal \<and> c y z = Equal")
    case True
    then have "c x z = Equal" by (blast intro: comparison.equal_trans [OF c])
    moreover have "p x = p y" "p y = p z" using True p by blast+
    ultimately show ?thesis
      using 1 2 True comparison.trans [OF d, of x y z] by (auto simp: then_with_eq)
  next
    case False
    then have "c x z = Less"
      using le comparison.less_trans [OF c, of x y z] comparison.less_trans' [OF c, of x y z]
      by (auto simp: comparison.le_iff [OF c])
    then show ?thesis by simp
  qed
qed

lemma comparison_then_with:
  assumes "comparison c" and "comparison d"
  shows "comparison (\<lambda>x y. then_with (c x y) (d x y))"
  using comparison_then [OF assms, of "\<lambda>_. True"] by simp

end
