(* ===== verification/Queue.thy ===== *)
theory Queue
  imports RecordPractice Ordering "HOL-Library.Option_ord"
begin

text \<open>
  The targets as \<open>load_weaknesses\<close> of \<open>src/db.rs\<close> reads them, their order and the review queue.
  The columns \<open>effective_status\<close>, which only the data audit changes, stand beside the tables as
  predicates on row ids; the columns of the former scheduler are left out.
\<close>

record study_view =
  sv_store :: study_store
  sv_observation_active :: "nat \<Rightarrow> bool"
  sv_item_active :: "nat \<Rightarrow> bool"
  sv_review_active :: "nat \<Rightarrow> bool"

record queue_row =
  qw_id :: nat
  qw_scheduler_id :: "nat option"
  qw_key :: ustring
  qw_category :: ustring
  qw_description :: ustring
  qw_target_pattern :: "ustring option"
  qw_pending :: bool
  qw_due :: "ustring option"
  qw_stability :: "rat option"
  qw_difficulty :: "rat option"
  qw_last_review :: "ustring option"
  qw_last_rating :: "int option"
  qw_review_count :: nat
  qw_first_seen :: "ustring option"
  qw_last_seen :: "ustring option"
  qw_incorrect_count :: nat
  qw_correct_count :: nat
  qw_observation_count :: nat
  qw_error_days :: nat
  qw_latest_error :: "ustring option"
  qw_unresolved :: nat
  qw_branch :: ustring

record target_filter =
  tf_categories :: "ustring list option"
  tf_keys :: "ustring list option"
  tf_concepts :: "ustring list option"
  tf_schemes :: "ustring list option"
  tf_collections :: "ustring list option"
  tf_target_types :: "target_type list option"
  tf_include_nonactive :: bool

section \<open>The columns of a target\<close>

definition active_observations :: "study_view \<Rightarrow> nat \<Rightarrow> observation_row list" where
  "active_observations V wid =
     filter (\<lambda>ow. ow_weakness_id ow = wid \<and> sv_observation_active V (ow_id ow))
       (ys_observations (sv_store V))"

definition error_observations :: "study_view \<Rightarrow> nat \<Rightarrow> observation_row list" where
  "error_observations V wid =
     filter (\<lambda>ow. ow_outcome ow \<in> {Outcome_Incorrect, Outcome_Omitted} \<and>
         (ow_session_id ow, ow_observation_no ow) \<notin> set (ys_unobserved (sv_store V)))
       (active_observations V wid)"

text \<open>The dates of the sessions the errors were observed in.\<close>

definition error_dates :: "study_view \<Rightarrow> nat \<Rightarrow> ustring list" where
  "error_dates V wid =
     concat (map (\<lambda>ow. map se_session_date
         (filter (\<lambda>s. se_id s = ow_session_id ow) (ys_sessions (sv_store V))))
       (error_observations V wid))"

definition latest :: "ustring list \<Rightarrow> ustring option" where
  "latest ds = (case ds of [] \<Rightarrow> None | d # ds \<Rightarrow> Some (foldl max d ds))"

definition unresolved :: "ustring list \<Rightarrow> nat" where
  "unresolved ds = (if list_ex (\<lambda>d. some_and (latest ds) (\<lambda>m. m < d)) ds then 0 else 1)"

definition primary_concept_key :: "learning_db \<Rightarrow> nat \<Rightarrow> ustring" where
  "primary_concept_key db wid =
     (case concat (map (\<lambda>l. if wc_weakness_id l = wid \<and> wc_role l = lit ''primary''
         then filter (\<lambda>c. cn_id c = wc_concept_id l) (db_concepts db) else []) (db_links db)) of
        [] \<Rightarrow> []
      | c # _ \<Rightarrow> cn_key c)"

definition active_reviews :: "study_view \<Rightarrow> nat \<Rightarrow> review_row list" where
  "active_reviews V item =
     filter (\<lambda>v. vw_scheduler_item_id v = item \<and> sv_review_active V (vw_id v))
       (ys_reviews (sv_store V))"

definition last_rating :: "study_view \<Rightarrow> nat \<Rightarrow> int option" where
  "last_rating V item =
     (case rev (sort_key (\<lambda>v. (vw_reviewed_at v, vw_id v)) (active_reviews V item)) of
        [] \<Rightarrow> None
      | v # _ \<Rightarrow> Some (vw_rating v))"

definition queue_row_of :: "study_view \<Rightarrow> weakness \<Rightarrow> scheduler_item option \<Rightarrow> queue_row" where
  "queue_row_of V w item =
     (let st = sv_store V; wid = wk_id w; sid = map_option si_id item;
          columns = Option.bind sid (ys_memory st); dates = error_dates V wid in
      \<lparr>qw_id = wid, qw_scheduler_id = sid, qw_key = wk_key w, qw_category = wk_category w,
       qw_description = wk_description w, qw_target_pattern = wk_target_pattern w,
       qw_pending = wk_classification_pending w,
       qw_due = map_option mc_due_learning_day columns,
       qw_stability = map_option mc_stability columns,
       qw_difficulty = map_option mc_difficulty columns,
       qw_last_review = map_option mc_last_review_at columns,
       qw_last_rating = Option.bind sid (last_rating V),
       qw_review_count = (case sid of None \<Rightarrow> 0 | Some i \<Rightarrow> length (active_reviews V i)),
       qw_first_seen = map_option fst (ys_seen st (wk_key w)),
       qw_last_seen = map_option snd (ys_seen st (wk_key w)),
       qw_incorrect_count = length (error_observations V wid),
       qw_correct_count = length (filter (\<lambda>ow. ow_outcome ow \<in>
           {Outcome_Correct, Outcome_PromptedCorrect}) (active_observations V wid)),
       qw_observation_count = length (active_observations V wid),
       qw_error_days = length (remdups dates), qw_latest_error = latest dates,
       qw_unresolved = unresolved dates, qw_branch = primary_concept_key (ys_learning st) wid\<rparr>)"

section \<open>Selecting targets\<close>

definition among :: "'a list option \<Rightarrow> ('a \<Rightarrow> bool) \<Rightarrow> bool" where
  "among items p \<longleftrightarrow> (case items of None \<Rightarrow> True | Some vs \<Rightarrow> vs = [] \<or> list_ex p vs)"

definition in_schemes :: "learning_db \<Rightarrow> nat \<Rightarrow> ustring \<Rightarrow> bool" where
  "in_schemes db wid k \<longleftrightarrow>
     list_ex (\<lambda>l. wc_weakness_id l = wid \<and>
       list_ex (\<lambda>c. cn_id c = wc_concept_id l \<and>
         list_ex (\<lambda>s. sc_id s = cn_scheme_id c \<and> sc_key s = k) (db_schemes db))
         (db_concepts db)) (db_links db)"

definition in_collections :: "learning_db \<Rightarrow> nat \<Rightarrow> ustring \<Rightarrow> bool" where
  "in_collections db wid k \<longleftrightarrow>
     list_ex (\<lambda>m. cm_weakness_id m = wid \<and>
       list_ex (\<lambda>co. co_id co = cm_collection_id m \<and> co_key co = k) (db_collections db))
       (db_members db)"

text \<open>The scheduler items a target is joined to; a target without one is joined to nulls.\<close>

definition joined_items :: "learning_db \<Rightarrow> nat \<Rightarrow> scheduler_item option list" where
  "joined_items db wid =
     (case filter (\<lambda>i. si_weakness_id i = wid \<and> si_track i = lit ''general'') (db_scheduler db) of
        [] \<Rightarrow> [None]
      | is \<Rightarrow> map Some is)"

definition selected ::
    "learning_db \<Rightarrow> target_filter \<Rightarrow> nat list option \<Rightarrow> weakness \<Rightarrow> scheduler_item option \<Rightarrow> bool" where
  "selected db f concept_ids w item \<longleftrightarrow>
     (tf_include_nonactive f \<or> wk_target_status w = lit ''active'' \<and>
        (case item of None \<Rightarrow> True | Some i \<Rightarrow> si_active i)) \<and>
     among (tf_categories f) (\<lambda>v. wk_category w = v) \<and>
     among (tf_keys f) (\<lambda>v. wk_key w = v) \<and>
     among (tf_target_types f) (\<lambda>t. wk_target_type w = lit (target_type_as_str t)) \<and>
     (case concept_ids of None \<Rightarrow> True
      | Some ids \<Rightarrow> list_ex (\<lambda>l. wc_weakness_id l = wk_id w \<and> wc_concept_id l \<in> set ids)
          (db_links db)) \<and>
     among (tf_schemes f) (in_schemes db (wk_id w)) \<and>
     among (tf_collections f) (in_collections db (wk_id w))"

definition load_weaknesses :: "study_view \<Rightarrow> target_filter \<Rightarrow> string + queue_row list" where
  "load_weaknesses V f =
     (let db = ys_learning (sv_store V) in
      bindE (case tf_concepts f of
          None \<Rightarrow> Inr None
        | Some v \<Rightarrow> if v = [] then Inr None else mapE Some (descendant_ids db v 6)) (\<lambda>concept_ids.
      if concept_ids = Some [] then Inr []
      else Inr (concat (map (\<lambda>w. map (queue_row_of V w)
          (filter (selected db f concept_ids w) (joined_items db (wk_id w))))
        (sort_key wk_id (db_weaknesses db))))))"

section \<open>Order\<close>

definition is_due :: "time_lib \<Rightarrow> queue_row \<Rightarrow> int \<Rightarrow> bool" where
  "is_due T row day \<longleftrightarrow>
     (case qw_due row of
        None \<Rightarrow> True
      | Some d \<Rightarrow> (case valid_date T d ''due_learning_day'' of Inl _ \<Rightarrow> True | Inr x \<Rightarrow> x \<le> day))"

definition row_retrievability ::
    "record_env \<Rightarrow> scheduler_config_row \<Rightarrow> queue_row \<Rightarrow> int \<Rightarrow> string + rat option" where
  "row_retrievability E cfg row day =
     (case (qw_stability row, qw_difficulty row, qw_last_review row) of
        (Some s, Some d, Some last_review) \<Rightarrow>
          bindE (cached_memory_state (ev_fsrs E) s d) (\<lambda>state.
          bindE (ok_or (tl_parse_rfc3339 (ev_time E) last_review) ''ParseError'') (\<lambda>instant.
          bindE (learning_day (ev_time E) instant (sf_timezone cfg) (sf_cutoff cfg)) (\<lambda>last_day.
          mapE Some (retrievability (ev_fsrs E) state (max (day - last_day) 0) (sf_parameters cfg)))))
      | _ \<Rightarrow> Inr None)"

definition compare_retrievability :: "rat option \<Rightarrow> rat option \<Rightarrow> ordering" where
  "compare_retrievability a b =
     (case (a, b) of
        (Some x, Some y) \<Rightarrow> cmp x y
      | (Some _, None) \<Rightarrow> Less
      | (None, Some _) \<Rightarrow> Greater
      | _ \<Rightarrow> Equal)"

definition compare_rows :: "(nat \<Rightarrow> rat option) \<Rightarrow> queue_row \<Rightarrow> queue_row \<Rightarrow> ordering" where
  "compare_rows ret a b =
     (let ai = qw_due a \<noteq> None; bi = qw_due b \<noteq> None in
      then_with (cmp bi ai)
      (then_with (if ai \<and> bi then cmp (qw_due a) (qw_due b) else Equal)
      (then_with
        (if \<not> ai \<and> \<not> bi
         then then_with (cmp (qw_error_days b) (qw_error_days a))
           (then_with (cmp (qw_unresolved b) (qw_unresolved a))
           (then_with (cmp (qw_latest_error b) (qw_latest_error a))
             (cmp (qw_incorrect_count b) (qw_incorrect_count a))))
         else Equal)
      (then_with (compare_retrievability (ret (qw_id a)) (ret (qw_id b)))
        (cmp (qw_key a) (qw_key b))))))"

definition sort_rows ::
    "record_env \<Rightarrow> scheduler_config_row \<Rightarrow> int \<Rightarrow> queue_row list \<Rightarrow> string + queue_row list" where
  "sort_rows E cfg day rows =
     bindE (collectE (\<lambda>r. mapE (Pair (qw_id r)) (row_retrievability E cfg r day)) rows) (\<lambda>ret.
     Inr (sort_by (compare_rows (\<lambda>i. Option.bind (map_of (rev ret) i) (\<lambda>x. x))) rows))"

section \<open>Diversification\<close>

definition position :: "('a \<Rightarrow> bool) \<Rightarrow> 'a list \<Rightarrow> nat option" where
  "position p xs = find (\<lambda>i. p (xs ! i)) [0..<length xs]"

definition diversify_step :: "queue_row list \<times> ustring set \<Rightarrow> queue_row \<Rightarrow> queue_row list \<times> ustring set" where
  "diversify_step s row =
     (let (out, used) = s in
      if qw_branch row \<in> used then (out @ [row], used)
      else
        let pos = unwrap_or (position (\<lambda>x. qw_branch x \<notin> used) out) (length out) in
        (take pos out @ row # drop pos out, insert (qw_branch row) used))"

definition diversify_segment :: "queue_row list \<Rightarrow> queue_row list" where
  "diversify_segment rows = fst (foldl diversify_step ([], {}) rows)"

function diversify_rows :: "queue_row list \<Rightarrow> queue_row list" where
  "diversify_rows [] = []"
| "diversify_rows (r # rs) =
     diversify_segment (r # takeWhile (\<lambda>x. qw_due x = qw_due r) rs) @
     diversify_rows (dropWhile (\<lambda>x. qw_due x = qw_due r) rs)"
  by pat_completeness auto

termination
  by (relation "measure length") (auto simp: le_imp_less_Suc length_dropWhile_le)

section \<open>The review queue\<close>

record review_queue_request =
  rk_limit :: "nat option"
  rk_category :: "ustring option"
  rk_as_of :: "ustring option"
  rk_include_upcoming :: "bool option"
  rk_concept_keys :: "ustring list option"
  rk_scheme_keys :: "ustring list option"
  rk_collection_keys :: "ustring list option"
  rk_target_types :: "target_type list option"

record queue_entry =
  qe_row :: queue_row
  qe_is_due :: bool
  qe_status :: string
  qe_days_overdue :: int
  qe_retrievability :: "rat option"

record review_queue_response =
  qs_as_of :: int
  qs_includes_upcoming :: bool
  qs_items :: "queue_entry list"

definition day_of_request ::
    "record_env \<Rightarrow> scheduler_config_row \<Rightarrow> ustring option \<Rightarrow> string + int" where
  "day_of_request E cfg as_of =
     bindE (case as_of of None \<Rightarrow> Inr None | Some x \<Rightarrow> mapE Some (valid_date (ev_time E) x ''as_of''))
       (\<lambda>day.
     bindE (learning_day (ev_time E) (ev_now E) (sf_timezone cfg) (sf_cutoff cfg)) (\<lambda>today.
     Inr (unwrap_or day today)))"

definition queue_entry_of ::
    "record_env \<Rightarrow> scheduler_config_row \<Rightarrow> int \<Rightarrow> queue_row \<Rightarrow> string + queue_entry" where
  "queue_entry_of E cfg day r =
     bindE (row_retrievability E cfg r day) (\<lambda>ret.
     Inr \<lparr>qe_row = r, qe_is_due = is_due (ev_time E) r day,
       qe_status = (if qw_due r = None then ''new''
         else if is_due (ev_time E) r day then ''due'' else ''upcoming''),
       qe_days_overdue =
         (case qw_due r of
            None \<Rightarrow> 0
          | Some d \<Rightarrow> (case valid_date (ev_time E) d ''due_learning_day'' of
              Inl _ \<Rightarrow> 0 | Inr x \<Rightarrow> max (day - x) 0)),
       qe_retrievability = ret\<rparr>)"

definition review_queue ::
    "record_env \<Rightarrow> study_view \<Rightarrow> review_queue_request \<Rightarrow> string + review_queue_response" where
  "review_queue E V request =
     bindE (ok_or (ys_config (sv_store V)) ''Query returned no rows'') (\<lambda>cfg.
     bindE (day_of_request E cfg (rk_as_of request)) (\<lambda>day.
     bindE (load_weaknesses V
       \<lparr>tf_categories = map_option (\<lambda>x. [x]) (rk_category request), tf_keys = None,
        tf_concepts = rk_concept_keys request, tf_schemes = rk_scheme_keys request,
        tf_collections = rk_collection_keys request, tf_target_types = rk_target_types request,
        tf_include_nonactive = False\<rparr>) (\<lambda>rows.
     bindE (sort_rows E cfg day rows) (\<lambda>rows.
     let include_upcoming = unwrap_or (rk_include_upcoming request) False;
         rows = (if include_upcoming then rows
           else filter (\<lambda>r. is_due (ev_time E) r day) rows);
         n = min (max (unwrap_or (rk_limit request) 20) 1) 50 in
     bindE (collectE (queue_entry_of E cfg day) (take n rows)) (\<lambda>items.
     Inr \<lparr>qs_as_of = day, qs_includes_upcoming = include_upcoming, qs_items = items\<rparr>)))))"

end
