(* ===== verification/QueueCorrect.thy ===== *)
theory QueueCorrect
  imports Queue
begin

text \<open>
  The review queue: its comparator is a comparison, so the queue is the beginning of the sorted
  list of the selected targets; diversification changes nothing; the column \<open>unresolved\<close> is 1.
\<close>

section \<open>The comparator\<close>

lemma then_with_assoc: "then_with (then_with a b) c = then_with a (then_with b c)"
  by (cases a) simp_all

lemma comparison_retrievability:
  "comparison (\<lambda>a b. compare_retrievability (f a) (f b))"
  by (rule comparisonI) (auto simp: compare_retrievability_def cmp_swap [symmetric] split: option.splits)

lemma comparison_rows: "comparison (compare_rows ret)"
proof -
  let ?some = "\<lambda>a b. cmp (qw_due b \<noteq> None) (qw_due a \<noteq> None)"
  let ?due = "\<lambda>a b. then_with (?some a b)
    (if qw_due a \<noteq> None \<and> qw_due b \<noteq> None then cmp (qw_due a) (qw_due b) else Equal)"
  let ?errors = "\<lambda>a b. then_with (cmp (qw_error_days b) (qw_error_days a))
    (then_with (cmp (qw_unresolved b) (qw_unresolved a))
    (then_with (cmp (qw_latest_error b) (qw_latest_error a))
      (cmp (qw_incorrect_count b) (qw_incorrect_count a))))"
  have due: "comparison ?due"
    by (rule comparison_then [OF comparison_down comparison_cmp, where p = "\<lambda>x. qw_due x \<noteq> None"]) simp
  have errors: "comparison ?errors"
    by (intro comparison_then_with comparison_down)
  have "comparison (\<lambda>a b. then_with (?due a b)
      (if \<not> qw_due a \<noteq> None \<and> \<not> qw_due b \<noteq> None then ?errors a b else Equal))"
    by (rule comparison_then [OF due errors, where p = "\<lambda>x. \<not> qw_due x \<noteq> None"])
      (simp add: then_with_eq)
  from comparison_then_with [OF comparison_then_with [OF this
      comparison_retrievability [of "\<lambda>a. ret (qw_id a)"]] comparison_cmp [of qw_key]]
  show ?thesis by (simp add: compare_rows_def [abs_def] Let_def then_with_assoc)
qed

interpretation rows: comparison "compare_rows ret"
  for ret
  by (rule comparison_rows)

text \<open>Targets have different keys, so no two compare equal.\<close>

lemma compare_rows_key: "compare_rows ret a b = Equal \<Longrightarrow> qw_key a = qw_key b"
  by (simp add: compare_rows_def Let_def then_with_eq)

section \<open>Sorting\<close>

lemma map_of_rev_distinct:
  "distinct (map f xs) \<Longrightarrow> x \<in> set xs \<Longrightarrow> map_of (rev (map (\<lambda>x. (f x, g x)) xs)) (f x) = Some (g x)"
  by (rule map_of_is_SomeI) (auto simp: rev_map [symmetric] o_def)

lemma sort_rows_Inr:
  assumes "sort_rows E cfg day rows = Inr rows'" and "distinct (map qw_id rows)"
  obtains ret where "rows' = sort_by (compare_rows ret) rows"
    and "\<And>r. r \<in> set rows \<Longrightarrow> row_retrievability E cfg r day = Inr (ret (qw_id r))"
proof -
  from assms(1) obtain pairs where
    pairs: "collectE (\<lambda>r. mapE (Pair (qw_id r)) (row_retrievability E cfg r day)) rows = Inr pairs"
    and rows': "rows' = sort_by (compare_rows (\<lambda>i. Option.bind (map_of (rev pairs) i) (\<lambda>x. x))) rows"
    by (auto simp: sort_rows_def ok_simps)
  from pairs have all: "list_all2 (\<lambda>r p. fst p = qw_id r \<and>
      row_retrievability E cfg r day = Inr (snd p)) rows pairs"
    unfolding collectE_Inr by (rule list_all2_mono) (auto simp: ok_simps)
  then have ids: "map fst pairs = map qw_id rows"
    by (induction rule: list_all2_induct) auto
  have found: "row_retrievability E cfg r day =
      Inr (Option.bind (map_of (rev pairs) (qw_id r)) (\<lambda>x. x))" if "r \<in> set rows" for r
  proof -
    from all that obtain p where "p \<in> set pairs" "fst p = qw_id r"
      "row_retrievability E cfg r day = Inr (snd p)"
      by (induction rule: list_all2_induct) auto
    moreover from this have "map_of (rev pairs) (qw_id r) = Some (snd p)"
      using assms(2) ids by (intro map_of_is_SomeI) (simp_all add: rev_map [symmetric] prod_eq_iff, metis prod.collapse)
    ultimately show ?thesis by simp
  qed
  show thesis by (rule that [OF rows' found])
qed

section \<open>Diversification\<close>

lemma diversify_foldl:
  assumes "snd s = qw_branch ` set (fst s)"
  shows "fst (foldl diversify_step s rows) = fst s @ rows"
  using assms
proof (induction rows arbitrary: s)
  case (Cons r rows)
  have "position (\<lambda>x. qw_branch x \<notin> snd s) (fst s) = None"
    using Cons.prems by (auto simp: position_def find_None_iff)
  then have "diversify_step s r = (fst s @ [r], insert (qw_branch r) (snd s))"
    by (cases s) (auto simp: diversify_step_def insert_absorb)
  with Cons show ?case by simp
qed simp

lemma diversify_segment_same: "diversify_segment rows = rows"
  by (simp add: diversify_segment_def diversify_foldl)

lemma diversify_rows_same: "diversify_rows rows = rows"
  by (induction rows rule: diversify_rows.induct) (simp_all add: diversify_segment_same)

section \<open>The column \<open>unresolved\<close>\<close>

lemma latest_ge: "latest ds = Some m \<Longrightarrow> d \<in> set ds \<Longrightarrow> d \<le> m"
proof (cases ds)
  case (Cons x xs)
  have "x \<le> foldl max x xs \<and> (\<forall>y\<in>set xs. y \<le> foldl max x xs)" for x :: ustring and xs
    by (induction xs arbitrary: x) (auto, (meson max.cobounded1 max.cobounded2 order_trans)+)
  with Cons show "latest ds = Some m \<Longrightarrow> d \<in> set ds \<Longrightarrow> d \<le> m"
    by (auto simp: latest_def)
qed simp

lemma unresolved_one: "unresolved ds = 1"
  using latest_ge [of ds] by (fastforce simp: unresolved_def list_ex_iff some_and_iff)

section \<open>Which targets are read\<close>

lemma load_weaknesses_rows:
  assumes "load_weaknesses V f = Inr rows"
  shows "\<exists>ids. rows = (if ids = Some [] then [] else
    concat (map (\<lambda>w. map (queue_row_of V w)
      (filter (selected (ys_learning (sv_store V)) f ids w)
        (joined_items (ys_learning (sv_store V)) (wk_id w))))
      (sort_key wk_id (db_weaknesses (ys_learning (sv_store V))))))"
  using assms by (auto simp: load_weaknesses_def Let_def ok_simps split: if_splits option.splits)

text \<open>A target has at most one general scheduler item, the one reviews are recorded on.\<close>

definition item_for :: "learning_db \<Rightarrow> nat \<Rightarrow> scheduler_item option" where
  "item_for db wid =
     find (\<lambda>i. si_weakness_id i = wid \<and> si_track i = lit ''general'') (db_scheduler db)"

lemma filter_distinct_find:
  assumes "distinct (map f xs)" and "\<And>x. P x \<longleftrightarrow> f x = k"
  shows "filter P xs = (case find P xs of None \<Rightarrow> [] | Some x \<Rightarrow> [x])"
  using assms(1)
proof (induction xs)
  case (Cons x xs)
  show ?case
  proof (cases "P x")
    case True
    with Cons.prems have "filter P xs = []"
      using assms(2) by (auto simp: filter_empty_conv image_iff)
    with True show ?thesis by simp
  qed (use Cons in simp)
qed simp

lemma joined_items_one:
  assumes "scheduler_wf db"
  shows "joined_items db wid = [item_for db wid]"
  unfolding joined_items_def item_for_def
  by (subst filter_distinct_find [where f = "\<lambda>i. (si_weakness_id i, si_track i)" and
        k = "(wid, lit ''general'')"])
    (use assms in \<open>auto simp: scheduler_wf_def split: option.split\<close>)

lemma concat_map_filter:
  "(\<And>x. x \<in> set xs \<Longrightarrow> f x = (if P x then [g x] else [])) \<Longrightarrow>
     concat (map f xs) = map g (filter P xs)"
  by (induction xs) auto

lemma load_weaknesses_wf:
  assumes "targets_wf (ys_learning (sv_store V))" and "load_weaknesses V f = Inr rows"
  obtains ids where "rows = map (\<lambda>w. queue_row_of V w (item_for (ys_learning (sv_store V)) (wk_id w)))
      (filter (\<lambda>w. ids \<noteq> Some [] \<and> selected (ys_learning (sv_store V)) f ids w
        (item_for (ys_learning (sv_store V)) (wk_id w)))
      (sort_key wk_id (db_weaknesses (ys_learning (sv_store V)))))"
proof -
  let ?db = "ys_learning (sv_store V)"
  have "scheduler_wf ?db" using assms(1) by (simp add: targets_wf_def)
  note one = joined_items_one [OF this]
  from load_weaknesses_rows [OF assms(2)] obtain ids where
    "rows = (if ids = Some [] then [] else concat (map (\<lambda>w. map (queue_row_of V w)
      (filter (selected ?db f ids w) (joined_items ?db (wk_id w)))) (sort_key wk_id (db_weaknesses ?db))))"
    by blast
  moreover have "concat (map (\<lambda>w. map (queue_row_of V w)
      (filter (selected ?db f ids w) (joined_items ?db (wk_id w)))) (sort_key wk_id (db_weaknesses ?db))) =
      map (\<lambda>w. queue_row_of V w (item_for ?db (wk_id w)))
        (filter (\<lambda>w. selected ?db f ids w (item_for ?db (wk_id w))) (sort_key wk_id (db_weaknesses ?db)))"
    by (rule concat_map_filter) (simp add: one)
  ultimately show thesis by (intro that [of ids]) auto
qed

lemma queue_row_fields [simp]:
  "qw_id (queue_row_of V w i) = wk_id w" "qw_key (queue_row_of V w i) = wk_key w"
  "qw_unresolved (queue_row_of V w i) = 1"
  "qw_due (queue_row_of V w i) = map_option mc_due_learning_day
     (Option.bind (map_option si_id i) (ys_memory (sv_store V)))"
  by (simp_all add: queue_row_of_def Let_def unresolved_one)

lemma distinct_sort_key: "distinct (map f (sort_key k xs)) \<longleftrightarrow> distinct (map f xs)"
  by (metis mset_eq_imp_distinct_iff mset_map mset_sort)

lemma load_weaknesses_distinct:
  assumes "targets_wf (ys_learning (sv_store V))" and "load_weaknesses V f = Inr rows"
  shows "distinct (map qw_id rows)" "distinct (map qw_key rows)"
proof -
  let ?ws = "sort_key wk_id (db_weaknesses (ys_learning (sv_store V)))"
  have all: "distinct (map wk_id ?ws)" "distinct (map wk_key ?ws)"
    using assms(1) by (simp_all add: distinct_sort_key targets_wf_def)
  obtain P where rows: "rows = map (\<lambda>w. queue_row_of V w (item_for (ys_learning (sv_store V)) (wk_id w)))
      (filter P ?ws)"
    by (rule load_weaknesses_wf [OF assms]) (rule that)
  have "map qw_id rows = map wk_id (filter P ?ws)" "map qw_key rows = map wk_key (filter P ?ws)"
    by (simp_all add: rows)
  then show "distinct (map qw_id rows)" "distinct (map qw_key rows)"
    using all by (simp_all add: distinct_map_filter)
qed

section \<open>The queue\<close>

lemma collectE_origin:
  assumes "collectE f xs = Inr ys" and "y \<in> set ys"
  shows "\<exists>x\<in>set xs. f x = Inr y"
  using assms unfolding collectE_Inr by (induction rule: list_all2_induct) auto

lemma queue_entry_of_Inr:
  "queue_entry_of E cfg day r = Inr e \<Longrightarrow> qe_row e = r \<and>
     row_retrievability E cfg r day = Inr (qe_retrievability e) \<and>
     qe_is_due e = is_due (ev_time E) r day"
  by (auto simp: queue_entry_of_def ok_simps)

text \<open>What a filter asks of the request.\<close>

definition queue_filter :: "review_queue_request \<Rightarrow> target_filter" where
  "queue_filter request =
     \<lparr>tf_categories = map_option (\<lambda>x. [x]) (rk_category request), tf_keys = None,
      tf_concepts = rk_concept_keys request, tf_schemes = rk_scheme_keys request,
      tf_collections = rk_collection_keys request, tf_target_types = rk_target_types request,
      tf_include_nonactive = False\<rparr>"

lemma review_queue_Inr:
  assumes "review_queue E V request = Inr q"
  obtains cfg rows sorted where "ys_config (sv_store V) = Some cfg"
    and "load_weaknesses V (queue_filter request) = Inr rows"
    and "sort_rows E cfg (qs_as_of q) rows = Inr sorted"
    and "collectE (queue_entry_of E cfg (qs_as_of q))
      (take (min (max (unwrap_or (rk_limit request) 20) 1) 50)
        (if unwrap_or (rk_include_upcoming request) False then sorted
         else filter (\<lambda>r. is_due (ev_time E) r (qs_as_of q)) sorted)) = Inr (qs_items q)"
proof -
  from assms obtain cfg day rows sorted items where "ys_config (sv_store V) = Some cfg"
    "load_weaknesses V (queue_filter request) = Inr rows" "sort_rows E cfg day rows = Inr sorted"
    "collectE (queue_entry_of E cfg day) (take (min (max (unwrap_or (rk_limit request) 20) 1) 50)
        (if unwrap_or (rk_include_upcoming request) False then sorted
         else filter (\<lambda>r. is_due (ev_time E) r day) sorted)) = Inr items"
    "qs_as_of q = day" "qs_items q = items"
    by (auto simp: review_queue_def Let_def ok_simps queue_filter_def simp del: One_nat_def)
  then show thesis by (intro that) (simp_all cong: if_cong split del: if_split)
qed

text \<open>
  The queue is the beginning of the sorted list of the targets that qualify: nothing that
  qualifies and is left out comes before an entry, and nothing is left out while there is room.
\<close>

lemma queue_is_prefix:
  assumes "targets_wf (ys_learning (sv_store V))" and "review_queue E V request = Inr q"
    and "load_weaknesses V (queue_filter request) = Inr rows"
  shows "\<exists>ret. let entries = map qe_row (qs_items q);
      qualified = {r \<in> set rows. unwrap_or (rk_include_upcoming request) False \<or>
        is_due (ev_time E) r (qs_as_of q)} in
    sorted_wrt (\<lambda>a b. compare_rows ret a b = Less) entries \<and>
    set entries \<subseteq> qualified \<and>
    length entries = min (min (max (unwrap_or (rk_limit request) 20) 1) 50) (card qualified) \<and>
    (\<forall>r\<in>qualified - set entries. \<forall>x\<in>set entries. compare_rows ret x r = Less) \<and>
    (\<forall>e\<in>set (qs_items q). qe_retrievability e = ret (qw_id (qe_row e)))"
proof -
  from assms(2) obtain cfg sorted where sort: "sort_rows E cfg (qs_as_of q) rows = Inr sorted"
    and items: "collectE (queue_entry_of E cfg (qs_as_of q))
      (take (min (max (unwrap_or (rk_limit request) 20) 1) 50)
        (if unwrap_or (rk_include_upcoming request) False then sorted
         else filter (\<lambda>r. is_due (ev_time E) r (qs_as_of q)) sorted)) = Inr (qs_items q)"
    by (rule review_queue_Inr) (use assms(3) in auto)
  let ?all = "unwrap_or (rk_include_upcoming request) False"
  let ?due = "\<lambda>r. ?all \<or> is_due (ev_time E) r (qs_as_of q)"
  let ?n = "min (max (unwrap_or (rk_limit request) 20) 1) 50"
  note ids = load_weaknesses_distinct [OF assms(1,3)]
  obtain ret where sorted: "sorted = sort_by (compare_rows ret) rows"
    and ret: "\<And>r. r \<in> set rows \<Longrightarrow> row_retrievability E cfg r (qs_as_of q) = Inr (ret (qw_id r))"
    using sort_rows_Inr [OF sort ids(1)] by blast
  define kept where "kept = filter ?due sorted"
  have kept': "(if ?all then sorted else filter (\<lambda>r. is_due (ev_time E) r (qs_as_of q)) sorted) = kept"
    by (simp add: kept_def)
  have entries: "map qe_row (qs_items q) = take ?n kept"
    by (rule collectE_map [OF items [unfolded kept']]) (simp add: queue_entry_of_Inr)
  have keys: "distinct (map qw_key kept)"
    using ids(2) by (simp add: kept_def sorted distinct_sort_by distinct_map_filter)
  have strict: "sorted_wrt (\<lambda>a b. compare_rows ret a b = Less) kept"
  proof (rule sorted_wrt_iff_nth_less [THEN iffD2], intro allI impI)
    fix i j assume ij: "i < j" "j < length kept"
    have "sorted_wrt (\<lambda>a b. compare_rows ret a b \<noteq> Greater) kept"
      unfolding kept_def sorted by (rule sorted_wrt_filter [OF rows.sort_by_sorted])
    with ij have "compare_rows ret (kept ! i) (kept ! j) \<noteq> Greater"
      by (simp add: sorted_wrt_iff_nth_less)
    moreover have "qw_key (kept ! i) \<noteq> qw_key (kept ! j)"
      using keys ij by (auto simp: distinct_conv_nth)
    ultimately show "compare_rows ret (kept ! i) (kept ! j) = Less"
      using compare_rows_key [of ret "kept ! i" "kept ! j"] by (cases "compare_rows ret (kept ! i) (kept ! j)") auto
  qed
  have kept_set: "set kept = {r \<in> set rows. ?due r}"
    by (auto simp: kept_def sorted)
  have "sorted_wrt (\<lambda>a b. compare_rows ret a b = Less) (take ?n kept @ drop ?n kept)"
    unfolding append_take_drop_id by (rule strict)
  then have parts: "sorted_wrt (\<lambda>a b. compare_rows ret a b = Less) (take ?n kept)"
      "\<forall>x\<in>set (take ?n kept). \<forall>r\<in>set (drop ?n kept). compare_rows ret x r = Less"
    unfolding sorted_wrt_append by blast+
  have card: "card {r \<in> set rows. ?due r} = length kept"
    unfolding kept_set [symmetric] using keys by (simp add: distinct_card distinct_map)
  have rest: "{r \<in> set rows. ?due r} - set (take ?n kept) \<subseteq> set (drop ?n kept)"
    unfolding kept_set [symmetric] using set_append [of "take ?n kept" "drop ?n kept"]
    unfolding append_take_drop_id by blast
  have rets: "\<forall>e\<in>set (qs_items q). qe_retrievability e = ret (qw_id (qe_row e))"
  proof
    fix e assume "e \<in> set (qs_items q)"
    then obtain r where "queue_entry_of E cfg (qs_as_of q) r = Inr e" "r \<in> set (take ?n kept)"
      using collectE_origin [OF items [unfolded kept']] by blast
    moreover from this(2) have "r \<in> set rows" using set_take_subset [of ?n kept] kept_set by blast
    ultimately show "qe_retrievability e = ret (qw_id (qe_row e))"
      using ret [of r] queue_entry_of_Inr by force
  qed
  show ?thesis
    unfolding Let_def entries
    using parts card rest rets set_take_subset [of ?n kept] kept_set
    by (intro exI [of _ ret]) (auto simp: min.commute)
qed

end
