(* ===== verification/RecordFrames.thy ===== *)
theory RecordFrames
  imports RecordPractice TargetUpdates
begin

text \<open>
  What the parts of \<open>record_practice\<close> leave alone. The target tables only grow (\<open>targets_grow\<close>:
  the identities of targets and scheduler items are a prefix of the later ones) and stay
  consistent; the insertions before the reviews do not touch the memory of the scheduler, the
  reviews or the ledger (\<open>same_history\<close>).
\<close>

section \<open>The target tables\<close>

definition target_names :: "learning_db \<Rightarrow> (nat \<times> ustring) list" where
  "target_names db = map (\<lambda>w. (wk_id w, wk_key w)) (db_weaknesses db)"

definition item_names :: "learning_db \<Rightarrow> (nat \<times> nat \<times> ustring) list" where
  "item_names db = map (\<lambda>i. (si_id i, si_weakness_id i, si_track i)) (db_scheduler db)"

definition targets_grow :: "learning_db \<Rightarrow> learning_db \<Rightarrow> bool" where
  "targets_grow db db' \<longleftrightarrow> prefix (target_names db) (target_names db') \<and>
     prefix (item_names db) (item_names db')"

definition targets_ok :: "learning_db \<Rightarrow> bool" where
  "targets_ok db \<longleftrightarrow> targets_wf db \<and> distinct (map si_id (db_scheduler db))"

lemma targets_grow_refl [simp]: "targets_grow db db"
  by (simp add: targets_grow_def)

lemma targets_grow_trans: "targets_grow a b \<Longrightarrow> targets_grow b c \<Longrightarrow> targets_grow a c"
  by (auto simp: targets_grow_def)

lemma item_names_disable:
  "map (\<lambda>i. (si_id i, si_weakness_id i, si_track i))
     (map (\<lambda>i. if si_weakness_id i = wid then i\<lparr>si_active := False\<rparr> else i) xs) =
   map (\<lambda>i. (si_id i, si_weakness_id i, si_track i)) (xs :: scheduler_item list)"
  by (induction xs) auto

lemma ensure_scheduler_item_names:
  "prefix (map (\<lambda>i. (si_id i, si_weakness_id i, si_track i)) items)
     (map (\<lambda>i. (si_id i, si_weakness_id i, si_track i)) (ensure_scheduler_item wid items))"
  by (simp add: ensure_scheduler_item_def)

lemma ensure_scheduler_item_ids:
  "distinct (map si_id items) \<Longrightarrow> distinct (map si_id (ensure_scheduler_item wid items))"
  using next_rowid_new [of "map si_id items"] by (simp add: ensure_scheduler_item_def)

lemma schedule_target_names:
  "prefix (item_names db) (item_names (schedule_target status wid db))"
  unfolding item_names_def schedule_target_def
  by (simp add: item_names_disable ensure_scheduler_item_names del: map_map)

lemma schedule_target_ids:
  assumes "distinct (map si_id (db_scheduler db))"
  shows "distinct (map si_id (db_scheduler (schedule_target status wid db)))"
proof -
  have "map si_id (map (\<lambda>i. if si_weakness_id i = wid then i\<lparr>si_active := False\<rparr> else i) xs) =
      map si_id (xs :: scheduler_item list)" for xs
    by (induction xs) auto
  then show ?thesis
    using assms by (simp add: schedule_target_def ensure_scheduler_item_ids del: map_map)
qed

lemma write_weakness_names:
  assumes "write_weakness w existing ty status is_active db = (wid, db')"
  shows "prefix (target_names db) (target_names db') \<and> db_scheduler db' = db_scheduler db"
proof (cases existing)
  case None
  then show ?thesis using assms by (auto simp: write_weakness_def Let_def target_names_def)
next
  case (Some e)
  have "map (\<lambda>w. (wk_id w, wk_key w)) (map (\<lambda>r. if P r then f r else r) ws) =
      map (\<lambda>w. (wk_id w, wk_key w)) ws"
    if "\<And>r. wk_id (f r) = wk_id r" "\<And>r. wk_key (f r) = wk_key r"
    for P and f :: "weakness \<Rightarrow> weakness" and ws
    using that by (induction ws) auto
  then show ?thesis
    using assms Some by (auto simp: write_weakness_def Let_def target_names_def simp del: map_map)
qed

lemma upsert_weakness_grows:
  assumes "upsert_weakness_tx w declared cand rel db = Inr ((wid, created), db')" and "targets_ok db"
  shows "targets_grow db db' \<and> targets_ok db'"
proof (rule upsert_weakness_tx_Inr [OF assms(1)])
  fix existing status ty is_active db1 db2 db3
  assume written: "write_weakness w existing ty status is_active db = (wid, db1)"
    and links: "(if classification_supplied w \<or> created then replace_links w ty wid db1 else Inr db1) =
      Inr db2"
    and rels: "(if rel then foldE (insert_target_relation (nw_key w)) db2 (nw_target_relations w)
      else Inr db2) = Inr db3"
    and db': "db' = schedule_target status wid db3"
  have 2: "db_weaknesses db2 = db_weaknesses db1 \<and> db_scheduler db2 = db_scheduler db1"
    using links by (auto split: if_splits dest: replace_links_tables)
  have 3: "db_weaknesses db3 = db_weaknesses db1 \<and> db_scheduler db3 = db_scheduler db1"
    using rels 2 by (auto split: if_splits dest: insert_relations_tables)
  have names: "target_names db' = target_names db1" "item_names db3 = item_names db"
    using 3 write_weakness_names [OF written]
    by (auto simp: db' target_names_def item_names_def schedule_target_def)
  have "distinct (map si_id (db_scheduler db3))"
    using 3 write_weakness_names [OF written] assms(2) by (simp add: targets_ok_def)
  then show ?thesis
    using names write_weakness_names [OF written] schedule_target_names [of db3 status wid]
      schedule_target_ids upsert_weakness_tx_keeps [OF _ assms(1)] assms(2)
    by (auto simp: targets_grow_def targets_ok_def db')
qed

lemma relations_grow:
  assumes "foldE (insert_target_relation k) db rs = Inr db'" and "targets_ok db"
  shows "targets_grow db db' \<and> targets_ok db'"
proof -
  have "relations_wf db" using assms(2) by (simp add: targets_ok_def targets_wf_def)
  from insert_relations_wf [OF assms(1) this] obtain rs' where
    "relations_wf db'" "db' = db\<lparr>db_relations := rs'\<rparr>" by blast
  with assms(2) show ?thesis
    by (auto simp: targets_grow_def targets_ok_def targets_wf_def target_names_def item_names_def
        one_primary_def primary_links_def links_known_def scheduler_wf_def)
qed

section \<open>Promotion\<close>

definition promoted :: "ustring \<Rightarrow> weakness \<Rightarrow> weakness" where
  "promoted k r = (if wk_key r = k then r\<lparr>wk_target_status := lit ''active'', wk_active := True\<rparr> else r)"

lemma promoted_simps [simp]:
  "wk_id (promoted k r) = wk_id r" "wk_key (promoted k r) = wk_key r"
  by (simp_all add: promoted_def)

lemma promote_cases:
  obtains "promote_target_if_needed k db = db"
  | e where "e \<in> set (db_weaknesses db)" "wk_key e = k" "wk_target_status e = lit ''candidate''"
    "promote_target_if_needed k db = db\<lparr>db_weaknesses := map (promoted k) (db_weaknesses db),
       db_scheduler := ensure_scheduler_item (wk_id e) (db_scheduler db)\<rparr>"
proof (cases "find (\<lambda>r. wk_key r = k) (db_weaknesses db)")
  case None
  then show ?thesis by (intro that(1)) (simp add: promote_target_if_needed_def)
next
  case (Some e)
  then show ?thesis
    using that find_SomeD [OF Some]
    by (cases "wk_target_status e = lit ''candidate''")
      (auto simp: promote_target_if_needed_def promoted_def cong: map_cong)
qed

lemma promote_grows:
  assumes "targets_ok db"
  shows "targets_grow db (promote_target_if_needed k db) \<and>
    target_names (promote_target_if_needed k db) = target_names db \<and>
    targets_ok (promote_target_if_needed k db)"
proof (rule promote_cases [of k db])
  assume "promote_target_if_needed k db = db"
  with assms show ?thesis by simp
next
  fix e
  assume e: "e \<in> set (db_weaknesses db)" "wk_key e = k" "wk_target_status e = lit ''candidate''"
    and db': "promote_target_if_needed k db = db\<lparr>db_weaknesses := map (promoted k) (db_weaknesses db),
       db_scheduler := ensure_scheduler_item (wk_id e) (db_scheduler db)\<rparr>" (is "_ = ?db'")
  have wf: "targets_wf db" "distinct (map si_id (db_scheduler db))"
    using assms by (auto simp: targets_ok_def)
  have names: "target_names ?db' = target_names db"
    by (simp add: target_names_def comp_def)
  have ids: "wk_id ` promoted k ` set (db_weaknesses db) = wk_id ` set (db_weaknesses db)"
    by (simp add: image_image)
  have status: "status_wf (promoted k r)" if "status_wf r" for r
    using that by (cases "wk_key r = k") (simp_all add: status_wf_def promoted_def active_flag_for_status_def)
  have candidate: "wk_target_status r = lit ''candidate''" if "r \<in> set (db_weaknesses db)" "wk_key r = k"
    for r
  proof -
    have "r = e"
      using that e(1,2) wf(1) by (auto simp: targets_wf_def distinct_map inj_on_eq_iff)
    then show ?thesis using e(3) by simp
  qed
  then have "open_target (promoted k r) \<longleftrightarrow> open_target r" if "r \<in> set (db_weaknesses db)" for r
    using that by (auto simp: promoted_def open_target_def)
  then have primary: "one_primary ?db'"
    using wf(1) by (auto simp: targets_wf_def one_primary_def primary_links_def)
  have active: "\<exists>w\<in>set (db_weaknesses ?db'). wk_id w = wid \<and> wk_target_status w = lit ''active''"
    if "w \<in> set (db_weaknesses db)" "wk_id w = wid" "wk_target_status w = lit ''active''" for w wid
    using that by (intro bexI [of _ "promoted k w"]) (auto simp: promoted_def)
  have new: "\<exists>w\<in>set (db_weaknesses ?db'). wk_id w = wk_id e \<and> wk_target_status w = lit ''active''"
    using e by (intro bexI [of _ "promoted k e"]) (auto simp: promoted_def)
  have "scheduler_wf ?db'"
  proof (rule ensure_scheduler_item_cases [of "wk_id e" "db_scheduler db"])
    assume "ensure_scheduler_item (wk_id e) (db_scheduler db) = db_scheduler db"
    then show ?thesis
      using wf(1) active by (fastforce simp: targets_wf_def scheduler_wf_def ids)
  next
    fix i
    assume "ensure_scheduler_item (wk_id e) (db_scheduler db) = db_scheduler db @ [i]"
      "si_weakness_id i = wk_id e"
      "(wk_id e, si_track i) \<notin> (\<lambda>i. (si_weakness_id i, si_track i)) ` set (db_scheduler db)"
    then show ?thesis
      using wf(1) active new e(1) by (fastforce simp: targets_wf_def scheduler_wf_def ids)
  qed
  then have "targets_wf ?db'"
    using wf(1) primary status
    by (simp add: targets_wf_def list_all_iff links_known_def relations_wf_def ids comp_def)
  then show ?thesis
    using names wf(2) ensure_scheduler_item_names [of "db_scheduler db" "wk_id e"]
    by (simp add: db' targets_grow_def targets_ok_def item_names_def ensure_scheduler_item_ids)
qed

section \<open>The insertions before the reviews\<close>

definition same_history :: "study_store \<Rightarrow> study_store \<Rightarrow> bool" where
  "same_history st st' \<longleftrightarrow>
     ys_preferences st' = ys_preferences st \<and> ys_config st' = ys_config st \<and>
     ys_memory st' = ys_memory st \<and> ys_sessions st' = ys_sessions st \<and>
     ys_reviews st' = ys_reviews st \<and> ys_review_observations st' = ys_review_observations st \<and>
     ys_production st' = ys_production st \<and> ys_ledger st' = ys_ledger st"

lemma same_history_refl [simp]: "same_history st st"
  by (simp add: same_history_def)

lemma same_history_trans: "same_history a b \<Longrightarrow> same_history b c \<Longrightarrow> same_history a c"
  by (simp add: same_history_def)

lemma foldl_invariant:
  "I s \<Longrightarrow> (\<And>s x. I s \<Longrightarrow> x \<in> set xs \<Longrightarrow> I (f s x)) \<Longrightarrow> I (foldl f s xs)"
  by (induction xs arbitrary: s) auto

text \<open>Before the attempts: the history and the observations stay, the targets grow.\<close>

definition prepared :: "study_store \<Rightarrow> recording \<Rightarrow> bool" where
  "prepared st rc \<longleftrightarrow> same_history st (rc_store rc) \<and>
     ys_observations (rc_store rc) = ys_observations st \<and> rc_observations rc = [] \<and>
     targets_grow (ys_learning st) (ys_learning (rc_store rc)) \<and>
     target_names (ys_learning (rc_store rc)) = target_names (ys_learning st) \<and>
     targets_ok (ys_learning (rc_store rc))"

lemma insert_run_prepared: "prepared st rc \<Longrightarrow> prepared st (insert_run E sid rc run)"
  by (simp add: prepared_def insert_run_def same_history_def Let_def)

lemma insert_item_target_frame:
  assumes "insert_item_target iid s k = Inr s'" and "targets_ok (ys_learning s)"
  shows "same_history s s' \<and> ys_observations s' = ys_observations s \<and>
    targets_grow (ys_learning s) (ys_learning s') \<and>
    target_names (ys_learning s') = target_names (ys_learning s) \<and> targets_ok (ys_learning s')"
  using assms(1) promote_grows [OF assms(2), of k]
  by (auto simp: insert_item_target_def same_history_def Let_def split: option.splits if_splits)

lemma insert_item_prepared:
  assumes "insert_item E sid rc i = Inr rc'" and "prepared st rc"
  shows "prepared st rc'"
proof -
  let ?st = "rc_store rc" and ?row = "item_row_of E sid rc i"
  from assms(1) obtain st' where
    loop: "foldE (insert_item_target (pi_id ?row)) (?st\<lparr>ys_items := ys_items ?st @ [?row]\<rparr>)
      (it_target_weakness_keys i) = Inr st'"
    and rc': "rc_store rc' = st'" "rc_observations rc' = rc_observations rc"
    by (auto simp: insert_item_def Let_def ok_simps)
  have "same_history st st' \<and> ys_observations st' = ys_observations st \<and>
      targets_grow (ys_learning st) (ys_learning st') \<and>
      target_names (ys_learning st') = target_names (ys_learning st) \<and> targets_ok (ys_learning st')"
  proof (rule foldE_invariant [OF loop])
    show "same_history st (?st\<lparr>ys_items := ys_items ?st @ [?row]\<rparr>) \<and>
        ys_observations (?st\<lparr>ys_items := ys_items ?st @ [?row]\<rparr>) = ys_observations st \<and>
        targets_grow (ys_learning st) (ys_learning (?st\<lparr>ys_items := ys_items ?st @ [?row]\<rparr>)) \<and>
        target_names (ys_learning (?st\<lparr>ys_items := ys_items ?st @ [?row]\<rparr>)) =
          target_names (ys_learning st) \<and>
        targets_ok (ys_learning (?st\<lparr>ys_items := ys_items ?st @ [?row]\<rparr>))"
      using assms(2) by (simp add: prepared_def same_history_def)
  qed (use insert_item_target_frame same_history_trans targets_grow_trans in metis)
  with rc' assms(2) show ?thesis by (simp add: prepared_def)
qed

lemma insert_requirement_prepared:
  assumes "insert_requirement sid rc q = Inr rc'" and "prepared st rc"
  shows "prepared st rc'"
  using assms by (auto simp: insert_requirement_def prepared_def same_history_def Let_def ok_simps
      split: if_splits)

section \<open>Observations\<close>

text \<open>The row of an observation, and the rows of a list of observations in order.\<close>

definition row_for :: "nat \<Rightarrow> learning_db \<Rightarrow> observation_row \<Rightarrow> observation_input \<Rightarrow> bool" where
  "row_for sid db ow o1 \<longleftrightarrow>
     ow_session_id ow = sid \<and> ow_observation_no ow = ob_observation_no o1 \<and>
     ow_outcome ow = ob_outcome o1 \<and> ow_role ow = ob_role o1 \<and>
     normalized_phase o1 = Inr (ow_assessment_phase ow) \<and>
     ow_hint_level ow = unwrap_or (ob_hint_level o1) Hint_None \<and>
     ow_learner_effort ow = ob_learner_effort o1 \<and>
     ow_evidence_strength ow = ob_evidence_strength o1 \<and>
     (ow_weakness_id ow, ob_weakness_key o1) \<in> set (target_names db)"

definition logged :: "nat \<Rightarrow> study_store \<Rightarrow> recording \<Rightarrow> observation_input list \<Rightarrow> bool" where
  "logged sid st rc obs \<longleftrightarrow> same_history st (rc_store rc) \<and>
     ys_learning (rc_store rc) = ys_learning st \<and>
     distinct (map ow_id (ys_observations (rc_store rc))) \<and>
     (\<exists>new. ys_observations (rc_store rc) = ys_observations st @ new \<and>
        rc_observations rc = map (\<lambda>ow. (ow_observation_no ow, ow_id ow)) new \<and>
        list_all2 (row_for sid (ys_learning st)) new obs)"

lemma alist_update_fresh: "k \<notin> fst ` set xs \<Longrightarrow> AList.update k v xs = xs @ [(k, v)]"
  by (induction xs) auto

lemma list_all2_numbers:
  "list_all2 (row_for sid db) new obs \<Longrightarrow> map ow_observation_no new = map ob_observation_no obs"
  by (induction rule: list_all2_induct) (auto simp: row_for_def)

lemma insert_observation_logged:
  assumes "insert_observation sid aid iid rc o1 = Inr rc'" and "logged sid st rc obs"
    and "ob_observation_no o1 \<notin> ob_observation_no ` set obs"
  shows "logged sid st rc' (obs @ [o1])"
proof -
  from assms(2) obtain new where new: "ys_observations (rc_store rc) = ys_observations st @ new"
    "rc_observations rc = map (\<lambda>ow. (ow_observation_no ow, ow_id ow)) new"
    "list_all2 (row_for sid (ys_learning st)) new obs" by (auto simp: logged_def)
  from assms(1) obtain phase w where phase: "normalized_phase o1 = Inr phase"
    and w: "find_weakness (rc_store rc) (ob_weakness_key o1) = Some w"
    and rc': "rc' = rc\<lparr>rc_store := (rc_store rc)\<lparr>ys_observations := ys_observations (rc_store rc) @
        [observation_row_of sid aid iid (next_rowid (map ow_id (ys_observations (rc_store rc))))
          (wk_id w) phase o1]\<rparr>,
      rc_observations := AList.update (ob_observation_no o1)
        (next_rowid (map ow_id (ys_observations (rc_store rc)))) (rc_observations rc)\<rparr>"
    by (auto simp: insert_observation_def internal_def Let_def ok_simps)
  let ?oid = "next_rowid (map ow_id (ys_observations (rc_store rc)))"
  let ?row = "observation_row_of sid aid iid ?oid (wk_id w) phase o1"
  have known: "(wk_id w, ob_weakness_key o1) \<in> set (target_names (ys_learning st))"
    using find_SomeD [OF w [unfolded find_weakness_def]] assms(2)
    by (auto simp: logged_def target_names_def)
  have "fst ` set (rc_observations rc) = ob_observation_no ` set obs"
    using list_all2_numbers [OF new(3)] new(2) by (metis (no_types, lifting) fst_conv image_image
        image_set map_eq_conv)
  then have numbers: "rc_observations rc' =
      map (\<lambda>ow. (ow_observation_no ow, ow_id ow)) (new @ [?row])"
    using assms(3) new(2) by (simp add: rc' alist_update_fresh observation_row_of_def)
  have "row_for sid (ys_learning st) ?row o1"
    using phase known by (simp add: row_for_def observation_row_of_def)
  then have rows: "list_all2 (row_for sid (ys_learning st)) (new @ [?row]) (obs @ [o1])"
    using new(3) by (simp add: list_all2_appendI)
  have "ow_id ?row = ?oid" by (simp add: observation_row_of_def)
  then have ids: "distinct (map ow_id (ys_observations (rc_store rc')))"
    using assms(2) next_rowid_new [of "map ow_id (ys_observations (rc_store rc))"]
    by (simp add: rc' logged_def)
  have "ys_observations (rc_store rc') = ys_observations st @ new @ [?row]"
    using new(1) by (simp add: rc')
  moreover have "same_history st (rc_store rc')" "ys_learning (rc_store rc') = ys_learning st"
    using assms(2) by (simp_all add: rc' logged_def same_history_def)
  ultimately show ?thesis
    using ids numbers rows unfolding logged_def by blast
qed

lemma insert_observations_logged:
  assumes "foldE (insert_observation sid aid iid) rc xs = Inr rc'" and "logged sid st rc obs"
    and "distinct (map ob_observation_no (obs @ xs))"
  shows "logged sid st rc' (obs @ xs)"
  using assms
proof (induction xs arbitrary: rc obs)
  case (Cons o1 xs)
  then obtain rc1 where step: "insert_observation sid aid iid rc o1 = Inr rc1"
    and rest: "foldE (insert_observation sid aid iid) rc1 xs = Inr rc'"
    by (auto simp: ok_simps)
  have "logged sid st rc1 (obs @ [o1])"
    by (rule insert_observation_logged [OF step Cons.prems(2)]) (use Cons.prems(3) in auto)
  from Cons.IH [OF rest this] Cons.prems(3) show ?case by simp
qed simp

lemma logged_step:
  "logged sid st rc obs \<Longrightarrow> rc_observations rc' = rc_observations rc \<Longrightarrow>
     ys_observations (rc_store rc') = ys_observations (rc_store rc) \<Longrightarrow>
     ys_learning (rc_store rc') = ys_learning (rc_store rc) \<Longrightarrow>
     same_history (rc_store rc) (rc_store rc') \<Longrightarrow> logged sid st rc' obs"
  unfolding logged_def using same_history_trans by metis

lemma insert_attempt_logged:
  assumes "insert_attempt sid rc a = Inr rc'" and "logged sid st rc obs"
    and "distinct (map ob_observation_no (obs @ at_observations a))"
  shows "logged sid st rc' (obs @ at_observations a)"
proof -
  from assms(1) obtain aid iid rc1 where
    loop: "foldE (insert_observation sid (Some aid) iid) rc1 (at_observations a) = Inr rc'"
    and rc1: "rc1 = rc\<lparr>rc_store := (rc_store rc)\<lparr>
        ys_attempts := ys_attempts (rc_store rc) @ [attempt_row_of sid aid iid a],
        ys_reflections := ys_reflections (rc_store rc) @
          map (reflection_row_of aid) (at_reflections a)\<rparr>,
      rc_attempts := AList.update (at_attempt_no a) aid (rc_attempts rc)\<rparr>"
    by (auto simp: insert_attempt_def Let_def ok_simps)
  have "logged sid st rc1 obs"
    by (rule logged_step [OF assms(2)]) (simp_all add: rc1 same_history_def)
  with loop show ?thesis using assms(3) by (rule insert_observations_logged)
qed

lemma insert_item_observations_logged:
  assumes "insert_item_observations sid rc i = Inr rc'" and "logged sid st rc obs"
    and "distinct (map ob_observation_no (obs @ it_observations i))"
  shows "logged sid st rc' (obs @ it_observations i)"
  using assms unfolding insert_item_observations_def by (rule insert_observations_logged)

lemma insert_assessment_logged:
  assumes "insert_assessment reviewed_at rc p = Inr rc'" and "logged sid st rc obs"
  shows "logged sid st rc' obs"
  by (rule logged_step [OF assms(2)])
    (use assms(1) in \<open>auto simp: insert_assessment_def same_history_def Let_def ok_simps
      split: if_splits\<close>)

lemma insert_finding_logged: "logged sid st rc obs \<Longrightarrow> logged sid st (insert_finding sid rc f) obs"
  by (erule logged_step) (simp_all add: insert_finding_def same_history_def Let_def)

text \<open>A loop over elements with observations of their own.\<close>

lemma foldE_logged:
  assumes step: "\<And>rc x rc' obs. f rc x = Inr rc' \<Longrightarrow> logged sid st rc obs \<Longrightarrow>
      distinct (map ob_observation_no (obs @ g x)) \<Longrightarrow> logged sid st rc' (obs @ g x)"
    and "foldE f rc xs = Inr rc'" and "logged sid st rc obs"
    and "distinct (map ob_observation_no (obs @ concat (map g xs)))"
  shows "logged sid st rc' (obs @ concat (map g xs))"
  using assms(2-)
proof (induction xs arbitrary: rc obs)
  case (Cons x xs)
  then obtain rc1 where first: "f rc x = Inr rc1" and rest: "foldE f rc1 xs = Inr rc'"
    by (auto simp: ok_simps)
  have "logged sid st rc1 (obs @ g x)"
    by (rule step [OF first Cons.prems(2)]) (use Cons.prems(3) in auto)
  from Cons.IH [OF rest this] Cons.prems(3) show ?case by simp
qed simp

text \<open>The order in which \<open>record_practice\<close> inserts the observations of a session.\<close>

definition inserted_observations :: "record_request \<Rightarrow> observation_input list" where
  "inserted_observations r = concat (map at_observations (rr_attempts r)) @
     concat (map it_observations (rr_items r)) @ rr_observations r"

lemma set_inserted: "set (inserted_observations r) = set (session_observations r)"
  by (auto simp: inserted_observations_def session_observations_def)

lemma distinct_map_rotate:
  "distinct (map f (xs @ ys @ zs)) \<longleftrightarrow> distinct (map f (zs @ xs @ ys))"
  by auto

lemma distinct_inserted:
  "distinct (map ob_observation_no (inserted_observations r)) \<longleftrightarrow>
     distinct (map ob_observation_no (session_observations r))"
  unfolding inserted_observations_def session_observations_def by (rule distinct_map_rotate)

lemma record_rows_logged:
  assumes "record_rows E r sid reviewed_at st = Inr rc" and "targets_ok (ys_learning st)"
    and "distinct (map ow_id (ys_observations st))"
    and "distinct (map ob_observation_no (inserted_observations r))"
  obtains st1 where "same_history st st1" and "ys_observations st1 = ys_observations st"
    and "targets_grow (ys_learning st) (ys_learning st1)"
    and "target_names (ys_learning st1) = target_names (ys_learning st)"
    and "targets_ok (ys_learning st1)"
    and "logged sid st1 rc (inserted_observations r)"
proof -
  define rc0 where "rc0 = \<lparr>rc_store = insert_unobserved sid r st, rc_runs = [], rc_items = [],
            rc_attempts = [], rc_observations = []\<rparr>"
  define rc1 where "rc1 = foldl (insert_run E sid) rc0 (rr_activity_runs r)"
  from assms(1) obtain rc2 rc3 rc4 rc5 rc6 rc7 where
    2: "foldE (insert_item E sid) rc1 (rr_items r) = Inr rc2" and
    3: "foldE (insert_requirement sid) rc2 (rr_task_requirements r) = Inr rc3" and
    4: "foldE (insert_attempt sid) rc3 (rr_attempts r) = Inr rc4" and
    5: "foldE (insert_assessment reviewed_at) rc4 (rr_requested_point_assessments r) = Inr rc5" and
    6: "foldE (insert_item_observations sid) rc5 (rr_items r) = Inr rc6" and
    7: "foldE (insert_observation sid None None) rc6 (rr_observations r) = Inr rc7" and
    rc: "rc = foldl (insert_finding sid) rc7 (rr_findings r)"
    unfolding record_rows_def Let_def rc1_def rc0_def by (simp only: bindE_Inr sum.inject) blast
  let ?a = "concat (map at_observations (rr_attempts r))"
    and ?i = "concat (map it_observations (rr_items r))"
  have "prepared st rc0"
    using assms(2) by (simp add: prepared_def rc0_def insert_unobserved_def same_history_def
        split: option.split)
  then have "prepared st rc1"
    unfolding rc1_def by (rule foldl_invariant) (rule insert_run_prepared)
  from 2 this have "prepared st rc2" by (rule foldE_invariant) (rule insert_item_prepared)
  from 3 this have "prepared st rc3" by (rule foldE_invariant) (rule insert_requirement_prepared)
  then have prep: "same_history st (rc_store rc3)" "ys_observations (rc_store rc3) = ys_observations st"
      "targets_grow (ys_learning st) (ys_learning (rc_store rc3))"
      "target_names (ys_learning (rc_store rc3)) = target_names (ys_learning st)"
      "targets_ok (ys_learning (rc_store rc3))" "rc_observations rc3 = []"
    by (auto simp: prepared_def)
  have base: "logged sid (rc_store rc3) rc3 []"
    using prep assms(3) by (simp add: logged_def)
  have all: "distinct (map ob_observation_no (((?a @ ?i)) @ rr_observations r))"
    using assms(4) by (simp only: inserted_observations_def append_assoc)
  then have both: "distinct (map ob_observation_no (?a @ ?i))"
    by (simp only: map_append distinct_append)
  then have attempts: "distinct (map ob_observation_no ?a)"
    by (simp only: map_append distinct_append)
  have "logged sid (rc_store rc3) rc4 ([] @ ?a)"
    by (rule foldE_logged [OF insert_attempt_logged 4 base]) (simp_all only: append_Nil attempts)
  with 5 have done5: "logged sid (rc_store rc3) rc5 ([] @ ?a)"
    by (rule foldE_invariant) (rule insert_assessment_logged)
  have "logged sid (rc_store rc3) rc6 (([] @ ?a) @ ?i)"
    by (rule foldE_logged [OF insert_item_observations_logged 6 done5])
      (simp_all only: append_Nil both)
  with 7 have "logged sid (rc_store rc3) rc7 ((([] @ ?a) @ ?i) @ rr_observations r)"
    by (rule insert_observations_logged) (simp only: append_Nil all)
  then have "logged sid (rc_store rc3) rc ((([] @ ?a) @ ?i) @ rr_observations r)"
    unfolding rc by (rule foldl_invariant) (rule insert_finding_logged)
  then have "logged sid (rc_store rc3) rc (inserted_observations r)"
    by (simp add: inserted_observations_def)
  with prep(1-5) show thesis by (rule that)
qed

lemma touch_seen_frame:
  "same_history st (touch_seen date st k) \<and> ys_learning (touch_seen date st k) = ys_learning st \<and>
     ys_observations (touch_seen date st k) = ys_observations st \<and>
     ys_items (touch_seen date st k) = ys_items st \<and>
     ys_item_targets (touch_seen date st k) = ys_item_targets st"
  by (simp add: touch_seen_def same_history_def)

text \<open>The ledger is untouched by the insertions, whatever the tables hold.\<close>

lemma insert_observation_ledger:
  "insert_observation sid aid iid rc o1 = Inr rc' \<Longrightarrow>
     ys_ledger (rc_store rc') = ys_ledger (rc_store rc)"
  by (auto simp: insert_observation_def internal_def Let_def ok_simps)

lemma insert_observations_ledger:
  "foldE (insert_observation sid aid iid) rc xs = Inr rc' \<Longrightarrow>
     ys_ledger (rc_store rc') = ys_ledger (rc_store rc)"
  by (erule foldE_invariant) (auto dest: insert_observation_ledger)

lemma insert_item_ledger:
  assumes "insert_item E sid rc i = Inr rc'"
  shows "ys_ledger (rc_store rc') = ys_ledger (rc_store rc)"
proof -
  from assms obtain st st' where loop: "foldE (insert_item_target (pi_id (item_row_of E sid rc i))) st
      (it_target_weakness_keys i) = Inr st'" and "ys_ledger st = ys_ledger (rc_store rc)"
    "rc_store rc' = st'"
    by (auto simp: insert_item_def Let_def ok_simps)
  moreover have "ys_ledger st' = ys_ledger st"
    by (rule foldE_invariant [OF loop])
      (auto simp: insert_item_target_def Let_def split: option.splits if_splits)
  ultimately show ?thesis by simp
qed

lemma record_rows_ledger:
  assumes "record_rows E r sid reviewed_at st = Inr rc"
  shows "ys_ledger (rc_store rc) = ys_ledger st"
proof -
  define rc0 where "rc0 = \<lparr>rc_store = insert_unobserved sid r st, rc_runs = [], rc_items = [],
            rc_attempts = [], rc_observations = []\<rparr>"
  define rc1 where "rc1 = foldl (insert_run E sid) rc0 (rr_activity_runs r)"
  let ?I = "\<lambda>rc. ys_ledger (rc_store rc) = ys_ledger st"
  from assms obtain rc2 rc3 rc4 rc5 rc6 rc7 where
    2: "foldE (insert_item E sid) rc1 (rr_items r) = Inr rc2" and
    3: "foldE (insert_requirement sid) rc2 (rr_task_requirements r) = Inr rc3" and
    4: "foldE (insert_attempt sid) rc3 (rr_attempts r) = Inr rc4" and
    5: "foldE (insert_assessment reviewed_at) rc4 (rr_requested_point_assessments r) = Inr rc5" and
    6: "foldE (insert_item_observations sid) rc5 (rr_items r) = Inr rc6" and
    7: "foldE (insert_observation sid None None) rc6 (rr_observations r) = Inr rc7" and
    rc: "rc = foldl (insert_finding sid) rc7 (rr_findings r)"
    unfolding record_rows_def Let_def rc1_def rc0_def by (simp only: bindE_Inr sum.inject) blast
  have "?I rc0" by (simp add: rc0_def insert_unobserved_def split: option.split)
  then have "?I rc1" unfolding rc1_def by (rule foldl_invariant) (simp add: insert_run_def Let_def)
  from 2 this have "?I rc2" by (rule foldE_invariant) (simp add: insert_item_ledger)
  from 3 this have "?I rc3"
    by (rule foldE_invariant) (auto simp: insert_requirement_def Let_def ok_simps split: if_splits)
  from 4 this have "?I rc4"
    by (rule foldE_invariant)
      (auto simp: insert_attempt_def Let_def ok_simps dest!: insert_observations_ledger)
  from 5 this have "?I rc5"
    by (rule foldE_invariant) (auto simp: insert_assessment_def Let_def ok_simps split: if_splits)
  from 6 this have "?I rc6"
    by (rule foldE_invariant)
      (auto simp: insert_item_observations_def dest!: insert_observations_ledger)
  from 7 this have "?I rc7" by (rule foldE_invariant) (simp add: insert_observation_ledger)
  then show ?thesis
    unfolding rc by (rule foldl_invariant) (simp add: insert_finding_def Let_def)
qed

end
