(* ===== verification/RecordRequestCorrect.thy ===== *)
theory RecordRequestCorrect
  imports RecordRequest
begin

text \<open>
  Which sessions \<open>validate_record_practice_request\<close> accepts: the declarative rules
  \<open>record_request_wf\<close>, the reading of every loop through the numbering contracts of the
  prelude, and what an accepted session guarantees to the code that writes it.
\<close>

section \<open>The rules\<close>

definition relation_wf :: "target_relation_input \<Rightarrow> bool" where
  "relation_wf t \<longleftrightarrow> text_ok (tr_other_weakness_key t) 160 \<and> text_ok (tr_predicate t) 40 \<and>
     opt_text_ok (tr_notes t) 2000"

definition new_weakness_wf :: "new_weakness_input \<Rightarrow> bool" where
  "new_weakness_wf w \<longleftrightarrow>
     text_ok (nw_key w) 160 \<and> text_ok (nw_category w) 80 \<and> text_ok (nw_description w) 1000 \<and>
     opt_text_ok (nw_target_pattern w) 1000 \<and>
     (\<forall>ds. nw_recommended_drill_types w = Some ds \<longrightarrow> length ds \<le> 12) \<and>
     length (nw_concept_links w) \<le> 20 \<and> length (nw_target_relations w) \<le> 20 \<and>
     (\<forall>l\<in>set (nw_concept_links w). text_ok (cl_concept_key l) 160) \<and>
     (\<forall>t\<in>set (nw_target_relations w). relation_wf t)"

definition observation_texts_wf :: "observation_input \<Rightarrow> bool" where
  "observation_texts_wf o1 \<longleftrightarrow>
     text_ok (ob_weakness_key o1) 160 \<and> opt_text_ok (ob_produced o1) 2000 \<and>
     opt_text_ok (ob_correction o1) 2000 \<and> opt_text_ok (ob_error_span o1) 1000 \<and>
     opt_text_ok (ob_notes o1) 2000"

definition item_texts_wf :: "practice_item_input \<Rightarrow> bool" where
  "item_texts_wf i \<longleftrightarrow>
     text_ok (it_prompt i) 4000 \<and> opt_text_ok (it_response i) 8000 \<and>
     opt_text_ok (it_corrected_response i) 8000 \<and> opt_text_ok (it_reference_answer i) 8000 \<and>
     opt_text_ok (it_feedback i) 4000 \<and> length (it_target_weakness_keys i) \<le> 20 \<and>
     (\<forall>k\<in>set (it_target_weakness_keys i). text_ok k 160)"

definition refers_to :: "nat option \<Rightarrow> nat set \<Rightarrow> bool" where
  "refers_to x ns \<longleftrightarrow> (\<forall>n. x = Some n \<longrightarrow> n \<in> ns)"

definition sha256_hex :: "ustring \<Rightarrow> bool" where
  "sha256_hex h \<longleftrightarrow> length h = 64 \<and> (\<forall>c\<in>set h. is_ascii_hex c)"

definition requirement_wf :: "nat set \<Rightarrow> task_requirement_input \<Rightarrow> bool" where
  "requirement_wf items q \<longleftrightarrow>
     refers_to (rq_practice_item_no q) items \<and>
     text_ok (rq_skill q) 40 \<and> text_ok (rq_task_key q) 80 \<and> opt_text_ok (rq_exam_key q) 80 \<and>
     opt_text_ok (rq_specification_version q) 80 \<and>
     (rq_source q = Req_Official \<longrightarrow> rq_exam_key q \<noteq> None \<and> rq_specification_version q \<noteq> None) \<and>
     (\<forall>lower upper. rq_word_min q = Some lower \<longrightarrow> rq_word_max q = Some upper \<longrightarrow> lower \<le> upper) \<and>
     length (rq_requested_points q) \<le> 50 \<and> (\<forall>p\<in>set (rq_requested_points q). text_ok p 160) \<and>
     (\<forall>h. rq_prompt_hash q = Some h \<longrightarrow> sha256_hex h)"

text \<open>
  The timing of a stored attempt: a duration is present exactly when its source is, and a
  latency only together with them.
\<close>

definition attempt_record_wf :: "nat set \<Rightarrow> attempt_input \<Rightarrow> bool" where
  "attempt_record_wf items a \<longleftrightarrow>
     refers_to (at_practice_item_no a) items \<and> text_ok (at_transcript a) 8000 \<and>
     (at_actual_duration_milliseconds a = None \<longleftrightarrow> at_timing_source a = None) \<and>
     (at_timing_source a = None \<longrightarrow> at_response_latency_milliseconds a = None)"

definition assessment_wf :: "nat set \<Rightarrow> requested_point_assessment_input \<Rightarrow> bool" where
  "assessment_wf attempts p \<longleftrightarrow>
     pa_attempt_no p \<in> attempts \<and> text_ok (pa_point_key p) 160 \<and> text_ok (pa_evaluator p) 160 \<and>
     opt_text_ok (pa_supporting_excerpt p) 4000 \<and> opt_text_ok (pa_reason p) 2000 \<and>
     opt_text_ok (pa_rubric_version p) 160 \<and> opt_text_ok (pa_assessed_at p) 128 \<and>
     (pa_supporting_excerpt p \<noteq> None \<or> pa_reason p \<noteq> None)"

definition finding_wf :: "record_request \<Rightarrow> finding_input \<Rightarrow> bool" where
  "finding_wf r f \<longleftrightarrow>
     text_ok (fi_original f) 4000 \<and> opt_text_ok (fi_suggestion f) 4000 \<and>
     opt_text_ok (fi_note f) 2000 \<and>
     refers_to (fi_practice_item_no f) (it_item_no ` set (rr_items r)) \<and>
     (\<forall>n. fi_attempt_no f = Some n \<longrightarrow>
        (\<exists>a\<in>set (rr_attempts r). at_attempt_no a = n \<and>
           (fi_practice_item_no f \<noteq> None \<longrightarrow> at_practice_item_no a = fi_practice_item_no f)))"

text \<open>The evidence of a review: distinct observations of the session, all of its weakness.\<close>

definition review_wf :: "record_request \<Rightarrow> review_input \<Rightarrow> bool" where
  "review_wf r v \<longleftrightarrow>
     text_ok (rv_weakness_key v) 160 \<and> rv_evidence_observation_nos v \<noteq> [] \<and>
     distinct (rv_evidence_observation_nos v) \<and>
     (\<forall>n\<in>set (rv_evidence_observation_nos v).
        \<exists>o1\<in>set (session_observations r). ob_observation_no o1 = n \<and>
          ob_weakness_key o1 = rv_weakness_key v) \<and>
     opt_text_ok (rv_rating_rationale v) 1000 \<and> blen (rv_evidence v) \<le> 4096"

definition record_envelope_wf :: "record_request \<Rightarrow> bool" where
  "record_envelope_wf r \<longleftrightarrow>
     text_ok (rr_idempotency_key r) 128 \<and> opt_text_ok (rr_session_date r) 10 \<and>
     opt_text_ok (rr_reviewed_at r) 128 \<and> opt_text_ok (rr_task_ref r) 160 \<and>
     opt_text_ok (rr_topic r) 500 \<and> opt_text_ok (rr_notes r) 4000 \<and>
     length (rr_new_weaknesses r) \<le> 100 \<and> length (rr_items r) \<le> 100 \<and>
     length (rr_attempts r) \<le> 100 \<and> length (rr_reviews r) \<le> 100 \<and>
     length (rr_activity_runs r) \<le> 10 \<and> length (rr_findings r) \<le> 300 \<and>
     length (rr_task_requirements r) \<le> 100 \<and> length (rr_requested_point_assessments r) \<le> 300"

definition record_observations_wf :: "record_request \<Rightarrow> bool" where
  "record_observations_wf r \<longleftrightarrow>
     length (session_observations r) \<le> 300 \<and>
     numbers_ok (map ob_observation_no (session_observations r)) \<and>
     (\<forall>o1\<in>set (session_observations r).
        observation_texts_wf o1 \<and> (\<exists>p. phase_admissible o1 p))"

definition record_request_wf :: "record_request \<Rightarrow> bool" where
  "record_request_wf r \<longleftrightarrow>
     record_envelope_wf r \<and>
     distinct (map nw_key (rr_new_weaknesses r)) \<and>
     (\<forall>w\<in>set (rr_new_weaknesses r). new_weakness_wf w) \<and>
     numbers_ok (map it_item_no (rr_items r)) \<and> (\<forall>i\<in>set (rr_items r). item_texts_wf i) \<and>
     (\<forall>q\<in>set (rr_task_requirements r). requirement_wf (it_item_no ` set (rr_items r)) q) \<and>
     numbers_ok (map at_attempt_no (rr_attempts r)) \<and>
     (\<forall>a\<in>set (rr_attempts r). attempt_record_wf (it_item_no ` set (rr_items r)) a) \<and>
     (\<forall>p\<in>set (rr_requested_point_assessments r).
        assessment_wf (at_attempt_no ` set (rr_attempts r)) p) \<and>
     record_observations_wf r \<and>
     activity_recording_wf r \<and>
     (\<forall>f\<in>set (rr_findings r). finding_wf r f) \<and>
     (\<forall>v\<in>set (rr_reviews r). review_wf r v)"

section \<open>The bodies\<close>

lemma record_text_Inr [ok_simps]: "record_text s field n = Inr u \<longleftrightarrow> text_ok s n"
  by (auto simp: record_text_def text_ok_def ok_simps)

lemma record_optional_text_Inr [ok_simps]:
  "record_optional_text s field n = Inr u \<longleftrightarrow> opt_text_ok s n"
  by (cases s) (auto simp: record_optional_text_def opt_text_ok_def ok_simps)

lemma record_list_Inr [ok_simps]: "record_list k field n = Inr u \<longleftrightarrow> k \<le> n"
  by (auto simp: record_list_def ok_simps)

lemma record_envelope_Inr [ok_simps]: "record_envelope r = Inr u \<longleftrightarrow> record_envelope_wf r"
  by (auto simp: record_envelope_def record_envelope_wf_def ok_simps)

lemma record_relation_Inr [ok_simps]: "record_relation t = Inr u \<longleftrightarrow> relation_wf t"
  by (auto simp: record_relation_def relation_wf_def ok_simps)

lemma record_weakness_body_Inr [ok_simps]: "record_weakness_body w = Inr u \<longleftrightarrow> new_weakness_wf w"
  unfolding record_weakness_body_def new_weakness_wf_def
  by (cases "nw_recommended_drill_types w") (auto simp: ok_simps)

interpretation new_weakness_keys: unique_check nw_key "\<lambda>s. s" record_weakness new_weakness_wf
  by unfold_locales (auto simp: record_weakness_def ok_simps split: if_splits)

interpretation record_observation_numbers:
    numbered_check ob_observation_no "\<lambda>s. s" "record_observation path" observation_texts_wf
  for path
  by unfold_locales
    (auto simp: record_observation_def observation_texts_wf_def ok_simps split: if_splits)

interpretation record_reflection_numbers:
    numbered_check rf_reflection_no "\<lambda>s. s" record_reflection "\<lambda>rf. text_ok (rf_note rf) 4000"
  by unfold_locales (auto simp: record_reflection_def ok_simps split: if_splits)

lemma record_item_body_Inr [ok_simps]:
  "record_item_body i = Inr u \<longleftrightarrow> item_texts_wf i \<and> length (it_observations i) \<le> 300"
  by (auto simp: record_item_body_def item_texts_wf_def ok_simps)

lemma ascii_hex_blen: "\<forall>c\<in>set h. is_ascii_hex c \<Longrightarrow> blen h = length h"
  by (induction h) (auto simp: blen_def cp_len_def is_ascii_hex_def is_ascii_digit_def)

lemma record_requirement_Inr [ok_simps]:
  "record_requirement items q = Inr u \<longleftrightarrow> requirement_wf items q"
proof -
  have points: "\<not> list_ex (\<lambda>p. blank p \<or> 160 < blen p) ps \<longleftrightarrow> (\<forall>p\<in>set ps. text_ok p 160)"
    for ps by (auto simp: list_ex_iff text_ok_def not_less)
  have digest: "\<not> (blen h \<noteq> 64 \<or> list_ex (\<lambda>c. \<not> is_ascii_hex c) h) \<longleftrightarrow> sha256_hex h" for h
    using ascii_hex_blen [of h] by (auto simp: list_ex_iff sha256_hex_def)
  show ?thesis
    unfolding record_requirement_def requirement_wf_def refers_to_def
    using points digest by (auto simp: ok_simps some_and_iff not_less)
qed

lemma record_attempt_head_Inr [ok_simps]:
  "record_attempt_head items a = Inr u \<longleftrightarrow>
     attempt_record_wf items a \<and> length (at_observations a) \<le> 300"
  by (auto simp: record_attempt_head_def attempt_record_wf_def refers_to_def ok_simps some_and_iff)

lemma record_assessment_Inr:
  "0 \<notin> attempts \<Longrightarrow> record_assessment attempts p = Inr u \<longleftrightarrow> assessment_wf attempts p"
  by (cases "pa_attempt_no p = 0") (auto simp: record_assessment_def assessment_wf_def ok_simps)

section \<open>The loops that carry the observation numbers\<close>

text \<open>What numbering a list of observations over the numbers \<open>ns\<close> amounts to.\<close>

definition numbers_extend :: "nat set \<Rightarrow> observation_input list \<Rightarrow> nat set \<Rightarrow> bool" where
  "numbers_extend ns obs ns' \<longleftrightarrow>
     numbers_ok (map ob_observation_no obs) \<and> ns \<inter> ob_observation_no ` set obs = {} \<and>
     (\<forall>o1\<in>set obs. observation_texts_wf o1) \<and> ns' = ns \<union> ob_observation_no ` set obs"

lemma record_observations_Inr:
  "foldE (record_observation path) ns obs = Inr ns' \<longleftrightarrow> numbers_extend ns obs ns'"
proof
  assume loop: "foldE (record_observation path) ns obs = Inr ns'"
  then show "numbers_extend ns obs ns'"
    using record_observation_numbers.loop_iff [of path ns obs]
      record_observation_numbers.loop_seen [OF loop]
    by (auto simp: numbers_extend_def numbers_ok_map)
next
  assume ext: "numbers_extend ns obs ns'"
  then obtain r where r: "foldE (record_observation path) ns obs = Inr r"
    using record_observation_numbers.loop_iff [of path ns obs]
    by (auto simp: numbers_extend_def numbers_ok_map)
  then show "foldE (record_observation path) ns obs = Inr ns'"
    using record_observation_numbers.loop_seen [OF r] ext by (simp add: numbers_extend_def)
qed

lemma numbers_extend_Nil [simp]: "numbers_extend ns [] ns' \<longleftrightarrow> ns' = ns"
  by (auto simp: numbers_extend_def numbers_ok_def)

lemma numbers_extend_append:
  "numbers_extend ns (xs @ ys) ns' \<longleftrightarrow>
     (\<exists>m. numbers_extend ns xs m \<and> numbers_extend m ys ns')"
  by (auto simp: numbers_extend_def numbers_ok_def)

text \<open>
  Items and attempts are walked by the same kind of loop: a positive new number, a check of
  the element, its observations numbered over those before it, and the running count.
\<close>

locale numbered_observations =
  fixes number :: "'a \<Rightarrow> nat" and observations :: "'a \<Rightarrow> observation_input list"
    and body :: "record_state \<Rightarrow> 'a \<Rightarrow> record_error + record_state" and ok :: "'a \<Rightarrow> bool"
  assumes body_Inr: "body (ns, os, c) x = Inr st \<longleftrightarrow>
      number x \<noteq> 0 \<and> number x \<notin> ns \<and> ok x \<and>
      (\<exists>os'. numbers_extend os (observations x) os' \<and>
         st = (insert (number x) ns, os', c + length (observations x)))"
begin

lemma loop_Inr:
  "foldE body (ns, os, c) xs = Inr st \<longleftrightarrow>
     numbers_ok (map number xs) \<and> ns \<inter> number ` set xs = {} \<and> (\<forall>x\<in>set xs. ok x) \<and>
     (\<exists>os'. numbers_extend os (concat (map observations xs)) os' \<and>
        st = (ns \<union> number ` set xs, os', c + length (concat (map observations xs))))"
proof (induction xs arbitrary: ns os c)
  case Nil
  show ?case by (auto simp: numbers_ok_def)
next
  case (Cons x xs)
  have "foldE body (ns, os, c) (x # xs) = Inr st \<longleftrightarrow>
      (\<exists>m. number x \<noteq> 0 \<and> number x \<notin> ns \<and> ok x \<and> numbers_extend os (observations x) m \<and>
         foldE body (insert (number x) ns, m, c + length (observations x)) xs = Inr st)"
    by (auto simp: foldE_Cons_Inr body_Inr simp del: foldE.simps)
  also have "\<dots> \<longleftrightarrow> numbers_ok (map number (x # xs)) \<and> ns \<inter> number ` set (x # xs) = {} \<and>
      (\<forall>x\<in>set (x # xs). ok x) \<and>
      (\<exists>m os'. numbers_extend os (observations x) m \<and>
         numbers_extend m (concat (map observations xs)) os' \<and>
         st = (insert (number x) ns \<union> number ` set xs, os',
           c + length (observations x) + length (concat (map observations xs))))"
    unfolding Cons.IH by (auto simp: numbers_ok_def)
  finally show ?case by (auto simp: numbers_extend_append add.assoc)
qed

end

interpretation record_items: numbered_observations it_item_no it_observations record_item
    "\<lambda>i. item_texts_wf i \<and> length (it_observations i) \<le> 300"
  by unfold_locales
    (auto simp: record_item_def ok_simps record_observations_Inr split: if_splits)

interpretation record_attempts: numbered_observations at_attempt_no at_observations
    "record_attempt items"
    "\<lambda>a. attempt_record_wf items a \<and> length (at_observations a) \<le> 300 \<and>
       length (at_reflections a) \<le> 20 \<and> numbers_ok (map rf_reflection_no (at_reflections a)) \<and>
       (\<forall>rf\<in>set (at_reflections a). text_ok (rf_note rf) 4000)"
  for items
  by unfold_locales
    (auto simp: record_attempt_def ok_simps record_observations_Inr numbers_ok_map
      record_reflection_numbers.loop_iff split: if_splits)

section \<open>Findings and reviews\<close>

lemma distinct_map_filter:
  "distinct (map f xs) \<Longrightarrow> x \<in> set xs \<Longrightarrow> filter (\<lambda>y. f y = f x) xs = [x]"
  by (induction xs) (auto simp: filter_empty_conv rev_image_eqI)

lemma record_finding_Inr:
  assumes "distinct (map at_attempt_no (rr_attempts r))"
  shows "record_finding r (it_item_no ` set (rr_items r)) f = Inr u \<longleftrightarrow> finding_wf r f"
proof -
  have found: "find (\<lambda>a. at_attempt_no a = n) (rr_attempts r) = Some a \<longleftrightarrow>
      a \<in> set (rr_attempts r) \<and> at_attempt_no a = n" for n a
    using distinct_map_find [OF assms] by (auto dest: find_SomeD)
  show ?thesis
    by (cases "fi_attempt_no f"; cases "fi_practice_item_no f")
      (auto simp: record_finding_def finding_wf_def refers_to_def ok_simps found)
qed

interpretation record_evidence: numbered_check "\<lambda>n. n" "\<lambda>s. s" "record_evidence_number r os key"
    "\<lambda>n. n \<in> os \<and> (\<forall>o1\<in>set (session_observations r).
       ob_observation_no o1 = n \<longrightarrow> ob_weakness_key o1 = key)"
  for r os key
  by unfold_locales
    (auto simp: record_evidence_number_def session_observations_def ok_simps list_ex_iff
      split: if_splits)

lemma record_review_Inr:
  assumes "numbers_ok (map ob_observation_no (session_observations r))"
  shows "record_review r (ob_observation_no ` set (session_observations r)) v = Inr u \<longleftrightarrow>
    review_wf r v"
proof -
  have same: "o1 = o2" if "o1 \<in> set (session_observations r)" "o2 \<in> set (session_observations r)"
      "ob_observation_no o1 = ob_observation_no o2" for o1 o2
    using that assms by (auto simp: numbers_ok_map distinct_map inj_on_def)
  have evidence: "n \<noteq> 0 \<and> n \<in> ob_observation_no ` set (session_observations r) \<and>
      (\<forall>o1\<in>set (session_observations r).
         ob_observation_no o1 = n \<longrightarrow> ob_weakness_key o1 = rv_weakness_key v) \<longleftrightarrow>
      (\<exists>o1\<in>set (session_observations r). ob_observation_no o1 = n \<and>
         ob_weakness_key o1 = rv_weakness_key v)" for n
    using same assms by (auto simp: numbers_ok_map)
  have "(\<exists>s. foldE (record_evidence_number r (ob_observation_no ` set (session_observations r))
        (rv_weakness_key v)) {} (rv_evidence_observation_nos v) = Inr s) \<longleftrightarrow>
      distinct (rv_evidence_observation_nos v) \<and>
      (\<forall>n\<in>set (rv_evidence_observation_nos v).
        \<exists>o1\<in>set (session_observations r). ob_observation_no o1 = n \<and>
          ob_weakness_key o1 = rv_weakness_key v)"
    unfolding record_evidence.loop_unique_iff evidence by simp
  then show ?thesis
    by (auto simp: record_review_def review_wf_def ok_simps not_less)
qed

section \<open>The whole check\<close>

lemma set_record_order:
  "set (concat (map it_observations (rr_items r)) @ concat (map at_observations (rr_attempts r)) @
     rr_observations r) = set (session_observations r)"
  by (auto simp: session_observations_def)

lemma numbers_ok_rotate: "numbers_ok (xs @ ys @ zs) \<longleftrightarrow> numbers_ok (zs @ ys @ xs)"
  by (auto simp: numbers_ok_def)

lemma numbers_ok_record_order:
  "numbers_ok (map ob_observation_no (concat (map it_observations (rr_items r)) @
     concat (map at_observations (rr_attempts r)) @ rr_observations r)) \<longleftrightarrow>
   numbers_ok (map ob_observation_no (session_observations r))"
  by (simp add: session_observations_def numbers_ok_rotate)

text \<open>The observations of the whole session, in the order this check visits them.\<close>

lemma numbers_extend_session:
  "numbers_extend {} (concat (map it_observations (rr_items r)) @
     concat (map at_observations (rr_attempts r)) @ rr_observations r) os \<longleftrightarrow>
   numbers_ok (map ob_observation_no (session_observations r)) \<and>
   (\<forall>o1\<in>set (session_observations r). observation_texts_wf o1) \<and>
   os = ob_observation_no ` set (session_observations r)"
  unfolding numbers_extend_def set_record_order numbers_ok_record_order by simp

lemma length_concat_member: "x \<in> set xs \<Longrightarrow> length (f x) \<le> length (concat (map f xs))"
  by (induction xs) auto

lemma session_observation_limits:
  assumes "length (session_observations r) \<le> 300"
  shows "length (rr_observations r) \<le> 300"
    and "i \<in> set (rr_items r) \<Longrightarrow> length (it_observations i) \<le> 300"
    and "a \<in> set (rr_attempts r) \<Longrightarrow> length (at_observations a) \<le> 300"
  using assms length_concat_member [of i "rr_items r" it_observations]
    length_concat_member [of a "rr_attempts r" at_observations]
  by (auto simp: session_observations_def)

lemma validate_record_unfolded:
  "validate_record_practice_request r = Inr () \<longleftrightarrow>
     record_envelope_wf r \<and>
     (\<exists>keys. foldE record_weakness {} (rr_new_weaknesses r) = Inr keys) \<and>
     (\<exists>items os1 c1 attempts os2 c2 os.
        foldE record_item ({}, {}, length (rr_observations r)) (rr_items r) =
          Inr (items, os1, c1) \<and>
        (\<forall>q\<in>set (rr_task_requirements r). requirement_wf items q) \<and>
        foldE (record_attempt items) ({}, os1, c1) (rr_attempts r) = Inr (attempts, os2, c2) \<and>
        (\<forall>p\<in>set (rr_requested_point_assessments r). record_assessment attempts p = Inr ()) \<and>
        length (rr_observations r) \<le> 300 \<and> numbers_extend os2 (rr_observations r) os \<and>
        c2 \<le> 300 \<and> validate_session_observation_numbers r = Inr () \<and>
        validate_activity_recording r = Inr () \<and>
        (\<forall>f\<in>set (rr_findings r). record_finding r items f = Inr ()) \<and>
        (\<forall>v\<in>set (rr_reviews r). record_review r os v = Inr ()))"
  unfolding validate_record_practice_request_def
  by (auto simp: ok_simps record_observations_Inr not_less split: prod.splits)

text \<open>What the loops over items, attempts and observations establish together.\<close>

lemma record_loops_Inr:
  "(\<exists>items os1 c1 attempts os2 c2 os.
        foldE record_item ({}, {}, length (rr_observations r)) (rr_items r) =
          Inr (items, os1, c1) \<and>
        foldE (record_attempt items) ({}, os1, c1) (rr_attempts r) = Inr (attempts, os2, c2) \<and>
        length (rr_observations r) \<le> 300 \<and> numbers_extend os2 (rr_observations r) os \<and>
        c2 \<le> 300 \<and> P items attempts os) \<longleftrightarrow>
     numbers_ok (map it_item_no (rr_items r)) \<and> (\<forall>i\<in>set (rr_items r). item_texts_wf i) \<and>
     numbers_ok (map at_attempt_no (rr_attempts r)) \<and>
     (\<forall>a\<in>set (rr_attempts r). attempt_record_wf (it_item_no ` set (rr_items r)) a \<and>
       length (at_reflections a) \<le> 20 \<and> numbers_ok (map rf_reflection_no (at_reflections a)) \<and>
       (\<forall>rf\<in>set (at_reflections a). text_ok (rf_note rf) 4000)) \<and>
     length (session_observations r) \<le> 300 \<and>
     numbers_ok (map ob_observation_no (session_observations r)) \<and>
     (\<forall>o1\<in>set (session_observations r). observation_texts_wf o1) \<and>
     P (it_item_no ` set (rr_items r)) (at_attempt_no ` set (rr_attempts r))
       (ob_observation_no ` set (session_observations r))" (is "?loops \<longleftrightarrow> ?wf")
proof -
  let ?I = "concat (map it_observations (rr_items r))"
    and ?A = "concat (map at_observations (rr_attempts r))"
  have count: "length (rr_observations r) + length ?I + length ?A =
      length (session_observations r)"
    by (simp add: session_observations_def)
  have "?loops \<longleftrightarrow>
     numbers_ok (map it_item_no (rr_items r)) \<and>
     (\<forall>i\<in>set (rr_items r). item_texts_wf i \<and> length (it_observations i) \<le> 300) \<and>
     numbers_ok (map at_attempt_no (rr_attempts r)) \<and>
     (\<forall>a\<in>set (rr_attempts r). attempt_record_wf (it_item_no ` set (rr_items r)) a \<and>
       length (at_observations a) \<le> 300 \<and>
       length (at_reflections a) \<le> 20 \<and> numbers_ok (map rf_reflection_no (at_reflections a)) \<and>
       (\<forall>rf\<in>set (at_reflections a). text_ok (rf_note rf) 4000)) \<and>
     length (rr_observations r) \<le> 300 \<and>
     length (rr_observations r) + length ?I + length ?A \<le> 300 \<and>
     (\<exists>os. (\<exists>os1 os2. numbers_extend {} ?I os1 \<and> numbers_extend os1 ?A os2 \<and>
         numbers_extend os2 (rr_observations r) os) \<and>
       P (it_item_no ` set (rr_items r)) (at_attempt_no ` set (rr_attempts r)) os)"
    by (simp add: record_items.loop_Inr record_attempts.loop_Inr) blast
  also have "(\<lambda>os. \<exists>os1 os2. numbers_extend {} ?I os1 \<and> numbers_extend os1 ?A os2 \<and>
         numbers_extend os2 (rr_observations r) os) =
      numbers_extend {} (?I @ ?A @ rr_observations r)"
    by (auto simp: fun_eq_iff numbers_extend_append)
  finally show ?thesis
    unfolding numbers_extend_session count using session_observation_limits [of r] by blast
qed

lemma reflections_follow:
  "attempt_wf aware a \<Longrightarrow>
     length (at_reflections a) \<le> 20 \<and> numbers_ok (map rf_reflection_no (at_reflections a)) \<and>
     (\<forall>rf\<in>set (at_reflections a). text_ok (rf_note rf) 4000)"
  by (auto simp: attempt_wf_def reflection_wf_def text_ok_def)

lemma activity_attempts: "activity_recording_wf r \<Longrightarrow> a \<in> set (rr_attempts r) \<Longrightarrow>
    attempt_wf (rr_activity_runs r \<noteq> []) a"
  by (simp add: activity_recording_wf_def)

lemma record_accepted_iff:
  "validate_record_practice_request r = Inr () \<longleftrightarrow> record_request_wf r"
proof -
  have step: "validate_record_practice_request r = Inr () \<longleftrightarrow>
     record_envelope_wf r \<and>
     (\<exists>keys. foldE record_weakness {} (rr_new_weaknesses r) = Inr keys) \<and>
     (\<exists>items os1 c1 attempts os2 c2 os.
        foldE record_item ({}, {}, length (rr_observations r)) (rr_items r) =
          Inr (items, os1, c1) \<and>
        foldE (record_attempt items) ({}, os1, c1) (rr_attempts r) = Inr (attempts, os2, c2) \<and>
        length (rr_observations r) \<le> 300 \<and> numbers_extend os2 (rr_observations r) os \<and>
        c2 \<le> 300 \<and>
       ((\<forall>q\<in>set (rr_task_requirements r). requirement_wf items q) \<and>
        (\<forall>p\<in>set (rr_requested_point_assessments r). record_assessment attempts p = Inr ()) \<and>
        validate_session_observation_numbers r = Inr () \<and>
        validate_activity_recording r = Inr () \<and>
        (\<forall>f\<in>set (rr_findings r). record_finding r items f = Inr ()) \<and>
        (\<forall>v\<in>set (rr_reviews r). record_review r os v = Inr ())))"
    unfolding validate_record_unfolded by blast
  show ?thesis
  proof (cases "numbers_ok (map it_item_no (rr_items r)) \<and>
      numbers_ok (map at_attempt_no (rr_attempts r)) \<and>
      numbers_ok (map ob_observation_no (session_observations r))")
    case True
    then have items: "distinct (map it_item_no (rr_items r))"
      and attempts: "distinct (map at_attempt_no (rr_attempts r))"
      and positive: "0 \<notin> at_attempt_no ` set (rr_attempts r)"
      by (simp_all add: numbers_ok_map)
    have checks: "validate_session_observation_numbers r = Inr () \<longleftrightarrow>
        (\<forall>o1\<in>set (session_observations r). \<exists>p. phase_admissible o1 p)"
      using True by (simp add: validate_numbers_iff numbers_ok_map)
    have observations: "record_observations_wf r \<longleftrightarrow> length (session_observations r) \<le> 300 \<and>
        (\<forall>o1\<in>set (session_observations r). observation_texts_wf o1) \<and>
        (\<forall>o1\<in>set (session_observations r). \<exists>p. phase_admissible o1 p)"
      using True by (simp add: record_observations_wf_def ball_conj_distrib)
    have attempts_wf: "activity_recording_wf r \<Longrightarrow>
        (\<forall>a\<in>set (rr_attempts r). attempt_record_wf (it_item_no ` set (rr_items r)) a \<and>
          length (at_reflections a) \<le> 20 \<and>
          numbers_ok (map rf_reflection_no (at_reflections a)) \<and>
          (\<forall>rf\<in>set (at_reflections a). text_ok (rf_note rf) 4000)) \<longleftrightarrow>
        (\<forall>a\<in>set (rr_attempts r). attempt_record_wf (it_item_no ` set (rr_items r)) a)"
      using activity_attempts [of r] reflections_follow by blast
    show ?thesis
      unfolding step record_loops_Inr record_request_wf_def new_weakness_keys.loop_unique_iff
        record_assessment_Inr [OF positive] validate_activity_recording_iff [OF items]
        record_finding_Inr [OF attempts] checks observations
      using True record_review_Inr [of r] attempts_wf
      by (cases "activity_recording_wf r") (simp_all, blast)
  next
    case False
    then show ?thesis
      unfolding step record_loops_Inr record_request_wf_def record_observations_wf_def by blast
  qed
qed

section \<open>Properties\<close>

text \<open>
  Property C21. The gate accepts a request exactly when it satisfies the declarative rules:
  texts present and within their limits, weakness keys distinct, items, attempts and
  observations numbered by distinct positive numbers (the observations across the whole
  session, at most 300 of them), every reference to an item or an attempt resolved, timing
  complete, the activity rules, and reviews resting on observations of their own weakness.
\<close>

theorem record_request_accepted_iff:
  "validate_record_practice_request r = Inr () \<longleftrightarrow> record_request_wf r"
  by (rule record_accepted_iff)

lemma review_evidence_resolves:
  assumes "record_request_wf r" and "v \<in> set (rr_reviews r)"
    and "n \<in> set (rv_evidence_observation_nos v)"
  shows "\<exists>o1. filter (\<lambda>o1. ob_observation_no o1 = n) (session_observations r) = [o1] \<and>
    ob_weakness_key o1 = rv_weakness_key v"
proof -
  from assms obtain o1 where o1: "o1 \<in> set (session_observations r)" "ob_observation_no o1 = n"
      "ob_weakness_key o1 = rv_weakness_key v"
    unfolding record_request_wf_def review_wf_def by blast
  have "distinct (map ob_observation_no (session_observations r))"
    using assms(1) by (simp add: record_request_wf_def record_observations_wf_def numbers_ok_def)
  then have "filter (\<lambda>x. ob_observation_no x = ob_observation_no o1) (session_observations r) = [o1]"
    using o1(1) by (rule distinct_map_filter)
  with o1 show ?thesis by blast
qed

text \<open>
  In an accepted request every number a review cites denotes exactly one
  observation of the session, and that observation is of the weakness under review.
\<close>

theorem accepted_reviews_resolve:
  assumes "validate_record_practice_request r = Inr ()" and "v \<in> set (rr_reviews r)"
    and "n \<in> set (rv_evidence_observation_nos v)"
  shows "\<exists>o1. filter (\<lambda>o1. ob_observation_no o1 = n) (session_observations r) = [o1] \<and>
    ob_weakness_key o1 = rv_weakness_key v"
  using review_evidence_resolves assms record_accepted_iff by blast

definition reviewed_session :: record_request where
  "reviewed_session = two_answers\<lparr>rr_reviews := [sample_review Rating_Good]\<rparr>"

lemma reviewed_session_wf: "record_request_wf reviewed_session"
  by (simp add: record_request_wf_def record_envelope_wf_def record_observations_wf_def
      activity_recording_wf_def attempt_wf_def attempt_record_wf_def refers_to_def
      observation_texts_wf_def item_texts_wf_def review_wf_def session_observations_def
      numbers_ok_def phase_admissible_def opt_text_ok_def text_ok_def blank_iff
      is_white_def blen_def lit_def cp_len_def reviewed_session_def sample_defs)

lemma reviewed_session_accepted: "validate_record_practice_request reviewed_session = Inr ()"
  by (simp add: record_accepted_iff reviewed_session_wf)

theorem accepted_reviews_resolve_witness:
  "\<exists>o1. filter (\<lambda>o1. ob_observation_no o1 = 2) (session_observations reviewed_session) = [o1] \<and>
    ob_weakness_key o1 = lit ''k''"
proof -
  have review: "sample_review Rating_Good \<in> set (rr_reviews reviewed_session)"
    and cited: "2 \<in> set (rv_evidence_observation_nos (sample_review Rating_Good))"
    and key: "rv_weakness_key (sample_review Rating_Good) = lit ''k''"
    by (simp_all add: reviewed_session_def sample_review_def)
  show ?thesis
    using accepted_reviews_resolve [OF reviewed_session_accepted review cited] by (simp only: key)
qed

end
