(* ===== verification/RecordingCorrect.thy ===== *)
theory RecordingCorrect
  imports RecordFrames RecordRequestCorrect ReviewPolicy
begin

text \<open>
  What a recorded session leaves in the tables. \<open>study_wf\<close> collects the invariants: rows refer
  to existing rows, every review rests on an unprompted cold retrieval of its own target in its
  own session, a target is reviewed at most once per session, and the memory of the scheduler
  is the one the last review computed.
\<close>

section \<open>The invariants\<close>

text \<open>The scheduler item of a review belongs to the target.\<close>

definition item_of_target :: "study_store \<Rightarrow> nat \<Rightarrow> nat \<Rightarrow> bool" where
  "item_of_target st item wid \<longleftrightarrow> (item, wid, lit ''general'') \<in> set (item_names (ys_learning st))"

definition initial_evidence :: "study_store \<Rightarrow> review_row \<Rightarrow> nat list" where
  "initial_evidence st v = map ro_observation_id
     (filter (\<lambda>ro. ro_review_id ro = vw_id v \<and> ro_evidence_role ro = ''initial'')
       (ys_review_observations st))"

definition review_grounded :: "study_store \<Rightarrow> review_row \<Rightarrow> bool" where
  "review_grounded st v \<longleftrightarrow>
     (\<exists>wid. item_of_target st (vw_scheduler_item_id v) wid \<and>
        (\<exists>ow\<in>set (ys_observations st). initial_evidence st v = [ow_id ow] \<and> cold_retrieval ow \<and>
           ow_session_id ow = vw_session_id v \<and> ow_weakness_id ow = wid \<and>
           ow_evidence_strength ow = Some (vw_evidence_strength v)) \<and>
        (\<forall>ro\<in>set (ys_review_observations st). ro_review_id ro = vw_id v \<longrightarrow>
           (\<exists>ow\<in>set (ys_observations st). ow_id ow = ro_observation_id ro \<and>
              ow_session_id ow = vw_session_id v \<and> ow_weakness_id ow = wid)))"

definition last_review :: "study_store \<Rightarrow> nat \<Rightarrow> review_row option" where
  "last_review st item = find (\<lambda>v. vw_scheduler_item_id v = item) (rev (ys_reviews st))"

definition memory_of_review :: "review_row \<Rightarrow> memory_columns" where
  "memory_of_review v =
     \<lparr>mc_stability = ms_stability (vw_memory_after v),
      mc_difficulty = ms_difficulty (vw_memory_after v),
      mc_due_learning_day = vw_due_learning_day v, mc_last_review_at = vw_reviewed_at v,
      mc_algorithm_version = vw_algorithm_version v,
      mc_parameter_set_id = vw_parameter_set_id v\<rparr>"

definition memory_follows :: "study_store \<Rightarrow> bool" where
  "memory_follows st \<longleftrightarrow> (\<forall>item v. last_review st item = Some v \<longrightarrow>
     ys_memory st item = Some (memory_of_review v))"

definition reviews_wf :: "study_store \<Rightarrow> bool" where
  "reviews_wf st \<longleftrightarrow>
     distinct (map vw_id (ys_reviews st)) \<and>
     distinct (map (\<lambda>v. (vw_session_id v, vw_scheduler_item_id v)) (ys_reviews st)) \<and>
     (\<forall>ro\<in>set (ys_review_observations st). ro_review_id ro \<in> vw_id ` set (ys_reviews st)) \<and>
     (\<forall>v\<in>set (ys_reviews st). review_grounded st v) \<and> memory_follows st"

definition rows_wf :: "study_store \<Rightarrow> bool" where
  "rows_wf st \<longleftrightarrow>
     targets_ok (ys_learning st) \<and>
     distinct (map se_id (ys_sessions st)) \<and> distinct (map ow_id (ys_observations st)) \<and>
     distinct (map (\<lambda>ow. (ow_session_id ow, ow_observation_no ow)) (ys_observations st)) \<and>
     (\<forall>ow\<in>set (ys_observations st). ow_session_id ow \<in> se_id ` set (ys_sessions st) \<and>
        ow_weakness_id ow \<in> wk_id ` set (db_weaknesses (ys_learning st))) \<and>
     (\<forall>v\<in>set (ys_reviews st). vw_session_id v \<in> se_id ` set (ys_sessions st))"

definition ledger_wf :: "study_store \<Rightarrow> bool" where
  "ledger_wf st \<longleftrightarrow>
     distinct (map lg_idempotency_key (ys_ledger st)) \<and>
     (\<forall>row\<in>set (ys_ledger st). lg_session_id row \<in> se_id ` set (ys_sessions st) \<and>
        re_session_id (lg_response row) = lg_session_id row \<and> lg_replayable row)"

definition study_wf :: "study_store \<Rightarrow> bool" where
  "study_wf st \<longleftrightarrow> rows_wf st \<and> reviews_wf st \<and> ledger_wf st"

section \<open>Evidence\<close>

lemma min_by_number_SomeD: "min_by_number xs = Some x \<Longrightarrow> x \<in> set xs"
  by (induction xs arbitrary: x) (auto split: option.splits if_splits)

lemma collect_evidence_loop:
  assumes "foldE (collect_evidence st sid wid ids) s nos = Inr s'"
    and "\<forall>(n, ow)\<in>set (snd s). P n ow"
    and "\<And>n oid ow. n \<in> set nos \<Longrightarrow> map_of ids n = Some oid \<Longrightarrow> observation_in st sid oid = Some ow \<Longrightarrow>
      ow_weakness_id ow = wid \<Longrightarrow> P n ow"
  shows "\<forall>(n, ow)\<in>set (snd s'). P n ow"
proof (rule foldE_invariant [OF assms(1), where I = "\<lambda>s. \<forall>(n, ow)\<in>set (snd s). P n ow"])
  show "\<forall>(n, ow)\<in>set (snd s). P n ow" by (rule assms(2))
  show "\<forall>(n, ow)\<in>set (snd s2). P n ow"
    if "\<forall>(n, ow)\<in>set (snd s1). P n ow" "n \<in> set nos" "collect_evidence st sid wid ids s1 n = Inr s2"
    for s1 n s2
    using that assms(3) by (auto simp: collect_evidence_def ok_simps split: prod.splits)
qed

text \<open>The observation that carries an accepted review.\<close>

lemma validate_review_evidence_Inr:
  assumes "validate_review_evidence st sid wid review ids = Inr initial"
  obtains oid ow where "initial \<in> set (rv_evidence_observation_nos review)"
    and "map_of ids initial = Some oid" and "observation_in st sid oid = Some ow"
    and "ow_weakness_id ow = wid" and "cold_retrieval ow"
    and "ow_evidence_strength ow = Some (rv_evidence_strength review)"
proof -
  let ?P = "\<lambda>n ow. n \<in> set (rv_evidence_observation_nos review) \<and> ow_weakness_id ow = wid \<and>
    (\<exists>oid. map_of ids n = Some oid \<and> observation_in st sid oid = Some ow)"
  from assms obtain s ow where
    loop: "foldE (collect_evidence st sid wid ids) ({}, []) (rv_evidence_observation_nos review) = Inr s"
    and least: "min_by_number (filter (\<lambda>(_, ow). cold_retrieval ow) (snd s)) = Some (initial, ow)"
    and strength: "ow_evidence_strength ow = Some (rv_evidence_strength review)"
    by (auto simp: validate_review_evidence_def ok_simps split: prod.splits)
  have "\<forall>(n, ow)\<in>set (snd s). ?P n ow"
    by (rule collect_evidence_loop [OF loop]) auto
  moreover have "(initial, ow) \<in> set (snd s) \<and> cold_retrieval ow"
    using min_by_number_SomeD [OF least] by auto
  ultimately show thesis using strength that by fast
qed

lemma supporting_cited:
  "set (rd_supporting_observation_nos (review_decision r review v)) \<subseteq>
     set (rv_evidence_observation_nos review)"
  by (auto simp: review_decision_def decision_loop_fields supporting_def cited_def Let_def
      split: option.split)

text \<open>
  The roles of the cited observations: the initial one exactly once, and every link to an
  observation of the session.
\<close>

lemma evidence_role_fst: "evidence_role st sid initial ids n = Inr p \<Longrightarrow> fst p = n"
  by (auto simp: evidence_role_def ok_simps split: if_splits)

lemma roles_fst: "review_evidence_roles st sid review initial ids = Inr roles \<Longrightarrow>
    map fst roles = rv_evidence_observation_nos review"
  unfolding review_evidence_roles_def by (erule collectE_map) (rule evidence_role_fst)

lemma roles_initial:
  "review_evidence_roles st sid review initial ids = Inr roles \<Longrightarrow>
     (n, role) \<in> set roles \<Longrightarrow> role = ''initial'' \<longleftrightarrow> n = initial"
  unfolding review_evidence_roles_def collectE_Inr
  by (auto simp: list_all2_conv_all_nth in_set_conv_nth evidence_role_def ok_simps split: if_splits)

section \<open>One applied review\<close>

lemma general_item_SomeD: "general_item st wid = Some item \<Longrightarrow> item_of_target st item wid"
  by (auto simp: general_item_def item_of_target_def item_names_def dest!: find_SomeD)

lemma schedule_review_Inr:
  assumes "schedule_review E cfg sid reviewed_at review_day ids wid initial review st = Inr (st', u)"
  obtains item prior elapsed before scheduled due roles links where
    "general_item st wid = Some item"
    and "schedule (ev_fsrs E) prior elapsed (fsrs_rating_number (rv_rating review))
      (sf_desired_retention cfg) (sf_parameters cfg) = Inr scheduled"
    and "due = tl_format_date (ev_time E) (review_day + sd_interval_days scheduled)"
    and "review_evidence_roles st sid review initial ids = Inr roles"
    and "collectE (link_evidence (next_rowid (map vw_id (ys_reviews st))) ids) roles = Inr links"
    and "st' = st\<lparr>ys_reviews := ys_reviews st @ [review_row_of cfg
          (next_rowid (map vw_id (ys_reviews st))) item sid reviewed_at
          (tl_format_date (ev_time E) review_day) due review prior elapsed before scheduled],
        ys_review_observations := ys_review_observations st @ links,
        ys_memory := (ys_memory st)(item \<mapsto> memory_columns_of cfg reviewed_at due scheduled)\<rparr>"
    and "ud_weakness_key u = rv_weakness_key review"
    and "ud_scheduled_interval_days u = sd_interval_days scheduled"
    and "ud_due_learning_day u = due"
  using assms unfolding schedule_review_def Let_def internal_def
  apply (simp only: bindE_Inr map_errE_Inr ok_or_Inr bail_if_Inr sum.inject prod.inject)
  apply (elim exE conjE)
  apply (rule that, assumption, assumption, rule refl, assumption, assumption, erule sym)
    apply (auto simp only: review_update.simps)
  done

lemma links_of_roles:
  assumes "collectE (link_evidence rid ids) roles = Inr links"
  shows "list_all2 (\<lambda>p ro. ro_review_id ro = rid \<and> ro_evidence_role ro = snd p \<and>
    map_of ids (fst p) = Some (ro_observation_id ro)) roles links"
  using assms unfolding collectE_Inr
  by (rule list_all2_mono) (auto simp: link_evidence_def ok_simps)

text \<open>Filtering the two sides of paired lists.\<close>

lemma list_all2_filter:
  assumes "list_all2 P xs ys" and "\<And>x y. P x y \<Longrightarrow> x \<in> set xs \<Longrightarrow> f x \<longleftrightarrow> g y"
  shows "list_all2 P (filter f xs) (filter g ys)"
  using assms by (induction rule: list_all2_induct) auto

lemma initial_links:
  assumes roles: "review_evidence_roles st sid review initial ids = Inr roles"
    and links: "collectE (link_evidence rid ids) roles = Inr links"
    and cited: "initial \<in> set (rv_evidence_observation_nos review)"
    and once: "distinct (rv_evidence_observation_nos review)"
    and oid: "map_of ids initial = Some oid"
  shows "map ro_observation_id
    (filter (\<lambda>ro. ro_review_id ro = rid \<and> ro_evidence_role ro = ''initial'') links) = [oid]"
proof -
  let ?P = "\<lambda>p ro. ro_review_id ro = rid \<and> ro_evidence_role ro = snd p \<and>
    map_of ids (fst p) = Some (ro_observation_id ro)"
  let ?g = "\<lambda>ro. ro_review_id ro = rid \<and> ro_evidence_role ro = ''initial''"
  have pairs: "list_all2 ?P (filter (\<lambda>p. fst p = initial) roles) (filter ?g links)"
    by (rule list_all2_filter [OF links_of_roles [OF links]]) (use roles_initial [OF roles] in auto)
  have "distinct (map fst roles)" "initial \<in> fst ` set roles"
    using roles_fst [OF roles] once cited by (metis, metis image_set)
  then have "\<exists>p. filter (\<lambda>p. fst p = initial) roles = [p] \<and> fst p = initial"
    using distinct_map_filter [of fst roles] by fastforce
  with pairs show ?thesis using oid by (auto simp: list_all2_Cons1)
qed

text \<open>What the observation numbers of the request denote in the tables.\<close>

definition numbers_denote ::
    "study_store \<Rightarrow> nat \<Rightarrow> (nat \<times> nat) list \<Rightarrow> record_request \<Rightarrow> bool" where
  "numbers_denote st sid ids r \<longleftrightarrow>
     (\<forall>n oid. map_of ids n = Some oid \<longrightarrow>
        (\<exists>ow\<in>set (ys_observations st). \<exists>o1\<in>set (session_observations r).
           ow_id ow = oid \<and> ob_observation_no o1 = n \<and> row_for sid (ys_learning st) ow o1))"

lemma target_names_unique:
  assumes "targets_ok db" and "(a, k) \<in> set (target_names db)" and "(b, k) \<in> set (target_names db)"
  shows "a = b"
proof -
  have "distinct (map wk_key (db_weaknesses db))"
    using assms(1) by (simp add: targets_ok_def targets_wf_def)
  then show ?thesis
    using assms(2,3) by (auto simp: target_names_def dest: inj_onD [OF distinct_map [THEN iffD1, THEN conjunct2]])
qed

lemma cited_rows:
  assumes denote: "numbers_denote st sid ids r" and wf: "review_wf r review"
    and unique: "distinct (map ob_observation_no (session_observations r))"
    and targets: "targets_ok (ys_learning st)"
    and w: "find_weakness st (rv_weakness_key review) = Some w"
    and n: "n \<in> set (rv_evidence_observation_nos review)" and oid: "map_of ids n = Some oid"
  shows "\<exists>ow\<in>set (ys_observations st). ow_id ow = oid \<and> ow_session_id ow = sid \<and>
    ow_weakness_id ow = wk_id w"
proof -
  from denote oid obtain ow o1 where ow: "ow \<in> set (ys_observations st)" "ow_id ow = oid"
    and o1: "o1 \<in> set (session_observations r)" "ob_observation_no o1 = n"
    and row: "row_for sid (ys_learning st) ow o1"
    unfolding numbers_denote_def by blast
  from wf n obtain o2 where o2: "o2 \<in> set (session_observations r)" "ob_observation_no o2 = n"
      "ob_weakness_key o2 = rv_weakness_key review"
    unfolding review_wf_def by blast
  have "o1 = o2" using unique o1 o2 by (auto simp: distinct_map dest: inj_onD)
  then have "(ow_weakness_id ow, rv_weakness_key review) \<in> set (target_names (ys_learning st))"
    using row o2(3) by (simp add: row_for_def)
  moreover have "(wk_id w, rv_weakness_key review) \<in> set (target_names (ys_learning st))"
    using find_SomeD [OF w [unfolded find_weakness_def]] by (auto simp: target_names_def)
  ultimately have "ow_weakness_id ow = wk_id w" using target_names_unique [OF targets] by blast
  with ow row show ?thesis by (auto simp: row_for_def)
qed

lemma link_cited:
  assumes "review_evidence_roles st sid review initial ids = Inr roles"
    and "collectE (link_evidence rid ids) roles = Inr links" and "ro \<in> set links"
  shows "\<exists>n\<in>set (rv_evidence_observation_nos review). map_of ids n = Some (ro_observation_id ro)"
proof -
  from assms(3) obtain i where i: "i < length links" "ro = links ! i"
    by (auto simp: in_set_conv_nth)
  with links_of_roles [OF assms(2)]
  have "roles ! i \<in> set roles" "map_of ids (fst (roles ! i)) = Some (ro_observation_id ro)"
    by (simp_all add: list_all2_conv_all_nth)
  then show ?thesis using roles_fst [OF assms(1)] by (metis image_eqI image_set)
qed

lemma links_review:
  "collectE (link_evidence rid ids) roles = Inr links \<Longrightarrow> ro \<in> set links \<Longrightarrow> ro_review_id ro = rid"
  by (drule links_of_roles) (auto simp: list_all2_conv_all_nth in_set_conv_nth)

text \<open>Reviews of other rows keep their ground: rows are only appended, under a new id.\<close>

lemma grounded_append:
  assumes "review_grounded st v" and "vw_id v \<noteq> rid"
    and "ys_learning st' = ys_learning st" and "ys_observations st' = ys_observations st"
    and "ys_review_observations st' = ys_review_observations st @ links"
    and "\<forall>ro\<in>set links. ro_review_id ro = rid"
  shows "review_grounded st' v"
proof -
  have "initial_evidence st' v = initial_evidence st v"
    using assms(2,5,6) by (auto simp: initial_evidence_def filter_empty_conv)
  then show ?thesis
    using assms by (auto simp: review_grounded_def item_of_target_def)
qed

lemma schedule_review_keeps:
  assumes step: "schedule_review E cfg sid reviewed_at review_day ids (wk_id w) initial review st =
      Inr (st', u)"
    and wf: "reviews_wf st" and denote: "numbers_denote st sid ids r" and rv: "review_wf r review"
    and unique: "distinct (map ob_observation_no (session_observations r))"
    and targets: "targets_ok (ys_learning st)" and ow_ids: "distinct (map ow_id (ys_observations st))"
    and w: "find_weakness st (rv_weakness_key review) = Some w"
    and evidence: "validate_review_evidence st sid (wk_id w)
      (review\<lparr>rv_evidence_observation_nos := nos\<rparr>) ids = Inr initial"
    and cited: "set nos \<subseteq> set (rv_evidence_observation_nos review)"
    and fresh: "\<And>v. v \<in> set (ys_reviews st) \<Longrightarrow> vw_session_id v = sid \<Longrightarrow>
      \<not> item_of_target st (vw_scheduler_item_id v) (wk_id w)"
  shows "reviews_wf st' \<and> ys_learning st' = ys_learning st \<and>
    ys_observations st' = ys_observations st \<and> ys_sessions st' = ys_sessions st \<and>
    ys_ledger st' = ys_ledger st \<and>
    (\<exists>row. ys_reviews st' = ys_reviews st @ [row] \<and> vw_session_id row = sid \<and>
       item_of_target st (vw_scheduler_item_id row) (wk_id w) \<and>
       ys_memory st' = (ys_memory st)(vw_scheduler_item_id row \<mapsto> memory_of_review row))"
proof (rule schedule_review_Inr [OF step])
  fix item prior elapsed before scheduled due roles links
  let ?rid = "next_rowid (map vw_id (ys_reviews st))"
  assume item: "general_item st (wk_id w) = Some item"
    and roles: "review_evidence_roles st sid review initial ids = Inr roles"
    and links: "collectE (link_evidence ?rid ids) roles = Inr links"
    and st': "st' = st\<lparr>ys_reviews := ys_reviews st @ [review_row_of cfg ?rid item sid reviewed_at
          (tl_format_date (ev_time E) review_day) due review prior elapsed before scheduled],
        ys_review_observations := ys_review_observations st @ links,
        ys_memory := (ys_memory st)(item \<mapsto> memory_columns_of cfg reviewed_at due scheduled)\<rparr>"
  let ?row = "review_row_of cfg ?rid item sid reviewed_at
          (tl_format_date (ev_time E) review_day) due review prior elapsed before scheduled"
  have row: "vw_id ?row = ?rid" "vw_scheduler_item_id ?row = item" "vw_session_id ?row = sid"
    "vw_evidence_strength ?row = rv_evidence_strength review"
    "memory_of_review ?row = memory_columns_of cfg reviewed_at due scheduled"
    by (simp_all add: review_row_of_def memory_of_review_def memory_columns_of_def)
  have owner: "item_of_target st item (wk_id w)" by (rule general_item_SomeD [OF item])
  have new: "?rid \<notin> vw_id ` set (ys_reviews st)"
    using next_rowid_new [of "map vw_id (ys_reviews st)"] by simp
  then have unlinked: "ro_review_id ro \<noteq> ?rid" if "ro \<in> set (ys_review_observations st)" for ro
    using wf that new unfolding reviews_wf_def by metis
  have known: "item_of_target st' i wid \<longleftrightarrow> item_of_target st i wid" for i wid
    by (simp add: item_of_target_def st')
  from validate_review_evidence_Inr [OF evidence] obtain oid ow where
    init: "initial \<in> set nos" and oid: "map_of ids initial = Some oid"
    and ow: "observation_in st sid oid = Some ow" "ow_weakness_id ow = wk_id w" "cold_retrieval ow"
    and strength: "ow_evidence_strength ow = Some (rv_evidence_strength review)" by auto
  have in_cited: "initial \<in> set (rv_evidence_observation_nos review)" using init cited by blast
  have once: "distinct (rv_evidence_observation_nos review)" using rv by (simp add: review_wf_def)
  have "initial_evidence st' ?row = [ow_id ow]"
    using initial_links [OF roles links in_cited once oid] unlinked
      find_SomeD [OF ow(1) [unfolded observation_in_def]]
    by (auto simp: initial_evidence_def row st' filter_empty_conv)
  moreover have "ow \<in> set (ys_observations st')" "ow_session_id ow = sid"
    using find_SomeD [OF ow(1) [unfolded observation_in_def]] by (auto simp: st')
  moreover have "\<exists>ow\<in>set (ys_observations st'). ow_id ow = ro_observation_id ro \<and>
      ow_session_id ow = sid \<and> ow_weakness_id ow = wk_id w"
    if "ro \<in> set (ys_review_observations st')" "ro_review_id ro = ?rid" for ro
  proof -
    have "ro \<in> set links" using that unlinked by (auto simp: st')
    from link_cited [OF roles links this] obtain n where
      "n \<in> set (rv_evidence_observation_nos review)" "map_of ids n = Some (ro_observation_id ro)" ..
    from cited_rows [OF denote rv unique targets w this] show ?thesis by (simp add: st')
  qed
  ultimately have grounded: "review_grounded st' ?row"
    using owner ow(2,3) strength unfolding review_grounded_def known row by blast
  have others: "review_grounded st' v" if "v \<in> set (ys_reviews st)" for v
    by (rule grounded_append [where rid = ?rid and links = links])
      (use that wf new links_review [OF links] in \<open>auto simp: reviews_wf_def st' image_iff\<close>)
  have "(sid, item) \<notin> (\<lambda>v. (vw_session_id v, vw_scheduler_item_id v)) ` set (ys_reviews st)"
    using fresh owner by auto
  moreover have "memory_follows st'"
    using wf by (auto simp: memory_follows_def last_review_def reviews_wf_def st' row)
  ultimately have "reviews_wf st'"
    using wf new grounded others links_review [OF links]
    by (auto simp: reviews_wf_def st' row)
  then show ?thesis using owner row by (auto simp: st')
qed

section \<open>The loop over the reviews\<close>

text \<open>The tables in which the reviews are applied: everything else of the session is stored.\<close>

definition review_base :: "study_store \<Rightarrow> nat \<Rightarrow> (nat \<times> nat) list \<Rightarrow> record_request \<Rightarrow> bool" where
  "review_base st sid ids r \<longleftrightarrow>
     reviews_wf st \<and> numbers_denote st sid ids r \<and> targets_ok (ys_learning st) \<and>
     distinct (map ow_id (ys_observations st)) \<and>
     (\<forall>v\<in>set (ys_reviews st). vw_session_id v \<noteq> sid)"

definition review_loop_inv :: "study_store \<Rightarrow> nat \<Rightarrow> review_loop \<Rightarrow> bool" where
  "review_loop_inv base sid vl \<longleftrightarrow>
     reviews_wf (vl_store vl) \<and>
     ys_learning (vl_store vl) = ys_learning base \<and>
     ys_observations (vl_store vl) = ys_observations base \<and>
     ys_sessions (vl_store vl) = ys_sessions base \<and> ys_ledger (vl_store vl) = ys_ledger base \<and>
     (\<exists>new. ys_reviews (vl_store vl) = ys_reviews base @ new \<and>
        length new = length (vl_updates vl) \<and>
        (\<forall>i. i \<notin> vw_scheduler_item_id ` set new \<longrightarrow> ys_memory (vl_store vl) i = ys_memory base i) \<and>
        (\<forall>v\<in>set new. vw_session_id v = sid \<and>
           (\<exists>k\<in>vl_keys vl. \<exists>wid. (wid, k) \<in> set (target_names (ys_learning base)) \<and>
              item_of_target base (vw_scheduler_item_id v) wid)))"

lemma apply_review_cases:
  assumes "apply_review E r policy cfg sid reviewed_at review_day ids vl review = Inr vl'"
  obtains (kept) d where "vl' = vl\<lparr>vl_keys := insert (rv_weakness_key review) (vl_keys vl),
        vl_decisions := vl_decisions vl @ [d]\<rparr>" and "\<not> rd_eligible d"
      and "rd_weakness_key d = rv_weakness_key review" and "rd_applied_rating d = None"
  | (applied) w initial st' u d where "rv_weakness_key review \<notin> vl_keys vl"
      and "find_weakness (vl_store vl) (rv_weakness_key review) = Some w"
      and "validate_review_evidence (vl_store vl) sid (wk_id w)
        (review\<lparr>rv_evidence_observation_nos := rd_supporting_observation_nos
          (review_decision r review (rp_preference_version policy))\<rparr>) ids = Inr initial"
      and "schedule_review E cfg sid reviewed_at review_day ids (wk_id w) initial review
        (vl_store vl) = Inr (st', u)"
      and "vl' = vl\<lparr>vl_store := st', vl_keys := insert (rv_weakness_key review) (vl_keys vl),
        vl_updates := vl_updates vl @ [u], vl_decisions := vl_decisions vl @ [d]\<rparr>"
      and "d = (review_decision r review (rp_preference_version policy))\<lparr>rd_applied_rating :=
        Some (lit (rating_name (fsrs_rating_number (rv_rating review))))\<rparr>"
      and "rd_eligible (review_decision r review (rp_preference_version policy))"
proof -
  let ?d = "review_decision r review (rp_preference_version policy)"
  have decision: "rd_weakness_key ?d = rv_weakness_key review" "rd_applied_rating ?d = None"
    by (simp_all add: review_decision_def Let_def split: option.split)
  from assms obtain w where new: "rv_weakness_key review \<notin> vl_keys vl"
    and w: "find_weakness (vl_store vl) (rv_weakness_key review) = Some w"
    by (auto simp: apply_review_def Let_def ok_simps)
  show thesis
  proof (cases "rd_eligible ?d")
    case False
    with assms show thesis
      using decision by (intro kept [of ?d]) (auto simp: apply_review_def Let_def ok_simps)
  next
    case True
    show thesis
    proof (cases "validate_review_evidence (vl_store vl) sid (wk_id w)
        (review\<lparr>rv_evidence_observation_nos := rd_supporting_observation_nos ?d\<rparr>) ids")
      case (Inl e)
      with assms True w show thesis
        using decision
        by (intro kept [of "?d\<lparr>rd_eligible := False,
              rd_reason_codes := rd_reason_codes ?d @ [lit (''rating_policy: '' @ e)]\<rparr>"])
          (auto simp: apply_review_def Let_def ok_simps)
    next
      case (Inr initial)
      with assms True w obtain st' u where
        "schedule_review E cfg sid reviewed_at review_day ids (wk_id w) initial review
          (vl_store vl) = Inr (st', u)"
        "vl' = vl\<lparr>vl_keys := insert (rv_weakness_key review) (vl_keys vl), vl_store := st',
          vl_updates := vl_updates vl @ [u], vl_decisions := vl_decisions vl @
          [?d\<lparr>rd_applied_rating := Some (lit (rating_name (fsrs_rating_number (rv_rating review))))\<rparr>]\<rparr>"
        by (auto simp: apply_review_def Let_def ok_simps)
      then show thesis by (intro applied [OF new w Inr _ _ refl True]) auto
    qed
  qed
qed

lemma apply_review_keeps:
  assumes step: "apply_review E r policy cfg sid reviewed_at review_day ids vl review = Inr vl'"
    and base: "review_base base sid ids r" and inv: "review_loop_inv base sid vl"
    and rv: "review_wf r review" and obs: "record_observations_wf r"
  shows "review_loop_inv base sid vl'"
  using step
proof (cases rule: apply_review_cases)
  case (kept d)
  then show ?thesis using inv by (fastforce simp: review_loop_inv_def)
next
  case (applied w initial st' u d)
  let ?st = "vl_store vl"
  from inv obtain news where news: "ys_reviews ?st = ys_reviews base @ news"
    "length news = length (vl_updates vl)"
    "\<forall>i. i \<notin> vw_scheduler_item_id ` set news \<longrightarrow> ys_memory ?st i = ys_memory base i"
    "\<forall>v\<in>set news. vw_session_id v = sid \<and>
       (\<exists>k\<in>vl_keys vl. \<exists>wid. (wid, k) \<in> set (target_names (ys_learning base)) \<and>
          item_of_target base (vw_scheduler_item_id v) wid)"
    by (auto simp: review_loop_inv_def)
  have same: "reviews_wf ?st" "ys_learning ?st = ys_learning base"
    "ys_observations ?st = ys_observations base" "ys_sessions ?st = ys_sessions base"
    "ys_ledger ?st = ys_ledger base"
    using inv by (auto simp: review_loop_inv_def)
  have name: "(wk_id w, rv_weakness_key review) \<in> set (target_names (ys_learning base))"
    using find_SomeD [OF applied(2) [unfolded find_weakness_def]] same(2)
    by (auto simp: target_names_def)
  have targets: "targets_ok (ys_learning base)" using base by (simp add: review_base_def)
  have fresh: "\<not> item_of_target ?st (vw_scheduler_item_id v) (wk_id w)"
    if v: "v \<in> set (ys_reviews ?st)" "vw_session_id v = sid" for v
  proof
    assume owner: "item_of_target ?st (vw_scheduler_item_id v) (wk_id w)"
    have "v \<in> set news" using v news(1) base by (auto simp: review_base_def)
    with news(4) obtain k wid where k: "k \<in> vl_keys vl"
      "(wid, k) \<in> set (target_names (ys_learning base))"
      "item_of_target base (vw_scheduler_item_id v) wid" by blast
    have "distinct (map si_id (db_scheduler (ys_learning base)))"
      using targets by (simp add: targets_ok_def)
    then have "wid = wk_id w"
      using k(3) owner same(2)
      by (auto simp: item_of_target_def item_names_def distinct_map dest: inj_onD)
    moreover have "distinct (map wk_id (db_weaknesses (ys_learning base)))"
      using targets by (simp add: targets_ok_def targets_wf_def)
    ultimately have "k = rv_weakness_key review"
      using k(2) name by (auto simp: target_names_def distinct_map dest: inj_onD)
    with k(1) applied(1) show False by simp
  qed
  have "reviews_wf st' \<and> ys_learning st' = ys_learning ?st \<and>
    ys_observations st' = ys_observations ?st \<and> ys_sessions st' = ys_sessions ?st \<and>
    ys_ledger st' = ys_ledger ?st \<and>
    (\<exists>row. ys_reviews st' = ys_reviews ?st @ [row] \<and> vw_session_id row = sid \<and>
       item_of_target ?st (vw_scheduler_item_id row) (wk_id w) \<and>
       ys_memory st' = (ys_memory ?st)(vw_scheduler_item_id row \<mapsto> memory_of_review row))"
  proof (rule schedule_review_keeps [OF applied(4) same(1) _ rv _ _ _ applied(2,3) supporting_cited fresh])
    show "numbers_denote ?st sid ids r"
      using base same by (simp add: review_base_def numbers_denote_def)
    show "distinct (map ob_observation_no (session_observations r))"
      using obs by (simp add: record_observations_wf_def numbers_ok_def)
    show "targets_ok (ys_learning ?st)" using targets same by simp
    show "distinct (map ow_id (ys_observations ?st))" using base same by (simp add: review_base_def)
  qed
  then obtain row where 1: "reviews_wf st'" "ys_learning st' = ys_learning base"
    "ys_observations st' = ys_observations base" "ys_sessions st' = ys_sessions base"
    "ys_ledger st' = ys_ledger base" "ys_reviews st' = ys_reviews base @ (news @ [row])"
    "vw_session_id row = sid" "item_of_target base (vw_scheduler_item_id row) (wk_id w)"
    "ys_memory st' = (ys_memory ?st)(vw_scheduler_item_id row \<mapsto> memory_of_review row)"
    using same news(1) by (auto simp: item_of_target_def)
  have "\<forall>v\<in>set (news @ [row]). vw_session_id v = sid \<and>
       (\<exists>k\<in>vl_keys vl'. \<exists>wid. (wid, k) \<in> set (target_names (ys_learning base)) \<and>
          item_of_target base (vw_scheduler_item_id v) wid)"
    using news(4) 1(7,8) name applied(5) by auto
  moreover have "\<forall>i. i \<notin> vw_scheduler_item_id ` set (news @ [row]) \<longrightarrow>
      ys_memory st' i = ys_memory base i"
    using news(3) 1(9) by simp
  moreover have "length (news @ [row]) = length (vl_updates vl')"
    using news(2) applied(5) by simp
  moreover have "vl_store vl' = st'" by (simp add: applied(5))
  ultimately show ?thesis using 1(1-6) unfolding review_loop_inv_def by metis
qed

section \<open>The transaction\<close>

definition only_targets :: "study_store \<Rightarrow> study_store \<Rightarrow> bool" where
  "only_targets st st' \<longleftrightarrow> (\<exists>db. st' = st\<lparr>ys_learning := db\<rparr> \<and> targets_grow (ys_learning st) db \<and> targets_ok db)"

lemma only_targets_trans: "only_targets a b \<Longrightarrow> only_targets b c \<Longrightarrow> only_targets a c"
proof -
  assume "only_targets a b" "only_targets b c"
  then obtain db db' where "b = a\<lparr>ys_learning := db\<rparr>" "c = b\<lparr>ys_learning := db'\<rparr>"
    and grow: "targets_grow (ys_learning a) db" "targets_grow db db'" "targets_ok db'"
    by (auto simp: only_targets_def)
  then have "c = a\<lparr>ys_learning := db'\<rparr>" by simp
  then show ?thesis
    unfolding only_targets_def using targets_grow_trans [OF grow(1,2)] grow(3) by blast
qed

lemma only_targets_refl: "targets_ok (ys_learning st) \<Longrightarrow> only_targets st st"
  by (auto simp: only_targets_def intro!: exI [of _ "ys_learning st"])

lemma only_targets_ok: "only_targets a b \<Longrightarrow> targets_ok (ys_learning b)"
  by (auto simp: only_targets_def)

lemma new_weaknesses_frame:
  assumes "foldE (record_new_weakness declared) (keys, created, st) ws = Inr (keys', created', st')"
    and "targets_ok (ys_learning st)"
  shows "only_targets st st'"
proof -
  have "only_targets st (snd (snd (keys', created', st')))"
  proof (rule foldE_invariant [OF assms(1), where I = "\<lambda>s. only_targets st (snd (snd s))"])
    show "only_targets st (snd (snd (keys, created, st)))"
      using only_targets_refl [OF assms(2)] by simp
    show "only_targets st (snd (snd s'))"
      if prev: "only_targets st (snd (snd s))" and step: "record_new_weakness declared s w = Inr s'"
      for s w s'
    proof -
      obtain ks cs t where s: "s = (ks, cs, t)" by (cases s)
      from step obtain wid b db where
        up: "upsert_weakness_tx w (nw_key w \<in> declared) True False (ys_learning t) = Inr ((wid, b), db)"
        and s': "snd (snd s') = t\<lparr>ys_learning := db\<rparr>"
        by (auto simp: record_new_weakness_def s internal_def ok_simps split: if_splits prod.splits)
      have "only_targets t (t\<lparr>ys_learning := db\<rparr>)"
        using upsert_weakness_grows [OF up] prev by (auto simp: only_targets_def s)
      with prev show ?thesis by (auto simp: s s' intro: only_targets_trans)
    qed
  qed
  then show ?thesis by simp
qed

lemma weakness_relations_frame:
  assumes "foldE record_weakness_relations st ws = Inr st'" and "targets_ok (ys_learning st)"
  shows "only_targets st st'"
proof (rule foldE_invariant [OF assms(1)])
  show "only_targets st st" by (rule only_targets_refl [OF assms(2)])
  show "only_targets st t'"
    if prev: "only_targets st t" and step: "record_weakness_relations t w = Inr t'" for t w t'
  proof -
    from step obtain db where
      "foldE (insert_target_relation (nw_key w)) (ys_learning t) (nw_target_relations w) = Inr db"
      and t': "t' = t\<lparr>ys_learning := db\<rparr>"
      by (auto simp: record_weakness_relations_def internal_def ok_simps)
    from relations_grow [OF this(1) only_targets_ok [OF prev]] have "only_targets t t'"
      by (auto simp: only_targets_def t')
    with prev show ?thesis by (rule only_targets_trans)
  qed
qed

text \<open>The stages of a successful recording.\<close>

lemma record_fresh_Inr:
  assumes "record_fresh E r st = Inr (resp, st')"
  obtains policy cfg reviewed_at review_day date keys created st1 st2 sid st3 rc vl where
    "resolve (ys_preferences st) None (Option.bind (rr_production_evidence r) pe_session_overrides)
      = Inr policy"
    and "ys_config st = Some cfg"
    and "record_days E cfg r = Inr (reviewed_at, review_day, date)"
    and "foldE (record_new_weakness (set (concat (map it_target_weakness_keys (rr_items r)))))
      ({}, [], st) (rr_new_weaknesses r) = Inr (keys, created, st1)"
    and "foldE record_weakness_relations st1 (rr_new_weaknesses r) = Inr st2"
    and "insert_session date r st2 = (sid, st3)"
    and "record_rows E r sid reviewed_at st3 = Inr rc"
    and "foldE (apply_review E r policy cfg sid reviewed_at review_day (rc_observations rc))
      \<lparr>vl_store = foldl (touch_seen date) (rc_store rc) (all_weakness_keys r), vl_keys = {},
       vl_updates = [], vl_decisions = []\<rparr> (rr_reviews r) = Inr vl"
    and "resp = response_of r sid (length (rc_observations rc)) created vl"
    and "st' = (vl_store vl)
       \<lparr>ys_production := ys_production (vl_store vl) @ [\<lparr>pn_session_id = sid, pn_policy = policy,
          pn_evidence = rr_production_evidence r, pn_audit = audit r policy (vl_decisions vl)\<rparr>],
        ys_ledger := ys_ledger (vl_store vl) @ [\<lparr>lg_idempotency_key = rr_idempotency_key r,
          lg_session_id = sid, lg_request_hash = ev_request_hash E r, lg_response = resp,
          lg_replayable = True\<rparr>]\<rparr>"
  using assms unfolding record_fresh_def Let_def internal_def
  apply (simp only: bindE_Inr map_errE_Inr ok_or_Inr bail_if_Inr split_paired_Ex prod.case
      case_prod_unfold sum.inject prod.inject fst_conv snd_conv)
  apply (elim exE conjE)
  apply (rule that, assumption, assumption, assumption, assumption, assumption)
      apply (rule prod.collapse [symmetric], assumption, assumption)
   apply (erule sym)
  apply (simp only:)
  done

lemma bex_subset: "A \<subseteq> B \<Longrightarrow> \<exists>x\<in>A. P x \<Longrightarrow> \<exists>x\<in>B. P x"
  by blast

lemma grounded_mono:
  assumes "review_grounded st v" and "set (item_names (ys_learning st)) \<subseteq> set (item_names (ys_learning st'))"
    and "set (ys_observations st) \<subseteq> set (ys_observations st')"
    and "ys_review_observations st' = ys_review_observations st"
  shows "review_grounded st' v"
proof -
  have initial: "initial_evidence st' v = initial_evidence st v"
    by (simp add: initial_evidence_def assms(4))
  from assms(1) obtain wid where "item_of_target st (vw_scheduler_item_id v) wid"
    and 1: "\<exists>ow\<in>set (ys_observations st). initial_evidence st v = [ow_id ow] \<and> cold_retrieval ow \<and>
           ow_session_id ow = vw_session_id v \<and> ow_weakness_id ow = wid \<and>
           ow_evidence_strength ow = Some (vw_evidence_strength v)"
    and 2: "\<forall>ro\<in>set (ys_review_observations st). ro_review_id ro = vw_id v \<longrightarrow>
           (\<exists>ow\<in>set (ys_observations st). ow_id ow = ro_observation_id ro \<and>
              ow_session_id ow = vw_session_id v \<and> ow_weakness_id ow = wid)"
    unfolding review_grounded_def by blast
  then have "item_of_target st' (vw_scheduler_item_id v) wid"
    using assms(2) by (auto simp: item_of_target_def)
  moreover note bex_subset [OF assms(3) 1]
  moreover have "\<forall>ro\<in>set (ys_review_observations st'). ro_review_id ro = vw_id v \<longrightarrow>
           (\<exists>ow\<in>set (ys_observations st'). ow_id ow = ro_observation_id ro \<and>
              ow_session_id ow = vw_session_id v \<and> ow_weakness_id ow = wid)"
    using 2 bex_subset [OF assms(3)] unfolding assms(4) by simp
  ultimately show ?thesis unfolding review_grounded_def initial by blast
qed

lemma reviews_wf_mono:
  assumes "reviews_wf st" and "set (item_names (ys_learning st)) \<subseteq> set (item_names (ys_learning st'))"
    and "set (ys_observations st) \<subseteq> set (ys_observations st')"
    and "ys_review_observations st' = ys_review_observations st"
    and "ys_reviews st' = ys_reviews st" and "ys_memory st' = ys_memory st"
  shows "reviews_wf st'"
  using assms grounded_mono [OF _ assms(2-4)]
  by (simp add: reviews_wf_def memory_follows_def last_review_def)

text \<open>The observations of the session are stored, in order, before the reviews are applied.\<close>

definition session_stored ::
    "study_store \<Rightarrow> nat \<Rightarrow> recording \<Rightarrow> record_request \<Rightarrow> bool" where
  "session_stored base sid rc r \<longleftrightarrow>
     logged sid base rc (inserted_observations r) \<and> targets_ok (ys_learning base) \<and>
     record_request_wf r"

lemma stored_numbers_denote:
  assumes "session_stored base sid rc r"
  shows "numbers_denote (rc_store rc) sid (rc_observations rc) r"
  unfolding numbers_denote_def
proof (intro allI impI)
  fix n oid
  assume n: "map_of (rc_observations rc) n = Some oid"
  from assms obtain new where
    new: "ys_observations (rc_store rc) = ys_observations base @ new"
      "rc_observations rc = map (\<lambda>ow. (ow_observation_no ow, ow_id ow)) new"
      "list_all2 (row_for sid (ys_learning base)) new (inserted_observations r)"
    and db: "ys_learning (rc_store rc) = ys_learning base"
    by (auto simp: session_stored_def logged_def)
  from map_of_SomeD [OF n] new(2) obtain ow where
    ow: "ow \<in> set new" "ow_id ow = oid" "ow_observation_no ow = n" by auto
  then obtain o1 where o1: "o1 \<in> set (inserted_observations r)" "row_for sid (ys_learning base) ow o1"
    using new(3) by (metis in_set_conv_nth list_all2_conv_all_nth)
  then show "\<exists>ow\<in>set (ys_observations (rc_store rc)). \<exists>o1\<in>set (session_observations r).
      ow_id ow = oid \<and> ob_observation_no o1 = n \<and> row_for sid (ys_learning (rc_store rc)) ow o1"
    using ow new(1) db set_inserted [of r] by (auto simp: row_for_def)
qed

lemma stored_observation_rows:
  assumes stored: "session_stored base sid rc r" and wf: "rows_wf base'"
    and same: "ys_observations base = ys_observations base'"
    and fresh: "sid \<notin> se_id ` set (ys_sessions base')"
  shows "distinct (map (\<lambda>ow. (ow_session_id ow, ow_observation_no ow)) (ys_observations (rc_store rc)))"
    and "\<forall>ow\<in>set (ys_observations (rc_store rc)). ow \<in> set (ys_observations base') \<or>
      ow_session_id ow = sid \<and> ow_weakness_id ow \<in> wk_id ` set (db_weaknesses (ys_learning base))"
proof -
  from stored obtain new where
    new: "ys_observations (rc_store rc) = ys_observations base @ new"
      "list_all2 (row_for sid (ys_learning base)) new (inserted_observations r)"
    by (auto simp: session_stored_def logged_def)
  have sid: "ow_session_id ow = sid \<and> ow_weakness_id ow \<in> wk_id ` set (db_weaknesses (ys_learning base))"
    if "ow \<in> set new" for ow
    using that new(2)
    by (auto simp: list_all2_conv_all_nth in_set_conv_nth row_for_def target_names_def image_iff)
  have "distinct (map ow_observation_no new)"
    unfolding list_all2_numbers [OF new(2)] using stored
    by (simp add: session_stored_def distinct_inserted record_request_wf_def
        record_observations_wf_def numbers_ok_def)
  then have "distinct (map (\<lambda>ow. (ow_session_id ow, ow_observation_no ow)) new)"
    by (auto simp: distinct_map inj_on_def)
  then show "distinct (map (\<lambda>ow. (ow_session_id ow, ow_observation_no ow))
      (ys_observations (rc_store rc)))"
    using wf fresh sid new(1) same by (auto simp: rows_wf_def)
  show "\<forall>ow\<in>set (ys_observations (rc_store rc)). ow \<in> set (ys_observations base') \<or>
      ow_session_id ow = sid \<and> ow_weakness_id ow \<in> wk_id ` set (db_weaknesses (ys_learning base))"
    using sid new(1) same by auto
qed

lemma touch_all_frame:
  "same_history st (foldl (touch_seen date) st ks) \<and>
     ys_learning (foldl (touch_seen date) st ks) = ys_learning st \<and>
     ys_observations (foldl (touch_seen date) st ks) = ys_observations st"
  by (rule foldl_invariant) (use touch_seen_frame same_history_trans in \<open>auto\<close>)

lemma grow_names:
  "targets_grow a b \<Longrightarrow> set (item_names a) \<subseteq> set (item_names b) \<and>
     wk_id ` set (db_weaknesses a) \<subseteq> wk_id ` set (db_weaknesses b)"
proof -
  assume grow: "targets_grow a b"
  have ids: "wk_id ` set (db_weaknesses db) = fst ` set (target_names db)" for db
    by (auto simp: target_names_def image_image)
  have "set (target_names a) \<subseteq> set (target_names b)" "set (item_names a) \<subseteq> set (item_names b)"
    using grow by (auto simp: targets_grow_def dest: set_mono_prefix)
  then show ?thesis unfolding ids by (auto intro: image_mono)
qed

text \<open>The tables between the last insertion and the first review.\<close>

lemma record_rows_base:
  assumes wf: "study_wf st" and r: "record_request_wf r" and st2: "only_targets st st2"
    and session: "insert_session date r st2 = (sid, st3)"
    and rows: "record_rows E r sid reviewed_at st3 = Inr rc"
  obtains base where "session_stored base sid rc r" and "sid \<notin> se_id ` set (ys_sessions st)"
    and "map se_id (ys_sessions (rc_store rc)) = map se_id (ys_sessions st) @ [sid]"
    and "ys_observations base = ys_observations st"
    and "ys_reviews (rc_store rc) = ys_reviews st"
    and "ys_review_observations (rc_store rc) = ys_review_observations st"
    and "ys_memory (rc_store rc) = ys_memory st" and "ys_ledger (rc_store rc) = ys_ledger st"
    and "ys_learning (rc_store rc) = ys_learning base"
    and "targets_grow (ys_learning st) (ys_learning base)"
proof -
  from st2 obtain db where st2': "st2 = st\<lparr>ys_learning := db\<rparr>"
    and grow2: "targets_grow (ys_learning st) db" "targets_ok db"
    by (auto simp: only_targets_def)
  have sid: "sid = next_rowid (map se_id (ys_sessions st))"
    and st3: "ys_learning st3 = db" "ys_observations st3 = ys_observations st"
      "ys_reviews st3 = ys_reviews st" "ys_review_observations st3 = ys_review_observations st"
      "ys_memory st3 = ys_memory st" "ys_ledger st3 = ys_ledger st"
      "map se_id (ys_sessions st3) = map se_id (ys_sessions st) @ [sid]"
    using session by (auto simp: insert_session_def Let_def st2')
  have ids: "distinct (map ow_id (ys_observations st3))"
    using wf st3 by (simp add: study_wf_def rows_wf_def)
  have numbers: "distinct (map ob_observation_no (inserted_observations r))"
    using r by (simp add: distinct_inserted record_request_wf_def record_observations_wf_def numbers_ok_def)
  have ok3: "targets_ok (ys_learning st3)" using grow2 st3 by simp
  show thesis
  proof (rule record_rows_logged [OF rows ok3 ids numbers])
    fix st1
    assume 1: "same_history st3 st1" "ys_observations st1 = ys_observations st3"
      "targets_grow (ys_learning st3) (ys_learning st1)" "targets_ok (ys_learning st1)"
      and log: "logged sid st1 rc (inserted_observations r)"
    then have "same_history st3 (rc_store rc)" "ys_learning (rc_store rc) = ys_learning st1"
      by (auto simp: logged_def same_history_def)
    moreover have "sid \<notin> se_id ` set (ys_sessions st)"
      using next_rowid_new [of "map se_id (ys_sessions st)"] sid by simp
    moreover have "targets_grow (ys_learning st) (ys_learning st1)"
      using grow2 1(3) st3 targets_grow_trans by metis
    ultimately show thesis
      using st3 1 log r by (intro that [of st1]) (auto simp: session_stored_def same_history_def)
  qed
qed

text \<open>The tables after the reviews.\<close>

lemma reviews_applied:
  assumes loop: "foldE (apply_review E r policy cfg sid reviewed_at review_day ids)
      \<lparr>vl_store = base, vl_keys = {}, vl_updates = [], vl_decisions = []\<rparr> (rr_reviews r) = Inr vl"
    and base: "review_base base sid ids r" and r: "record_request_wf r"
  shows "review_loop_inv base sid vl"
proof (rule foldE_invariant [OF loop])
  show "review_loop_inv base sid \<lparr>vl_store = base, vl_keys = {}, vl_updates = [], vl_decisions = []\<rparr>"
    using base by (simp add: review_loop_inv_def review_base_def)
  show "review_loop_inv base sid vl2"
    if "review_loop_inv base sid vl1" "v \<in> set (rr_reviews r)"
      "apply_review E r policy cfg sid reviewed_at review_day ids vl1 v = Inr vl2" for vl1 v vl2
    by (rule apply_review_keeps [OF that(3) base that(1)])
      (use r that(2) in \<open>auto simp: record_request_wf_def\<close>)
qed

lemma record_fresh_keeps:
  assumes wf: "study_wf st" and r: "record_request_wf r" and fresh: "record_fresh E r st = Inr (resp, st')"
    and key: "rr_idempotency_key r \<notin> lg_idempotency_key ` set (ys_ledger st)"
  shows "study_wf st' \<and> re_session_id resp \<notin> se_id ` set (ys_sessions st) \<and> re_status resp = Record_Created \<and>
    (\<exists>new. ys_reviews st' = ys_reviews st @ new \<and> length new = length (re_review_updates resp) \<and>
       (\<forall>i. i \<notin> vw_scheduler_item_id ` set new \<longrightarrow> ys_memory st' i = ys_memory st i) \<and>
       (\<forall>v\<in>set new. vw_session_id v = re_session_id resp))"
proof (rule record_fresh_Inr [OF fresh])
  fix policy cfg reviewed_at review_day date keys created st1 st2 sid st3 rc vl
  assume 1: "foldE (record_new_weakness (set (concat (map it_target_weakness_keys (rr_items r)))))
      ({}, [], st) (rr_new_weaknesses r) = Inr (keys, created, st1)"
    and 2: "foldE record_weakness_relations st1 (rr_new_weaknesses r) = Inr st2"
    and session: "insert_session date r st2 = (sid, st3)"
    and rows: "record_rows E r sid reviewed_at st3 = Inr rc"
    and loop: "foldE (apply_review E r policy cfg sid reviewed_at review_day (rc_observations rc))
      \<lparr>vl_store = foldl (touch_seen date) (rc_store rc) (all_weakness_keys r), vl_keys = {},
       vl_updates = [], vl_decisions = []\<rparr> (rr_reviews r) = Inr vl"
    and resp: "resp = response_of r sid (length (rc_observations rc)) created vl"
    and st': "st' = (vl_store vl)
       \<lparr>ys_production := ys_production (vl_store vl) @ [\<lparr>pn_session_id = sid, pn_policy = policy,
          pn_evidence = rr_production_evidence r, pn_audit = audit r policy (vl_decisions vl)\<rparr>],
        ys_ledger := ys_ledger (vl_store vl) @ [\<lparr>lg_idempotency_key = rr_idempotency_key r,
          lg_session_id = sid, lg_request_hash = ev_request_hash E r, lg_response = resp,
          lg_replayable = True\<rparr>]\<rparr>"
  let ?base = "foldl (touch_seen date) (rc_store rc) (all_weakness_keys r)"
  have ok: "targets_ok (ys_learning st)" using wf by (simp add: study_wf_def rows_wf_def)
  have st2: "only_targets st st2"
    using new_weaknesses_frame [OF 1 ok] weakness_relations_frame [OF 2] only_targets_trans
      only_targets_ok by blast
  have id: "re_session_id resp = sid" "re_review_updates resp = vl_updates vl" "re_status resp = Record_Created"
    by (simp_all add: resp response_of_def)
  show ?thesis
  proof (rule record_rows_base [OF wf r st2 session rows])
    fix base0
    assume stored: "session_stored base0 sid rc r" and sid: "sid \<notin> se_id ` set (ys_sessions st)"
      and b: "map se_id (ys_sessions (rc_store rc)) = map se_id (ys_sessions st) @ [sid]"
        "ys_observations base0 = ys_observations st" "ys_reviews (rc_store rc) = ys_reviews st"
        "ys_review_observations (rc_store rc) = ys_review_observations st"
        "ys_memory (rc_store rc) = ys_memory st" "ys_ledger (rc_store rc) = ys_ledger st"
        "ys_learning (rc_store rc) = ys_learning base0"
        "targets_grow (ys_learning st) (ys_learning base0)"
    note touched = touch_all_frame [of "rc_store rc" date "all_weakness_keys r"]
    then have same: "ys_reviews ?base = ys_reviews st" "ys_ledger ?base = ys_ledger st"
        "ys_review_observations ?base = ys_review_observations st" "ys_memory ?base = ys_memory st"
        "ys_sessions ?base = ys_sessions (rc_store rc)" "ys_learning ?base = ys_learning base0"
        "ys_observations ?base = ys_observations (rc_store rc)"
      using b by (auto simp: same_history_def)
    have obs: "distinct (map ow_id (ys_observations (rc_store rc)))"
        "set (ys_observations st) \<subseteq> set (ys_observations (rc_store rc))"
      using stored b(2) by (auto simp: session_stored_def logged_def)
    have rows_st: "rows_wf st" "reviews_wf st" "ledger_wf st" using wf by (auto simp: study_wf_def)
    have sessions: "se_id ` set (ys_sessions (rc_store rc)) = insert sid (se_id ` set (ys_sessions st))"
      using arg_cong [OF b(1), of set] by simp
    have distinct_sessions: "distinct (map se_id (ys_sessions (rc_store rc)))"
      unfolding b(1) using sid rows_st(1) by (simp add: rows_wf_def)
    have base: "review_base ?base sid (rc_observations rc) r"
      unfolding review_base_def
    proof (intro conjI)
      show "reviews_wf ?base"
        by (rule reviews_wf_mono [OF rows_st(2)]) (use grow_names [OF b(8)] obs(2) same in auto)
      show "numbers_denote ?base sid (rc_observations rc) r"
        using stored_numbers_denote [OF stored] same b(7) by (simp add: numbers_denote_def)
      show "targets_ok (ys_learning ?base)" using stored same by (simp add: session_stored_def)
      show "distinct (map ow_id (ys_observations ?base))" using obs same by simp
      show "\<forall>v\<in>set (ys_reviews ?base). vw_session_id v \<noteq> sid"
        using rows_st(1) sid same by (auto simp: rows_wf_def)
    qed
    from reviews_applied [OF loop base r]
    obtain new where new: "ys_reviews (vl_store vl) = ys_reviews st @ new"
        "length new = length (vl_updates vl)" "\<forall>v\<in>set new. vw_session_id v = sid"
        "\<forall>i. i \<notin> vw_scheduler_item_id ` set new \<longrightarrow> ys_memory (vl_store vl) i = ys_memory st i"
      and after: "reviews_wf (vl_store vl)" "ys_learning (vl_store vl) = ys_learning base0"
        "ys_observations (vl_store vl) = ys_observations (rc_store rc)"
        "ys_sessions (vl_store vl) = ys_sessions (rc_store rc)" "ys_ledger (vl_store vl) = ys_ledger st"
      using same by (auto simp: review_loop_inv_def)
    have "reviews_wf st'" by (rule reviews_wf_mono [OF after(1)]) (simp_all add: st')
    moreover have "rows_wf st'"
    proof -
      have ids: "ow_session_id ow \<in> insert sid (se_id ` set (ys_sessions st)) \<and>
          ow_weakness_id ow \<in> wk_id ` set (db_weaknesses (ys_learning base0))"
        if "ow \<in> set (ys_observations (rc_store rc))" for ow
      proof (cases "ow \<in> set (ys_observations st)")
        case True
        then have "ow_session_id ow \<in> se_id ` set (ys_sessions st)"
            "ow_weakness_id ow \<in> wk_id ` set (db_weaknesses (ys_learning st))"
          using rows_st(1) unfolding rows_wf_def by blast+
        then show ?thesis using grow_names [OF b(8)] by blast
      next
        case False
        then show ?thesis
          using stored_observation_rows(2) [OF stored rows_st(1) b(2) sid] that by blast
      qed
      show ?thesis
        using ids distinct_sessions obs(1) stored rows_st(1) new(3)
          stored_observation_rows(1) [OF stored rows_st(1) b(2) sid]
        unfolding rows_wf_def st' by (auto simp: after new(1) sessions session_stored_def)
    qed
    moreover have "ledger_wf st'"
      using rows_st(3) key id by (auto simp: ledger_wf_def st' after sessions)
    ultimately show ?thesis
      using sid id new st' by (auto simp: study_wf_def)
  qed
qed

lemma record_gate_request: "record_gate E r = Inr () \<Longrightarrow> record_request_wf r"
  by (auto simp: record_gate_def ok_simps record_accepted_iff)

lemma record_practice_cases:
  obtains (refused) e where "record_practice E r st = (Inl e, st)"
  | (replayed) row where "record_practice E r st = (Inr ((lg_response row)\<lparr>re_status := Record_Replayed\<rparr>), st)"
      and "row \<in> set (ys_ledger st)" and "lg_idempotency_key row = rr_idempotency_key r"
      and "lg_request_hash row = ev_request_hash E r" and "lg_replayable row"
  | (created) resp st' where "record_practice E r st = (Inr resp, st')"
      and "record_fresh E r st = Inr (resp, st')" and "record_gate E r = Inr ()"
      and "rr_idempotency_key r \<notin> lg_idempotency_key ` set (ys_ledger st)"
proof (cases "record_gate E r")
  case (Inl e)
  then show thesis by (intro refused [of e]) (simp add: record_practice_def)
next
  case gate: (Inr u)
  show thesis
  proof (cases "find (\<lambda>row. lg_idempotency_key row = rr_idempotency_key r) (ys_ledger st)")
    case (Some row)
    show thesis
    proof (cases "replay_row E r row")
      case (Inl e)
      with gate Some show thesis by (intro refused [of e]) (simp add: record_practice_def)
    next
      case (Inr resp)
      with gate Some find_SomeD [OF Some] show thesis
        by (intro replayed [of row]) (auto simp: record_practice_def replay_row_def ok_simps)
    qed
  next
    case None
    show thesis
    proof (cases "record_fresh E r st")
      case (Inl e)
      with gate None show thesis by (intro refused [of e]) (simp add: record_practice_def)
    next
      case (Inr p)
      have "rr_idempotency_key r \<notin> lg_idempotency_key ` set (ys_ledger st)"
        using None by (auto simp: find_None_iff)
      with gate None Inr show thesis
        by (intro created [of "fst p" "snd p"]) (auto simp: record_practice_def split: prod.split)
    qed
  qed
qed

lemma record_practice_keeps:
  assumes "study_wf st"
  shows "study_wf (snd (record_practice E r st))"
proof (cases rule: record_practice_cases [of E r st])
  case (created resp st')
  then show ?thesis using record_fresh_keeps [OF assms record_gate_request] by simp
qed (use assms in simp_all)

end
