(* ===== verification/RecordingRuns.thy ===== *)
theory RecordingRuns
  imports RecordingCorrect Idempotence
begin

text \<open>
  Recording sessions, one after the other: the ledger of idempotency keys as an interpretation
  of \<open>idempotent_create\<close>, which reviews move the scheduler, and a concrete session that is
  recorded with a review.
\<close>

section \<open>The ledger\<close>

text \<open>
  The row a request with this key is answered from. The payload of a request is its digest,
  unless it does not pass the checks before the transaction; then nothing stored equals it.
\<close>

definition ledger_lookup :: "study_store \<Rightarrow> ustring \<Rightarrow> ledger_row option" where
  "ledger_lookup st k =
     (case find (\<lambda>row. lg_idempotency_key row = k) (ys_ledger st) of
        None \<Rightarrow> None
      | Some row \<Rightarrow> if lg_replayable row \<and> re_session_id (lg_response row) = lg_session_id row
          then Some row else None)"

definition request_payload :: "record_env \<Rightarrow> record_request \<Rightarrow> ustring option" where
  "request_payload E r = (if record_gate E r = Inr () then Some (ev_request_hash E r) else None)"

text \<open>Recording with the ledger row as its result.\<close>

definition record_row ::
    "record_env \<Rightarrow> record_request \<Rightarrow> study_store \<Rightarrow> (record_error + ledger_row) \<times> study_store" where
  "record_row E r st =
     (case record_practice E r st of
        (Inl e, st') \<Rightarrow> (Inl e, st')
      | (Inr resp, st') \<Rightarrow>
          (case ledger_lookup st' (rr_idempotency_key r) of
             None \<Rightarrow> (Inl RecordIdempotencyConflict, st)
           | Some row \<Rightarrow> (Inr row, st')))"

lemma record_fresh_ledger:
  assumes "record_fresh E r st = Inr (resp, st')"
  shows "\<exists>row. ys_ledger st' = ys_ledger st @ [row] \<and> lg_idempotency_key row = rr_idempotency_key r \<and>
    lg_request_hash row = ev_request_hash E r \<and> lg_response row = resp \<and> lg_replayable row \<and>
    lg_session_id row = re_session_id resp"
proof (rule record_fresh_Inr [OF assms])
  fix policy cfg reviewed_at review_day date keys created st1 st2 sid st3 rc vl
  assume 1: "foldE (record_new_weakness (set (concat (map it_target_weakness_keys (rr_items r)))))
      ({}, [], st) (rr_new_weaknesses r) = Inr (keys, created, st1)"
    and 2: "foldE record_weakness_relations st1 (rr_new_weaknesses r) = Inr st2"
    and session: "insert_session date r st2 = (sid, st3)"
    and rows: "record_rows E r sid reviewed_at st3 = Inr rc"
    and loop: "foldE (apply_review E r policy cfg sid reviewed_at review_day (rc_observations rc))
      \<lparr>vl_store = foldl (touch_seen date) (rc_store rc) (all_weakness_keys r), vl_keys = {},
       vl_updates = [], vl_decisions = []\<rparr> (rr_reviews r) = Inr vl"
    and resp: "resp = response_of r sid (length (rc_observations rc)) created vl"
    and st': "st' = (vl_store vl)
       \<lparr>ys_production := ys_production (vl_store vl) @ [\<lparr>pn_session_id = sid, pn_policy = policy,
          pn_evidence = rr_production_evidence r, pn_audit = audit r policy (vl_decisions vl)\<rparr>],
        ys_ledger := ys_ledger (vl_store vl) @ [\<lparr>lg_idempotency_key = rr_idempotency_key r,
          lg_session_id = sid, lg_request_hash = ev_request_hash E r, lg_response = resp,
          lg_replayable = True\<rparr>]\<rparr>"
  have "ys_ledger (snd (snd (keys, created, st1))) = ys_ledger st"
    by (rule foldE_invariant [OF 1, where I = "\<lambda>s. ys_ledger (snd (snd s)) = ys_ledger st"])
      (auto simp: record_new_weakness_def internal_def ok_simps split: if_splits prod.splits)
  moreover have "ys_ledger st2 = ys_ledger st1"
    by (rule foldE_invariant [OF 2]) (auto simp: record_weakness_relations_def internal_def ok_simps)
  moreover have "ys_ledger st3 = ys_ledger st2"
    using session by (auto simp: insert_session_def Let_def)
  moreover have "ys_ledger (rc_store rc) = ys_ledger st3"
    by (rule record_rows_ledger [OF rows])
  moreover have "ys_ledger (foldl (touch_seen date) (rc_store rc) (all_weakness_keys r)) =
      ys_ledger (rc_store rc)"
    using touch_all_frame [of "rc_store rc" date "all_weakness_keys r"]
    by (simp add: same_history_def)
  moreover have "ys_ledger (vl_store vl) =
      ys_ledger (foldl (touch_seen date) (rc_store rc) (all_weakness_keys r))"
    by (rule foldE_invariant [OF loop]) (auto elim!: apply_review_cases schedule_review_Inr)
  ultimately show ?thesis by (auto simp: st' resp response_of_def)
qed

lemma record_practice_new:
  assumes "ledger_lookup st (rr_idempotency_key r) = None" and "record_practice E r st = (Inr resp, st')"
  shows "record_fresh E r st = Inr (resp, st') \<and> record_gate E r = Inr () \<and>
    rr_idempotency_key r \<notin> lg_idempotency_key ` set (ys_ledger st)"
proof (cases "find (\<lambda>row. lg_idempotency_key row = rr_idempotency_key r) (ys_ledger st)")
  case None
  then have "rr_idempotency_key r \<notin> lg_idempotency_key ` set (ys_ledger st)"
    by (auto simp: find_None_iff)
  with None assms show ?thesis by (auto simp: record_practice_def split: sum.splits)
next
  case (Some row)
  with assms(1) have "\<not> (lg_replayable row \<and> re_session_id (lg_response row) = lg_session_id row)"
    by (auto simp: ledger_lookup_def split: if_splits)
  with assms(2) Some show ?thesis
    by (auto simp: record_practice_def replay_row_def ok_simps split: sum.splits)
qed

lemma ledger_append:
  assumes "ys_ledger st' = ys_ledger st @ [row]" and "lg_idempotency_key row = k"
  shows "ledger_lookup st' k' = (if k' = k \<and> k \<notin> lg_idempotency_key ` set (ys_ledger st)
    then (if lg_replayable row \<and> re_session_id (lg_response row) = lg_session_id row
      then Some row else None) else ledger_lookup st k')"
proof (cases "find (\<lambda>row. lg_idempotency_key row = k') (ys_ledger st)")
  case None
  then have "k' \<notin> lg_idempotency_key ` set (ys_ledger st)" by (auto simp: find_None_iff)
  with None show ?thesis
    using assms by (auto simp: ledger_lookup_def find_append_None)
next
  case (Some old)
  then have "k' \<in> lg_idempotency_key ` set (ys_ledger st)" by (auto dest!: find_SomeD)
  then have old: "(k' = k \<and> k \<notin> lg_idempotency_key ` set (ys_ledger st)) = False" by blast
  show ?thesis
    unfolding old using Some assms(1) by (simp add: ledger_lookup_def find_append_Some)
qed

lemma record_practice_replay:
  assumes "ledger_lookup st (rr_idempotency_key r) = Some row" and "record_gate E r = Inr ()"
  shows "record_practice E r st = (if lg_request_hash row = ev_request_hash E r
    then Inr ((lg_response row)\<lparr>re_status := Record_Replayed\<rparr>) else Inl RecordIdempotencyConflict, st)"
proof -
  from assms(1) have "find (\<lambda>row. lg_idempotency_key row = rr_idempotency_key r) (ys_ledger st) = Some row"
      "lg_replayable row" "re_session_id (lg_response row) = lg_session_id row"
    by (auto simp: ledger_lookup_def split: option.splits if_splits)
  then show ?thesis
    using assms(2) by (simp add: record_practice_def replay_row_def bail_if_def seqE.simps)
qed

lemma record_row_frame:
  assumes "record_row E r st = (res, st')" and "k \<noteq> rr_idempotency_key r"
  shows "ledger_lookup st' k = ledger_lookup st k"
proof (cases rule: record_practice_cases [of E r st])
  case (created resp st1)
  from record_fresh_ledger [OF created(2)] obtain row where
    "ys_ledger st1 = ys_ledger st @ [row]" "lg_idempotency_key row = rr_idempotency_key r" by blast
  from ledger_append [OF this, of k] assms(2) have "ledger_lookup st1 k = ledger_lookup st k" by simp
  then show ?thesis
    using assms(1) created(1) by (auto simp: record_row_def split: option.splits)
qed (use assms in \<open>auto simp: record_row_def split: option.splits\<close>)

lemma record_row_insert:
  assumes "ledger_lookup st (rr_idempotency_key r) = None" and "record_row E r st = (Inr row, st')"
  shows "ledger_lookup st' (rr_idempotency_key r) = Some row \<and>
    Some (lg_request_hash row) = request_payload E r"
proof -
  from assms(2) obtain resp where step: "record_practice E r st = (Inr resp, st')"
    and found: "ledger_lookup st' (rr_idempotency_key r) = Some row"
    by (auto simp: record_row_def split: prod.splits sum.splits option.splits)
  from record_practice_new [OF assms(1) step]
  have new: "record_fresh E r st = Inr (resp, st')" "record_gate E r = Inr ()"
      "rr_idempotency_key r \<notin> lg_idempotency_key ` set (ys_ledger st)" by auto
  from record_fresh_ledger [OF new(1)] obtain row' where
    "ys_ledger st' = ys_ledger st @ [row']" "lg_idempotency_key row' = rr_idempotency_key r"
    "lg_request_hash row' = ev_request_hash E r" by blast
  then show ?thesis
    using ledger_append [of st' st row' "rr_idempotency_key r" "rr_idempotency_key r"] found new
    by (auto simp: request_payload_def split: if_splits)
qed

lemma record_row_failed:
  assumes "record_row E r st = (Inl e, st')"
  shows "st' = st"
  by (cases rule: record_practice_cases [of E r st])
    (use assms in \<open>auto simp: record_row_def split: option.splits\<close>)

interpretation recording_ledger: idempotent_create "record_row E" ledger_lookup rr_idempotency_key
    "request_payload E" "\<lambda>row. Some (lg_request_hash row)"
  for E
proof unfold_locales
  show "record_row E r st = (Inr row, st)"
    if "ledger_lookup st (rr_idempotency_key r) = Some row"
      "Some (lg_request_hash row) = request_payload E r" for r st row
  proof -
    from that(2) have "record_gate E r = Inr ()" "lg_request_hash row = ev_request_hash E r"
      by (auto simp: request_payload_def split: if_splits)
    then show ?thesis using that(1) by (simp add: record_row_def record_practice_replay)
  qed
  show "\<exists>e. record_row E r st = (Inl e, st)"
    if "ledger_lookup st (rr_idempotency_key r) = Some row"
      "Some (lg_request_hash row) \<noteq> request_payload E r" for r st row
  proof (cases "record_gate E r")
    case (Inl e)
    then show ?thesis by (simp add: record_row_def record_practice_def)
  next
    case (Inr u)
    then show ?thesis
      using that by (simp add: record_row_def record_practice_replay request_payload_def)
  qed
qed (use record_row_insert record_row_frame record_row_failed in blast)+

section \<open>Sequences of recordings\<close>

definition record_all :: "record_env \<Rightarrow> record_request list \<Rightarrow> study_store \<Rightarrow> study_store" where
  "record_all E rs st = foldl (\<lambda>s r. snd (record_practice E r s)) st rs"

lemma record_answer_row:
  assumes "record_practice E r st = (Inr resp, st')"
  shows "\<exists>row. ledger_lookup st' (rr_idempotency_key r) = Some row \<and>
    lg_request_hash row = ev_request_hash E r \<and>
    resp\<lparr>re_status := Record_Replayed\<rparr> = (lg_response row)\<lparr>re_status := Record_Replayed\<rparr>"
proof (cases "ledger_lookup st (rr_idempotency_key r)")
  case None
  from record_practice_new [OF None assms]
  have new: "record_fresh E r st = Inr (resp, st')" 
      "rr_idempotency_key r \<notin> lg_idempotency_key ` set (ys_ledger st)" by auto
  from record_fresh_ledger [OF new(1)] obtain row where
    "ys_ledger st' = ys_ledger st @ [row]" "lg_idempotency_key row = rr_idempotency_key r"
    "lg_request_hash row = ev_request_hash E r" "lg_response row = resp" "lg_replayable row"
    "lg_session_id row = re_session_id resp" by blast
  then show ?thesis
    using ledger_append [of st' st row "rr_idempotency_key r" "rr_idempotency_key r"] new(2) by simp
next
  case (Some row)
  have gate: "record_gate E r = Inr ()"
    using assms by (auto simp: record_practice_def split: sum.splits)
  from assms Some show ?thesis
    unfolding record_practice_replay [OF Some gate] by (auto split: if_splits)
qed

lemma record_row_snd: "snd (record_row E r st) = snd (record_practice E r st)"
proof (cases "record_practice E r st")
  case (Pair res st')
  then show ?thesis
    using record_answer_row [of E r st _ st']
    by (cases res) (auto simp: record_row_def split: option.splits)
qed

lemma record_all_persists:
  "ledger_lookup st k = Some row \<Longrightarrow> ledger_lookup (record_all E rs st) k = Some row"
  using recording_ledger.run_persists [of st k row E rs]
  by (simp add: record_all_def record_row_snd)

lemma retried_later:
  assumes "record_practice E r st = (Inr resp, st')"
    and "rr_idempotency_key r' = rr_idempotency_key r" and "record_gate E r' = Inr ()"
  shows "record_practice E r' (record_all E rs st') =
    (if ev_request_hash E r' = ev_request_hash E r then Inr (resp\<lparr>re_status := Record_Replayed\<rparr>)
     else Inl RecordIdempotencyConflict, record_all E rs st')"
proof -
  from record_answer_row [OF assms(1)] obtain row where
    row: "ledger_lookup st' (rr_idempotency_key r) = Some row"
      "lg_request_hash row = ev_request_hash E r"
      "resp\<lparr>re_status := Record_Replayed\<rparr> = (lg_response row)\<lparr>re_status := Record_Replayed\<rparr>" by blast
  from record_all_persists [OF row(1), of E rs] assms(2)
  have "ledger_lookup (record_all E rs st') (rr_idempotency_key r') = Some row" by simp
  from record_practice_replay [OF this assms(3)] row(2,3) show ?thesis by auto
qed

lemma record_all_keeps: "study_wf st \<Longrightarrow> study_wf (record_all E rs st)"
  unfolding record_all_def by (rule foldl_invariant) (simp_all add: record_practice_keeps)

section \<open>What moves the scheduler\<close>

lemma memory_moved:
  assumes "study_wf st" and "record_practice E r st = (Inr resp, st')"
    and "ys_memory st' i \<noteq> ys_memory st i"
  shows "\<exists>v\<in>set (ys_reviews st'). vw_session_id v = re_session_id resp \<and>
    vw_scheduler_item_id v = i \<and> ys_memory st' i = Some (memory_of_review v) \<and> review_grounded st' v"
proof (cases rule: record_practice_cases [of E r st])
  case (created resp' st1)
  with assms(2) have fresh: "record_fresh E r st = Inr (resp, st')" by simp
  from record_fresh_keeps [OF assms(1) record_gate_request [OF created(3)] fresh created(4)]
  obtain new where wf: "study_wf st'" and new: "ys_reviews st' = ys_reviews st @ new"
      "\<forall>i. i \<notin> vw_scheduler_item_id ` set new \<longrightarrow> ys_memory st' i = ys_memory st i"
      "\<forall>v\<in>set new. vw_session_id v = re_session_id resp" by blast
  from assms(3) new(2) have "i \<in> vw_scheduler_item_id ` set new" by blast
  then obtain v where v: "find (\<lambda>v. vw_scheduler_item_id v = i) (rev new) = Some v"
    by (cases "find (\<lambda>v. vw_scheduler_item_id v = i) (rev new)") (auto simp: find_None_iff)
  then have last: "last_review st' i = Some v"
    by (simp add: last_review_def new(1) find_append_Some)
  from find_SomeD [OF v] have "v \<in> set new" "vw_scheduler_item_id v = i" by auto
  then show ?thesis
    using wf last new(1,3) by (auto simp: study_wf_def reviews_wf_def memory_follows_def)
qed (use assms in auto)

section \<open>Only eligible reviews are applied\<close>

lemma reviews_answered:
  assumes "foldE (apply_review E r policy cfg sid reviewed_at review_day ids) vl vs = Inr vl'"
  shows "map rd_weakness_key (vl_decisions vl') = map rd_weakness_key (vl_decisions vl) @ map rv_weakness_key vs \<and>
    (\<forall>u\<in>set (vl_updates vl'). u \<in> set (vl_updates vl) \<or>
       (\<exists>v\<in>set vs. ud_weakness_key u = rv_weakness_key v \<and>
          rd_eligible (review_decision r v (rp_preference_version policy)) \<and>
          1 \<le> ud_scheduled_interval_days u \<and>
          ud_due_learning_day u =
            tl_format_date (ev_time E) (review_day + ud_scheduled_interval_days u)))"
  using assms
proof (induction vs arbitrary: vl)
  case (Cons v vs)
  then obtain vl1 where step: "apply_review E r policy cfg sid reviewed_at review_day ids vl v = Inr vl1"
    and rest: "foldE (apply_review E r policy cfg sid reviewed_at review_day ids) vl1 vs = Inr vl'"
    by (auto simp: ok_simps)
  note IH = Cons.IH [OF rest]
  from step show ?case
  proof (cases rule: apply_review_cases)
    case (kept d)
    then show ?thesis using IH by auto
  next
    case (applied w initial st' u d)
    have "rd_weakness_key d = rv_weakness_key v"
      by (simp add: applied(6) review_decision_def Let_def split: option.split)
    moreover have "ud_weakness_key u = rv_weakness_key v \<and> 1 \<le> ud_scheduled_interval_days u \<and>
        ud_due_learning_day u = tl_format_date (ev_time E) (review_day + ud_scheduled_interval_days u)"
      by (rule schedule_review_Inr [OF applied(4)]) (auto simp: schedule_Inr interval_days_bounds)
    ultimately show ?thesis using IH applied(5,7) by auto
  qed
qed simp

lemma created_reviews:
  assumes "record_practice E r st = (Inr resp, st')" and "re_status resp = Record_Created"
  shows "map rd_weakness_key (re_review_decisions resp) = map rv_weakness_key (rr_reviews r) \<and>
    (\<forall>u\<in>set (re_review_updates resp). \<exists>v\<in>set (rr_reviews r). \<exists>e.
       ud_weakness_key u = rv_weakness_key v \<and> rr_production_evidence r = Some e \<and>
       review_eligible r e v \<and> 1 \<le> ud_scheduled_interval_days u)"
proof (cases rule: record_practice_cases [of E r st])
  case (created resp' st1)
  with assms have "record_fresh E r st = Inr (resp, st')" by simp
  then show ?thesis
  proof (rule record_fresh_Inr)
    fix policy cfg reviewed_at review_day date keys created st1 st2 sid st3 rc vl
    assume loop: "foldE (apply_review E r policy cfg sid reviewed_at review_day (rc_observations rc))
      \<lparr>vl_store = foldl (touch_seen date) (rc_store rc) (all_weakness_keys r), vl_keys = {},
       vl_updates = [], vl_decisions = []\<rparr> (rr_reviews r) = Inr vl"
      and resp: "resp = response_of r sid (length (rc_observations rc)) created vl"
    from reviews_answered [OF loop] show ?thesis
      by (simp add: resp response_of_def review_decision_eligible_iff) fastforce
  qed
qed (use assms in auto)

section \<open>The bounds of the desired retention\<close>

text \<open>
  The configuration table accepts a retention of exactly 0.70. In single precision this number
  is smaller than 0.70, and the review row stores that value under the same check.
\<close>

lemma boundary_retention:
  assumes "fl_f32 (ev_fsrs E) (70 / 100) = Some low" and "fl_f32 (ev_fsrs E) (97 / 100) = Some high"
    and "low < 70 / 100" and "low \<le> high" and "sf_desired_retention cfg = low"
  shows "retention_allowed (ev_fsrs E) (sf_desired_retention cfg) \<and>
    isl (schedule_review E cfg sid reviewed_at review_day ids wid initial review st)"
proof -
  have "isl (schedule_review E cfg sid reviewed_at review_day ids wid initial review st)"
  proof (rule ccontr)
    assume "\<not> isl (schedule_review E cfg sid reviewed_at review_day ids wid initial review st)"
    then obtain p where
      "schedule_review E cfg sid reviewed_at review_day ids wid initial review st = Inr p"
      by (cases "schedule_review E cfg sid reviewed_at review_day ids wid initial review st") auto
    then obtain item due prior elapsed before scheduled where
      "review_columns_ok (review_row_of cfg (next_rowid (map vw_id (ys_reviews st))) item sid
        reviewed_at (tl_format_date (ev_time E) review_day) due review prior elapsed before scheduled)"
      unfolding schedule_review_def Let_def
      by (simp only: bindE_Inr bail_if_Inr not_not) blast
    then show False using assms(3,5) by (simp add: review_columns_ok_def review_row_of_def)
  qed
  moreover have "retention_allowed (ev_fsrs E) (sf_desired_retention cfg)"
    using assms by (simp add: retention_allowed_def)
  ultimately show ?thesis by simp
qed

section \<open>A recorded session\<close>

definition sample_time :: time_lib where
  "sample_time = \<lparr>tl_parse_rfc3339 = (\<lambda>_. Some 5), tl_to_rfc3339 = (\<lambda>_. lit ''t''),
     tl_timezone = (\<lambda>_. Some (\<lambda>t. (t, 12))), tl_parse_date = (\<lambda>s. Some (int (length s))),
     tl_format_date = (\<lambda>d. replicate (nat d) 48)\<rparr>"

definition sample_item_state :: item_state where
  "sample_item_state = \<lparr>is_memory = \<lparr>ms_stability = 1, ms_difficulty = 5\<rparr>, is_interval = 3\<rparr>"

definition sample_fsrs :: fsrs_lib where
  "sample_fsrs = \<lparr>fl_f32 = (\<lambda>x. if x = 7 / 10 then Some (11744051 / 16777216) else Some x),
     fl_new = (\<lambda>_. Some (\<lambda>_ _ _. Some \<lparr>ns_again = sample_item_state, ns_hard = sample_item_state,
       ns_good = sample_item_state, ns_easy = sample_item_state\<rparr>)),
     fl_retrievability = (\<lambda>_ _ _. 9 / 10), fl_default_decay = 1 / 2\<rparr>"

definition session_env :: record_env where
  "session_env = \<lparr>ev_time = sample_time, ev_fsrs = sample_fsrs, ev_now = 5,
     ev_serialized_len = (\<lambda>_. 100), ev_request_hash = rr_idempotency_key, ev_sha256 = (\<lambda>s. s),
     ev_alphanumeric = (\<lambda>c. c \<noteq> 32)\<rparr>"

definition sample_config :: scheduler_config_row where
  "sample_config = \<lparr>sf_algorithm = lit ''fsrs'', sf_algorithm_version = lit ''FSRS-6'',
     sf_parameters = [], sf_desired_retention = 9 / 10, sf_timezone = lit ''Europe/Madrid'',
     sf_cutoff = 4, sf_parameter_set_id = 1\<rparr>"

definition sample_learning :: learning_db where
  "sample_learning = \<lparr>db_schemes = [],
     db_concepts = [\<lparr>cn_id = 1, cn_scheme_id = 1, cn_key = lit ''form'', cn_label = lit ''Form'',
       cn_definition = None, cn_source_uri = None, cn_sort_order = 0, cn_active = True\<rparr>],
     db_edges = [],
     db_weaknesses = [\<lparr>wk_id = 1, wk_key = lit ''k'', wk_category = lit ''c'',
       wk_description = lit ''d'', wk_target_pattern = None, wk_recommended_drill_types = None,
       wk_target_type = lit ''grammatical_construction'', wk_target_status = lit ''active'',
       wk_classification_pending = False, wk_active = True\<rparr>],
     db_links = [\<lparr>wc_weakness_id = 1, wc_concept_id = 1, wc_role = lit ''primary''\<rparr>],
     db_relations = [],
     db_scheduler = [\<lparr>si_id = 1, si_weakness_id = 1, si_track = lit ''general'', si_active = True\<rparr>],
     db_collections = [], db_members = []\<rparr>"

definition sample_study_store :: study_store where
  "sample_study_store = \<lparr>ys_learning = sample_learning,
     ys_preferences = Some \<lparr>pr_version = 1, pr_preferences = approved, pr_updated_at = [], pr_source = []\<rparr>,
     ys_config = Some sample_config, ys_seen = Map.empty, ys_memory = Map.empty, ys_sessions = [],
     ys_unobserved = [], ys_runs = [], ys_stimuli = [], ys_items = [], ys_item_targets = [],
     ys_requirements = [], ys_attempts = [], ys_reflections = [], ys_assessments = [],
     ys_observations = [], ys_findings = [], ys_reviews = [], ys_review_observations = [],
     ys_production = [], ys_ledger = []\<rparr>"

lemma sample_study_wf: "study_wf sample_study_store"
  by (simp add: study_wf_def rows_wf_def reviews_wf_def ledger_wf_def memory_follows_def
      last_review_def targets_ok_def targets_wf_def status_wf_def active_flag_for_status_def
      one_primary_def primary_links_def links_known_def scheduler_wf_def relations_wf_def
      sample_study_store_def sample_learning_def)

lemma reviewed_evidence_wf: "production_evidence_wf reviewed_session sample_evidence"
  by (simp add: production_evidence_wf_def attempt_evidence_wf_def observation_evidence_wf_def
      intervention_wf_def attempt_by_no_def attempt_exists_def observations_def
      accuracy_consistent_def blank_lit blank_iff lit_def is_white_def reviewed_session_def sample_defs)

lemma reviewed_evidence: "rr_production_evidence reviewed_session = Some sample_evidence"
  by (simp add: reviewed_session_def two_answers_def)

lemma sample_gate: "record_gate session_env reviewed_session = Inr ()"
  using reviewed_session_accepted reviewed_evidence_wf
  by (simp add: record_gate_def ok_simps invalid_def session_env_def validate_evidence_iff
      reviewed_evidence)

lemmas sample_world_defs = session_env_def sample_time_def sample_fsrs_def sample_config_def

lemma sample_days:
  "record_days session_env sample_config reviewed_session = Inr (lit ''t'', 5, replicate 5 48)"
  by (simp add: record_days_def normalized_timestamp_def learning_day_def valid_date_def invalid_def
      internal_def map_errE_def bindE_def seqE.simps bail_if_def sample_world_defs reviewed_session_def
      sample_defs)

lemma sample_references:
  "validate_record_database_references sample_study_store reviewed_session = Inr ()"
  by (simp add: validate_record_database_references_def ok_simps all_weakness_keys_def
      weakness_exists_def sample_study_store_def sample_learning_def reviewed_session_def sample_defs)

text \<open>The decision on the review does not depend on the list of reviews.\<close>

lemma attempt_class_same: "attempt_class (r\<lparr>rr_reviews := vs\<rparr>) = attempt_class r"
proof -
  have same: "rr_items (r\<lparr>rr_reviews := vs\<rparr>) = rr_items r"
    "attempt_by_no (r\<lparr>rr_reviews := vs\<rparr>) = attempt_by_no r"
    by (simp_all add: attempt_by_no_def fun_eq_iff)
  show ?thesis unfolding fun_eq_iff attempt_class_def same by blast
qed

lemma observations_same: "observations (r\<lparr>rr_reviews := vs\<rparr>) = observations r"
  by (simp add: observations_def)

lemma review_decision_same: "review_decision (r\<lparr>rr_reviews := vs\<rparr>) v n = review_decision r v n"
proof -
  have step: "decision_step (r\<lparr>rr_reviews := vs\<rparr>) = decision_step r"
    unfolding fun_eq_iff decision_step_def attempt_class_same by blast
  have closing: "closing_reasons (r\<lparr>rr_reviews := vs\<rparr>) = closing_reasons r"
    unfolding fun_eq_iff closing_reasons_def observations_same by blast
  have loop: "decision_loop (r\<lparr>rr_reviews := vs\<rparr>) = decision_loop r"
    unfolding fun_eq_iff decision_loop_def step observations_same by blast
  show ?thesis
    unfolding review_decision_def loop closing by (cases "rr_production_evidence r") simp_all
qed

lemma sample_decision:
  "rd_eligible (review_decision reviewed_session (sample_review Rating_Good) 1)"
  "rd_supporting_observation_nos (review_decision reviewed_session (sample_review Rating_Good) 1) = [1, 2]"
proof -
  have same: "review_decision reviewed_session (sample_review Rating_Good) 1 =
      review_decision two_answers (sample_review Rating_Good) 1"
    by (simp add: reviewed_session_def review_decision_same)
  have evidence: "rr_production_evidence two_answers = Some sample_evidence"
    by (simp add: two_answers_def)
  show "rd_eligible (review_decision reviewed_session (sample_review Rating_Good) 1)"
    unfolding same review_decision_eligible_iff using evidence sample_eligible by blast
  show "rd_supporting_observation_nos (review_decision reviewed_session (sample_review Rating_Good) 1)
      = [1, 2]"
    unfolding same
    by (simp add: review_decision_def Let_def evidence decision_loop_fields sample_supporting)
qed

lemma sample_memory_state:
  "schedule sample_fsrs None 0 3 (9 / 10) [] =
     Inr \<lparr>sd_memory = \<lparr>ms_stability = 1, ms_difficulty = 5\<rparr>, sd_interval_days = 3\<rparr>"
  by (simp add: schedule_def sample_fsrs_def retention_allowed_def state_for_rating_def
      sample_item_state_def interval_days_def floor_divide_of_int_eq [where 'a = rat, of 7 2, simplified])

definition sample_session_store :: study_store where
  "sample_session_store = snd (insert_session (replicate 5 48) reviewed_session sample_study_store)"

definition sample_observation_row :: "nat \<Rightarrow> observation_row" where
  "sample_observation_row n = observation_row_of 1 (Some n) (Some n) n 1 Phase_ColdRetrieval
     (sample_observation n Outcome_Correct)"

lemma sample_rows:
  "\<exists>rc i1 i2. record_rows session_env reviewed_session 1 (lit ''t'') sample_session_store = Inr rc \<and>
     rc_observations rc = [(1, 1), (2, 2)] \<and> ys_learning (rc_store rc) = sample_learning \<and>
     ys_config (rc_store rc) = Some sample_config \<and> ys_memory (rc_store rc) = Map.empty \<and> ys_reviews (rc_store rc) = [] \<and>
     ys_item_targets (rc_store rc) = [(1, 1), (2, 1)] \<and>
     ys_items (rc_store rc) = [i1, i2] \<and> pi_id i1 = 1 \<and> pi_session_id i1 = 1 \<and>
     ys_observations (rc_store rc) = [sample_observation_row 1, sample_observation_row 2]"
  by (simp add: record_rows_def insert_unobserved_def insert_item_def insert_item_target_def
      insert_attempt_def insert_observation_def insert_item_observations_def item_row_of_def
      attempt_row_of_def sample_observation_row_def observation_row_of_def find_weakness_def promote_target_if_needed_def
      normalized_phase_def internal_def map_errE_def bindE_def seqE.simps bail_if_def ok_or_def
      next_rowid_def Let_def 
      lit_def
      sample_session_store_def insert_session_def sample_study_store_def sample_learning_def
      reviewed_session_def sample_defs)

lemma sample_review_evidence:
  assumes "ys_observations st = [sample_observation_row 1, sample_observation_row 2]"
  shows "validate_review_evidence st 1 1
      ((sample_review Rating_Good)\<lparr>rv_evidence_observation_nos := [1, 2]\<rparr>) [(1, 1), (2, 2)] = Inr 1"
    "review_evidence_roles st 1 (sample_review Rating_Good) 1 [(1, 1), (2, 2)] =
      Inr [(1, ''initial''), (2, ''supporting'')]"
  using assms
  by (simp_all add: validate_review_evidence_def collect_evidence_def observation_in_def
      cold_retrieval_def review_evidence_roles_def evidence_role_def sample_observation_row_def
      observation_row_of_def bindE_def seqE.simps bail_if_def ok_or_def blen_def cp_len_def lit_def
      sample_observation_def sample_review_def)

lemma sample_target:
  assumes "ys_learning st = sample_learning" and "ys_item_targets st = [(1, 1), (2, 1)]"
    and "ys_items st = [i1, i2]" and "pi_id i1 = 1" and "pi_session_id i1 = 1"
  shows "find_weakness st (lit ''k'') = Some (hd (db_weaknesses sample_learning))"
    and "has_target st 1 (lit ''k'')" and "general_item st 1 = Some 1"
  using assms
  by (simp_all add: find_weakness_def has_target_def general_item_def sample_learning_def)

definition sample_memory :: memory_columns where
  "sample_memory = memory_columns_of sample_config (lit ''t'') (replicate 8 48)
     \<lparr>sd_memory = \<lparr>ms_stability = 1, ms_difficulty = 5\<rparr>, sd_interval_days = 3\<rparr>"

lemma sample_first_review:
  assumes "general_item st 1 = Some 1" and "ys_memory st = Map.empty" and "ys_reviews st = []"
    and "ys_observations st = [sample_observation_row 1, sample_observation_row 2]"
  shows "\<exists>st' u. schedule_review session_env sample_config 1 (lit ''t'') 5 [(1, 1), (2, 2)] 1 1
      (sample_review Rating_Good) st = Inr (st', u) \<and>
    ys_memory st' 1 = Some sample_memory \<and> ys_learning st' = ys_learning st \<and>
    ys_config st' = ys_config st \<and> ud_weakness_key u = lit ''k'' \<and> ud_scheduled_interval_days u = 3"
proof -
  have roles: "review_evidence_roles st 1 (sample_review Rating_Good) 1 [(1, 1), (2, 2)] =
      Inr [(1, ''initial''), (2, ''supporting'')]"
    using sample_review_evidence(2) [OF assms(4)] .
  have env: "ev_fsrs session_env = sample_fsrs" by (simp add: session_env_def)
  have due: "tl_format_date (ev_time session_env) 8 = replicate 8 48"
    by (simp add: session_env_def sample_time_def)
  have links: "collectE (link_evidence (next_rowid []) [(1, 1), (2, 2)]) [(1, ''initial''), (2, ''supporting'')] =
      Inr [\<lparr>ro_review_id = next_rowid [], ro_observation_id = 1, ro_evidence_role = ''initial''\<rparr>,
        \<lparr>ro_review_id = next_rowid [], ro_observation_id = 2, ro_evidence_role = ''supporting''\<rparr>]"
    by (simp add: link_evidence_def bindE_def ok_or_def)
  show ?thesis
    using assms
    by (simp add: schedule_review_def Let_def env roles links
        sample_config_def sample_memory_state internal_def map_errE_def bindE_def bail_if_def
        ok_or_def review_columns_ok_def review_row_of_def sample_memory_def due
        del: One_nat_def collectE.simps)
qed

lemma touch_all_items:
  "ys_items (foldl (touch_seen date) st ks) = ys_items st \<and>
   ys_item_targets (foldl (touch_seen date) st ks) = ys_item_targets st"
  by (rule foldl_invariant) (auto simp: touch_seen_def)

lemma sample_reviews:
  assumes "ys_learning st = sample_learning" and "ys_memory st = Map.empty" and "ys_reviews st = []"
    and "ys_item_targets st = [(1, 1), (2, 1)]"
    and "ys_items st = [i1, i2]" and "pi_id i1 = 1" and "pi_session_id i1 = 1"
    and "ys_observations st = [sample_observation_row 1, sample_observation_row 2]"
    and "rp_preference_version policy = 1"
  shows "\<exists>vl u. foldE (apply_review session_env reviewed_session policy sample_config 1 (lit ''t'') 5
      [(1, 1), (2, 2)]) \<lparr>vl_store = st, vl_keys = {}, vl_updates = [], vl_decisions = []\<rparr>
      (rr_reviews reviewed_session) = Inr vl \<and>
    vl_updates vl = [u] \<and> ys_memory (vl_store vl) 1 = Some sample_memory \<and>
    ys_learning (vl_store vl) = ys_learning st \<and> ys_config (vl_store vl) = ys_config st \<and>
    ud_weakness_key u = lit ''k'' \<and> ud_scheduled_interval_days u = 3"
proof -
  note target = sample_target [OF assms(1,4-7)]
  obtain st' u where scheduled: "schedule_review session_env sample_config 1 (lit ''t'') 5
      [(1, 1), (2, 2)] 1 1 (sample_review Rating_Good) st = Inr (st', u)"
    and moved: "ys_memory st' 1 = Some sample_memory" "ys_learning st' = ys_learning st"
      "ys_config st' = ys_config st" "ud_weakness_key u = lit ''k''" "ud_scheduled_interval_days u = 3"
    using sample_first_review [OF target(3) assms(2,3,8)] by blast
  have wid: "wk_id (hd (db_weaknesses sample_learning)) = 1" by (simp add: sample_learning_def)
  have reviews: "rr_reviews reviewed_session = [sample_review Rating_Good]"
    by (simp add: reviewed_session_def)
  show ?thesis
    using moved
    by (simp add: reviews apply_review_def Let_def bindE_def bail_if_def ok_or_def target wid
        sample_decision assms(9) sample_review_evidence(1) [OF assms(8)] scheduled
        del: One_nat_def)
qed

lemma sample_fresh:
  "\<exists>resp st u. record_fresh session_env reviewed_session sample_study_store = Inr (resp, st) \<and>
     re_status resp = Record_Created \<and> re_review_updates resp = [u] \<and>
     ys_memory st 1 = Some sample_memory \<and> ys_learning st = sample_learning \<and>
     ys_config st = Some sample_config \<and> ud_weakness_key u = lit ''k'' \<and>
     ud_scheduled_interval_days u = 3"
proof -
  let ?r = reviewed_session and ?s = sample_study_store and ?day = "replicate 5 48"
  obtain rc i1 i2 where rows: "record_rows session_env ?r 1 (lit ''t'') sample_session_store = Inr rc"
    and rc: "rc_observations rc = [(1, 1), (2, 2)]" "ys_learning (rc_store rc) = sample_learning"
      "ys_config (rc_store rc) = Some sample_config"
      "ys_memory (rc_store rc) = Map.empty" "ys_reviews (rc_store rc) = []"
      "ys_item_targets (rc_store rc) = [(1, 1), (2, 1)]" "ys_items (rc_store rc) = [i1, i2]"
      "pi_id i1 = 1" "pi_session_id i1 = 1"
      "ys_observations (rc_store rc) = [sample_observation_row 1, sample_observation_row 2]"
    using sample_rows by blast
  define st4 where "st4 = foldl (touch_seen ?day) (rc_store rc) (all_weakness_keys ?r)"
  note frames = touch_all_frame [of "rc_store rc" ?day "all_weakness_keys ?r", folded st4_def,
      unfolded same_history_def] touch_all_items [of ?day "rc_store rc" "all_weakness_keys ?r", folded st4_def]
  have policy: "\<exists>policy. resolve (ys_preferences ?s) None None = Inr policy \<and>
      rp_preference_version policy = 1"
    by (simp add: resolve_def get_def bindE_def sample_study_store_def)
  then obtain policy where policy: "resolve (ys_preferences ?s) None None = Inr policy"
    "rp_preference_version policy = 1" by blast
  obtain vl u where loop: "foldE (apply_review session_env ?r policy sample_config 1 (lit ''t'') 5
      [(1, 1), (2, 2)]) \<lparr>vl_store = st4, vl_keys = {}, vl_updates = [], vl_decisions = []\<rparr>
      (rr_reviews ?r) = Inr vl" "vl_updates vl = [u]" "ys_memory (vl_store vl) 1 = Some sample_memory"
      "ys_learning (vl_store vl) = sample_learning" "ys_config (vl_store vl) = Some sample_config"
      "ud_weakness_key u = lit ''k''" "ud_scheduled_interval_days u = 3"
    using sample_reviews [of st4 i1 i2 policy] frames rc policy(2) by auto
  have session: "insert_session ?day ?r ?s = (1, sample_session_store)"
    by (simp add: sample_session_store_def insert_session_def sample_study_store_def next_rowid_def)
  have none: "rr_new_weaknesses ?r = []" "pe_session_overrides sample_evidence = None"
      "pe_policy_version sample_evidence = 1" "ys_config ?s = Some sample_config"
    by (simp_all add: reviewed_session_def sample_study_store_def sample_defs)
  have known: "forE (\<lambda>k. bail_if (\<not> weakness_exists ?s k) (UnknownReference
       ''weakness_key does not exist and is not declared in new_weaknesses''))
       (all_weakness_keys ?r) = Inr ()"
    by (simp add: ok_simps all_weakness_keys_def
      weakness_exists_def sample_study_store_def sample_learning_def reviewed_session_def sample_defs)
  show ?thesis
    using loop(2-)
    by (simp add: record_fresh_def reviewed_evidence none policy internal_def map_errE_def bindE_def
        bail_if_def ok_or_def Let_def sample_days sample_references session rows rc(1)
        loop(1) [unfolded st4_def] known [unfolded bail_if_def] response_of_def del: One_nat_def)
qed

lemma sample_recorded:
  "\<exists>resp st u. record_practice session_env reviewed_session sample_study_store = (Inr resp, st) \<and>
     re_status resp = Record_Created \<and> re_review_updates resp = [u] \<and>
     ys_memory st 1 = Some sample_memory \<and> ys_learning st = sample_learning \<and>
     ys_config st = Some sample_config \<and> ud_weakness_key u = lit ''k'' \<and>
     ud_scheduled_interval_days u = 3"
proof -
  have "ys_ledger sample_study_store = []" by (simp add: sample_study_store_def)
  then show ?thesis
    using sample_fresh sample_gate by (auto simp: record_practice_def)
qed

section \<open>The properties\<close>

text \<open>Property C1. A practice database whose reviews, memory and targets are consistent stays so
through every sequence of recording requests, whatever is refused on the way.\<close>

theorem recording_keeps_study:
  assumes "study_wf st"
  shows "study_wf (record_all E rs st)"
  by (rule record_all_keeps [OF assms])

theorem recording_keeps_study_witness:
  "study_wf (record_all session_env [reviewed_session, two_answers] sample_study_store)"
  by (rule recording_keeps_study [OF sample_study_wf])

text \<open>Property C10. A recorded session is answered from the ledger ever after: a request with its
key gets the first answer again, marked as replayed, when its digest is the same and a conflict
when it is not, and it changes nothing, whatever was recorded in between.\<close>

theorem recording_retried:
  assumes "record_practice E r st = (Inr resp, st')"
    and "rr_idempotency_key r' = rr_idempotency_key r" and "record_gate E r' = Inr ()"
  shows "record_practice E r' (record_all E rs st') =
    (if ev_request_hash E r' = ev_request_hash E r then Inr (resp\<lparr>re_status := Record_Replayed\<rparr>)
     else Inl RecordIdempotencyConflict, record_all E rs st')"
  by (rule retried_later [OF assms])

theorem recording_retried_witness:
  "\<exists>resp st u. record_practice session_env reviewed_session (record_all session_env [two_answers] st) =
     (Inr (resp\<lparr>re_status := Record_Replayed\<rparr>), record_all session_env [two_answers] st) \<and>
   re_review_updates resp = [u]"
proof -
  obtain resp st u where recorded:
    "record_practice session_env reviewed_session sample_study_store = (Inr resp, st)"
    "re_review_updates resp = [u]"
    using sample_recorded by blast
  from recording_retried [OF recorded(1) refl sample_gate, of "[two_answers]"] recorded(2)
  show ?thesis by auto
qed



text \<open>Property C11. A newly recorded session answers every requested review with one decision, in
order, and applies only reviews whose evidence makes them eligible, each at least one day
ahead.\<close>

theorem created_reviews_eligible:
  assumes "record_practice E r st = (Inr resp, st')" and "re_status resp = Record_Created"
  shows "map rd_weakness_key (re_review_decisions resp) = map rv_weakness_key (rr_reviews r) \<and>
    (\<forall>u\<in>set (re_review_updates resp). \<exists>v\<in>set (rr_reviews r). \<exists>e.
       ud_weakness_key u = rv_weakness_key v \<and> rr_production_evidence r = Some e \<and>
       review_eligible r e v \<and> 1 \<le> ud_scheduled_interval_days u)"
  by (rule created_reviews [OF assms])

theorem created_reviews_eligible_witness:
  "\<exists>resp st u d. record_practice session_env reviewed_session sample_study_store = (Inr resp, st) \<and>
     re_review_updates resp = [u] \<and> 1 \<le> ud_scheduled_interval_days u \<and>
     re_review_decisions resp = [d] \<and> rd_weakness_key d = lit ''k''"
proof -
  obtain resp st u where recorded:
    "record_practice session_env reviewed_session sample_study_store = (Inr resp, st)"
    "re_status resp = Record_Created" "re_review_updates resp = [u]"
    using sample_recorded by blast
  from created_reviews_eligible [OF recorded(1,2)] recorded
  have "map rd_weakness_key (re_review_decisions resp) = [lit ''k'']"
      "1 \<le> ud_scheduled_interval_days u"
    by (auto simp: reviewed_session_def)
  with recorded show ?thesis by (auto simp: map_eq_Cons_conv)
qed

text \<open>Property C35. A configured retention of exactly 0.70 passes the scheduler's own range check,
which compares single-precision numbers, but when its single-precision value is below 0.70 no
review can be stored with it.\<close>

theorem boundary_retention_refused:
  assumes "fl_f32 (ev_fsrs E) (70 / 100) = Some low" and "fl_f32 (ev_fsrs E) (97 / 100) = Some high"
    and "low < 70 / 100" and "low \<le> high" and "sf_desired_retention cfg = low"
  shows "retention_allowed (ev_fsrs E) (sf_desired_retention cfg) \<and>
    isl (schedule_review E cfg sid reviewed_at review_day ids wid initial review st)"
  by (rule boundary_retention [OF assms])

theorem boundary_retention_refused_witness:
  "isl (schedule_review session_env (sample_config\<lparr>sf_desired_retention := 11744051 / 16777216\<rparr>)
     1 (lit ''t'') 5 [(1, 1)] 1 1 (sample_review Rating_Good) sample_study_store)"
  using boundary_retention_refused [of session_env "11744051 / 16777216" "97 / 100"
      "sample_config\<lparr>sf_desired_retention := 11744051 / 16777216\<rparr>" 1 "lit ''t''" 5 "[(1, 1)]" 1 1
      "sample_review Rating_Good" sample_study_store]
  by (simp add: session_env_def sample_fsrs_def)

end
