(* ===== verification/QueueRuns.thy ===== *)
theory QueueRuns
  imports QueueCorrect RecordingRuns
begin

text \<open>
  Recording and the queue together: a target whose review was applied leaves the queue until
  the day the review was scheduled for.
\<close>

section \<open>The memory after the reviews\<close>

definition update_stored :: "learning_db \<Rightarrow> (nat \<Rightarrow> memory_columns option) \<Rightarrow> review_update \<Rightarrow> bool" where
  "update_stored db memory u \<longleftrightarrow>
     (\<exists>w item m. find (\<lambda>w. wk_key w = ud_weakness_key u) (db_weaknesses db) = Some w \<and>
        item_for db (wk_id w) = Some item \<and> memory (si_id item) = Some m \<and>
        mc_due_learning_day m = ud_due_learning_day u)"

lemma item_for_Some:
  "item_for db wid = Some i \<Longrightarrow> i \<in> set (db_scheduler db) \<and> si_weakness_id i = wid"
  by (auto simp: item_for_def dest!: find_SomeD)

lemma general_item_for: "general_item st wid = map_option si_id (item_for (ys_learning st) wid)"
  by (simp add: general_item_def item_for_def)

text \<open>Another target has another scheduler item.\<close>

lemma update_stored_other:
  assumes "update_stored db memory u" and "targets_ok db"
    and "find (\<lambda>w. wk_key w = k) (db_weaknesses db) = Some w" and "ud_weakness_key u \<noteq> k"
    and "item_for db (wk_id w) = Some item"
  shows "update_stored db (memory(si_id item \<mapsto> m)) u"
proof -
  from assms(1) obtain w' item' m' where u:
    "find (\<lambda>w. wk_key w = ud_weakness_key u) (db_weaknesses db) = Some w'"
    "item_for db (wk_id w') = Some item'" "memory (si_id item') = Some m'"
    "mc_due_learning_day m' = ud_due_learning_day u"
    by (auto simp: update_stored_def)
  have "w \<in> set (db_weaknesses db)" "w' \<in> set (db_weaknesses db)" "wk_key w = k"
      "wk_key w' = ud_weakness_key u"
    using u(1) assms(3) by (auto dest!: find_SomeD)
  then have "wk_id w \<noteq> wk_id w'"
    using assms(2,4) by (auto simp: targets_ok_def targets_wf_def distinct_map inj_on_def)
  moreover have "si_id item = si_id item' \<Longrightarrow> item = item'"
    using item_for_Some [OF assms(5)] item_for_Some [OF u(2)] assms(2)
    by (auto simp: targets_ok_def distinct_map inj_on_def)
  ultimately have "si_id item \<noteq> si_id item'"
    using item_for_Some [OF assms(5)] item_for_Some [OF u(2)] by auto
  then show ?thesis using u by (auto simp: update_stored_def)
qed

lemma reviews_stored:
  assumes loop: "foldE (apply_review E r policy cfg sid reviewed_at review_day ids) vl vs = Inr vl'"
    and "vl_updates vl = []" and "targets_ok (ys_learning (vl_store vl))"
  shows "ys_learning (vl_store vl') = ys_learning (vl_store vl) \<and>
    (\<forall>u\<in>set (vl_updates vl'). update_stored (ys_learning (vl_store vl)) (ys_memory (vl_store vl')) u \<and>
       ud_due_learning_day u =
         tl_format_date (ev_time E) (review_day + ud_scheduled_interval_days u) \<and>
       1 \<le> ud_scheduled_interval_days u)"
proof -
  let ?db = "ys_learning (vl_store vl)"
  let ?I = "\<lambda>vl'. ys_learning (vl_store vl') = ?db \<and>
    (\<forall>u\<in>set (vl_updates vl'). ud_weakness_key u \<in> vl_keys vl' \<and>
       update_stored ?db (ys_memory (vl_store vl')) u \<and>
       ud_due_learning_day u =
         tl_format_date (ev_time E) (review_day + ud_scheduled_interval_days u) \<and>
       1 \<le> ud_scheduled_interval_days u)"
  have "?I vl'"
  proof (rule foldE_invariant [OF loop, where I = ?I])
    show "?I vl" using assms(2) by simp
    fix s1 v s2
    assume I: "?I s1" and step: "apply_review E r policy cfg sid reviewed_at review_day ids s1 v = Inr s2"
    from step show "?I s2"
    proof (cases rule: apply_review_cases)
      case (kept d)
      then show ?thesis using I by auto
    next
      case (applied w initial st' u d)
      from applied(4) show ?thesis
      proof (rule schedule_review_Inr)
        fix item prior elapsed before scheduled due roles links
        assume item: "general_item (vl_store s1) (wk_id w) = Some item"
          and scheduled: "schedule (ev_fsrs E) prior elapsed (fsrs_rating_number (rv_rating v))
            (sf_desired_retention cfg) (sf_parameters cfg) = Inr scheduled"
          and due: "due = tl_format_date (ev_time E) (review_day + sd_interval_days scheduled)"
          and st': "st' = (vl_store s1)\<lparr>ys_reviews := ys_reviews (vl_store s1) @ [review_row_of cfg
              (next_rowid (map vw_id (ys_reviews (vl_store s1)))) item sid reviewed_at
              (tl_format_date (ev_time E) review_day) due v prior elapsed before scheduled],
            ys_review_observations := ys_review_observations (vl_store s1) @ links,
            ys_memory := (ys_memory (vl_store s1))(item \<mapsto> memory_columns_of cfg reviewed_at due scheduled)\<rparr>"
          and u: "ud_weakness_key u = rv_weakness_key v"
            "ud_scheduled_interval_days u = sd_interval_days scheduled" "ud_due_learning_day u = due"
        obtain i where i: "item_for ?db (wk_id w) = Some i" "item = si_id i"
          using item I by (auto simp: general_item_for)
        have w: "find (\<lambda>w. wk_key w = rv_weakness_key v) (db_weaknesses ?db) = Some w"
          using applied(2) I by (simp add: find_weakness_def)
        have new: "update_stored ?db (ys_memory st') u"
          using w i u by (simp add: update_stored_def st' memory_columns_of_def)
        have old: "update_stored ?db (ys_memory st') u'" if "u' \<in> set (vl_updates s1)" for u'
        proof -
          from I that have "ud_weakness_key u' \<noteq> rv_weakness_key v"
              "update_stored ?db (ys_memory (vl_store s1)) u'"
            using applied(1) by auto
          with update_stored_other [OF _ assms(3) w _ i(1), of "ys_memory (vl_store s1)" u']
          show ?thesis by (simp add: st' i(2))
        qed
        have "1 \<le> sd_interval_days scheduled"
          using scheduled by (auto simp: schedule_Inr interval_days_bounds)
        then show ?thesis
          unfolding applied(5) using I new old u due by (auto simp: st')
      qed
    qed
  qed
  then show ?thesis by blast
qed

lemma created_updates_stored:
  assumes wf: "study_wf st" and "record_practice E r st = (Inr resp, st')"
    and "re_status resp = Record_Created" and "ys_config st = Some cfg"
    and "record_days E cfg r = Inr (reviewed_at, review_day, date)" and "u \<in> set (re_review_updates resp)"
  shows "study_wf st' \<and> update_stored (ys_learning st') (ys_memory st') u \<and>
    ud_due_learning_day u = tl_format_date (ev_time E) (review_day + ud_scheduled_interval_days u) \<and>
    1 \<le> ud_scheduled_interval_days u"
proof (cases rule: record_practice_cases [of E r st])
  case (created resp' st1)
  with assms(2) have fresh: "record_fresh E r st = Inr (resp, st')" by simp
  have "study_wf (snd (record_practice E r st))" by (rule record_practice_keeps [OF wf])
  then have wf': "study_wf st'" by (simp add: assms(2))
  then have ok: "targets_ok (ys_learning st')" by (simp add: study_wf_def rows_wf_def)
  from fresh show ?thesis
  proof (rule record_fresh_Inr)
    fix policy cfg' reviewed_at' review_day' date' keys created st1 st2 sid st3 rc vl
    assume cfg: "ys_config st = Some cfg'"
      and days: "record_days E cfg' r = Inr (reviewed_at', review_day', date')"
      and loop: "foldE (apply_review E r policy cfg' sid reviewed_at' review_day' (rc_observations rc))
        \<lparr>vl_store = foldl (touch_seen date') (rc_store rc) (all_weakness_keys r), vl_keys = {},
         vl_updates = [], vl_decisions = []\<rparr> (rr_reviews r) = Inr vl"
      and resp: "resp = response_of r sid (length (rc_observations rc)) created vl"
      and st': "st' = (vl_store vl)
         \<lparr>ys_production := ys_production (vl_store vl) @ [\<lparr>pn_session_id = sid, pn_policy = policy,
            pn_evidence = rr_production_evidence r, pn_audit = audit r policy (vl_decisions vl)\<rparr>],
          ys_ledger := ys_ledger (vl_store vl) @ [\<lparr>lg_idempotency_key = rr_idempotency_key r,
            lg_session_id = sid, lg_request_hash = ev_request_hash E r, lg_response = resp,
            lg_replayable = True\<rparr>]\<rparr>"
    have same: "cfg' = cfg" "review_day' = review_day" using cfg days assms(4,5) by auto
    have frame: "ys_learning (vl_store vl) =
        ys_learning (foldl (touch_seen date') (rc_store rc) (all_weakness_keys r))"
      by (rule foldE_invariant [OF loop]) (auto elim!: apply_review_cases schedule_review_Inr)
    have "u \<in> set (vl_updates vl)" using assms(6) by (simp add: resp response_of_def)
    with reviews_stored [OF loop] ok wf' show ?thesis
      by (simp add: st' frame same)
  qed
qed (use assms in auto)

lemma reviewed_target_waits:
  assumes "study_wf st" and "record_practice E r st = (Inr resp, st')"
    and "re_status resp = Record_Created" and "ys_config st = Some cfg"
    and "record_days E cfg r = Inr (reviewed_at, review_day, date)" and "u \<in> set (re_review_updates resp)"
    and dates: "tl_parse_date (ev_time E) (tl_format_date (ev_time E)
      (review_day + ud_scheduled_interval_days u)) = Some (review_day + ud_scheduled_interval_days u)"
    and "sv_store V = st'" and queue: "review_queue E V request = Inr q"
    and "rk_include_upcoming request \<noteq> Some True"
    and "e \<in> set (qs_items q)" and "qw_key (qe_row e) = ud_weakness_key u"
  shows "review_day + ud_scheduled_interval_days u \<le> qs_as_of q \<and> review_day < qs_as_of q"
proof -
  from created_updates_stored [OF assms(1-6)]
  have wf: "study_wf st'" and stored: "update_stored (ys_learning st') (ys_memory st') u"
    and due: "ud_due_learning_day u = tl_format_date (ev_time E) (review_day + ud_scheduled_interval_days u)"
    and later: "1 \<le> ud_scheduled_interval_days u" by auto
  have targets: "targets_wf (ys_learning (sv_store V))"
    using wf by (simp add: study_wf_def rows_wf_def targets_ok_def assms(8))
  from stored obtain w item m where
    w: "find (\<lambda>w. wk_key w = ud_weakness_key u) (db_weaknesses (ys_learning st')) = Some w"
    and item: "item_for (ys_learning st') (wk_id w) = Some item"
    and m: "ys_memory st' (si_id item) = Some m" "mc_due_learning_day m = ud_due_learning_day u"
    by (auto simp: update_stored_def)
  obtain rows where rows: "load_weaknesses V (queue_filter request) = Inr rows"
    using review_queue_Inr [OF queue] by blast
  have "\<not> unwrap_or (rk_include_upcoming request) False"
    using assms(10) by (cases "rk_include_upcoming request") auto
  with queue_is_prefix [OF targets queue rows] assms(11)
  have row: "qe_row e \<in> set rows" and is_due: "is_due (ev_time E) (qe_row e) (qs_as_of q)"
    by (auto simp: Let_def image_subset_iff)
  obtain w' where w': "w' \<in> set (db_weaknesses (ys_learning st'))"
    "qe_row e = queue_row_of V w' (item_for (ys_learning st') (wk_id w'))"
    by (rule load_weaknesses_wf [OF targets rows]) (use row assms(8) in auto)
  have "w \<in> set (db_weaknesses (ys_learning st'))" "wk_key w = ud_weakness_key u"
    using find_SomeD [OF w] by auto
  then have "w' = w"
    using w' targets assms(8,12) by (auto simp: targets_wf_def distinct_map inj_on_def)
  then have "qw_due (qe_row e) = Some (tl_format_date (ev_time E) (review_day + ud_scheduled_interval_days u))"
    using w'(2) item m due by (simp add: assms(8))
  then have "review_day + ud_scheduled_interval_days u \<le> qs_as_of q"
    using is_due dates by (simp add: is_due_def valid_date_def ok_or_def bindE_def)
  with later show ?thesis by simp
qed

section \<open>A reviewed target in the queue\<close>

definition sample_view :: "study_store \<Rightarrow> study_view" where
  "sample_view st = \<lparr>sv_store = st, sv_observation_active = (\<lambda>_. True),
     sv_item_active = (\<lambda>_. True), sv_review_active = (\<lambda>_. True)\<rparr>"

definition sample_queue_request :: review_queue_request where
  "sample_queue_request = \<lparr>rk_limit = None, rk_category = None, rk_as_of = Some (replicate 8 48),
     rk_include_upcoming = None, rk_concept_keys = None, rk_scheme_keys = None,
     rk_collection_keys = None, rk_target_types = None\<rparr>"

definition sample_queue_row :: "study_store \<Rightarrow> queue_row" where
  "sample_queue_row st = queue_row_of (sample_view st) (hd (db_weaknesses sample_learning))
     (Some (hd (db_scheduler sample_learning)))"

lemma sample_loaded:
  assumes "ys_learning st = sample_learning"
  shows "load_weaknesses (sample_view st) (queue_filter sample_queue_request) = Inr [sample_queue_row st]"
  using assms
  by (simp add: load_weaknesses_def joined_items_def selected_def among_def queue_filter_def
      sample_queue_request_def sample_view_def sample_learning_def sample_queue_row_def bindE_def)

lemma sample_row_retrievability:
  assumes "ys_memory st 1 = Some sample_memory"
  shows "row_retrievability session_env sample_config (sample_queue_row st) day = Inr (Some (9 / 10))"
    and "qw_due (sample_queue_row st) = Some (replicate 8 48)" and "qw_key (sample_queue_row st) = lit ''k''"
  using assms
  by (simp_all add: sample_queue_row_def row_retrievability_def queue_row_of_def Let_def sample_learning_def
      sample_view_def sample_memory_def memory_columns_of_def cached_memory_state_def ok_or_def bindE_def
      learning_day_def retrievability_def mapE_def sample_world_defs)

lemma sample_queue:
  assumes "ys_learning st = sample_learning" and "ys_memory st 1 = Some sample_memory"
    and "ys_config st = Some sample_config"
  shows "\<exists>q e. review_queue session_env (sample_view st) sample_queue_request = Inr q \<and>
    qs_as_of q = 8 \<and> qs_items q = [e] \<and> qe_row e = sample_queue_row st"
proof -
  have day: "day_of_request session_env sample_config (rk_as_of sample_queue_request) = Inr 8"
    by (simp add: day_of_request_def sample_queue_request_def valid_date_def learning_day_def ok_or_def
        bindE_def mapE_def sample_world_defs)
  have config: "ys_config (sv_store (sample_view st)) = Some sample_config"
    by (simp add: sample_view_def assms(3))
  have due: "is_due (ev_time session_env) (sample_queue_row st) 8"
    by (simp add: is_due_def sample_row_retrievability [OF assms(2)] valid_date_def ok_or_def bindE_def
        sample_world_defs)
  have sorted: "sort_rows session_env sample_config 8 [sample_queue_row st] = Inr [sample_queue_row st]"
    by (simp add: sort_rows_def sample_row_retrievability [OF assms(2)] sort_by_def bindE_def mapE_def)
  show ?thesis
    unfolding review_queue_def queue_filter_def [symmetric]
    by (simp add: config day sample_loaded [OF assms(1)] sorted due ok_or_def bindE_def
        sample_row_retrievability [OF assms(2)] queue_entry_of_def)
      (simp add: sample_queue_request_def due queue_entry_of_def bindE_def
        sample_row_retrievability [OF assms(2)])
qed

section \<open>The properties\<close>

text \<open>Property C3. A target whose review a recorded session applied leaves the review queue at
least until the next learning day: when the queue lists it without upcoming targets, the day of
the queue is not before the day the review scheduled.\<close>

theorem reviewed_target_leaves_queue:
  assumes "study_wf st" and "record_practice E r st = (Inr resp, st')"
    and "re_status resp = Record_Created" and "ys_config st = Some cfg"
    and "record_days E cfg r = Inr (reviewed_at, review_day, date)" and "u \<in> set (re_review_updates resp)"
    and "tl_parse_date (ev_time E) (tl_format_date (ev_time E)
      (review_day + ud_scheduled_interval_days u)) = Some (review_day + ud_scheduled_interval_days u)"
    and "sv_store V = st'" and "review_queue E V request = Inr q"
    and "rk_include_upcoming request \<noteq> Some True"
    and "e \<in> set (qs_items q)" and "qw_key (qe_row e) = ud_weakness_key u"
  shows "review_day + ud_scheduled_interval_days u \<le> qs_as_of q \<and> review_day < qs_as_of q"
  by (rule reviewed_target_waits [OF assms])

theorem reviewed_target_leaves_queue_witness:
  "\<exists>resp st q e. record_practice session_env reviewed_session sample_study_store = (Inr resp, st) \<and>
     review_queue session_env (sample_view st) sample_queue_request = Inr q \<and>
     e \<in> set (qs_items q) \<and> qw_key (qe_row e) = lit ''k'' \<and> 5 < qs_as_of q"
proof -
  obtain resp st u where recorded:
    "record_practice session_env reviewed_session sample_study_store = (Inr resp, st)"
    "re_status resp = Record_Created" "re_review_updates resp = [u]" "ys_memory st 1 = Some sample_memory"
    "ys_learning st = sample_learning" "ys_config st = Some sample_config" "ud_weakness_key u = lit ''k''"
    "ud_scheduled_interval_days u = 3"
    using sample_recorded by blast
  obtain q e where q: "review_queue session_env (sample_view st) sample_queue_request = Inr q"
    "qs_items q = [e]" "qe_row e = sample_queue_row st"
    using sample_queue [OF recorded(5,4,6)] by blast
  have key: "qw_key (qe_row e) = ud_weakness_key u"
    by (simp add: q(3) sample_row_retrievability [OF recorded(4)] recorded(7))
  have "5 < qs_as_of q"
    using reviewed_target_leaves_queue [OF sample_study_wf recorded(1,2) _ sample_days _ _ _ q(1),
        of u e] recorded q key
    by (simp add: sample_study_store_def sample_view_def sample_queue_request_def sample_world_defs)
  with recorded q key show ?thesis by auto
qed

text \<open>Property C4. The review queue is the beginning of the sorted list of the targets that
qualify: its entries are strictly ordered by the comparator of \<open>sort_rows\<close> on their
retrievability, nothing that qualifies and is left out comes before an entry, and nothing is
left out while there is room.\<close>

theorem review_queue_is_prefix:
  assumes "targets_wf (ys_learning (sv_store V))" and "review_queue E V request = Inr q"
    and "load_weaknesses V (queue_filter request) = Inr rows"
  shows "\<exists>ret. let entries = map qe_row (qs_items q);
      qualified = {r \<in> set rows. unwrap_or (rk_include_upcoming request) False \<or>
        is_due (ev_time E) r (qs_as_of q)} in
    sorted_wrt (\<lambda>a b. compare_rows ret a b = Less) entries \<and>
    set entries \<subseteq> qualified \<and>
    length entries = min (min (max (unwrap_or (rk_limit request) 20) 1) 50) (card qualified) \<and>
    (\<forall>r\<in>qualified - set entries. \<forall>x\<in>set entries. compare_rows ret x r = Less) \<and>
    (\<forall>e\<in>set (qs_items q). qe_retrievability e = ret (qw_id (qe_row e)))"
  by (rule queue_is_prefix [OF assms])

theorem review_queue_is_prefix_witness:
  "\<exists>resp st q ret. record_practice session_env reviewed_session sample_study_store = (Inr resp, st) \<and>
     review_queue session_env (sample_view st) sample_queue_request = Inr q \<and>
     sorted_wrt (\<lambda>a b. compare_rows ret a b = Less) (map qe_row (qs_items q)) \<and> length (qs_items q) = 1"
proof -
  obtain resp st u where recorded:
    "record_practice session_env reviewed_session sample_study_store = (Inr resp, st)"
    "ys_memory st 1 = Some sample_memory" "ys_learning st = sample_learning"
    "ys_config st = Some sample_config"
    using sample_recorded by blast
  obtain q e where q: "review_queue session_env (sample_view st) sample_queue_request = Inr q"
    "qs_items q = [e]"
    using sample_queue [OF recorded(3,2,4)] by blast
  have "targets_wf (ys_learning (sv_store (sample_view st)))"
    using sample_study_wf
    by (simp add: study_wf_def rows_wf_def targets_ok_def sample_view_def recorded(3) sample_study_store_def)
  from review_queue_is_prefix [OF this q(1) sample_loaded [OF recorded(3)]] recorded q
  show ?thesis by (auto simp: Let_def)
qed

text \<open>Property C33. Diversification leaves the order of the targets as it is, although it is there
to bring another branch of the taxonomy forward.\<close>

theorem diversify_changes_nothing: "diversify_rows rows = rows"
  by (rule diversify_rows_same)

end
