(* ===== verification/Recommendations.thy ===== *)
theory Recommendations
  imports Queue Activities
begin

text \<open>
  Which drills suit a target: the recommendation functions of \<open>src/db.rs\<close>. A \<open>HashMap\<close> whose
  values are sorted by a strict order afterwards is an association list.
\<close>

record drill_row =
  dw_owner_id :: nat
  dw_drill_type :: drill_type
  dw_stage :: string
  dw_weight :: rat

text \<open>The tables \<open>weakness_drill_overrides\<close> and \<open>concept_drill_recommendations\<close>.\<close>

record drill_tables =
  dt_overrides :: "drill_row list"
  dt_concepts :: "drill_row list"

record drill_recommendation =
  dc_drill_type :: drill_type
  dc_stage :: string
  dc_weight :: rat
  dc_concept_distance :: nat
  dc_source_concept :: ustring

definition recommendation_key :: "drill_recommendation \<Rightarrow> drill_type \<times> string" where
  "recommendation_key r = (dc_drill_type r, dc_stage r)"

definition better :: "drill_recommendation \<Rightarrow> drill_recommendation \<Rightarrow> bool" where
  "better candidate current \<longleftrightarrow>
     dc_weight candidate > dc_weight current \<or>
     dc_weight candidate = dc_weight current \<and>
     (dc_concept_distance candidate, dc_source_concept candidate)
       < (dc_concept_distance current, dc_source_concept current)"

type_synonym best_drills = "((drill_type \<times> string) \<times> drill_recommendation) list"

definition keep_better_recommendation :: "best_drills \<Rightarrow> drill_recommendation \<Rightarrow> best_drills" where
  "keep_better_recommendation best candidate =
     (let k = recommendation_key candidate in
      if (case map_of best k of None \<Rightarrow> True | Some current \<Rightarrow> better candidate current)
      then AList.update k candidate best else best)"

definition compare_recommendations ::
    "drill_recommendation \<Rightarrow> drill_recommendation \<Rightarrow> ordering" where
  "compare_recommendations a b =
     then_with (cmp (dc_weight b) (dc_weight a))
       (then_with (cmp (dc_drill_type a) (dc_drill_type b)) (cmp (dc_stage a) (dc_stage b)))"

definition recommendation_from_row :: "drill_row \<Rightarrow> nat \<Rightarrow> ustring \<Rightarrow> drill_recommendation" where
  "recommendation_from_row d distance source =
     \<lparr>dc_drill_type = dw_drill_type d, dc_stage = dw_stage d, dc_weight = dw_weight d,
      dc_concept_distance = distance, dc_source_concept = source\<rparr>"

definition override_candidates :: "drill_tables \<Rightarrow> nat \<Rightarrow> drill_recommendation list" where
  "override_candidates D wid =
     map (\<lambda>d. recommendation_from_row d 0 (lit ''target_override''))
       (filter (\<lambda>d. dw_owner_id d = wid) (dt_overrides D))"

text \<open>The concepts of a target and what is broader, up to six steps away.\<close>

definition linked_concepts :: "learning_db \<Rightarrow> nat \<Rightarrow> (nat \<times> nat) list" where
  "linked_concepts db wid =
     recursive_query (levelled 6 (edge_pairs (lit ''broader'') (db_edges db)))
       (map (\<lambda>l. (wc_concept_id l, 0)) (filter (\<lambda>l. wc_weakness_id l = wid) (db_links db)))"

definition concept_candidates :: "drill_tables \<Rightarrow> learning_db \<Rightarrow> nat \<Rightarrow> drill_recommendation list" where
  "concept_candidates D db wid =
     sort_by (\<lambda>a b.
         then_with (cmp (dc_concept_distance a) (dc_concept_distance b))
         (then_with (compare_recommendations a b)
           (cmp (dc_source_concept a) (dc_source_concept b))))
       (concat (map (\<lambda>(cid, depth).
         concat (map (\<lambda>d. map (\<lambda>c. recommendation_from_row d depth (cn_key c))
             (filter (\<lambda>c. cn_id c = cid) (db_concepts db)))
           (filter (\<lambda>d. dw_owner_id d = cid) (dt_concepts D)))) (linked_concepts db wid)))"

definition recommendations :: "drill_tables \<Rightarrow> learning_db \<Rightarrow> nat \<Rightarrow> drill_recommendation list" where
  "recommendations D db wid =
     (let best = foldl keep_better_recommendation [] (override_candidates D wid);
          best = (if best = []
            then foldl keep_better_recommendation best (concept_candidates D db wid) else best) in
      sort_by compare_recommendations (map snd best))"

definition fallback_recommendation :: "string \<Rightarrow> drill_type \<Rightarrow> string \<Rightarrow> drill_recommendation" where
  "fallback_recommendation source d stage =
     \<lparr>dc_drill_type = d, dc_stage = stage, dc_weight = 1,
      dc_concept_distance = 9223372036854775807, dc_source_concept = lit source\<rparr>"

definition general_fallback_recommendations :: "drill_recommendation list" where
  "general_fallback_recommendations = map (\<lambda>(d, stage). fallback_recommendation ''fallback'' d stage)
     [(Drill_MinimalPairChoice, ''recognition''), (Drill_ErrorCorrection, ''recognition''),
      (Drill_Translation, ''controlled''), (Drill_SentenceTransformation, ''controlled''),
      (Drill_SentenceCompletion, ''controlled''), (Drill_SentenceCombining, ''controlled''),
      (Drill_SituationalResponse, ''transfer''), (Drill_QuestionAnswer, ''transfer''),
      (Drill_DialogueCompletion, ''controlled''), (Drill_MicroStory, ''transfer''),
      (Drill_Retell, ''transfer''), (Drill_Fluency432, ''fluency'')]"

definition activity_fallback_recommendations :: "activity_type \<Rightarrow> drill_recommendation list" where
  "activity_fallback_recommendations a =
     map (\<lambda>d. fallback_recommendation ''activity_fallback'' d
         (if d \<in> {Drill_SentenceTransformation, Drill_DialogueCompletion}
          then ''controlled'' else ''transfer''))
       (as_compatible_drills (activity_spec a))"

definition production_focused :: "drill_type set" where
  "production_focused = {Drill_SituationalResponse, Drill_SentenceTransformation,
     Drill_QuestionAnswer, Drill_DialogueCompletion, Drill_MicroStory, Drill_Retell,
     Drill_SentenceCombining, Drill_SentenceCompletion}"

definition production_stage :: "string \<Rightarrow> bool" where
  "production_stage s \<longleftrightarrow> s \<in> {''controlled'', ''transfer'', ''fluency''}"

definition mix_incompatible :: "drill_mix \<Rightarrow> bool" where
  "mix_incompatible mix \<longleftrightarrow>
     mix \<in> {Mix_TranslationOnly, Mix_RecognitionToProduction, Mix_Fluency}"

definition available_recommendations ::
    "activity_type option \<Rightarrow> drill_recommendation list \<Rightarrow> drill_recommendation list" where
  "available_recommendations activity database =
     (case activity of
        Some a \<Rightarrow>
          (let compatible = filter (\<lambda>r. dc_drill_type r \<in> set (as_compatible_drills (activity_spec a)))
             database in
           if compatible = [] then activity_fallback_recommendations a else compatible)
      | None \<Rightarrow> if database = [] then general_fallback_recommendations else database)"

definition apply_mix ::
    "drill_mix \<Rightarrow> drill_recommendation list \<Rightarrow> string + drill_recommendation list" where
  "apply_mix mix kept =
     (case mix of
         Mix_Auto \<Rightarrow> Inr kept
       | Mix_ProductionFocused \<Rightarrow>
           Inr (filter (\<lambda>r. dc_drill_type r \<in> production_focused) kept)
       | Mix_TranslationOnly \<Rightarrow>
           Inr (filter (\<lambda>r. dc_drill_type r = Drill_Translation) kept)
       | Mix_RecognitionToProduction \<Rightarrow>
           if \<not> list_ex (\<lambda>r. dc_stage r = ''recognition'') kept \<or>
              \<not> list_ex (\<lambda>r. production_stage (dc_stage r)) kept
           then Inl ''recognition_to_production requires recognition and production drills''
           else Inr kept
       | Mix_Fluency \<Rightarrow> Inr (filter (\<lambda>r. dc_drill_type r = Drill_Fluency432) kept)
       | Mix_Custom \<Rightarrow> Inr kept)"

definition eligible_recommendations ::
    "activity_type option \<Rightarrow> drill_mix \<Rightarrow> drill_type list option \<Rightarrow> drill_recommendation list \<Rightarrow>
     string + drill_recommendation list" where
  "eligible_recommendations activity mix allowed database =
     bindE (bail_if (activity \<noteq> None \<and> mix_incompatible mix)
       ''drill_mix {:?} is incompatible with activity requests'') (\<lambda>_.
     bindE (bail_if (mix = Mix_Custom \<and> unwrap_or allowed [] = [])
       ''allowed_drill_types is required for custom drill_mix'') (\<lambda>_.
     let available = available_recommendations activity database;
         kept = (case allowed of None \<Rightarrow> available
           | Some ds \<Rightarrow> filter (\<lambda>r. dc_drill_type r \<in> set ds) available) in
     bindE (apply_mix mix kept) (\<lambda>result.
     if result = [] then Inl (''no drill recommendation satisfies the requested activity, mix, '' @
       ''and allowed_drill_types constraints'')
     else Inr (sort_by compare_recommendations result))))"

section \<open>What they return\<close>

lemma comparison_recommendations: "comparison compare_recommendations"
  unfolding compare_recommendations_def [abs_def]
  by (intro comparison_then_with comparison_down comparison_cmp)

interpretation drills: comparison compare_recommendations
  by (rule comparison_recommendations)

lemma drill_types_listed: "d \<in> set (map dc_drill_type general_fallback_recommendations)"
  by (cases d) (simp_all add: general_fallback_recommendations_def fallback_recommendation_def)

lemma available_compatible:
  "r \<in> set (available_recommendations (Some a) database) \<Longrightarrow>
     dc_drill_type r \<in> set (as_compatible_drills (activity_spec a))"
  by (auto simp: available_recommendations_def activity_fallback_recommendations_def
      fallback_recommendation_def Let_def split: if_splits)

definition mix_drills :: "drill_mix \<Rightarrow> drill_type set" where
  "mix_drills mix =
     (case mix of Mix_ProductionFocused \<Rightarrow> production_focused
      | Mix_TranslationOnly \<Rightarrow> {Drill_Translation} | Mix_Fluency \<Rightarrow> {Drill_Fluency432} | _ \<Rightarrow> UNIV)"

definition both_stages :: "drill_recommendation list \<Rightarrow> bool" where
  "both_stages recs \<longleftrightarrow>
     (\<exists>r\<in>set recs. dc_stage r = ''recognition'') \<and> (\<exists>r\<in>set recs. production_stage (dc_stage r))"

lemma apply_mix_Inr:
  "apply_mix mix kept = Inr result \<Longrightarrow> set result \<subseteq> set kept \<and>
     dc_drill_type ` set result \<subseteq> mix_drills mix \<and>
     (mix = Mix_RecognitionToProduction \<longrightarrow> both_stages result)"
  by (cases mix) (auto simp: apply_mix_def mix_drills_def both_stages_def list_ex_iff split: if_splits)

lemma eligible_recommendations_Inr:
  assumes "eligible_recommendations activity mix allowed database = Inr recs"
  shows "recs \<noteq> [] \<and> sorted_wrt (\<lambda>a b. compare_recommendations a b \<noteq> Greater) recs \<and>
    set recs \<subseteq> set (available_recommendations activity database) \<and>
    (\<forall>ds. allowed = Some ds \<longrightarrow> dc_drill_type ` set recs \<subseteq> set ds) \<and>
    dc_drill_type ` set recs \<subseteq> mix_drills mix \<and>
    (mix = Mix_RecognitionToProduction \<longrightarrow> both_stages recs)"
proof -
  define kept where "kept = (case allowed of None \<Rightarrow> available_recommendations activity database
    | Some ds \<Rightarrow> filter (\<lambda>r. dc_drill_type r \<in> set ds) (available_recommendations activity database))"
  have sub: "set kept \<subseteq> set (available_recommendations activity database)"
    "\<forall>ds. allowed = Some ds \<longrightarrow> dc_drill_type ` set kept \<subseteq> set ds"
    by (auto simp: kept_def split: option.splits)
  from assms obtain result where recs: "recs = sort_by compare_recommendations result" "result \<noteq> []"
    and result: "apply_mix mix kept = Inr result"
    unfolding eligible_recommendations_def Let_def kept_def [symmetric]
    by (auto simp: ok_simps split: if_splits)
  have "recs \<noteq> []" using recs by (metis length_0_conv length_sort_by)
  moreover have "both_stages recs = both_stages result" by (simp add: both_stages_def recs(1))
  ultimately show ?thesis
    using sub apply_mix_Inr [OF result] drills.sort_by_sorted [of result]
    by (simp add: recs(1) image_subset_iff) blast
qed

end
