(* ===== verification/Briefs.thy ===== *)
theory Briefs
  imports Recommendations Preferences
begin

text \<open>
  \<open>practice_brief\<close> of \<open>src/db.rs\<close>: the checks of a request, the targets and drills it selects,
  how many items each target gets and, for an activity, the plan of its items. The reports of
  \<open>src/audit.rs\<close> and the fixed rule texts attached to the answer are left out, so are the
  recent prompts of a target; a brief for a complete exam task is handed to \<open>exam_brief\<close> of
  \<open>src/curriculum.rs\<close>.
\<close>

section \<open>Checks\<close>

definition drill_filters_given :: "practice_brief_request \<Rightarrow> bool" where
  "drill_filters_given r \<longleftrightarrow>
     pb_activity_type r \<noteq> None \<or> pb_weakness_keys r \<noteq> None \<or> pb_categories r \<noteq> None \<or>
     pb_concept_keys r \<noteq> None \<or> pb_scheme_keys r \<noteq> None \<or> pb_collection_keys r \<noteq> None \<or>
     pb_target_types r \<noteq> None \<or> pb_drill_mix r \<noteq> None \<or> pb_allowed_drill_types r \<noteq> None"

definition brief_count ::
    "activity_type option \<Rightarrow> drill_mix \<Rightarrow> nat option \<Rightarrow> string + nat" where
  "brief_count activity mix requested =
     (case activity of
        Some a \<Rightarrow>
          if is_single_response a
          then (if some_and requested (\<lambda>n. n \<noteq> 1)
            then Inl (activity_type_as_str a @ '' requires count=1'') else Inr 1)
          else Inr (unwrap_or requested (as_default_count (activity_spec a)))
      | None \<Rightarrow> if mix = Mix_Fluency then Inr 1 else Inr (unwrap_or requested 6))"

definition brief_config ::
    "practice_brief_request \<Rightarrow> nat \<Rightarrow> string + activity_config_input option" where
  "brief_config r item_count =
     (case pb_activity_type r of
        None \<Rightarrow>
          if pb_activity_config r \<noteq> None then Inl ''activity_config requires activity_type''
          else Inr None
      | Some a \<Rightarrow>
          bindE (merged_config a (pb_activity_config r)) (\<lambda>merged.
          let cfg = (if a = Act_QuestionAnswerSprint \<and>
              Option.bind (pb_activity_config r) cf_question_count = None
            then merged\<lparr>cf_question_count := Some item_count\<rparr> else merged) in
          bindE (seqE
            [bail_if (a = Act_QuestionAnswerSprint \<and> cf_question_count cfg \<noteq> Some item_count)
               ''question_count must equal the effective Q&A item count'',
             bail_if (a = Act_RolePlayComplications \<and>
                 some_and (cf_complication_count cfg) (\<lambda>n. item_count \<le> n))
               ''complication_count must be smaller than the effective item count'']) (\<lambda>_.
          Inr (Some cfg))))"

definition brief_checks :: "practice_brief_request \<Rightarrow> drill_mix \<Rightarrow> string + nat \<times> activity_config_input option" where
  "brief_checks r mix =
     bindE (seqE
       [bail_if (pb_activity_type r \<noteq> None \<and> mix_incompatible mix)
          ''drill_mix {:?} is incompatible with activity requests'',
        bail_if (mix = Mix_Custom \<and> unwrap_or (pb_allowed_drill_types r) [] = [])
          ''allowed_drill_types is required for custom drill_mix'']) (\<lambda>_.
     bindE (brief_count (pb_activity_type r) mix (pb_count r)) (\<lambda>item_count.
     bindE (seqE
       [bail_if (\<not> (1 \<le> item_count \<and> item_count \<le> 20)) ''count must be between 1 and 20'',
        bail_if (some_and (pb_planned_duration_seconds r) (\<lambda>v. \<not> (1 \<le> v \<and> v \<le> 7200)))
          ''planned_duration_seconds must be between 1 and 7200'',
        bail_if (pb_activity_type r = None \<and> pb_planned_duration_seconds r \<noteq> None)
          ''planned_duration_seconds requires activity_type'']) (\<lambda>_.
     bindE (brief_config r item_count) (\<lambda>cfg.
     Inr (item_count, cfg)))))"

section \<open>Targets\<close>

text \<open>Due targets, at most two new ones and the upcoming ones.\<close>

definition order_targets ::
    "time_lib \<Rightarrow> int \<Rightarrow> practice_brief_request \<Rightarrow> queue_row list \<Rightarrow> queue_row list" where
  "order_targets T day r rows =
     (let due = filter (\<lambda>x. qw_due x \<noteq> None \<and> is_due T x day) rows;
          new = take 2 (filter (\<lambda>x. qw_due x = None) rows);
          upcoming = filter (\<lambda>x. qw_due x \<noteq> None \<and> \<not> is_due T x day) rows in
      (if pb_objective r \<noteq> Some Objective_Explore then due @ new else new @ due) @
      (if unwrap_or (pb_include_upcoming r) True then upcoming else []))"

definition target_limit :: "drill_mix \<Rightarrow> bool \<Rightarrow> nat \<Rightarrow> nat \<Rightarrow> nat" where
  "target_limit mix explicit_cap item_count available =
     (if mix = Mix_RecognitionToProduction \<and> \<not> explicit_cap then item_count div 2
      else if explicit_cap then available
      else max ((item_count + 1) div 2) 1)"

text \<open>Every target gets one item, the rest goes round.\<close>

fun deal :: "nat list \<Rightarrow> nat \<Rightarrow> nat list \<times> nat" where
  "deal [] rest = ([], rest)"
| "deal (x # xs) rest =
     (if rest = 0 then (x # xs, 0)
      else (let (ys, rest') = deal xs (rest - 1) in (Suc x # ys, rest')))"

lemma deal_rest: "snd (deal xs rest) = rest - length xs"
  by (induction xs rest rule: deal.induct) (auto split: prod.split)

function deal_all :: "nat list \<Rightarrow> nat \<Rightarrow> nat list" where
  "deal_all out rest =
     (if rest = 0 \<or> out = [] then out
      else (let (out', rest') = deal out rest in deal_all out' rest'))"
  by pat_completeness auto

termination
proof (relation "measure snd", goal_cases)
  case (2 out rest p out' rest')
  then show ?case by (cases out) (auto simp: deal_rest simp del: deal.simps)
qed simp

declare deal_all.simps [simp del]

definition allocate :: "nat \<Rightarrow> nat \<Rightarrow> nat list" where
  "allocate item_total len =
     (if len = 0 then [] else deal_all (replicate len 1) (item_total - len))"

section \<open>The answer\<close>

datatype selection_reason =
    Classification_Pending | Uninitialized nat | Due_Review "rat option" | Upcoming_Review

definition selection_reason_of ::
    "time_lib \<Rightarrow> int \<Rightarrow> rat option \<Rightarrow> queue_row \<Rightarrow> selection_reason" where
  "selection_reason_of T day ret row =
     (if qw_pending row then Classification_Pending
      else if qw_due row = None then Uninitialized (qw_error_days row)
      else if is_due T row day then Due_Review ret
      else Upcoming_Review)"

definition communicative_function :: "learning_db \<Rightarrow> nat \<Rightarrow> ustring" where
  "communicative_function db wid =
     (let labels = map cn_label (sort_key cn_key (concat (map (\<lambda>l.
         filter (\<lambda>c. cn_id c = wc_concept_id l) (db_concepts db))
         (filter (\<lambda>l. wc_weakness_id l = wid \<and> wc_role l = lit ''function'') (db_links db))))) in
      if labels = []
      then lit ''Share a relevant experience, intention, or explanation in your own words''
      else concat (hd labels # map (\<lambda>l. lit ''; '' @ l) (tl labels)))"

definition recent_errors ::
    "study_view \<Rightarrow> nat \<Rightarrow> (ustring option \<times> ustring option) list" where
  "recent_errors V wid =
     take 3 (map (\<lambda>ow. (ow_produced ow, ow_correction ow))
       (rev (sort_key ow_id (filter (\<lambda>ow.
         ow_outcome ow \<in> {Outcome_Incorrect, Outcome_PartiallyCorrect, Outcome_Omitted} \<and>
         (ow_session_id ow, ow_observation_no ow) \<notin> set (ys_unobserved (sv_store V)) \<and>
         (ow_produced ow \<noteq> None \<or> ow_correction ow \<noteq> None))
         (active_observations V wid)))))"

record brief_target =
  bt_row :: queue_row
  bt_communicative_function :: ustring
  bt_allocation :: "nat option"
  bt_selection_reason :: selection_reason
  bt_retrievability :: "rat option"
  bt_drill_recommendations :: "drill_recommendation list"
  bt_recent_errors :: "(ustring option \<times> ustring option) list"

record item_allocation =
  ia_item_no :: nat
  ia_drill_type :: drill_type
  ia_target_weakness_key :: ustring
  ia_phase :: activity_item_phase
  ia_target_duration_seconds :: "nat option"
  ia_intended_evidence_strength :: string

record activity_plan =
  pl_activity_type :: activity_type
  pl_item_count :: nat
  pl_config :: activity_config_input
  pl_item_allocations :: "item_allocation list option"
  pl_planned_duration_seconds :: "nat option"

record brief =
  br_as_of :: int
  br_objective :: practice_objective
  br_count :: nat
  br_level :: ustring
  br_drill_mix :: drill_mix
  br_targets :: "brief_target list option"
  br_tutor_targets :: "brief_target list option"
  br_activity_plan :: "activity_plan option"
  br_policy :: resolved_policy

datatype brief_answer =
    Exam_Brief practice_brief_request resolved_policy
  | No_Compatible_Activity resolved_policy "string list"
  | Brief brief

definition brief_target_of ::
    "record_env \<Rightarrow> study_view \<Rightarrow> scheduler_config_row \<Rightarrow> int \<Rightarrow>
     (queue_row \<times> nat) \<times> drill_recommendation list \<Rightarrow> string + brief_target" where
  "brief_target_of E V cfg day p =
     (let ((row, allocation), recs) = p in
      bindE (row_retrievability E cfg row day) (\<lambda>ret.
      Inr \<lparr>bt_row = row,
        bt_communicative_function = communicative_function (ys_learning (sv_store V)) (qw_id row),
        bt_allocation = Some allocation,
        bt_selection_reason = selection_reason_of (ev_time E) day ret row,
        bt_retrievability = ret, bt_drill_recommendations = recs,
        bt_recent_errors = recent_errors V (qw_id row)\<rparr>))"

section \<open>The items of an activity\<close>

definition item_recommendation ::
    "drill_mix \<Rightarrow> nat \<Rightarrow> drill_recommendation list \<Rightarrow> string + drill_recommendation" where
  "item_recommendation mix occurrence recs =
     (if mix = Mix_RecognitionToProduction
      then (if occurrence = 0
        then ok_or (find (\<lambda>r. dc_stage r = ''recognition'') recs)
          ''validated recognition recommendation is missing''
        else ok_or (find (\<lambda>r. production_stage (dc_stage r)) recs)
          ''validated production recommendation is missing'')
      else (case recs of
          [] \<Rightarrow> Inl ''validated drill recommendation is missing''
        | r # _ \<Rightarrow> Inr r))"

record item_loop =
  il_occurrences :: "nat list"
  il_cursor :: nat
  il_items :: "item_allocation list"

definition plan_item ::
    "activity_type \<Rightarrow> drill_mix \<Rightarrow> activity_config_input \<Rightarrow> queue_row list \<Rightarrow> nat list \<Rightarrow>
     drill_recommendation list list \<Rightarrow> nat \<Rightarrow> item_loop \<Rightarrow> nat \<Rightarrow> string + item_loop" where
  "plan_item a mix cfg ordered allocations eligible item_total s item_no =
     (let n = length ordered; occurrences = il_occurrences s in
      bindE (ok_or (find (\<lambda>i. occurrences ! i < allocations ! i)
          (map (\<lambda>offset. (il_cursor s + offset) mod n) [0..<n]))
        ''round-robin allocation could not cover every item'') (\<lambda>i.
      bindE (item_recommendation mix (occurrences ! i) (eligible ! i)) (\<lambda>rec.
      Inr \<lparr>il_occurrences = occurrences[i := Suc (occurrences ! i)], il_cursor = Suc i mod n,
        il_items = il_items s @
          [\<lparr>ia_item_no = item_no, ia_drill_type = dc_drill_type rec,
            ia_target_weakness_key = qw_key (ordered ! i),
            ia_phase = phase_for_item a (item_no - 1) item_total
              (unwrap_or (cf_complication_count cfg) 0),
            ia_target_duration_seconds = cf_response_seconds cfg,
            ia_intended_evidence_strength = as_intended_evidence_strength (activity_spec a)\<rparr>]\<rparr>)))"

definition plan_items ::
    "activity_type \<Rightarrow> drill_mix \<Rightarrow> activity_config_input \<Rightarrow> queue_row list \<Rightarrow> nat list \<Rightarrow>
     drill_recommendation list list \<Rightarrow> string + item_allocation list" where
  "plan_items a mix cfg ordered allocations eligible =
     (let item_total = sum_list allocations in
      mapE il_items (foldE (plan_item a mix cfg ordered allocations eligible item_total)
        \<lparr>il_occurrences = replicate (length ordered) 0, il_cursor = 0, il_items = []\<rparr>
        [1..<Suc item_total]))"

definition activity_plan_of ::
    "practice_brief_request \<Rightarrow> drill_mix \<Rightarrow> activity_config_input option \<Rightarrow> queue_row list \<Rightarrow>
     nat list \<Rightarrow> drill_recommendation list list \<Rightarrow> string + activity_plan option" where
  "activity_plan_of r mix merged ordered allocations eligible =
     (case pb_activity_type r of
        None \<Rightarrow> Inr None
      | Some a \<Rightarrow>
          bindE (ok_or merged ''activity configuration is missing'') (\<lambda>cfg.
          bindE (plan_items a mix cfg ordered allocations eligible) (\<lambda>items.
          Inr (Some \<lparr>pl_activity_type = a, pl_item_count = sum_list allocations, pl_config = cfg,
            pl_item_allocations = Some items,
            pl_planned_duration_seconds = or_else (pb_planned_duration_seconds r)
              (as_default_planned_duration_seconds (activity_spec a))\<rparr>))))"

section \<open>The brief\<close>

text \<open>In spontaneous mode the targets are only in the tutor's context, without allocations.\<close>

definition hide_targets :: "brief \<Rightarrow> brief" where
  "hide_targets b = b
     \<lparr>br_targets := None,
      br_tutor_targets := map_option (map (\<lambda>t. t\<lparr>bt_allocation := None\<rparr>)) (br_targets b),
      br_activity_plan := map_option (\<lambda>p. p\<lparr>pl_item_allocations := None\<rparr>) (br_activity_plan b)\<rparr>"

definition brief_targets_of ::
    "record_env \<Rightarrow> study_view \<Rightarrow> scheduler_config_row \<Rightarrow> practice_brief_request \<Rightarrow> drill_mix \<Rightarrow> nat \<Rightarrow>
     int \<Rightarrow> string + queue_row list" where
  "brief_targets_of E V cfg r mix item_count day =
     (let explicit = pb_weakness_keys r in
      bindE (seqE
        [bail_if (some_and explicit (\<lambda>ks. length ks > item_count))
           ''explicit weakness list contains more targets than count'',
         bail_if (mix = Mix_RecognitionToProduction \<and> some_and explicit (\<lambda>ks. item_count < 2 * length ks))
           ''recognition_to_production requires at least two items per explicit target'']) (\<lambda>_.
      bindE (load_weaknesses V
        \<lparr>tf_categories = pb_categories r, tf_keys = explicit, tf_concepts = pb_concept_keys r,
         tf_schemes = pb_scheme_keys r, tf_collections = pb_collection_keys r,
         tf_target_types = pb_target_types r, tf_include_nonactive = False\<rparr>) (\<lambda>rows.
      bindE (forE (\<lambda>k. bail_if (k \<notin> qw_key ` set rows) ''unknown or inactive weakness key: {key}'')
        (unwrap_or explicit [])) (\<lambda>_.
      bindE (sort_rows E cfg day rows) (\<lambda>rows.
      let ordered = diversify_rows (if explicit \<noteq> None then rows
            else order_targets (ev_time E) day r rows);
          target_count = min (length ordered) (target_limit mix (explicit \<noteq> None) item_count (length ordered)) in
      if target_count = 0 then Inl ''no active weakness matches the requested practice filters''
      else Inr (take target_count ordered))))))"

definition drills_of ::
    "drill_tables \<Rightarrow> learning_db \<Rightarrow> practice_brief_request \<Rightarrow> drill_mix \<Rightarrow> queue_row \<Rightarrow>
     string + drill_recommendation list" where
  "drills_of D db r mix row =
     map_errE (\<lambda>e. ''weakness {}: '' @ e) (eligible_recommendations (pb_activity_type r) mix
       (pb_allowed_drill_types r) (recommendations D db (qw_id row)))"

definition assemble_brief ::
    "record_env \<Rightarrow> study_view \<Rightarrow> drill_tables \<Rightarrow> scheduler_config_row \<Rightarrow> resolved_policy \<Rightarrow>
     practice_brief_request \<Rightarrow> string + brief_answer" where
  "assemble_brief E V D cfg policy r =
     (let mix = unwrap_or (pb_drill_mix r) Mix_Auto in
      bindE (brief_checks r mix) (\<lambda>(item_count, merged).
      bindE (day_of_request E cfg (pb_as_of r)) (\<lambda>day.
      bindE (brief_targets_of E V cfg r mix item_count day) (\<lambda>ordered.
      let allocations = allocate item_count (length ordered) in
      case collectE (drills_of D (ys_learning (sv_store V)) r mix) ordered of
        Inl e \<Rightarrow> Inr (No_Compatible_Activity policy [e])
      | Inr eligible \<Rightarrow>
          bindE (collectE (brief_target_of E V cfg day) (zip (zip ordered allocations) eligible)) (\<lambda>targets.
          bindE (activity_plan_of r mix merged ordered allocations eligible) (\<lambda>plan.
          let b = \<lparr>br_as_of = day, br_objective = unwrap_or (pb_objective r) Objective_ReviewDue,
              br_count = sum_list allocations, br_level = unwrap_or (pb_level r) (lit ''A2''),
              br_drill_mix = mix, br_targets = Some targets, br_tutor_targets = None,
              br_activity_plan = plan, br_policy = policy\<rparr> in
          Inr (Brief (if pf_default_practice_mode (rp_effective_preferences policy) =
              Practice_Spontaneous then hide_targets b else b))))))))"

definition complete_task_requested :: "practice_brief_request \<Rightarrow> bool" where
  "complete_task_requested r \<longleftrightarrow> pb_task_first r = Some True \<or>
     some_and (pb_exam_task r) (\<lambda>t. t \<notin> {Exam_Reading, Exam_Listening})"

definition practice_brief ::
    "record_env \<Rightarrow> study_view \<Rightarrow> drill_tables \<Rightarrow> practice_brief_request \<Rightarrow> string + brief_answer" where
  "practice_brief E V D request =
     bindE (bail_if (pb_task_first request = Some True \<and> drill_filters_given request)
       ''task_first selects complete tasks; omit drill, activity and weakness filters'') (\<lambda>_.
     bindE (constrain (ys_preferences (sv_store V)) request) (\<lambda>(policy, r).
     if complete_task_requested r \<and> rp_conflicts policy = [] then Inr (Exam_Brief r policy)
     else if rp_conflicts policy \<noteq> [] \<or> pb_allowed_drill_types r = Some []
     then Inr (No_Compatible_Activity policy
       (if rp_conflicts policy = []
        then [''No permitted initial format remains; choose an open format or supply a sourced session override.'']
        else rp_conflicts policy))
     else
       bindE (ok_or (ys_config (sv_store V)) ''Query returned no rows'') (\<lambda>cfg.
       assemble_brief E V D cfg policy r)))"

end
