(* ===== verification/BriefsCorrect.thy ===== *)
theory BriefsCorrect
  imports Briefs QueueCorrect PreferenceUpdates
begin

text \<open>
  What a practice brief promises: the items are dealt evenly, the plan of an activity covers
  every target exactly as often as it was dealt, with drills the request allows.
\<close>

section \<open>Dealing the items\<close>

lemma deal_fst:
  "length (fst (deal xs rest)) = length xs \<and>
   (\<forall>i<length xs. fst (deal xs rest) ! i = xs ! i + (if i < rest then 1 else 0))"
  by (induction xs rest rule: deal.induct) (auto simp: nth_Cons' split: prod.splits)

lemma deal_sum: "sum_list (fst (deal xs rest)) + snd (deal xs rest) = sum_list xs + rest"
  by (induction xs rest rule: deal.induct) (auto split: prod.splits)

lemma deal_all_step:
  "rest \<noteq> 0 \<Longrightarrow> out \<noteq> [] \<Longrightarrow> deal_all out rest = deal_all (fst (deal out rest)) (rest - length out)"
  using deal_rest [of out rest] by (subst deal_all.simps) (auto simp: Let_def split: prod.split)

lemma deal_all_done [simp]: "deal_all out 0 = out" "deal_all [] rest = []"
  by (subst deal_all.simps; simp)+

lemma deal_all_sum: "out \<noteq> [] \<Longrightarrow> sum_list (deal_all out rest) = sum_list out + rest"
proof (induction out rest rule: deal_all.induct)
  case (1 out rest)
  show ?case
  proof (cases "rest = 0")
    case False
    have "fst (deal out rest) \<noteq> []"
      using deal_fst [of out rest] 1(2) by (cases out) auto
    with 1 False have "sum_list (deal_all (fst (deal out rest)) (snd (deal out rest))) =
        sum_list (fst (deal out rest)) + snd (deal out rest)"
      by (cases "deal out rest") auto
    then show ?thesis
      using False 1(2) deal_sum [of out rest] by (simp add: deal_all_step deal_rest)
  qed simp
qed

lemma deal_all_nth:
  "length (deal_all out rest) = length out \<and>
   (\<forall>i<length out. deal_all out rest ! i =
      out ! i + rest div length out + (if i < rest mod length out then 1 else 0))"
proof (induction out rest rule: deal_all.induct)
  case (1 out rest)
  show ?case
  proof (cases "rest = 0 \<or> out = []")
    case False
    let ?out = "fst (deal out rest)" and ?n = "length out"
    have IH: "length (deal_all ?out (rest - ?n)) = ?n \<and>
        (\<forall>i<?n. deal_all ?out (rest - ?n) ! i =
          ?out ! i + (rest - ?n) div ?n + (if i < (rest - ?n) mod ?n then 1 else 0))"
      using 1 False deal_fst [of out rest] deal_rest [of out rest] by (cases "deal out rest") auto
    have "rest div ?n = (if rest < ?n then 0 else Suc ((rest - ?n) div ?n))"
        "rest mod ?n = (if rest < ?n then rest else (rest - ?n) mod ?n)"
      using False by (auto simp: le_div_geq le_mod_geq)
    then show ?thesis
      using IH False deal_fst [of out rest] by (auto simp: deal_all_step)
  qed auto
qed

lemma allocate_length [simp]: "length (allocate items len) = len"
  using deal_all_nth [of "replicate len 1"] by (simp add: allocate_def)

lemma allocate_sum: "0 < len \<Longrightarrow> sum_list (allocate items len) = max items len"
  by (simp add: allocate_def deal_all_sum sum_list_replicate)

lemma allocate_nth:
  assumes "len \<le> items" and "i < len"
  shows "allocate items len ! i = items div len + (if i < items mod len then 1 else 0)"
  using assms deal_all_nth [of "replicate len 1" "items - len"]
  by (simp add: allocate_def le_div_geq le_mod_geq)

lemma allocate_pos: "0 < len \<Longrightarrow> n \<in> set (allocate items len) \<Longrightarrow> 1 \<le> n"
  using deal_all_nth [of "replicate len 1" "items - len"]
  by (auto simp: allocate_def in_set_conv_nth)

section \<open>The round robin\<close>

text \<open>From the cursor on, every index is tried.\<close>

lemma cyclic_indices: "(0::nat) < n \<Longrightarrow> set (map (\<lambda>offset. (cursor + offset) mod n) [0..<n]) = {0..<n}"
proof -
  assume n: "0 < n"
  have "\<exists>offset<n. (cursor + offset) mod n = i" if "i < n" for i
  proof -
    have "(cursor + (i + n - cursor mod n) mod n) mod n = (cursor mod n + (i + n - cursor mod n)) mod n"
      by (simp add: mod_simps)
    also have "cursor mod n + (i + n - cursor mod n) = i + n"
      using mod_less_divisor [OF n, of cursor] by linarith
    also have "(i + n) mod n = i" using that by simp
    finally show ?thesis using n by (intro exI [of _ "(i + n - cursor mod n) mod n"]) simp
  qed
  then have "{0..<n} \<subseteq> (\<lambda>offset. (cursor + offset) mod n) ` {0..<n}" by fastforce
  then show ?thesis using mod_less_divisor [OF n] by auto
qed

lemma sum_list_less: "length xs = length ys \<Longrightarrow> sum_list xs < sum_list ys \<Longrightarrow>
  \<exists>i<length xs. xs ! i < ys ! i" for xs ys :: "nat list"
proof (induction xs ys rule: list_induct2)
  case (Cons x xs y ys)
  show ?case
  proof (cases "x < y")
    case False
    with Cons obtain i where "i < length xs" "xs ! i < ys ! i" by auto
    then show ?thesis by (intro exI [of _ "Suc i"]) simp
  qed (intro exI [of _ 0], simp)
qed simp

lemma sum_list_strict:
  "list_all2 (\<le>) xs ys \<Longrightarrow> i < length xs \<Longrightarrow> xs ! i < ys ! i \<Longrightarrow> sum_list xs < sum_list ys"
  for xs ys :: "nat list"
proof (induction arbitrary: i rule: list_all2_induct)
  case (Cons x xs y ys)
  have "sum_list xs \<le> sum_list ys" using Cons(2) by (induction rule: list_all2_induct) auto
  with Cons show ?case by (cases i) (auto intro: add_less_le_mono add_le_less_mono)
qed simp

text \<open>Drills from which every occurrence of a target can choose.\<close>

definition drills_suffice :: "drill_mix \<Rightarrow> drill_recommendation list \<Rightarrow> bool" where
  "drills_suffice mix recs \<longleftrightarrow> recs \<noteq> [] \<and> (mix = Mix_RecognitionToProduction \<longrightarrow> both_stages recs)"

lemma item_recommendation_total:
  "drills_suffice mix recs \<Longrightarrow> \<exists>r\<in>set recs. item_recommendation mix k recs = Inr r"
  by (cases "find (\<lambda>r. dc_stage r = ''recognition'') recs";
      cases "find (\<lambda>r. production_stage (dc_stage r)) recs"; cases recs)
    (auto simp: item_recommendation_def drills_suffice_def both_stages_def ok_or_def find_None_iff
      dest: find_SomeD split: if_splits)

definition items_for :: "queue_row \<Rightarrow> item_allocation list \<Rightarrow> nat" where
  "items_for row items = length (filter (\<lambda>x. ia_target_weakness_key x = qw_key row) items)"

definition item_fits :: "activity_type \<Rightarrow> queue_row list \<Rightarrow> drill_recommendation list list \<Rightarrow>
    item_allocation \<Rightarrow> bool" where
  "item_fits a ordered eligible x \<longleftrightarrow>
     (\<exists>i<length ordered. ia_target_weakness_key x = qw_key (ordered ! i) \<and>
        ia_drill_type x \<in> dc_drill_type ` set (eligible ! i)) \<and>
     ia_intended_evidence_strength x = as_intended_evidence_strength (activity_spec a)"

definition robin_inv :: "activity_type \<Rightarrow> activity_config_input \<Rightarrow> queue_row list \<Rightarrow> nat list \<Rightarrow>
    drill_recommendation list list \<Rightarrow> nat \<Rightarrow> item_loop \<Rightarrow> bool" where
  "robin_inv a cfg ordered allocations eligible k s \<longleftrightarrow>
     length (il_occurrences s) = length ordered \<and> sum_list (il_occurrences s) = k \<and>
     (\<forall>i<length ordered. il_occurrences s ! i \<le> allocations ! i \<and>
        items_for (ordered ! i) (il_items s) = il_occurrences s ! i) \<and>
     map ia_item_no (il_items s) = [1..<Suc k] \<and>
     map ia_phase (il_items s) = map (\<lambda>n. phase_for_item a n (sum_list allocations)
       (unwrap_or (cf_complication_count cfg) 0)) [0..<k] \<and>
     (\<forall>x\<in>set (il_items s). item_fits a ordered eligible x)"

lemma plan_item_step:
  assumes inv: "robin_inv a cfg ordered allocations eligible k s"
    and more: "k < sum_list allocations" and len: "length allocations = length ordered"
      "length eligible = length ordered"
    and drills: "\<And>recs. recs \<in> set eligible \<Longrightarrow> drills_suffice mix recs"
    and keys: "distinct (map qw_key ordered)"
  shows "\<exists>s'. plan_item a mix cfg ordered allocations eligible (sum_list allocations) s (Suc k) = Inr s' \<and>
    robin_inv a cfg ordered allocations eligible (Suc k) s'"
proof -
  let ?n = "length ordered" and ?occ = "il_occurrences s"
  let ?order = "map (\<lambda>offset. (il_cursor s + offset) mod ?n) [0..<?n]"
  from inv have occ: "length ?occ = ?n" "sum_list ?occ = k" by (simp_all add: robin_inv_def)
  obtain i0 where i0: "i0 < ?n" "?occ ! i0 < allocations ! i0"
    using sum_list_less [of ?occ allocations] occ more len by auto
  then have "0 < ?n" by linarith
  then have order: "set ?order = {0..<?n}" by (rule cyclic_indices)
  obtain i where found: "find (\<lambda>i. ?occ ! i < allocations ! i) ?order = Some i"
    using i0 order by (cases "find (\<lambda>i. ?occ ! i < allocations ! i) ?order") (auto simp: find_None_iff)
  from find_SomeD [OF found] order have i: "i < ?n" "?occ ! i < allocations ! i" by auto
  then have "drills_suffice mix (eligible ! i)" using drills len by simp
  then obtain rec where rec: "item_recommendation mix (?occ ! i) (eligible ! i) = Inr rec"
      "rec \<in> set (eligible ! i)"
    using item_recommendation_total by blast
  define x where "x = \<lparr>ia_item_no = Suc k, ia_drill_type = dc_drill_type rec,
      ia_target_weakness_key = qw_key (ordered ! i),
      ia_phase = phase_for_item a k (sum_list allocations) (unwrap_or (cf_complication_count cfg) 0),
      ia_target_duration_seconds = cf_response_seconds cfg,
      ia_intended_evidence_strength = as_intended_evidence_strength (activity_spec a)\<rparr>"
  define s' where "s' = \<lparr>il_occurrences = ?occ[i := Suc (?occ ! i)], il_cursor = Suc i mod ?n,
      il_items = il_items s @ [x]\<rparr>"
  have step: "plan_item a mix cfg ordered allocations eligible (sum_list allocations) s (Suc k) = Inr s'"
    by (simp add: plan_item_def Let_def found rec(1) ok_or_def bindE_def s'_def x_def)
  have "items_for (ordered ! j) [x] = (if j = i then 1 else 0)" if "j < ?n" for j
    using that i(1) keys by (auto simp: items_for_def x_def distinct_conv_nth)
  then have counts: "items_for (ordered ! j) (il_items s @ [x]) =
      items_for (ordered ! j) (il_items s) + (if j = i then 1 else 0)" if "j < ?n" for j
    using that by (simp add: items_for_def)
  have sum: "sum_list (?occ[i := Suc (?occ ! i)]) = Suc k"
    using occ i(1) elem_le_sum_list [of i ?occ] by (simp add: sum_list_update)
  have "item_fits a ordered eligible x"
    using i(1) rec(2) by (auto simp: item_fits_def x_def)
  then have "robin_inv a cfg ordered allocations eligible (Suc k) s'"
    using inv sum i counts by (auto simp: robin_inv_def s'_def nth_list_update x_def)
  with step show ?thesis by blast
qed

lemma plan_items_total:
  assumes len: "length allocations = length ordered" "length eligible = length ordered"
    and drills: "\<And>recs. recs \<in> set eligible \<Longrightarrow> drills_suffice mix recs"
    and keys: "distinct (map qw_key ordered)"
  shows "\<exists>items. plan_items a mix cfg ordered allocations eligible = Inr items \<and>
    length items = sum_list allocations \<and> map ia_item_no items = [1..<Suc (length items)] \<and>
    map ia_phase items = map (\<lambda>n. phase_for_item a n (length items)
      (unwrap_or (cf_complication_count cfg) 0)) [0..<length items] \<and>
    (\<forall>i<length ordered. items_for (ordered ! i) items = allocations ! i) \<and>
    (\<forall>x\<in>set items. item_fits a ordered eligible x)"
proof -
  let ?step = "plan_item a mix cfg ordered allocations eligible (sum_list allocations)"
  let ?s0 = "\<lparr>il_occurrences = replicate (length ordered) 0, il_cursor = 0, il_items = []\<rparr>"
  have "\<exists>s. foldE ?step ?s0 [1..<Suc k] = Inr s \<and> robin_inv a cfg ordered allocations eligible k s"
    if "k \<le> sum_list allocations" for k
    using that
  proof (induction k)
    case 0
    show ?case by (simp add: robin_inv_def items_for_def sum_list_replicate)
  next
    case (Suc k)
    then obtain s where "foldE ?step ?s0 [1..<Suc k] = Inr s"
      "robin_inv a cfg ordered allocations eligible k s" by auto
    with plan_item_step [OF _ _ len drills keys, of a cfg k s] Suc.prems show ?case
      by (auto simp: foldE_append bindE_def)
  qed
  from this [OF order_refl] obtain s where
    loop: "foldE ?step ?s0 [1..<Suc (sum_list allocations)] = Inr s"
    and inv: "robin_inv a cfg ordered allocations eligible (sum_list allocations) s" by blast
  have full: "il_occurrences s ! i = allocations ! i" if "i < length ordered" for i
  proof (rule ccontr)
    assume "il_occurrences s ! i \<noteq> allocations ! i"
    with inv that have "il_occurrences s ! i < allocations ! i"
      by (auto simp: robin_inv_def le_less)
    moreover have "list_all2 (\<le>) (il_occurrences s) allocations"
      using inv len by (simp add: robin_inv_def list_all2_conv_all_nth)
    ultimately have "sum_list (il_occurrences s) < sum_list allocations"
      using that inv by (intro sum_list_strict [of _ _ i]) (auto simp: robin_inv_def)
    then show False using inv by (simp add: robin_inv_def)
  qed
  have "length (il_items s) = sum_list allocations"
    using inv unfolding robin_inv_def by (metis diff_Suc_1 length_map length_upt)
  then show ?thesis
    using loop inv full by (auto simp: plan_items_def Let_def mapE_def robin_inv_def)
qed

section \<open>The steps of a brief\<close>

definition shown_targets :: "brief \<Rightarrow> brief_target list" where
  "shown_targets b = (case br_targets b of Some ts \<Rightarrow> ts | None \<Rightarrow> unwrap_or (br_tutor_targets b) [])"

lemma brief_checks_Inr:
  assumes "brief_checks r mix = Inr (n, cfg)"
  shows "1 \<le> n \<and> n \<le> 20 \<and> \<not> (pb_activity_type r \<noteq> None \<and> mix_incompatible mix) \<and>
    brief_count (pb_activity_type r) mix (pb_count r) = Inr n \<and> brief_config r n = Inr cfg"
  using assms by (auto simp: brief_checks_def ok_simps)

lemma brief_config_Some:
  "brief_config r n = Inr cfg \<Longrightarrow> pb_activity_type r = Some a \<Longrightarrow> \<exists>c. cfg = Some c"
  by (auto simp: brief_config_def Let_def ok_simps)

lemma target_limit_le: "1 \<le> n \<Longrightarrow> target_limit mix False n k \<le> n"
  by (auto simp: target_limit_def)

definition brief_filter :: "practice_brief_request \<Rightarrow> target_filter" where
  "brief_filter r =
     \<lparr>tf_categories = pb_categories r, tf_keys = pb_weakness_keys r, tf_concepts = pb_concept_keys r,
      tf_schemes = pb_scheme_keys r, tf_collections = pb_collection_keys r,
      tf_target_types = pb_target_types r, tf_include_nonactive = False\<rparr>"

lemma brief_targets_of_Inr:
  assumes "brief_targets_of E V cfg r mix n day = Inr ordered"
  obtains rows sorted all where "load_weaknesses V (brief_filter r) = Inr rows"
    and "sort_rows E cfg day rows = Inr sorted" and "ordered \<noteq> []"
    and "all = (if pb_weakness_keys r \<noteq> None then sorted else order_targets (ev_time E) day r sorted)"
    and "ordered = take (target_limit mix (pb_weakness_keys r \<noteq> None) n (length all)) all"
    and "some_and (pb_weakness_keys r) (\<lambda>ks. n < length ks) \<Longrightarrow> False"
    and "\<And>k. k \<in> set (unwrap_or (pb_weakness_keys r) []) \<Longrightarrow> k \<in> qw_key ` set rows"
proof -
  from assms obtain rows sorted where *: "load_weaknesses V (brief_filter r) = Inr rows"
    "sort_rows E cfg day rows = Inr sorted"
    "\<not> some_and (pb_weakness_keys r) (\<lambda>ks. n < length ks)"
    "\<forall>k\<in>set (unwrap_or (pb_weakness_keys r) []). k \<in> qw_key ` set rows"
    and last: "(let ordered = diversify_rows (if pb_weakness_keys r \<noteq> None then sorted
            else order_targets (ev_time E) day r sorted);
          target_count = min (length ordered) (target_limit mix (pb_weakness_keys r \<noteq> None) n (length ordered)) in
      if target_count = 0 then Inl ''no active weakness matches the requested practice filters''
      else Inr (take target_count ordered)) = Inr ordered"
    unfolding brief_targets_of_def Let_def [of "pb_weakness_keys r"] brief_filter_def [symmetric]
    by (auto simp: ok_simps)
  define all where "all = (if pb_weakness_keys r \<noteq> None then sorted
      else order_targets (ev_time E) day r sorted)"
  let ?n = "target_limit mix (pb_weakness_keys r \<noteq> None) n (length all)"
  from last have taken: "ordered = take (min (length all) ?n) all" "min (length all) ?n \<noteq> 0"
    unfolding all_def [symmetric] Let_def diversify_rows_same by (auto split: if_splits)
  have "take (min (length all) ?n) all = take ?n all"
    by (cases "length all \<le> ?n") (simp_all add: min_def)
  moreover have "ordered \<noteq> []"
  proof
    assume "ordered = []"
    with taken(1) have "min (length all) ?n = 0" by (metis list.size(3) min.idem min.assoc length_take)
    with taken(2) show False by blast
  qed
  ultimately show thesis
    using taken(1) *(3,4) by (intro that [OF *(1,2) _ all_def]) auto
qed

lemma order_targets_subset: "set (order_targets T day r rows) \<subseteq> set rows"
  by (auto simp: order_targets_def Let_def dest: in_set_takeD)

lemma order_targets_distinct:
  assumes "distinct (map f rows)"
  shows "distinct (map f (order_targets T day r rows))"
proof -
  have f: "inj_on f (set rows)" "distinct rows" using assms by (simp_all add: distinct_map)
  have "distinct (order_targets T day r rows)"
    using f(2) by (auto simp: order_targets_def Let_def dest: in_set_takeD)
  then show ?thesis
    using inj_on_subset [OF f(1) order_targets_subset] by (simp add: distinct_map)
qed

text \<open>Targets named in the request are at most as many as the names.\<close>

lemma named_rows:
  assumes "targets_wf (ys_learning (sv_store V))" and "load_weaknesses V f = Inr rows"
    and "tf_keys f = Some ks" and "ks \<noteq> []"
  shows "qw_key ` set rows \<subseteq> set ks" "length rows \<le> length ks"
proof -
  show sub: "qw_key ` set rows \<subseteq> set ks"
    by (rule load_weaknesses_wf [OF assms(1,2)])
      (use assms(3,4) in \<open>auto simp: selected_def among_def list_ex_iff\<close>)
  have "length rows = card (qw_key ` set rows)"
    using load_weaknesses_distinct(2) [OF assms(1,2)] by (metis distinct_card length_map set_map)
  also have "\<dots> \<le> card (set ks)" using sub by (intro card_mono) auto
  finally show "length rows \<le> length ks" using card_length [of ks] by simp
qed

text \<open>The targets a brief is about.\<close>

lemma brief_targets_bound:
  assumes wf: "targets_wf (ys_learning (sv_store V))"
    and "brief_targets_of E V cfg r mix n day = Inr ordered" and "1 \<le> n"
  shows "distinct (map qw_key ordered) \<and> ordered \<noteq> [] \<and>
    (pb_weakness_keys r \<noteq> Some [] \<longrightarrow> length ordered \<le> n) \<and>
    (\<exists>rows. load_weaknesses V (brief_filter r) = Inr rows \<and> set ordered \<subseteq> set rows \<and>
       (pb_weakness_keys r \<noteq> None \<longrightarrow> set ordered = set rows \<and> length ordered = length rows))"
  using assms(2)
proof (rule brief_targets_of_Inr)
  fix rows sorted all
  assume rows: "load_weaknesses V (brief_filter r) = Inr rows"
    and sort: "sort_rows E cfg day rows = Inr sorted" and "ordered \<noteq> []"
    and all: "all = (if pb_weakness_keys r \<noteq> None then sorted else order_targets (ev_time E) day r sorted)"
    and taken: "ordered = take (target_limit mix (pb_weakness_keys r \<noteq> None) n (length all)) all"
    and few: "some_and (pb_weakness_keys r) (\<lambda>ks. n < length ks) \<Longrightarrow> False"
  note ids = load_weaknesses_distinct [OF wf rows]
  obtain ret where sorted: "sorted = sort_by (compare_rows ret) rows"
    using sort_rows_Inr [OF sort ids(1)] by blast
  have "distinct (map qw_key sorted)" using ids(2) by (simp add: sorted distinct_sort_by)
  then have "distinct (map qw_key all)" by (simp add: all order_targets_distinct)
  then have keys: "distinct (map qw_key ordered)"
    unfolding taken take_map [symmetric] by (rule distinct_take)
  have sub: "set ordered \<subseteq> set rows"
    using order_targets_subset [of "ev_time E" day r sorted] set_take_subset [of _ all]
    by (fastforce simp: taken all sorted split: if_splits)
  have explicit: "ordered = sorted" if "pb_weakness_keys r \<noteq> None"
    using that by (simp add: taken all target_limit_def split: if_splits)
  have "length ordered \<le> n" if "pb_weakness_keys r \<noteq> Some []"
  proof (cases "pb_weakness_keys r")
    case None
    then show ?thesis using target_limit_le [OF assms(3)] by (simp add: taken min_le_iff_disj)
  next
    case (Some ks)
    with that have "length rows \<le> length ks"
      using named_rows [OF wf rows, of ks] by (simp add: brief_filter_def)
    with Some few explicit show ?thesis by (force simp: sorted)
  qed
  then show ?thesis
    using keys sub explicit rows \<open>ordered \<noteq> []\<close> by (auto simp: sorted)
qed

section \<open>The brief\<close>

definition assembled ::
    "record_env \<Rightarrow> study_view \<Rightarrow> drill_tables \<Rightarrow> resolved_policy \<Rightarrow> practice_brief_request \<Rightarrow> nat \<Rightarrow>
     queue_row list \<Rightarrow> drill_recommendation list list \<Rightarrow> brief_target list \<Rightarrow> activity_plan option \<Rightarrow>
     brief \<Rightarrow> bool" where
  "assembled E V D policy r n ordered eligible targets plan b \<longleftrightarrow>
     (\<exists>cfg config day. let mix = unwrap_or (pb_drill_mix r) Mix_Auto in
        brief_checks r mix = Inr (n, config) \<and>
        brief_targets_of E V cfg r mix n day = Inr ordered \<and>
        collectE (drills_of D (ys_learning (sv_store V)) r mix) ordered = Inr eligible \<and>
        collectE (brief_target_of E V cfg day)
          (zip (zip ordered (allocate n (length ordered))) eligible) = Inr targets \<and>
        activity_plan_of r mix config ordered (allocate n (length ordered)) eligible = Inr plan \<and>
        br_count b = sum_list (allocate n (length ordered)) \<and> br_drill_mix b = mix \<and>
        br_policy b = policy \<and> br_as_of b = day \<and>
        (if pf_default_practice_mode (rp_effective_preferences policy) = Practice_Spontaneous
         then br_targets b = None \<and>
           br_tutor_targets b = Some (map (\<lambda>t. t\<lparr>bt_allocation := None\<rparr>) targets) \<and>
           br_activity_plan b = map_option (\<lambda>p. p\<lparr>pl_item_allocations := None\<rparr>) plan
         else br_targets b = Some targets \<and> br_tutor_targets b = None \<and> br_activity_plan b = plan))"

lemma assemble_brief_Inr:
  assumes "assemble_brief E V D cfg policy r = Inr (Brief b)"
  shows "\<exists>n ordered eligible targets plan. assembled E V D policy r n ordered eligible targets plan b"
proof -
  let ?mix = "unwrap_or (pb_drill_mix r) Mix_Auto"
  from assms obtain n config day ordered where
    1: "brief_checks r ?mix = Inr (n, config)" and
    3: "brief_targets_of E V cfg r ?mix n day = Inr ordered"
    and rest: "(case collectE (drills_of D (ys_learning (sv_store V)) r ?mix) ordered of
        Inl e \<Rightarrow> Inr (No_Compatible_Activity policy [e])
      | Inr eligible \<Rightarrow>
          bindE (collectE (brief_target_of E V cfg day)
            (zip (zip ordered (allocate n (length ordered))) eligible)) (\<lambda>targets.
          bindE (activity_plan_of r ?mix config ordered (allocate n (length ordered)) eligible) (\<lambda>plan.
          let b = \<lparr>br_as_of = day, br_objective = unwrap_or (pb_objective r) Objective_ReviewDue,
              br_count = sum_list (allocate n (length ordered)),
              br_level = unwrap_or (pb_level r) (lit ''A2''),
              br_drill_mix = ?mix, br_targets = Some targets, br_tutor_targets = None,
              br_activity_plan = plan, br_policy = policy\<rparr> in
          Inr (Brief (if pf_default_practice_mode (rp_effective_preferences policy) =
              Practice_Spontaneous then hide_targets b else b))))) = Inr (Brief b)"
    unfolding assemble_brief_def Let_def [of ?mix] Let_def [of "allocate _ _"]
    by (simp only: bindE_Inr split_paired_Ex prod.case) blast
  show ?thesis
  proof (cases "collectE (drills_of D (ys_learning (sv_store V)) r ?mix) ordered")
    case (Inr eligible)
    with rest obtain targets plan where
      4: "collectE (brief_target_of E V cfg day)
          (zip (zip ordered (allocate n (length ordered))) eligible) = Inr targets"
      "activity_plan_of r ?mix config ordered (allocate n (length ordered)) eligible = Inr plan"
      and b: "b = (let b = \<lparr>br_as_of = day, br_objective = unwrap_or (pb_objective r) Objective_ReviewDue,
              br_count = sum_list (allocate n (length ordered)),
              br_level = unwrap_or (pb_level r) (lit ''A2''),
              br_drill_mix = ?mix, br_targets = Some targets, br_tutor_targets = None,
              br_activity_plan = plan, br_policy = policy\<rparr> in
          if pf_default_practice_mode (rp_effective_preferences policy) =
              Practice_Spontaneous then hide_targets b else b)"
      by (auto simp: ok_simps Let_def)
    have "assembled E V D policy r n ordered eligible targets plan b"
      unfolding assembled_def
      by (rule exI [of _ cfg], rule exI [of _ config], rule exI [of _ day])
        (use 1 3 4 Inr in \<open>simp add: Let_def b hide_targets_def\<close>)
    then show ?thesis by blast
  qed (use rest in simp)
qed

lemma practice_brief_Inr:
  assumes "practice_brief E V D request = Inr (Brief b)"
  obtains policy r n ordered eligible targets plan where
    "constrain (ys_preferences (sv_store V)) request = Inr (policy, r)" and "rp_conflicts policy = []"
    and "assembled E V D policy r n ordered eligible targets plan b"
proof -
  from assms obtain policy r cfg where "constrain (ys_preferences (sv_store V)) request = Inr (policy, r)"
    "rp_conflicts policy = []" "assemble_brief E V D cfg policy r = Inr (Brief b)"
    by (auto simp: practice_brief_def ok_simps split: if_splits)
  then show thesis using assemble_brief_Inr that by blast
qed

lemma shown_targets_assembled:
  assumes "assembled E V D policy r n ordered eligible targets plan b"
  shows "map (\<lambda>t. (bt_row t, bt_drill_recommendations t)) (shown_targets b) = zip ordered eligible"
proof -
  from assms have len: "length eligible = length ordered"
    by (auto simp: assembled_def Let_def collectE_Inr dest: list_all2_lengthD)
  have "map (\<lambda>t. ((bt_row t, the (bt_allocation t)), bt_drill_recommendations t)) targets =
      zip (zip ordered (allocate n (length ordered))) eligible"
    using assms by (auto simp: assembled_def Let_def intro!: collectE_map)
      (auto simp: brief_target_of_def ok_simps)
  then have "map (\<lambda>((r, a), e). (r, e)) (map (\<lambda>t. ((bt_row t, the (bt_allocation t)),
        bt_drill_recommendations t)) targets) =
      map (\<lambda>((r, a), e). (r, e)) (zip (zip ordered (allocate n (length ordered))) eligible)"
    by (rule arg_cong)
  also have "\<dots> = zip ordered eligible"
    using len by (auto intro!: nth_equalityI)
  finally have "map (\<lambda>t. (bt_row t, bt_drill_recommendations t)) targets = zip ordered eligible"
    by (simp add: o_def)
  then show ?thesis
    using assms by (auto simp: assembled_def Let_def shown_targets_def o_def split: if_splits)
qed

lemma drills_of_Inr:
  assumes "drills_of D db r mix row = Inr recs"
  shows "drills_suffice mix recs \<and>
    (\<forall>ds. pb_allowed_drill_types r = Some ds \<longrightarrow> dc_drill_type ` set recs \<subseteq> set ds) \<and>
    (\<forall>a. pb_activity_type r = Some a \<longrightarrow>
       dc_drill_type ` set recs \<subseteq> set (as_compatible_drills (activity_spec a))) \<and>
    dc_drill_type ` set recs \<subseteq> mix_drills mix"
proof -
  have "eligible_recommendations (pb_activity_type r) mix (pb_allowed_drill_types r)
      (recommendations D db (qw_id row)) = Inr recs"
    using assms by (simp add: drills_of_def ok_simps)
  note * = eligible_recommendations_Inr [OF this]
  have "dc_drill_type ` set recs \<subseteq> set (as_compatible_drills (activity_spec a))"
    if "pb_activity_type r = Some a" for a
    using * available_compatible [of _ a "recommendations D db (qw_id row)"] that by fastforce
  with * show ?thesis by (auto simp: drills_suffice_def)
qed

lemma assembled_drills:
  assumes "assembled E V D policy r n ordered eligible targets plan b"
  shows "length eligible = length ordered" "\<And>recs. recs \<in> set eligible \<Longrightarrow> \<exists>row\<in>set ordered.
    drills_of D (ys_learning (sv_store V)) r (br_drill_mix b) row = Inr recs"
proof -
  from assms have all: "list_all2 (\<lambda>row recs. drills_of D (ys_learning (sv_store V)) r (br_drill_mix b) row
      = Inr recs) ordered eligible"
    by (auto simp: assembled_def Let_def collectE_Inr)
  then show "length eligible = length ordered" by (simp add: list_all2_lengthD)
  show "\<exists>row\<in>set ordered. drills_of D (ys_learning (sv_store V)) r (br_drill_mix b) row = Inr recs"
    if "recs \<in> set eligible" for recs
    using all that by (induction rule: list_all2_induct) auto
qed

lemma brief_drills:
  assumes "practice_brief E V D request = Inr (Brief b)"
  shows "\<exists>policy r. constrain (ys_preferences (sv_store V)) request = Inr (policy, r) \<and>
    (\<forall>t\<in>set (shown_targets b). let drills = dc_drill_type ` set (bt_drill_recommendations t) in
       drills \<noteq> {} \<and> drills \<subseteq> mix_drills (br_drill_mix b) \<and>
       (\<forall>ds. pb_allowed_drill_types r = Some ds \<longrightarrow> drills \<subseteq> set ds) \<and>
       (\<forall>a. pb_activity_type r = Some a \<longrightarrow> drills \<subseteq> set (as_compatible_drills (activity_spec a))) \<and>
       (pf_default_practice_mode (rp_effective_preferences policy) = Practice_Spontaneous \<longrightarrow>
          (\<forall>d\<in>drills. permitted (rp_effective_preferences policy) d)))"
  using assms
proof (rule practice_brief_Inr)
  fix policy r n ordered eligible targets plan
  assume c: "constrain (ys_preferences (sv_store V)) request = Inr (policy, r)"
    and a: "assembled E V D policy r n ordered eligible targets plan b"
  have "bt_drill_recommendations t \<in> set eligible" if "t \<in> set (shown_targets b)" for t
  proof -
    have "(bt_row t, bt_drill_recommendations t) \<in> set (zip ordered eligible)"
      using that unfolding shown_targets_assembled [OF a, symmetric] by auto
    then show ?thesis by (rule set_zip_rightD)
  qed
  note recs = assembled_drills(2) [OF a this]
  have spontaneous: "\<exists>ds. pb_allowed_drill_types r = Some ds \<and>
      (\<forall>d\<in>set ds. permitted (rp_effective_preferences policy) d)"
    if "pf_default_practice_mode (rp_effective_preferences policy) = Practice_Spontaneous"
    using constrain_spontaneous [OF c that] by blast
  show ?thesis
  proof (intro exI [of _ policy] exI [of _ r] conjI [OF c] ballI)
    fix t assume "t \<in> set (shown_targets b)"
    from recs [OF this] obtain row where
      "drills_of D (ys_learning (sv_store V)) r (br_drill_mix b) row = Inr (bt_drill_recommendations t)" by blast
    from drills_of_Inr [OF this] spontaneous
    show "let drills = dc_drill_type ` set (bt_drill_recommendations t) in
       drills \<noteq> {} \<and> drills \<subseteq> mix_drills (br_drill_mix b) \<and>
       (\<forall>ds. pb_allowed_drill_types r = Some ds \<longrightarrow> drills \<subseteq> set ds) \<and>
       (\<forall>a. pb_activity_type r = Some a \<longrightarrow> drills \<subseteq> set (as_compatible_drills (activity_spec a))) \<and>
       (pf_default_practice_mode (rp_effective_preferences policy) = Practice_Spontaneous \<longrightarrow>
          (\<forall>d\<in>drills. permitted (rp_effective_preferences policy) d))"
      unfolding Let_def drills_suffice_def by blast
  qed
qed

lemma brief_counts:
  assumes "targets_wf (ys_learning (sv_store V))" and "practice_brief E V D request = Inr (Brief b)"
  shows "\<exists>policy r n. constrain (ys_preferences (sv_store V)) request = Inr (policy, r) \<and>
    brief_count (pb_activity_type r) (br_drill_mix b) (pb_count r) = Inr n \<and> 1 \<le> n \<and> n \<le> 20 \<and>
    distinct (map (\<lambda>t. qw_key (bt_row t)) (shown_targets b)) \<and> shown_targets b \<noteq> [] \<and>
    br_count b = max n (length (shown_targets b)) \<and>
    (if pb_weakness_keys r = Some []
     then \<exists>rows. load_weaknesses V (brief_filter r) = Inr rows \<and>
       length (shown_targets b) = length rows
     else br_count b = n)"
  using assms(2)
proof (rule practice_brief_Inr)
  fix policy r n ordered eligible targets plan
  assume c: "constrain (ys_preferences (sv_store V)) request = Inr (policy, r)"
    and a: "assembled E V D policy r n ordered eligible targets plan b"
  from a obtain cfg merged day where checks: "brief_checks r (br_drill_mix b) = Inr (n, merged)"
    and targets: "brief_targets_of E V cfg r (br_drill_mix b) n day = Inr ordered"
    and sum: "br_count b = sum_list (allocate n (length ordered))"
    by (auto simp: assembled_def Let_def)
  note n = brief_checks_Inr [OF checks]
  note bound = brief_targets_bound [OF assms(1) targets n [THEN conjunct1]]
  have "map fst (map (\<lambda>t. (bt_row t, bt_drill_recommendations t)) (shown_targets b)) = ordered"
    unfolding shown_targets_assembled [OF a] using assembled_drills(1) [OF a] by simp
  then have rows: "map bt_row (shown_targets b) = ordered" by (simp add: o_def)
  then have len: "length (shown_targets b) = length ordered" by (metis length_map)
  have keys: "map (\<lambda>t. qw_key (bt_row t)) (shown_targets b) = map qw_key ordered"
    using rows by (simp add: rows [symmetric] o_def)
  have "br_count b = max n (length ordered)"
    using sum bound by (simp add: allocate_sum)
  moreover have "shown_targets b \<noteq> []" using rows bound by auto
  moreover have "br_count b = n" if "pb_weakness_keys r \<noteq> Some []"
    using that calculation(1) bound by (simp add: max_absorb1)
  ultimately show ?thesis
    using c n bound
    by (intro exI [of _ policy] exI [of _ r] exI [of _ n]) (simp add: len keys, blast)
qed

lemma brief_plan:
  assumes wf: "targets_wf (ys_learning (sv_store V))" and "practice_brief E V D request = Inr (Brief b)"
    and shown: "br_targets b = Some ts" and "br_activity_plan b = Some p"
  shows "pl_item_count p = br_count b \<and> (\<exists>items. pl_item_allocations p = Some items \<and>
    map ia_item_no items = [1..<Suc (br_count b)] \<and>
    (\<forall>t\<in>set ts. bt_allocation t = Some (items_for (bt_row t) items)) \<and>
    (\<forall>x\<in>set items. \<exists>t\<in>set ts. ia_target_weakness_key x = qw_key (bt_row t) \<and>
       ia_drill_type x \<in> dc_drill_type ` set (bt_drill_recommendations t)))"
  using assms(2)
proof (rule practice_brief_Inr)
  fix policy r n ordered eligible targets plan
  assume a: "assembled E V D policy r n ordered eligible targets plan b"
  let ?alloc = "allocate n (length ordered)" and ?mix = "br_drill_mix b"
  from a obtain cfg merged day where checks: "brief_checks r ?mix = Inr (n, merged)"
    and targets: "brief_targets_of E V cfg r ?mix n day = Inr ordered"
    and sum: "br_count b = sum_list ?alloc"
    and made: "collectE (brief_target_of E V cfg day) (zip (zip ordered ?alloc) eligible) = Inr ts"
    and plan: "activity_plan_of r ?mix merged ordered ?alloc eligible = Inr (Some p)"
    using shown assms(4) by (auto simp: assembled_def Let_def split: if_splits)
  note len = assembled_drills(1) [OF a]
  from plan obtain act config items where p: "pl_item_count p = sum_list ?alloc"
      "pl_item_allocations p = Some items"
    and items: "plan_items act ?mix config ordered ?alloc eligible = Inr items"
    by (auto simp: activity_plan_of_def ok_simps split: option.splits)
  have drills: "drills_suffice ?mix recs" if "recs \<in> set eligible" for recs
    using assembled_drills(2) [OF a that] drills_of_Inr by blast
  have keys: "distinct (map qw_key ordered)"
    using brief_targets_bound [OF wf targets] brief_checks_Inr [OF checks] by blast
  from plan_items_total [where a = act and cfg = config, OF allocate_length [of n] len drills keys] items
  have covered: "length items = sum_list ?alloc" "map ia_item_no items = [1..<Suc (length items)]"
    "\<forall>i<length ordered. items_for (ordered ! i) items = ?alloc ! i"
    "\<forall>x\<in>set items. item_fits act ordered eligible x" by (simp_all del: upt_Suc)
  have made': "list_all2 (\<lambda>q t. bt_row t = fst (fst q) \<and> bt_allocation t = Some (snd (fst q)) \<and>
      bt_drill_recommendations t = snd q) (zip (zip ordered ?alloc) eligible) ts"
    using made unfolding collectE_Inr
    by (rule list_all2_mono) (auto simp: brief_target_of_def ok_simps)
  have nth: "bt_row (ts ! i) = ordered ! i" "bt_allocation (ts ! i) = Some (?alloc ! i)"
      "bt_drill_recommendations (ts ! i) = eligible ! i" "length ts = length ordered"
    if "i < length ordered" for i
    using made' that len by (auto simp: list_all2_conv_all_nth)
  have "\<forall>t\<in>set ts. bt_allocation t = Some (items_for (bt_row t) items)"
  proof
    fix t assume "t \<in> set ts"
    moreover have "length ts = length ordered"
      using made' len by (auto dest: list_all2_lengthD)
    ultimately obtain i where "i < length ordered" "t = ts ! i" by (auto simp: in_set_conv_nth)
    then show "bt_allocation t = Some (items_for (bt_row t) items)" using nth covered(3) by simp
  qed
  moreover have "\<forall>x\<in>set items. \<exists>t\<in>set ts. ia_target_weakness_key x = qw_key (bt_row t) \<and>
       ia_drill_type x \<in> dc_drill_type ` set (bt_drill_recommendations t)"
  proof
    fix x assume "x \<in> set items"
    with covered(4) obtain i where "i < length ordered" "ia_target_weakness_key x = qw_key (ordered ! i)"
      "ia_drill_type x \<in> dc_drill_type ` set (eligible ! i)" by (auto simp: item_fits_def)
    then show "\<exists>t\<in>set ts. ia_target_weakness_key x = qw_key (bt_row t) \<and>
       ia_drill_type x \<in> dc_drill_type ` set (bt_drill_recommendations t)"
      using nth [of i] by (intro bexI [of _ "ts ! i"]) auto
  qed
  ultimately show ?thesis using p covered sum by simp
qed

end
