(* ===== verification/BriefRuns.thy ===== *)
theory BriefRuns
  imports BriefsCorrect RecordingRuns
begin

text \<open>
  The promises of a practice brief, each with a brief assembled from a small store.
\<close>

section \<open>A store with two targets\<close>

definition brief_learning :: learning_db where
  "brief_learning = sample_learning
     \<lparr>db_weaknesses := db_weaknesses sample_learning @
        [(hd (db_weaknesses sample_learning))\<lparr>wk_id := 2, wk_key := lit ''m''\<rparr>],
      db_links := db_links sample_learning @
        [\<lparr>wc_weakness_id = 2, wc_concept_id = 1, wc_role = lit ''primary''\<rparr>],
      db_scheduler := db_scheduler sample_learning @
        [\<lparr>si_id = 2, si_weakness_id = 2, si_track = lit ''general'', si_active = True\<rparr>]\<rparr>"

definition brief_view :: "preference_db \<Rightarrow> study_view" where
  "brief_view preferences =
     \<lparr>sv_store = sample_study_store\<lparr>ys_learning := brief_learning, ys_preferences := preferences\<rparr>,
      sv_observation_active = (\<lambda>_. True), sv_item_active = (\<lambda>_. True), sv_review_active = (\<lambda>_. True)\<rparr>"

definition brief_row :: "nat \<Rightarrow> string \<Rightarrow> queue_row" where
  "brief_row i k =
     \<lparr>qw_id = i, qw_scheduler_id = Some i, qw_key = lit k, qw_category = lit ''c'',
      qw_description = lit ''d'', qw_target_pattern = None, qw_pending = False, qw_due = None,
      qw_stability = None, qw_difficulty = None, qw_last_review = None, qw_last_rating = None,
      qw_review_count = 0, qw_first_seen = None, qw_last_seen = None, qw_incorrect_count = 0,
      qw_correct_count = 0, qw_observation_count = 0, qw_error_days = 0, qw_latest_error = None,
      qw_unresolved = 1, qw_branch = lit ''form''\<rparr>"

definition no_drills :: drill_tables where
  "no_drills = \<lparr>dt_overrides = [], dt_concepts = []\<rparr>"

definition response_brief :: "nat option \<Rightarrow> ustring list option \<Rightarrow> practice_brief_request" where
  "response_brief n keys =
     \<lparr>pb_task_first = None, pb_practice_mode = None, pb_session_overrides = None,
      pb_count = n, pb_objective = None, pb_level = None, pb_drill_mix = None,
      pb_allowed_drill_types = None, pb_weakness_keys = keys,
      pb_categories = None, pb_concept_keys = None, pb_scheme_keys = None,
      pb_collection_keys = None, pb_target_types = None, pb_include_upcoming = None,
      pb_recent_prompts_per_weakness = None, pb_as_of = Some (replicate 5 48),
      pb_activity_type = Some Act_SituationalResponse,
      pb_planned_duration_seconds = None, pb_activity_config = None, pb_exam_task = None\<rparr>"

lemma brief_store_wf: "targets_wf (ys_learning (sv_store (brief_view p)))"
  by (simp add: targets_wf_def status_wf_def active_flag_for_status_def
      one_primary_def primary_links_def links_known_def scheduler_wf_def relations_wf_def
      brief_view_def brief_learning_def sample_learning_def lit_def)

lemma brief_loaded:
  "keys = None \<or> keys = Some [] \<Longrightarrow>
   load_weaknesses (brief_view p) (brief_filter (response_brief n keys)) =
     Inr [brief_row 1 ''k'', brief_row 2 ''m'']"
  by (auto simp: load_weaknesses_def joined_items_def selected_def among_def brief_filter_def
      response_brief_def brief_view_def brief_learning_def sample_learning_def sample_study_store_def
      brief_row_def bindE_def queue_row_of_def Let_def active_observations_def error_observations_def
      error_dates_def unresolved_def latest_def active_reviews_def last_rating_def primary_concept_key_def)

lemma brief_sorted:
  "sort_rows session_env sample_config day [brief_row 1 ''k'', brief_row 2 ''m''] =
     Inr [brief_row 1 ''k'', brief_row 2 ''m'']"
  by (simp add: sort_rows_def row_retrievability_def brief_row_def sort_by_def compare_rows_def
      compare_retrievability_def bindE_def mapE_def Let_def lit_def)

lemma brief_day: "day_of_request session_env sample_config (Some (replicate 5 48)) = Inr 5"
  by (simp add: day_of_request_def valid_date_def learning_day_def ok_or_def
      bindE_def mapE_def sample_world_defs)

definition response_drills :: "drill_recommendation list" where
  "response_drills = [fallback_recommendation ''activity_fallback'' Drill_SituationalResponse ''transfer'']"

lemma brief_available:
  "recommendations no_drills db wid = []"
  "available_recommendations (Some Act_SituationalResponse) [] = response_drills"
proof -
  have sorted: "sort_by c xs = [] \<longleftrightarrow> xs = []" for c and xs :: "drill_recommendation list"
    by (metis length_0_conv length_sort_by)
  have "concept_candidates no_drills db wid = []"
    by (auto simp: concept_candidates_def sorted no_drills_def)
  then show "recommendations no_drills db wid = []"
    by (simp add: recommendations_def override_candidates_def no_drills_def sorted)
  show "available_recommendations (Some Act_SituationalResponse) [] = response_drills"
    by (simp add: available_recommendations_def activity_fallback_recommendations_def
        response_drills_def spec_rec_def SITUATIONAL_def Let_def)
qed

lemma brief_eligible:
  assumes "pb_activity_type r = Some Act_SituationalResponse"
    and "\<And>ds. pb_allowed_drill_types r = Some ds \<Longrightarrow> Drill_SituationalResponse \<in> set ds"
  shows "drills_of no_drills db r Mix_Auto row = Inr response_drills"
proof -
  have "(case pb_allowed_drill_types r of None \<Rightarrow> response_drills
      | Some ds \<Rightarrow> filter (\<lambda>r. dc_drill_type r \<in> set ds) response_drills) = response_drills"
    using assms(2) by (auto simp: response_drills_def fallback_recommendation_def split: option.splits)
  then show ?thesis
    by (simp add: drills_of_def eligible_recommendations_def assms(1) brief_available map_errE_def
        mix_incompatible_def apply_mix_def bindE_def bail_if_def)
      (simp add: response_drills_def sort_by_def)
qed

lemma brief_ordered:
  assumes "brief_filter r = brief_filter (response_brief m keys)" and "keys = None \<or> keys = Some []"
    and "pb_weakness_keys r = keys" and "pb_objective r = None"
  shows "brief_targets_of session_env (brief_view p) sample_config r Mix_Auto n 5 =
    Inr (take (if keys = None then max ((n + 1) div 2) 1 else 2) [brief_row 1 ''k'', brief_row 2 ''m''])"
proof -
  have order: "order_targets T day r [brief_row 1 ''k'', brief_row 2 ''m''] =
      [brief_row 1 ''k'', brief_row 2 ''m'']" for T day
    by (simp add: order_targets_def brief_row_def assms(4))
  have named: "forE f (unwrap_or keys []) = Inr ()" for f :: "ustring \<Rightarrow> string + unit"
    using assms(2) by (auto simp: forE_simps)
  have few: "some_and keys (\<lambda>ks. n < length ks) = False"
      "some_and keys (\<lambda>ks. n < 2 * length ks) = False"
    using assms(2) by auto
  have limit: "target_limit Mix_Auto e n k = (if e then k else max ((n + 1) div 2) 1)" for e k
    by (simp add: target_limit_def)
  have taken: "take (min (Suc (Suc 0)) k) [x, y] = take k [x, y]" for k and x y :: queue_row
    by (simp add: min_def)
  show ?thesis
    using brief_loaded [OF assms(2), of p m] unfolding assms(1) [symmetric]
    by (simp add: brief_targets_of_def brief_filter_def assms(3) Let_def brief_sorted few order named
        diversify_rows_same bindE_def bail_if_def seqE.simps limit taken less_max_iff_disj del: One_nat_def cong: if_cong)
qed

lemma collectE_total: "(\<And>x. x \<in> set xs \<Longrightarrow> \<exists>y. f x = Inr y) \<Longrightarrow> \<exists>ys. collectE f xs = Inr ys"
  by (induction xs) (force simp: bindE_def)+

lemma brief_made:
  assumes "brief_filter r = brief_filter (response_brief m keys)" and "keys = None \<or> keys = Some []"
    and "pb_weakness_keys r = keys" and "pb_objective r = None" and "pb_drill_mix r = None"
    and "pb_activity_type r = Some Act_SituationalResponse" and "pb_as_of r = Some (replicate 5 48)"
    and "\<And>ds. pb_allowed_drill_types r = Some ds \<Longrightarrow> Drill_SituationalResponse \<in> set ds"
    and "pb_activity_config r = None" and "pb_planned_duration_seconds r = None"
    and "pb_count r = Some n" and "1 \<le> n" and "n \<le> 20"
  shows "\<exists>b. assemble_brief session_env (brief_view p) no_drills sample_config policy r = Inr (Brief b) \<and>
    (pf_default_practice_mode (rp_effective_preferences policy) \<noteq> Practice_Spontaneous \<longrightarrow>
       br_targets b \<noteq> None \<and> br_activity_plan b \<noteq> None)"
proof -
  define cfg where "cfg = as_default_config (activity_spec Act_SituationalResponse)"
  have checks: "brief_checks r Mix_Auto = Inr (n, Some cfg)"
    using assms(12,13) by (simp add: brief_checks_def brief_count_def brief_config_def assms(5-11) cfg_def
        merged_config_def
        mix_incompatible_def is_single_response_def bail_if_def bindE_def seqE.simps Let_def)
  define ordered where "ordered = take (if keys = None then max ((n + 1) div 2) 1 else 2)
    [brief_row 1 ''k'', brief_row 2 ''m'']"
  have targets: "brief_targets_of session_env (brief_view p) sample_config r Mix_Auto n 5 = Inr ordered"
    unfolding ordered_def by (rule brief_ordered [OF assms(1-4)])
  let ?eligible = "replicate (length ordered) response_drills"
  have drills: "collectE (drills_of no_drills db r Mix_Auto) ordered = Inr ?eligible" for db
    unfolding collectE_Inr list_all2_conv_all_nth
    using brief_eligible [OF assms(6,8)] by simp
  have rows: "set ordered \<subseteq> {brief_row 1 ''k'', brief_row 2 ''m''}"
    unfolding ordered_def by (rule subset_trans [OF set_take_subset]) simp
  have "\<exists>t. brief_target_of session_env (brief_view p) sample_config 5 ((row, n), recs) = Inr t"
    if "row \<in> set ordered" for row n recs
    using rows that by (auto simp: brief_target_of_def row_retrievability_def brief_row_def bindE_def)
  then have "\<exists>ts. collectE (brief_target_of session_env (brief_view p) sample_config 5)
      (zip (zip ordered (allocate n (length ordered))) ?eligible) = Inr ts"
    by (intro collectE_total) (auto dest!: set_zip_leftD)
  then obtain ts where ts: "collectE (brief_target_of session_env (brief_view p) sample_config 5)
      (zip (zip ordered (allocate n (length ordered))) ?eligible) = Inr ts" by blast
  have suffice: "drills_suffice Mix_Auto recs" if "recs \<in> set ?eligible" for recs
    using that by (simp add: drills_suffice_def response_drills_def)
  have "distinct (map qw_key ordered)"
    unfolding ordered_def take_map [symmetric] by (rule distinct_take) (simp add: brief_row_def lit_def)
  from plan_items_total [where a = Act_SituationalResponse and cfg = cfg,
      OF allocate_length [of n] length_replicate suffice this]
  obtain items where "plan_items Act_SituationalResponse Mix_Auto cfg ordered
      (allocate n (length ordered)) ?eligible = Inr items" by blast
  then have plan: "\<exists>pl. activity_plan_of r Mix_Auto (Some cfg) ordered (allocate n (length ordered))
      ?eligible = Inr (Some pl)"
    by (simp add: activity_plan_of_def assms(6) bindE_def ok_or_def)
  then obtain pl where pl: "activity_plan_of r Mix_Auto (Some cfg) ordered (allocate n (length ordered))
      ?eligible = Inr (Some pl)" by blast
  show ?thesis
    by (simp add: assemble_brief_def assms(5,7) checks brief_day targets drills ts pl bindE_def
        hide_targets_def Let_def)
qed

lemma mixed_brief:
  assumes "keys = None \<or> keys = Some []" and "1 \<le> n" and "n \<le> 20"
  shows "\<exists>b policy. practice_brief session_env (brief_view None) no_drills (response_brief (Some n) keys) =
      Inr (Brief b) \<and> br_targets b \<noteq> None \<and> br_activity_plan b \<noteq> None \<and>
    constrain None (response_brief (Some n) keys) = Inr (policy, response_brief (Some n) keys)"
proof -
  let ?r = "response_brief (Some n) keys"
  obtain policy where c: "constrain None ?r = Inr (policy, ?r)" and "rp_conflicts policy = []"
      "pf_default_practice_mode (rp_effective_preferences policy) = Practice_Mixed"
    by (simp add: constrain_def resolve_def get_def response_brief_def defaults_def permitted_def
        brief_conflicts_def bindE_def Let_def)
  moreover obtain b where "assemble_brief session_env (brief_view None) no_drills sample_config policy ?r =
      Inr (Brief b)" "br_targets b \<noteq> None" "br_activity_plan b \<noteq> None"
    using brief_made [of ?r "Some n" keys n None policy] assms calculation(3)
    by (auto simp: response_brief_def)
  moreover have "pb_allowed_drill_types ?r = None" "pb_task_first ?r = None" "pb_exam_task ?r = None"
    by (simp_all add: response_brief_def)
  moreover have "ys_preferences (sv_store (brief_view None)) = None"
      "ys_config (sv_store (brief_view None)) = Some sample_config"
    by (simp_all add: brief_view_def sample_study_store_def)
  ultimately show ?thesis
    by (intro exI [of _ b] exI [of _ policy])
      (simp add: practice_brief_def complete_task_requested_def bindE_def bail_if_def ok_or_def)
qed

definition approved_row :: preference_db where
  "approved_row = Some \<lparr>pr_version = 1, pr_preferences = approved, pr_updated_at = [], pr_source = []\<rparr>"

lemma spontaneous_brief:
  "\<exists>b policy. practice_brief session_env (brief_view approved_row) no_drills (response_brief None None) =
      Inr (Brief b) \<and> constrain approved_row (response_brief None None) = Inr (policy,
        (response_brief (Some 3) None)\<lparr>pb_allowed_drill_types :=
          Some [Drill_SituationalResponse, Drill_QuestionAnswer, Drill_MicroStory, Drill_Retell]\<rparr>) \<and>
    pf_default_practice_mode (rp_effective_preferences policy) = Practice_Spontaneous"
proof -
  let ?r = "response_brief None None"
  let ?r' = "(response_brief (Some 3) None)\<lparr>pb_allowed_drill_types :=
      Some [Drill_SituationalResponse, Drill_QuestionAnswer, Drill_MicroStory, Drill_Retell]\<rparr>"
  obtain policy where c: "constrain approved_row ?r = Inr (policy, ?r')" and "rp_conflicts policy = []"
      "pf_default_practice_mode (rp_effective_preferences policy) = Practice_Spontaneous"
    by (simp add: constrain_def resolve_def get_def response_brief_def defaults_def approved_def
        approved_row_def permitted_def brief_conflicts_def all_drill_types_def bindE_def Let_def)
  moreover obtain b where "assemble_brief session_env (brief_view approved_row) no_drills sample_config
      policy ?r' = Inr (Brief b)"
    using brief_made [of ?r' "Some 3" None 3 approved_row policy]
    by (auto simp: response_brief_def brief_filter_def)
  moreover have "pb_task_first ?r = None" "pb_task_first ?r' = None" "pb_exam_task ?r' = None"
    by (simp_all add: response_brief_def)
  moreover have "ys_preferences (sv_store (brief_view approved_row)) = approved_row"
      "ys_config (sv_store (brief_view approved_row)) = Some sample_config"
    by (simp_all add: brief_view_def sample_study_store_def)
  ultimately show ?thesis
    by (intro exI [of _ b] exI [of _ policy])
      (simp add: practice_brief_def complete_task_requested_def bindE_def bail_if_def ok_or_def)
qed

section \<open>A request the catalogue cannot meet\<close>

lemma spontaneous_count:
  assumes "constrain db request = Inr (policy, r)" and "pb_exam_task request = None"
    and "pf_default_practice_mode (rp_effective_preferences policy) = Practice_Spontaneous"
  shows "pb_activity_type r = pb_activity_type request \<and>
    pb_count r = Some (min (unwrap_or (pb_count request) 3)
      (wb_maximum (pf_written_round_budget (rp_effective_preferences policy))))"
  using constrain_Inr [OF assms(1)] assms(2,3) by (auto simp: Let_def)

lemma single_response_refused:
  assumes "constrain (ys_preferences (sv_store V)) request = Inr (policy, r)" and "pb_exam_task request = None"
    and "pf_default_practice_mode (rp_effective_preferences policy) = Practice_Spontaneous"
    and "wb_maximum (pf_written_round_budget (rp_effective_preferences policy)) \<noteq> 1"
    and "pb_activity_type request = Some a" and "is_single_response a" and "pb_count request = None"
  shows "practice_brief E V D request \<noteq> Inr (Brief b)"
proof
  assume "practice_brief E V D request = Inr (Brief b)"
  then show False
  proof (rule practice_brief_Inr)
    fix policy' r' n ordered eligible targets plan
    assume "constrain (ys_preferences (sv_store V)) request = Inr (policy', r')"
      and "assembled E V D policy' r' n ordered eligible targets plan b"
    with assms(1) obtain n mix where "brief_count (pb_activity_type r) mix (pb_count r) = Inr n"
      by (auto simp: assembled_def Let_def dest: brief_checks_Inr)
    then show False
      using spontaneous_count [OF assms(1-3)] assms(4-7) by (auto simp: brief_count_def split: if_splits)
  qed
qed

section \<open>The properties\<close>

text \<open>Property C6. A brief suggests for every target only drills that fit: at least one, each in the
requested mix, among the allowed drill types and those of the activity and, in spontaneous mode,
permitted by the effective preferences.\<close>

theorem brief_drills_permitted:
  assumes "practice_brief E V D request = Inr (Brief b)"
  shows "\<exists>policy r. constrain (ys_preferences (sv_store V)) request = Inr (policy, r) \<and>
    (\<forall>t\<in>set (shown_targets b). let drills = dc_drill_type ` set (bt_drill_recommendations t) in
       drills \<noteq> {} \<and> drills \<subseteq> mix_drills (br_drill_mix b) \<and>
       (\<forall>ds. pb_allowed_drill_types r = Some ds \<longrightarrow> drills \<subseteq> set ds) \<and>
       (\<forall>a. pb_activity_type r = Some a \<longrightarrow> drills \<subseteq> set (as_compatible_drills (activity_spec a))) \<and>
       (pf_default_practice_mode (rp_effective_preferences policy) = Practice_Spontaneous \<longrightarrow>
          (\<forall>d\<in>drills. permitted (rp_effective_preferences policy) d)))"
  by (rule brief_drills [OF assms])

theorem brief_drills_permitted_witness:
  "\<exists>b policy r. practice_brief session_env (brief_view approved_row) no_drills (response_brief None None) =
      Inr (Brief b) \<and> constrain approved_row (response_brief None None) = Inr (policy, r) \<and>
    (\<forall>t\<in>set (shown_targets b). \<forall>d\<in>dc_drill_type ` set (bt_drill_recommendations t).
       permitted (rp_effective_preferences policy) d)"
proof -
  obtain b policy r where b: "practice_brief session_env (brief_view approved_row) no_drills
      (response_brief None None) = Inr (Brief b)"
    and c: "constrain approved_row (response_brief None None) = Inr (policy, r)"
    and mode: "pf_default_practice_mode (rp_effective_preferences policy) = Practice_Spontaneous"
    using spontaneous_brief by blast
  have "ys_preferences (sv_store (brief_view approved_row)) = approved_row"
    by (simp add: brief_view_def)
  with brief_drills_permitted [OF b] c mode have "\<forall>t\<in>set (shown_targets b).
      \<forall>d\<in>dc_drill_type ` set (bt_drill_recommendations t). permitted (rp_effective_preferences policy) d"
    unfolding Let_def by fastforce
  with b c show ?thesis by blast
qed

text \<open>Property C7. A brief has different targets, at least one, and as many items as the request
and the preferences give, between 1 and 20; only a request with an empty list of weakness keys,
which counts as explicit but selects every target, gets an item for each of them.\<close>

theorem brief_item_count:
  assumes "targets_wf (ys_learning (sv_store V))" and "practice_brief E V D request = Inr (Brief b)"
  shows "\<exists>policy r n. constrain (ys_preferences (sv_store V)) request = Inr (policy, r) \<and>
    brief_count (pb_activity_type r) (br_drill_mix b) (pb_count r) = Inr n \<and> 1 \<le> n \<and> n \<le> 20 \<and>
    distinct (map (\<lambda>t. qw_key (bt_row t)) (shown_targets b)) \<and> shown_targets b \<noteq> [] \<and>
    br_count b = max n (length (shown_targets b)) \<and>
    (if pb_weakness_keys r = Some []
     then \<exists>rows. load_weaknesses V (brief_filter r) = Inr rows \<and>
       length (shown_targets b) = length rows
     else br_count b = n)"
  by (rule brief_counts [OF assms])

theorem brief_item_count_witness:
  "\<exists>b. practice_brief session_env (brief_view None) no_drills (response_brief (Some 1) (Some [])) =
      Inr (Brief b) \<and> br_count b = 2"
proof -
  let ?r = "response_brief (Some 1) (Some [])"
  obtain b policy where b: "practice_brief session_env (brief_view None) no_drills ?r = Inr (Brief b)"
    and c: "constrain None ?r = Inr (policy, ?r)"
    using mixed_brief [of "Some []" 1] by auto
  have none: "ys_preferences (sv_store (brief_view None)) = None" by (simp add: brief_view_def)
  have "pb_weakness_keys ?r = Some []" "pb_count ?r = Some 1"
      "pb_activity_type ?r = Some Act_SituationalResponse"
    by (simp_all add: response_brief_def)
  moreover have "\<not> is_single_response Act_SituationalResponse" by (simp add: is_single_response_def)
  ultimately have "br_count b = 2"
    using brief_item_count [OF brief_store_wf b] c brief_loaded [of "Some []" None "Some 1"]
    by (auto simp: none brief_count_def)
  with b show ?thesis by blast
qed

text \<open>Property C5. The plan of an activity covers the brief: it has as many items as the brief
counts, numbered from one, every target gets exactly the items it was dealt, and each item asks
for a drill recommended for its target.\<close>

theorem brief_plan_covers_targets:
  assumes "targets_wf (ys_learning (sv_store V))" and "practice_brief E V D request = Inr (Brief b)"
    and "br_targets b = Some ts" and "br_activity_plan b = Some p"
  shows "pl_item_count p = br_count b \<and> (\<exists>items. pl_item_allocations p = Some items \<and>
    map ia_item_no items = [1..<Suc (br_count b)] \<and>
    (\<forall>t\<in>set ts. bt_allocation t = Some (items_for (bt_row t) items)) \<and>
    (\<forall>x\<in>set items. \<exists>t\<in>set ts. ia_target_weakness_key x = qw_key (bt_row t) \<and>
       ia_drill_type x \<in> dc_drill_type ` set (bt_drill_recommendations t)))"
  by (rule brief_plan [OF assms])

theorem brief_plan_covers_targets_witness:
  "\<exists>b p items. practice_brief session_env (brief_view None) no_drills (response_brief (Some 4) None) =
      Inr (Brief b) \<and> br_activity_plan b = Some p \<and> pl_item_count p = br_count b \<and>
    pl_item_allocations p = Some items \<and> map ia_item_no items = [1..<Suc (br_count b)]"
proof -
  obtain b ts p where b: "practice_brief session_env (brief_view None) no_drills
      (response_brief (Some 4) None) = Inr (Brief b)"
    "br_targets b = Some ts" "br_activity_plan b = Some p"
    using mixed_brief [of None 4] by auto
  from brief_plan_covers_targets [OF brief_store_wf b] b show ?thesis by blast
qed



end
