(* ===== verification/AuditRows.thy ===== *)
theory AuditRows
  imports RecordTables
begin

text \<open>
  The rows the data audit of \<open>src/audit.rs\<close> amends. The columns \<open>effective_status\<close> and
  \<open>revision\<close>, which only the audit changes, and the continuation columns of a session stand
  beside the tables of \<open>RecordTables\<close>, with the defaults the schema gives a new row; a finding
  has the id of its position in its table, from which nothing is deleted.
\<close>

section \<open>JSON values\<close>

datatype jvalue =
    JsNull | JsBool bool | JsInt int | JsText ustring | JsArr "jvalue list"
  | JsObj "(ustring \<times> jvalue) list"

definition jget :: "jvalue \<Rightarrow> string \<Rightarrow> jvalue option" where
  "jget v field = (case v of JsObj fs \<Rightarrow> map_of fs (lit field) | _ \<Rightarrow> None)"

definition as_text :: "jvalue \<Rightarrow> ustring option" where
  "as_text v = (case v of JsText s \<Rightarrow> Some s | _ \<Rightarrow> None)"

definition as_int :: "jvalue \<Rightarrow> int option" where
  "as_int v = (case v of JsInt i \<Rightarrow> Some i | _ \<Rightarrow> None)"

definition string_field :: "jvalue \<Rightarrow> string \<Rightarrow> ustring option" where
  "string_field v field = Option.bind (jget v field) as_text"

definition int_field :: "jvalue \<Rightarrow> string \<Rightarrow> int option" where
  "int_field v field = Option.bind (jget v field) as_int"

definition opt_json :: "('a \<Rightarrow> jvalue) \<Rightarrow> 'a option \<Rightarrow> jvalue" where
  "opt_json f x = (case x of None \<Rightarrow> JsNull | Some y \<Rightarrow> f y)"

definition json_nat :: "nat \<Rightarrow> jvalue" where
  "json_nat n = JsInt (int n)"

definition json_name :: "('a \<Rightarrow> string) \<Rightarrow> 'a \<Rightarrow> jvalue" where
  "json_name f x = JsText (lit (f x))"

definition json_object :: "(string \<times> jvalue) list \<Rightarrow> jvalue" where
  "json_object fs = JsObj (map (\<lambda>(k, v). (lit k, v)) fs)"

section \<open>Wire names\<close>

fun observation_outcome_name :: "observation_outcome \<Rightarrow> string" where
  "observation_outcome_name Outcome_Incorrect = ''incorrect''"
| "observation_outcome_name Outcome_PartiallyCorrect = ''partially_correct''"
| "observation_outcome_name Outcome_Correct = ''correct''"
| "observation_outcome_name Outcome_PromptedCorrect = ''prompted_correct''"
| "observation_outcome_name Outcome_Omitted = ''omitted''"

fun observation_role_name :: "observation_role \<Rightarrow> string" where
  "observation_role_name Role_Targeted = ''targeted''"
| "observation_role_name Role_Incidental = ''incidental''"

fun severity_name :: "observation_severity \<Rightarrow> string" where
  "severity_name Severity_Minor = ''minor''"
| "severity_name Severity_MeaningAffecting = ''meaning_affecting''"
| "severity_name Severity_Blocking = ''blocking''"

fun item_outcome_name :: "practice_item_outcome \<Rightarrow> string" where
  "item_outcome_name ItemOutcome_Incorrect = ''incorrect''"
| "item_outcome_name ItemOutcome_PartiallyCorrect = ''partially_correct''"
| "item_outcome_name ItemOutcome_Correct = ''correct''"
| "item_outcome_name ItemOutcome_Omitted = ''omitted''"

text \<open>The checks of the enumerated columns, as readers of their texts.\<close>

definition outcome_column :: "ustring \<Rightarrow> observation_outcome option" where
  "outcome_column t = find (\<lambda>x. lit (observation_outcome_name x) = t)
     [Outcome_Incorrect, Outcome_PartiallyCorrect, Outcome_Correct, Outcome_PromptedCorrect,
      Outcome_Omitted]"

definition item_outcome_column :: "ustring \<Rightarrow> practice_item_outcome option" where
  "item_outcome_column t = find (\<lambda>x. lit (item_outcome_name x) = t)
     [ItemOutcome_Incorrect, ItemOutcome_PartiallyCorrect, ItemOutcome_Correct, ItemOutcome_Omitted]"

definition finding_kind_column :: "ustring \<Rightarrow> finding_kind option" where
  "finding_kind_column t = find (\<lambda>x. lit (finding_kind_as_str x) = t)
     [Finding_Error, Finding_Awkward, Finding_RegionalVariant, Finding_StylisticImprovement,
      Finding_Accepted]"

section \<open>The tables\<close>

datatype entity_kind = Kind_Observation | Kind_Item | Kind_Finding | Kind_Review | Kind_Session

record session_links =
  sk_exercise_instance_id :: "ustring option"
  sk_stimulus_identity :: "ustring option"
  sk_source_event_id :: "ustring option"

record summary_row =
  sy_session_id :: nat
  sy_summary_key :: ustring
  sy_summary_json :: ustring
  sy_revision :: int
  sy_updated_at :: ustring

datatype audit_operation =
    Amend_Assessment | Retract_Observation | Reclassify_Finding | Link_Continuation
  | Mark_Duplicate | Reassign_Target | Add_Recovered_Finding | Invalidate_Review | Amend_Summary

datatype certainty = Certainty_Supported | Certainty_Disputed | Certainty_Insufficient

record source_ref =
  sr_source_id :: ustring
  sr_excerpt :: "ustring option"
  sr_span :: "ustring option"
  sr_source_hash :: "ustring option"

record amendment_row =
  am_audit_run_id :: ustring
  am_proposal_id :: ustring
  am_entity_type :: ustring
  am_entity_id :: ustring
  am_expected_revision :: int
  am_before_hash :: ustring
  am_operation :: audit_operation
  am_before_json :: ustring
  am_after_json :: ustring
  am_source_refs :: "source_ref list"
  am_reason :: ustring
  am_issue_class :: ustring
  am_certainty :: certainty
  am_reviewer :: ustring
  am_prompt_version :: ustring
  am_reviewed_at :: ustring
  am_dependencies :: "ustring list"
  am_affected_consumers :: "ustring list"
  am_predecessor_revision :: int
  am_status :: string

record audit_run_row =
  ar_audit_run_id :: ustring
  ar_snapshot_boundary :: ustring
  ar_snapshot_hash :: ustring
  ar_model_id :: "ustring option"
  ar_prompt_version :: ustring
  ar_scope_json :: ustring
  ar_status :: string
  ar_proposed_count :: nat
  ar_applied_count :: nat
  ar_latest_successful_boundary :: "ustring option"

record audit_db =
  ad_study :: study_store
  ad_status :: "entity_kind \<Rightarrow> nat \<Rightarrow> ustring"
  ad_revision :: "entity_kind \<Rightarrow> nat \<Rightarrow> int"
  ad_links :: "nat \<Rightarrow> session_links"
  ad_summaries :: "summary_row list"
  ad_runs :: "audit_run_row list"
  ad_amendments :: "amendment_row list"

text \<open>The clock and the JSON library: its texts, its parser and the digest of an encoded value.\<close>

record audit_env =
  ax_text :: "jvalue \<Rightarrow> ustring"
  ax_parse :: "ustring \<Rightarrow> jvalue option"
  ax_hash :: "jvalue \<Rightarrow> ustring"
  ax_now :: ustring
  ax_compact_now :: ustring

definition table_for :: "ustring \<Rightarrow> entity_kind option" where
  "table_for t =
     (if t = lit ''observation'' then Some Kind_Observation
      else if t = lit ''practice_item'' then Some Kind_Item
      else if t = lit ''finding'' then Some Kind_Finding
      else if t = lit ''review'' then Some Kind_Review
      else if t = lit ''session'' then Some Kind_Session else None)"

section \<open>Reading rows\<close>

text \<open>\<open>str::parse::<i64>\<close>.\<close>

fun digits_int :: "int \<Rightarrow> ustring \<Rightarrow> int option" where
  "digits_int acc [] = Some acc"
| "digits_int acc (c # cs) =
     (if is_ascii_digit c then digits_int (acc * 10 + int (c - 48)) cs else None)"

definition parse_i64 :: "ustring \<Rightarrow> int option" where
  "parse_i64 s =
     (let (negative, ds) = (case s of [] \<Rightarrow> (False, [])
          | c # cs \<Rightarrow> if c = 45 then (True, cs) else if c = 43 then (False, cs) else (False, s)) in
      if ds = [] then None
      else case digits_int 0 ds of
          None \<Rightarrow> None
        | Some n \<Rightarrow>
            (let v = (if negative then - n else n) in
             if - (2 ^ 63) \<le> v \<and> v < 2 ^ 63 then Some v else None))"

definition row_by :: "('r \<Rightarrow> nat) \<Rightarrow> 'r list \<Rightarrow> int \<Rightarrow> 'r option" where
  "row_by key rows i = find (\<lambda>r. int (key r) = i) rows"

definition finding_by :: "study_store \<Rightarrow> int \<Rightarrow> session_finding_row option" where
  "finding_by st i =
     (if 1 \<le> i \<and> i \<le> int (length (ys_findings st)) then Some (ys_findings st ! (nat i - 1)) else None)"

definition entity_exists :: "audit_db \<Rightarrow> entity_kind \<Rightarrow> int \<Rightarrow> bool" where
  "entity_exists A k i =
     (let st = ad_study A in
      case k of
        Kind_Observation \<Rightarrow> row_by ow_id (ys_observations st) i \<noteq> None
      | Kind_Item \<Rightarrow> row_by pi_id (ys_items st) i \<noteq> None
      | Kind_Finding \<Rightarrow> finding_by st i \<noteq> None
      | Kind_Review \<Rightarrow> row_by vw_id (ys_reviews st) i \<noteq> None
      | Kind_Session \<Rightarrow> row_by se_id (ys_sessions st) i \<noteq> None)"

definition row_status :: "audit_db \<Rightarrow> entity_kind \<Rightarrow> nat \<Rightarrow> (string \<times> jvalue) list" where
  "row_status A k n = [(''effective_status'', JsText (ad_status A k n)), (''revision'', JsInt (ad_revision A k n))]"

definition observation_value :: "audit_db \<Rightarrow> observation_row \<Rightarrow> weakness \<Rightarrow> jvalue" where
  "observation_value A r w = json_object
     ([(''id'', json_nat (ow_id r)), (''session_id'', json_nat (ow_session_id r)),
       (''attempt_id'', opt_json json_nat (ow_attempt_id r)),
       (''practice_item_id'', opt_json json_nat (ow_practice_item_id r)),
       (''weakness_key'', JsText (wk_key w)), (''observation_no'', json_nat (ow_observation_no r)),
       (''outcome'', json_name observation_outcome_name (ow_outcome r)),
       (''role'', json_name observation_role_name (ow_role r)),
       (''assessment_phase'', json_name assessment_phase_as_str (ow_assessment_phase r)),
       (''hint_level'', json_name hint_level_as_str (ow_hint_level r)),
       (''learner_effort'', opt_json (json_name learner_effort_as_str) (ow_learner_effort r)),
       (''evidence_source'', json_name evidence_source_as_str (ow_evidence_source r)),
       (''evidence_strength'', opt_json (json_name evidence_strength_as_str) (ow_evidence_strength r)),
       (''severity'', opt_json (json_name severity_name) (ow_severity r)),
       (''produced'', opt_json JsText (ow_produced r)), (''correction'', opt_json JsText (ow_correction r)),
       (''error_span'', opt_json JsText (ow_error_span r)), (''notes'', opt_json JsText (ow_notes r))]
      @ row_status A Kind_Observation (ow_id r))"

definition item_value :: "audit_db \<Rightarrow> practice_item_row \<Rightarrow> jvalue" where
  "item_value A r = json_object
     ([(''id'', json_nat (pi_id r)), (''session_id'', json_nat (pi_session_id r)),
       (''item_no'', json_nat (pi_item_no r)), (''drill_type'', json_name drill_type_as_str (pi_drill_type r)),
       (''prompt'', JsText (pi_prompt r)), (''response'', opt_json JsText (pi_response r)),
       (''corrected_response'', opt_json JsText (pi_corrected_response r)),
       (''reference_answer'', opt_json JsText (pi_reference_answer r)),
       (''feedback'', opt_json JsText (pi_feedback r)),
       (''outcome'', opt_json (json_name item_outcome_name) (pi_outcome r)),
       (''item_phase'', json_name activity_item_phase_as_str (pi_item_phase r))]
      @ row_status A Kind_Item (pi_id r) @
      [(''computed_word_count'', opt_json json_nat (pi_computed_word_count r)),
       (''word_counter_version'', opt_json (json_name (\<lambda>s. s)) (pi_word_counter_version r))])"

definition finding_value :: "audit_db \<Rightarrow> nat \<Rightarrow> session_finding_row \<Rightarrow> jvalue" where
  "finding_value A n r = json_object
     ([(''id'', json_nat n), (''session_id'', json_nat (fw_session_id r)),
       (''practice_item_id'', opt_json json_nat (fw_practice_item_id r)),
       (''attempt_id'', opt_json json_nat (fw_attempt_id r)),
       (''assessment_kind'', json_name finding_kind_as_str (fw_assessment_kind r)),
       (''original'', JsText (fw_original r)), (''suggestion'', opt_json JsText (fw_suggestion r)),
       (''note'', opt_json JsText (fw_note r))]
      @ row_status A Kind_Finding n)"

definition review_value :: "audit_db \<Rightarrow> review_row \<Rightarrow> jvalue" where
  "review_value A r = json_object
     ([(''id'', json_nat (vw_id r)), (''scheduler_item_id'', json_nat (vw_scheduler_item_id r)),
       (''session_id'', json_nat (vw_session_id r)), (''reviewed_at'', JsText (vw_reviewed_at r)),
       (''rating'', JsInt (vw_rating r)),
       (''retrieval_mode'', json_name retrieval_mode_as_str (vw_retrieval_mode r)),
       (''evidence_strength'', json_name evidence_strength_as_str (vw_evidence_strength r)),
       (''evidence_json'', JsText (vw_evidence r))]
      @ row_status A Kind_Review (vw_id r))"

definition effective_summary :: "audit_db \<Rightarrow> nat \<Rightarrow> ustring option" where
  "effective_summary A n =
     map_option sy_summary_json (find (\<lambda>y. sy_session_id y = n \<and> sy_summary_key y = lit ''audit_quality'')
       (ad_summaries A))"

definition session_value :: "audit_db \<Rightarrow> session_row \<Rightarrow> jvalue" where
  "session_value A r =
     (let links = ad_links A (se_id r) in
      json_object
       [(''id'', json_nat (se_id r)), (''session_date'', JsText (se_session_date r)),
        (''exercise_type_key'', json_name exercise_type_key_as_str (se_exercise_type_key r)),
        (''topic'', opt_json JsText (se_topic r)), (''task_ref'', opt_json JsText (se_task_ref r)),
        (''notes'', opt_json JsText (se_notes r)),
        (''exercise_instance_id'', opt_json JsText (sk_exercise_instance_id links)),
        (''stimulus_identity'', opt_json JsText (sk_stimulus_identity links)),
        (''source_event_id'', opt_json JsText (sk_source_event_id links)),
        (''revision'', JsInt (ad_revision A Kind_Session (se_id r))),
        (''effective_summary'', opt_json JsText (effective_summary A (se_id r)))])"

definition entity_value :: "audit_db \<Rightarrow> ustring \<Rightarrow> ustring \<Rightarrow> string + jvalue" where
  "entity_value A entity_type entity_id =
     (let st = ad_study A; missing = ''Query returned no rows'' in
      bindE (ok_or (parse_i64 entity_id) ''{entity_type} id must be an integer'') (\<lambda>i.
      case table_for entity_type of
        None \<Rightarrow> Inl ''unsupported entity_type {entity_type}''
      | Some Kind_Observation \<Rightarrow>
          bindE (ok_or (row_by ow_id (ys_observations st) i) missing) (\<lambda>r.
          bindE (ok_or (find (\<lambda>w. wk_id w = ow_weakness_id r) (db_weaknesses (ys_learning st))) missing)
            (\<lambda>w. Inr (observation_value A r w)))
      | Some Kind_Item \<Rightarrow>
          bindE (ok_or (row_by pi_id (ys_items st) i) missing) (\<lambda>r. Inr (item_value A r))
      | Some Kind_Finding \<Rightarrow>
          bindE (ok_or (finding_by st i) missing) (\<lambda>r. Inr (finding_value A (nat i) r))
      | Some Kind_Review \<Rightarrow>
          bindE (ok_or (row_by vw_id (ys_reviews st) i) missing) (\<lambda>r. Inr (review_value A r))
      | Some Kind_Session \<Rightarrow>
          bindE (ok_or (row_by se_id (ys_sessions st) i) missing) (\<lambda>r. Inr (session_value A r))))"

section \<open>Updates guarded by the revision\<close>

definition bump :: "entity_kind \<Rightarrow> nat \<Rightarrow> audit_db \<Rightarrow> audit_db" where
  "bump k n A = A\<lparr>ad_revision := (ad_revision A)(k := (ad_revision A k)(n := ad_revision A k n + 1))\<rparr>"

text \<open>\<open>UPDATE \<dots> SET \<dots>, revision=revision+1 WHERE id=? AND revision=?\<close>.\<close>

definition update_row :: "entity_kind \<Rightarrow> int \<Rightarrow> int \<Rightarrow> (nat \<Rightarrow> audit_db \<Rightarrow> string + audit_db) \<Rightarrow>
    audit_db \<Rightarrow> string + audit_db" where
  "update_row k i expected change A =
     (if entity_exists A k i \<and> ad_revision A k (nat i) = expected
      then mapE (bump k (nat i)) (change (nat i) A) else Inr A)"

definition status_allowed :: "entity_kind \<Rightarrow> ustring \<Rightarrow> bool" where
  "status_allowed k s \<longleftrightarrow> s \<in> {lit ''active'', lit ''disputed'',
     lit (if k = Kind_Review then ''invalidated'' else ''retracted'')}"

definition set_effective :: "entity_kind \<Rightarrow> ustring option \<Rightarrow> nat \<Rightarrow> audit_db \<Rightarrow> string + audit_db" where
  "set_effective k status n A =
     (case status of
        None \<Rightarrow> Inr A
      | Some s \<Rightarrow>
          if status_allowed k s
          then Inr (A\<lparr>ad_status := (ad_status A)(k := (ad_status A k)(n := s))\<rparr>)
          else Inl ''CHECK constraint failed: effective_status'')"

definition map_study :: "(study_store \<Rightarrow> study_store) \<Rightarrow> audit_db \<Rightarrow> audit_db" where
  "map_study f A = A\<lparr>ad_study := f (ad_study A)\<rparr>"

text \<open>\<open>COALESCE(?1, column)\<close> for a column with a check.\<close>

definition coalesce_column :: "(ustring \<Rightarrow> 'a option) \<Rightarrow> ustring option \<Rightarrow>
    ('a \<Rightarrow> audit_db \<Rightarrow> audit_db) \<Rightarrow> audit_db \<Rightarrow> string + audit_db" where
  "coalesce_column read text change A =
     (case text of
        None \<Rightarrow> Inr A
      | Some t \<Rightarrow> mapE (\<lambda>x. change x A) (ok_or (read t) ''CHECK constraint failed''))"

definition set_outcome :: "nat \<Rightarrow> observation_outcome \<Rightarrow> audit_db \<Rightarrow> audit_db" where
  "set_outcome n x = map_study (\<lambda>st. st\<lparr>ys_observations :=
     map (\<lambda>r. if ow_id r = n then r\<lparr>ow_outcome := x\<rparr> else r) (ys_observations st)\<rparr>)"

definition set_item_outcome :: "nat \<Rightarrow> practice_item_outcome \<Rightarrow> audit_db \<Rightarrow> audit_db" where
  "set_item_outcome n x = map_study (\<lambda>st. st\<lparr>ys_items :=
     map (\<lambda>r. if pi_id r = n then r\<lparr>pi_outcome := Some x\<rparr> else r) (ys_items st)\<rparr>)"

definition set_finding_kind :: "nat \<Rightarrow> finding_kind \<Rightarrow> audit_db \<Rightarrow> audit_db" where
  "set_finding_kind n x = map_study (\<lambda>st. st\<lparr>ys_findings :=
     (ys_findings st)[n - 1 := (ys_findings st ! (n - 1))\<lparr>fw_assessment_kind := x\<rparr>]\<rparr>)"

definition set_target :: "nat \<Rightarrow> nat \<Rightarrow> audit_db \<Rightarrow> audit_db" where
  "set_target n wid = map_study (\<lambda>st. st\<lparr>ys_observations :=
     map (\<lambda>r. if ow_id r = n then r\<lparr>ow_weakness_id := wid\<rparr> else r) (ys_observations st)\<rparr>)"

text \<open>\<open>sessions_source_event_idx\<close> keeps the source events of the sessions apart.\<close>

definition set_links :: "session_links \<Rightarrow> nat \<Rightarrow> audit_db \<Rightarrow> string + audit_db" where
  "set_links links n A =
     bindE (bail_if (sk_source_event_id links \<noteq> None \<and>
         list_ex (\<lambda>s. se_id s \<noteq> n \<and> sk_source_event_id (ad_links A (se_id s)) = sk_source_event_id links)
           (ys_sessions (ad_study A)))
       ''UNIQUE constraint failed: sessions.source_event_id'') (\<lambda>_.
     Inr (A\<lparr>ad_links := (ad_links A)(n := links)\<rparr>))"

definition set_summary :: "summary_row \<Rightarrow> summary_row list \<Rightarrow> summary_row list" where
  "set_summary y rows =
     (let same = (\<lambda>z. sy_session_id z = sy_session_id y \<and> sy_summary_key z = sy_summary_key y) in
      if list_ex same rows then map (\<lambda>z. if same z then y else z) rows else rows @ [y])"

end
