(* ===== verification/DependencyOrder.thy ===== *)
theory DependencyOrder
  imports Prelude
begin

text \<open>
  The depth-first search of \<open>ensure_acyclic\<close> in \<open>src/audit.rs\<close>: it accepts a dependency graph
  exactly when no node depends on itself, directly or through others.
\<close>

type_synonym dependency_graph = "(ustring \<times> ustring list) list"

text \<open>The graph is a \<open>HashMap\<close>: of two entries for a node the later one counts.\<close>

definition dependencies_in :: "dependency_graph \<Rightarrow> ustring \<Rightarrow> ustring list" where
  "dependencies_in G n = unwrap_or (map_of (rev G) n) []"

datatype mark = Visiting | Visited

text \<open>Marking grows, so fewer nodes of the graph remain unmarked on every descent.\<close>

definition unmarked :: "dependency_graph \<Rightarrow> (ustring \<rightharpoonup> mark) \<Rightarrow> nat" where
  "unmarked G marks = card (fst ` set G - dom marks)"

lemma unmarked_less:
  assumes "marks n = None" and "n \<in> fst ` set G"
  shows "unmarked G (marks(n \<mapsto> m)) < unmarked G marks"
  unfolding unmarked_def using assms by (intro psubset_card_mono) auto

lemma unmarked_le: "dom marks \<subseteq> dom marks' \<Longrightarrow> unmarked G marks' \<le> unmarked G marks"
  unfolding unmarked_def by (rule card_mono) auto

lemma dependencies_in_graph: "n \<notin> fst ` set G \<Longrightarrow> dependencies_in G n = []"
proof -
  assume "n \<notin> fst ` set G"
  then have "map_of (rev G) n = None" by (simp add: map_of_eq_None_iff)
  then show ?thesis by (simp add: dependencies_in_def)
qed

function visit :: "dependency_graph \<Rightarrow> ustring list \<Rightarrow> (ustring \<rightharpoonup> mark) \<Rightarrow>
    string + (ustring \<rightharpoonup> mark)" where
  "visit G [] marks = Inr marks"
| "visit G (n # ns) marks =
     (if marks n = Some Visiting then Inl ''audit proposal dependency cycle at {node}''
      else if marks n = Some Visited then visit G ns marks
      else (case visit G (dependencies_in G n) (marks(n \<mapsto> Visiting)) of
          Inl e \<Rightarrow> Inl e
        | Inr marks' \<Rightarrow> visit G ns (marks'(n \<mapsto> Visited))))"
  by pat_completeness auto

termination
proof (relation "inv_image (less_than <*lex*> less_than) (\<lambda>(G, ns, marks). (unmarked G marks, length ns))",
    goal_cases)
  case (3 G n ns marks)
  then have "marks n = None" by (cases "marks n") (metis mark.exhaust)+
  then show ?case
    using unmarked_less [of marks n G] unmarked_le [of marks "marks(n \<mapsto> Visiting)" G]
      dependencies_in_graph [of n G]
    by (cases "n \<in> fst ` set G") (auto simp: le_less)
next
  case (4 G n ns marks marks')
  have grow: "dom ms \<subseteq> dom ms'" if "visit_dom (G, xs, ms)" "visit G xs ms = Inr ms'" for G xs ms ms'
    using that
  proof (induction G xs ms arbitrary: ms' rule: visit.pinduct)
    case (2 G n ns marks)
    from 2(1,5) show ?case
      using 2(2-4) by (fastforce simp: visit.psimps split: if_splits sum.splits)
  qed (simp add: visit.psimps)
  from 4 have "dom marks \<subseteq> dom (marks'(n \<mapsto> Visited))" using grow by fastforce
  from unmarked_le [OF this, of G] show ?case by (auto simp: le_less)
qed auto

section \<open>What the search decides\<close>

definition needs :: "dependency_graph \<Rightarrow> (ustring \<times> ustring) set" where
  "needs G = {(x, y). y \<in> set (dependencies_in G x)}"

text \<open>What is visited is closed under dependencies and lies on no cycle.\<close>

definition settled :: "dependency_graph \<Rightarrow> (ustring \<rightharpoonup> mark) \<Rightarrow> bool" where
  "settled G marks \<longleftrightarrow> (\<forall>x. marks x = Some Visited \<longrightarrow>
     (x, x) \<notin> (needs G)\<^sup>+ \<and> (\<forall>y. (x, y) \<in> needs G \<longrightarrow> marks y = Some Visited))"

lemma settled_reach:
  assumes "(x, y) \<in> (needs G)\<^sup>+" and "settled G marks" and "marks x = Some Visited"
  shows "marks y = Some Visited"
  using assms(1) by (induction rule: trancl_induct) (use assms(2,3) in \<open>auto simp: settled_def\<close>)

lemma settled_insert:
  assumes m: "settled G m" and "m n \<noteq> Some Visited"
    and deps: "\<And>y. (n, y) \<in> needs G \<Longrightarrow> m y = Some Visited"
  shows "settled G (m(n \<mapsto> Visited))"
proof -
  have "(n, n) \<notin> (needs G)\<^sup>+"
  proof
    assume "(n, n) \<in> (needs G)\<^sup>+"
    then obtain y where "(n, y) \<in> needs G" "y = n \<or> (y, n) \<in> (needs G)\<^sup>+"
      by (metis tranclD rtrancl_eq_or_trancl)
    then have "m n = Some Visited" using deps settled_reach [OF _ m] by blast
    with assms(2) show False by blast
  qed
  with assms show ?thesis by (auto simp: settled_def)
qed

lemma visit_Inr:
  assumes "visit G ns marks = Inr m"
  shows "(\<forall>x. m x = Some Visiting \<longleftrightarrow> marks x = Some Visiting) \<and>
    (\<forall>x. marks x = Some Visited \<longrightarrow> m x = Some Visited) \<and>
    (\<forall>x\<in>set ns. m x = Some Visited) \<and> (settled G marks \<longrightarrow> settled G m)"
  using assms
proof (induction G ns marks arbitrary: m rule: visit.induct)
  case (2 G n ns marks)
  show ?case
  proof (cases "marks n")
    case (Some mk)
    with 2 show ?thesis by (cases mk) auto
  next
    case None
    with 2(4) obtain m1 where m1: "visit G (dependencies_in G n) (marks(n \<mapsto> Visiting)) = Inr m1"
        "visit G ns (m1(n \<mapsto> Visited)) = Inr m"
      by (auto split: sum.splits)
    have fresh: "marks n \<noteq> Some Visiting" "marks n \<noteq> Some Visited" using None by simp_all
    note inner = 2(2) [OF fresh m1(1)] and rest = 2(3) [OF fresh m1]
    have step: "settled G (m1(n \<mapsto> Visited))" if "settled G marks"
    proof (rule settled_insert)
      have "settled G (marks(n \<mapsto> Visiting))"
        using that None by (force simp: settled_def)
      then show "settled G m1" using inner by blast
      have "m1 n = Some Visiting" using inner by simp
      then show "m1 n \<noteq> Some Visited" by simp
      show "m1 y = Some Visited" if "(n, y) \<in> needs G" for y
        using inner that by (simp add: needs_def)
    qed
    have visiting: "m x = Some Visiting \<longleftrightarrow> marks x = Some Visiting" for x
      using inner rest None by (cases "x = n") auto
    have visited: "marks x = Some Visited \<Longrightarrow> m x = Some Visited" for x
      using inner rest None by (cases "x = n") auto
    have "settled G marks \<longrightarrow> settled G m" using step rest by blast
    moreover have "\<forall>x\<in>set (n # ns). m x = Some Visited" using rest by simp
    ultimately show ?thesis using visiting visited by blast
  qed
qed auto

lemma visit_Inl:
  assumes "visit G ns marks = Inl e" and "\<And>g n. marks g = Some Visiting \<Longrightarrow> n \<in> set ns \<Longrightarrow> (g, n) \<in> (needs G)\<^sup>+"
  shows "\<exists>x. (x, x) \<in> (needs G)\<^sup>+"
  using assms
proof (induction G ns marks rule: visit.induct)
  case (2 G n ns marks)
  show ?case
  proof (cases "marks n")
    case (Some mk)
    with 2(1,4,5) show ?thesis by (cases mk) auto
  next
    case None
    have down: "(g, y) \<in> (needs G)\<^sup>+"
      if "(marks(n \<mapsto> Visiting)) g = Some Visiting" "y \<in> set (dependencies_in G n)" for g y
    proof -
      from that(2) have "(n, y) \<in> needs G" by (simp add: needs_def)
      with that(1) 2(5) show ?thesis
        by (cases "g = n") (auto intro: trancl_into_trancl)
    qed
    show ?thesis
    proof (cases "visit G (dependencies_in G n) (marks(n \<mapsto> Visiting))")
      case (Inl e')
      with 2(4) None have "visit G (dependencies_in G n) (marks(n \<mapsto> Visiting)) = Inl e" by simp
      from 2(2) [OF _ _ this down] None show ?thesis by simp
    next
      case (Inr m1)
      have "(g, y) \<in> (needs G)\<^sup>+" if "(m1(n \<mapsto> Visited)) g = Some Visiting" "y \<in> set ns" for g y
        using visit_Inr [OF Inr] that 2(5) by (auto split: if_splits)
      moreover have "visit G ns (m1(n \<mapsto> Visited)) = Inl e" using 2(4) None Inr by simp
      ultimately show ?thesis using 2(3) [OF _ _ Inr] None by (metis option.distinct(1))
    qed
  qed
qed simp

lemma visit_acyclic:
  assumes "fst ` set G \<subseteq> set ns"
  shows "(\<exists>m. visit G ns Map.empty = Inr m) \<longleftrightarrow> acyclic (needs G)"
proof
  assume "\<exists>m. visit G ns Map.empty = Inr m"
  then obtain m where m: "visit G ns Map.empty = Inr m" ..
  have "settled G Map.empty" by (simp add: settled_def)
  with visit_Inr [OF m] have m: "settled G m" "\<forall>x\<in>set ns. m x = Some Visited" by blast+
  show "acyclic (needs G)"
  proof (rule acyclicI, rule allI, rule notI)
    fix x assume x: "(x, x) \<in> (needs G)\<^sup>+"
    then obtain y where "y \<in> set (dependencies_in G x)" by (auto dest: tranclD simp: needs_def)
    then have "x \<in> fst ` set G" by (metis dependencies_in_graph empty_iff list.set(1))
    then have "x \<in> fst ` set G" using dependencies_in_graph [of x G] by (auto simp: needs_def)
    with assms m x show False by (auto simp: settled_def)
  qed
next
  assume "acyclic (needs G)"
  then show "\<exists>m. visit G ns Map.empty = Inr m"
    using visit_Inl [of G ns Map.empty] by (cases "visit G ns Map.empty") (auto simp: acyclic_def)
qed

end
