(* ===== verification/Amendments.thy ===== *)
theory Amendments
  imports AuditRows DependencyOrder
begin

text \<open>
  The amendments of \<open>src/audit.rs\<close>: the checks of a batch of proposals, its application under
  optimistic concurrency and the compensating batch that reverts it. Error messages keep the
  placeholders of their interpolated parts.
\<close>

record audit_proposal =
  pr_audit_run_id :: ustring
  pr_proposal_id :: ustring
  pr_schema_version :: nat
  pr_entity_type :: ustring
  pr_entity_id :: ustring
  pr_expected_revision :: int
  pr_before_hash :: ustring
  pr_operation :: audit_operation
  pr_before :: jvalue
  pr_after :: jvalue
  pr_source_refs :: "source_ref list"
  pr_reason :: ustring
  pr_issue_class :: ustring
  pr_certainty :: certainty
  pr_reviewer :: ustring
  pr_prompt_version :: ustring
  pr_reviewed_at :: ustring
  pr_dependencies :: "ustring list"
  pr_affected_consumers :: "ustring list"

record audit_batch =
  ab_audit_run_id :: ustring
  ab_snapshot_boundary :: ustring
  ab_snapshot_hash :: ustring
  ab_model_id :: "ustring option"
  ab_prompt_version :: ustring
  ab_scope :: jvalue
  ab_proposals :: "audit_proposal list"

definition AUDIT_SCHEMA_VERSION :: nat where
  "AUDIT_SCHEMA_VERSION = 1"

section \<open>Checks of one proposal\<close>

definition is_object :: "jvalue \<Rightarrow> bool" where
  "is_object v = (case v of JsObj _ \<Rightarrow> True | _ \<Rightarrow> False)"

definition object_keys :: "jvalue \<Rightarrow> ustring list" where
  "object_keys v = (case v of JsObj fs \<Rightarrow> map fst fs | _ \<Rightarrow> [])"

definition allowed_fields :: "audit_proposal \<Rightarrow> string list \<Rightarrow> string + unit" where
  "allowed_fields p names = forE (\<lambda>k. bail_if (k \<notin> set (map lit names))
     ''proposal {} contains non-allowlisted field {key}'') (object_keys (pr_after p))"

definition entity_in :: "audit_proposal \<Rightarrow> string list \<Rightarrow> bool" where
  "entity_in p types \<longleftrightarrow> pr_entity_type p \<in> set (map lit types)"

definition sets_status :: "audit_proposal \<Rightarrow> string \<Rightarrow> bool" where
  "sets_status p s \<longleftrightarrow> string_field (pr_after p) ''effective_status'' = Some (lit s)"

fun operation_checks :: "audit_operation \<Rightarrow> audit_proposal \<Rightarrow> string + unit" where
  "operation_checks Amend_Assessment p = seqE
     [bail_if (\<not> entity_in p [''observation'', ''practice_item'', ''review''])
        ''amend_assessment targets an observation, practice_item, or review'',
      allowed_fields p [''outcome'', ''effective_status'']]"
| "operation_checks Retract_Observation p = seqE
     [bail_if (\<not> entity_in p [''observation'']) ''retract_observation targets an observation'',
      allowed_fields p [''effective_status''],
      bail_if (\<not> sets_status p ''retracted'') ''retraction must set effective_status=retracted'']"
| "operation_checks Reclassify_Finding p = seqE
     [bail_if (\<not> entity_in p [''finding'']) ''reclassify_finding targets a finding'',
      allowed_fields p [''assessment_kind'', ''effective_status'']]"
| "operation_checks Link_Continuation p = seqE
     [bail_if (\<not> entity_in p [''session'']) ''link_continuation targets a session'',
      allowed_fields p [''exercise_instance_id'', ''stimulus_identity'', ''source_event_id'']]"
| "operation_checks Mark_Duplicate p = seqE
     [bail_if (\<not> entity_in p [''observation'', ''practice_item'', ''finding''])
        ''mark_duplicate targets an observation, practice_item, or finding'',
      allowed_fields p [''effective_status''],
      bail_if (\<not> sets_status p ''retracted'') ''duplicate marking must set effective_status=retracted'']"
| "operation_checks Reassign_Target p = seqE
     [bail_if (\<not> entity_in p [''observation'']) ''reassign_target targets an observation'',
      allowed_fields p [''weakness_key''],
      bail_if (string_field (pr_after p) ''weakness_key'' = None)
        ''reassign_target requires after.weakness_key'']"
| "operation_checks Add_Recovered_Finding p = seqE
     [bail_if (\<not> entity_in p [''session''])
        ''add_recovered_finding uses the containing session as entity'',
      forE (\<lambda>k. bail_if (jget (pr_after p) k = None) ''recovered finding requires after.{key}'')
        [''practice_item_id'', ''attempt_id'', ''assessment_kind'', ''original'']]"
| "operation_checks Invalidate_Review p = seqE
     [bail_if (\<not> entity_in p [''review'']) ''invalidate_review targets a review'',
      allowed_fields p [''effective_status''],
      bail_if (\<not> sets_status p ''invalidated'')
        ''review invalidation must set effective_status=invalidated'']"
| "operation_checks Amend_Summary p = seqE
     [bail_if (\<not> entity_in p [''session'']) ''amend_summary uses a session anchor'',
      allowed_fields p [''summary_key'', ''summary_value''],
      bail_if (string_field (pr_after p) ''summary_key'' = None \<or> jget (pr_after p) ''summary_value'' = None)
        ''amend_summary requires summary_key and summary_value'']"

definition validate_operation :: "audit_proposal \<Rightarrow> string + unit" where
  "validate_operation p = seqE
     [bail_if (pr_schema_version p \<noteq> AUDIT_SCHEMA_VERSION) ''proposal {} uses unsupported audit schema {}'',
      bail_if (blank (pr_audit_run_id p) \<or> blank (pr_proposal_id p) \<or> blank (pr_entity_id p))
        ''proposal IDs and entity_id must be non-empty'',
      bail_if (pr_expected_revision p < 1 \<or> blen (pr_before_hash p) \<noteq> 64 \<or>
          list_ex (\<lambda>c. \<not> is_ascii_hex c) (pr_before_hash p))
        ''proposal {} has invalid concurrency preconditions'',
      bail_if (blank (pr_reason p) \<or> blank (pr_issue_class p) \<or> blank (pr_reviewer p) \<or>
          blank (pr_prompt_version p))
        ''proposal {} is missing provenance or rationale'',
      bail_if (\<not> is_object (pr_before p) \<or> \<not> is_object (pr_after p))
        ''proposal {} before/after values must be objects'',
      operation_checks (pr_operation p) p]"

fun split_once :: "nat \<Rightarrow> ustring \<Rightarrow> (ustring \<times> ustring) option" where
  "split_once c [] = None"
| "split_once c (x # xs) =
     (if x = c then Some ([], xs) else map_option (\<lambda>(a, b). (x # a, b)) (split_once c xs))"

definition validate_source_ref :: "audit_db \<Rightarrow> source_ref \<Rightarrow> string + unit" where
  "validate_source_ref A s =
     bindE (seqE
       [bail_if (blank (sr_source_id s)) ''proposal {} has an empty source reference'',
        bail_if (some_and (sr_source_hash s) (\<lambda>h. blen h \<noteq> 64 \<or> list_ex (\<lambda>c. \<not> is_ascii_hex c) h))
          ''proposal {} has an invalid source hash'']) (\<lambda>_.
     if starts_with (sr_source_id s) (lit ''amendment:'') \<and> sr_excerpt s = None then Inr ()
     else
       bindE (ok_or (Option.bind (split_once 58 (sr_source_id s)) (\<lambda>(kind, rest).
           map_option (\<lambda>(i, field). (kind, i, field)) (split_once 58 rest)))
         ''source reference {} must use entity:id:field'') (\<lambda>(kind, i, field).
       bindE (entity_value A kind i) (\<lambda>current.
       case sr_excerpt s of
         None \<Rightarrow> Inr ()
       | Some excerpt \<Rightarrow>
           if excerpt = [] then Inr ()
           else
             bindE (ok_or (Option.bind (case current of JsObj fs \<Rightarrow> map_of fs field | _ \<Rightarrow> None) as_text)
               ''source reference field {field} is not textual'') (\<lambda>text.
             bail_if (\<not> contains text excerpt) ''proposal {} source excerpt does not match {}''))))"

definition validate_source_refs :: "audit_db \<Rightarrow> audit_proposal \<Rightarrow> string + unit" where
  "validate_source_refs A p = forE (validate_source_ref A) (pr_source_refs p)"

text \<open>A recovered finding is read through the session that contains it.\<close>

definition proposal_entity :: "audit_db \<Rightarrow> audit_proposal \<Rightarrow> string + jvalue" where
  "proposal_entity A p =
     entity_value A (if pr_operation p = Add_Recovered_Finding then lit ''session'' else pr_entity_type p)
       (pr_entity_id p)"

section \<open>Checks of a batch\<close>

definition recorded_amendment :: "audit_db \<Rightarrow> audit_proposal \<Rightarrow> amendment_row option" where
  "recorded_amendment A p = find (\<lambda>m. am_audit_run_id m = pr_audit_run_id p \<and>
     am_proposal_id m = pr_proposal_id p) (ad_amendments A)"

definition qualified_id :: "audit_proposal \<Rightarrow> ustring" where
  "qualified_id p = pr_audit_run_id p @ 58 # pr_proposal_id p"

definition check_dependency :: "audit_batch \<Rightarrow> ustring set \<Rightarrow> ustring \<Rightarrow> string + unit" where
  "check_dependency b seen d =
     bail_if (d \<notin> seen \<and> \<not> list_ex (\<lambda>x. qualified_id x = d) (ab_proposals b))
       ''proposal {} references missing dependency {}''"

definition check_new_proposal :: "audit_env \<Rightarrow> audit_db \<Rightarrow> audit_batch \<Rightarrow> ustring set \<Rightarrow> audit_proposal \<Rightarrow>
    string + unit" where
  "check_new_proposal E A b seen p =
     bindE (bail_if (table_for (pr_entity_type p) = None \<and> pr_operation p \<noteq> Add_Recovered_Finding)
       ''unsupported entity type {}'') (\<lambda>_.
     bindE (proposal_entity A p) (\<lambda>current.
     seqE
       [bail_if (pr_source_refs p = [] \<and> pr_certainty p = Certainty_Supported)
          ''supported proposal {} must cite source_refs'',
        validate_source_refs A p,
        bail_if (int_field current ''revision'' \<noteq> Some (pr_expected_revision p) \<and>
            pr_operation p \<noteq> Add_Recovered_Finding)
          ''proposal {} expected revision {} but current entity is {:?}'',
        bail_if (pr_operation p \<noteq> Add_Recovered_Finding \<and> ax_hash E current \<noteq> pr_before_hash p)
          ''proposal {} before_hash does not match current entity'',
        forE (check_dependency b seen) (pr_dependencies p)]))"

definition check_proposal :: "audit_env \<Rightarrow> audit_db \<Rightarrow> audit_batch \<Rightarrow> ustring set \<Rightarrow> audit_proposal \<Rightarrow>
    string + ustring set" where
  "check_proposal E A b seen p =
     bindE (seqE
       [bail_if (pr_audit_run_id p \<noteq> ab_audit_run_id b) ''proposal {} belongs to a different audit run'',
        bail_if (pr_proposal_id p \<in> seen) ''duplicate proposal_id {}'',
        validate_operation p]) (\<lambda>_.
     let seen = insert (pr_proposal_id p) seen in
     bindE (case recorded_amendment A p of
         Some m \<Rightarrow> bail_if (am_status m \<noteq> ''applied'' \<or> am_operation m \<noteq> pr_operation p \<or>
             am_after_json m \<noteq> ax_text E (pr_after p))
           ''proposal {} conflicts with its recorded amendment''
       | None \<Rightarrow> check_new_proposal E A b seen p) (\<lambda>_.
     Inr seen))"

definition stripped :: "audit_batch \<Rightarrow> ustring \<Rightarrow> ustring" where
  "stripped b d =
     (let prefix = ab_audit_run_id b @ [58] in
      if starts_with d prefix then drop (length prefix) d else d)"

definition batch_graph :: "audit_batch \<Rightarrow> dependency_graph" where
  "batch_graph b =
     (let ids = map pr_proposal_id (ab_proposals b) in
      map (\<lambda>p. (pr_proposal_id p, filter (\<lambda>d. d \<in> set ids) (map (stripped b) (pr_dependencies p))))
        (ab_proposals b))"

text \<open>The keys are visited in the order of a hash set; the result does not depend on it.\<close>

definition ensure_acyclic :: "ustring list \<Rightarrow> audit_batch \<Rightarrow> string + unit" where
  "ensure_acyclic order b = mapE (\<lambda>_. ()) (visit (batch_graph b) order Map.empty)"

definition validate_batch :: "audit_env \<Rightarrow> audit_db \<Rightarrow> audit_batch \<Rightarrow> string + unit" where
  "validate_batch E A b =
     bindE (bail_if (blank (ab_audit_run_id b) \<or> blank (ab_snapshot_boundary b) \<or>
         blen (ab_snapshot_hash b) \<noteq> 64 \<or> blank (ab_prompt_version b))
       ''audit batch metadata is incomplete'') (\<lambda>_.
     bindE (foldE (check_proposal E A b) {} (ab_proposals b)) (\<lambda>_.
     ensure_acyclic (map pr_proposal_id (ab_proposals b)) b))"

section \<open>Applying a batch\<close>

definition retract :: "audit_proposal \<Rightarrow> int \<Rightarrow> audit_db \<Rightarrow> string + audit_db" where
  "retract p i A =
     (case table_for (pr_entity_type p) of
        Some k \<Rightarrow>
          if k \<in> {Kind_Observation, Kind_Item, Kind_Finding}
          then update_row k i (pr_expected_revision p) (set_effective k (Some (lit ''retracted''))) A
          else Inl ''invalid duplicate target''
      | None \<Rightarrow> Inl ''invalid duplicate target'')"

definition amend_assessment :: "audit_proposal \<Rightarrow> int \<Rightarrow> audit_db \<Rightarrow> string + audit_db" where
  "amend_assessment p i A =
     (let outcome = string_field (pr_after p) ''outcome'';
          status = string_field (pr_after p) ''effective_status'' in
      case table_for (pr_entity_type p) of
        Some Kind_Observation \<Rightarrow>
          update_row Kind_Observation i (pr_expected_revision p) (\<lambda>n A.
            bindE (coalesce_column outcome_column outcome (set_outcome n) A)
              (set_effective Kind_Observation status n)) A
      | Some Kind_Item \<Rightarrow>
          update_row Kind_Item i (pr_expected_revision p) (\<lambda>n A.
            bindE (coalesce_column item_outcome_column outcome (set_item_outcome n) A)
              (set_effective Kind_Item status n)) A
      | Some Kind_Review \<Rightarrow>
          update_row Kind_Review i (pr_expected_revision p) (set_effective Kind_Review status) A
      | _ \<Rightarrow> Inl ''amend_assessment targets an assessment entity'')"

definition links_of :: "jvalue \<Rightarrow> session_links" where
  "links_of v = \<lparr>sk_exercise_instance_id = string_field v ''exercise_instance_id'',
     sk_stimulus_identity = string_field v ''stimulus_identity'',
     sk_source_event_id = string_field v ''source_event_id''\<rparr>"

text \<open>The foreign keys of a finding pair an item or an attempt with the session.\<close>

definition of_session :: "('r \<Rightarrow> nat) \<Rightarrow> ('r \<Rightarrow> nat) \<Rightarrow> 'r list \<Rightarrow> int option \<Rightarrow> int \<Rightarrow> bool" where
  "of_session key session rows ref sid \<longleftrightarrow>
     (case ref of None \<Rightarrow> True
      | Some r \<Rightarrow> list_ex (\<lambda>x. int (key x) = r \<and> int (session x) = sid) rows)"

definition insert_recovered_finding :: "audit_proposal \<Rightarrow> int \<Rightarrow> audit_db \<Rightarrow> string + audit_db" where
  "insert_recovered_finding p sid A =
     (let st = ad_study A; item = int_field (pr_after p) ''practice_item_id'';
          attempt = int_field (pr_after p) ''attempt_id'' in
      bindE (ok_or (string_field (pr_after p) ''original'') ''NOT NULL constraint failed: session_findings.original'') (\<lambda>original.
      bindE (ok_or (Option.bind (string_field (pr_after p) ''assessment_kind'') finding_kind_column)
        ''constraint failed: session_findings.assessment_kind'') (\<lambda>kind.
      bindE (bail_if (item = None \<and> attempt = None \<and> original = []) ''CHECK constraint failed: session_findings'') (\<lambda>_.
      bindE (bail_if (\<not> of_session pi_id pi_session_id (ys_items st) item sid \<or>
          \<not> of_session ta_id ta_session_id (ys_attempts st) attempt sid)
        ''FOREIGN KEY constraint failed'') (\<lambda>_.
      Inr (map_study (\<lambda>st. st\<lparr>ys_findings := ys_findings st @
        [\<lparr>fw_session_id = nat sid, fw_practice_item_id = map_option nat item,
          fw_attempt_id = map_option nat attempt, fw_assessment_kind = kind, fw_original = original,
          fw_suggestion = string_field (pr_after p) ''suggestion'',
          fw_note = string_field (pr_after p) ''note''\<rparr>]\<rparr>) A))))))"

definition write_summary :: "audit_env \<Rightarrow> audit_proposal \<Rightarrow> int \<Rightarrow> audit_db \<Rightarrow> string + audit_db" where
  "write_summary E p sid A =
     (let summary = string_field (pr_after p) ''summary_key'' in
      if jget (pr_after p) ''summary_value'' = Some JsNull
      then Inr (A\<lparr>ad_summaries := filter (\<lambda>y. \<not> (int (sy_session_id y) = sid \<and>
        Some (sy_summary_key y) = summary)) (ad_summaries A)\<rparr>)
      else
        bindE (ok_or summary ''NOT NULL constraint failed: effective_summaries.summary_key'') (\<lambda>k.
        Inr (A\<lparr>ad_summaries := set_summary
          \<lparr>sy_session_id = nat sid, sy_summary_key = k,
           sy_summary_json = ax_text E (unwrap_or (jget (pr_after p) ''summary_value'') JsNull),
           sy_revision = pr_expected_revision p + 1, sy_updated_at = ax_now E\<rparr> (ad_summaries A)\<rparr>)))"

definition reassign_target :: "audit_proposal \<Rightarrow> int \<Rightarrow> audit_db \<Rightarrow> string + audit_db" where
  "reassign_target p i A =
     (case find (\<lambda>w. Some (wk_key w) = string_field (pr_after p) ''weakness_key'')
         (db_weaknesses (ys_learning (ad_study A))) of
        None \<Rightarrow> Inr A
      | Some w \<Rightarrow> update_row Kind_Observation i (pr_expected_revision p)
          (\<lambda>n A. Inr (set_target n (wk_id w) A)) A)"

definition run_operation :: "audit_env \<Rightarrow> audit_proposal \<Rightarrow> int \<Rightarrow> audit_db \<Rightarrow> string + audit_db" where
  "run_operation E p i A =
     (case pr_operation p of
        Amend_Assessment \<Rightarrow> amend_assessment p i A
      | Retract_Observation \<Rightarrow> retract p i A
      | Mark_Duplicate \<Rightarrow> retract p i A
      | Reclassify_Finding \<Rightarrow>
          update_row Kind_Finding i (pr_expected_revision p) (\<lambda>n A.
            bindE (coalesce_column finding_kind_column (string_field (pr_after p) ''assessment_kind'')
              (set_finding_kind n) A)
              (set_effective Kind_Finding (string_field (pr_after p) ''effective_status'') n)) A
      | Link_Continuation \<Rightarrow>
          update_row Kind_Session i (pr_expected_revision p) (set_links (links_of (pr_after p))) A
      | Reassign_Target \<Rightarrow> reassign_target p i A
      | Invalidate_Review \<Rightarrow>
          update_row Kind_Review i (pr_expected_revision p)
            (set_effective Kind_Review (Some (lit ''invalidated''))) A
      | Add_Recovered_Finding \<Rightarrow> insert_recovered_finding p i A
      | Amend_Summary \<Rightarrow>
          bindE (update_row Kind_Session i (pr_expected_revision p) (\<lambda>n. Inr) A) (write_summary E p i))"

definition set_status :: "audit_env \<Rightarrow> audit_proposal \<Rightarrow> audit_db \<Rightarrow> string + audit_db" where
  "set_status E p A =
     bindE (ok_or (parse_i64 (pr_entity_id p)) ''ParseIntError'') (\<lambda>i.
     bindE (run_operation E p i A) (\<lambda>A'.
     if pr_operation p = Add_Recovered_Finding then Inr A'
     else
       bindE (ok_or (table_for (pr_entity_type p)) ''syntax error'') (\<lambda>k.
       bindE (bail_if (\<not> entity_exists A' k i) ''entity {}:{} disappeared while applying'') (\<lambda>_.
       bindE (bail_if (ad_revision A' k (nat i) \<noteq> pr_expected_revision p + 1)
         ''proposal {} affected zero or multiple stale rows'') (\<lambda>_.
       Inr A')))))"

definition amendment_of :: "audit_env \<Rightarrow> audit_proposal \<Rightarrow> amendment_row" where
  "amendment_of E p =
     \<lparr>am_audit_run_id = pr_audit_run_id p, am_proposal_id = pr_proposal_id p,
      am_entity_type = pr_entity_type p, am_entity_id = pr_entity_id p,
      am_expected_revision = pr_expected_revision p, am_before_hash = pr_before_hash p,
      am_operation = pr_operation p, am_before_json = ax_text E (pr_before p),
      am_after_json = ax_text E (pr_after p), am_source_refs = pr_source_refs p,
      am_reason = pr_reason p, am_issue_class = pr_issue_class p, am_certainty = pr_certainty p,
      am_reviewer = pr_reviewer p, am_prompt_version = pr_prompt_version p,
      am_reviewed_at = pr_reviewed_at p, am_dependencies = pr_dependencies p,
      am_affected_consumers = pr_affected_consumers p,
      am_predecessor_revision = pr_expected_revision p, am_status = ''applied''\<rparr>"

definition apply_proposal :: "audit_env \<Rightarrow> nat \<times> nat \<times> audit_db \<Rightarrow> audit_proposal \<Rightarrow>
    string + nat \<times> nat \<times> audit_db" where
  "apply_proposal E s p =
     (let (applied, skipped, A) = s in
      if some_and (recorded_amendment A p) (\<lambda>m. am_status m = ''applied'')
      then Inr (applied, skipped + 1, A)
      else
        bindE (proposal_entity A p) (\<lambda>current.
        bindE (bail_if (pr_operation p \<noteq> Add_Recovered_Finding \<and>
            (jget current ''revision'' \<noteq> Some (JsInt (pr_expected_revision p)) \<or>
             ax_hash E current \<noteq> pr_before_hash p))
          ''proposal {} is stale; current revision/hash changed'') (\<lambda>_.
        bindE (set_status E p A) (\<lambda>A'.
        bindE (bail_if (recorded_amendment A' p \<noteq> None) ''UNIQUE constraint failed: data_amendments'') (\<lambda>_.
        Inr (applied + 1, skipped, A'\<lparr>ad_amendments := ad_amendments A' @ [amendment_of E p]\<rparr>))))))"

definition start_run :: "audit_env \<Rightarrow> audit_batch \<Rightarrow> audit_db \<Rightarrow> audit_db" where
  "start_run E b A =
     (if list_ex (\<lambda>r. ar_audit_run_id r = ab_audit_run_id b) (ad_runs A) then A
      else A\<lparr>ad_runs := ad_runs A @
        [\<lparr>ar_audit_run_id = ab_audit_run_id b, ar_snapshot_boundary = ab_snapshot_boundary b,
          ar_snapshot_hash = ab_snapshot_hash b, ar_model_id = ab_model_id b,
          ar_prompt_version = ab_prompt_version b, ar_scope_json = ax_text E (ab_scope b),
          ar_status = ''running'', ar_proposed_count = length (ab_proposals b), ar_applied_count = 0,
          ar_latest_successful_boundary = None\<rparr>]\<rparr>)"

definition end_run :: "audit_batch \<Rightarrow> nat \<Rightarrow> audit_db \<Rightarrow> audit_db" where
  "end_run b applied A = A\<lparr>ad_runs := map (\<lambda>r. if ar_audit_run_id r = ab_audit_run_id b
     then r\<lparr>ar_status := ''completed'', ar_applied_count := ar_applied_count r + applied,
       ar_latest_successful_boundary := Some (ab_snapshot_boundary b)\<rparr> else r) (ad_runs A)\<rparr>"

definition apply_batch_tx :: "audit_env \<Rightarrow> audit_batch \<Rightarrow> audit_db \<Rightarrow> string + (nat \<times> nat) \<times> audit_db" where
  "apply_batch_tx E b A =
     bindE (foldE (apply_proposal E) (0, 0, start_run E b A) (ab_proposals b))
       (\<lambda>(applied, skipped, A'). Inr ((applied, skipped), end_run b applied A'))"

definition apply_batch :: "audit_env \<Rightarrow> audit_batch \<Rightarrow> audit_db \<Rightarrow> (string + nat \<times> nat) \<times> audit_db" where
  "apply_batch E b A =
     (case validate_batch E A b of
        Inl e \<Rightarrow> (Inl e, A)
      | Inr _ \<Rightarrow>
          (case apply_batch_tx E b A of
             Inl e \<Rightarrow> (Inl e, A)
           | Inr (counts, A') \<Rightarrow> (Inr counts, A')))"

record preview_change =
  vc_proposal :: audit_proposal
  vc_before :: jvalue

definition preview_batch :: "audit_env \<Rightarrow> audit_db \<Rightarrow> audit_batch \<Rightarrow>
    string + preview_change list \<times> ustring list" where
  "preview_batch E A b =
     bindE (validate_batch E A b) (\<lambda>_.
     bindE (collectE (\<lambda>p. mapE (\<lambda>current. \<lparr>vc_proposal = p, vc_before = current\<rparr>) (proposal_entity A p))
       (ab_proposals b)) (\<lambda>changes.
     Inr (changes, map pr_proposal_id (filter (\<lambda>p. pr_certainty p \<noteq> Certainty_Supported) (ab_proposals b)))))"

section \<open>Reverting a batch\<close>

fun decimal :: "nat \<Rightarrow> ustring" where
  "decimal n = (if n < 10 then [48 + n] else decimal (n div 10) @ [48 + n mod 10])"

declare decimal.simps [simp del]

fun reverse_operation :: "audit_operation \<Rightarrow> audit_operation" where
  "reverse_operation Retract_Observation = Amend_Assessment"
| "reverse_operation Mark_Duplicate = Amend_Assessment"
| "reverse_operation Reclassify_Finding = Reclassify_Finding"
| "reverse_operation Link_Continuation = Link_Continuation"
| "reverse_operation Reassign_Target = Reassign_Target"
| "reverse_operation Invalidate_Review = Amend_Assessment"
| "reverse_operation Amend_Assessment = Amend_Assessment"
| "reverse_operation Add_Recovered_Finding = Mark_Duplicate"
| "reverse_operation Amend_Summary = Amend_Summary"

definition copied :: "jvalue \<Rightarrow> string list \<Rightarrow> (string \<times> jvalue) list" where
  "copied original names = concat (map (\<lambda>k. case jget original k of
     None \<Rightarrow> [] | Some v \<Rightarrow> [(k, v)]) names)"

definition reverse_after :: "audit_operation \<Rightarrow> jvalue \<Rightarrow> jvalue" where
  "reverse_after op original =
     (case op of
        Amend_Assessment \<Rightarrow> json_object (copied original [''outcome'', ''effective_status''])
      | Reclassify_Finding \<Rightarrow> json_object (copied original [''assessment_kind'', ''effective_status''])
      | Link_Continuation \<Rightarrow> json_object (map (\<lambda>k. (k, unwrap_or (jget original k) JsNull))
          [''exercise_instance_id'', ''stimulus_identity'', ''source_event_id''])
      | Reassign_Target \<Rightarrow>
          json_object [(''weakness_key'', unwrap_or (jget original ''weakness_key'') JsNull)]
      | Mark_Duplicate \<Rightarrow> json_object [(''effective_status'', JsText (lit ''retracted''))]
      | Amend_Summary \<Rightarrow> json_object
          [(''summary_key'', JsText (lit ''audit_quality'')),
           (''summary_value'', unwrap_or (jget original ''effective_summary'') JsNull)]
      | _ \<Rightarrow> json_object [])"

definition revert_id :: "audit_env \<Rightarrow> ustring \<Rightarrow> ustring" where
  "revert_id E batch_id = batch_id @ lit ''-revert-'' @ ax_compact_now E"

definition revert_proposal :: "audit_env \<Rightarrow> audit_db \<Rightarrow> ustring \<Rightarrow> ustring \<Rightarrow> nat \<times> amendment_row \<Rightarrow>
    string + audit_proposal" where
  "revert_proposal E A batch_id snapshot_hash im =
     (let (index, m) = im in
      bindE (entity_value A (am_entity_type m) (am_entity_id m)) (\<lambda>current.
      bindE (ok_or (ax_parse E (am_after_json m)) ''expected value'') (\<lambda>before.
      bindE (ok_or (ax_parse E (am_before_json m)) ''expected value'') (\<lambda>original.
      let op = reverse_operation (am_operation m) in
      Inr \<lparr>pr_audit_run_id = revert_id E batch_id,
        pr_proposal_id = lit ''revert-'' @ decimal index @ 45 # am_proposal_id m,
        pr_schema_version = AUDIT_SCHEMA_VERSION, pr_entity_type = am_entity_type m,
        pr_entity_id = am_entity_id m,
        pr_expected_revision = unwrap_or (int_field current ''revision'') 1,
        pr_before_hash = ax_hash E current, pr_operation = op, pr_before = before,
        pr_after = reverse_after op original,
        pr_source_refs = am_source_refs m @
          [\<lparr>sr_source_id = lit ''amendment:'' @ batch_id @ 58 # am_proposal_id m, sr_excerpt = None,
            sr_span = None, sr_source_hash = Some snapshot_hash\<rparr>],
        pr_reason = lit ''Compensating amendment for '' @ batch_id @ lit '': '' @ am_reason m,
        pr_issue_class = am_issue_class m, pr_certainty = Certainty_Supported,
        pr_reviewer = am_reviewer m, pr_prompt_version = am_prompt_version m,
        pr_reviewed_at = am_reviewed_at m, pr_dependencies = [],
        pr_affected_consumers = am_affected_consumers m\<rparr>))))"

definition applied_amendments :: "audit_db \<Rightarrow> ustring \<Rightarrow> amendment_row list" where
  "applied_amendments A batch_id =
     rev (filter (\<lambda>m. am_audit_run_id m = batch_id \<and> am_status m = ''applied'') (ad_amendments A))"

definition revert_batch :: "audit_env \<Rightarrow> ustring \<Rightarrow> ustring \<Rightarrow> audit_db \<Rightarrow>
    (string + ustring \<times> nat) \<times> audit_db" where
  "revert_batch E batch_id snapshot_hash A =
     (let rows = applied_amendments A batch_id in
      if blank batch_id then (Inl ''batch id must be non-empty'', A)
      else if rows = [] then (Inl ''no applied amendments found for audit run {batch_id}'', A)
      else
        (case collectE (revert_proposal E A batch_id snapshot_hash) (zip [0..<length rows] rows) of
           Inl e \<Rightarrow> (Inl e, A)
         | Inr proposals \<Rightarrow>
             (let (result, A') = apply_batch E
                \<lparr>ab_audit_run_id = revert_id E batch_id, ab_snapshot_boundary = ax_now E,
                 ab_snapshot_hash = snapshot_hash, ab_model_id = None,
                 ab_prompt_version = lit ''compensating-revert-v1'',
                 ab_scope = json_object [(''compensates'', JsText batch_id)],
                 ab_proposals = proposals\<rparr> A in
              (mapE (\<lambda>(applied, _). (revert_id E batch_id, applied)) result, A'))))"

end
