(* ===== verification/AuditCorrect.thy ===== *)
theory AuditCorrect
  imports Amendments
begin

text \<open>
  What the amendments keep: an accepted batch has no dependency cycle, the revision of every
  entity counts the amendments applied to it, an applied batch is only ever skipped again.
\<close>

section \<open>Dependencies\<close>

definition depends :: "audit_batch \<Rightarrow> (ustring \<times> ustring) set" where
  "depends b = {(pr_proposal_id p, stripped b d) | p d. p \<in> set (ab_proposals b) \<and>
     d \<in> set (pr_dependencies p) \<and> stripped b d \<in> pr_proposal_id ` set (ab_proposals b)}"

lemma needs_batch:
  assumes "distinct (map pr_proposal_id (ab_proposals b))"
  shows "needs (batch_graph b) = depends b"
proof -
  let ?G = "batch_graph b"
  have keys: "map fst ?G = map pr_proposal_id (ab_proposals b)"
    by (simp add: batch_graph_def Let_def o_def)
  with assms have dist: "distinct (map fst (rev ?G))" by (simp add: rev_map [symmetric])
  have "y \<in> set (dependencies_in ?G x) \<longleftrightarrow> (\<exists>ys. (x, ys) \<in> set ?G \<and> y \<in> set ys)" for x y
  proof (cases "map_of (rev ?G) x")
    case None
    then have "x \<notin> fst ` set ?G" by (simp add: map_of_eq_None_iff)
    then show ?thesis using None by (force simp: dependencies_in_def)
  next
    case (Some ys)
    then have "(x, zs) \<in> set ?G \<longleftrightarrow> zs = ys" for zs
      using dist by (metis map_of_eq_Some_iff option.inject set_rev)
    then show ?thesis using Some by (auto simp: dependencies_in_def)
  qed
  then have "(x, y) \<in> needs ?G \<longleftrightarrow> (\<exists>ys. (x, ys) \<in> set ?G \<and> y \<in> set ys)" for x y
    by (simp add: needs_def)
  moreover have "(\<exists>ys. (x, ys) \<in> set ?G \<and> y \<in> set ys) \<longleftrightarrow>
      (\<exists>p\<in>set (ab_proposals b). x = pr_proposal_id p \<and>
        y \<in> pr_proposal_id ` set (ab_proposals b) \<and> y \<in> stripped b ` set (pr_dependencies p))" for x y
  proof -
    have "(\<exists>ys. (x, ys) \<in> (\<lambda>p. (f p, g p)) ` S \<and> y \<in> set ys) \<longleftrightarrow> (\<exists>p\<in>S. x = f p \<and> y \<in> set (g p))"
      for f :: "audit_proposal \<Rightarrow> ustring" and g and S
      by blast
    then show ?thesis by (simp add: batch_graph_def Let_def conj_commute)
  qed
  moreover have "(x, y) \<in> depends b \<longleftrightarrow> (\<exists>p\<in>set (ab_proposals b). x = pr_proposal_id p \<and>
        y \<in> pr_proposal_id ` set (ab_proposals b) \<and> y \<in> stripped b ` set (pr_dependencies p))" for x y
    unfolding depends_def mem_Collect_eq prod.inject image_iff Bex_def by metis
  ultimately show ?thesis by auto
qed

lemma ensure_acyclic_iff:
  assumes "distinct (map pr_proposal_id (ab_proposals b))"
    and "pr_proposal_id ` set (ab_proposals b) \<subseteq> set order"
  shows "ensure_acyclic order b = Inr () \<longleftrightarrow> acyclic (depends b)"
proof -
  have "fst ` set (batch_graph b) \<subseteq> set order"
    using assms(2) by (auto simp: batch_graph_def Let_def)
  from visit_acyclic [OF this] show ?thesis
    by (auto simp: ensure_acyclic_def mapE_Inr needs_batch [OF assms(1)])
qed

section \<open>Accepted batches\<close>

lemma check_proposal_Inr:
  assumes "check_proposal E A b seen p = Inr seen'"
  shows "seen' = insert (pr_proposal_id p) seen \<and> pr_proposal_id p \<notin> seen \<and>
    pr_audit_run_id p = ab_audit_run_id b \<and> validate_operation p = Inr () \<and>
    (case recorded_amendment A p of
       Some m \<Rightarrow> am_status m = ''applied'' \<and> am_operation m = pr_operation p \<and>
         am_after_json m = ax_text E (pr_after p)
     | None \<Rightarrow> check_new_proposal E A b seen' p = Inr ())"
  using assms by (auto simp: check_proposal_def Let_def ok_simps split: option.splits)

lemma check_proposals_Inr:
  assumes "foldE (check_proposal E A b) seen ps = Inr seen'"
  shows "seen' = seen \<union> pr_proposal_id ` set ps \<and> distinct (map pr_proposal_id ps) \<and>
    pr_proposal_id ` set ps \<inter> seen = {} \<and>
    (\<forall>p\<in>set ps. pr_audit_run_id p = ab_audit_run_id b \<and> validate_operation p = Inr () \<and>
      (case recorded_amendment A p of
         Some m \<Rightarrow> am_status m = ''applied'' \<and> am_operation m = pr_operation p \<and>
           am_after_json m = ax_text E (pr_after p)
       | None \<Rightarrow> (\<exists>seen. check_new_proposal E A b seen p = Inr ())))"
  using assms
proof (induction ps arbitrary: seen)
  case (Cons p ps)
  then obtain s1 where s1: "check_proposal E A b seen p = Inr s1"
    "foldE (check_proposal E A b) s1 ps = Inr seen'"
    by (auto simp: bindE_Inr)
  from Cons.IH [OF s1(2)] check_proposal_Inr [OF s1(1)] show ?case
    by (auto split: option.splits)
qed simp

definition batch_accepted :: "audit_env \<Rightarrow> audit_db \<Rightarrow> audit_batch \<Rightarrow> bool" where
  "batch_accepted E A b \<longleftrightarrow> distinct (map pr_proposal_id (ab_proposals b)) \<and>
    (\<forall>p\<in>set (ab_proposals b). pr_audit_run_id p = ab_audit_run_id b \<and> validate_operation p = Inr () \<and>
      (case recorded_amendment A p of
         Some m \<Rightarrow> am_status m = ''applied'' \<and> am_operation m = pr_operation p \<and>
           am_after_json m = ax_text E (pr_after p)
       | None \<Rightarrow> (\<exists>seen. check_new_proposal E A b seen p = Inr ())))"

lemma validate_batch_Inr:
  assumes "validate_batch E A b = Inr ()"
  shows "batch_accepted E A b \<and> acyclic (depends b)"
proof -
  from assms obtain seen where *: "foldE (check_proposal E A b) {} (ab_proposals b) = Inr seen"
    "ensure_acyclic (map pr_proposal_id (ab_proposals b)) b = Inr ()"
    by (auto simp: validate_batch_def ok_simps)
  note checked = check_proposals_Inr [OF *(1)]
  then have "batch_accepted E A b" by (simp add: batch_accepted_def)
  then show ?thesis
    using *(2) ensure_acyclic_iff [of b "map pr_proposal_id (ab_proposals b)"] by (simp add: batch_accepted_def)
qed

section \<open>The entity of a proposal\<close>

definition names_entity :: "ustring \<Rightarrow> ustring \<Rightarrow> entity_kind \<Rightarrow> nat \<Rightarrow> bool" where
  "names_entity t s k n \<longleftrightarrow> table_for t = Some k \<and> parse_i64 s = Some (int n)"

lemma row_by_Some: "row_by key rows i = Some r \<Longrightarrow> r \<in> set rows \<and> i = int (key r)"
  by (auto simp: row_by_def dest: find_SomeD)

lemma json_object_get: "jget (json_object fs) k = map_of fs k"
proof -
  have "map_of (map (\<lambda>(k, v). (lit k, v)) fs) (lit k) = map_of fs k"
    by (induction fs) (auto simp: lit_eq_iff)
  then show ?thesis by (simp add: jget_def json_object_def)
qed

lemma value_revision:
  "jget (observation_value A r w) ''revision'' = Some (JsInt (ad_revision A Kind_Observation (ow_id r)))"
  "jget (item_value A i) ''revision'' = Some (JsInt (ad_revision A Kind_Item (pi_id i)))"
  "jget (finding_value A n f) ''revision'' = Some (JsInt (ad_revision A Kind_Finding n))"
  "jget (review_value A v) ''revision'' = Some (JsInt (ad_revision A Kind_Review (vw_id v)))"
  "jget (session_value A z) ''revision'' = Some (JsInt (ad_revision A Kind_Session (se_id z)))"
  by (simp_all add: observation_value_def item_value_def finding_value_def review_value_def
      session_value_def json_object_get row_status_def Let_def)

lemma finding_by_Some: "finding_by st i = Some r \<Longrightarrow> 0 \<le> i"
  by (simp add: finding_by_def split: if_splits)

lemma entity_value_Inr:
  assumes "entity_value A t s = Inr v"
  shows "\<exists>k n. names_entity t s k n \<and> entity_exists A k (int n) \<and>
    jget v ''revision'' = Some (JsInt (ad_revision A k n))"
proof -
  from assms obtain i k where i: "parse_i64 s = Some i" and k: "table_for t = Some k"
    by (auto simp: entity_value_def Let_def ok_simps split: option.splits)
  have "0 \<le> i \<and> entity_exists A k i \<and> jget v ''revision'' = Some (JsInt (ad_revision A k (nat i)))"
    using assms i k
    by (cases k) (auto simp: entity_value_def Let_def ok_simps entity_exists_def value_revision
        dest: row_by_Some finding_by_Some)
  then show ?thesis using i k by (intro exI [of _ k] exI [of _ "nat i"]) (simp add: names_entity_def)
qed

section \<open>Revisions\<close>

text \<open>The ids a table has.\<close>

definition study_ids :: "study_store \<Rightarrow> entity_kind \<Rightarrow> int set" where
  "study_ids st k =
     (case k of
        Kind_Observation \<Rightarrow> int ` set (map ow_id (ys_observations st))
      | Kind_Item \<Rightarrow> int ` set (map pi_id (ys_items st))
      | Kind_Finding \<Rightarrow> {1..int (length (ys_findings st))}
      | Kind_Review \<Rightarrow> int ` set (map vw_id (ys_reviews st))
      | Kind_Session \<Rightarrow> int ` set (map se_id (ys_sessions st)))"

lemma row_by_exists: "row_by key rows i \<noteq> None \<longleftrightarrow> i \<in> int ` set (map key rows)"
  by (auto simp: row_by_def find_None_iff)

lemma finding_by_exists: "finding_by st i \<noteq> None \<longleftrightarrow> i \<in> {1..int (length (ys_findings st))}"
  by (simp add: finding_by_def)

lemma entity_exists_iff: "entity_exists A k i \<longleftrightarrow> i \<in> study_ids (ad_study A) k"
  unfolding entity_exists_def study_ids_def Let_def row_by_exists finding_by_exists by (cases k) simp_all

definition same_records :: "audit_db \<Rightarrow> audit_db \<Rightarrow> bool" where
  "same_records A A' \<longleftrightarrow> ad_revision A' = ad_revision A \<and> ad_amendments A' = ad_amendments A \<and>
     ad_runs A' = ad_runs A \<and> (\<forall>k. study_ids (ad_study A) k \<subseteq> study_ids (ad_study A') k)"

lemma same_records_refl [simp]: "same_records A A"
  by (simp add: same_records_def)

lemma same_records_trans: "same_records A B \<Longrightarrow> same_records B C \<Longrightarrow> same_records A C"
  unfolding same_records_def by fastforce

lemma same_records_study:
  "ad_study A' = ad_study A \<Longrightarrow> ad_revision A' = ad_revision A \<Longrightarrow>
     ad_amendments A' = ad_amendments A \<Longrightarrow> ad_runs A' = ad_runs A \<Longrightarrow> same_records A A'"
  by (simp add: same_records_def)

lemma same_records_map_study:
  "(\<And>k. study_ids st k \<subseteq> study_ids (f st) k) \<Longrightarrow> st = ad_study A \<Longrightarrow> same_records A (map_study f A)"
  by (simp add: same_records_def map_study_def)

lemma map_key_update: "(\<And>r. key (f r) = key r) \<Longrightarrow> map key (map (\<lambda>r. if key r = n then f r else r) rows) = map key rows"
  by simp

lemma same_records_changes:
  "same_records A (set_outcome n x A)" "same_records A (set_item_outcome n y A)"
  "same_records A (set_finding_kind n z A)" "same_records A (set_target n w A)"
proof -
  have "study_ids (st\<lparr>ys_observations := map (\<lambda>r. if ow_id r = n then f r else r) (ys_observations st)\<rparr>) k =
      study_ids st k" if "\<And>r. ow_id (f r) = ow_id r" for st k f
    by (cases k) (simp_all add: study_ids_def map_key_update that del: map_map set_map)
  moreover have "study_ids (st\<lparr>ys_items := map (\<lambda>r. if pi_id r = n then f r else r) (ys_items st)\<rparr>) k =
      study_ids st k" if "\<And>r. pi_id (f r) = pi_id r" for st k f
    by (cases k) (simp_all add: study_ids_def map_key_update that del: map_map set_map)
  moreover have "study_ids (st\<lparr>ys_findings := (ys_findings st)[i := r]\<rparr>) k = study_ids st k" for st k i r
    by (cases k) (simp_all add: study_ids_def)
  ultimately show "same_records A (set_outcome n x A)" "same_records A (set_item_outcome n y A)"
    "same_records A (set_finding_kind n z A)" "same_records A (set_target n w A)"
    unfolding set_outcome_def set_item_outcome_def set_finding_kind_def set_target_def
    by (auto intro!: same_records_map_study)
qed

lemma set_effective_same: "set_effective k s n A = Inr A' \<Longrightarrow> same_records A A'"
  by (auto simp: set_effective_def intro!: same_records_study split: option.splits if_splits)

lemma coalesce_same:
  assumes "coalesce_column read t change A = Inr A'" and "\<And>x. same_records A (change x A)"
  shows "same_records A A'"
  using assms by (auto simp: coalesce_column_def ok_simps split: option.splits)

lemma set_links_same: "set_links l n A = Inr A' \<Longrightarrow> same_records A A'"
  by (auto simp: set_links_def ok_simps intro!: same_records_study)

lemma write_summary_same: "write_summary E p i A = Inr A' \<Longrightarrow> same_records A A'"
  by (auto simp: write_summary_def Let_def ok_simps intro!: same_records_study split: if_splits)

lemma insert_recovered_finding_same:
  assumes "insert_recovered_finding p i A = Inr A'"
  shows "same_records A A'"
proof -
  have "study_ids st k \<subseteq> study_ids (st\<lparr>ys_findings := ys_findings st @ xs\<rparr>) k" for st k xs
    by (cases k) (auto simp: study_ids_def)
  with assms show ?thesis
    by (auto simp: insert_recovered_finding_def Let_def ok_simps intro!: same_records_map_study)
qed

text \<open>An update guarded by the revision does nothing or one change and one step of the revision.\<close>

lemma update_row_cases:
  assumes "update_row k i expected change A = Inr A'"
  obtains (kept) "A' = A" "\<not> (entity_exists A k i \<and> ad_revision A k (nat i) = expected)"
    | (changed) A1 where "entity_exists A k i" "ad_revision A k (nat i) = expected"
      "change (nat i) A = Inr A1" "A' = bump k (nat i) A1"
  using assms by (auto simp: update_row_def mapE_Inr split: if_splits)

lemma bump_simps [simp]:
  "ad_study (bump k n A) = ad_study A" "ad_status (bump k n A) = ad_status A"
  "ad_links (bump k n A) = ad_links A" "ad_summaries (bump k n A) = ad_summaries A"
  "ad_amendments (bump k n A) = ad_amendments A" "ad_runs (bump k n A) = ad_runs A"
  "ad_revision (bump k n A) = (ad_revision A)(k := (ad_revision A k)(n := ad_revision A k n + 1))"
  by (simp_all add: bump_def)

definition one_step :: "entity_kind \<Rightarrow> nat \<Rightarrow> audit_db \<Rightarrow> audit_db \<Rightarrow> bool" where
  "one_step k n A A' \<longleftrightarrow>
     ad_revision A' = (ad_revision A)(k := (ad_revision A k)(n := ad_revision A k n + 1)) \<and>
     ad_amendments A' = ad_amendments A \<and> ad_runs A' = ad_runs A \<and>
     (\<forall>k. study_ids (ad_study A) k \<subseteq> study_ids (ad_study A') k)"

lemma one_step_bump: "same_records A A1 \<Longrightarrow> one_step k n A (bump k n A1)"
  by (simp add: one_step_def same_records_def)

lemma update_row_step:
  assumes "update_row k i expected change A = Inr A'"
    and "\<And>A1. change (nat i) A = Inr A1 \<Longrightarrow> same_records A A1"
  shows "A' = A \<or> one_step k (nat i) A A'"
  using assms(1) by (rule update_row_cases) (use assms(2) in \<open>auto intro: one_step_bump\<close>)

definition operation_kinds :: "audit_operation \<Rightarrow> entity_kind set" where
  "operation_kinds op =
     (case op of
        Amend_Assessment \<Rightarrow> {Kind_Observation, Kind_Item, Kind_Review}
      | Retract_Observation \<Rightarrow> {Kind_Observation} | Reassign_Target \<Rightarrow> {Kind_Observation}
      | Mark_Duplicate \<Rightarrow> {Kind_Observation, Kind_Item, Kind_Finding}
      | Reclassify_Finding \<Rightarrow> {Kind_Finding} | Invalidate_Review \<Rightarrow> {Kind_Review}
      | _ \<Rightarrow> {Kind_Session})"

lemma validate_operation_kind:
  "validate_operation p = Inr () \<Longrightarrow> \<exists>k\<in>operation_kinds (pr_operation p). table_for (pr_entity_type p) = Some k"
  by (cases "pr_operation p")
    (auto simp: validate_operation_def ok_simps entity_in_def table_for_def operation_kinds_def lit_eq_iff)

lemma amend_step:
  assumes "bindE (coalesce_column read t change A) (set_effective k s n) = Inr A1"
    and "\<And>x. same_records A (change x A)"
  shows "same_records A A1"
proof -
  from assms(1) obtain A2 where A2: "coalesce_column read t change A = Inr A2" "set_effective k s n A2 = Inr A1"
    by (auto simp: bindE_Inr)
  have "same_records A A2" by (rule coalesce_same [OF A2(1)]) (rule assms(2))
  then show ?thesis using set_effective_same [OF A2(2)] by (rule same_records_trans)
qed

lemma run_operation_step:
  assumes run: "run_operation E p i A = Inr A'" and "validate_operation p = Inr ()"
    and "pr_operation p \<noteq> Add_Recovered_Finding" and k: "table_for (pr_entity_type p) = Some k"
  shows "same_records A A' \<or> one_step k (nat i) A A'"
proof -
  have "k \<in> operation_kinds (pr_operation p)"
    using validate_operation_kind [OF assms(2)] k by auto
  note kinds = this [unfolded operation_kinds_def]
  have step: "same_records A A' \<or> one_step k' (nat i) A A'"
    if "update_row k' i e change A = Inr A'" "\<And>A1. change (nat i) A = Inr A1 \<Longrightarrow> same_records A A1"
    for k' e change A'
    using update_row_step [OF that] by auto
  show ?thesis
  proof (cases "pr_operation p")
    case Amend_Summary
    with run obtain A1 where A1: "update_row Kind_Session i (pr_expected_revision p) (\<lambda>n. Inr) A = Inr A1"
      "write_summary E p i A1 = Inr A'"
      by (auto simp: run_operation_def bindE_Inr)
    have "same_records A A1 \<or> one_step Kind_Session (nat i) A A1" by (rule step [OF A1(1)]) simp
    with write_summary_same [OF A1(2)] kinds Amend_Summary show ?thesis
      unfolding one_step_def same_records_def by fastforce
  next
    case Amend_Assessment
    with kinds consider "k = Kind_Observation" | "k = Kind_Item" | "k = Kind_Review" by auto
    then show ?thesis
    proof cases
      case 1
      with run Amend_Assessment show ?thesis
        by (simp add: run_operation_def amend_assessment_def Let_def k)
          (erule step, erule amend_step, rule same_records_changes)
    next
      case 2
      with run Amend_Assessment show ?thesis
        by (simp add: run_operation_def amend_assessment_def Let_def k)
          (erule step, erule amend_step, rule same_records_changes)
    next
      case 3
      with run Amend_Assessment show ?thesis
        by (simp add: run_operation_def amend_assessment_def Let_def k)
          (erule step, erule set_effective_same)
    qed
  next
    case Reclassify_Finding
    with run kinds show ?thesis
      by (simp add: run_operation_def k) (erule step, erule amend_step, rule same_records_changes)
  next
    case Link_Continuation
    with run kinds show ?thesis
      by (simp add: run_operation_def k) (erule step, erule set_links_same)
  next
    case Invalidate_Review
    with run kinds show ?thesis
      by (simp add: run_operation_def k) (erule step, erule set_effective_same)
  next
    case Reassign_Target
    with run kinds show ?thesis
      by (auto simp: run_operation_def reassign_target_def same_records_changes split: option.splits
          elim!: step)
  next
    case Retract_Observation
    with run kinds have "update_row k i (pr_expected_revision p)
        (set_effective k (Some (lit ''retracted''))) A = Inr A'"
      by (auto simp: run_operation_def retract_def k)
    then show ?thesis by (rule step) (rule set_effective_same)
  next
    case Mark_Duplicate
    with run kinds have "update_row k i (pr_expected_revision p)
        (set_effective k (Some (lit ''retracted''))) A = Inr A'"
      by (auto simp: run_operation_def retract_def k)
    then show ?thesis by (rule step) (rule set_effective_same)
  qed (use assms(3) in simp)
qed

lemma names_entity_unique:
  "names_entity t s k n \<Longrightarrow> names_entity t s k' n' \<Longrightarrow> k' = k \<and> n' = n"
  by (auto simp: names_entity_def)

lemma set_status_step:
  assumes "set_status E p A = Inr A'" and "validate_operation p = Inr ()"
    and "pr_operation p \<noteq> Add_Recovered_Finding"
    and names: "names_entity (pr_entity_type p) (pr_entity_id p) k n"
    and fresh: "ad_revision A k n = pr_expected_revision p"
  shows "one_step k n A A'"
proof -
  from names have k: "table_for (pr_entity_type p) = Some k" "parse_i64 (pr_entity_id p) = Some (int n)"
    by (simp_all add: names_entity_def)
  with assms(1,3) have run: "run_operation E p (int n) A = Inr A'"
    and moved: "ad_revision A' k n = pr_expected_revision p + 1"
    by (auto simp: set_status_def ok_simps)
  have "\<not> same_records A A'" using moved fresh by (auto simp: same_records_def)
  with run_operation_step [OF run assms(2,3) k(1)] show ?thesis by simp
qed

lemma set_status_recovered:
  assumes "set_status E p A = Inr A'" and "pr_operation p = Add_Recovered_Finding"
  shows "same_records A A'"
  using assms insert_recovered_finding_same by (auto simp: set_status_def run_operation_def ok_simps)

section \<open>Applying proposals\<close>

text \<open>The entity whose revision a proposal moves.\<close>

definition moves :: "audit_proposal \<Rightarrow> entity_kind \<Rightarrow> nat \<Rightarrow> bool" where
  "moves p k n \<longleftrightarrow> pr_operation p \<noteq> Add_Recovered_Finding \<and>
     names_entity (pr_entity_type p) (pr_entity_id p) k n"

lemma apply_proposal_cases:
  assumes "apply_proposal E (a, s, A) p = Inr s'" and "validate_operation p = Inr ()"
  obtains (skipped) "s' = (a, s + 1, A)" "some_and (recorded_amendment A p) (\<lambda>m. am_status m = ''applied'')"
    | (applied) A1 where "s' = (a + 1, s, A1\<lparr>ad_amendments := ad_amendments A @ [amendment_of E p]\<rparr>)"
      "recorded_amendment A p = None" "set_status E p A = Inr A1" "ad_amendments A1 = ad_amendments A"
      "ad_runs A1 = ad_runs A"
      "pr_operation p = Add_Recovered_Finding \<and> same_records A A1 \<or>
       (\<exists>k n. moves p k n \<and> ad_revision A k n = pr_expected_revision p \<and> one_step k n A A1)"
proof (cases "some_and (recorded_amendment A p) (\<lambda>m. am_status m = ''applied'')")
  case True
  with assms(1) show ?thesis by (intro skipped) (auto simp: apply_proposal_def)
next
  case False
  with assms(1) obtain current A1 where current: "proposal_entity A p = Inr current"
    and fresh: "pr_operation p \<noteq> Add_Recovered_Finding \<Longrightarrow>
      jget current ''revision'' = Some (JsInt (pr_expected_revision p))"
    and set: "set_status E p A = Inr A1" and unrecorded: "recorded_amendment A1 p = None"
    and s': "s' = (a + 1, s, A1\<lparr>ad_amendments := ad_amendments A1 @ [amendment_of E p]\<rparr>)"
    by (auto simp: apply_proposal_def ok_simps)
  have moved: "pr_operation p = Add_Recovered_Finding \<and> same_records A A1 \<or>
       (\<exists>k n. moves p k n \<and> ad_revision A k n = pr_expected_revision p \<and> one_step k n A A1)"
  proof (cases "pr_operation p = Add_Recovered_Finding")
    case True
    with set_status_recovered [OF set] show ?thesis by simp
  next
    case False
    then have "entity_value A (pr_entity_type p) (pr_entity_id p) = Inr current"
      using current by (simp add: proposal_entity_def)
    from entity_value_Inr [OF this] obtain k n where kn:
      "names_entity (pr_entity_type p) (pr_entity_id p) k n"
      "jget current ''revision'' = Some (JsInt (ad_revision A k n))" by blast
    with fresh False have "ad_revision A k n = pr_expected_revision p" by simp
    with set_status_step [OF set assms(2) False kn(1)] kn(1) False show ?thesis
      by (auto simp: moves_def)
  qed
  then have same: "ad_amendments A1 = ad_amendments A" "ad_runs A1 = ad_runs A"
    by (auto simp: same_records_def one_step_def)
  then have "recorded_amendment A p = None" using unrecorded by (simp add: recorded_amendment_def)
  then show ?thesis using applied [OF _ _ set same moved] s' same by simp
qed

lemma moves_unique: "moves p k n \<Longrightarrow> moves p k' n' \<Longrightarrow> k' = k \<and> n' = n"
  using names_entity_unique unfolding moves_def by blast

section \<open>The history of an entity\<close>

definition amends :: "amendment_row \<Rightarrow> entity_kind \<Rightarrow> nat \<Rightarrow> bool" where
  "amends m k n \<longleftrightarrow> am_operation m \<noteq> Add_Recovered_Finding \<and> names_entity (am_entity_type m) (am_entity_id m) k n"

definition history :: "audit_db \<Rightarrow> entity_kind \<Rightarrow> nat \<Rightarrow> amendment_row list" where
  "history A k n = filter (\<lambda>m. amends m k n) (ad_amendments A)"

text \<open>
  The amendments of an entity were applied to its revisions one, two and so on, and its
  revision is the next one.
\<close>

definition revisions_counted :: "audit_db \<Rightarrow> bool" where
  "revisions_counted A \<longleftrightarrow> (\<forall>k n. 1 \<le> ad_revision A k n \<and>
     map am_predecessor_revision (history A k n) = [1..ad_revision A k n - 1])"

lemma amendment_of_simps [simp]:
  "amends (amendment_of E p) k n = moves p k n"
  "am_predecessor_revision (amendment_of E p) = pr_expected_revision p"
  "am_audit_run_id (amendment_of E p) = pr_audit_run_id p"
  "am_proposal_id (amendment_of E p) = pr_proposal_id p"
  "am_status (amendment_of E p) = ''applied''" "am_operation (amendment_of E p) = pr_operation p"
  "am_after_json (amendment_of E p) = ax_text E (pr_after p)"
  by (simp_all add: amends_def moves_def amendment_of_def)

lemma apply_proposal_counted:
  assumes "apply_proposal E (a, s, A) p = Inr (a', s', A')" and "validate_operation p = Inr ()"
    and "revisions_counted A"
  shows "revisions_counted A'"
  using assms(1,2)
proof (cases rule: apply_proposal_cases)
  case skipped
  with assms(3) show ?thesis by simp
next
  case (applied A1)
  let ?A = "A1\<lparr>ad_amendments := ad_amendments A @ [amendment_of E p]\<rparr>"
  have A': "A' = ?A" using applied(1) by simp
  have hist: "history ?A k n = history A k n @ (if moves p k n then [amendment_of E p] else [])" for k n
    by (simp add: history_def)
  from applied(6) show ?thesis
  proof (elim disjE exE conjE)
    assume "pr_operation p = Add_Recovered_Finding" "same_records A A1"
    then show ?thesis
      using assms(3) unfolding A' revisions_counted_def hist by (simp add: same_records_def moves_def)
  next
    fix k n assume kn: "moves p k n" "ad_revision A k n = pr_expected_revision p" "one_step k n A A1"
    have other: "\<not> moves p k' n'" if "(k', n') \<noteq> (k, n)" for k' n'
      using kn(1) that names_entity_unique by (auto simp: moves_def)
    show ?thesis unfolding A' revisions_counted_def
    proof (intro allI)
      fix k' n'
      have old: "1 \<le> ad_revision A k' n'"
        "map am_predecessor_revision (history A k' n') = [1..ad_revision A k' n' - 1]"
        using assms(3) by (simp_all add: revisions_counted_def)
      show "1 \<le> ad_revision ?A k' n' \<and>
          map am_predecessor_revision (history ?A k' n') = [1..ad_revision ?A k' n' - 1]"
      proof (cases "(k', n') = (k, n)")
        case True
        then show ?thesis
          using old kn unfolding hist by (simp add: one_step_def upto_rec2)
      next
        case False
        then show ?thesis using old other [OF False] kn(3) unfolding hist by (auto simp: one_step_def)
      qed
    qed
  qed
qed

lemma apply_batch_cases:
  assumes "apply_batch E b A = (Inr (applied, skipped), A')"
  obtains A1 where "validate_batch E A b = Inr ()"
    "foldE (apply_proposal E) (0, 0, start_run E b A) (ab_proposals b) = Inr (applied, skipped, A1)"
    "A' = end_run b applied A1"
  using assms by (auto simp: apply_batch_def apply_batch_tx_def ok_simps split: sum.splits)

lemma run_frames [simp]:
  "ad_revision (start_run E b A) = ad_revision A" "ad_amendments (start_run E b A) = ad_amendments A"
  "ad_study (start_run E b A) = ad_study A" "ad_status (start_run E b A) = ad_status A"
  "ad_revision (end_run b n A) = ad_revision A" "ad_amendments (end_run b n A) = ad_amendments A"
  "ad_study (end_run b n A) = ad_study A" "ad_status (end_run b n A) = ad_status A"
  by (simp_all add: start_run_def end_run_def)

lemma apply_batch_counted:
  assumes "revisions_counted A"
  shows "revisions_counted (snd (apply_batch E b A))"
proof (cases "apply_batch E b A")
  case (Pair result A')
  show ?thesis
  proof (cases result)
    case (Inl e)
    with Pair have "A' = A" by (auto simp: apply_batch_def split: sum.splits prod.splits)
    with Pair assms show ?thesis by simp
  next
    case (Inr counts)
    obtain applied skipped where "counts = (applied, skipped)" by (cases counts)
    with Pair Inr have "apply_batch E b A = (Inr (applied, skipped), A')" by simp
    then show ?thesis
    proof (rule apply_batch_cases)
      fix A1
      assume valid: "validate_batch E A b = Inr ()"
        and loop: "foldE (apply_proposal E) (0, 0, start_run E b A) (ab_proposals b) = Inr (applied, skipped, A1)"
        and A': "A' = end_run b applied A1"
      have ok: "\<forall>p\<in>set (ab_proposals b). validate_operation p = Inr ()"
        using validate_batch_Inr [OF valid] by (simp add: batch_accepted_def)
      have "revisions_counted (snd (snd (applied, skipped, A1)))"
      proof (rule foldE_invariant [OF loop, where I = "\<lambda>s. revisions_counted (snd (snd s))"])
        show "revisions_counted (snd (snd (0, 0, start_run E b A)))"
          using assms by (simp add: revisions_counted_def history_def)
      qed (use ok apply_proposal_counted in fastforce)
      then show ?thesis using Pair A' by (simp add: revisions_counted_def history_def)
    qed
  qed
qed

section \<open>Applying a batch again\<close>

definition recorded_as :: "audit_env \<Rightarrow> audit_db \<Rightarrow> audit_proposal \<Rightarrow> bool" where
  "recorded_as E A p \<longleftrightarrow> (\<exists>m. recorded_amendment A p = Some m \<and> am_status m = ''applied'' \<and>
     am_operation m = pr_operation p \<and> am_after_json m = ax_text E (pr_after p))"

lemma recorded_append:
  "recorded_amendment (A\<lparr>ad_amendments := ad_amendments B @ ms\<rparr>) p =
     (case recorded_amendment B p of Some m \<Rightarrow> Some m
      | None \<Rightarrow> find (\<lambda>m. am_audit_run_id m = pr_audit_run_id p \<and> am_proposal_id m = pr_proposal_id p) ms)"
proof -
  have "find P (xs @ ys) = (case find P xs of Some m \<Rightarrow> Some m | None \<Rightarrow> find P ys)" for P xs and ys :: "'z list"
    by (induction xs) auto
  then show ?thesis by (simp add: recorded_amendment_def)
qed

lemma apply_proposals_recorded:
  assumes "foldE (apply_proposal E) (a, s, A) ps = Inr (a', s', A')"
    and "\<forall>p\<in>set ps. validate_operation p = Inr () \<and> pr_audit_run_id p = r"
    and "distinct (map pr_proposal_id ps)"
    and "\<forall>p\<in>set ps. recorded_amendment A p = None \<or> recorded_as E A p"
  shows "(\<forall>p\<in>set ps. recorded_as E A' p) \<and> (\<forall>p. recorded_as E A p \<longrightarrow> recorded_as E A' p) \<and>
    ad_runs A' = ad_runs A"
  using assms
proof (induction ps arbitrary: a s A)
  case (Cons p ps)
  from Cons(2) obtain a1 s1 A1 where step: "apply_proposal E (a, s, A) p = Inr (a1, s1, A1)"
    and rest: "foldE (apply_proposal E) (a1, s1, A1) ps = Inr (a', s', A')"
    by (auto simp: bindE_Inr)
  have valid: "validate_operation p = Inr ()" using Cons(3) by simp
  have one: "recorded_as E A1 p \<and> (\<forall>q. recorded_as E A q \<longrightarrow> recorded_as E A1 q) \<and>
      ad_runs A1 = ad_runs A \<and>
      (\<forall>q. pr_proposal_id q \<noteq> pr_proposal_id p \<longrightarrow> recorded_amendment A1 q = recorded_amendment A q)"
    using step valid
  proof (cases rule: apply_proposal_cases)
    case skipped
    with Cons(5) show ?thesis by (auto simp: recorded_as_def)
  next
    case (applied A2)
    have "recorded_amendment A1 q = (case recorded_amendment A q of Some m \<Rightarrow> Some m
        | None \<Rightarrow> if pr_audit_run_id p = pr_audit_run_id q \<and> pr_proposal_id p = pr_proposal_id q
          then Some (amendment_of E p) else None)" for q
      using applied(1) by (simp add: recorded_append split: option.split)
    then show ?thesis
      using applied(1,2,5) by (auto simp: recorded_as_def split: option.splits)
  qed
  have other: "pr_proposal_id q \<noteq> pr_proposal_id p" if "q \<in> set ps" for q
    using Cons(4) that by (auto simp: image_iff)
  have "\<forall>q\<in>set ps. recorded_amendment A1 q = None \<or> recorded_as E A1 q"
    using Cons(5) one other by (simp add: recorded_as_def)
  from Cons.IH [OF rest _ _ this] Cons(3,4) one show ?case by auto
qed simp

lemma check_recorded:
  assumes "recorded_as E A p" and "validate_operation p = Inr ()" and "pr_audit_run_id p = ab_audit_run_id b"
    and "pr_proposal_id p \<notin> seen"
  shows "check_proposal E A b seen p = Inr (insert (pr_proposal_id p) seen)"
  using assms by (auto simp: check_proposal_def recorded_as_def Let_def bindE_def bail_if_def seqE.simps)

lemma check_all_recorded:
  assumes "\<forall>p\<in>set ps. recorded_as E A p \<and> validate_operation p = Inr () \<and> pr_audit_run_id p = ab_audit_run_id b"
    and "distinct (map pr_proposal_id ps)" and "pr_proposal_id ` set ps \<inter> seen = {}"
  shows "\<exists>seen'. foldE (check_proposal E A b) seen ps = Inr seen'"
  using assms
proof (induction ps arbitrary: seen)
  case (Cons p ps)
  then have "check_proposal E A b seen p = Inr (insert (pr_proposal_id p) seen)"
    by (intro check_recorded) auto
  moreover have "\<exists>seen'. foldE (check_proposal E A b) (insert (pr_proposal_id p) seen) ps = Inr seen'"
    using Cons(2-4) by (intro Cons.IH) auto
  ultimately show ?case by (simp add: bindE_def)
qed simp

lemma skip_all:
  "\<forall>p\<in>set ps. recorded_as E A p \<Longrightarrow>
     foldE (apply_proposal E) (a, s, A) ps = Inr (a, s + length ps, A)"
proof (induction ps arbitrary: s)
  case (Cons p ps)
  then have "apply_proposal E (a, s, A) p = Inr (a, s + 1, A)"
    by (auto simp: apply_proposal_def recorded_as_def)
  with Cons show ?case by (simp add: bindE_def)
qed simp

lemma apply_again:
  assumes "apply_batch E b A = (Inr (applied, skipped), A')"
  shows "apply_batch E b A' = (Inr (0, length (ab_proposals b)), A')"
  using assms
proof (rule apply_batch_cases)
  fix A1
  assume valid: "validate_batch E A b = Inr ()"
    and loop: "foldE (apply_proposal E) (0, 0, start_run E b A) (ab_proposals b) = Inr (applied, skipped, A1)"
    and A': "A' = end_run b applied A1"
  from validate_batch_Inr [OF valid] have ok: "batch_accepted E A b" by simp
  have same: "recorded_amendment (start_run E b A) p = recorded_amendment A p" for p
    by (simp add: recorded_amendment_def)
  have "recorded_amendment (start_run E b A) p = None \<or> recorded_as E (start_run E b A) p"
    if "p \<in> set (ab_proposals b)" for p
    using ok that by (cases "recorded_amendment A p") (auto simp: batch_accepted_def recorded_as_def same)
  then have "\<forall>p\<in>set (ab_proposals b). recorded_amendment (start_run E b A) p = None \<or>
      recorded_as E (start_run E b A) p" by blast
  from apply_proposals_recorded [OF loop _ _ this, of "ab_audit_run_id b"] ok
  have rec1: "\<forall>p\<in>set (ab_proposals b). recorded_as E A1 p" and runs: "ad_runs A1 = ad_runs (start_run E b A)"
    by (auto simp: batch_accepted_def)
  have rec: "\<forall>p\<in>set (ab_proposals b). recorded_as E A' p"
    using rec1 by (simp add: A' recorded_as_def recorded_amendment_def)
  have "\<exists>seen'. foldE (check_proposal E A' b) {} (ab_proposals b) = Inr seen'"
    using ok rec by (intro check_all_recorded) (auto simp: batch_accepted_def)
  then have valid': "validate_batch E A' b = Inr ()"
    using valid by (auto simp: validate_batch_def ok_simps)
  have "map ar_audit_run_id (ad_runs A') = map ar_audit_run_id (ad_runs (start_run E b A))"
    using runs by (simp add: A' end_run_def)
  moreover have "ab_audit_run_id b \<in> set (map ar_audit_run_id (ad_runs (start_run E b A)))"
    by (cases "list_ex (\<lambda>r. ar_audit_run_id r = ab_audit_run_id b) (ad_runs A)")
      (force simp: start_run_def list_ex_iff image_iff)+
  ultimately have "list_ex (\<lambda>r. ar_audit_run_id r = ab_audit_run_id b) (ad_runs A')"
    by (metis (mono_tags, lifting) imageE list.set_map list_ex_iff)
  then have "start_run E b A' = A'" by (simp add: start_run_def)
  moreover have "end_run b 0 A' = A'"
    unfolding A' end_run_def by simp
  ultimately show ?thesis
    using valid' skip_all [OF rec, of 0 0] by (simp add: apply_batch_def apply_batch_tx_def bindE_def)
qed

section \<open>Two batches for one revision\<close>

lemma apply_proposals_mono:
  assumes "foldE (apply_proposal E) (a, s, A) ps = Inr (a', s', A')"
    and "\<forall>p\<in>set ps. validate_operation p = Inr ()"
  shows "ad_revision A k n \<le> ad_revision A' k n"
proof -
  have "ad_revision A k n \<le> ad_revision (snd (snd (a', s', A'))) k n"
  proof (rule foldE_invariant [OF assms(1), where I = "\<lambda>s. ad_revision A k n \<le> ad_revision (snd (snd s)) k n"])
    fix s x s' assume *: "ad_revision A k n \<le> ad_revision (snd (snd s)) k n" "x \<in> set ps"
      "apply_proposal E s x = Inr s'"
    obtain c d B where s: "s = (c, d, B)" by (cases s)
    from *(3) [unfolded s] show "ad_revision A k n \<le> ad_revision (snd (snd s')) k n"
    proof (cases rule: apply_proposal_cases)
      show "validate_operation x = Inr ()" using assms(2) *(2) by blast
    qed (use *(1) s in \<open>auto simp: same_records_def one_step_def\<close>)
  qed simp
  then show ?thesis by simp
qed

lemma applied_moves_on:
  assumes "foldE (apply_proposal E) (a, s, A) ps = Inr (a', s', A')"
    and "\<forall>p\<in>set ps. validate_operation p = Inr ()" and "distinct (map pr_proposal_id ps)"
    and "p \<in> set ps" and "recorded_amendment A p = None" and "moves p k n"
  shows "pr_expected_revision p < ad_revision A' k n"
  using assms
proof (induction ps arbitrary: a s A)
  case (Cons q ps)
  from Cons(2) obtain a1 s1 A1 where step: "apply_proposal E (a, s, A) q = Inr (a1, s1, A1)"
    and rest: "foldE (apply_proposal E) (a1, s1, A1) ps = Inr (a', s', A')"
    by (auto simp: bindE_Inr)
  have valid: "validate_operation q = Inr ()" using Cons(3) by simp
  show ?case
  proof (cases "p = q")
    case True
    from step valid show ?thesis
    proof (cases rule: apply_proposal_cases)
      case skipped
      then show ?thesis using Cons(6) True by simp
    next
      case (applied A2)
      then have "\<exists>k' n'. moves p k' n' \<and> ad_revision A k' n' = pr_expected_revision p \<and> one_step k' n' A A2"
        using Cons(7) True by (auto simp: moves_def)
      then have "ad_revision A k n = pr_expected_revision p" "one_step k n A A2"
        using moves_unique [OF Cons(7)] by blast+
      then have "pr_expected_revision p < ad_revision A1 k n"
        using applied(1) by (simp add: one_step_def)
      also have "\<dots> \<le> ad_revision A' k n"
        using apply_proposals_mono [OF rest] Cons(3) by simp
      finally show ?thesis .
    qed
  next
    case False
    with Cons(5) have p: "p \<in> set ps" by simp
    then have "pr_proposal_id q \<noteq> pr_proposal_id p" using Cons(4) by (auto simp: image_iff)
    have "recorded_amendment A1 p = None"
      using step valid
      by (cases rule: apply_proposal_cases)
        (use Cons(6) \<open>pr_proposal_id q \<noteq> pr_proposal_id p\<close> in \<open>auto simp: recorded_append\<close>)
    from Cons.IH [OF rest _ _ p this Cons(7)] Cons(3,4) show ?thesis by simp
  qed
qed simp

lemma stale_batch:
  assumes applied: "apply_batch E b A = (Inr counts, A')"
    and p: "p \<in> set (ab_proposals b)" "recorded_amendment A p = None" "moves p k n"
    and q: "q \<in> set (ab_proposals b')" "recorded_amendment A' q = None" "moves q k n"
    and same: "pr_expected_revision q \<le> pr_expected_revision p"
  shows "\<exists>e. apply_batch E b' A' = (Inl e, A')"
proof -
  obtain a s where counts: "counts = (a, s)" by (cases counts)
  have "pr_expected_revision q < ad_revision A' k n"
    using applied [unfolded counts]
  proof (rule apply_batch_cases)
    fix A1
    assume valid: "validate_batch E A b = Inr ()"
      and loop: "foldE (apply_proposal E) (0, 0, start_run E b A) (ab_proposals b) = Inr (a, s, A1)"
      and A': "A' = end_run b a A1"
    from validate_batch_Inr [OF valid] have ok: "batch_accepted E A b" by simp
    have "pr_expected_revision p < ad_revision A1 k n"
      by (rule applied_moves_on [OF loop _ _ p(1) _ p(3)])
        (use ok p(2) in \<open>auto simp: batch_accepted_def recorded_amendment_def\<close>)
    with same A' show ?thesis by simp
  qed
  then have "validate_batch E A' b' \<noteq> Inr ()"
  proof (rule contrapos_pn)
    assume "validate_batch E A' b' = Inr ()"
    from validate_batch_Inr [OF this] q(1,2) obtain seen where "check_new_proposal E A' b' seen q = Inr ()"
      by (fastforce simp: batch_accepted_def)
    then obtain current where "proposal_entity A' q = Inr current"
      and rev: "int_field current ''revision'' = Some (pr_expected_revision q)"
      using q(3) by (auto simp: check_new_proposal_def moves_def ok_simps)
    then have "entity_value A' (pr_entity_type q) (pr_entity_id q) = Inr current"
      using q(3) by (simp add: proposal_entity_def moves_def)
    from entity_value_Inr [OF this] q(3) have "jget current ''revision'' = Some (JsInt (ad_revision A' k n))"
      using names_entity_unique by (metis moves_def)
    with rev show "\<not> pr_expected_revision q < ad_revision A' k n"
      by (simp add: int_field_def as_int_def)
  qed
  then obtain e where "validate_batch E A' b' = Inl e" by (cases "validate_batch E A' b'") auto
  then show ?thesis by (simp add: apply_batch_def)
qed

section \<open>Batches that cannot be reverted\<close>

lemma refused_batch: "validate_batch E A b \<noteq> Inr () \<Longrightarrow> \<exists>e. apply_batch E b A = (Inl e, A)"
  by (cases "validate_batch E A b") (auto simp: apply_batch_def)

lemma revert_proposal_Inr:
  assumes "revert_proposal E A batch_id snapshot_hash (i, m) = Inr q"
  shows "pr_operation q = reverse_operation (am_operation m) \<and> pr_entity_type q = am_entity_type m \<and>
    pr_entity_id q = am_entity_id m \<and>
    (\<exists>original. ax_parse E (am_before_json m) = Some original \<and>
      pr_after q = reverse_after (reverse_operation (am_operation m)) original)"
  using assms by (auto simp: revert_proposal_def Let_def ok_simps)

lemma irreversible:
  assumes m: "m \<in> set (applied_amendments A batch_id)"
    and bad: "am_operation m = Add_Recovered_Finding \<and> am_entity_type m = lit ''session'' \<or>
      am_operation m = Mark_Duplicate \<and> am_entity_type m = lit ''finding''"
  shows "\<exists>e. revert_batch E batch_id snapshot_hash A = (Inl e, A)"
proof (cases "collectE (revert_proposal E A batch_id snapshot_hash)
    (zip [0..<length (applied_amendments A batch_id)] (applied_amendments A batch_id))")
  case (Inl e)
  then show ?thesis using m by (auto simp: revert_batch_def Let_def)
next
  case (Inr ps)
  let ?rows = "applied_amendments A batch_id"
  define b where "b = \<lparr>ab_audit_run_id = revert_id E batch_id, ab_snapshot_boundary = ax_now E,
    ab_snapshot_hash = snapshot_hash, ab_model_id = None,
    ab_prompt_version = lit ''compensating-revert-v1'',
    ab_scope = json_object [(''compensates'', JsText batch_id)], ab_proposals = ps\<rparr>"
  from m obtain i where i: "i < length ?rows" "m = ?rows ! i" by (auto simp: in_set_conv_nth)
  from Inr i have "revert_proposal E A batch_id snapshot_hash (i, m) = Inr (ps ! i)" "i < length ps"
    by (auto simp: collectE_Inr list_all2_conv_all_nth)
  then have q: "ps ! i \<in> set ps" "pr_operation (ps ! i) = reverse_operation (am_operation m)"
      "pr_entity_type (ps ! i) = am_entity_type m"
    using revert_proposal_Inr by auto
  have "validate_operation (ps ! i) \<noteq> Inr ()"
    using bad q(2,3) validate_operation_kind [of "ps ! i"]
    by (auto simp: operation_kinds_def table_for_def lit_eq_iff)
  then have "validate_batch E A b \<noteq> Inr ()"
    using q(1) validate_batch_Inr [of E A b] by (auto simp: batch_accepted_def b_def)
  from refused_batch [OF this] obtain e where "apply_batch E b A = (Inl e, A)" by blast
  then show ?thesis
    using Inr m by (auto simp: revert_batch_def Let_def b_def mapE_def)
qed

end
