(* ===== verification/AuditRevert.thy ===== *)
theory AuditRevert
  imports AuditCorrect
begin

text \<open>
  Reverting a batch. The columns the amendments change are cells, one per entity, with a
  getter and a setter; the locale \<open>cells\<close> states their laws and says when a sequence of writes
  is undone by writing the old values back.
\<close>

locale cells =
  fixes get :: "'k \<Rightarrow> 's \<Rightarrow> 'v" and put :: "'k \<Rightarrow> 'v \<Rightarrow> 's \<Rightarrow> 's" and ok :: "'s \<Rightarrow> bool"
    and present :: "'k \<Rightarrow> 's \<Rightarrow> bool"
  assumes put_put: "put k v (put k w s) = put k v s"
    and commute: "k \<noteq> l \<Longrightarrow> put k v (put l w s) = put l w (put k v s)"
    and put_get: "ok s \<Longrightarrow> put k (get k s) s = s"
    and get_put: "present k s \<Longrightarrow> get k (put k (get k t) s) = get k t"
    and get_other: "k \<noteq> l \<Longrightarrow> get k (put l v s) = get k s"
    and ok_put: "ok s \<Longrightarrow> ok (put k v s)"
    and present_put: "present l (put k v s) = present l s"
begin

definition writes :: "('k \<times> 'v) list \<Rightarrow> 's \<Rightarrow> 's" where
  "writes ws s = fold (\<lambda>(k, v). put k v) ws s"

lemma write_simps [simp]: "writes [] s = s" "writes (w # ws) s = writes ws (put (fst w) (snd w) s)"
  by (simp_all add: writes_def case_prod_beta)

lemma write_append: "writes (ws @ vs) s = writes vs (writes ws s)"
  by (simp add: writes_def)

lemma write_ok: "ok s \<Longrightarrow> ok (writes ws s)"
  by (induction ws arbitrary: s) (simp_all add: ok_put)

lemma write_present [simp]: "present k (writes ws s) = present k s"
  by (induction ws arbitrary: s) (simp_all add: present_put)

lemma get_write_other: "k \<notin> fst ` set ws \<Longrightarrow> get k (writes ws s) = get k s"
  by (induction ws arbitrary: s) (simp_all add: get_other)

lemma get_write:
  "distinct (map fst ws) \<Longrightarrow> (k, get k t) \<in> set ws \<Longrightarrow> present k s \<Longrightarrow>
     get k (writes ws s) = get k t"
proof (induction ws arbitrary: s)
  case (Cons w ws)
  obtain l x where w: "w = (l, x)" by (cases w)
  show ?case
  proof (cases "k = l")
    case True
    then have "k \<notin> fst ` set ws" "x = get k t" using Cons(2,3) w by force+
    then show ?thesis using True w Cons(4) by (simp add: get_write_other get_put)
  next
    case False
    then show ?thesis using Cons w by (auto simp: present_put)
  qed
qed simp

lemma write_absorb: "k \<in> fst ` set ws \<Longrightarrow> writes ws (put k v s) = writes ws s"
proof (induction ws arbitrary: s)
  case (Cons w ws)
  obtain l x where w: "w = (l, x)" by (cases w)
  with Cons show ?case by (cases "k = l") (auto simp: put_put commute [of l k])
qed simp

lemma write_over: "fst ` set ws \<subseteq> fst ` set vs \<Longrightarrow> writes vs (writes ws s) = writes vs s"
proof (induction ws arbitrary: s)
  case (Cons w ws)
  then show ?case by (cases w) (auto simp: write_absorb)
qed simp

lemma write_same: "ok s \<Longrightarrow> \<forall>(k, v)\<in>set ws. v = get k s \<Longrightarrow> writes ws s = s"
  by (induction ws) (auto simp: put_get)

text \<open>Writing the old values of at least the cells that were written restores the state.\<close>

lemma write_back:
  assumes "ok s" and "fst ` set ws \<subseteq> fst ` set vs" and "\<forall>(k, v)\<in>set vs. v = get k s"
  shows "writes vs (writes ws s) = s"
  using assms by (simp add: write_over write_same)

end

section \<open>The cells of the tables\<close>

record cell =
  cl_status :: ustring
  cl_outcome :: observation_outcome
  cl_weakness :: nat
  cl_item_outcome :: "practice_item_outcome option"
  cl_kind :: finding_kind
  cl_links :: session_links

definition no_links :: session_links where
  "no_links = \<lparr>sk_exercise_instance_id = None, sk_stimulus_identity = None, sk_source_event_id = None\<rparr>"

definition cell_of :: "entity_kind \<times> nat \<Rightarrow> audit_db \<Rightarrow> cell" where
  "cell_of kn A =
     (let (k, n) = kn; st = ad_study A;
          none = \<lparr>cl_status = ad_status A k n, cl_outcome = Outcome_Correct, cl_weakness = 0,
            cl_item_outcome = None, cl_kind = Finding_Error, cl_links = no_links\<rparr> in
      case k of
        Kind_Observation \<Rightarrow> (case row_by ow_id (ys_observations st) (int n) of None \<Rightarrow> none
          | Some r \<Rightarrow> none\<lparr>cl_outcome := ow_outcome r, cl_weakness := ow_weakness_id r\<rparr>)
      | Kind_Item \<Rightarrow> (case row_by pi_id (ys_items st) (int n) of None \<Rightarrow> none
          | Some r \<Rightarrow> none\<lparr>cl_item_outcome := pi_outcome r\<rparr>)
      | Kind_Finding \<Rightarrow> (case finding_by st (int n) of None \<Rightarrow> none
          | Some r \<Rightarrow> none\<lparr>cl_kind := fw_assessment_kind r\<rparr>)
      | Kind_Review \<Rightarrow> none
      | Kind_Session \<Rightarrow> none\<lparr>cl_links := ad_links A n\<rparr>)"

definition write_status :: "entity_kind \<Rightarrow> nat \<Rightarrow> ustring \<Rightarrow> audit_db \<Rightarrow> audit_db" where
  "write_status k n s A = A\<lparr>ad_status := (ad_status A)(k := (ad_status A k)(n := s))\<rparr>"

definition put_cell :: "entity_kind \<times> nat \<Rightarrow> cell \<Rightarrow> audit_db \<Rightarrow> audit_db" where
  "put_cell kn c A =
     (let (k, n) = kn in
      write_status k n (cl_status c)
       (case k of
          Kind_Observation \<Rightarrow> map_study (\<lambda>st. st\<lparr>ys_observations := map (\<lambda>r. if ow_id r = n
            then r\<lparr>ow_outcome := cl_outcome c, ow_weakness_id := cl_weakness c\<rparr> else r) (ys_observations st)\<rparr>) A
        | Kind_Item \<Rightarrow> map_study (\<lambda>st. st\<lparr>ys_items := map (\<lambda>r. if pi_id r = n
            then r\<lparr>pi_outcome := cl_item_outcome c\<rparr> else r) (ys_items st)\<rparr>) A
        | Kind_Finding \<Rightarrow> map_study (\<lambda>st. if n = 0 then st else st\<lparr>ys_findings :=
            (ys_findings st)[n - 1 := (ys_findings st ! (n - 1))\<lparr>fw_assessment_kind := cl_kind c\<rparr>]\<rparr>) A
        | Kind_Review \<Rightarrow> A
        | Kind_Session \<Rightarrow> A\<lparr>ad_links := (ad_links A)(n := cl_links c)\<rparr>))"

definition rows_distinct :: "audit_db \<Rightarrow> bool" where
  "rows_distinct A \<longleftrightarrow> distinct (map ow_id (ys_observations (ad_study A))) \<and>
     distinct (map pi_id (ys_items (ad_study A)))"

lemma row_by_update:
  "row_by key (map (\<lambda>r. if key r = n then f r else r) rows) i =
     map_option (\<lambda>r. if int n = i then f r else r) (row_by key rows i)"
  if "\<And>r. key (f r) = key r"
  by (induction rows) (auto simp: row_by_def that)

lemma map_same_row:
  assumes "distinct (map key rows)" and "row_by key rows (int n) = Some r" and "f r = r"
  shows "map (\<lambda>r. if key r = n then f r else r) rows = rows"
proof -
  have "x = r" if "x \<in> set rows" "key x = n" for x
    using assms(1) that row_by_Some [OF assms(2)] by (auto simp: distinct_map inj_on_def)
  then show ?thesis using assms(3) by (intro map_idI) auto
qed

lemma row_by_None: "row_by key rows i = None \<longleftrightarrow> (\<forall>r\<in>set rows. int (key r) \<noteq> i)"
  by (auto simp: row_by_def find_None_iff)

lemma map_no_row:
  assumes "row_by key rows (int n) = None"
  shows "map (\<lambda>r. if key r = n then f r else r) rows = rows"
  using assms by (intro map_idI) (auto simp: row_by_None)

lemmas cell_defs = cell_of_def put_cell_def write_status_def map_study_def Let_def

lemma cell_put_other:
  assumes "kn \<noteq> lm"
  shows "cell_of kn (put_cell lm c A) = cell_of kn A"
  using assms
  by (cases kn; cases lm; cases "fst kn"; cases "fst lm")
    (auto simp: cell_defs row_by_update finding_by_def nth_list_update option.case_eq_if
      split: option.splits)

lemma put_cell_commute:
  assumes "kn \<noteq> lm"
  shows "put_cell kn c (put_cell lm d A) = put_cell lm d (put_cell kn c A)"
  using assms
  by (cases kn; cases lm; cases "fst kn"; cases "fst lm")
    (auto simp: cell_defs fun_upd_twist list_update_swap o_def intro!: map_cong)

lemma put_cell_twice: "put_cell kn c (put_cell kn d A) = put_cell kn c A"
proof (cases "snd kn - 1 < length (ys_findings (ad_study A))")
  case True
  then show ?thesis by (cases kn; cases "fst kn") (auto simp: cell_defs o_def intro!: map_cong)
next
  case False
  then show ?thesis
    by (cases kn; cases "fst kn") (auto simp: cell_defs o_def list_update_beyond intro!: map_cong)
qed

lemma put_cell_own:
  assumes "rows_distinct A"
  shows "put_cell kn (cell_of kn A) A = A"
proof -
  obtain k n where kn: "kn = (k, n)" by (cases kn)
  show ?thesis
  proof (cases k)
    case Kind_Observation
    then show ?thesis
      using assms kn
      by (cases "row_by ow_id (ys_observations (ad_study A)) (int n)")
        (simp_all add: cell_defs rows_distinct_def map_no_row map_same_row)
  next
    case Kind_Item
    then show ?thesis
      using assms kn
      by (cases "row_by pi_id (ys_items (ad_study A)) (int n)")
        (simp_all add: cell_defs rows_distinct_def map_no_row map_same_row)
  next
    case Kind_Finding
    then show ?thesis
      using kn by (cases "n - 1 < length (ys_findings (ad_study A))")
        (auto simp: cell_defs finding_by_def list_update_beyond list_update_same_conv)
  qed (simp_all add: kn cell_defs)
qed

definition cell_present :: "entity_kind \<times> nat \<Rightarrow> audit_db \<Rightarrow> bool" where
  "cell_present kn A \<longleftrightarrow> entity_exists A (fst kn) (int (snd kn))"

lemma cell_put_present:
  assumes "cell_present kn A"
  shows "cell_of kn (put_cell kn (cell_of kn B) A) = cell_of kn B"
proof -
  obtain k n where kn: "kn = (k, n)" by (cases kn)
  show ?thesis
    using assms kn
    by (cases k) (auto simp: cell_present_def entity_exists_def cell_defs row_by_update finding_by_def
        split: option.splits)
qed

lemma put_cell_ids:
  "map ow_id (ys_observations (ad_study (put_cell kn c A))) = map ow_id (ys_observations (ad_study A))"
  "map pi_id (ys_items (ad_study (put_cell kn c A))) = map pi_id (ys_items (ad_study A))"
  by (cases kn; cases "fst kn"; simp add: cell_defs o_def if_distrib cong: if_cong)+

lemma put_cell_study_ids: "study_ids (ad_study (put_cell kn c A)) k = study_ids (ad_study A) k"
proof (cases k)
  case Kind_Observation
  then show ?thesis by (simp add: study_ids_def put_cell_ids del: set_map)
next
  case Kind_Item
  then show ?thesis by (simp add: study_ids_def put_cell_ids del: set_map)
qed (cases kn; cases "fst kn"; simp add: study_ids_def cell_defs)+

lemma cell_present_put: "cell_present lm (put_cell kn c A) = cell_present lm A"
  by (simp add: cell_present_def entity_exists_iff put_cell_study_ids)

interpretation audit_cells: cells cell_of put_cell rows_distinct cell_present
  by unfold_locales
    (simp_all add: put_cell_twice put_cell_own cell_put_present cell_put_other cell_present_put
      rows_distinct_def put_cell_ids, metis put_cell_commute)

section \<open>Operations as writes of a cell\<close>

definition fits :: "entity_kind \<Rightarrow> cell \<Rightarrow> bool" where
  "fits k c \<longleftrightarrow> (k \<noteq> Kind_Observation \<longrightarrow> cl_outcome c = Outcome_Correct \<and> cl_weakness c = 0) \<and>
     (k \<noteq> Kind_Item \<longrightarrow> cl_item_outcome c = None) \<and> (k \<noteq> Kind_Finding \<longrightarrow> cl_kind c = Finding_Error) \<and>
     (k \<noteq> Kind_Session \<longrightarrow> cl_links c = no_links)"

lemma fits_cell [simp]: "fits k (cell_of (k, n) A)"
  by (cases k) (auto simp: fits_def cell_of_def Let_def split: option.splits)

lemma cell_put:
  assumes "cell_present (k, n) A" and "fits k c"
  shows "cell_of (k, n) (put_cell (k, n) c A) = c"
  using assms
  by (cases k) (auto simp: cell_present_def entity_exists_def cell_defs row_by_update finding_by_def fits_def
      split: option.splits)

definition effect :: "weakness list \<Rightarrow> audit_proposal \<Rightarrow> entity_kind \<Rightarrow> cell \<Rightarrow> cell \<Rightarrow> bool" where
  "effect weaknesses p k d c \<longleftrightarrow>
     (let v = pr_after p; status = unwrap_or (string_field v ''effective_status'') (cl_status d);
          outcome = string_field v ''outcome'' in
      case pr_operation p of
        Amend_Assessment \<Rightarrow>
          (\<exists>x y. c = d\<lparr>cl_status := status, cl_outcome := x, cl_item_outcome := y\<rparr> \<and>
             (if k = Kind_Observation \<and> outcome \<noteq> None then Some x = outcome_column (the outcome)
              else x = cl_outcome d) \<and>
             (if k = Kind_Item \<and> outcome \<noteq> None then y \<noteq> None \<and> y = item_outcome_column (the outcome)
              else y = cl_item_outcome d))
      | Retract_Observation \<Rightarrow> c = d\<lparr>cl_status := lit ''retracted''\<rparr>
      | Mark_Duplicate \<Rightarrow> c = d\<lparr>cl_status := lit ''retracted''\<rparr>
      | Invalidate_Review \<Rightarrow> c = d\<lparr>cl_status := lit ''invalidated''\<rparr>
      | Reclassify_Finding \<Rightarrow>
          (\<exists>x. c = d\<lparr>cl_status := status, cl_kind := x\<rparr> \<and>
             (case string_field v ''assessment_kind'' of None \<Rightarrow> x = cl_kind d
              | Some t \<Rightarrow> Some x = finding_kind_column t))
      | Link_Continuation \<Rightarrow> c = d\<lparr>cl_links := links_of v\<rparr>
      | Reassign_Target \<Rightarrow>
          (\<exists>w. find (\<lambda>w. Some (wk_key w) = string_field v ''weakness_key'') weaknesses = Some w \<and>
             c = d\<lparr>cl_weakness := wk_id w\<rparr>)
      | _ \<Rightarrow> False)"

lemma put_cell_simps:
  "put_cell (Kind_Observation, n) c A = write_status Kind_Observation n (cl_status c)
     (map_study (\<lambda>st. st\<lparr>ys_observations := map (\<lambda>r. if ow_id r = n
       then r\<lparr>ow_outcome := cl_outcome c, ow_weakness_id := cl_weakness c\<rparr> else r) (ys_observations st)\<rparr>) A)"
  "put_cell (Kind_Item, n) c A = write_status Kind_Item n (cl_status c)
     (map_study (\<lambda>st. st\<lparr>ys_items := map (\<lambda>r. if pi_id r = n
       then r\<lparr>pi_outcome := cl_item_outcome c\<rparr> else r) (ys_items st)\<rparr>) A)"
  "put_cell (Kind_Review, n) c A = write_status Kind_Review n (cl_status c) A"
  "put_cell (Kind_Session, n) c A = write_status Kind_Session n (cl_status c)
     (A\<lparr>ad_links := (ad_links A)(n := cl_links c)\<rparr>)"
  by (simp_all add: put_cell_def)

lemma map_study_write: "map_study f (write_status k n s A) = write_status k n s (map_study f A)"
  by (simp add: map_study_def write_status_def)

lemma map_study_twice: "map_study f (map_study g A) = map_study (\<lambda>st. f (g st)) A"
  by (simp add: map_study_def)

lemma write_twice:
  "map (\<lambda>r. if ow_id r = n then r\<lparr>ow_outcome := x\<rparr> else r)
     (map (\<lambda>r. if ow_id r = n then r\<lparr>ow_outcome := y, ow_weakness_id := w\<rparr> else r) rows) =
     map (\<lambda>r. if ow_id r = n then r\<lparr>ow_outcome := x, ow_weakness_id := w\<rparr> else r) rows"
  "map (\<lambda>r. if ow_id r = n then r\<lparr>ow_weakness_id := v\<rparr> else r)
     (map (\<lambda>r. if ow_id r = n then r\<lparr>ow_outcome := y, ow_weakness_id := w\<rparr> else r) rows) =
     map (\<lambda>r. if ow_id r = n then r\<lparr>ow_outcome := y, ow_weakness_id := v\<rparr> else r) rows"
  "map (\<lambda>r. if pi_id r = n then r\<lparr>pi_outcome := o1\<rparr> else r)
     (map (\<lambda>r. if pi_id r = n then r\<lparr>pi_outcome := o2\<rparr> else r) items) =
     map (\<lambda>r. if pi_id r = n then r\<lparr>pi_outcome := o1\<rparr> else r) items"
  by simp_all

lemma set_column_put:
  "set_outcome n x (put_cell (Kind_Observation, n) c A) = put_cell (Kind_Observation, n) (c\<lparr>cl_outcome := x\<rparr>) A"
  "set_target n w (put_cell (Kind_Observation, n) c A) = put_cell (Kind_Observation, n) (c\<lparr>cl_weakness := w\<rparr>) A"
  "set_item_outcome n y (put_cell (Kind_Item, n) c A) = put_cell (Kind_Item, n) (c\<lparr>cl_item_outcome := Some y\<rparr>) A"
  unfolding put_cell_simps set_outcome_def set_target_def set_item_outcome_def map_study_write map_study_twice
  by (simp_all add: write_twice del: map_map cong: if_cong)

lemma set_finding_kind_put:
  assumes "cell_present (Kind_Finding, n) A"
  shows "set_finding_kind n z (put_cell (Kind_Finding, n) c A) = put_cell (Kind_Finding, n) (c\<lparr>cl_kind := z\<rparr>) A"
proof -
  have n: "n \<noteq> 0" "n - 1 < length (ys_findings (ad_study A))"
    using assms by (auto simp: cell_present_def entity_exists_def finding_by_def split: if_splits)
  then show ?thesis
    by (simp add: set_finding_kind_def put_cell_def write_status_def map_study_def)
qed

lemma set_status_put:
  "(put_cell (k, n) c A)\<lparr>ad_status := (ad_status (put_cell (k, n) c A))(k := (ad_status (put_cell (k, n) c A) k)(n := s))\<rparr> =
     put_cell (k, n) (c\<lparr>cl_status := s\<rparr>) A"
proof -
  have twice: "(write_status k n t B)\<lparr>ad_status := (ad_status (write_status k n t B))(k := (ad_status (write_status k n t B) k)(n := s))\<rparr> =
      write_status k n s B" for k t B
    by (simp add: write_status_def)
  show ?thesis by (cases k) (simp_all add: put_cell_def twice cong: if_cong)
qed

lemma set_effective_put:
  "set_effective k s n (put_cell (k, n) c A) = Inr A' \<Longrightarrow>
     A' = put_cell (k, n) (c\<lparr>cl_status := unwrap_or s (cl_status c)\<rparr>) A"
  by (auto simp: set_effective_def set_status_put split: option.splits if_splits)

definition restorable :: "audit_operation \<Rightarrow> bool" where
  "restorable op \<longleftrightarrow> op \<noteq> Add_Recovered_Finding \<and> op \<noteq> Amend_Summary"

lemma effect_fits:
  assumes "effect ws p k d c" and "fits k d" and "k \<in> operation_kinds (pr_operation p)"
  shows "fits k c"
  using assms
  by (cases "pr_operation p")
    (auto simp: effect_def fits_def operation_kinds_def Let_def split: option.splits if_splits)

lemma updated:
  assumes "update_row k (int n) e change A = Inr A'" and "ad_revision A k n = e" and "ad_revision A' k n = e + 1"
    and "rows_distinct A"
    and "\<And>A1. cell_present (k, n) A \<Longrightarrow> change n (put_cell (k, n) (cell_of (k, n) A) A) = Inr A1 \<Longrightarrow>
      \<exists>c. A1 = put_cell (k, n) c A \<and> P c"
  shows "\<exists>c. A' = bump k n (put_cell (k, n) c A) \<and> P c"
  using assms(1)
proof (cases rule: update_row_cases)
  case kept
  with assms(2,3) show ?thesis by simp
next
  case (changed A1)
  then have "cell_present (k, n) A" by (simp add: cell_present_def)
  with assms(5) [of A1] changed(3,4) put_cell_own [OF assms(4)] show ?thesis by auto
qed

lemma coalesce_effective:
  assumes "bindE (coalesce_column read t setter (put_cell (k, n) d A)) (set_effective k s n) = Inr A1"
    and "\<And>x. setter x (put_cell (k, n) d A) = put_cell (k, n) (f x d) A"
  shows "\<exists>c. A1 = put_cell (k, n) (c\<lparr>cl_status := unwrap_or s (cl_status c)\<rparr>) A \<and>
    (case t of None \<Rightarrow> c = d | Some u \<Rightarrow> \<exists>x. read u = Some x \<and> c = f x d)"
proof -
  from assms(1) obtain A2 where A2: "coalesce_column read t setter (put_cell (k, n) d A) = Inr A2"
    "set_effective k s n A2 = Inr A1"
    by (auto simp: bindE_Inr)
  show ?thesis
  proof (cases t)
    case None
    with A2 set_effective_put show ?thesis by (auto simp: coalesce_column_def)
  next
    case (Some u)
    with A2(1) obtain x where x: "read u = Some x" "A2 = put_cell (k, n) (f x d) A"
      by (auto simp: coalesce_column_def ok_simps assms(2))
    with A2(2) set_effective_put Some show ?thesis by auto
  qed
qed

lemma applied_effect:
  assumes set: "set_status E p A = Inr A'" and valid: "validate_operation p = Inr ()"
    and op: "restorable (pr_operation p)" and names: "names_entity (pr_entity_type p) (pr_entity_id p) k n"
    and fresh: "ad_revision A k n = pr_expected_revision p" and rows: "rows_distinct A"
  shows "\<exists>c. A' = bump k n (put_cell (k, n) c A) \<and>
    effect (db_weaknesses (ys_learning (ad_study A))) p k (cell_of (k, n) A) c"
proof -
  from names have k: "table_for (pr_entity_type p) = Some k" "parse_i64 (pr_entity_id p) = Some (int n)"
    by (simp_all add: names_entity_def)
  with set op have run: "run_operation E p (int n) A = Inr A'"
    and moved: "ad_revision A' k n = pr_expected_revision p + 1"
    by (auto simp: set_status_def restorable_def ok_simps)
  have kind: "k \<in> operation_kinds (pr_operation p)" using validate_operation_kind [OF valid] k(1) by auto
  note step = updated [OF _ fresh moved rows]
  show ?thesis
  proof (cases "pr_operation p")
    case Retract_Observation
    with run kind have "update_row k (int n) (pr_expected_revision p) (set_effective k (Some (lit ''retracted''))) A = Inr A'"
      by (auto simp: run_operation_def retract_def k operation_kinds_def)
    then show ?thesis by (rule step) (auto simp: effect_def Retract_Observation dest: set_effective_put)
  next
    case Mark_Duplicate
    with run kind have "update_row k (int n) (pr_expected_revision p) (set_effective k (Some (lit ''retracted''))) A = Inr A'"
      by (auto simp: run_operation_def retract_def k operation_kinds_def)
    then show ?thesis by (rule step) (auto simp: effect_def Mark_Duplicate dest: set_effective_put)
  next
    case Invalidate_Review
    with run kind have "update_row k (int n) (pr_expected_revision p) (set_effective k (Some (lit ''invalidated''))) A = Inr A'"
      by (auto simp: run_operation_def operation_kinds_def)
    then show ?thesis by (rule step) (auto simp: effect_def Invalidate_Review dest: set_effective_put)
  next
    case Link_Continuation
    with run kind have "update_row k (int n) (pr_expected_revision p) (set_links (links_of (pr_after p))) A = Inr A'"
      and "k = Kind_Session"
      by (auto simp: run_operation_def operation_kinds_def)
    from this(1) show ?thesis
      by (rule step) (use \<open>k = Kind_Session\<close> in \<open>auto simp: effect_def Link_Continuation set_links_def ok_simps
        put_cell_def write_status_def intro!: exI [of _ "(cell_of (k, n) A)\<lparr>cl_links := links_of (pr_after p)\<rparr>"]\<close>)
  next
    case Reclassify_Finding
    with run kind have "update_row k (int n) (pr_expected_revision p) (\<lambda>n A.
        bindE (coalesce_column finding_kind_column (string_field (pr_after p) ''assessment_kind'') (set_finding_kind n) A)
          (set_effective k (string_field (pr_after p) ''effective_status'') n)) A = Inr A'" and "k = Kind_Finding"
      by (auto simp: run_operation_def operation_kinds_def)
    from this(1) show ?thesis
    proof (rule step)
      fix A1
      assume present: "cell_present (k, n) A"
        and "bindE (coalesce_column finding_kind_column (string_field (pr_after p) ''assessment_kind'')
          (set_finding_kind n) (put_cell (k, n) (cell_of (k, n) A) A))
          (set_effective k (string_field (pr_after p) ''effective_status'') n) = Inr A1"
      from coalesce_effective [OF this(2), where f = "\<lambda>x c. c\<lparr>cl_kind := x\<rparr>"]
      show "\<exists>c. A1 = put_cell (k, n) c A \<and>
          effect (db_weaknesses (ys_learning (ad_study A))) p k (cell_of (k, n) A) c"
        using set_finding_kind_put [of n A] present \<open>k = Kind_Finding\<close>
        by (fastforce simp: effect_def Reclassify_Finding split: option.splits)
    qed
  next
    case Reassign_Target
    with run kind have "reassign_target p (int n) A = Inr A'" and k: "k = Kind_Observation"
      by (auto simp: run_operation_def operation_kinds_def)
    then obtain w where w: "find (\<lambda>w. Some (wk_key w) = string_field (pr_after p) ''weakness_key'')
        (db_weaknesses (ys_learning (ad_study A))) = Some w"
      and upd: "update_row k (int n) (pr_expected_revision p) (\<lambda>n A. Inr (set_target n (wk_id w) A)) A = Inr A'"
      using moved fresh by (auto simp: reassign_target_def split: option.splits)
    from upd show ?thesis
      by (rule step) (use k w in \<open>auto simp: effect_def Reassign_Target set_column_put\<close>)
  next
    case Amend_Assessment
    let ?outcome = "string_field (pr_after p) ''outcome''" and ?status = "string_field (pr_after p) ''effective_status''"
    let ?d = "cell_of (k, n) A"
    from kind Amend_Assessment consider "k = Kind_Observation" | "k = Kind_Item" | "k = Kind_Review"
      by (auto simp: operation_kinds_def)
    then show ?thesis
    proof cases
      case 1
      with run Amend_Assessment have "update_row k (int n) (pr_expected_revision p) (\<lambda>n A.
          bindE (coalesce_column outcome_column ?outcome (set_outcome n) A) (set_effective k ?status n)) A = Inr A'"
        by (simp add: run_operation_def amend_assessment_def Let_def k)
      then show ?thesis
      proof (rule step)
        fix A1
        assume "bindE (coalesce_column outcome_column ?outcome (set_outcome n) (put_cell (k, n) ?d A))
          (set_effective k ?status n) = Inr A1"
        from coalesce_effective [OF this, where f = "\<lambda>x c. c\<lparr>cl_outcome := x\<rparr>"]
        show "\<exists>c. A1 = put_cell (k, n) c A \<and> effect (db_weaknesses (ys_learning (ad_study A))) p k ?d c"
          using 1 by (fastforce simp: effect_def Amend_Assessment set_column_put Let_def split: option.splits)
      qed
    next
      case 2
      with run Amend_Assessment have "update_row k (int n) (pr_expected_revision p) (\<lambda>n A.
          bindE (coalesce_column item_outcome_column ?outcome (set_item_outcome n) A) (set_effective k ?status n)) A = Inr A'"
        by (simp add: run_operation_def amend_assessment_def Let_def k)
      then show ?thesis
      proof (rule step)
        fix A1
        assume "bindE (coalesce_column item_outcome_column ?outcome (set_item_outcome n) (put_cell (k, n) ?d A))
          (set_effective k ?status n) = Inr A1"
        from coalesce_effective [OF this, where f = "\<lambda>x c. c\<lparr>cl_item_outcome := Some x\<rparr>"]
        show "\<exists>c. A1 = put_cell (k, n) c A \<and> effect (db_weaknesses (ys_learning (ad_study A))) p k ?d c"
          using 2 by (fastforce simp: effect_def Amend_Assessment set_column_put Let_def split: option.splits)
      qed
    next
      case 3
      with run Amend_Assessment have "update_row k (int n) (pr_expected_revision p) (set_effective k ?status) A = Inr A'"
        by (simp add: run_operation_def amend_assessment_def Let_def k)
      then show ?thesis
        by (rule step) (use 3 in \<open>auto simp: effect_def Amend_Assessment Let_def dest!: set_effective_put\<close>)
    qed
  qed (use op in \<open>simp_all add: restorable_def\<close>)
qed

end
