(* ===== verification/AuditRestore.thy ===== *)
theory AuditRestore
  imports AuditRevert
begin

text \<open>
  A batch of restorable operations writes one cell per entity, and reverting it writes the old
  values back: the data are what they were, only revisions, runs and amendments tell of it.
\<close>

section \<open>The data without their audit trail\<close>

definition bare :: "audit_db \<Rightarrow> audit_db" where
  "bare A = A\<lparr>ad_revision := \<lambda>_ _. 1, ad_runs := [], ad_amendments := []\<rparr>"

lemma bare_simps [simp]:
  "bare (bump k n A) = bare A" "bare (A\<lparr>ad_amendments := ms\<rparr>) = bare A"
  "bare (start_run E b A) = bare A" "bare (end_run b i A) = bare A"
  "ad_study (bare A) = ad_study A" "rows_distinct (bare A) = rows_distinct A"
  by (simp_all add: bare_def bump_def start_run_def end_run_def rows_distinct_def)

lemma bare_fields:
  "bare A = bare B \<Longrightarrow> ad_study A = ad_study B \<and> ad_status A = ad_status B \<and> ad_links A = ad_links B \<and>
     ad_summaries A = ad_summaries B"
  by (cases A; cases B) (simp add: bare_def)

lemma bare_put: "bare (put_cell kn c A) = put_cell kn c (bare A)"
  by (cases kn; cases "fst kn") (simp_all add: bare_def cell_defs)

lemma bare_cell [simp]: "cell_of kn (bare A) = cell_of kn A" "cell_present kn (bare A) = cell_present kn A"
  by (simp_all add: cell_of_def cell_present_def entity_exists_def bare_def cong: entity_kind.case_cong)

lemma put_cell_learning: "ys_learning (ad_study (put_cell kn c A)) = ys_learning (ad_study A)"
  by (cases kn; cases "fst kn") (simp_all add: cell_defs)

lemma trail_frames [simp]:
  "cell_of kn (A\<lparr>ad_amendments := ms\<rparr>) = cell_of kn A" "cell_of kn (bump k n A) = cell_of kn A"
  "cell_present kn (A\<lparr>ad_amendments := ms\<rparr>) = cell_present kn A"
  "cell_present kn (bump k n A) = cell_present kn A"
  by (metis bare_cell bare_simps(1,2))+

section \<open>A batch as writes\<close>

definition key_of :: "audit_proposal \<Rightarrow> entity_kind \<times> nat" where
  "key_of p = (the (table_for (pr_entity_type p)), nat (the (parse_i64 (pr_entity_id p))))"

lemma moves_key: "moves p k n \<Longrightarrow> key_of p = (k, n)"
  by (simp add: moves_def names_entity_def key_of_def)

definition db_targets :: "audit_db \<Rightarrow> weakness list" where
  "db_targets A = db_weaknesses (ys_learning (ad_study A))"

definition written :: "audit_db \<Rightarrow> audit_proposal \<Rightarrow> (entity_kind \<times> nat) \<times> cell \<Rightarrow> bool" where
  "written A p w \<longleftrightarrow> fst w = key_of p \<and> moves p (fst (key_of p)) (snd (key_of p)) \<and> cell_present (key_of p) A \<and>
     ad_revision A (fst (key_of p)) (snd (key_of p)) \<le> pr_expected_revision p \<and>
     effect (db_targets A) p (fst (key_of p)) (cell_of (key_of p) A) (snd w)"

definition plain_proposal :: "audit_db \<Rightarrow> audit_proposal \<Rightarrow> bool" where
  "plain_proposal A p \<longleftrightarrow> validate_operation p = Inr () \<and> restorable (pr_operation p) \<and>
     recorded_amendment A p = None"

lemma apply_plain:
  assumes "apply_proposal E (a, s, A) p = Inr (a', s', A')" and "plain_proposal A p" and "rows_distinct A"
  obtains k n c where "moves p k n" "ad_revision A k n = pr_expected_revision p" "cell_present (k, n) A"
    "effect (db_targets A) p k (cell_of (k, n) A) c"
    "A' = (bump k n (put_cell (k, n) c A))\<lparr>ad_amendments := ad_amendments A @ [amendment_of E p]\<rparr>"
    "a' = a + 1" "s' = s"
proof -
  have valid: "validate_operation p = Inr ()" using assms(2) by (simp add: plain_proposal_def)
  from assms(1) valid show ?thesis
  proof (cases rule: apply_proposal_cases)
    case skipped
    then show ?thesis using assms(2) by (auto simp: plain_proposal_def)
  next
    case (applied A1)
    then obtain k n where kn: "moves p k n" "ad_revision A k n = pr_expected_revision p" "one_step k n A A1"
      using assms(2) by (auto simp: plain_proposal_def restorable_def)
    then have names: "names_entity (pr_entity_type p) (pr_entity_id p) k n" by (simp add: moves_def)
    from applied_effect [OF applied(3) valid _ names kn(2) assms(3)] assms(2) obtain c where
      c: "A1 = bump k n (put_cell (k, n) c A)" "effect (db_targets A) p k (cell_of (k, n) A) c"
      by (auto simp: plain_proposal_def db_targets_def)
    have "cell_present (k, n) A1"
      using applied(3) names assms(2)
      by (auto simp: set_status_def plain_proposal_def restorable_def ok_simps names_entity_def cell_present_def)
    then have "cell_present (k, n) A" by (simp add: c(1) cell_present_put)
    from that [OF kn(1,2) this c(2)] applied(1) show ?thesis by (simp add: c(1))
  qed
qed

lemma applied_writes:
  assumes "foldE (apply_proposal E) (a, s, A) ps = Inr (a', s', A')"
    and "\<forall>p\<in>set ps. plain_proposal A p" and "distinct (map pr_proposal_id ps)" and "rows_distinct A"
    and "\<forall>p\<in>set ps. \<forall>k n. moves p k n \<longrightarrow> pr_expected_revision p \<le> R k n"
    and "\<forall>k n. R k n \<le> ad_revision A k n"
  shows "\<exists>ws. list_all2 (written A) ps ws \<and> distinct (map fst ws) \<and>
    bare A' = audit_cells.writes ws (bare A) \<and>
    ad_amendments A' = ad_amendments A @ map (amendment_of E) ps \<and> a' = a + length ps \<and> s' = s"
  using assms
proof (induction ps arbitrary: a s A)
  case (Cons p ps)
  from Cons(2) obtain a1 s1 A1 where step: "apply_proposal E (a, s, A) p = Inr (a1, s1, A1)"
    and rest: "foldE (apply_proposal E) (a1, s1, A1) ps = Inr (a', s', A')"
    by (auto simp: bindE_Inr)
  have "plain_proposal A p" using Cons(3) by simp
  from apply_plain [OF step this Cons(5)] obtain k n c where
    kn: "moves p k n" "ad_revision A k n = pr_expected_revision p" "cell_present (k, n) A"
    and c: "effect (db_targets A) p k (cell_of (k, n) A) c"
    and A1: "A1 = (bump k n (put_cell (k, n) c A))\<lparr>ad_amendments := ad_amendments A @ [amendment_of E p]\<rparr>"
    and counts: "a1 = a + 1" "s1 = s" .
  have revision: "ad_revision A1 = (ad_revision A)(k := (ad_revision A k)(n := ad_revision A k n + 1))"
  proof -
    have "ad_revision (put_cell (k, n) c A) = ad_revision A" by (cases k) (simp_all add: cell_defs)
    then show ?thesis by (simp add: A1)
  qed
  have other: "pr_proposal_id p \<noteq> pr_proposal_id q" if "q \<in> set ps" for q
    using Cons(4) that by (auto simp: image_iff)
  have plain: "\<forall>q\<in>set ps. plain_proposal A1 q"
    using Cons(3) other by (auto simp: plain_proposal_def A1 recorded_append simp del: trail_frames)
  have rows: "rows_distinct A1"
  proof -
    have "rows_distinct (put_cell (k, n) c A)" using Cons(5) by (rule audit_cells.ok_put)
    then show ?thesis by (simp add: A1 rows_distinct_def)
  qed
  have "R k' n' \<le> ad_revision A1 k' n'" for k' n'
    using Cons(7) [rule_format, of k' n'] by (auto simp: revision)
  then have "\<forall>k' n'. R k' n' \<le> ad_revision A1 k' n'" by blast
  from Cons.IH [OF rest plain _ rows _ this] Cons(4,6) obtain ws where
    ws: "list_all2 (written A1) ps ws" "distinct (map fst ws)" "bare A' = audit_cells.writes ws (bare A1)"
      "ad_amendments A' = ad_amendments A1 @ map (amendment_of E) ps" "a' = a1 + length ps" "s' = s1"
    by auto
  have targets: "db_targets A1 = db_targets A" by (simp add: A1 db_targets_def put_cell_learning)
  have away: "fst w \<noteq> (k, n) \<and> written A q w" if asm: "q \<in> set ps" "written A1 q w" for q w
  proof -
    obtain k' n' where q: "moves q k' n'" "key_of q = (k', n')" "fst w = (k', n')"
      "cell_present (k', n') A1" "ad_revision A1 k' n' \<le> pr_expected_revision q"
      "effect (db_targets A1) q k' (cell_of (k', n') A1) (snd w)"
      using asm(2) by (cases "key_of q") (auto simp: written_def)
    have "pr_expected_revision q \<le> R k' n'" using Cons(6) asm(1) q(1) by auto
    also have "\<dots> \<le> ad_revision A k' n'" using Cons(7) by blast
    finally have ne: "(k', n') \<noteq> (k, n)" using q(5) by (auto simp: revision)
    then have "cell_of (k', n') A1 = cell_of (k', n') A"
      by (simp add: A1 cell_put_other)
    moreover have "ad_revision A k' n' \<le> pr_expected_revision q" using q(5) ne by (auto simp: revision split: if_splits)
    ultimately show ?thesis
      using q ne by (simp add: written_def targets) (simp add: A1 cell_present_put)
  qed
  have first: "written A p ((k, n), c)"
    using kn c by (simp add: written_def moves_key [OF kn(1)])
  have "list_all2 (written A) (p # ps) (((k, n), c) # ws)"
    using first ws(1) away by (auto intro: list.rel_mono_strong)
  moreover have "(k, n) \<notin> set (map fst ws)"
    using ws(1) away by (fastforce simp: list_all2_conv_all_nth in_set_conv_nth)
  moreover have "bare A' = audit_cells.writes (((k, n), c) # ws) (bare A)"
    by (simp add: ws(3)) (simp add: A1 bare_put)
  ultimately show ?case
    using ws(2,4-6) counts A1 by (intro exI [of _ "((k, n), c) # ws"]) simp
qed simp

lemma check_new_revision:
  assumes "check_new_proposal E A b seen p = Inr ()" and "moves p k n"
  shows "pr_expected_revision p = ad_revision A k n"
proof -
  from assms(1) obtain current where "proposal_entity A p = Inr current"
    and rev: "int_field current ''revision'' = Some (pr_expected_revision p)"
    using assms(2) by (auto simp: check_new_proposal_def moves_def ok_simps)
  then have "entity_value A (pr_entity_type p) (pr_entity_id p) = Inr current"
    using assms(2) by (simp add: proposal_entity_def moves_def)
  from entity_value_Inr [OF this] assms(2) have "jget current ''revision'' = Some (JsInt (ad_revision A k n))"
    using names_entity_unique by (metis moves_def)
  with rev show ?thesis by (simp add: int_field_def as_int_def)
qed

definition new_run :: "audit_db \<Rightarrow> ustring \<Rightarrow> bool" where
  "new_run A r \<longleftrightarrow> (\<forall>m\<in>set (ad_amendments A). am_audit_run_id m \<noteq> r)"

lemma new_run_unrecorded: "new_run A r \<Longrightarrow> pr_audit_run_id p = r \<Longrightarrow> recorded_amendment A p = None"
  by (auto simp: new_run_def recorded_amendment_def find_None_iff)

lemma batch_writes:
  assumes "apply_batch E b A = (Inr (applied, skipped), A')" and "new_run A (ab_audit_run_id b)"
    and "\<forall>p\<in>set (ab_proposals b). restorable (pr_operation p)" and "rows_distinct A"
  shows "\<exists>ws. list_all2 (written A) (ab_proposals b) ws \<and> distinct (map fst ws) \<and>
    bare A' = audit_cells.writes ws (bare A) \<and>
    ad_amendments A' = ad_amendments A @ map (amendment_of E) (ab_proposals b) \<and>
    applied = length (ab_proposals b) \<and> batch_accepted E A b"
  using assms(1)
proof (rule apply_batch_cases)
  fix A1
  assume valid: "validate_batch E A b = Inr ()"
    and loop: "foldE (apply_proposal E) (0, 0, start_run E b A) (ab_proposals b) = Inr (applied, skipped, A1)"
    and A': "A' = end_run b applied A1"
  from validate_batch_Inr [OF valid] have ok: "batch_accepted E A b" by simp
  have none: "recorded_amendment A p = None" if "p \<in> set (ab_proposals b)" for p
    using ok that new_run_unrecorded [OF assms(2)] by (simp add: batch_accepted_def)
  let ?A = "start_run E b A"
  have same: "recorded_amendment ?A p = recorded_amendment A p" for p by (simp add: recorded_amendment_def)
  have plain: "\<forall>p\<in>set (ab_proposals b). plain_proposal ?A p"
    using ok none assms(3) by (simp add: plain_proposal_def batch_accepted_def same)
  have expected: "\<forall>p\<in>set (ab_proposals b). \<forall>k n. moves p k n \<longrightarrow> pr_expected_revision p \<le> ad_revision A k n"
    using ok none check_new_revision by (fastforce simp: batch_accepted_def)
  have rows: "rows_distinct ?A" using assms(4) by (simp add: rows_distinct_def)
  have ids: "distinct (map pr_proposal_id (ab_proposals b))" using ok by (simp add: batch_accepted_def)
  have "\<forall>k n. ad_revision A k n \<le> ad_revision ?A k n" by simp
  from applied_writes [OF loop plain ids rows expected this] obtain ws where
    ws: "list_all2 (written ?A) (ab_proposals b) ws" "distinct (map fst ws)"
      "bare A1 = audit_cells.writes ws (bare ?A)"
      "ad_amendments A1 = ad_amendments ?A @ map (amendment_of E) (ab_proposals b)"
      "applied = 0 + length (ab_proposals b)"
    by blast
  have "written ?A = written A"
  proof -
    have "cell_of kn ?A = cell_of kn A" "cell_present kn ?A = cell_present kn A" for kn
      by (metis bare_cell bare_simps(3))+
    then show ?thesis by (simp add: fun_eq_iff written_def db_targets_def)
  qed
  then show ?thesis using ws ok by (intro exI [of _ ws]) (simp add: A')
qed

section \<open>Reading a cell back\<close>

lemma column_names [simp]:
  "outcome_column (lit (observation_outcome_name x)) = Some x"
  "item_outcome_column (lit (item_outcome_name y)) = Some y"
  "finding_kind_column (lit (finding_kind_as_str z)) = Some z"
  subgoal by (cases x) (simp_all add: outcome_column_def lit_eq_iff)
  subgoal by (cases y) (simp_all add: item_outcome_column_def lit_eq_iff)
  subgoal by (cases z) (simp_all add: finding_kind_column_def lit_eq_iff)
  done

lemmas value_defs = observation_value_def item_value_def finding_value_def review_value_def session_value_def
  row_status_def json_object_get string_field_def as_text_def json_name_def opt_json_def Let_def

lemma observation_fields:
  "jget (observation_value A r w) ''outcome'' = Some (JsText (lit (observation_outcome_name (ow_outcome r))))"
  "jget (observation_value A r w) ''effective_status'' = Some (JsText (ad_status A Kind_Observation (ow_id r)))"
  "jget (observation_value A r w) ''weakness_key'' = Some (JsText (wk_key w))"
  by (simp_all add: value_defs)

lemma item_fields:
  "jget (item_value A i) ''outcome'' = Some (opt_json (json_name item_outcome_name) (pi_outcome i))"
  "jget (item_value A i) ''effective_status'' = Some (JsText (ad_status A Kind_Item (pi_id i)))"
  by (simp_all add: value_defs)

lemma finding_fields:
  "jget (finding_value A n f) ''assessment_kind'' = Some (JsText (lit (finding_kind_as_str (fw_assessment_kind f))))"
  "jget (finding_value A n f) ''effective_status'' = Some (JsText (ad_status A Kind_Finding n))"
  by (simp_all add: value_defs)

lemma review_fields:
  "jget (review_value A v) ''effective_status'' = Some (JsText (ad_status A Kind_Review (vw_id v)))"
  "jget (review_value A v) ''outcome'' = None"
  by (simp_all add: value_defs)

lemma session_fields:
  "jget (session_value A z) ''exercise_instance_id'' = Some (opt_json JsText (sk_exercise_instance_id (ad_links A (se_id z))))"
  "jget (session_value A z) ''stimulus_identity'' = Some (opt_json JsText (sk_stimulus_identity (ad_links A (se_id z))))"
  "jget (session_value A z) ''source_event_id'' = Some (opt_json JsText (sk_source_event_id (ad_links A (se_id z))))"
  by (simp_all add: value_defs)

lemmas value_fields = observation_fields item_fields finding_fields review_fields session_fields

lemma entity_value_kind:
  assumes "entity_value A t s = Inr v" and "names_entity t s k n"
  shows "case k of
      Kind_Observation \<Rightarrow> \<exists>r w. row_by ow_id (ys_observations (ad_study A)) (int n) = Some r \<and>
        find (\<lambda>w. wk_id w = ow_weakness_id r) (db_targets A) = Some w \<and> v = observation_value A r w
    | Kind_Item \<Rightarrow> \<exists>r. row_by pi_id (ys_items (ad_study A)) (int n) = Some r \<and> v = item_value A r
    | Kind_Finding \<Rightarrow> \<exists>r. finding_by (ad_study A) (int n) = Some r \<and> v = finding_value A n r
    | Kind_Review \<Rightarrow> \<exists>r. row_by vw_id (ys_reviews (ad_study A)) (int n) = Some r \<and> v = review_value A r
    | Kind_Session \<Rightarrow> \<exists>r. row_by se_id (ys_sessions (ad_study A)) (int n) = Some r \<and> v = session_value A r"
  using assms by (cases k) (auto simp: entity_value_def names_entity_def Let_def ok_simps db_targets_def)

lemma row_by_key: "row_by key rows (int n) = Some r \<Longrightarrow> key r = n"
  using row_by_Some [of key rows "int n" r] by simp

text \<open>What the amendment of a row keeps or writes is read back from its old value.\<close>

definition original_read :: "audit_proposal \<Rightarrow> jvalue \<Rightarrow> bool" where
  "original_read p v \<longleftrightarrow> pr_operation p = Amend_Assessment \<longrightarrow> string_field (pr_after p) ''outcome'' = None \<or>
     jget v ''outcome'' \<noteq> Some JsNull"

lemma after_fields:
  "string_field (json_object fs) k = Option.bind (map_of fs k) as_text"
  by (simp add: string_field_def json_object_get)

lemma copied_simps [simp]:
  "copied v [] = []" "copied v (k # ks) = (case jget v k of None \<Rightarrow> [] | Some x \<Rightarrow> [(k, x)]) @ copied v ks"
  by (simp_all add: copied_def)

lemma links_restored:
  "links_of (reverse_after Link_Continuation (session_value A z)) = ad_links A (se_id z)"
  by (simp add: reverse_after_def links_of_def after_fields session_fields as_text_def opt_json_def
      split: option.splits)

lemma cell_restored:
  assumes p: "effect ws p k (cell_of (k, n) A) c" and kind: "k \<in> operation_kinds (pr_operation p)"
    and v: "entity_value A t s = Inr v" "names_entity t s k n" and ws: "ws = db_targets A" "distinct (map wk_key ws)"
    and q: "effect ws q k c d" "pr_operation q = reverse_operation (pr_operation p)"
      "pr_after q = reverse_after (pr_operation q) v"
    and "original_read p v" and kind': "k \<in> operation_kinds (pr_operation q)"
  shows "d = cell_of (k, n) A"
proof (cases k)
  case Kind_Observation
  with entity_value_kind [OF v] obtain r w where r: "row_by ow_id (ys_observations (ad_study A)) (int n) = Some r"
    "v = observation_value A r w" and w: "find (\<lambda>w. wk_id w = ow_weakness_id r) ws = Some w"
    by (auto simp: ws(1))
  then have "ow_id r = n" "wk_id w = ow_weakness_id r" "w \<in> set ws"
    using row_by_key by (auto dest: find_SomeD)
  moreover have "w' = w" if "find (\<lambda>x. wk_key x = wk_key w) ws = Some w'" for w'
    using that ws(2) \<open>w \<in> set ws\<close> by (auto simp: distinct_map inj_on_def dest!: find_SomeD)
  ultimately show ?thesis
    using p q kind kind' r Kind_Observation
    by (cases "pr_operation p")
     (auto simp: operation_kinds_def effect_def cell_of_def reverse_after_def after_fields observation_fields
       as_text_def Let_def)
next
  case Kind_Item
  with entity_value_kind [OF v] obtain r where "row_by pi_id (ys_items (ad_study A)) (int n) = Some r"
    "v = item_value A r" by auto
  with row_by_key [OF this(1)] show ?thesis
    using p q kind kind' Kind_Item \<open>original_read p v\<close>
    by (cases "pr_operation p")
     (auto simp: operation_kinds_def effect_def cell_of_def reverse_after_def after_fields item_fields as_text_def original_read_def opt_json_def
     json_name_def Let_def split: option.splits)
next
  case Kind_Finding
  with entity_value_kind [OF v] obtain r where "finding_by (ad_study A) (int n) = Some r"
    "v = finding_value A n r" by auto
  then show ?thesis
    using p q kind kind' Kind_Finding
    by (cases "pr_operation p")
     (auto simp: operation_kinds_def effect_def cell_of_def reverse_after_def after_fields finding_fields as_text_def Let_def
       split: option.splits)
next
  case Kind_Review
  with entity_value_kind [OF v] obtain r where "row_by vw_id (ys_reviews (ad_study A)) (int n) = Some r"
    "v = review_value A r" by auto
  with row_by_key [OF this(1)] show ?thesis
    using p q kind kind' Kind_Review
    by (cases "pr_operation p")
     (auto simp: operation_kinds_def effect_def cell_of_def reverse_after_def after_fields review_fields as_text_def Let_def
       split: option.splits)
next
  case Kind_Session
  with entity_value_kind [OF v] obtain r where "row_by se_id (ys_sessions (ad_study A)) (int n) = Some r"
    "v = session_value A r" by auto
  with row_by_key [OF this(1)] show ?thesis
    using p q kind kind' Kind_Session
    by (cases "pr_operation p")
     (auto simp: operation_kinds_def effect_def cell_of_def links_restored Let_def)
qed

section \<open>Reverting a batch\<close>

lemma writes_targets: "db_targets (audit_cells.writes ws A) = db_targets A"
  by (induction ws arbitrary: A) (simp_all add: db_targets_def put_cell_learning)

lemma bare_targets: "db_targets (bare A) = db_targets A"
  by (simp add: db_targets_def)

lemma written_kind:
  assumes "written A p w" and "validate_operation p = Inr ()"
  shows "fst (fst w) \<in> operation_kinds (pr_operation p) \<and> fits (fst (fst w)) (snd w)"
proof -
  from validate_operation_kind [OF assms(2)] assms(1)
  have kind: "fst (key_of p) \<in> operation_kinds (pr_operation p)" by (auto simp: key_of_def)
  obtain k n where "key_of p = (k, n)" by (cases "key_of p")
  with assms(1) kind show ?thesis by (auto simp: written_def intro: effect_fits)
qed

lemma written_cell:
  assumes "list_all2 (written A) ps ws" and "distinct (map fst ws)" and "\<forall>p\<in>set ps. validate_operation p = Inr ()"
    and "w \<in> set ws"
  shows "cell_of (fst w) (audit_cells.writes ws (bare A)) = snd w"
proof -
  obtain p where p: "p \<in> set ps" "written A p w"
    using assms(1,4) by (metis list_all2_conv_all_nth in_set_conv_nth)
  obtain k n where kn: "fst w = (k, n)" by (cases "fst w")
  have "fits k (snd w)" using written_kind [OF p(2)] assms(3) p(1) kn by simp
  moreover have present: "cell_present (k, n) (bare A)" using p(2) kn by (simp add: written_def)
  ultimately have c: "cell_of (k, n) (put_cell (k, n) (snd w) (bare A)) = snd w" by (intro cell_put)
  have "((k, n), cell_of (k, n) (put_cell (k, n) (snd w) (bare A))) \<in> set ws"
    using assms(4) kn unfolding c by (metis prod.collapse)
  from audit_cells.get_write [OF assms(2) this present] show ?thesis by (simp add: kn c)
qed

lemma reverse_restorable: "restorable op \<Longrightarrow> restorable (reverse_operation op)"
  by (cases op) (simp_all add: restorable_def)

lemma revert_id_new: "revert_id E r \<noteq> r"
  by (simp add: revert_id_def lit_def)

lemma applied_amendments_new:
  assumes "new_run A r" and "ad_amendments A' = ad_amendments A @ map (amendment_of E) ps"
    and "\<forall>p\<in>set ps. pr_audit_run_id p = r"
  shows "applied_amendments A' r = rev (map (amendment_of E) ps)"
proof -
  have "filter (\<lambda>m. am_audit_run_id m = r \<and> am_status m = ''applied'') (ad_amendments A) = []"
    using assms(1) by (auto simp: new_run_def filter_empty_conv)
  moreover have "filter (\<lambda>m. am_audit_run_id m = r \<and> am_status m = ''applied'') (map (amendment_of E) ps) =
      map (amendment_of E) ps"
    using assms(3) by (auto simp: filter_id_conv)
  ultimately show ?thesis by (simp add: applied_amendments_def assms(2))
qed

lemma revert_batch_cases:
  assumes "revert_batch E r h A = (Inr (r', n), A')"
  obtains b s where "ab_audit_run_id b = revert_id E r"
    "list_all2 (\<lambda>im q. revert_proposal E A r h im = Inr q)
      (zip [0..<length (applied_amendments A r)] (applied_amendments A r)) (ab_proposals b)"
    "apply_batch E b A = (Inr (n, s), A')" "r' = revert_id E r"
proof -
  define reverse where "reverse qs = \<lparr>ab_audit_run_id = revert_id E r, ab_snapshot_boundary = ax_now E,
    ab_snapshot_hash = h, ab_model_id = None, ab_prompt_version = lit ''compensating-revert-v1'',
    ab_scope = json_object [(''compensates'', JsText r)], ab_proposals = qs\<rparr>" for qs
  from assms obtain qs s where qs: "collectE (revert_proposal E A r h)
      (zip [0..<length (applied_amendments A r)] (applied_amendments A r)) = Inr qs"
    and run: "apply_batch E (reverse qs) A = (Inr (n, s), A')" and r': "r' = revert_id E r"
    by (auto simp: revert_batch_def Let_def mapE_Inr reverse_def split: if_splits sum.splits prod.splits)
  from qs run r' show ?thesis
    by (intro that [of "reverse qs"]) (simp_all add: collectE_Inr, simp_all add: reverse_def)
qed

lemma revert_undoes:
  assumes applied: "apply_batch E b A = (Inr counts, A1)"
    and faithful: "\<forall>p\<in>set (ab_proposals b). restorable (pr_operation p) \<and>
      entity_value A (pr_entity_type p) (pr_entity_id p) = Inr (pr_before p) \<and>
      original_read p (pr_before p) \<and> ax_parse E' (ax_text E (pr_before p)) = Some (pr_before p)"
    and runs: "new_run A (ab_audit_run_id b)" "new_run A (revert_id E' (ab_audit_run_id b))"
    and rows: "rows_distinct A" and targets: "distinct (map wk_key (db_targets A))"
    and reverted: "revert_batch E' (ab_audit_run_id b) h A1 = (Inr (r, n), A2)"
  shows "bare A2 = bare A \<and> n = length (ab_proposals b)"
proof -
  let ?ps = "ab_proposals b" and ?id = "ab_audit_run_id b"
  obtain a s where counts: "counts = (a, s)" by (cases counts)
  from batch_writes [OF applied [unfolded counts] runs(1) _ rows] faithful obtain ws where
    ws: "list_all2 (written A) ?ps ws" "distinct (map fst ws)" "bare A1 = audit_cells.writes ws (bare A)"
    and trail: "ad_amendments A1 = ad_amendments A @ map (amendment_of E) ?ps" and ok: "batch_accepted E A b"
    by auto
  from ok have valid: "\<forall>p\<in>set ?ps. validate_operation p = Inr () \<and> pr_audit_run_id p = ?id"
    by (simp add: batch_accepted_def)
  have recorded: "applied_amendments A1 ?id = rev (map (amendment_of E) ?ps)"
    using applied_amendments_new [OF runs(1) trail] valid by blast
  from reverted obtain b' s' where b': "ab_audit_run_id b' = revert_id E' ?id"
    and qs: "list_all2 (\<lambda>im q. revert_proposal E' A1 ?id h im = Inr q)
      (zip [0..<length (rev (map (amendment_of E) ?ps))] (rev (map (amendment_of E) ?ps))) (ab_proposals b')"
    and undone: "apply_batch E' b' A1 = (Inr (n, s'), A2)"
    by (rule revert_batch_cases) (simp add: recorded)
  let ?qs = "ab_proposals b'"
  have len: "length ?qs = length ?ps" using qs by (simp add: list_all2_lengthD [symmetric])
  have q: "pr_operation (?qs ! i) = reverse_operation (pr_operation (rev ?ps ! i))"
    "pr_entity_type (?qs ! i) = pr_entity_type (rev ?ps ! i)" "pr_entity_id (?qs ! i) = pr_entity_id (rev ?ps ! i)"
    "pr_after (?qs ! i) = reverse_after (pr_operation (?qs ! i)) (pr_before (rev ?ps ! i))"
    if "i < length ?ps" for i
  proof -
    have "revert_proposal E' A1 ?id h (i, amendment_of E (rev ?ps ! i)) = Inr (?qs ! i)"
      using qs that by (simp add: list_all2_conv_all_nth rev_map)
    moreover have "rev ?ps ! i \<in> set ?ps" using that by (metis length_rev nth_mem set_rev)
    ultimately show "pr_operation (?qs ! i) = reverse_operation (pr_operation (rev ?ps ! i))"
      "pr_entity_type (?qs ! i) = pr_entity_type (rev ?ps ! i)" "pr_entity_id (?qs ! i) = pr_entity_id (rev ?ps ! i)"
      "pr_after (?qs ! i) = reverse_after (pr_operation (?qs ! i)) (pr_before (rev ?ps ! i))"
      using revert_proposal_Inr [of E' A1 ?id h i "amendment_of E (rev ?ps ! i)" "?qs ! i"] faithful
      by (auto simp: amendment_of_def)
  qed
  have in_ps: "rev ?ps ! i \<in> set ?ps" if "i < length ?ps" for i using that by (metis length_rev nth_mem set_rev)
  have "\<forall>p\<in>set ?qs. restorable (pr_operation p)"
    using q(1) in_ps faithful reverse_restorable len by (fastforce simp: in_set_conv_nth [of _ ?qs])
  moreover have "new_run A1 (ab_audit_run_id b')"
    using runs(2) valid revert_id_new [of E' ?id] b' by (fastforce simp: new_run_def trail)
  moreover have "rows_distinct A1"
    using audit_cells.write_ok [of "bare A" ws] rows ws(3) by (metis bare_simps(6))
  ultimately obtain vs where vs: "list_all2 (written A1) ?qs vs" "bare A2 = audit_cells.writes vs (bare A1)"
    and n: "n = length ?qs" and ok': "batch_accepted E' A1 b'"
    using batch_writes [OF undone] by blast
  have same_targets: "db_targets A1 = db_targets A" using ws(3) by (metis bare_targets writes_targets)
  have lengths: "length ws = length ?ps" "length vs = length ?ps"
    using ws(1) vs(1) len by (simp_all add: list_all2_lengthD [symmetric])
  have restored: "fst (vs ! i) = fst (rev ws ! i) \<and> snd (vs ! i) = cell_of (fst (vs ! i)) A" if i: "i < length ?ps" for i
  proof -
    let ?p = "rev ?ps ! i" and ?q = "?qs ! i"
    have p: "written A ?p (rev ws ! i)"
      using ws(1) i lengths by (simp add: list_all2_conv_all_nth rev_nth)
    have w: "rev ws ! i \<in> set ws" using i lengths by (metis length_rev nth_mem set_rev)
    have v: "written A1 ?q (vs ! i)" using vs(1) i len by (simp add: list_all2_conv_all_nth)
    have keys: "key_of ?q = key_of ?p" using q(2,3) [OF i] by (simp add: key_of_def)
    obtain k m where key: "key_of ?p = (k, m)" by (cases "key_of ?p")
    have valid_q: "validate_operation ?q = Inr ()" using ok' i len by (simp add: batch_accepted_def)
    have "cell_of (k, m) A1 = snd (rev ws ! i)"
      using written_cell [OF ws(1,2) _ w] valid p key ws(3) by (metis bare_cell(1) written_def)
    then have "snd (vs ! i) = cell_of (k, m) A"
      using p v key keys in_ps [OF i] faithful targets q [OF i] valid
        written_kind [OF p] written_kind [OF v valid_q]
      by (intro cell_restored [where p = ?p and q = ?q and ws = "db_targets A" and c = "snd (rev ws ! i)"
            and v = "pr_before ?p" and t = "pr_entity_type ?p" and s = "pr_entity_id ?p"])
        (auto simp: written_def moves_def same_targets)
    then show ?thesis using p v key keys by (simp add: written_def)
  qed
  have "fst ` set ws \<subseteq> fst ` set vs"
  proof -
    have "map fst (rev ws) = map fst vs" using restored lengths by (intro nth_equalityI) auto
    then have "fst ` set ws = fst ` set vs" by (metis list.set_map set_rev)
    then show ?thesis by simp
  qed
  moreover have "\<forall>(kn, c)\<in>set vs. c = cell_of kn (bare A)"
    using restored lengths by (auto simp: in_set_conv_nth) (metis fst_conv snd_conv)
  ultimately have "bare A2 = bare A"
    using audit_cells.write_back [of "bare A" ws vs] rows vs(2) ws(3) by simp
  then show ?thesis using n len by simp
qed

end
