(* ===== verification/AuditRuns.thy ===== *)
theory AuditRuns
  imports AuditRestore RecordingRuns
begin

text \<open>
  The properties of the data audit, each applied to one recorded observation: a first batch
  disputes it, a second one retracts it.
\<close>

section \<open>Runs of the audit\<close>

text \<open>
  Between the batches and their reverts other requests change the study tables; they leave the
  revisions and the amendments alone.
\<close>

inductive amendment_step :: "audit_db \<Rightarrow> audit_db \<Rightarrow> bool" where
  Batch_Applied: "apply_batch E b A = (result, A') \<Longrightarrow> amendment_step A A'"
| Batch_Reverted: "revert_batch E r h A = (result', A') \<Longrightarrow> amendment_step A A'"
| Study_Changed: "amendment_step A (A\<lparr>ad_study := st\<rparr>)"

inductive_cases amendment_stepE: "amendment_step A A'"

definition untouched :: "audit_db \<Rightarrow> bool" where
  "untouched A \<longleftrightarrow> ad_amendments A = [] \<and> (\<forall>k n. ad_revision A k n = 1)"

lemma revert_batch_counted:
  assumes "revisions_counted A"
  shows "revisions_counted (snd (revert_batch E r h A))"
  using assms apply_batch_counted [OF assms, where E = E]
  by (auto simp: revert_batch_def Let_def split: sum.splits prod.splits) (metis snd_conv)

lemma amendment_step_counted: "amendment_step A A' \<Longrightarrow> revisions_counted A \<Longrightarrow> revisions_counted A'"
proof (induction rule: amendment_step.induct)
  case (Batch_Applied E b A result A')
  then show ?case using apply_batch_counted [of A E b] by simp
next
  case (Batch_Reverted E r h A result' A')
  then show ?case using revert_batch_counted [of A E r h] by simp
qed (simp add: revisions_counted_def history_def)

lemma untouched_counted: "untouched A \<Longrightarrow> revisions_counted A"
  by (simp add: untouched_def revisions_counted_def history_def)

lemma runs_counted: "amendment_step\<^sup>*\<^sup>* A A' \<Longrightarrow> untouched A \<Longrightarrow> revisions_counted A'"
  by (induction rule: rtranclp_induct) (auto intro: untouched_counted amendment_step_counted)

section \<open>A small database\<close>

definition sample_hash :: ustring where
  "sample_hash = replicate 64 48"

lemma sample_hash_ok: "blen sample_hash = 64" "\<not> list_ex (\<lambda>c. \<not> is_ascii_hex c) sample_hash"
  proof -
  have "\<not> list_ex P (replicate n (x::nat)) \<longleftrightarrow> n = 0 \<or> \<not> P x" for P n x by (induction n) auto
  then show "\<not> list_ex (\<lambda>c. \<not> is_ascii_hex c) sample_hash"
    by (simp add: sample_hash_def is_ascii_hex_def is_ascii_digit_def)
  have "blen (replicate n 48) = n" for n by (induction n) (simp_all add: blen_def cp_len_def)
  then show "blen sample_hash = 64" by (simp add: sample_hash_def)
qed

definition audited_store :: study_store where
  "audited_store = sample_study_store\<lparr>ys_observations := [sample_observation_row 1]\<rparr>"

definition audited_db :: audit_db where
  "audited_db = \<lparr>ad_study = audited_store, ad_status = \<lambda>_ _. lit ''active'', ad_revision = \<lambda>_ _. 1,
     ad_links = \<lambda>_. no_links, ad_summaries = [], ad_runs = [], ad_amendments = []\<rparr>"

definition sample_value :: jvalue where
  "sample_value = observation_value audited_db (sample_observation_row 1) (hd (db_weaknesses sample_learning))"

definition status_json :: "string \<Rightarrow> jvalue" where
  "status_json s = json_object [(''effective_status'', JsText (lit s))]"

definition audit_sample_env :: audit_env where
  "audit_sample_env = \<lparr>ax_text = \<lambda>v. if v = sample_value then lit ''before'' else lit ''after'',
     ax_parse = \<lambda>s. Some (if s = lit ''before'' then sample_value else status_json ''retracted''),
     ax_hash = \<lambda>_. sample_hash, ax_now = lit ''t'', ax_compact_now = lit ''t''\<rparr>"

definition sample_proposal :: "string \<Rightarrow> string \<Rightarrow> string list \<Rightarrow> audit_proposal" where
  "sample_proposal run p needed = \<lparr>pr_audit_run_id = lit run, pr_proposal_id = lit p,
     pr_schema_version = 1, pr_entity_type = lit ''observation'', pr_entity_id = lit ''1'',
     pr_expected_revision = 1, pr_before_hash = sample_hash, pr_operation = Retract_Observation,
     pr_before = sample_value, pr_after = status_json ''retracted'',
     pr_source_refs = [\<lparr>sr_source_id = lit ''observation:1:outcome'', sr_excerpt = None, sr_span = None,
       sr_source_hash = None\<rparr>],
     pr_reason = lit ''r'', pr_issue_class = lit ''c'', pr_certainty = Certainty_Supported,
     pr_reviewer = lit ''v'', pr_prompt_version = lit ''1'', pr_reviewed_at = lit ''t'',
     pr_dependencies = map lit needed, pr_affected_consumers = []\<rparr>"

definition sample_batch :: "string \<Rightarrow> audit_proposal list \<Rightarrow> audit_batch" where
  "sample_batch run ps = \<lparr>ab_audit_run_id = lit run, ab_snapshot_boundary = lit ''t'',
     ab_snapshot_hash = sample_hash, ab_model_id = None, ab_prompt_version = lit ''1'',
     ab_scope = JsNull, ab_proposals = ps\<rparr>"

lemmas audit_sample_defs = sample_batch_def sample_proposal_def audit_sample_env_def status_json_def

lemma sample_entity:
  "ad_study A = audited_store \<Longrightarrow> entity_value A (lit ''observation'') (lit ''1'') =
     Inr (observation_value A (sample_observation_row 1) (hd (db_weaknesses sample_learning)))"
  by (simp add: entity_value_def Let_def parse_i64_def is_ascii_digit_def lit_def table_for_def row_by_def
      audited_store_def sample_study_store_def sample_observation_row_def observation_row_of_def sample_learning_def
      ok_or_def bindE_def)

lemma sample_valid: "validate_operation (sample_proposal run p needed) = Inr ()"
  if "\<not> blank (lit run)" "\<not> blank (lit p)"
  using that
  by (simp add: validate_operation_def sample_proposal_def AUDIT_SCHEMA_VERSION_def sample_hash_ok entity_in_def
      allowed_fields_def sets_status_def status_json_def is_object_def object_keys_def json_object_def string_field_def
      jget_def as_text_def sample_value_def observation_value_def seqE.simps bail_if_def bindE_def lit_eq_iff blank_lit
      blank_iff lit_def is_white_def forE_def)

definition first_run :: audit_batch where
  "first_run = sample_batch ''a'' [sample_proposal ''a'' ''p'' []]"

lemma first_proposal:
  "pr_audit_run_id (sample_proposal r p ds) = lit r" "pr_proposal_id (sample_proposal r p ds) = lit p"
  "pr_operation (sample_proposal r p ds) = Retract_Observation"
  "pr_entity_type (sample_proposal r p ds) = lit ''observation''" "pr_entity_id (sample_proposal r p ds) = lit ''1''"
  "pr_expected_revision (sample_proposal r p ds) = 1" "pr_before_hash (sample_proposal r p ds) = sample_hash"
  "pr_after (sample_proposal r p ds) = status_json ''retracted''" "pr_before (sample_proposal r p ds) = sample_value"
  "pr_certainty (sample_proposal r p ds) = Certainty_Supported" "pr_dependencies (sample_proposal r p ds) = map lit ds"
  by (simp_all add: sample_proposal_def)

lemma observation_revision:
  "jget (observation_value A (sample_observation_row (Suc 0)) w) ''revision'' =
     Some (JsInt (ad_revision A Kind_Observation (Suc 0)))"
  by (simp add: value_revision sample_observation_row_def observation_row_of_def)

lemma sample_moves: "moves (sample_proposal r p ds) Kind_Observation 1"
  by (simp add: moves_def names_entity_def first_proposal table_for_def parse_i64_def is_ascii_digit_def lit_def Let_def)

lemma sample_source:
  "validate_source_refs A (sample_proposal r p ds) = Inr ()" if "ad_study A = audited_store"
proof -
  have "Option.bind (split_once 58 (lit ''observation:1:outcome'')) (\<lambda>(kind, rest).
      map_option (\<lambda>(i, field). (kind, i, field)) (split_once 58 rest)) =
    Some (lit ''observation'', lit ''1'', lit ''outcome'')"
    by (simp add: lit_def)
  then show ?thesis
    using sample_entity [OF that]
    by (simp add: validate_source_refs_def sample_proposal_def validate_source_ref_def forE_def seqE.simps
        bail_if_def bindE_def blank_lit blank_iff ok_or_def starts_with_def)
      (simp add: lit_def is_white_def)
qed

lemma sample_current:
  "ad_study A = audited_store \<Longrightarrow> proposal_entity A (sample_proposal r p ds) =
     Inr (observation_value A (sample_observation_row 1) (hd (db_weaknesses sample_learning)))"
  by (simp add: proposal_entity_def first_proposal sample_entity)

lemma sample_checked:
  assumes "ad_study A = audited_store" and "ad_revision A Kind_Observation 1 = 1"
    and "recorded_amendment A (sample_proposal r p []) = None" and "\<not> blank (lit r)" "\<not> blank (lit p)"
    and "lit p \<notin> seen" and "ab_audit_run_id b = lit r"
  shows "check_proposal audit_sample_env A b seen (sample_proposal r p []) = Inr (insert (lit p) seen)"
proof -
  have valid: "validate_operation (sample_proposal r p []) = Inr ()" using assms(4,5) by (rule sample_valid)
  have "check_new_proposal audit_sample_env A b seen' (sample_proposal r p []) = Inr ()" for seen'
    using sample_source [OF assms(1), of r p "[]"] sample_current [OF assms(1), of r p "[]"] assms(2)
    by (simp add: check_new_proposal_def first_proposal observation_revision int_field_def as_int_def
        audit_sample_env_def forE_def seqE.simps bail_if_def bindE_def table_for_def)
      (simp add: sample_proposal_def)
  with valid assms(3,6,7) show ?thesis
    by (simp add: check_proposal_def first_proposal Let_def seqE.simps bail_if_def bindE_def)
qed

definition retracted :: "audit_db \<Rightarrow> audit_db" where
  "retracted A = bump Kind_Observation 1
     (A\<lparr>ad_status := (ad_status A)(Kind_Observation := (ad_status A Kind_Observation)(1 := lit ''retracted''))\<rparr>)"

lemma retracted_simps [simp]:
  "ad_study (retracted A) = ad_study A" "ad_amendments (retracted A) = ad_amendments A"
  "ad_revision (retracted A) Kind_Observation (Suc 0) = ad_revision A Kind_Observation (Suc 0) + 1"
  "ad_status (retracted A) Kind_Observation (Suc 0) = lit ''retracted''" "ad_runs (retracted A) = ad_runs A"
  by (simp_all add: retracted_def bump_def)

lemma sample_exists: "ad_study A = audited_store \<Longrightarrow> entity_exists A Kind_Observation 1"
  by (simp add: entity_exists_def row_by_def audited_store_def sample_observation_row_def observation_row_of_def)

lemma sample_set_status:
  assumes "ad_study A = audited_store" and "ad_revision A Kind_Observation 1 = 1"
  shows "set_status E (sample_proposal r p ds) A = Inr (retracted A)"
proof -
  have id: "parse_i64 (lit ''1'') = Some 1" by (simp add: parse_i64_def is_ascii_digit_def lit_def Let_def)
  have "retract (sample_proposal r p ds) 1 A = Inr (retracted A)"
    using sample_exists [OF assms(1)] assms(2)
    by (simp add: retract_def first_proposal table_for_def update_row_def set_effective_def status_allowed_def
        mapE_def retracted_def)
  then show ?thesis
    using sample_exists [of "retracted A"] assms
    by (simp add: set_status_def first_proposal id ok_or_def bindE_def run_operation_def table_for_def bail_if_def)
qed

lemma sample_applied:
  assumes "ad_study A = audited_store" and "ad_revision A Kind_Observation 1 = 1"
    and "recorded_amendment A (sample_proposal r p ds) = None"
  shows "apply_proposal audit_sample_env (a, s, A) (sample_proposal r p ds) =
    Inr (a + 1, s, (retracted A)\<lparr>ad_amendments := ad_amendments A @ [amendment_of audit_sample_env (sample_proposal r p ds)]\<rparr>)"
proof -
  have "recorded_amendment (retracted A) (sample_proposal r p ds) = None"
    using assms(3) by (simp add: recorded_amendment_def)
  then show ?thesis
    using assms sample_current [OF assms(1), of r p ds] sample_set_status [OF assms(1,2), of audit_sample_env r p ds]
    by (simp add: apply_proposal_def first_proposal observation_revision bindE_def bail_if_def)
      (simp add: audit_sample_env_def)
qed

definition after_batch :: "audit_batch \<Rightarrow> audit_db \<Rightarrow> audit_db" where
  "after_batch b A = end_run b 1 ((retracted (start_run audit_sample_env b A))\<lparr>ad_amendments :=
     ad_amendments A @ map (amendment_of audit_sample_env) (ab_proposals b)\<rparr>)"

lemma visit_alone: "ensure_acyclic [n] b = Inr ()" if "batch_graph b = [(n, [])]"
  by (simp add: ensure_acyclic_def that dependencies_in_def mapE_def)

lemma one_batch_applied:
  assumes "ad_study A = audited_store" and "ad_revision A Kind_Observation 1 = 1"
    and "recorded_amendment A (sample_proposal r p []) = None" and "\<not> blank (lit r)" "\<not> blank (lit p)"
  shows "apply_batch audit_sample_env (sample_batch r [sample_proposal r p []]) A =
    (Inr (1, 0), after_batch (sample_batch r [sample_proposal r p []]) A)"
proof -
  let ?b = "sample_batch r [sample_proposal r p []]"
  have graph: "batch_graph ?b = [(lit p, [])]"
    by (simp add: batch_graph_def sample_batch_def first_proposal Let_def)
  have "check_proposal audit_sample_env A ?b {} (sample_proposal r p []) = Inr {lit p}"
    using sample_checked [OF assms, of "{}" ?b] by (simp add: sample_batch_def)
  with visit_alone [OF graph] assms(4) have "validate_batch audit_sample_env A ?b = Inr ()"
    by (simp add: validate_batch_def sample_batch_def first_proposal sample_hash_ok blank_lit bindE_def bail_if_def)
      (simp add: blank_iff lit_def is_white_def)
  moreover have "recorded_amendment (start_run audit_sample_env ?b A) (sample_proposal r p []) = None"
    using assms(3) by (simp add: recorded_amendment_def)
  then have "apply_proposal audit_sample_env (0, 0, start_run audit_sample_env ?b A) (sample_proposal r p []) =
      Inr (1, 0, (retracted (start_run audit_sample_env ?b A))\<lparr>ad_amendments := ad_amendments A @
        [amendment_of audit_sample_env (sample_proposal r p [])]\<rparr>)"
    using sample_applied [of "start_run audit_sample_env ?b A" r p "[]" 0 0] assms(1,2) by simp
  ultimately show ?thesis
    by (simp add: apply_batch_def apply_batch_tx_def after_batch_def bindE_def) (simp add: sample_batch_def)
qed

definition first_db :: audit_db where
  "first_db = after_batch first_run audited_db"

lemma first_frames:
  "ad_study first_db = audited_store" "ad_revision first_db Kind_Observation (Suc 0) = 2"
  "ad_status first_db Kind_Observation (Suc 0) = lit ''retracted''"
  "ad_amendments first_db = [amendment_of audit_sample_env (sample_proposal ''a'' ''p'' [])]"
  by (simp_all add: first_db_def after_batch_def first_run_def) (simp_all add: audited_db_def sample_batch_def)

lemma first_applied: "apply_batch audit_sample_env first_run audited_db = (Inr (1, 0), first_db)"
  unfolding first_run_def first_db_def
  by (rule one_batch_applied)
    (simp_all add: audited_db_def recorded_amendment_def blank_lit blank_iff, simp_all add: lit_def is_white_def)

definition undo_proposal :: audit_proposal where
  "undo_proposal = (sample_proposal ''a'' ''p'' [])
     \<lparr>pr_audit_run_id := revert_id audit_sample_env (lit ''a''), pr_proposal_id := lit ''revert-0-p'',
      pr_expected_revision := 2, pr_operation := Amend_Assessment, pr_before := status_json ''retracted'',
      pr_after := json_object [(''outcome'', JsText (lit ''correct'')), (''effective_status'', JsText (lit ''active''))],
      pr_source_refs := pr_source_refs (sample_proposal ''a'' ''p'' []) @
        [\<lparr>sr_source_id = lit ''amendment:a:p'', sr_excerpt = None, sr_span = None, sr_source_hash = Some sample_hash\<rparr>],
      pr_reason := lit ''Compensating amendment for a: r''\<rparr>"

lemma first_recorded: "applied_amendments first_db (lit ''a'') = [amendment_of audit_sample_env (sample_proposal ''a'' ''p'' [])]"
  by (simp add: applied_amendments_def first_frames first_proposal)

lemma sample_value_fields:
  "jget sample_value ''outcome'' = Some (JsText (lit ''correct''))"
  "jget sample_value ''effective_status'' = Some (JsText (lit ''active''))"
  by (simp_all add: sample_value_def observation_fields sample_observation_row_def observation_row_of_def
      audited_db_def sample_observation_def)

lemma first_reverse:
  "revert_proposal audit_sample_env first_db (lit ''a'') sample_hash
     (0, amendment_of audit_sample_env (sample_proposal ''a'' ''p'' [])) = Inr undo_proposal"
proof -
  have differ: "status_json ''retracted'' \<noteq> sample_value"
    by (simp add: status_json_def sample_value_def observation_value_def json_object_def)
  then show ?thesis
    using sample_entity [OF first_frames(1)]
    by (simp add: revert_proposal_def amendment_of_def sample_proposal_def audit_sample_env_def ok_or_def bindE_def
        int_field_def as_int_def observation_revision first_frames reverse_after_def sample_value_fields undo_proposal_def
        AUDIT_SCHEMA_VERSION_def revert_id_def decimal.simps)
      (simp add: lit_def)
qed

lemma undo_fields:
  "pr_operation undo_proposal = Amend_Assessment" "pr_expected_revision undo_proposal = 2"
  "pr_entity_type undo_proposal = lit ''observation''" "pr_entity_id undo_proposal = lit ''1''"
  "string_field (pr_after undo_proposal) ''outcome'' = Some (lit ''correct'')"
  "string_field (pr_after undo_proposal) ''effective_status'' = Some (lit ''active'')"
  "pr_audit_run_id undo_proposal = revert_id audit_sample_env (lit ''a'')"
  "pr_proposal_id undo_proposal = lit ''revert-0-p''" "pr_dependencies undo_proposal = []"
  "pr_before_hash undo_proposal = sample_hash" "pr_certainty undo_proposal = Certainty_Supported" "pr_source_refs undo_proposal \<noteq> []"
  by (simp_all add: undo_proposal_def first_proposal after_fields as_text_def)

lemma undo_valid: "validate_operation undo_proposal = Inr ()"
  by (simp add: validate_operation_def undo_proposal_def sample_proposal_def AUDIT_SCHEMA_VERSION_def
      sample_hash_ok entity_in_def allowed_fields_def is_object_def object_keys_def json_object_def status_json_def
      revert_id_def audit_sample_env_def seqE.simps bail_if_def bindE_def forE_def blank_iff lit_def is_white_def)

lemma undo_sources: "validate_source_refs first_db undo_proposal = Inr ()"
  using sample_source [OF first_frames(1), of "''a''" "''p''" "[]"]
  by (simp add: validate_source_refs_def undo_proposal_def forE_Inr ball_Un)
    (simp add: validate_source_ref_def seqE.simps bail_if_def bindE_def blank_iff is_white_def lit_def starts_with_def
      sample_hash_ok)

lemma undo_set_status:
  assumes "ad_study A = audited_store" and "ad_revision A Kind_Observation (Suc 0) = 2"
  shows "\<exists>A'. set_status E undo_proposal A = Inr A' \<and> ad_amendments A' = ad_amendments A"
proof -
  have id: "parse_i64 (lit ''1'') = Some 1" by (simp add: parse_i64_def is_ascii_digit_def lit_def Let_def)
  let ?A = "bump Kind_Observation 1 ((set_outcome 1 Outcome_Correct A)\<lparr>ad_status := (ad_status A)
    (Kind_Observation := (ad_status A Kind_Observation)(1 := lit ''active''))\<rparr>)"
  have "outcome_column (lit ''correct'') = Some Outcome_Correct"
    using column_names(1) [of Outcome_Correct] by simp
  then have "amend_assessment undo_proposal 1 A = Inr ?A"
    using sample_exists [OF assms(1)] assms(2)
    by (simp add: amend_assessment_def undo_fields table_for_def update_row_def coalesce_column_def set_effective_def
        status_allowed_def mapE_def ok_or_def bindE_def set_outcome_def map_study_def)
  moreover have "entity_exists ?A Kind_Observation 1"
    using sample_exists [OF assms(1)] same_records_changes(1) [of A 1 Outcome_Correct]
    by (auto simp: entity_exists_iff same_records_def)
  ultimately have "set_status E undo_proposal A = Inr ?A"
    using assms(2) by (simp add: set_status_def undo_fields id ok_or_def bindE_def run_operation_def table_for_def
        bail_if_def set_outcome_def map_study_def)
  then show ?thesis by (simp add: set_outcome_def map_study_def)
qed

lemma undo_applied:
  "\<exists>A2. revert_batch audit_sample_env (lit ''a'') sample_hash first_db =
     (Inr (revert_id audit_sample_env (lit ''a''), 1), A2)"
proof -
  define b where "b = \<lparr>ab_audit_run_id = revert_id audit_sample_env (lit ''a''), ab_snapshot_boundary = lit ''t'',
    ab_snapshot_hash = sample_hash, ab_model_id = None, ab_prompt_version = lit ''compensating-revert-v1'',
    ab_scope = json_object [(''compensates'', JsText (lit ''a''))], ab_proposals = [undo_proposal]\<rparr>"
  have differ: "lit ''a'' \<noteq> revert_id audit_sample_env (lit ''a'')"
    using revert_id_new by metis
  have unrecorded: "recorded_amendment first_db undo_proposal = None"
    using differ by (simp add: recorded_amendment_def first_frames undo_fields first_proposal)
  have "check_new_proposal audit_sample_env first_db b seen undo_proposal = Inr ()" for seen
    using undo_sources sample_entity [OF first_frames(1)]
    by (simp add: check_new_proposal_def undo_fields table_for_def proposal_entity_def int_field_def as_int_def
        observation_revision first_frames forE_def seqE.simps bail_if_def bindE_def)
      (simp add: audit_sample_env_def)
  then have checked: "check_proposal audit_sample_env first_db b {} undo_proposal = Inr {lit ''revert-0-p''}"
    using undo_valid unrecorded
    by (simp add: check_proposal_def b_def undo_fields Let_def seqE.simps bail_if_def bindE_def)
  have "batch_graph b = [(lit ''revert-0-p'', [])]"
    by (simp add: batch_graph_def b_def undo_fields Let_def)
  from visit_alone [OF this] checked have valid: "validate_batch audit_sample_env first_db b = Inr ()"
    by (simp add: validate_batch_def b_def undo_fields sample_hash_ok bindE_def bail_if_def)
      (simp add: blank_iff lit_def is_white_def revert_id_def)
  let ?A = "start_run audit_sample_env b first_db"
  obtain A' where A': "set_status audit_sample_env undo_proposal ?A = Inr A'" "ad_amendments A' = ad_amendments first_db"
    using undo_set_status [of ?A audit_sample_env] first_frames by auto
  have none: "recorded_amendment B undo_proposal = None" if "ad_amendments B = ad_amendments first_db" for B
    using unrecorded that by (simp add: recorded_amendment_def)
  have "apply_proposal audit_sample_env (0, 0, ?A) undo_proposal =
      Inr (1, 0, A'\<lparr>ad_amendments := ad_amendments A' @ [amendment_of audit_sample_env undo_proposal]\<rparr>)"
    using sample_entity [of ?A] A' none [of ?A] none [of A']
    by (simp add: apply_proposal_def undo_fields proposal_entity_def observation_revision first_frames bindE_def
        bail_if_def) (simp add: audit_sample_env_def)
  then have "\<exists>A2. apply_batch audit_sample_env b first_db = (Inr (1, 0), A2)"
    using valid by (simp add: apply_batch_def apply_batch_tx_def b_def bindE_def)
  moreover have "revert_batch audit_sample_env (lit ''a'') sample_hash first_db =
      (let (result, A') = apply_batch audit_sample_env b first_db in
       (mapE (\<lambda>(applied, _). (revert_id audit_sample_env (lit ''a''), applied)) result, A'))"
    by (simp add: revert_batch_def first_recorded first_reverse b_def bindE_def Let_def)
      (simp add: audit_sample_env_def blank_iff lit_def is_white_def)
  ultimately show ?thesis by (auto simp: mapE_def)
qed

section \<open>The properties\<close>

text \<open>Property C16. Through any sequence of batches, reverts and other changes to the study tables,
the revision of every row counts the amendments applied to it: the recorded amendments of the row
were made, in order, to its revisions 1, 2, 3 and so on, and its revision is the next one.\<close>

theorem revisions_count_amendments:
  assumes "untouched A" and "amendment_step\<^sup>*\<^sup>* A A'"
  shows "1 \<le> ad_revision A' k n \<and>
    map am_predecessor_revision (history A' k n) = [1..ad_revision A' k n - 1]"
  using runs_counted [OF assms(2,1)] by (simp add: revisions_counted_def)

theorem revisions_count_amendments_witness:
  "untouched audited_db \<and> amendment_step\<^sup>*\<^sup>* audited_db first_db \<and>
   map am_predecessor_revision (history first_db Kind_Observation 1) = [1]"
proof -
  have "untouched audited_db" by (simp add: untouched_def audited_db_def)
  moreover have run: "amendment_step\<^sup>*\<^sup>* audited_db first_db"
    using Batch_Applied [OF first_applied] by (rule r_into_rtranclp)
  ultimately show ?thesis
    using revisions_count_amendments [of audited_db first_db Kind_Observation 1] first_frames(2) by simp
qed

text \<open>Property C17. Two batches for the same revision of a row cannot both be applied: once a
batch with a new proposal for the row was applied, a later batch with a new proposal that expects
the same or an earlier revision of that row is refused and changes nothing.\<close>

theorem second_batch_is_stale:
  assumes "apply_batch E b A = (Inr counts, A')"
    and "p \<in> set (ab_proposals b)" and "recorded_amendment A p = None" and "moves p k n"
    and "q \<in> set (ab_proposals b')" and "recorded_amendment A' q = None" and "moves q k n"
    and "pr_expected_revision q \<le> pr_expected_revision p"
  shows "\<exists>e. apply_batch E b' A' = (Inl e, A')"
  by (rule stale_batch [OF assms])

theorem second_batch_is_stale_witness:
  "\<exists>b' e. b' = sample_batch ''b'' [sample_proposal ''b'' ''q'' []] \<and>
     apply_batch audit_sample_env first_run audited_db = (Inr (1, 0), first_db) \<and>
     apply_batch audit_sample_env b' first_db = (Inl e, first_db)"
proof -
  let ?p = "sample_proposal ''a'' ''p'' []" and ?q = "sample_proposal ''b'' ''q'' []"
  have "recorded_amendment audited_db ?p = None" "recorded_amendment first_db ?q = None"
    by (simp_all add: recorded_amendment_def audited_db_def first_frames first_proposal lit_eq_iff)
  with second_batch_is_stale [OF first_applied, where p = ?p and b' = "sample_batch ''b'' [?q]" and q = ?q
      and k = Kind_Observation and n = 1] sample_moves
  show ?thesis using first_applied by (auto simp: first_run_def sample_batch_def first_proposal)
qed



text \<open>Property C29. The check of the dependencies of a batch with distinct proposals accepts it
exactly when no proposal depends on itself, directly or through others, in whatever order the
proposals are visited.\<close>

theorem dependency_cycles_refused:
  assumes "distinct (map pr_proposal_id (ab_proposals b))"
    and "pr_proposal_id ` set (ab_proposals b) \<subseteq> set order"
  shows "ensure_acyclic order b = Inr () \<longleftrightarrow> acyclic (depends b)"
  by (rule ensure_acyclic_iff [OF assms])

theorem dependency_cycles_refused_witness:
  "\<exists>b. b = sample_batch ''a'' [sample_proposal ''a'' ''p'' [''q''], sample_proposal ''a'' ''q'' [''a:p'']] \<and>
     ensure_acyclic [lit ''q'', lit ''p''] b \<noteq> Inr () \<and> \<not> acyclic (depends b)"
proof -
  let ?b = "sample_batch ''a'' [sample_proposal ''a'' ''p'' [''q''], sample_proposal ''a'' ''q'' [''a:p'']]"
  have graph: "batch_graph ?b = [(lit ''p'', [lit ''q'']), (lit ''q'', [lit ''p''])]"
    by (simp add: batch_graph_def sample_batch_def first_proposal stripped_def Let_def starts_with_def)
      (simp add: lit_def)
  have "ensure_acyclic [lit ''q'', lit ''p''] ?b \<noteq> Inr ()"
    by (simp add: ensure_acyclic_def graph dependencies_in_def mapE_def lit_eq_iff)
  with dependency_cycles_refused [of ?b "[lit ''q'', lit ''p'']"] show ?thesis
    by (simp add: sample_batch_def first_proposal lit_eq_iff)
qed

text \<open>Property C9. Reverting a batch right after it was applied restores the data: when the old
values of the proposals are the rows they amend and the JSON texts read back, an accepted revert
leaves the study tables, the effective statuses, the links of the sessions and the summaries as
they were before the batch. Recovered findings and summaries are excepted, and the outcome of an
item that had none.\<close>

theorem revert_restores_data:
  assumes "apply_batch E b A = (Inr counts, A1)"
    and "\<forall>p\<in>set (ab_proposals b). restorable (pr_operation p) \<and>
      entity_value A (pr_entity_type p) (pr_entity_id p) = Inr (pr_before p) \<and>
      original_read p (pr_before p) \<and> ax_parse E' (ax_text E (pr_before p)) = Some (pr_before p)"
    and "new_run A (ab_audit_run_id b)" and "new_run A (revert_id E' (ab_audit_run_id b))"
    and "rows_distinct A" and "distinct (map wk_key (db_targets A))"
    and "revert_batch E' (ab_audit_run_id b) h A1 = (Inr (r, n), A2)"
  shows "ad_study A2 = ad_study A \<and> ad_status A2 = ad_status A \<and> ad_links A2 = ad_links A \<and>
    ad_summaries A2 = ad_summaries A \<and> n = length (ab_proposals b)"
  using revert_undoes [OF assms] bare_fields [of A2 A] by blast

theorem revert_restores_data_witness:
  "\<exists>A2. apply_batch audit_sample_env first_run audited_db = (Inr (1, 0), first_db) \<and>
     ad_status first_db Kind_Observation 1 = lit ''retracted'' \<and>
     revert_batch audit_sample_env (lit ''a'') sample_hash first_db =
       (Inr (revert_id audit_sample_env (lit ''a''), 1), A2) \<and>
     ad_study A2 = audited_store \<and> ad_status A2 Kind_Observation 1 = lit ''active''"
proof -
  obtain A2 where A2: "revert_batch audit_sample_env (lit ''a'') sample_hash first_db =
      (Inr (revert_id audit_sample_env (lit ''a''), 1), A2)"
    using undo_applied by blast
  have run: "ab_audit_run_id first_run = lit ''a''" "ab_proposals first_run = [sample_proposal ''a'' ''p'' []]"
    by (simp_all add: first_run_def sample_batch_def)
  have study: "ad_study audited_db = audited_store" by (simp add: audited_db_def)
  have fresh: "new_run audited_db r" for r by (simp add: new_run_def audited_db_def)
  have old: "entity_value audited_db (lit ''observation'') (lit ''1'') = Inr sample_value"
    using sample_entity [OF study] by (simp add: sample_value_def)
  have "restorable Retract_Observation" "original_read (sample_proposal ''a'' ''p'' []) sample_value"
    "ax_parse audit_sample_env (ax_text audit_sample_env sample_value) = Some sample_value"
    "rows_distinct audited_db" "distinct (map wk_key (db_targets audited_db))"
    by (simp_all add: restorable_def original_read_def first_proposal audit_sample_env_def rows_distinct_def
        db_targets_def study audited_store_def sample_study_store_def sample_learning_def)
  with revert_restores_data [OF first_applied, of audit_sample_env sample_hash
      "revert_id audit_sample_env (lit ''a'')" 1 A2] A2 old fresh
  have "ad_study A2 = ad_study audited_db \<and> ad_status A2 = ad_status audited_db"
    by (simp add: run first_proposal)
  then show ?thesis using first_applied first_frames(3) A2 by (simp add: audited_db_def)
qed

text \<open>Property C34. A batch that added a recovered finding, or marked a finding as a duplicate,
can never be reverted: the compensating proposals ask for operations that the checks refuse for
these rows, so the whole revert fails and changes nothing.\<close>

theorem batch_not_revertible:
  assumes "m \<in> set (applied_amendments A batch_id)"
    and "am_operation m = Add_Recovered_Finding \<and> am_entity_type m = lit ''session'' \<or>
      am_operation m = Mark_Duplicate \<and> am_entity_type m = lit ''finding''"
  shows "\<exists>e. revert_batch E batch_id snapshot_hash A = (Inl e, A)"
  by (rule irreversible [OF assms])

theorem batch_not_revertible_witness:
  "\<exists>A m e. A = audited_db\<lparr>ad_amendments := [m]\<rparr> \<and> applied_amendments A (lit ''a'') = [m] \<and>
     am_operation m = Mark_Duplicate \<and> am_entity_type m = lit ''finding'' \<and>
     revert_batch audit_sample_env (lit ''a'') sample_hash A = (Inl e, A)"
proof -
  let ?p = "(sample_proposal ''a'' ''p'' [])\<lparr>pr_operation := Mark_Duplicate, pr_entity_type := lit ''finding''\<rparr>"
  let ?m = "amendment_of audit_sample_env ?p" and ?A = "audited_db\<lparr>ad_amendments := [amendment_of audit_sample_env ?p]\<rparr>"
  have m: "applied_amendments ?A (lit ''a'') = [?m]" "am_operation ?m = Mark_Duplicate" "am_entity_type ?m = lit ''finding''"
    by (simp_all add: applied_amendments_def first_proposal) (simp add: amendment_of_def)
  with batch_not_revertible [of ?m ?A "lit ''a''" audit_sample_env sample_hash] show ?thesis by auto
qed

end
