(* ===== verification/Spec2Isabelle.thy ===== *)
theory Spec2Isabelle
  imports ReviewPolicy ActivityRecording PreferenceUpdates Expansion JobRuns OAuthRuns TargetUpdates HandoffRuns QueueRuns BriefRuns AuditRuns
begin

text \<open>
  A verification development for the learning service in \<open>src/\<close> (Rust): a tutor records
  practice sessions over MCP, the service checks them, decides which reviews count for spaced
  repetition, and a recording service accepts audio and runs analysis jobs under a monthly
  spending cap.

  \<^bold>\<open>Theories.\<close>

  \<^item> \<open>Prelude\<close>: texts as lists of code points with the Unicode operations the code uses; the
    result type \<open>'e + 'a\<close> with \<open>bindE\<close> (the \<open>?\<close> operator), \<open>seqE\<close> (checks in order, the first
    error wins), \<open>forE\<close>, \<open>foldE\<close>, \<open>collectE\<close> (loops that return early) and the collection
    \<open>ok_simps\<close> that turns ``the result is \<open>Inr\<close>'' into a proposition; the locales
    \<open>unique_loop\<close>, \<open>unique_check\<close> and \<open>numbered_check\<close> for the loops that insert a number into a
    set and refuse repetitions. Every numbering check of the code is an interpretation of one of them.
  \<^item> \<open>Enums\<close>, \<open>Model\<close>: \<open>src/model.rs\<close> and the types of \<open>src/production.rs\<close>; \<open>Samples\<close>:
    concrete requests at which the properties are applied.
  \<^item> \<open>Evidence\<close>: \<open>src/evidence.rs\<close>.
  \<^item> \<open>Activities\<close>, \<open>ActivityRecording\<close>: \<open>src/activities.rs\<close>, the catalogue and the recording
    check with its declarative counterpart \<open>activity_recording_wf\<close>.
  \<^item> \<open>Preferences\<close>, \<open>PreferenceUpdates\<close>: the preferences of \<open>src/production.rs\<close> and the
    interleavings of their optimistic updates (\<open>update_step\<close>).
  \<^item> \<open>Production\<close>, \<open>ReviewPolicy\<close>: the production evidence of \<open>src/production.rs\<close>, the review
    decision with the written rule \<open>review_eligible\<close> it implements, plan validation, audit.
  \<^item> \<open>Tutoring\<close>, \<open>TutoringNumbers\<close>, \<open>TutoringCorrect\<close>, \<open>Expansion\<close>: \<open>src/tutoring.rs\<close>, the
    expansion of a compact request in three passes, flattened to one loop over the positions
    of the attempts, and what its result satisfies.
  \<^item> \<open>PracticeApi\<close>, \<open>JobStore\<close>: \<open>src/practice/mod.rs\<close>, the request checks and the tables with
    one function per method; \<open>JobSafety\<close>, \<open>JobWorld\<close>: the invariant of jobs and reservations
    and the runs of the service with one worker (\<open>world_step\<close>); \<open>Idempotence\<close>: the interface
    of a create operation under an idempotency key, interpreted on uploads and jobs in
    \<open>JobRuns\<close>, which also holds the runs that break the cap.

  \<^item> \<open>Config\<close>, \<open>OAuth\<close>, \<open>Authenticator\<close>: \<open>src/config.rs\<close>, \<open>src/embedded_oauth.rs\<close>,
    \<open>src/auth.rs\<close>; \<open>OAuthRuns\<close>: the runs of the authorization server (\<open>oauth_step\<close>), the link
    from an issued token to the middleware, the guard on public bind addresses. Password hashes,
    digests, signatures, random codes and the JWT library are parameters.
  \<^item> \<open>RecursiveQuery\<close>: recursive SQL queries as a terminating worklist, equal to the reflexive
    transitive image. \<open>Taxonomy\<close>: \<open>src/taxonomy.rs\<close> and the concept functions of \<open>src/db.rs\<close>;
    \<open>TaxonomyInvariant\<close>, \<open>TaxonomyUpdates\<close>: what \<open>upsert_concept\<close> keeps and stores, the
    bounded descent. \<open>Targets\<close>, \<open>TargetUpdates\<close>: \<open>upsert_weakness\<close> of \<open>src/db.rs\<close>, its
    invariant and when an activated target enters the queue.
  \<^item> \<open>Handoff\<close>: \<open>src/workflow.rs\<close> and the reader \<open>session_evidence\<close> of \<open>src/curriculum.rs\<close>;
    \<open>HandoffRuns\<close>: its runs (\<open>handoff_step\<close>), with arbitrary changes of the recorded sessions in
    between, and the assessment that decides a task gap.
  \<^item> Recording a session (\<open>record_practice\<close> of \<open>src/db.rs\<close>). \<open>RecordRequest\<close>: the checks on
    the request alone, \<open>RecordRequestCorrect\<close>: the declarative rules they decide. \<open>Scheduling\<close>:
    \<open>src/fsrs_adapter.rs\<close> and the learning days. \<open>RecordTables\<close>, \<open>Recording\<close>,
    \<open>RecordPractice\<close>: the tables, one function per insertion, the evidence of a review, its
    effect on the scheduler and the transaction. \<open>RecordFrames\<close>, \<open>RecordingCorrect\<close>: what each
    insertion leaves alone and the invariant \<open>study_wf\<close> (row ids, ledger, targets, every review
    grounded in an unaided cold retrieval of its own session, the memory of an item equal to its
    last review). \<open>RecordingRuns\<close>: sequences of recordings, the ledger as an interpretation of
    \<open>idempotent_create\<close>, what moves the scheduler, and a concrete recorded session.
  \<^item> Choosing what to practise (\<open>src/db.rs\<close>). \<open>Ordering\<close>: comparators and stable sorting, with
    the locale \<open>comparison\<close> for what a sort expects of a comparator. \<open>Queue\<close>: \<open>load_weaknesses\<close>,
    its order and \<open>review_queue\<close>; \<open>QueueCorrect\<close>: the queue as a prefix of the sorted targets;
    \<open>QueueRuns\<close>: recording a session and then reading the queue. \<open>Recommendations\<close>, \<open>Briefs\<close>:
    the drills that suit a target and \<open>practice_brief\<close>; \<open>BriefsCorrect\<close>: the items are dealt
    evenly, the round robin covers every share, drills stay within what the request and the
    preferences allow; \<open>BriefRuns\<close>: the properties, with briefs from a small store.
  \<^item> Amending recorded data (\<open>src/audit.rs\<close>). \<open>DependencyOrder\<close>: the depth-first search
    \<open>visit\<close>, which terminates on every graph because marks only grow, and what it decides.
    \<open>AuditRows\<close>, \<open>Amendments\<close>: the amended columns beside the tables of \<open>RecordTables\<close>, rows as JSON
    values, updates guarded by the revision, and the checks, application, preview and revert of a
    batch. \<open>AuditCorrect\<close>: revisions count amendments, applied batches are skipped, stale ones
    refused. \<open>AuditRevert\<close>: the locale \<open>cells\<close> (a getter and a setter per entity, writes undone by
    writing the old values back), interpreted on the amended columns, and each operation as the
    write of one cell; \<open>AuditRestore\<close>: a reverted batch restores the data. \<open>AuditRuns\<close>: the
    properties, over sequences of batches, reverts and other changes (\<open>amendment_step\<close>).

  \<^bold>\<open>Representation.\<close> A struct is a record, an enum a datatype, \<open>u16\<close> counters are \<open>nat\<close> with
  the checked additions written out, a JSON object that the code merges is the record it
  comes from, a table is the list of its rows in insertion order. Error messages are kept
  up to the interpolated parts. A transaction that returns early leaves the state as it was. The
  calendar (\<open>time_lib\<close>), the fsrs crate (\<open>fsrs_lib\<close>) and the digests (\<open>record_env\<close>) are
  parameters, and \<open>f32\<close> values are rationals rounded by a parameter. Times are numbers, dollar amounts rationals. Loops are
  structural recursions over the input lists, and searches of graphs terminate by a measure: no
  definition takes fuel. Entities of the audit keep their revision and effective status in
  functions from row ids, with the defaults of the schema for rows that do not exist yet.

  \<^bold>\<open>Not modelled.\<close> The reads of \<open>src/db.rs\<close>, the reports, the export to files and
  the fixed repair batch of \<open>src/audit.rs\<close>, the HTTP handlers and the worker loop, audio analysis: reads and
  glue around the modelled operations, or signal processing on floating point numbers. Schema
  migrations, transport and telemetry: text and wiring without logic of their own.
\<close>

end
